(* ===== verification/Prelude.thy ===== *)
theory Prelude
  imports Main
begin

text \<open>
  Shared vocabulary of the development: calendar days and instants, the JavaScript string
  helpers the code uses, statements over SQL tables (a table is a list of rows), runs of
  operations that may fail and roll back, and the generic lemmas the components share.

  An instant (a JavaScript \<open>Date\<close>) is its number of milliseconds since the epoch. A calendar
  day, which the code writes as an ISO text \<open>YYYY-MM-DD\<close>, is its number of days since the
  epoch: for the four-digit years the code handles, the lexicographic order of the texts is the
  order of the day numbers. The process time zone is UTC.
\<close>

type_synonym day = int
type_synonym ms = int

named_theorems row_simps
named_theorems preserve

section \<open>Days and instants\<close>

definition toISODate :: "ms \<Rightarrow> day" where
  "toISODate t = t div 86400000"

definition parseDateOnly :: "day \<Rightarrow> ms" where
  "parseDateOnly d = d * 86400000"

lemma toISODate_parseDateOnly [simp]: "toISODate (parseDateOnly d) = d"
  by (simp add: toISODate_def parseDateOnly_def)

lemma toISODate_add_day [simp]: "toISODate (t + 86400000) = toISODate t + 1"
  by (simp add: toISODate_def)

lemma toISODate_mono: "s \<le> t \<Longrightarrow> toISODate s \<le> toISODate t"
  by (simp add: toISODate_def zdiv_mono1)

lemma parseDateOnly_less_iff [simp]: "parseDateOnly a < parseDateOnly b \<longleftrightarrow> a < b"
  by (simp add: parseDateOnly_def)

lemma parseDateOnly_le_iff [simp]: "parseDateOnly a \<le> parseDateOnly b \<longleftrightarrow> a \<le> b"
  by (simp add: parseDateOnly_def)

text \<open>The cursor loop that every range enumeration of the code runs.\<close>

function enumerateDates :: "ms \<Rightarrow> ms \<Rightarrow> day list" where
  "enumerateDates cursor end =
     (if cursor < end then toISODate cursor # enumerateDates (cursor + 86400000) end else [])"
  by pat_completeness auto
termination
  by (relation "measure (\<lambda>(cursor, end). nat (end - cursor))") auto

declare enumerateDates.simps [simp del]

lemma enumerateDates_days:
  "enumerateDates (parseDateOnly a) (parseDateOnly b) = [a..b - 1]"
proof (induction "nat (b - a)" arbitrary: a)
  case 0
  then show ?case by (simp add: enumerateDates.simps)
next
  case (Suc n)
  then have "a < b" and "n = nat (b - (a + 1))" by auto
  moreover have "parseDateOnly a + 86400000 = parseDateOnly (a + 1)"
    by (simp add: parseDateOnly_def)
  ultimately show ?case
    using Suc(1)[of "a + 1"]
    by (subst enumerateDates.simps) (simp add: upto_rec1)
qed

text \<open>The same loop with its bound on the ISO day of the cursor.\<close>

function isoCursorDates :: "ms \<Rightarrow> day \<Rightarrow> day list" where
  "isoCursorDates cursor end =
     (if toISODate cursor < end then toISODate cursor # isoCursorDates (cursor + 86400000) end
      else [])"
  by pat_completeness auto
termination
  by (relation "measure (\<lambda>(cursor, end). nat (end - toISODate cursor))") auto

declare isoCursorDates.simps [simp del]

lemma isoCursorDates_eq: "isoCursorDates cursor end = [toISODate cursor..end - 1]"
proof (induction cursor "end" rule: isoCursorDates.induct)
  case (1 cursor "end")
  then show ?case
    by (subst isoCursorDates.simps) (simp add: upto_rec1 [of "toISODate cursor"])
qed

section \<open>JavaScript text\<close>

definition js_space :: "char \<Rightarrow> bool" where
  "js_space c \<longleftrightarrow> c \<in> set [CHR '' '', CHR 0x09, CHR 0x0A, CHR 0x0B, CHR 0x0C, CHR 0x0D]"

definition js_trim :: "string \<Rightarrow> string" where
  "js_trim s = rev (dropWhile js_space (rev (dropWhile js_space s)))"

fun str_includes :: "string \<Rightarrow> string \<Rightarrow> bool" where
  "str_includes [] needle = (needle = [])"
| "str_includes (c # cs) needle =
     (take (length needle) (c # cs) = needle \<or> str_includes cs needle)"

definition starts_with :: "string \<Rightarrow> string \<Rightarrow> bool" where
  "starts_with s p \<longleftrightarrow> take (length p) s = p"

text \<open>\<open>String(x ?? "")\<close> of a nullable column.\<close>

definition text_or_empty :: "string option \<Rightarrow> string" where
  "text_or_empty s = (case s of None \<Rightarrow> [] | Some t \<Rightarrow> t)"

lemma text_or_empty_simps [simp]:
  "text_or_empty None = []" "text_or_empty (Some t) = t"
  by (simp_all add: text_or_empty_def)

section \<open>Statements over tables\<close>

definition update_rows :: "('r \<Rightarrow> bool) \<Rightarrow> ('r \<Rightarrow> 'r) \<Rightarrow> 'r list \<Rightarrow> 'r list" where
  "update_rows P f rs = map (\<lambda>r. if P r then f r else r) rs"

definition delete_rows :: "('r \<Rightarrow> bool) \<Rightarrow> 'r list \<Rightarrow> 'r list" where
  "delete_rows P rs = filter (\<lambda>r. \<not> P r) rs"

definition total_where :: "('r \<Rightarrow> bool) \<Rightarrow> ('r \<Rightarrow> int) \<Rightarrow> 'r list \<Rightarrow> int" where
  "total_where P f rs = sum_list (map f (filter P rs))"

lemma total_where_Nil [simp]: "total_where P f [] = 0"
  by (simp add: total_where_def)

lemma total_where_Cons [simp]:
  "total_where P f (r # rs) = (if P r then f r else 0) + total_where P f rs"
  by (simp add: total_where_def)

lemma total_where_append [simp]:
  "total_where P f (rs @ ss) = total_where P f rs + total_where P f ss"
  by (simp add: total_where_def)

lemma total_where_nonneg:
  "(\<And>r. r \<in> set rs \<Longrightarrow> P r \<Longrightarrow> 0 \<le> f r) \<Longrightarrow> 0 \<le> total_where P f rs"
  by (induction rs) auto

lemma total_where_cong:
  "(\<And>r. r \<in> set rs \<Longrightarrow> P r = Q r) \<Longrightarrow> (\<And>r. r \<in> set rs \<Longrightarrow> P r \<Longrightarrow> f r = g r)
    \<Longrightarrow> total_where P f rs = total_where Q g rs"
  by (induction rs) auto

lemma total_where_mono:
  "(\<And>r. r \<in> set rs \<Longrightarrow> 0 \<le> f r) \<Longrightarrow> (\<And>r. r \<in> set rs \<Longrightarrow> P r \<Longrightarrow> Q r)
    \<Longrightarrow> total_where P f rs \<le> total_where Q f rs"
proof (induction rs)
  case Nil
  then show ?case by simp
next
  case (Cons a rs)
  then have "total_where P f rs \<le> total_where Q f rs" and "0 \<le> f a" by auto
  then show ?case using Cons.prems(2)[of a] by auto
qed

lemma total_where_split:
  "total_where P f rs =
     total_where (\<lambda>r. P r \<and> Q r) f rs + total_where (\<lambda>r. P r \<and> \<not> Q r) f rs"
  by (induction rs) auto

lemma total_where_update:
  "(\<And>r. r \<in> set rs \<Longrightarrow> Q r \<Longrightarrow> P (g r) = P r \<and> f (g r) = f r)
    \<Longrightarrow> total_where P f (update_rows Q g rs) = total_where P f rs"
  by (induction rs) (auto simp: update_rows_def)

lemma total_where_delete:
  "total_where P f (delete_rows Q rs) = total_where (\<lambda>r. P r \<and> \<not> Q r) f rs"
  by (induction rs) (auto simp: delete_rows_def)

lemma total_where_False [simp]: "total_where (\<lambda>r. False) f rs = 0"
  by (simp add: total_where_def)

lemma set_delete_rows [simp]: "set (delete_rows P rs) = {r \<in> set rs. \<not> P r}"
  by (simp add: delete_rows_def)

lemma length_update_rows [simp]: "length (update_rows P f rs) = length rs"
  by (simp add: update_rows_def)

lemma update_rows_key [simp]:
  "(\<And>r. P r \<Longrightarrow> key (f r) = key r) \<Longrightarrow> map key (update_rows P f rs) = map key rs"
  by (simp add: update_rows_def)

lemma find_append:
  "List.find P (xs @ ys) = (case List.find P xs of None \<Rightarrow> List.find P ys | Some x \<Rightarrow> Some x)"
  by (induction xs) auto

lemma set_update_rows: "set (update_rows P f rs) = (\<lambda>r. if P r then f r else r) ` set rs"
  by (simp add: update_rows_def)

lemma find_update_other:
  "(\<And>r. P r \<Longrightarrow> \<not> Q r \<and> \<not> Q (f r)) \<Longrightarrow> List.find Q (update_rows P f rs) = List.find Q rs"
  by (induction rs) (auto simp: update_rows_def)

text \<open>Updating rows in place, where a lookup by the same predicate finds the first one.\<close>

lemma find_update_same:
  "(\<And>r. Q (f r) = Q r) \<Longrightarrow> (\<And>r. P r \<Longrightarrow> Q r)
    \<Longrightarrow> List.find Q (update_rows P f rs) =
       map_option (\<lambda>r. if P r then f r else r) (List.find Q rs)"
  by (induction rs) (auto simp: update_rows_def)

lemma find_update_key:
  "(\<And>r. P r \<Longrightarrow> key (f r) = key r)
    \<Longrightarrow> List.find (\<lambda>r. key r = k) (update_rows P f rs) =
       map_option (\<lambda>r. if P r then f r else r) (List.find (\<lambda>r. key r = k) rs)"
  by (induction rs) (auto simp: update_rows_def)

lemma find_Some_mem: "List.find P rs = Some r \<Longrightarrow> r \<in> set rs \<and> P r"
  by (induction rs) (auto split: if_splits)

lemma find_None_all: "List.find P rs = None \<longleftrightarrow> (\<forall>r \<in> set rs. \<not> P r)"
  by (induction rs) auto

text \<open>With a unique key, a lookup by key finds the row itself.\<close>

lemma find_unique:
  "distinct (map key rs) \<Longrightarrow> r \<in> set rs \<Longrightarrow> List.find (\<lambda>x. key x = key r) rs = Some r"
  by (induction rs) (auto simp: image_iff)

lemma filter_unique_length:
  "distinct (map key rs) \<Longrightarrow> r \<in> set rs \<Longrightarrow> P r \<Longrightarrow> \<forall>x. P x \<longrightarrow> key x = key r
    \<Longrightarrow> length (filter P rs) = 1"
proof (induction rs)
  case Nil
  then show ?case by simp
next
  case (Cons x rs)
  show ?case
  proof (cases "x = r")
    case True
    have "\<not> P y" if "y \<in> set rs" for y
    proof
      assume "P y"
      then have "key y = key r" using Cons.prems(4) by blast
      then show False using Cons.prems(1) that True by (metis distinct.simps(2) imageI list.simps(9) list.set_map)
    qed
    then have "filter P rs = []" by (simp add: filter_empty_conv)
    then show ?thesis using True Cons.prems(3) by simp
  next
    case False
    then have mem: "r \<in> set rs" using Cons.prems(2) by simp
    then have "key x \<noteq> key r"
      using Cons.prems(1) by (metis distinct.simps(2) imageI list.simps(9) list.set_map)
    then have "\<not> P x" using Cons.prems(4) by blast
    moreover have "distinct (map key rs)" using Cons.prems(1) by simp
    then have "length (filter P rs) = 1"
      by (rule Cons.IH [OF _ mem Cons.prems(3,4)])
    ultimately show ?thesis by simp
  qed
qed

section \<open>Operations that may fail\<close>

text \<open>
  A step returns \<open>Inl\<close> of an error or \<open>Inr\<close> of the next state. A run applies steps in order; a
  step that fails rolls back, so the state stays as it was.
\<close>

fun run_ops :: "('op \<Rightarrow> 's \<Rightarrow> 'e + 's) \<Rightarrow> 'op list \<Rightarrow> 's \<Rightarrow> 's" where
  "run_ops step [] s = s"
| "run_ops step (x # xs) s =
     run_ops step xs (case step x s of Inl _ \<Rightarrow> s | Inr s' \<Rightarrow> s')"

text \<open>
  The interface of a guarded machine: an operation that succeeds keeps the invariant. Its
  client lemma says that every run, with whatever failures on the way, keeps it.
\<close>

locale guarded_machine =
  fixes step :: "'op \<Rightarrow> 's \<Rightarrow> 'e + 's"
    and inv :: "'s \<Rightarrow> bool"
  assumes step_keeps: "inv s \<Longrightarrow> step x s = Inr s' \<Longrightarrow> inv s'"
begin

lemma run_keeps: "inv s \<Longrightarrow> inv (run_ops step xs s)"
  by (induction xs arbitrary: s) (auto split: sum.split dest: step_keeps)

lemma run_append: "run_ops step (xs @ ys) s = run_ops step ys (run_ops step xs s)"
  by (induction xs arbitrary: s) auto

end

end
