(* ===== verification/Js_Values.thy ===== *)
theory Js_Values
  imports Prelude Complex_Main "HOL-Library.Multiset"
begin

text \<open>
  JavaScript numbers, sorting and keyed collections, as the code uses them. A number is an exact
  rational; the rounding of IEEE doubles to 53 bits is not modelled. \<open>toFixed(2)\<close> is the number
  of cents nearest to the value, halves away from zero, and \<open>Math.round\<close> takes halves up.
  \<open>Array.prototype.sort\<close> is stable.
\<close>

section \<open>Numbers\<close>

definition js_isInteger :: "rat \<Rightarrow> bool" where
  "js_isInteger x \<longleftrightarrow> of_int \<lfloor>x\<rfloor> = x"

definition js_round :: "rat \<Rightarrow> rat" where
  "js_round x = of_int \<lfloor>x + 1 / 2\<rfloor>"

definition js_trunc :: "rat \<Rightarrow> rat" where
  "js_trunc x = (if x < 0 then of_int \<lceil>x\<rceil> else of_int \<lfloor>x\<rfloor>)"

definition cents :: "rat \<Rightarrow> int" where
  "cents x = (if x < 0 then - \<lfloor>(- x) * 100 + 1 / 2\<rfloor> else \<lfloor>x * 100 + 1 / 2\<rfloor>)"

definition toFixed2 :: "rat \<Rightarrow> rat" where
  "toFixed2 x = of_int (cents x) / 100"

lemma floor_of_int_half [simp]: "\<lfloor>(of_int n :: rat) + 1 / 2\<rfloor> = n"
  by linarith

lemma js_round_int [simp]: "js_round (of_int n) = of_int n"
  unfolding js_round_def by (simp only: floor_of_int_half)

lemma js_round_idem [simp]: "js_round (js_round x) = js_round x"
  using js_round_int [of "\<lfloor>x + 1 / 2\<rfloor>"] by (simp only: js_round_def [of x])

lemma js_round_mono: "x \<le> y \<Longrightarrow> js_round x \<le> js_round y"
  unfolding js_round_def of_int_le_iff by (intro floor_mono) simp

lemma js_round_numeral [simp]: "js_round 0 = 0" "js_round 1 = 1"
  using js_round_int [of 0] js_round_int [of 1] by simp_all

lemma js_round_max: "js_round (max 0 (js_round x)) = max 0 (js_round x)"
  "js_round (max 1 (js_round x)) = max 1 (js_round x)"
  by (simp_all add: max_def)

lemma cents_of_cents [simp]: "cents (of_int n / 100) = n"
proof (cases "n < 0")
  case True
  then have "(of_int n / 100 :: rat) < 0" by simp
  moreover have "\<lfloor>(- (of_int n / 100 :: rat)) * 100 + 1 / 2\<rfloor> = - n" by linarith
  ultimately show ?thesis unfolding cents_def by simp
next
  case False
  then have "\<not> (of_int n / 100 :: rat) < 0" by simp
  moreover have "\<lfloor>(of_int n / 100 :: rat) * 100 + 1 / 2\<rfloor> = n" by linarith
  ultimately show ?thesis unfolding cents_def by simp
qed

lemma toFixed2_idem [simp]: "toFixed2 (toFixed2 x) = toFixed2 x"
  by (simp add: toFixed2_def)

lemma toFixed2_eq_iff: "toFixed2 x = toFixed2 y \<longleftrightarrow> cents x = cents y"
  by (simp add: toFixed2_def)

lemma toFixed2_error: "\<bar>toFixed2 x - x\<bar> \<le> 1 / 200"
proof -
  have "\<bar>(of_int (cents x) :: rat) - x * 100\<bar> \<le> 1 / 2"
  proof (cases "x < 0")
    case True
    then have "cents x = - \<lfloor>(- x) * 100 + 1 / 2\<rfloor>" by (simp add: cents_def)
    then show ?thesis by linarith
  next
    case False
    then have "cents x = \<lfloor>x * 100 + 1 / 2\<rfloor>" by (simp add: cents_def)
    then show ?thesis by linarith
  qed
  then show ?thesis by (simp add: toFixed2_def abs_le_iff field_simps)
qed

lemma toFixed2_nonneg: "0 \<le> x \<Longrightarrow> 0 \<le> toFixed2 x"
  by (simp add: toFixed2_def cents_def)

section \<open>Characters\<close>

definition char_code :: "char \<Rightarrow> nat" where
  "char_code c = of_char c"

text \<open>Case conversion on the ASCII letters.\<close>

definition js_upper_char :: "char \<Rightarrow> char" where
  "js_upper_char c =
     (if 97 \<le> char_code c \<and> char_code c \<le> 122 then char_of (char_code c - 32) else c)"

definition js_upper :: "string \<Rightarrow> string" where
  "js_upper s = map js_upper_char s"

definition js_lower_char :: "char \<Rightarrow> char" where
  "js_lower_char c = (let n = char_code c in if 65 \<le> n \<and> n \<le> 90 then char_of (n + 32) else c)"

definition js_lower :: "string \<Rightarrow> string" where
  "js_lower s = map js_lower_char s"

section \<open>Stable sorting by a comparator\<close>

fun js_insert :: "('a \<Rightarrow> 'a \<Rightarrow> int) \<Rightarrow> 'a \<Rightarrow> 'a list \<Rightarrow> 'a list" where
  "js_insert cmp x [] = [x]"
| "js_insert cmp x (y # ys) = (if cmp x y \<le> 0 then x # y # ys else y # js_insert cmp x ys)"

definition js_sort :: "('a \<Rightarrow> 'a \<Rightarrow> int) \<Rightarrow> 'a list \<Rightarrow> 'a list" where
  "js_sort cmp xs = foldr (js_insert cmp) xs []"

lemma js_sort_simps [simp]:
  "js_sort cmp [] = []"
  "js_sort cmp (x # xs) = js_insert cmp x (js_sort cmp xs)"
  by (simp_all add: js_sort_def)

lemma mset_js_insert [simp]: "mset (js_insert cmp x xs) = add_mset x (mset xs)"
  by (induction xs) auto

lemma mset_js_sort [simp]: "mset (js_sort cmp xs) = mset xs"
  by (induction xs) auto

lemma set_js_sort [simp]: "set (js_sort cmp xs) = set xs"
  using mset_js_sort [of cmp xs] by (metis set_mset_mset)

lemma length_js_sort [simp]: "length (js_sort cmp xs) = length xs"
  using mset_js_sort [of cmp xs] by (metis size_mset)

lemma js_sort_sorted: "sorted_wrt (\<lambda>a b. cmp a b \<le> 0) xs \<Longrightarrow> js_sort cmp xs = xs"
proof (induction xs)
  case Nil
  then show ?case by simp
next
  case (Cons x xs)
  then show ?case by (cases xs) auto
qed

text \<open>
  The contract a comparator passed to \<open>sort\<close> has to meet: a total preorder. Under it the result is
  ordered, sorting an ordered list changes nothing, and sorting twice is sorting once.
\<close>

locale comparator =
  fixes cmp :: "'a \<Rightarrow> 'a \<Rightarrow> int"
  assumes refl: "cmp x x \<le> 0"
    and trans: "cmp x y \<le> 0 \<Longrightarrow> cmp y z \<le> 0 \<Longrightarrow> cmp x z \<le> 0"
    and total: "cmp x y \<le> 0 \<or> cmp y x \<le> 0"
begin

lemma insert_ordered:
  "sorted_wrt (\<lambda>a b. cmp a b \<le> 0) xs \<Longrightarrow> sorted_wrt (\<lambda>a b. cmp a b \<le> 0) (js_insert cmp x xs)"
proof (induction xs)
  case Nil
  then show ?case by simp
next
  case (Cons y ys)
  show ?case
  proof (cases "cmp x y \<le> 0")
    case True
    then show ?thesis using Cons.prems trans by auto
  next
    case False
    then have "cmp y x \<le> 0" using total by blast
    moreover have "set (js_insert cmp x ys) = insert x (set ys)"
      using mset_js_insert [of cmp x ys] by (metis set_mset_add_mset_insert set_mset_mset)
    ultimately show ?thesis using Cons False by auto
  qed
qed

lemma sort_ordered: "sorted_wrt (\<lambda>a b. cmp a b \<le> 0) (js_sort cmp xs)"
  by (induction xs) (auto intro: insert_ordered)

lemma sort_idem: "js_sort cmp (js_sort cmp xs) = js_sort cmp xs"
  by (rule js_sort_sorted) (rule sort_ordered)

end

lemma js_insert_map:
  "(\<And>a b. cmp' (f a) (f b) = cmp a b) \<Longrightarrow> js_insert cmp' (f x) (map f xs) = map f (js_insert cmp x xs)"
  by (induction xs) auto

lemma js_sort_map:
  "(\<And>a b. cmp' (f a) (f b) = cmp a b) \<Longrightarrow> js_sort cmp' (map f xs) = map f (js_sort cmp xs)"
  by (induction xs) (auto simp: js_insert_map)

text \<open>The comparator \<open>(a, b) => key(a) - key(b)\<close> over a numeric key meets the contract.\<close>

definition by_key :: "('a \<Rightarrow> int) \<Rightarrow> 'a \<Rightarrow> 'a \<Rightarrow> int" where
  "by_key key a b = key a - key b"

interpretation by_key: comparator "by_key key" for key
  by unfold_locales (auto simp: by_key_def)

section \<open>Keyed collections in insertion order\<close>

text \<open>\<open>Map.set\<close>: an existing key keeps its place.\<close>

fun map_set :: "'k \<Rightarrow> 'v \<Rightarrow> ('k \<times> 'v) list \<Rightarrow> ('k \<times> 'v) list" where
  "map_set k v [] = [(k, v)]"
| "map_set k v ((k', v') # m) = (if k' = k then (k, v) # m else (k', v') # map_set k v m)"

definition map_delete :: "'k \<Rightarrow> ('k \<times> 'v) list \<Rightarrow> ('k \<times> 'v) list" where
  "map_delete k m = filter (\<lambda>(k', _). k' \<noteq> k) m"

lemma map_of_map_set [simp]: "map_of (map_set k v m) = (map_of m)(k \<mapsto> v)"
  by (induction m) auto

lemma keys_map_set: "set (map fst (map_set k v m)) = insert k (set (map fst m))"
proof (induction m)
  case Nil
  then show ?case by simp
next
  case (Cons a m)
  then show ?case by (cases a) (simp, blast)
qed

lemma distinct_map_set [simp]: "distinct (map fst m) \<Longrightarrow> distinct (map fst (map_set k v m))"
proof (induction m)
  case Nil
  then show ?case by simp
next
  case (Cons a m)
  have "set (map fst (map_set k v m)) = insert k (set (map fst m))" by (rule keys_map_set)
  with Cons show ?case by (cases a) (simp, metis insertE)
qed

lemma map_of_map_delete: "map_of (map_delete k m) = (map_of m)(k := None)"
  by (induction m) (auto simp: map_delete_def)

text \<open>\<open>[...new Set(xs)]\<close>: first occurrences, in order.\<close>

fun js_dedup :: "'a list \<Rightarrow> 'a list" where
  "js_dedup [] = []"
| "js_dedup (x # xs) = x # filter (\<lambda>y. y \<noteq> x) (js_dedup xs)"

lemma set_js_dedup [simp]: "set (js_dedup xs) = set xs"
  by (induction xs) auto

lemma distinct_js_dedup [simp]: "distinct (js_dedup xs)"
  by (induction xs) auto

lemma length_js_dedup: "length (js_dedup xs) = card (set xs)"
  by (metis distinct_card distinct_js_dedup set_js_dedup)

end
