(* ===== verification/Hold_Snapshot.thy ===== *)
theory Hold_Snapshot
  imports Js_Values
begin

text \<open>
  The price quote and the commercial snapshot bound to a hold
  (\<open>modules/pricing/domain/price-quote.ts\<close>,
  \<open>modules/inventory/application/hold-commercial-snapshot.ts\<close>): building a quote, its identity,
  and the validation of a persisted snapshot. The records carry the fields at the types the code
  tests for, so its \<open>typeof\<close> tests hold by typing; a number that has to be an integer is a
  rational, and the code's integer test is kept.

  The hash of the canonical JSON text of the commercial terms (\<open>createHash("sha256")\<close> over
  \<open>stableJson\<close>) is the parameter \<open>digest\<close>, and \<open>String.prototype.localeCompare\<close>, which orders
  the terms before hashing, is the parameter \<open>lc\<close>.
\<close>

record tax_line =
  tl_definitionId :: string
  tl_code :: string
  tl_name :: string
  tl_kind :: string
  tl_calculationType :: string
  tl_value :: rat
  tl_currency :: "string option"
  tl_inclusionType :: string
  tl_appliesPer :: string
  tl_priority :: rat
  tl_collectionResponsibility :: string
  tl_taxableBase :: string
  tl_amount :: rat
  tl_scope :: string
  tl_scopeId :: "string option"
  tl_definitionVersionId :: "string option"

record tax_breakdown =
  tb_base :: rat
  tb_total :: rat
  tb_taxes_included :: "tax_line list"
  tb_taxes_excluded :: "tax_line list"
  tb_fees_included :: "tax_line list"
  tb_fees_excluded :: "tax_line list"

record price_breakdown =
  pb_base :: rat
  pb_occupancyAdjustment :: rat
  pb_rules :: rat
  pb_final :: rat

record quote_context =
  qc_productId :: string
  qc_variantId :: string
  qc_ratePlanId :: string
  qc_checkIn :: day
  qc_checkOut :: day
  qc_rooms :: rat
  qc_adults :: rat
  qc_children :: rat
  qc_infants :: rat
  qc_channel :: string

record price_quote =
  pq_version :: string
  pq_quoteId :: string
  pq_issuedAt :: string
  pq_source :: string
  pq_context :: quote_context
  pq_currency :: string
  pq_nights :: rat
  pq_baseAmount :: rat
  pq_taxesAndFees :: tax_breakdown
  pq_totalAmount :: rat
  pq_days :: "(day \<times> rat) list"
  pq_breakdownV2 :: "price_breakdown option"
  pq_pricingSource :: string

definition PRICE_QUOTE_VERSION :: string where
  "PRICE_QUOTE_VERSION = ''price_quote_v1''"

section \<open>Building a quote\<close>

definition normalizeLine :: "tax_line \<Rightarrow> tax_line" where
  "normalizeLine l = l\<lparr>tl_value := toFixed2 (tl_value l),
     tl_currency := map_option js_upper (tl_currency l),
     tl_amount := toFixed2 (tl_amount l)\<rparr>"

definition sortLines :: "(string \<Rightarrow> string \<Rightarrow> int) \<Rightarrow> tax_line \<Rightarrow> tax_line \<Rightarrow> int" where
  "sortLines lc a b =
     lc (tl_code a @ '':'' @ tl_definitionId a) (tl_code b @ '':'' @ tl_definitionId b)"

record commercial_payload =
  cp_version :: string
  cp_identityVersion :: string
  cp_context :: quote_context
  cp_currency :: string
  cp_nights :: rat
  cp_baseAmount :: rat
  cp_totalAmount :: rat
  cp_days :: "(day \<times> rat) list"
  cp_taxesAndFees :: tax_breakdown

definition commercialQuotePayload ::
  "(string \<Rightarrow> string \<Rightarrow> int) \<Rightarrow> price_quote \<Rightarrow> commercial_payload" where
  "commercialQuotePayload lc q = (let t = pq_taxesAndFees q in
     \<lparr>cp_version = pq_version q,
      cp_identityVersion = ''commercial_terms_v1'',
      cp_context = pq_context q,
      cp_currency = pq_currency q,
      cp_nights = pq_nights q,
      cp_baseAmount = pq_baseAmount q,
      cp_totalAmount = pq_totalAmount q,
      cp_days = js_sort (by_key fst) (map (\<lambda>(d, p). (d, toFixed2 p)) (pq_days q)),
      cp_taxesAndFees = \<lparr>tb_base = toFixed2 (tb_base t), tb_total = toFixed2 (tb_total t),
        tb_taxes_included = js_sort (sortLines lc) (map normalizeLine (tb_taxes_included t)),
        tb_taxes_excluded = js_sort (sortLines lc) (map normalizeLine (tb_taxes_excluded t)),
        tb_fees_included = js_sort (sortLines lc) (map normalizeLine (tb_fees_included t)),
        tb_fees_excluded = js_sort (sortLines lc) (map normalizeLine (tb_fees_excluded t))\<rparr>\<rparr>)"

definition buildPriceQuote ::
  "(string \<Rightarrow> string \<Rightarrow> int) \<Rightarrow> (commercial_payload \<Rightarrow> string) \<Rightarrow> price_quote \<Rightarrow> price_quote" where
  "buildPriceQuote lc digest input =
     (let ctx = pq_context input;
          q = input\<lparr>
            pq_version := PRICE_QUOTE_VERSION,
            pq_context := ctx\<lparr>
              qc_rooms := max 1 (js_round (qc_rooms ctx)),
              qc_adults := max 1 (js_round (qc_adults ctx)),
              qc_children := max 0 (js_round (qc_children ctx)),
              qc_infants := max 0 (js_round (qc_infants ctx))\<rparr>,
            pq_currency := js_upper (pq_currency input),
            pq_nights := max 1 (js_round (pq_nights input)),
            pq_baseAmount := toFixed2 (pq_baseAmount input),
            pq_totalAmount := toFixed2 (tb_total (pq_taxesAndFees input)),
            pq_days := map (\<lambda>(d, p). (d, toFixed2 p)) (pq_days input),
            pq_breakdownV2 := map_option (\<lambda>b.
              \<lparr>pb_base = toFixed2 (pb_base b),
               pb_occupancyAdjustment = toFixed2 (pb_occupancyAdjustment b),
               pb_rules = toFixed2 (pb_rules b),
               pb_final = toFixed2 (pb_final b)\<rparr>) (pq_breakdownV2 input)\<rparr>
      in q\<lparr>pq_quoteId := ''pq_'' @ digest (commercialQuotePayload lc q)\<rparr>)"

definition isPriceQuote :: "price_quote \<Rightarrow> bool" where
  "isPriceQuote q \<longleftrightarrow>
     pq_version q = PRICE_QUOTE_VERSION \<and>
     starts_with (pq_quoteId q) ''pq_'' \<and>
     qc_productId (pq_context q) \<noteq> [] \<and>
     qc_variantId (pq_context q) \<noteq> [] \<and>
     qc_ratePlanId (pq_context q) \<noteq> []"

definition hasCanonicalPriceQuoteIdentity ::
  "(string \<Rightarrow> string \<Rightarrow> int) \<Rightarrow> (commercial_payload \<Rightarrow> string) \<Rightarrow> price_quote \<Rightarrow> bool" where
  "hasCanonicalPriceQuoteIdentity lc digest q \<longleftrightarrow>
     isPriceQuote q \<and> pq_quoteId (buildPriceQuote lc digest q) = pq_quoteId q"

definition quoteExtraAmount :: "price_quote \<Rightarrow> rat" where
  "quoteExtraAmount q = toFixed2 (pq_totalAmount q - pq_baseAmount q)"

lemma js_upper_char_idem [simp]: "js_upper_char (js_upper_char c) = js_upper_char c"
  by (auto simp: js_upper_char_def char_code_def)

lemma js_upper_idem [simp]: "js_upper (js_upper s) = js_upper s"
  by (simp add: js_upper_def)

lemma normalizeLine_idem [simp]: "normalizeLine (normalizeLine l) = normalizeLine l"
  by (cases "tl_currency l") (simp_all add: normalizeLine_def)

text \<open>
  The payload of a built quote is a normal form: building from a built quote gives the same terms,
  so the same identity, whatever the digest and the collation order are.
\<close>

lemma buildPriceQuote_idem:
  "pq_quoteId (buildPriceQuote lc digest (buildPriceQuote lc digest input)) =
     pq_quoteId (buildPriceQuote lc digest input)"
  by (simp add: buildPriceQuote_def Let_def commercialQuotePayload_def js_round_max
      case_prod_unfold comp_def)

section \<open>The commercial snapshot of a hold\<close>

record agreement_snapshot =
  ag_id :: string
  ag_version :: rat
  ag_termsHash :: string
  ag_sellerName :: string
  ag_collectionModel :: string
  ag_commissionPercent :: rat
  ag_commissionBase :: string
  ag_currency :: string

record snapshot_day =
  sd_date :: "day option"
  sd_price :: rat
  sd_breakdownV2 :: "price_breakdown option"
  sd_pricingSource :: string

record hold_snapshot =
  hs_version :: string
  hs_ratePlanId :: string
  hs_currency :: string
  hs_rooms :: rat
  hs_occupancy :: rat
  hs_adults :: rat
  hs_children :: rat
  hs_infants :: rat
  hs_from :: "day option"
  hs_to :: "day option"
  hs_nights :: rat
  hs_totalPrice :: rat
  hs_days :: "snapshot_day list"
  hs_breakdownV2 :: "price_breakdown option"
  hs_pricingSource :: string
  hs_priceQuote :: price_quote
  hs_agreement :: "agreement_snapshot option"

definition HOLD_COMMERCIAL_SNAPSHOT_VERSION :: string where
  "HOLD_COMMERCIAL_SNAPSHOT_VERSION = ''hold_commercial_snapshot_v1''"

definition finiteMoney :: "rat \<Rightarrow> bool" where
  "finiteMoney v \<longleftrightarrow> 0 \<le> v"

definition is_hex64 :: "string \<Rightarrow> bool" where
  "is_hex64 s \<longleftrightarrow> length s = 64 \<and>
     list_all (\<lambda>c. (48 \<le> char_code c \<and> char_code c \<le> 57) \<or>
       (97 \<le> char_code c \<and> char_code c \<le> 102)) s"

definition is_iso_currency :: "string \<Rightarrow> bool" where
  "is_iso_currency s \<longleftrightarrow> length s = 3 \<and>
     list_all (\<lambda>c. 65 \<le> char_code c \<and> char_code c \<le> 90) s"

definition agreement_ok :: "agreement_snapshot \<Rightarrow> bool" where
  "agreement_ok a \<longleftrightarrow>
     ag_id a \<noteq> [] \<and>
     js_isInteger (ag_version a) \<and> 1 \<le> ag_version a \<and>
     is_hex64 (ag_termsHash a) \<and>
     ag_sellerName a \<noteq> [] \<and>
     ag_collectionModel a = ''property_collect'' \<and>
     finiteMoney (ag_commissionPercent a) \<and> ag_commissionPercent a \<le> 100 \<and>
     ag_commissionBase a \<noteq> [] \<and>
     is_iso_currency (ag_currency a)"

definition isHoldCommercialSnapshot ::
  "(string \<Rightarrow> string \<Rightarrow> int) \<Rightarrow> (commercial_payload \<Rightarrow> string) \<Rightarrow> hold_snapshot \<Rightarrow> bool" where
  "isHoldCommercialSnapshot lc digest s \<longleftrightarrow>
     (let q = hs_priceQuote s; ctx = pq_context q;
          quoteDays = map (\<lambda>(d, p). (d, toFixed2 p)) (pq_days q)
      in (case hs_agreement s of None \<Rightarrow> True | Some a \<Rightarrow> agreement_ok a) \<and>
         hs_version s = HOLD_COMMERCIAL_SNAPSHOT_VERSION \<and>
         hasCanonicalPriceQuoteIdentity lc digest q \<and>
         hs_ratePlanId s \<noteq> [] \<and>
         hs_currency s \<noteq> [] \<and>
         js_isInteger (hs_rooms s) \<and> 1 \<le> hs_rooms s \<and>
         hs_from s \<noteq> None \<and>
         hs_to s \<noteq> None \<and>
         js_isInteger (hs_nights s) \<and> 1 \<le> hs_nights s \<and>
         finiteMoney (hs_totalPrice s) \<and>
         hs_days s \<noteq> [] \<and>
         js_isInteger (hs_occupancy s) \<and>
         hs_occupancy s = hs_adults s + hs_children s \<and>
         js_isInteger (hs_adults s) \<and> 1 \<le> hs_adults s \<and>
         js_isInteger (hs_children s) \<and> 0 \<le> hs_children s \<and>
         js_isInteger (hs_infants s) \<and> 0 \<le> hs_infants s \<and>
         qc_ratePlanId ctx = hs_ratePlanId s \<and>
         Some (qc_checkIn ctx) = hs_from s \<and>
         Some (qc_checkOut ctx) = hs_to s \<and>
         qc_rooms ctx = hs_rooms s \<and>
         pq_currency q = hs_currency s \<and>
         toFixed2 (pq_totalAmount q) = toFixed2 (hs_totalPrice s) \<and>
         qc_adults ctx = hs_adults s \<and>
         qc_children ctx = hs_children s \<and>
         qc_infants ctx = hs_infants s \<and>
         hs_nights s = of_nat (length (hs_days s)) \<and>
         length (hs_days s) = length (pq_days q) \<and>
         list_all (\<lambda>d. sd_date d \<noteq> None \<and> finiteMoney (sd_price d)) (hs_days s) \<and>
         length (js_dedup (map sd_date (hs_days s))) = length (js_dedup (map fst quoteDays)) \<and>
         list_all (\<lambda>d. map_of (rev quoteDays) (the (sd_date d)) = Some (toFixed2 (sd_price d)))
           (hs_days s))"

lemma snapshot_days_in_quote:
  assumes "isHoldCommercialSnapshot lc digest s"
  shows "the ` set (map sd_date (hs_days s)) = fst ` set (pq_days (hs_priceQuote s))"
proof -
  let ?qd = "map (\<lambda>(d, p). (d, toFixed2 p)) (pq_days (hs_priceQuote s))"
  let ?D = "set (map sd_date (hs_days s))" and ?Q = "fst ` set (pq_days (hs_priceQuote s))"
  have fsts: "map fst ?qd = map fst (pq_days (hs_priceQuote s))"
    by (simp add: case_prod_unfold comp_def)
  have some: "\<forall>d \<in> ?D. d \<noteq> None"
    and look: "\<forall>d \<in> set (hs_days s). map_of (rev ?qd) (the (sd_date d)) = Some (toFixed2 (sd_price d))"
    and len: "length (js_dedup (map sd_date (hs_days s))) = length (js_dedup (map fst ?qd))"
    using assms unfolding isHoldCommercialSnapshot_def Let_def list_all_iff by auto
  have "card ?D = card ?Q" using len unfolding length_js_dedup fsts by simp
  moreover have "inj_on the ?D" using some by (metis (no_types, lifting) inj_onI option.expand)
  ultimately have "card (the ` ?D) = card ?Q" by (simp add: card_image)
  moreover have "the ` ?D \<subseteq> ?Q"
  proof
    fix x assume "x \<in> the ` ?D"
    then obtain d where "d \<in> set (hs_days s)" "x = the (sd_date d)" by auto
    then have "map_of (rev ?qd) x \<noteq> None" using look by auto
    then have "x \<in> fst ` set (rev ?qd)" by (simp add: map_of_eq_None_iff)
    then show "x \<in> ?Q" by force
  qed
  ultimately show ?thesis by (intro card_subset_eq) auto
qed

text \<open>
  A snapshot the validation accepts agrees with its own quote on everything the guest was told:
  rate plan, dates, rooms, currency, party, total to the cent, and exactly the same days, each
  quoted at the day's price to the cent.
\<close>

theorem accepted_snapshot_agrees_with_quote:
  assumes "isHoldCommercialSnapshot lc digest s"
  shows "let q = hs_priceQuote s; ctx = pq_context q in
    qc_ratePlanId ctx = hs_ratePlanId s \<and>
    hs_from s = Some (qc_checkIn ctx) \<and> hs_to s = Some (qc_checkOut ctx) \<and>
    qc_rooms ctx = hs_rooms s \<and> pq_currency q = hs_currency s \<and>
    qc_adults ctx + qc_children ctx = hs_occupancy s \<and>
    cents (pq_totalAmount q) = cents (hs_totalPrice s) \<and>
    the ` sd_date ` set (hs_days s) = fst ` set (pq_days q) \<and>
    (\<forall>d \<in> set (hs_days s). \<exists>p. (the (sd_date d), p) \<in> set (pq_days q) \<and> cents p = cents (sd_price d))"
proof -
  let ?qd = "map (\<lambda>(d, p). (d, toFixed2 p)) (pq_days (hs_priceQuote s))"
  have look: "map_of (rev ?qd) (the (sd_date d)) = Some (toFixed2 (sd_price d))"
    if "d \<in> set (hs_days s)" for d
    using assms that unfolding isHoldCommercialSnapshot_def Let_def list_all_iff by auto
  have "\<exists>p. (the (sd_date d), p) \<in> set (pq_days (hs_priceQuote s)) \<and> cents p = cents (sd_price d)"
    if "d \<in> set (hs_days s)" for d
  proof -
    have "(the (sd_date d), toFixed2 (sd_price d)) \<in> set ?qd"
      using map_of_SomeD [OF look [OF that]] by simp
    then show ?thesis by (auto simp: toFixed2_eq_iff)
  qed
  moreover have "the ` sd_date ` set (hs_days s) = fst ` set (pq_days (hs_priceQuote s))"
    using snapshot_days_in_quote [OF assms] by simp
  ultimately show ?thesis
    using assms unfolding isHoldCommercialSnapshot_def Let_def
    by (auto simp: toFixed2_eq_iff)
qed

definition example_quote :: price_quote where
  "example_quote =
     \<lparr>pq_version = PRICE_QUOTE_VERSION, pq_quoteId = ''pq_1'', pq_issuedAt = ''2026-05-01'',
      pq_source = ''hold'',
      pq_context = \<lparr>qc_productId = ''p'', qc_variantId = ''v'', qc_ratePlanId = ''rp'',
        qc_checkIn = 10, qc_checkOut = 12, qc_rooms = 1, qc_adults = 2, qc_children = 0,
        qc_infants = 0, qc_channel = ''web''\<rparr>,
      pq_currency = ''USD'', pq_nights = 2, pq_baseAmount = 200,
      pq_taxesAndFees = \<lparr>tb_base = 200, tb_total = 226, tb_taxes_included = [],
        tb_taxes_excluded = [], tb_fees_included = [], tb_fees_excluded = []\<rparr>,
      pq_totalAmount = 226, pq_days = [(10, 100), (11, 100)], pq_breakdownV2 = None,
      pq_pricingSource = ''v2''\<rparr>"

definition example_snapshot :: hold_snapshot where
  "example_snapshot =
     \<lparr>hs_version = HOLD_COMMERCIAL_SNAPSHOT_VERSION, hs_ratePlanId = ''rp'', hs_currency = ''USD'',
      hs_rooms = 1, hs_occupancy = 2, hs_adults = 2, hs_children = 0, hs_infants = 0,
      hs_from = Some 10, hs_to = Some 12, hs_nights = 2, hs_totalPrice = 226,
      hs_days = [\<lparr>sd_date = Some 10, sd_price = 100, sd_breakdownV2 = None, sd_pricingSource = ''v2''\<rparr>,
        \<lparr>sd_date = Some 11, sd_price = 100, sd_breakdownV2 = None, sd_pricingSource = ''v2''\<rparr>],
      hs_breakdownV2 = None, hs_pricingSource = ''v2'', hs_priceQuote = example_quote,
      hs_agreement = None\<rparr>"

lemma example_snapshot_accepted:
  "isHoldCommercialSnapshot (\<lambda>_ _. 0) (\<lambda>_. ''1'') example_snapshot"
  by (simp add: isHoldCommercialSnapshot_def example_snapshot_def example_quote_def Let_def
      hasCanonicalPriceQuoteIdentity_def isPriceQuote_def starts_with_def buildPriceQuote_def
      js_isInteger_def finiteMoney_def)

theorem accepted_snapshot_agrees_with_quote_witness:
  "isHoldCommercialSnapshot (\<lambda>_ _. 0) (\<lambda>_. ''1'') example_snapshot \<and>
   qc_rooms (pq_context (hs_priceQuote example_snapshot)) = hs_rooms example_snapshot \<and>
   the ` sd_date ` set (hs_days example_snapshot) = fst ` set (pq_days (hs_priceQuote example_snapshot))"
  using accepted_snapshot_agrees_with_quote [OF example_snapshot_accepted] example_snapshot_accepted
  unfolding Let_def by blast

text \<open>
  A quote the builder issues passes the identity check of the durable boundaries, whatever the
  digest and the collation order: rounding, clamping and case folding are idempotent and the payload
  does not depend on the fields that are re-derived.
\<close>

theorem built_quote_has_canonical_identity:
  assumes "qc_productId (pq_context input) \<noteq> []" "qc_variantId (pq_context input) \<noteq> []"
    and "qc_ratePlanId (pq_context input) \<noteq> []"
  shows "hasCanonicalPriceQuoteIdentity lc digest (buildPriceQuote lc digest input)"
proof -
  have "isPriceQuote (buildPriceQuote lc digest input)"
    using assms by (simp add: isPriceQuote_def buildPriceQuote_def Let_def starts_with_def)
  then show ?thesis
    unfolding hasCanonicalPriceQuoteIdentity_def by (simp add: buildPriceQuote_idem)
qed

theorem built_quote_has_canonical_identity_witness:
  "hasCanonicalPriceQuoteIdentity (\<lambda>_ _. 0) (\<lambda>_. ''1'')
     (buildPriceQuote (\<lambda>_ _. 0) (\<lambda>_. ''1'') example_quote)"
  by (rule built_quote_has_canonical_identity) (simp_all add: example_quote_def)

end
