(* ===== verification/Inventory_Store.thy ===== *)
theory Inventory_Store
  imports Hold_Snapshot
begin

text \<open>
  The inventory tables (\<open>DailyInventory\<close>, \<open>InventoryLock\<close>, \<open>Hold\<close>,
  \<open>ProviderExternalCalendarEvent\<close>, \<open>EffectiveAvailability\<close>) with their unique keys and CHECK
  constraints, the capacity invariant over them, and the daily inventory repository
  (\<open>modules/inventory/infrastructure/repositories/DailyInventoryRepository.ts\<close>). A table is the
  list of its rows; columns the modelled code neither tests nor returns (row ids, \<open>createdAt\<close>,
  \<open>updatedAt\<close>) are left out.
\<close>

record daily_row =
  di_variant :: string
  di_date :: day
  di_total :: int
  di_reserved :: int

record lock_row =
  lk_hold :: "string option"
  lk_variant :: string
  lk_date :: day
  lk_qty :: int
  lk_expires :: ms
  lk_booking :: "string option"

record policy_override =
  po_id :: string
  po_type :: string
  po_reason :: "string option"

record policy_item =
  pi_category :: string
  pi_policyId :: string
  pi_groupId :: "string option"
  pi_overrides :: "policy_override list"

record hold_policy =
  hp_cancellation :: "policy_item option"
  hp_payment :: "policy_item option"
  hp_no_show :: "policy_item option"
  hp_check_in :: "policy_item option"

record tour_question =
  tq_id :: string
  tq_code :: string
  tq_label :: string
  tq_required :: bool

text \<open>
  The guest expectations JSON, seen through its only reader: \<open>None\<close> where it holds no array of
  tour questions, otherwise the array, an entry \<open>None\<close> where it is not an object.
\<close>

type_synonym guest_json = "tour_question option list option"

record hold_row =
  h_id :: string
  h_variant :: string
  h_ratePlan :: string
  h_checkIn :: day
  h_checkOut :: day
  h_channel :: "string option"
  h_expires :: ms
  h_policy :: "hold_policy option"
  h_version :: string
  h_quoteId :: "string option"
  h_snapshot :: "hold_snapshot option"
  h_guest :: guest_json

record calendar_event =
  ev_id :: string
  ev_calendar :: string
  ev_resource :: "string option"
  ev_variant :: string
  ev_active :: bool
  ev_start :: day
  ev_end :: day

record avail_row =
  ea_id :: string
  ea_variant :: string
  ea_date :: day
  ea_total :: int
  ea_held :: int
  ea_booked :: int
  ea_external :: int
  ea_available :: int
  ea_computedAt :: ms

record inv_db =
  daily :: "daily_row list"
  locks :: "lock_row list"
  holds :: "hold_row list"
  events :: "calendar_event list"
  avail :: "avail_row list"

text \<open>
  What a statement or a transaction can throw: the code's own \<open>NotAvailableError\<close>, or an error of
  the database driver with its code and its message.
\<close>

datatype tx_error = NotAvailable | DbError string string

section \<open>Constraints and aggregates\<close>

definition daily_key :: "daily_row \<Rightarrow> string \<times> day" where
  "daily_key r = (di_variant r, di_date r)"

definition daily_check :: "daily_row \<Rightarrow> bool" where
  "daily_check r \<longleftrightarrow> 0 \<le> di_total r \<and> 0 \<le> di_reserved r \<and> di_reserved r \<le> di_total r"

definition lock_check :: "lock_row \<Rightarrow> bool" where
  "lock_check l \<longleftrightarrow> 0 < lk_qty l"

definition find_daily :: "string \<Rightarrow> day \<Rightarrow> inv_db \<Rightarrow> daily_row option" where
  "find_daily v d db = List.find (\<lambda>r. daily_key r = (v, d)) (daily db)"

definition reservedAt :: "string \<Rightarrow> day \<Rightarrow> inv_db \<Rightarrow> int" where
  "reservedAt v d db = (case find_daily v d db of None \<Rightarrow> 0 | Some r \<Rightarrow> di_reserved r)"

definition totalAt :: "string \<Rightarrow> day \<Rightarrow> inv_db \<Rightarrow> int" where
  "totalAt v d db = (case find_daily v d db of None \<Rightarrow> 0 | Some r \<Rightarrow> di_total r)"

definition on_day :: "string \<Rightarrow> day \<Rightarrow> lock_row \<Rightarrow> bool" where
  "on_day v d l \<longleftrightarrow> lk_variant l = v \<and> lk_date l = d"

definition heldUnits :: "ms \<Rightarrow> string \<Rightarrow> day \<Rightarrow> inv_db \<Rightarrow> int" where
  "heldUnits now v d db =
     total_where (\<lambda>l. on_day v d l \<and> lk_booking l = None \<and> now < lk_expires l) lk_qty (locks db)"

definition bookedUnits :: "string \<Rightarrow> day \<Rightarrow> inv_db \<Rightarrow> int" where
  "bookedUnits v d db =
     total_where (\<lambda>l. on_day v d l \<and> lk_booking l \<noteq> None) lk_qty (locks db)"

definition lockUnits :: "string \<Rightarrow> day \<Rightarrow> inv_db \<Rightarrow> int" where
  "lockUnits v d db = total_where (on_day v d) lk_qty (locks db)"

definition externalBlocks :: "string \<Rightarrow> day \<Rightarrow> inv_db \<Rightarrow> int" where
  "externalBlocks v d db =
     int (length (filter (\<lambda>e. ev_variant e = v \<and> ev_active e \<and> ev_start e \<le> d \<and> d < ev_end e)
       (events db)))"

lemma lockUnits_split:
  "lockUnits v d db = bookedUnits v d db +
     total_where (\<lambda>l. on_day v d l \<and> lk_booking l = None) lk_qty (locks db)"
  unfolding lockUnits_def bookedUnits_def
  by (subst total_where_split [where Q = "\<lambda>l. lk_booking l \<noteq> None"]) simp

lemma externalBlocks_nonneg: "0 \<le> externalBlocks v d db"
  by (simp add: externalBlocks_def)

section \<open>The capacity invariant\<close>

text \<open>
  Unique \<open>(variantId, date)\<close>, the CHECK constraints, and the accounting rule: what the locks of a
  night hold is never more than its \<open>reservedCount\<close>.
\<close>

definition wf_inventory :: "inv_db \<Rightarrow> bool" where
  "wf_inventory db \<longleftrightarrow>
     distinct (map daily_key (daily db)) \<and>
     list_all daily_check (daily db) \<and>
     list_all lock_check (locks db) \<and>
     (\<forall>v d. lockUnits v d db \<le> reservedAt v d db)"

lemma wf_lock_pos: "wf_inventory db \<Longrightarrow> l \<in> set (locks db) \<Longrightarrow> 0 < lk_qty l"
  by (simp add: wf_inventory_def list_all_iff lock_check_def)

lemma find_daily_mem:
  "find_daily v d db = Some r \<Longrightarrow> r \<in> set (daily db) \<and> daily_key r = (v, d)"
  unfolding find_daily_def by (rule find_Some_mem)

lemma wf_reserved_le_total: "wf_inventory db \<Longrightarrow> reservedAt v d db \<le> totalAt v d db"
  by (auto simp: reservedAt_def totalAt_def wf_inventory_def list_all_iff daily_check_def
      split: option.split dest!: find_daily_mem)

lemma wf_reserved_nonneg: "wf_inventory db \<Longrightarrow> 0 \<le> reservedAt v d db"
  by (auto simp: reservedAt_def wf_inventory_def list_all_iff daily_check_def
      split: option.split dest!: find_daily_mem)

lemma wf_live_le_total:
  assumes "wf_inventory db"
  shows "heldUnits now v d db + bookedUnits v d db \<le> totalAt v d db"
proof -
  have "heldUnits now v d db \<le>
      total_where (\<lambda>l. on_day v d l \<and> lk_booking l = None) lk_qty (locks db)"
    unfolding heldUnits_def
    by (rule total_where_mono) (use wf_lock_pos [OF assms] in \<open>auto intro: less_imp_le\<close>)
  then have "heldUnits now v d db + bookedUnits v d db \<le> lockUnits v d db"
    using lockUnits_split [of v d db] by simp
  also have "\<dots> \<le> reservedAt v d db" using assms by (simp add: wf_inventory_def)
  also have "\<dots> \<le> totalAt v d db" by (rule wf_reserved_le_total [OF assms])
  finally show ?thesis .
qed

lemma lockUnits_nonneg:
  "wf_inventory db \<Longrightarrow> 0 \<le> lockUnits v d db"
  unfolding lockUnits_def by (rule total_where_nonneg) (auto dest: wf_lock_pos intro: less_imp_le)

section \<open>Updates of the daily table\<close>

text \<open>
  \<open>UPDATE "DailyInventory" SET ... WHERE P\<close>: the number of rows and the new table, or the CHECK
  violation that fails the statement.
\<close>

definition daily_violation :: tx_error where
  "daily_violation = DbError ''23514'' ''DailyInventory_nonnegative_check''"

definition update_daily ::
  "(daily_row \<Rightarrow> bool) \<Rightarrow> (daily_row \<Rightarrow> daily_row) \<Rightarrow> inv_db \<Rightarrow> tx_error + nat \<times> inv_db" where
  "update_daily P f db =
     (if list_all (\<lambda>r. P r \<longrightarrow> daily_check (f r)) (daily db)
      then Inr (length (filter P (daily db)), db\<lparr>daily := update_rows P f (daily db)\<rparr>)
      else Inl daily_violation)"

text \<open>\<open>INSERT ... ON CONFLICT ("variantId", "date") DO UPDATE SET f\<close>.\<close>

definition upsert_daily ::
  "daily_row \<Rightarrow> (daily_row \<Rightarrow> daily_row) \<Rightarrow> inv_db \<Rightarrow> tx_error + inv_db" where
  "upsert_daily row f db =
     (if \<not> daily_check row then Inl daily_violation
      else case find_daily (di_variant row) (di_date row) db of
        None \<Rightarrow> Inr (db\<lparr>daily := daily db @ [row]\<rparr>)
      | Some _ \<Rightarrow> (case update_daily (\<lambda>r. daily_key r = daily_key row) f db of
            Inl e \<Rightarrow> Inl e
          | Inr (_, db') \<Rightarrow> Inr db'))"

lemma update_daily_frame:
  "update_daily P f db = Inr (n, db') \<Longrightarrow>
     locks db' = locks db \<and> holds db' = holds db \<and> events db' = events db \<and> avail db' = avail db"
  by (auto simp: update_daily_def split: if_splits)

lemma update_daily_wf:
  assumes "wf_inventory db" "update_daily P f db = Inr (n, db')"
    and key: "\<And>r. P r \<Longrightarrow> daily_key (f r) = daily_key r"
    and enough: "\<And>r. r \<in> set (daily db) \<Longrightarrow> P r \<Longrightarrow>
      lockUnits (di_variant r) (di_date r) db \<le> di_reserved (f r)"
  shows "wf_inventory db'"
proof -
  have db': "db' = db\<lparr>daily := update_rows P f (daily db)\<rparr>"
    and chk: "list_all (\<lambda>r. P r \<longrightarrow> daily_check (f r)) (daily db)"
    using assms(2) by (auto simp: update_daily_def split: if_splits)
  have look: "find_daily v d db' =
      map_option (\<lambda>r. if P r then f r else r) (find_daily v d db)" for v d
    unfolding find_daily_def db' by (simp add: find_update_key key)
  have lk: "lockUnits v d db' = lockUnits v d db" for v d
    by (simp add: lockUnits_def db')
  have "lockUnits v d db' \<le> reservedAt v d db'" for v d
  proof -
    have base: "lockUnits v d db \<le> reservedAt v d db" using assms(1) by (simp add: wf_inventory_def)
    show ?thesis
    proof (cases "find_daily v d db")
      case None
      then show ?thesis using base by (simp add: reservedAt_def look lk)
    next
      case (Some r)
      then have "r \<in> set (daily db)" "di_variant r = v" "di_date r = d"
        using find_daily_mem [OF Some] by (auto simp: daily_key_def)
      then show ?thesis
        using base enough [of r] Some by (simp add: reservedAt_def look lk)
    qed
  qed
  moreover have "list_all daily_check (daily db')"
    using chk assms(1) by (auto simp: db' wf_inventory_def list_all_iff set_update_rows)
  moreover have "map daily_key (daily db') = map daily_key (daily db)"
    using key by (simp add: db')
  ultimately show ?thesis using assms(1) by (simp add: wf_inventory_def db')
qed

section \<open>The daily inventory repository\<close>

definition getRange :: "string \<Rightarrow> ms \<Rightarrow> ms \<Rightarrow> inv_db \<Rightarrow> daily_row list" where
  "getRange variantId checkIn checkOut db =
     (let start = toISODate checkIn; end = toISODate checkOut;
          rows = filter (\<lambda>r. di_variant r = variantId \<and> start \<le> di_date r \<and> di_date r < end)
            (daily db);
          byDate = map_of (rev (map (\<lambda>r. (di_date r, r)) rows))
      in map (\<lambda>iso. case byDate iso of
           Some r \<Rightarrow> r
         | None \<Rightarrow> \<lparr>di_variant = variantId, di_date = iso, di_total = 0, di_reserved = 0\<rparr>)
         (isoCursorDates checkIn end))"

definition upsertOperational ::
  "string \<Rightarrow> day \<Rightarrow> int option \<Rightarrow> inv_db \<Rightarrow> tx_error + inv_db" where
  "upsertOperational variantId date totalInventory db =
     (let insertTotal = (case totalInventory of Some n \<Rightarrow> n | None \<Rightarrow> 0)
      in upsert_daily
           \<lparr>di_variant = variantId, di_date = date, di_total = insertTotal, di_reserved = 0\<rparr>
           (\<lambda>r. if totalInventory \<noteq> None then r\<lparr>di_total := insertTotal\<rparr> else r) db)"

fun upsertEach ::
  "string \<Rightarrow> int option \<Rightarrow> day list \<Rightarrow> inv_db \<Rightarrow> tx_error option \<times> inv_db" where
  "upsertEach variantId units [] db = (None, db)"
| "upsertEach variantId units (d # ds) db =
     (case upsertOperational variantId d units db of
        Inl e \<Rightarrow> (Some e, db)
      | Inr db' \<Rightarrow> upsertEach variantId units ds db')"

definition bulkUpsertOperational ::
  "string \<Rightarrow> ms \<Rightarrow> ms \<Rightarrow> int option \<Rightarrow> inv_db \<Rightarrow> tx_error option \<times> inv_db" where
  "bulkUpsertOperational variantId startDate endDate units db =
     upsertEach variantId units (isoCursorDates startDate (toISODate endDate)) db"

definition upsertRow :: "daily_row \<Rightarrow> inv_db \<Rightarrow> tx_error + inv_db" where
  "upsertRow row db =
     upsert_daily row (\<lambda>r. r\<lparr>di_total := di_total row, di_reserved := di_reserved row\<rparr>) db"

text \<open>The seeder: one full upsert per day of the next year, reserved count zero.\<close>

fun seedDays :: "string \<Rightarrow> int \<Rightarrow> ms \<Rightarrow> nat \<Rightarrow> nat \<Rightarrow> inv_db \<Rightarrow> tx_error option \<times> inv_db" where
  "seedDays v totalRooms today i 0 db = (None, db)"
| "seedDays v totalRooms today i (Suc left) db =
     (case upsertRow \<lparr>di_variant = v, di_date = toISODate (today + int i * 86400000),
         di_total = totalRooms, di_reserved = 0\<rparr> db of
        Inl e \<Rightarrow> (Some e, db)
      | Inr db' \<Rightarrow> seedDays v totalRooms today (Suc i) left db')"

definition seed :: "string \<Rightarrow> int \<Rightarrow> ms \<Rightarrow> inv_db \<Rightarrow> tx_error option \<times> inv_db" where
  "seed roomTypeId totalRooms today db = seedDays roomTypeId totalRooms today 0 365 db"

lemma upsert_daily_wf:
  assumes wf: "wf_inventory db" and ok: "upsert_daily row f db = Inr db'"
    and fresh: "di_reserved row = 0"
    and key: "\<And>r. daily_key (f r) = daily_key r"
    and keep: "\<And>r. di_reserved (f r) = di_reserved r"
  shows "wf_inventory db'"
proof (cases "find_daily (di_variant row) (di_date row) db")
  case None
  then have db': "db' = db\<lparr>daily := daily db @ [row]\<rparr>" and chk: "daily_check row"
    using ok by (auto simp: upsert_daily_def split: if_splits)
  have new: "\<forall>r \<in> set (daily db). daily_key r \<noteq> daily_key row"
    using None by (simp add: find_daily_def find_None_all daily_key_def [of row])
  have "reservedAt v d db' = reservedAt v d db" for v d
  proof -
    have "List.find P (xs @ [x]) =
        (case List.find P xs of Some y \<Rightarrow> Some y | None \<Rightarrow> if P x then Some x else None)"
      for P :: "daily_row \<Rightarrow> bool" and xs x
      by (induction xs) auto
    then show ?thesis
      by (auto simp: reservedAt_def find_daily_def db' fresh split: option.splits)
  qed
  then show ?thesis
    using wf new chk by (auto simp: wf_inventory_def db' lockUnits_def)
next
  case (Some r0)
  then obtain n where "update_daily (\<lambda>r. daily_key r = daily_key row) f db = Inr (n, db')"
    using ok by (auto simp: upsert_daily_def split: if_splits sum.splits)
  then show ?thesis
  proof (rule update_daily_wf [OF wf])
    fix r assume r: "r \<in> set (daily db)"
    have "find_daily (di_variant r) (di_date r) db = Some r"
      using find_unique [of daily_key "daily db" r] wf r
      by (simp add: find_daily_def wf_inventory_def daily_key_def [of r])
    then have "lockUnits (di_variant r) (di_date r) db \<le> di_reserved r"
      using wf unfolding wf_inventory_def by (metis option.simps(5) reservedAt_def)
    then show "lockUnits (di_variant r) (di_date r) db \<le> di_reserved (f r)" by (simp add: keep)
  qed (simp add: key)
qed

lemma upsertOperational_wf [preserve]:
  "wf_inventory db \<Longrightarrow> upsertOperational v d units db = Inr db' \<Longrightarrow> wf_inventory db'"
  unfolding upsertOperational_def Let_def
  by (rule upsert_daily_wf, assumption, assumption) (auto simp: daily_key_def)

end
