(* ===== verification/Inventory_Hold.thy ===== *)
theory Inventory_Hold
  imports Inventory_Store
begin

text \<open>
  The hold repository
  (\<open>modules/inventory/infrastructure/repositories/InventoryHoldRepository.ts\<close>): taking a hold on
  every night of a stay inside one transaction, with its retries; finding, reading, releasing and
  listing holds.

  The database engine is not part of the repository. What the code relies on is a parameter
  \<open>engine\<close>: the meaning of the SQL text \<open>max(a, b)\<close> with two arguments (a scalar function in SQLite,
  an unknown function in PostgreSQL) and the error it raises for a second row with the same
  \<open>Hold.id\<close>. A further parameter gives, for each attempt, the database clock and the faults the
  connection produces (a busy database, a missing table).
\<close>

record engine =
  eng_max :: "(int \<Rightarrow> int \<Rightarrow> int) option"
  eng_max_error :: tx_error
  eng_duplicate_hold :: tx_error

record attempt_env =
  en_now :: ms
  en_insert_fault :: "tx_error option"
  en_commit_fault :: "tx_error option"

text \<open>The two engines the code has been written for.\<close>

definition sqlite_engine :: engine where
  "sqlite_engine = \<lparr>eng_max = Some max,
     eng_max_error = NotAvailable,
     eng_duplicate_hold = DbError ''SQLITE_CONSTRAINT'' ''UNIQUE constraint failed: Hold.id''\<rparr>"

definition postgres_engine :: engine where
  "postgres_engine = \<lparr>eng_max = None,
     eng_max_error = DbError ''42883'' ''function max(integer, integer) does not exist'',
     eng_duplicate_hold =
       DbError ''23505'' ''duplicate key value violates unique constraint Hold_pkey''\<rparr>"

record hold_params =
  pr_holdId :: string
  pr_variantId :: string
  pr_ratePlanId :: string
  pr_checkIn :: ms
  pr_checkOut :: ms
  pr_quantity :: int
  pr_expiresAt :: ms
  pr_channel :: "string option"
  pr_policy :: "hold_policy option"
  pr_guest :: guest_json
  pr_snapshot :: hold_snapshot

datatype hold_result = HoldTaken string ms | HoldNotAvailable

section \<open>Error classes\<close>

definition isSqliteBusy :: "string \<Rightarrow> string \<Rightarrow> bool" where
  "isSqliteBusy code msg \<longleftrightarrow>
     code = ''SQLITE_BUSY'' \<or> str_includes msg ''SQLITE_BUSY'' \<or> str_includes msg ''database is locked''"

definition isUniqueHoldConflict :: "string \<Rightarrow> bool" where
  "isUniqueHoldConflict msg \<longleftrightarrow> str_includes msg ''UNIQUE constraint failed: Hold.id''"

definition isMissingHoldTableError :: "string \<Rightarrow> bool" where
  "isMissingHoldTableError msg \<longleftrightarrow> str_includes msg ''no such table: Hold''"

definition datesInRange :: "ms \<Rightarrow> ms \<Rightarrow> day list" where
  "datesInRange checkIn checkOut =
     filter (\<lambda>d. toISODate checkIn \<le> d \<and> d < toISODate checkOut)
       (isoCursorDates checkIn (toISODate checkOut))"

lemma datesInRange_eq: "datesInRange a b = [toISODate a..toISODate b - 1]"
  by (simp add: datesInRange_def isoCursorDates_eq)

lemma set_datesInRange [simp]: "set (datesInRange a b) = {toISODate a..<toISODate b}"
  by (auto simp: datesInRange_eq)

lemma distinct_datesInRange [simp]: "distinct (datesInRange a b)"
  by (simp add: datesInRange_eq)

section \<open>Finding and reading a hold\<close>

definition findActiveHold ::
  "string \<Rightarrow> ms \<Rightarrow> inv_db \<Rightarrow> (string \<times> ms \<times> hold_snapshot option) option" where
  "findActiveHold holdId now db =
     (case List.find (\<lambda>l. lk_hold l = Some holdId \<and> now \<le> lk_expires l \<and> lk_booking l = None \<and>
             (\<exists>h \<in> set (holds db). h_id h = holdId)) (locks db) of
        None \<Rightarrow> None
      | Some l \<Rightarrow>
          if holdId = [] then None
          else (case List.find (\<lambda>h. h_id h = holdId) (holds db) of
              None \<Rightarrow> None
            | Some h \<Rightarrow> Some (holdId, lk_expires l, h_snapshot h)))"

definition findHoldSnapshot ::
  "string \<Rightarrow> inv_db \<Rightarrow> (hold_policy option \<times> guest_json \<times> hold_snapshot option \<times> string option) option"
  where
  "findHoldSnapshot holdId db =
     (let id = js_trim holdId
      in if id = [] then None
         else map_option (\<lambda>h. (h_policy h, h_guest h, h_snapshot h, h_quoteId h))
           (List.find (\<lambda>h. h_id h = id) (holds db)))"

section \<open>Taking a hold\<close>

definition hold_row_of :: "hold_params \<Rightarrow> hold_row" where
  "hold_row_of p =
     \<lparr>h_id = pr_holdId p, h_variant = pr_variantId p, h_ratePlan = pr_ratePlanId p,
      h_checkIn = toISODate (pr_checkIn p), h_checkOut = toISODate (pr_checkOut p),
      h_channel = pr_channel p, h_expires = pr_expiresAt p, h_policy = pr_policy p,
      h_version = HOLD_COMMERCIAL_SNAPSHOT_VERSION,
      h_quoteId = Some (pq_quoteId (hs_priceQuote (pr_snapshot p))),
      h_snapshot = Some (pr_snapshot p), h_guest = pr_guest p\<rparr>"

definition lock_row_of :: "hold_params \<Rightarrow> day \<Rightarrow> lock_row" where
  "lock_row_of p d =
     \<lparr>lk_hold = Some (pr_holdId p), lk_variant = pr_variantId p, lk_date = d,
      lk_qty = pr_quantity p, lk_expires = pr_expiresAt p, lk_booking = None\<rparr>"

definition insert_hold ::
  "engine \<Rightarrow> attempt_env \<Rightarrow> hold_params \<Rightarrow> inv_db \<Rightarrow> tx_error + inv_db" where
  "insert_hold eng env p db =
     (let thrown = (case en_insert_fault env of
            Some e \<Rightarrow> Some e
          | None \<Rightarrow> if \<exists>h \<in> set (holds db). h_id h = pr_holdId p
              then Some (eng_duplicate_hold eng) else None)
      in case thrown of
           None \<Rightarrow> Inr (db\<lparr>holds := holds db @ [hold_row_of p]\<rparr>)
         | Some (DbError c m) \<Rightarrow>
             if isMissingHoldTableError m then Inr db else Inl (DbError c m)
         | Some NotAvailable \<Rightarrow> Inl NotAvailable)"

definition hold_night :: "ms \<Rightarrow> hold_params \<Rightarrow> day \<Rightarrow> inv_db \<Rightarrow> tx_error + inv_db" where
  "hold_night now p date db =
     (let v = pr_variantId p; q = pr_quantity p in
      case find_daily v date db of
        None \<Rightarrow> Inl NotAvailable
      | Some d \<Rightarrow>
          (let held = heldUnits now v date db;
               booked = bookedUnits v date db;
               blocked = externalBlocks v date db
           in if di_total d < 0 \<or> di_reserved d < 0 then Inl NotAvailable
              else if held < 0 \<or> booked < 0 then Inl NotAvailable
              else if di_total d < held + booked + blocked + q then Inl NotAvailable
              else if di_total d < di_reserved d + q then Inl NotAvailable
              else (case update_daily
                      (\<lambda>r. daily_key r = (v, date) \<and> di_reserved r + q + blocked \<le> di_total r)
                      (\<lambda>r. r\<lparr>di_reserved := di_reserved r + q\<rparr>) db of
                    Inl e \<Rightarrow> Inl e
                  | Inr (affected, db') \<Rightarrow>
                      if affected \<noteq> 1 then Inl NotAvailable
                      else if \<not> lock_check (lock_row_of p date)
                        then Inl (DbError ''23514'' ''InventoryLock_quantity_positive_check'')
                      else Inr (db'\<lparr>locks := locks db' @ [lock_row_of p date]\<rparr>))))"

fun hold_nights :: "ms \<Rightarrow> hold_params \<Rightarrow> day list \<Rightarrow> inv_db \<Rightarrow> tx_error + inv_db" where
  "hold_nights now p [] db = Inr db"
| "hold_nights now p (d # ds) db =
     (case hold_night now p d db of Inl e \<Rightarrow> Inl e | Inr db' \<Rightarrow> hold_nights now p ds db')"

definition hold_transaction ::
  "engine \<Rightarrow> attempt_env \<Rightarrow> hold_params \<Rightarrow> inv_db \<Rightarrow> tx_error + inv_db" where
  "hold_transaction eng env p db =
     (let dates = datesInRange (pr_checkIn p) (pr_checkOut p)
      in if dates = [] then Inl NotAvailable
         else case insert_hold eng env p db of
             Inl e \<Rightarrow> Inl e
           | Inr db1 \<Rightarrow>
               (case hold_nights (en_now env) p dates db1 of
                  Inl e \<Rightarrow> Inl e
                | Inr db2 \<Rightarrow>
                    (case en_commit_fault env of Some e \<Rightarrow> Inl e | None \<Rightarrow> Inr db2)))"

text \<open>
  The retry loop: \<open>left\<close> attempts remain, the next one is number \<open>attempt\<close>. A thrown error that is
  neither the code's own, nor a duplicate, nor a busy database leaves the function.
\<close>

fun hold_attempts ::
  "engine \<Rightarrow> (nat \<Rightarrow> attempt_env) \<Rightarrow> hold_params \<Rightarrow> nat \<Rightarrow> nat \<Rightarrow> inv_db
     \<Rightarrow> (tx_error + hold_result) \<times> inv_db" where
  "hold_attempts eng envs p attempt 0 db = (Inr HoldNotAvailable, db)"
| "hold_attempts eng envs p attempt (Suc left) db =
     (case hold_transaction eng (envs attempt) p db of
        Inr db' \<Rightarrow> (Inr (HoldTaken (pr_holdId p) (pr_expiresAt p)), db')
      | Inl NotAvailable \<Rightarrow> (Inr HoldNotAvailable, db)
      | Inl (DbError c m) \<Rightarrow>
          if isUniqueHoldConflict m then (Inr HoldNotAvailable, db)
          else if isSqliteBusy c m then
            (if attempt < 5 then hold_attempts eng envs p (Suc attempt) left db
             else (Inr HoldNotAvailable, db))
          else (Inl (DbError c m), db))"

definition holdInventory ::
  "engine \<Rightarrow> (nat \<Rightarrow> attempt_env) \<Rightarrow> hold_params \<Rightarrow> inv_db
     \<Rightarrow> (tx_error + hold_result) \<times> inv_db" where
  "holdInventory eng envs p db = hold_attempts eng envs p 1 5 db"

section \<open>Releasing a hold\<close>

definition unbooked_of :: "string \<Rightarrow> lock_row \<Rightarrow> bool" where
  "unbooked_of holdId l \<longleftrightarrow> lk_hold l = Some holdId \<and> lk_booking l = None"

fun release_nights :: "engine \<Rightarrow> lock_row list \<Rightarrow> inv_db \<Rightarrow> tx_error + inv_db" where
  "release_nights eng [] db = Inr db"
| "release_nights eng (l # ls) db =
     (case eng_max eng of
        None \<Rightarrow> Inl (eng_max_error eng)
      | Some mx \<Rightarrow>
          (case update_daily (\<lambda>r. daily_key r = (lk_variant l, lk_date l))
                  (\<lambda>r. r\<lparr>di_reserved := mx 0 (di_reserved r - lk_qty l)\<rparr>) db of
             Inl e \<Rightarrow> Inl e
           | Inr (_, db') \<Rightarrow> release_nights eng ls db'))"

definition release_transaction ::
  "engine \<Rightarrow> attempt_env \<Rightarrow> string \<Rightarrow> inv_db \<Rightarrow> tx_error + (bool \<times> nat) \<times> inv_db" where
  "release_transaction eng env holdId db =
     (let ls = filter (unbooked_of holdId) (locks db)
      in if ls = [] then Inr ((False, 0), db)
         else case release_nights eng ls db of
             Inl e \<Rightarrow> Inl e
           | Inr db1 \<Rightarrow>
               (case en_commit_fault env of
                  Some e \<Rightarrow> Inl e
                | None \<Rightarrow> Inr ((True, length ls),
                    db1\<lparr>locks := delete_rows (unbooked_of holdId) (locks db1)\<rparr>)))"

fun release_attempts ::
  "engine \<Rightarrow> (nat \<Rightarrow> attempt_env) \<Rightarrow> string \<Rightarrow> nat \<Rightarrow> nat \<Rightarrow> inv_db
     \<Rightarrow> (tx_error + bool \<times> nat) \<times> inv_db" where
  "release_attempts eng envs holdId attempt 0 db = (Inr (False, 0), db)"
| "release_attempts eng envs holdId attempt (Suc left) db =
     (case release_transaction eng (envs attempt) holdId db of
        Inr (r, db') \<Rightarrow> (Inr r, db')
      | Inl (DbError c m) \<Rightarrow>
          if isSqliteBusy c m \<and> attempt < 5
          then release_attempts eng envs holdId (Suc attempt) left db
          else (Inl (DbError c m), db)
      | Inl NotAvailable \<Rightarrow> (Inl NotAvailable, db))"

definition releaseHold ::
  "engine \<Rightarrow> (nat \<Rightarrow> attempt_env) \<Rightarrow> string \<Rightarrow> inv_db \<Rightarrow> (tx_error + bool \<times> nat) \<times> inv_db" where
  "releaseHold eng envs holdId db = release_attempts eng envs holdId 1 5 db"

section \<open>Listing expired holds\<close>

record expired_hold =
  xh_holdId :: string
  xh_variantId :: string
  xh_from :: day
  xh_lastDate :: day

definition toExclusiveDate :: "day \<Rightarrow> day" where
  "toExclusiveDate d = toISODate (parseDateOnly d + 86400000)"

text \<open>One row of the query folded into the \<open>Map\<close> keyed by \<open>holdId:variantId\<close>.\<close>

definition group_expired ::
  "lock_row \<Rightarrow> (string \<times> expired_hold) list \<Rightarrow> (string \<times> expired_hold) list" where
  "group_expired l m =
     (let id = js_trim (text_or_empty (lk_hold l)); v = js_trim (lk_variant l); date = lk_date l;
          key = id @ '':'' @ v
      in if id = [] \<or> v = [] then m
         else case map_of m key of
             None \<Rightarrow> map_set key \<lparr>xh_holdId = id, xh_variantId = v, xh_from = date, xh_lastDate = date\<rparr> m
           | Some e \<Rightarrow> map_set key
               (e\<lparr>xh_from := (if date < xh_from e then date else xh_from e),
                  xh_lastDate := (if xh_lastDate e < date then date else xh_lastDate e)\<rparr>) m)"

definition expired_lock :: "ms \<Rightarrow> lock_row \<Rightarrow> bool" where
  "expired_lock now l \<longleftrightarrow> lk_expires l < now \<and> lk_hold l \<noteq> None \<and> lk_booking l = None"

definition listExpiredHolds :: "ms \<Rightarrow> inv_db \<Rightarrow> (string \<times> string \<times> day \<times> day) list" where
  "listExpiredHolds now db =
     map (\<lambda>(_, e). (xh_holdId e, xh_variantId e, xh_from e, toExclusiveDate (xh_lastDate e)))
       (fold group_expired (filter (expired_lock now) (locks db)) [])"

lemma toExclusiveDate_eq [simp]: "toExclusiveDate d = d + 1"
  by (simp add: toExclusiveDate_def)


section \<open>A small inventory\<close>

text \<open>Three stocked nights and a request for the first two, for the concrete runs.\<close>

definition quiet_env :: attempt_env where
  "quiet_env = \<lparr>en_now = 0, en_insert_fault = None, en_commit_fault = None\<rparr>"

definition example_params :: hold_params where
  "example_params = \<lparr>pr_holdId = ''h1'', pr_variantId = ''v'', pr_ratePlanId = ''rp'',
     pr_checkIn = parseDateOnly 10, pr_checkOut = parseDateOnly 12, pr_quantity = 1,
     pr_expiresAt = 600000, pr_channel = None, pr_policy = None, pr_guest = None,
     pr_snapshot = example_snapshot\<rparr>"

definition example_inv :: inv_db where
  "example_inv =
     \<lparr>daily = map (\<lambda>d. \<lparr>di_variant = ''v'', di_date = d, di_total = 2, di_reserved = 0\<rparr>) [10, 11, 12],
      locks = [], holds = [], events = [], avail = []\<rparr>"

lemma example_inv_wf: "wf_inventory example_inv"
  by (auto simp: wf_inventory_def example_inv_def daily_key_def daily_check_def lockUnits_def
      reservedAt_def find_daily_def)

definition example_held :: inv_db where
  "example_held = snd (holdInventory postgres_engine (\<lambda>_. quiet_env) example_params example_inv)"

lemma example_hold_taken:
  "holdInventory postgres_engine (\<lambda>_. quiet_env) example_params example_inv =
     (Inr (HoldTaken ''h1'' 600000), example_held)"
  unfolding prod_eq_iff example_held_def by code_simp

lemma example_params_quantity: "0 < pr_quantity example_params"
  by (simp add: example_params_def)

end
