(* ===== verification/Hold_Correctness.thy ===== *)
theory Hold_Correctness
  imports Inventory_Hold
begin

text \<open>
  What the hold repository guarantees: a taken hold reserves exactly its nights and stays within
  capacity, a failed one changes nothing, releasing gives the units back, and listing expired holds
  covers every expired lock.
\<close>

section \<open>One night\<close>

lemma find_daily_unique:
  "wf_inventory db \<Longrightarrow> r \<in> set (daily db) \<Longrightarrow> find_daily (di_variant r) (di_date r) db = Some r"
  using find_unique [of daily_key "daily db" r]
  by (simp add: find_daily_def wf_inventory_def daily_key_def [of r])

definition night_fits :: "ms \<Rightarrow> hold_params \<Rightarrow> day \<Rightarrow> inv_db \<Rightarrow> bool" where
  "night_fits now p d db \<longleftrightarrow>
     find_daily (pr_variantId p) d db \<noteq> None \<and>
     heldUnits now (pr_variantId p) d db + bookedUnits (pr_variantId p) d db +
       externalBlocks (pr_variantId p) d db + pr_quantity p \<le> totalAt (pr_variantId p) d db \<and>
     reservedAt (pr_variantId p) d db + externalBlocks (pr_variantId p) d db + pr_quantity p
       \<le> totalAt (pr_variantId p) d db"

definition reserve_night :: "hold_params \<Rightarrow> day \<Rightarrow> inv_db \<Rightarrow> inv_db" where
  "reserve_night p d db = db\<lparr>
     daily := update_rows (\<lambda>r. daily_key r = (pr_variantId p, d))
       (\<lambda>r. r\<lparr>di_reserved := di_reserved r + pr_quantity p\<rparr>) (daily db),
     locks := locks db @ [lock_row_of p d]\<rparr>"

lemma held_booked_nonneg:
  "wf_inventory db \<Longrightarrow> 0 \<le> heldUnits now v d db \<and> 0 \<le> bookedUnits v d db"
  unfolding heldUnits_def bookedUnits_def
  by (auto intro!: total_where_nonneg dest: wf_lock_pos intro: less_imp_le)

text \<open>
  On a well-formed store the checks, the guarded update and the affected-row count of a night come
  down to one condition: the night is stocked, and the quantity fits both counts.
\<close>

lemma hold_night_char:
  assumes wf: "wf_inventory db" and q: "0 < pr_quantity p"
  shows "hold_night now p d db =
    (if night_fits now p d db then Inr (reserve_night p d db) else Inl NotAvailable)"
proof (cases "find_daily (pr_variantId p) d db")
  case None
  then show ?thesis by (simp add: hold_night_def night_fits_def)
next
  case (Some r)
  let ?v = "pr_variantId p" and ?q = "pr_quantity p"
  let ?ext = "externalBlocks ?v d db"
  let ?P = "\<lambda>x. daily_key x = (?v, d) \<and> di_reserved x + ?q + ?ext \<le> di_total x"
  let ?f = "\<lambda>x. x\<lparr>di_reserved := di_reserved x + ?q\<rparr>"
  have r: "r \<in> set (daily db)" "daily_key r = (?v, d)" using find_daily_mem [OF Some] by auto
  have chk: "daily_check r" using wf r by (simp add: wf_inventory_def list_all_iff)
  have only: "x = r" if "x \<in> set (daily db)" "daily_key x = (?v, d)" for x
    using find_daily_unique [OF wf that(1)] that(2) Some by (simp add: daily_key_def)
  have hb: "0 \<le> heldUnits now ?v d db" "0 \<le> bookedUnits ?v d db"
    using held_booked_nonneg [OF wf] by auto
  have at: "totalAt ?v d db = di_total r" "reservedAt ?v d db = di_reserved r"
    using Some by (auto simp: totalAt_def reservedAt_def)
  have ext: "0 \<le> ?ext" by (rule externalBlocks_nonneg)
  have lc: "lock_check (lock_row_of p d)" using q by (simp add: lock_check_def lock_row_of_def)
  have cs: "list_all (\<lambda>x. ?P x \<longrightarrow> daily_check (?f x)) (daily db)"
    using wf q externalBlocks_nonneg [of ?v d db]
    by (auto simp: wf_inventory_def list_all_iff daily_check_def)
  show ?thesis
  proof (cases "di_reserved r + ?q + ?ext \<le> di_total r")
    case True
    have "length (filter ?P (daily db)) = 1"
      by (rule filter_unique_length [of daily_key _ r])
        (use wf r True in \<open>auto simp: wf_inventory_def\<close>)
    moreover have "update_rows ?P ?f (daily db) = update_rows (\<lambda>x. daily_key x = (?v, d)) ?f (daily db)"
      using only True by (auto simp: update_rows_def)
    ultimately show ?thesis
      using Some True chk hb at lc cs ext
      by (simp add: hold_night_def night_fits_def update_daily_def reserve_night_def daily_check_def
          Let_def)
  next
    case False
    then have "filter ?P (daily db) = []" using only by (auto simp: filter_empty_conv)
    then show ?thesis
      using Some False chk hb at cs ext
      by (simp add: hold_night_def night_fits_def update_daily_def daily_check_def Let_def)
  qed
qed

lemma find_daily_reserve:
  "find_daily v d (reserve_night p e db) =
     map_option (\<lambda>r. if daily_key r = (pr_variantId p, e)
       then r\<lparr>di_reserved := di_reserved r + pr_quantity p\<rparr> else r) (find_daily v d db)"
  unfolding find_daily_def reserve_night_def
  by (simp, subst find_update_key) (auto simp: daily_key_def)

lemma reserve_night_at:
  assumes "find_daily (pr_variantId p) e db \<noteq> None"
  shows "reservedAt v d (reserve_night p e db) =
      reservedAt v d db + (if v = pr_variantId p \<and> d = e then pr_quantity p else 0)"
    and "totalAt v d (reserve_night p e db) = totalAt v d db"
    and "lockUnits v d (reserve_night p e db) =
      lockUnits v d db + (if v = pr_variantId p \<and> d = e then pr_quantity p else 0)"
    and "externalBlocks v d (reserve_night p e db) = externalBlocks v d db"
proof -
  have key: "daily_key r = (v, d)" if "find_daily v d db = Some r" for r
    using find_daily_mem [OF that] by simp
  show "reservedAt v d (reserve_night p e db) =
      reservedAt v d db + (if v = pr_variantId p \<and> d = e then pr_quantity p else 0)"
    using assms key by (auto simp: reservedAt_def find_daily_reserve split: option.split)
  show "totalAt v d (reserve_night p e db) = totalAt v d db"
    by (auto simp: totalAt_def find_daily_reserve split: option.split)
  show "lockUnits v d (reserve_night p e db) =
      lockUnits v d db + (if v = pr_variantId p \<and> d = e then pr_quantity p else 0)"
    by (auto simp: lockUnits_def reserve_night_def on_day_def lock_row_of_def)
  show "externalBlocks v d (reserve_night p e db) = externalBlocks v d db"
    by (simp add: externalBlocks_def reserve_night_def)
qed

lemma reserve_night_wf:
  assumes wf: "wf_inventory db" and q: "0 < pr_quantity p" and fits: "night_fits now p d db"
  shows "wf_inventory (reserve_night p d db)"
proof -
  have found: "find_daily (pr_variantId p) d db \<noteq> None" using fits by (simp add: night_fits_def)
  have "daily_check (r\<lparr>di_reserved := di_reserved r + pr_quantity p\<rparr>)"
    if "r \<in> set (daily db)" "daily_key r = (pr_variantId p, d)" for r
  proof -
    have "find_daily (pr_variantId p) d db = Some r"
      using find_daily_unique [OF wf that(1)] that(2) by (simp add: daily_key_def)
    then show ?thesis
      using fits wf that(1) q externalBlocks_nonneg [of "pr_variantId p" d db]
      by (auto simp: night_fits_def reservedAt_def totalAt_def daily_check_def wf_inventory_def
          list_all_iff)
  qed
  then have "list_all daily_check (daily (reserve_night p d db))"
    using wf by (auto simp: reserve_night_def set_update_rows wf_inventory_def list_all_iff)
  moreover have "map daily_key (daily (reserve_night p d db)) = map daily_key (daily db)"
    by (simp add: reserve_night_def daily_key_def)
  moreover have "lockUnits v e (reserve_night p d db) \<le> reservedAt v e (reserve_night p d db)" for v e
    using wf by (simp add: reserve_night_at [OF found] wf_inventory_def)
  moreover have "list_all lock_check (locks (reserve_night p d db))"
    using wf q by (simp add: reserve_night_def wf_inventory_def lock_check_def lock_row_of_def)
  ultimately show ?thesis using wf unfolding wf_inventory_def by metis
qed

section \<open>A whole stay\<close>

lemma hold_nights_effect:
  assumes "wf_inventory db" "0 < pr_quantity p" "hold_nights now p ds db = Inr db'" "distinct ds"
  shows "wf_inventory db' \<and> locks db' = locks db @ map (lock_row_of p) ds \<and>
    holds db' = holds db \<and> events db' = events db \<and> avail db' = avail db \<and>
    (\<forall>v d. reservedAt v d db' =
       reservedAt v d db + (if v = pr_variantId p \<and> d \<in> set ds then pr_quantity p else 0)) \<and>
    (\<forall>v d. totalAt v d db' = totalAt v d db) \<and>
    (\<forall>d \<in> set ds. reservedAt (pr_variantId p) d db + externalBlocks (pr_variantId p) d db
       + pr_quantity p \<le> totalAt (pr_variantId p) d db)"
  using assms
proof (induction ds arbitrary: db)
  case Nil
  then show ?case by simp
next
  case (Cons e ds)
  have fits: "night_fits now p e db" and rest: "hold_nights now p ds (reserve_night p e db) = Inr db'"
    using Cons.prems(3) hold_night_char [OF Cons.prems(1,2), of now e]
    by (auto split: if_splits)
  then have found: "find_daily (pr_variantId p) e db \<noteq> None" by (simp add: night_fits_def)
  have wf1: "wf_inventory (reserve_night p e db)"
    by (rule reserve_night_wf [OF Cons.prems(1,2) fits])
  have frame: "locks (reserve_night p e db) = locks db @ [lock_row_of p e]"
    "holds (reserve_night p e db) = holds db" "events (reserve_night p e db) = events db"
    "avail (reserve_night p e db) = avail db"
    by (simp_all add: reserve_night_def)
  have new: "e \<notin> set ds" "distinct ds" using Cons.prems(4) by auto
  note eff = Cons.IH [OF wf1 Cons.prems(2) rest new(2)]
  have "\<forall>d \<in> set (e # ds). reservedAt (pr_variantId p) d db + externalBlocks (pr_variantId p) d db
       + pr_quantity p \<le> totalAt (pr_variantId p) d db"
  proof
    fix d assume "d \<in> set (e # ds)"
    then consider "d = e" | "d \<in> set ds" "d \<noteq> e" using new by auto
    then show "reservedAt (pr_variantId p) d db + externalBlocks (pr_variantId p) d db
       + pr_quantity p \<le> totalAt (pr_variantId p) d db"
    proof cases
      case 1
      then show ?thesis using fits by (simp add: night_fits_def)
    next
      case 2
      then have "reservedAt (pr_variantId p) d (reserve_night p e db) +
          externalBlocks (pr_variantId p) d (reserve_night p e db) + pr_quantity p
          \<le> totalAt (pr_variantId p) d (reserve_night p e db)"
        using eff by blast
      then show ?thesis using 2 by (simp add: reserve_night_at [OF found])
    qed
  qed
  then show ?case
    using eff new by (auto simp: frame reserve_night_at [OF found])
qed

lemma insert_hold_frame:
  "insert_hold eng env p db = Inr db1 \<Longrightarrow>
     daily db1 = daily db \<and> locks db1 = locks db \<and> events db1 = events db \<and> avail db1 = avail db \<and>
     (db1 = db \<or> holds db1 = holds db @ [hold_row_of p])"
  by (auto simp: insert_hold_def Let_def split: option.splits tx_error.splits if_splits)

lemma same_tables_same_units:
  assumes "daily db1 = daily db" "locks db1 = locks db" "events db1 = events db"
  shows "wf_inventory db1 = wf_inventory db" "reservedAt v d db1 = reservedAt v d db"
    "totalAt v d db1 = totalAt v d db" "externalBlocks v d db1 = externalBlocks v d db"
    "lockUnits v d db1 = lockUnits v d db"
  using assms
  by (simp_all add: wf_inventory_def reservedAt_def totalAt_def externalBlocks_def lockUnits_def
      find_daily_def)

definition hold_effect :: "hold_params \<Rightarrow> inv_db \<Rightarrow> inv_db \<Rightarrow> bool" where
  "hold_effect p db db' \<longleftrightarrow>
     (let v = pr_variantId p; ds = datesInRange (pr_checkIn p) (pr_checkOut p) in
      wf_inventory db' \<and> ds \<noteq> [] \<and>
      locks db' = locks db @ map (lock_row_of p) ds \<and>
      (db' \<noteq> db \<and> holds db' = holds db @ [hold_row_of p] \<or> holds db' = holds db) \<and>
      events db' = events db \<and> avail db' = avail db \<and>
      (\<forall>w d. reservedAt w d db' =
         reservedAt w d db + (if w = v \<and> d \<in> set ds then pr_quantity p else 0)) \<and>
      (\<forall>w d. totalAt w d db' = totalAt w d db) \<and>
      (\<forall>d \<in> set ds. reservedAt v d db' + externalBlocks v d db \<le> totalAt v d db))"

lemma hold_transaction_effect:
  assumes wf: "wf_inventory db" and q: "0 < pr_quantity p"
    and ok: "hold_transaction eng env p db = Inr db'"
  shows "hold_effect p db db'"
proof -
  let ?ds = "datesInRange (pr_checkIn p) (pr_checkOut p)"
  obtain db1 where ne: "?ds \<noteq> []" and ins: "insert_hold eng env p db = Inr db1"
    and nights: "hold_nights (en_now env) p ?ds db1 = Inr db'"
    using ok by (auto simp: hold_transaction_def Let_def split: if_splits sum.splits option.splits)
  note fr = insert_hold_frame [OF ins]
  have same: "wf_inventory db1 = wf_inventory db"
    "reservedAt w d db1 = reservedAt w d db" "totalAt w d db1 = totalAt w d db"
    "externalBlocks w d db1 = externalBlocks w d db" for w d
    using same_tables_same_units [of db1 db] fr by auto
  have "wf_inventory db1" using wf same by simp
  from hold_nights_effect [OF this q nights distinct_datesInRange]
  have eff: "wf_inventory db'" "locks db' = locks db1 @ map (lock_row_of p) ?ds"
    "holds db' = holds db1" "events db' = events db1" "avail db' = avail db1"
    "\<forall>v d. reservedAt v d db' = reservedAt v d db1 +
       (if v = pr_variantId p \<and> d \<in> set ?ds then pr_quantity p else 0)"
    "\<forall>v d. totalAt v d db' = totalAt v d db1"
    "\<forall>d \<in> set ?ds. reservedAt (pr_variantId p) d db1 + externalBlocks (pr_variantId p) d db1
       + pr_quantity p \<le> totalAt (pr_variantId p) d db1"
    by blast+
  have "db' \<noteq> db" using eff(2) ne fr by auto
  then show ?thesis
    unfolding hold_effect_def Let_def using eff fr ne same by auto
qed

lemma hold_attempts_cases:
  assumes "hold_attempts eng envs p k left db = (res, db')"
  shows "(\<exists>j. hold_transaction eng (envs j) p db = Inr db' \<and>
      res = Inr (HoldTaken (pr_holdId p) (pr_expiresAt p))) \<or>
    (db' = db \<and> (res = Inr HoldNotAvailable \<or> (\<exists>e. res = Inl e)))"
  using assms
proof (induction left arbitrary: k)
  case 0
  then show ?case by simp
next
  case (Suc left)
  show ?case
  proof (cases "hold_transaction eng (envs k) p db")
    case (Inr x)
    then show ?thesis using Suc.prems by auto
  next
    case (Inl e)
    then show ?thesis using Suc by (cases e) (auto split: if_splits)
  qed
qed

lemma holdInventory_effect:
  assumes "wf_inventory db" "0 < pr_quantity p"
    and "holdInventory eng envs p db = (Inr (HoldTaken h t), db')"
  shows "h = pr_holdId p \<and> t = pr_expiresAt p \<and> hold_effect p db db'"
  using hold_attempts_cases [OF assms(3) [unfolded holdInventory_def]]
    hold_transaction_effect [OF assms(1,2)] by auto

text \<open>
  C2. Taking a hold. On success every night of the stay, and no other night, has the quantity added
  to its reserved count and carries one new unbooked lock, the capacity (with the external blocks) is
  respected, and totals, calendar events and materialized availability are untouched.
\<close>

theorem holdInventory_success:
  assumes "wf_inventory db" "0 < pr_quantity p"
    and "holdInventory eng envs p db = (Inr (HoldTaken h t), db')"
  shows "h = pr_holdId p \<and> t = pr_expiresAt p \<and> hold_effect p db db'"
  by (rule holdInventory_effect [OF assms])

theorem holdInventory_success_witness:
  "hold_effect example_params example_inv example_held"
  using holdInventory_success [OF example_inv_wf example_params_quantity example_hold_taken] by simp

text \<open>
  A hold that is not taken, whatever the reason (no capacity, missing night, duplicate id, busy or
  failing database, any number of retries), leaves every table as it was.
\<close>

theorem holdInventory_failure_atomic:
  assumes "holdInventory eng envs p db = (res, db')" "\<nexists>h t. res = Inr (HoldTaken h t)"
  shows "db' = db \<and> (res = Inr HoldNotAvailable \<or> (\<exists>e. res = Inl e))"
  using hold_attempts_cases [OF assms(1) [unfolded holdInventory_def]] assms(2) by auto

definition example_full :: hold_params where
  "example_full = example_params\<lparr>pr_quantity := 3\<rparr>"

theorem holdInventory_failure_atomic_witness:
  "holdInventory postgres_engine (\<lambda>_. quiet_env) example_full example_inv =
     (Inr HoldNotAvailable, example_inv)"
proof -
  have "fst (holdInventory postgres_engine (\<lambda>_. quiet_env) example_full example_inv) =
      Inr HoldNotAvailable"
    by code_simp
  then have run: "holdInventory postgres_engine (\<lambda>_. quiet_env) example_full example_inv =
      (Inr HoldNotAvailable,
       snd (holdInventory postgres_engine (\<lambda>_. quiet_env) example_full example_inv))"
    by (simp add: prod_eq_iff)
  from holdInventory_failure_atomic [OF run] show ?thesis using run by simp
qed

lemma holdInventory_wf [preserve]:
  assumes "wf_inventory db" "0 < pr_quantity p" "holdInventory eng envs p db = (res, db')"
  shows "wf_inventory db'"
  using hold_attempts_cases [OF assms(3) [unfolded holdInventory_def]]
    hold_transaction_effect [OF assms(1,2)] assms(1) unfolding hold_effect_def Let_def by auto

section \<open>The retry loop\<close>

definition busy :: "tx_error \<Rightarrow> bool" where
  "busy e \<longleftrightarrow> (\<exists>c m. e = DbError c m \<and> isSqliteBusy c m \<and> \<not> isUniqueHoldConflict m)"

lemma hold_attempts_skip:
  "(\<And>i. k \<le> i \<Longrightarrow> i < k + j \<Longrightarrow> \<exists>e. hold_transaction eng (envs i) p db = Inl e \<and> busy e) \<Longrightarrow>
    k + j \<le> 5 \<Longrightarrow> j \<le> left \<Longrightarrow>
    hold_attempts eng envs p k left db = hold_attempts eng envs p (k + j) (left - j) db"
proof (induction j arbitrary: k left)
  case 0
  then show ?case by simp
next
  case (Suc j)
  obtain e where "hold_transaction eng (envs k) p db = Inl e" "busy e"
    using Suc.prems(1) [of k] by auto
  moreover obtain l where l: "left = Suc l" using Suc.prems(3) by (cases left) auto
  moreover have "k < 5" using Suc.prems(2) by simp
  ultimately have "hold_attempts eng envs p k left db = hold_attempts eng envs p (Suc k) l db"
    by (auto simp: busy_def)
  also have "\<dots> = hold_attempts eng envs p (Suc k + j) (l - j) db"
    by (rule Suc.IH) (use Suc.prems l in auto)
  finally show ?case using l by simp
qed

text \<open>
  Busy databases are retried, at most five attempts in all: when the first \<open>j\<close> attempts fail busy
  and the next one does not (or is the fifth), the outcome is that of the next one. It succeeds, or
  every table is as it was and the answer is \<open>not_available\<close>, except that an error that is neither a
  duplicate nor busy is thrown to the caller.
\<close>

theorem holdInventory_retries_busy:
  assumes "j \<le> 4"
    and "\<forall>i. 1 \<le> i \<and> i \<le> j \<longrightarrow> (\<exists>e. hold_transaction eng (envs i) p db = Inl e \<and> busy e)"
    and "\<forall>e. hold_transaction eng (envs (Suc j)) p db = Inl e \<and> busy e \<longrightarrow> j = 4"
  shows "holdInventory eng envs p db =
    (case hold_transaction eng (envs (Suc j)) p db of
       Inr db' \<Rightarrow> (Inr (HoldTaken (pr_holdId p) (pr_expiresAt p)), db')
     | Inl NotAvailable \<Rightarrow> (Inr HoldNotAvailable, db)
     | Inl (DbError c m) \<Rightarrow>
         if isUniqueHoldConflict m \<or> isSqliteBusy c m then (Inr HoldNotAvailable, db)
         else (Inl (DbError c m), db))"
proof -
  have "hold_attempts eng envs p 1 5 db = hold_attempts eng envs p (1 + j) (5 - j) db"
    by (rule hold_attempts_skip) (use assms(1,2) in auto)
  moreover obtain l where "5 - j = Suc l" using assms(1) by (cases "5 - j") auto
  ultimately have skip: "holdInventory eng envs p db = hold_attempts eng envs p (Suc j) (Suc l) db"
    by (simp add: holdInventory_def)
  show ?thesis
    using assms(1,3) by (auto simp: skip busy_def split: sum.split tx_error.split)
qed

definition busy_once :: "nat \<Rightarrow> attempt_env" where
  "busy_once n = (if n \<le> 1
     then quiet_env\<lparr>en_commit_fault := Some (DbError ''SQLITE_BUSY'' ''database is locked'')\<rparr>
     else quiet_env)"

theorem holdInventory_retries_busy_witness:
  "fst (holdInventory sqlite_engine busy_once example_params example_inv) =
     Inr (HoldTaken ''h1'' 600000)"
proof -
  have first: "hold_transaction sqlite_engine (busy_once 1) example_params example_inv =
      Inl (DbError ''SQLITE_BUSY'' ''database is locked'')"
    by code_simp
  have busy: "busy (DbError ''SQLITE_BUSY'' ''database is locked'')"
    by (simp add: busy_def isSqliteBusy_def isUniqueHoldConflict_def)
  have second: "case hold_transaction sqlite_engine (busy_once (Suc 1)) example_params example_inv of
      Inl e \<Rightarrow> False | Inr db' \<Rightarrow> True"
    by code_simp
  then obtain db' where
    ok: "hold_transaction sqlite_engine (busy_once (Suc 1)) example_params example_inv = Inr db'"
    by (auto split: sum.splits)
  have "holdInventory sqlite_engine busy_once example_params example_inv =
      (Inr (HoldTaken (pr_holdId example_params) (pr_expiresAt example_params)), db')"
    using first busy ok
    by (subst holdInventory_retries_busy [of 1]) (auto simp: le_Suc_eq)
  then show ?thesis by (simp add: example_params_def)
qed

end
