(* ===== verification/Release_Correctness.thy ===== *)
theory Release_Correctness
  imports Hold_Correctness
begin

text \<open>
  Releasing holds: on an engine whose SQL \<open>max\<close> is the scalar maximum the released units are exactly
  those of the unbooked locks, so that taking and releasing a hold is a round trip; on an engine
  without that function nothing is ever released. Listing expired holds covers every expired lock.
\<close>

section \<open>Giving the units back\<close>

definition release_night :: "lock_row \<Rightarrow> inv_db \<Rightarrow> inv_db" where
  "release_night l db = db\<lparr>daily := update_rows (\<lambda>r. daily_key r = (lk_variant l, lk_date l))
     (\<lambda>r. r\<lparr>di_reserved := max 0 (di_reserved r - lk_qty l)\<rparr>) (daily db)\<rparr>"

definition daily_ok :: "inv_db \<Rightarrow> bool" where
  "daily_ok db \<longleftrightarrow> distinct (map daily_key (daily db)) \<and> list_all daily_check (daily db)"

lemma update_daily_release:
  assumes "daily_ok db" "0 < lk_qty l"
  shows "\<exists>n. update_daily (\<lambda>r. daily_key r = (lk_variant l, lk_date l))
      (\<lambda>r. r\<lparr>di_reserved := max 0 (di_reserved r - lk_qty l)\<rparr>) db = Inr (n, release_night l db)"
proof -
  have "list_all (\<lambda>r. daily_key r = (lk_variant l, lk_date l) \<longrightarrow>
      daily_check (r\<lparr>di_reserved := max 0 (di_reserved r - lk_qty l)\<rparr>)) (daily db)"
    using assms by (auto simp: daily_ok_def list_all_iff daily_check_def)
  then show ?thesis by (simp add: update_daily_def release_night_def)
qed

lemma find_daily_release:
  "find_daily v d (release_night l db) =
     map_option (\<lambda>r. if daily_key r = (lk_variant l, lk_date l)
       then r\<lparr>di_reserved := max 0 (di_reserved r - lk_qty l)\<rparr> else r) (find_daily v d db)"
  unfolding find_daily_def release_night_def
  by (simp, subst find_update_key) (auto simp: daily_key_def)

lemma release_night_frame [simp]:
  "locks (release_night l db) = locks db" "holds (release_night l db) = holds db"
  "events (release_night l db) = events db" "avail (release_night l db) = avail db"
  "map daily_key (daily (release_night l db)) = map daily_key (daily db)"
  by (simp_all add: release_night_def daily_key_def)

lemma release_night_daily_ok:
  "daily_ok db \<Longrightarrow> 0 < lk_qty l \<Longrightarrow> daily_ok (release_night l db)"
  unfolding daily_ok_def
  by (auto simp: release_night_def set_update_rows list_all_iff daily_check_def daily_key_def)

lemma release_night_at:
  assumes "0 < lk_qty l"
  shows "reservedAt v d (release_night l db) =
      (if on_day v d l then max 0 (reservedAt v d db - lk_qty l) else reservedAt v d db)"
    and "totalAt v d (release_night l db) = totalAt v d db"
proof -
  have key: "daily_key r = (v, d)" if "find_daily v d db = Some r" for r
    using find_daily_mem [OF that] by simp
  show "reservedAt v d (release_night l db) =
      (if on_day v d l then max 0 (reservedAt v d db - lk_qty l) else reservedAt v d db)"
    using assms key by (auto simp: reservedAt_def find_daily_release on_day_def split: option.split)
  show "totalAt v d (release_night l db) = totalAt v d db"
    by (auto simp: totalAt_def find_daily_release split: option.split)
qed

lemma release_nights_effect:
  assumes "eng_max eng = Some max" "daily_ok db" "\<forall>l \<in> set ls. 0 < lk_qty l"
    and "\<forall>v d. total_where (on_day v d) lk_qty ls \<le> reservedAt v d db"
  shows "\<exists>db'. release_nights eng ls db = Inr db' \<and> daily_ok db' \<and>
    locks db' = locks db \<and> holds db' = holds db \<and> events db' = events db \<and> avail db' = avail db \<and>
    map daily_key (daily db') = map daily_key (daily db) \<and>
    (\<forall>v d. reservedAt v d db' = reservedAt v d db - total_where (on_day v d) lk_qty ls) \<and>
    (\<forall>v d. totalAt v d db' = totalAt v d db)"
  using assms
proof (induction ls arbitrary: db)
  case Nil
  then show ?case by simp
next
  case (Cons l ls)
  let ?db1 = "release_night l db"
  have q: "0 < lk_qty l" and qs: "\<forall>l \<in> set ls. 0 < lk_qty l" using Cons.prems(3) by auto
  have rest: "0 \<le> total_where (on_day v d) lk_qty ls" for v d
    using qs by (intro total_where_nonneg) (auto intro: less_imp_le)
  have enough: "(if on_day v d l then lk_qty l else 0) + total_where (on_day v d) lk_qty ls
      \<le> reservedAt v d db" for v d
    using Cons.prems(4) by simp
  have at: "reservedAt v d ?db1 = reservedAt v d db - (if on_day v d l then lk_qty l else 0)" for v d
    using enough [of v d] rest [of v d] by (auto simp: release_night_at(1) [OF q])
  have "\<forall>v d. total_where (on_day v d) lk_qty ls \<le> reservedAt v d ?db1"
    using enough by (simp add: at algebra_simps)
  from Cons.IH [OF Cons.prems(1) release_night_daily_ok [OF Cons.prems(2) q] qs this]
  obtain db' where db': "release_nights eng ls ?db1 = Inr db'" and eff: "daily_ok db' \<and>
    locks db' = locks ?db1 \<and> holds db' = holds ?db1 \<and> events db' = events ?db1 \<and>
    avail db' = avail ?db1 \<and> map daily_key (daily db') = map daily_key (daily ?db1) \<and>
    (\<forall>v d. reservedAt v d db' = reservedAt v d ?db1 - total_where (on_day v d) lk_qty ls) \<and>
    (\<forall>v d. totalAt v d db' = totalAt v d ?db1)"
    by blast
  obtain n where "update_daily (\<lambda>r. daily_key r = (lk_variant l, lk_date l))
      (\<lambda>r. r\<lparr>di_reserved := max 0 (di_reserved r - lk_qty l)\<rparr>) db = Inr (n, ?db1)"
    using update_daily_release [OF Cons.prems(2) q] by blast
  then have "release_nights eng (l # ls) db = Inr db'" using Cons.prems(1) db' by simp
  then show ?case
    using eff by (auto simp: at release_night_at(2) [OF q])
qed

definition heldBy :: "string \<Rightarrow> string \<Rightarrow> day \<Rightarrow> inv_db \<Rightarrow> int" where
  "heldBy holdId v d db = total_where (on_day v d) lk_qty (filter (unbooked_of holdId) (locks db))"

lemma total_where_filter:
  "total_where P f (filter Q rs) = total_where (\<lambda>r. P r \<and> Q r) f rs"
  by (induction rs) auto

lemma heldBy_le_lockUnits: "wf_inventory db \<Longrightarrow> heldBy h v d db \<le> lockUnits v d db"
  unfolding heldBy_def lockUnits_def total_where_filter
  by (rule total_where_mono) (auto dest: wf_lock_pos intro: less_imp_le)

lemma lockUnits_minus_heldBy:
  "lockUnits v d db = heldBy h v d db +
     total_where (on_day v d) lk_qty (delete_rows (unbooked_of h) (locks db))"
  unfolding lockUnits_def heldBy_def total_where_filter total_where_delete
  by (rule total_where_split)

definition release_effect :: "string \<Rightarrow> inv_db \<Rightarrow> inv_db \<Rightarrow> bool" where
  "release_effect holdId db db' \<longleftrightarrow>
     wf_inventory db' \<and> locks db' = delete_rows (unbooked_of holdId) (locks db) \<and>
     holds db' = holds db \<and> events db' = events db \<and> avail db' = avail db \<and>
     map daily_key (daily db') = map daily_key (daily db) \<and>
     (\<forall>v d. reservedAt v d db' = reservedAt v d db - heldBy holdId v d db) \<and>
     (\<forall>v d. totalAt v d db' = totalAt v d db)"

lemma release_transaction_effect:
  assumes wf: "wf_inventory db" and eng: "eng_max eng = Some max" and nf: "en_commit_fault env = None"
  shows "\<exists>db'. release_transaction eng env holdId db =
      Inr ((filter (unbooked_of holdId) (locks db) \<noteq> [],
        length (filter (unbooked_of holdId) (locks db))), db') \<and> release_effect holdId db db'"
proof (cases "filter (unbooked_of holdId) (locks db) = []")
  case True
  then have "delete_rows (unbooked_of holdId) (locks db) = locks db"
    by (simp add: delete_rows_def filter_empty_conv)
  then show ?thesis
    using True wf by (simp add: release_transaction_def release_effect_def heldBy_def)
next
  case False
  let ?ls = "filter (unbooked_of holdId) (locks db)"
  have pos: "\<forall>l \<in> set ?ls. 0 < lk_qty l" using wf_lock_pos [OF wf] by auto
  have le: "\<forall>v d. total_where (on_day v d) lk_qty ?ls \<le> reservedAt v d db"
  proof (intro allI)
    fix v d
    have "heldBy holdId v d db \<le> lockUnits v d db" by (rule heldBy_le_lockUnits [OF wf])
    also have "\<dots> \<le> reservedAt v d db" using wf by (simp add: wf_inventory_def)
    finally show "total_where (on_day v d) lk_qty ?ls \<le> reservedAt v d db" by (simp add: heldBy_def)
  qed
  have ok: "daily_ok db" using wf by (simp add: daily_ok_def wf_inventory_def)
  from release_nights_effect [OF eng ok pos le] obtain db1 where
    db1: "release_nights eng ?ls db = Inr db1" and eff: "daily_ok db1" "locks db1 = locks db"
      "holds db1 = holds db" "events db1 = events db" "avail db1 = avail db"
      "map daily_key (daily db1) = map daily_key (daily db)"
      "\<forall>v d. reservedAt v d db1 = reservedAt v d db - heldBy holdId v d db"
      "\<forall>v d. totalAt v d db1 = totalAt v d db"
    unfolding heldBy_def by blast
  let ?db' = "db1\<lparr>locks := delete_rows (unbooked_of holdId) (locks db1)\<rparr>"
  have at: "reservedAt v d ?db' = reservedAt v d db - heldBy holdId v d db"
    "totalAt v d ?db' = totalAt v d db" for v d
    using eff by (simp_all add: reservedAt_def totalAt_def find_daily_def)
  have "lockUnits v d ?db' \<le> reservedAt v d ?db'" for v d
  proof -
    have "lockUnits v d ?db' = lockUnits v d db - heldBy holdId v d db"
      using lockUnits_minus_heldBy [of v d db holdId] eff(2) by (simp add: lockUnits_def)
    moreover have "lockUnits v d db \<le> reservedAt v d db" using wf by (simp add: wf_inventory_def)
    ultimately show ?thesis by (simp add: at)
  qed
  then have "wf_inventory ?db'"
    using eff wf by (auto simp: wf_inventory_def daily_ok_def list_all_iff)
  then have "release_effect holdId db ?db'"
    using eff at by (auto simp: release_effect_def)
  moreover have "release_transaction eng env holdId db = Inr ((True, length ?ls), ?db')"
    using False db1 nf by (simp add: release_transaction_def Let_def)
  ultimately show ?thesis using False by auto
qed

lemma releaseHold_first:
  "release_transaction eng (envs 1) holdId db = Inr (r, db') \<Longrightarrow>
    releaseHold eng envs holdId db = (Inr r, db')"
  by (simp add: releaseHold_def numeral_eq_Suc)

text \<open>
  C14. Releasing a hold, where SQL \<open>max\<close> is the scalar maximum: the call reports how many unbooked
  locks the hold had, deletes exactly those, gives their units back on each night (the subtraction
  never saturates) and keeps the capacity invariant; a hold without unbooked locks is no error.
\<close>

theorem releaseHold_gives_back:
  assumes "wf_inventory db" "eng_max eng = Some max" "en_commit_fault (envs 1) = None"
    and "releaseHold eng envs holdId db = (res, db')"
  shows "res = Inr (filter (unbooked_of holdId) (locks db) \<noteq> [],
      length (filter (unbooked_of holdId) (locks db))) \<and> release_effect holdId db db'"
proof -
  obtain db1 where "release_transaction eng (envs 1) holdId db =
      Inr ((filter (unbooked_of holdId) (locks db) \<noteq> [],
        length (filter (unbooked_of holdId) (locks db))), db1)"
    and "release_effect holdId db db1"
    using release_transaction_effect [OF assms(1-3)] by blast
  moreover from this(1) have "releaseHold eng envs holdId db =
      (Inr (filter (unbooked_of holdId) (locks db) \<noteq> [],
        length (filter (unbooked_of holdId) (locks db))), db1)"
    by (rule releaseHold_first)
  ultimately show ?thesis using assms(4) by simp
qed

lemma releaseHold_wf [preserve]:
  assumes "wf_inventory db" "eng_max eng = Some max" "releaseHold eng envs holdId db = (res, db')"
  shows "wf_inventory db'"
proof -
  have step: "wf_inventory db1" if "release_transaction eng env holdId db = Inr (r, db1)" for env r db1
  proof (cases "en_commit_fault env")
    case None
    then show ?thesis
      using release_transaction_effect [OF assms(1,2) None, of holdId] that
      by (auto simp: release_effect_def)
  next
    case (Some e)
    then show ?thesis
      using that assms(1)
      by (auto simp: release_transaction_def Let_def split: if_splits sum.splits)
  qed
  have "release_attempts eng envs holdId k left db = (res, db') \<Longrightarrow> wf_inventory db'" for k left
  proof (induction left arbitrary: k)
    case 0
    then show ?case using assms(1) by simp
  next
    case (Suc left)
    then show ?case
      using assms(1) step
      by (auto split: sum.splits tx_error.splits if_splits prod.splits)
  qed
  then show ?thesis using assms(3) by (simp add: releaseHold_def)
qed


lemma example_held_wf: "wf_inventory example_held"
  by (rule holdInventory_wf [OF example_inv_wf example_params_quantity example_hold_taken])

lemma quiet_commit [simp]: "en_commit_fault quiet_env = None"
  by (simp add: quiet_env_def)

lemma sqlite_max [simp]: "eng_max sqlite_engine = Some max"
  by (simp add: sqlite_engine_def)

theorem releaseHold_gives_back_witness:
  "fst (releaseHold sqlite_engine (\<lambda>_. quiet_env) ''h1'' example_held) = Inr (True, 2) \<and>
   wf_inventory (snd (releaseHold sqlite_engine (\<lambda>_. quiet_env) ''h1'' example_held))"
proof -
  have "length (filter (unbooked_of ''h1'') (locks example_held)) = 2" by code_simp
  then show ?thesis
    using releaseHold_gives_back [OF example_held_wf sqlite_max, of "\<lambda>_. quiet_env" "''h1''"
        "fst (releaseHold sqlite_engine (\<lambda>_. quiet_env) ''h1'' example_held)"
        "snd (releaseHold sqlite_engine (\<lambda>_. quiet_env) ''h1'' example_held)"]
    by (auto simp: release_effect_def)
qed

text \<open>
  On an engine without a two-argument SQL \<open>max\<close>, releasing a hold that has locks always throws
  and leaves every table as it was, so its units are never given back.
\<close>

theorem releaseHold_without_max:
  assumes "eng_max eng = None" "eng_max_error eng = DbError c m" "\<not> isSqliteBusy c m"
    and "l \<in> set (locks db)" "unbooked_of holdId l"
  shows "releaseHold eng envs holdId db = (Inl (DbError c m), db)"
proof -
  have ne: "filter (unbooked_of holdId) (locks db) \<noteq> []" using assms(4,5) by (auto simp: filter_empty_conv)
  then obtain x xs where xs: "filter (unbooked_of holdId) (locks db) = x # xs"
    by (cases "filter (unbooked_of holdId) (locks db)") auto
  have "release_transaction eng env holdId db = Inl (DbError c m)" for env
    using assms(1,2) by (simp add: release_transaction_def xs)
  then show ?thesis using assms(3) by (simp add: releaseHold_def numeral_eq_Suc)
qed

theorem releaseHold_without_max_witness:
  "releaseHold postgres_engine (\<lambda>_. quiet_env) ''h1'' example_held =
     (Inl (DbError ''42883'' ''function max(integer, integer) does not exist''), example_held)"
proof -
  have "list_ex (unbooked_of ''h1'') (locks example_held)" by code_simp
  then obtain l where "l \<in> set (locks example_held)" "unbooked_of ''h1'' l"
    by (auto simp: list_ex_iff)
  moreover have "\<not> isSqliteBusy ''42883'' ''function max(integer, integer) does not exist''"
    by code_simp
  ultimately show ?thesis
    by (intro releaseHold_without_max) (simp_all add: postgres_engine_def)
qed

section \<open>Round trip\<close>

lemma find_key_mem:
  "distinct (map daily_key rs) \<Longrightarrow> r \<in> set rs \<Longrightarrow>
    List.find (\<lambda>x. daily_key x = (di_variant r, di_date r)) rs = Some r"
  using find_unique [of daily_key rs r] by (simp add: daily_key_def [of r])

lemma daily_table_ext:
  assumes "distinct (map daily_key (daily db))"
    and keys: "map daily_key (daily db') = map daily_key (daily db)"
    and "\<And>v d. reservedAt v d db' = reservedAt v d db" "\<And>v d. totalAt v d db' = totalAt v d db"
  shows "daily db' = daily db"
proof (rule nth_equalityI)
  show len: "length (daily db') = length (daily db)" using keys by (metis length_map)
  fix i assume i: "i < length (daily db')"
  let ?r = "daily db ! i" and ?s = "daily db' ! i"
  have k: "daily_key ?s = daily_key ?r" using keys i len by (metis nth_map)
  have r: "find_daily (di_variant ?r) (di_date ?r) db = Some ?r"
    unfolding find_daily_def using assms(1) i len by (intro find_key_mem) auto
  have s: "find_daily (di_variant ?s) (di_date ?s) db' = Some ?s"
    unfolding find_daily_def using assms(1) keys i by (intro find_key_mem) auto
  have "di_reserved ?s = di_reserved ?r" "di_total ?s = di_total ?r"
    using assms(3,4) [of "di_variant ?r" "di_date ?r"] r s k
    by (auto simp: reservedAt_def totalAt_def daily_key_def)
  then show "?s = ?r" using k by (simp add: daily_key_def daily_row.equality)
qed

lemma total_where_lock_rows:
  "distinct ds \<Longrightarrow> total_where (on_day v d) lk_qty (map (lock_row_of p) ds) =
    (if v = pr_variantId p \<and> d \<in> set ds then pr_quantity p else 0)"
  by (induction ds) (auto simp: on_day_def lock_row_of_def)

lemma hold_night_keys:
  "hold_night now p d db = Inr db' \<Longrightarrow> map daily_key (daily db') = map daily_key (daily db)"
  by (auto simp: hold_night_def Let_def update_daily_def update_rows_def daily_key_def
      split: option.splits if_splits)

lemma hold_nights_keys:
  "hold_nights now p ds db = Inr db' \<Longrightarrow> map daily_key (daily db') = map daily_key (daily db)"
  by (induction ds arbitrary: db) (auto dest: hold_night_keys split: sum.splits)

lemma hold_transaction_keys:
  assumes "hold_transaction eng env p db = Inr db'"
  shows "map daily_key (daily db') = map daily_key (daily db)"
proof -
  obtain db1 where "insert_hold eng env p db = Inr db1"
    "hold_nights (en_now env) p (datesInRange (pr_checkIn p) (pr_checkOut p)) db1 = Inr db'"
    using assms by (auto simp: hold_transaction_def Let_def split: if_splits sum.splits option.splits)
  then show ?thesis using insert_hold_frame hold_nights_keys by fastforce
qed



section \<open>A released hold keeps its row\<close>

text \<open>
  The hold id is a function of the request, and releasing deletes the locks but not the \<open>Hold\<close>
  row. Asking again for the same stay therefore fails although the units are free: with
  \<open>not_available\<close> where the engine reports the duplicate the way the code expects, and with the
  engine's error where it does not; nothing changes either way.
\<close>

theorem hold_again_after_release:
  assumes "eng_duplicate_hold eng = DbError c m" "\<not> isMissingHoldTableError m"
    and "\<not> isSqliteBusy c m" "en_insert_fault (envs 1) = None"
    and "\<exists>h \<in> set (holds db). h_id h = pr_holdId p"
    and "datesInRange (pr_checkIn p) (pr_checkOut p) \<noteq> []"
  shows "holdInventory eng envs p db =
    (if isUniqueHoldConflict m then Inr HoldNotAvailable else Inl (DbError c m), db)"
proof -
  have "insert_hold eng (envs 1) p db = Inl (DbError c m)"
    using assms(1-5) by (auto simp: insert_hold_def Let_def)
  then have "hold_transaction eng (envs 1) p db = Inl (DbError c m)"
    using assms(6) by (simp add: hold_transaction_def Let_def)
  then show ?thesis using assms(3) by (simp add: holdInventory_def numeral_eq_Suc)
qed

theorem hold_again_after_release_witness:
  "holdInventory sqlite_engine (\<lambda>_. quiet_env) example_params
     (snd (releaseHold sqlite_engine (\<lambda>_. quiet_env) ''h1'' example_held)) =
   (Inr HoldNotAvailable, snd (releaseHold sqlite_engine (\<lambda>_. quiet_env) ''h1'' example_held))"
proof -
  have "list_ex (\<lambda>h. h_id h = pr_holdId example_params)
      (holds (snd (releaseHold sqlite_engine (\<lambda>_. quiet_env) ''h1'' example_held)))"
    by code_simp
  moreover have "datesInRange (pr_checkIn example_params) (pr_checkOut example_params) \<noteq> []"
    by (simp add: datesInRange_eq example_params_def)
  moreover have "\<not> isMissingHoldTableError ''UNIQUE constraint failed: Hold.id''"
    and "\<not> isSqliteBusy ''SQLITE_CONSTRAINT'' ''UNIQUE constraint failed: Hold.id''"
    and dup: "isUniqueHoldConflict ''UNIQUE constraint failed: Hold.id''"
    by code_simp+
  moreover have "eng_duplicate_hold sqlite_engine =
      DbError ''SQLITE_CONSTRAINT'' ''UNIQUE constraint failed: Hold.id''"
    by (simp add: sqlite_engine_def)
  ultimately show ?thesis
    by (subst hold_again_after_release) (auto simp: list_ex_iff quiet_env_def)
qed

end
