(* ===== verification/Availability.thy ===== *)
theory Availability
  imports Release_Correctness
begin

text \<open>
  Materialized availability: the recompute use case
  (\<open>application/use-cases/recompute-effective-availability-range.ts\<close>), parameterized as the code by
  its \<open>RecomputeDeps\<close>, and the repository that implements them
  (\<open>infrastructure/repositories/InventoryRecomputeRepository.ts\<close>). The interface between the two is
  the locale \<open>recompute_store\<close>.
\<close>

section \<open>Dates in requests and failures\<close>

text \<open>A date text of a request: an ISO day, or a text that is no date.\<close>

datatype date_text = Iso day | NotIso string

fun date_blank :: "date_text \<Rightarrow> bool" where
  "date_blank (Iso d) = False"
| "date_blank (NotIso s) = (s = [])"

fun date_time :: "date_text \<Rightarrow> ms option" where
  "date_time (Iso d) = Some (parseDateOnly d)"
| "date_time (NotIso s) = None"

text \<open>What a use case throws: an error of its own, or one of the store.\<close>

datatype failure = Thrown string | Store tx_error

fun failure_message :: "failure \<Rightarrow> string" where
  "failure_message (Thrown m) = m"
| "failure_message (Store NotAvailable) = ''not_available''"
| "failure_message (Store (DbError c m)) = m"

fun failure_code :: "failure \<Rightarrow> string" where
  "failure_code (Store (DbError c m)) = c"
| "failure_code _ = []"

definition isSqliteBusyError :: "failure \<Rightarrow> bool" where
  "isSqliteBusyError e \<longleftrightarrow>
     failure_code e = ''SQLITE_BUSY'' \<or> failure_code e = ''SQLITE_BUSY_SNAPSHOT'' \<or>
     str_includes (failure_message e) ''SQLITE_BUSY'' \<or>
     str_includes (failure_message e) ''database is locked''"

section \<open>The recompute use case\<close>

record lock_view =
  lv_date :: day
  lv_quantity :: int
  lv_expiresAt :: ms
  lv_bookingId :: "string option"

record 's recompute_deps =
  rd_daily :: "string \<Rightarrow> day \<Rightarrow> day \<Rightarrow> 's \<Rightarrow> (day \<times> int) list"
  rd_locks :: "string \<Rightarrow> day \<Rightarrow> day \<Rightarrow> 's \<Rightarrow> lock_view list"
  rd_blocks :: "(string \<Rightarrow> day \<Rightarrow> day \<Rightarrow> 's \<Rightarrow> (day \<times> int) list) option"
  rd_upsert :: "avail_row list \<Rightarrow> 's \<Rightarrow> tx_error + 's"

text \<open>
  The environment of a call: for each attempt the two clock readings, the fault its loads raise, and
  whether the time budget is spent when the attempt has failed.
\<close>

record recompute_env =
  re_now :: "nat \<Rightarrow> ms"
  re_computedAt :: "nat \<Rightarrow> ms"
  re_fault :: "nat \<Rightarrow> tx_error option"
  re_timeout :: "nat \<Rightarrow> bool"

record recompute_input =
  ri_variantId :: string
  ri_from :: date_text
  ri_to :: date_text
  ri_reason :: string
  ri_idempotencyKey :: "string option"

record recompute_result =
  rr_days :: nat
  rr_computedAt :: ms
  rr_retries :: nat

definition truthy :: "string option \<Rightarrow> bool" where
  "truthy s \<longleftrightarrow> s \<noteq> None \<and> s \<noteq> Some []"

definition bump :: "day \<Rightarrow> int \<Rightarrow> (day \<times> int) list \<Rightarrow> (day \<times> int) list" where
  "bump d q m = map_set d ((case map_of m d of None \<Rightarrow> 0 | Some n \<Rightarrow> n) + q) m"

fun tally_locks ::
  "ms \<Rightarrow> lock_view list \<Rightarrow> (day \<times> int) list \<Rightarrow> (day \<times> int) list \<Rightarrow> (day \<times> int) list \<times> (day \<times> int) list"
  where
  "tally_locks now [] held booked = (held, booked)"
| "tally_locks now (l # ls) held booked =
     (let quantity = max 0 (lv_quantity l)
      in if quantity \<le> 0 then tally_locks now ls held booked
         else if truthy (lv_bookingId l)
           then tally_locks now ls held (bump (lv_date l) quantity booked)
         else if now < lv_expiresAt l
           then tally_locks now ls (bump (lv_date l) quantity held) booked
         else tally_locks now ls held booked)"

fun tally_blocks :: "(day \<times> int) list \<Rightarrow> (day \<times> int) list \<Rightarrow> (day \<times> int) list" where
  "tally_blocks [] m = m"
| "tally_blocks ((d, q) # bs) m =
     (let quantity = max 0 q
      in if quantity \<le> 0 then tally_blocks bs m else tally_blocks bs (bump d quantity m))"

definition units_on :: "(day \<times> int) list \<Rightarrow> day \<Rightarrow> int" where
  "units_on m d = max 0 (case map_of m d of None \<Rightarrow> 0 | Some n \<Rightarrow> n)"

definition availability_row ::
  "string \<Rightarrow> ms \<Rightarrow> (day \<times> int) list \<Rightarrow> (day \<times> int) list \<Rightarrow> (day \<times> int) list \<Rightarrow> (day \<times> int) list
     \<Rightarrow> (string \<Rightarrow> day \<Rightarrow> string) \<Rightarrow> day \<Rightarrow> avail_row" where
  "availability_row v computedAt dailyByDate held booked blocked rowId d =
     (let totalUnits = (case map_of dailyByDate d of None \<Rightarrow> 0 | Some n \<Rightarrow> n);
          heldUnits = units_on held d; bookedUnits = units_on booked d;
          externalBlockedUnits = units_on blocked d
      in \<lparr>ea_id = rowId v d, ea_variant = v, ea_date = d, ea_total = totalUnits,
          ea_held = heldUnits, ea_booked = bookedUnits, ea_external = externalBlockedUnits,
          ea_available = max 0 (totalUnits - heldUnits - bookedUnits - externalBlockedUnits),
          ea_computedAt = computedAt\<rparr>)"

text \<open>
  The body of one attempt, from the loads to the rows. \<open>rowId\<close> is the text
  \<open>ea_<variant>_<date>\<close>.
\<close>

definition recompute_rows ::
  "'s recompute_deps \<Rightarrow> (string \<Rightarrow> day \<Rightarrow> string) \<Rightarrow> ms \<Rightarrow> ms \<Rightarrow> string \<Rightarrow> day \<Rightarrow> day \<Rightarrow> 's
     \<Rightarrow> avail_row list" where
  "recompute_rows deps rowId now computedAt v from til s =
     (let dates = enumerateDates (parseDateOnly from) (parseDateOnly til);
          dailyRows = rd_daily deps v from til s;
          lockRows = rd_locks deps v from til s;
          externalBlockRows = (case rd_blocks deps of None \<Rightarrow> [] | Some load \<Rightarrow> load v from til s);
          dailyByDate = rev (map (\<lambda>(d, n). (d, max 0 n)) dailyRows);
          (held, booked) = tally_locks now lockRows [] [];
          blocked = tally_blocks externalBlockRows []
      in map (availability_row v computedAt dailyByDate held booked blocked rowId) dates)"

fun recompute_attempts ::
  "'s recompute_deps \<Rightarrow> (string \<Rightarrow> day \<Rightarrow> string) \<Rightarrow> recompute_env \<Rightarrow> string \<Rightarrow> day \<Rightarrow> day \<Rightarrow> nat \<Rightarrow> nat
     \<Rightarrow> 's \<Rightarrow> (failure + recompute_result) \<times> 's" where
  "recompute_attempts deps rowId env v from til attempt 0 s = (Inl (Thrown ''recompute_failed''), s)"
| "recompute_attempts deps rowId env v from til attempt (Suc left) s =
     (let rows = recompute_rows deps rowId (re_now env attempt) (re_computedAt env attempt) v from til s
      in case (case re_fault env attempt of Some e \<Rightarrow> Inl e | None \<Rightarrow> rd_upsert deps rows s) of
           Inr s' \<Rightarrow> (Inr \<lparr>rr_days = length rows, rr_computedAt = re_computedAt env attempt,
               rr_retries = attempt - 1\<rparr>, s')
         | Inl e \<Rightarrow>
             if re_timeout env attempt then (Inl (Thrown ''recompute_retry_timeout''), s)
             else if \<not> isSqliteBusyError (Store e) \<or> 5 \<le> attempt then (Inl (Store e), s)
             else recompute_attempts deps rowId env v from til (Suc attempt) left s)"

definition recomputeEffectiveAvailabilityRange ::
  "'s recompute_deps \<Rightarrow> (string \<Rightarrow> day \<Rightarrow> string) \<Rightarrow> recompute_env \<Rightarrow> recompute_input \<Rightarrow> 's
     \<Rightarrow> (failure + recompute_result) \<times> 's" where
  "recomputeEffectiveAvailabilityRange deps rowId env input s =
     (if ri_variantId input = [] \<or> date_blank (ri_from input) \<or> date_blank (ri_to input) \<or>
         ri_reason input = [] \<or> ri_idempotencyKey input = Some []
      then (Inl (Thrown ''ZodError''), s)
      else case (ri_from input, ri_to input) of
          (Iso from, Iso til) \<Rightarrow>
            if parseDateOnly til \<le> parseDateOnly from then (Inl (Thrown ''invalid_date_range''), s)
            else recompute_attempts deps rowId env (ri_variantId input) from til 1 5 s
        | _ \<Rightarrow> (Inl (Thrown ''invalid_date_range''), s))"

section \<open>The repository\<close>

definition loadDailyInventoryRange :: "string \<Rightarrow> day \<Rightarrow> day \<Rightarrow> inv_db \<Rightarrow> (day \<times> int) list" where
  "loadDailyInventoryRange v from til db =
     map (\<lambda>r. (di_date r, di_total r))
       (filter (\<lambda>r. di_variant r = v \<and> from \<le> di_date r \<and> di_date r < til) (daily db))"

definition loadInventoryLocksRange :: "string \<Rightarrow> day \<Rightarrow> day \<Rightarrow> inv_db \<Rightarrow> lock_view list" where
  "loadInventoryLocksRange v from til db =
     map (\<lambda>l. \<lparr>lv_date = lk_date l, lv_quantity = lk_qty l, lv_expiresAt = lk_expires l,
         lv_bookingId = lk_booking l\<rparr>)
       (filter (\<lambda>l. lk_variant l = v \<and> from \<le> lk_date l \<and> lk_date l < til \<and> lk_hold l \<noteq> None)
         (locks db))"

text \<open>A blocked unit is the event's resource, or the event itself where it names none.\<close>

definition unit_key :: "calendar_event \<Rightarrow> string" where
  "unit_key e =
     (if truthy (ev_resource e) then ''resource:'' @ the (ev_resource e)
      else ''event:'' @ ev_calendar e @ '':'' @ ev_id e)"

definition add_unit :: "string \<Rightarrow> day \<Rightarrow> (day \<times> string list) list \<Rightarrow> (day \<times> string list) list" where
  "add_unit k d m =
     (let units = (case map_of m d of None \<Rightarrow> [] | Some ks \<Rightarrow> ks)
      in map_set d (if k \<in> set units then units else units @ [k]) m)"

definition event_dates :: "day \<Rightarrow> day \<Rightarrow> calendar_event \<Rightarrow> day list" where
  "event_dates from til e =
     (let rangeStart = parseDateOnly from; rangeEnd = parseDateOnly til;
          start = parseDateOnly (ev_start e); eventEnd = parseDateOnly (ev_end e);
          cursor = (if start < rangeStart then rangeStart else start);
          end = (if eventEnd < rangeEnd then eventEnd else rangeEnd)
      in enumerateDates cursor end)"

definition loadExternalCalendarBlocksRange ::
  "string \<Rightarrow> day \<Rightarrow> day \<Rightarrow> inv_db \<Rightarrow> (day \<times> int) list" where
  "loadExternalCalendarBlocksRange v from til db =
     (let rows = filter (\<lambda>e. ev_variant e = v \<and> ev_active e \<and> ev_start e < til \<and> from < ev_end e)
            (events db);
          unitsByDate = fold (\<lambda>e. fold (add_unit (unit_key e)) (event_dates from til e)) rows []
      in map (\<lambda>(d, units). (d, int (length units))) unitsByDate)"

definition avail_key :: "avail_row \<Rightarrow> string \<times> day" where
  "avail_key r = (ea_variant r, ea_date r)"

definition avail_check :: "avail_row \<Rightarrow> bool" where
  "avail_check r \<longleftrightarrow> 0 \<le> ea_total r \<and> 0 \<le> ea_held r \<and> 0 \<le> ea_booked r \<and> 0 \<le> ea_external r \<and>
     0 \<le> ea_available r"

definition find_avail :: "string \<Rightarrow> day \<Rightarrow> inv_db \<Rightarrow> avail_row option" where
  "find_avail v d db = List.find (\<lambda>r. avail_key r = (v, d)) (avail db)"

definition upsert_avail :: "avail_row \<Rightarrow> avail_row list \<Rightarrow> avail_row list" where
  "upsert_avail r rs =
     (case List.find (\<lambda>x. avail_key x = avail_key r) rs of
        None \<Rightarrow> rs @ [r]
      | Some _ \<Rightarrow> update_rows (\<lambda>x. avail_key x = avail_key r) (\<lambda>x. r\<lparr>ea_id := ea_id x\<rparr>) rs)"

definition upsertEffectiveAvailabilityRows :: "avail_row list \<Rightarrow> inv_db \<Rightarrow> tx_error + inv_db" where
  "upsertEffectiveAvailabilityRows rows db =
     (if rows = [] then Inr db
      else if \<not> list_all avail_check rows
        then Inl (DbError ''23514'' ''EffectiveAvailability_nonnegative_check'')
      else Inr (db\<lparr>avail := fold upsert_avail rows (avail db)\<rparr>))"

text \<open>The dependencies the public entry points wire, and those of the internal default.\<close>

definition public_deps :: "inv_db recompute_deps" where
  "public_deps = \<lparr>rd_daily = loadDailyInventoryRange, rd_locks = loadInventoryLocksRange,
     rd_blocks = Some loadExternalCalendarBlocksRange, rd_upsert = upsertEffectiveAvailabilityRows\<rparr>"

definition internal_deps :: "inv_db recompute_deps" where
  "internal_deps = \<lparr>rd_daily = loadDailyInventoryRange, rd_locks = loadInventoryLocksRange,
     rd_blocks = None, rd_upsert = upsertEffectiveAvailabilityRows\<rparr>"

end
