(* ===== verification/Availability_Correctness.thy ===== *)
theory Availability_Correctness
  imports Availability
begin

text \<open>
  The interface between the recompute use case and its store, with the client lemma that what is
  materialized is what was computed from the loads; the repository's loads as aggregates of the
  tables; and together, what the materialized availability of a night is.
\<close>

section \<open>The store interface\<close>

locale recompute_store =
  fixes deps :: "'s recompute_deps"
    and lookup :: "string \<Rightarrow> day \<Rightarrow> 's \<Rightarrow> avail_row option"
  assumes upsert_ok: "list_all avail_check rows \<Longrightarrow> \<exists>s'. rd_upsert deps rows s = Inr s'"
    and lookup_upsert: "distinct (map avail_key rows) \<Longrightarrow> rd_upsert deps rows s = Inr s' \<Longrightarrow>
      lookup v d s' = (case List.find (\<lambda>r. avail_key r = (v, d)) rows of
          None \<Rightarrow> lookup v d s
        | Some r \<Rightarrow> Some (r\<lparr>ea_id := (case lookup v d s of None \<Rightarrow> ea_id r | Some x \<Rightarrow> ea_id x)\<rparr>))"

lemma find_map: "List.find P (map f xs) = map_option f (List.find (P \<circ> f) xs)"
  by (induction xs) auto

lemma find_eq: "List.find (\<lambda>x. x = a) xs = (if a \<in> set xs then Some a else None)"
  by (induction xs) auto

lemma availability_row_key [simp]:
  "avail_key (availability_row v t dm h b x rowId d) = (v, d)"
  by (simp add: availability_row_def avail_key_def Let_def)

lemma availability_row_id [simp]: "ea_id (availability_row v t dm h b x rowId d) = rowId v d"
  by (simp add: availability_row_def Let_def)

lemma recompute_rows_form:
  "\<exists>dm h b x. recompute_rows deps rowId now t v lo hi s =
     map (availability_row v t dm h b x rowId) [lo..hi - 1]"
  unfolding recompute_rows_def Let_def enumerateDates_days
  by (cases "tally_locks now (rd_locks deps v lo hi s) [] []") (simp, blast)

context recompute_store
begin

lemma upsert_days:
  assumes "rows = map (availability_row v t dm h b x rowId) [lo..hi - 1]"
    and "rd_upsert deps rows s = Inr s'"
  shows "lookup w d s' =
    (if w = v \<and> lo \<le> d \<and> d < hi
     then Some ((availability_row v t dm h b x rowId d)
       \<lparr>ea_id := (case lookup v d s of None \<Rightarrow> rowId v d | Some y \<Rightarrow> ea_id y)\<rparr>)
     else lookup w d s)"
proof -
  have dist: "distinct (map avail_key rows)"
    by (simp add: assms(1) o_def distinct_map inj_on_def)
  have find: "List.find (\<lambda>r. avail_key r = (w, d)) rows =
      (if w = v \<and> lo \<le> d \<and> d < hi then Some (availability_row v t dm h b x rowId d) else None)"
    by (auto simp: assms(1) find_map o_def find_eq find_None_all)
  show ?thesis
    using lookup_upsert [OF dist assms(2), of w d] by (auto simp: find split: option.split)
qed

lemma recompute_lookup:
  assumes "recomputeEffectiveAvailabilityRange deps rowId env input s = (Inr res, s')"
  shows "\<exists>lo hi k. ri_from input = Iso lo \<and> ri_to input = Iso hi \<and> lo < hi \<and> 1 \<le> k \<and> k \<le> 5 \<and>
    rr_retries res = k - 1 \<and> rr_days res = nat (hi - lo) \<and>
    (\<forall>w d. lookup w d s' =
      (if w = ri_variantId input \<and> lo \<le> d \<and> d < hi
       then Some ((recompute_rows deps rowId (re_now env k) (re_computedAt env k)
           (ri_variantId input) lo hi s ! nat (d - lo))
         \<lparr>ea_id := (case lookup w d s of None \<Rightarrow> rowId w d | Some y \<Rightarrow> ea_id y)\<rparr>)
       else lookup w d s))"
proof -
  let ?v = "ri_variantId input"
  obtain lo hi where dates: "ri_from input = Iso lo" "ri_to input = Iso hi" "lo < hi"
    and run: "recompute_attempts deps rowId env ?v lo hi 1 5 s = (Inr res, s')"
    using assms
    by (auto simp: recomputeEffectiveAvailabilityRange_def not_le split: if_splits date_text.splits)
  have "\<exists>k. k0 \<le> k \<and> k < k0 + left \<and> rr_retries res = k - 1 \<and>
      (let rows = recompute_rows deps rowId (re_now env k) (re_computedAt env k) ?v lo hi s in
       rr_days res = length rows \<and> rd_upsert deps rows s = Inr s')"
    if "recompute_attempts deps rowId env ?v lo hi k0 left s = (Inr res, s')" for k0 left
    using that
  proof (induction left arbitrary: k0)
    case 0
    then show ?case by simp
  next
    case (Suc left)
    let ?rows = "recompute_rows deps rowId (re_now env k0) (re_computedAt env k0) ?v lo hi s"
    show ?case
    proof (cases "case re_fault env k0 of Some e \<Rightarrow> Inl e | None \<Rightarrow> rd_upsert deps ?rows s")
      case (Inr s1)
      then have up: "rd_upsert deps ?rows s = Inr s1" by (auto split: option.splits)
      then have "s1 = s'" "rr_retries res = k0 - 1" "rr_days res = length ?rows"
        using Suc.prems Inr by (auto simp: Let_def)
      then show ?thesis using up by (intro exI [of _ k0]) (simp add: Let_def)
    next
      case (Inl e)
      then have "recompute_attempts deps rowId env ?v lo hi (Suc k0) left s = (Inr res, s')"
        using Suc.prems by (auto simp: Let_def split: if_splits)
      from Suc.IH [OF this] show ?thesis by (auto intro: Suc_leD)
    qed
  qed
  from this [OF run] obtain k where k: "1 \<le> k" "k < 1 + 5" "rr_retries res = k - 1" and
    rows: "rr_days res = length (recompute_rows deps rowId (re_now env k) (re_computedAt env k) ?v lo hi s)"
    "rd_upsert deps (recompute_rows deps rowId (re_now env k) (re_computedAt env k) ?v lo hi s) s = Inr s'"
    by (auto simp: Let_def)
  obtain dm h b x where form: "recompute_rows deps rowId (re_now env k) (re_computedAt env k) ?v lo hi s
      = map (availability_row ?v (re_computedAt env k) dm h b x rowId) [lo..hi - 1]"
    using recompute_rows_form [of deps rowId "re_now env k" "re_computedAt env k" ?v lo hi s] by auto
  have "rr_days res = nat (hi - lo)" using rows(1) form by simp
  moreover have "lookup w d s' =
      (if w = ?v \<and> lo \<le> d \<and> d < hi
       then Some ((recompute_rows deps rowId (re_now env k) (re_computedAt env k) ?v lo hi s
           ! nat (d - lo))
         \<lparr>ea_id := (case lookup w d s of None \<Rightarrow> rowId w d | Some y \<Rightarrow> ea_id y)\<rparr>)
       else lookup w d s)" for w d
    using upsert_days [OF form rows(2), of w d] by (auto simp: form)
  ultimately show ?thesis using dates k by (intro exI [of _ lo] exI [of _ hi] exI [of _ k]) auto
qed

end

section \<open>The repository meets the interface\<close>

lemma find_avail_upsert:
  "List.find (\<lambda>x. avail_key x = (v, d)) (upsert_avail r rs) =
     (if avail_key r = (v, d)
      then Some (r\<lparr>ea_id := (case List.find (\<lambda>x. avail_key x = (v, d)) rs of
             None \<Rightarrow> ea_id r | Some x \<Rightarrow> ea_id x)\<rparr>)
      else List.find (\<lambda>x. avail_key x = (v, d)) rs)"
proof -
  have app: "List.find P (xs @ [y]) =
      (case List.find P xs of Some z \<Rightarrow> Some z | None \<Rightarrow> if P y then Some y else None)"
    for P :: "avail_row \<Rightarrow> bool" and xs y
    by (induction xs) auto
  have upd: "List.find (\<lambda>x. avail_key x = (v, d))
        (update_rows (\<lambda>x. avail_key x = avail_key r) (\<lambda>x. r\<lparr>ea_id := ea_id x\<rparr>) rs) =
      map_option (\<lambda>x. if avail_key x = avail_key r then r\<lparr>ea_id := ea_id x\<rparr> else x)
        (List.find (\<lambda>x. avail_key x = (v, d)) rs)"
    by (rule find_update_key) (simp add: avail_key_def)
  show ?thesis
  proof (cases "List.find (\<lambda>x. avail_key x = avail_key r) rs")
    case None
    then show ?thesis by (auto simp: upsert_avail_def app split: option.split)
  next
    case (Some y)
    then have "upsert_avail r rs =
        update_rows (\<lambda>x. avail_key x = avail_key r) (\<lambda>x. r\<lparr>ea_id := ea_id x\<rparr>) rs"
      by (simp add: upsert_avail_def)
    moreover have "avail_key y = avail_key r" using find_Some_mem [OF Some] by simp
    ultimately show ?thesis
      using upd Some
      by (cases "avail_key r = (v, d)")
        (auto simp: map_option_case dest: find_Some_mem split: option.split)
  qed
qed

lemma find_fold_upsert:
  "distinct (map avail_key rows) \<Longrightarrow>
    List.find (\<lambda>x. avail_key x = (v, d)) (fold upsert_avail rows rs) =
      (case List.find (\<lambda>r. avail_key r = (v, d)) rows of
          None \<Rightarrow> List.find (\<lambda>x. avail_key x = (v, d)) rs
        | Some r \<Rightarrow> Some (r\<lparr>ea_id := (case List.find (\<lambda>x. avail_key x = (v, d)) rs of
              None \<Rightarrow> ea_id r | Some x \<Rightarrow> ea_id x)\<rparr>))"
proof (induction rows arbitrary: rs)
  case Nil
  then show ?case by simp
next
  case (Cons r rows)
  show ?case
  proof (cases "avail_key r = (v, d)")
    case True
    then have "List.find (\<lambda>r. avail_key r = (v, d)) rows = None"
      using Cons.prems by (auto simp: find_None_all image_iff)
    then show ?thesis using Cons.prems True Cons.IH [of "upsert_avail r rs"] by (simp add: find_avail_upsert)
  next
    case False
    then show ?thesis using Cons.prems Cons.IH [of "upsert_avail r rs"]
      by (auto simp: find_avail_upsert split: option.splits)
  qed
qed

lemma upsert_rows_lookup:
  "distinct (map avail_key rows) \<Longrightarrow> upsertEffectiveAvailabilityRows rows db = Inr db' \<Longrightarrow>
    find_avail v d db' = (case List.find (\<lambda>r. avail_key r = (v, d)) rows of
        None \<Rightarrow> find_avail v d db
      | Some r \<Rightarrow> Some (r\<lparr>ea_id := (case find_avail v d db of None \<Rightarrow> ea_id r | Some x \<Rightarrow> ea_id x)\<rparr>))"
  unfolding find_avail_def
  by (auto simp: upsertEffectiveAvailabilityRows_def find_fold_upsert split: if_splits)

interpretation public_store: recompute_store public_deps find_avail
  by unfold_locales
    (auto simp: public_deps_def upsertEffectiveAvailabilityRows_def intro: upsert_rows_lookup)

interpretation internal_store: recompute_store internal_deps find_avail
  by unfold_locales
    (auto simp: internal_deps_def upsertEffectiveAvailabilityRows_def intro: upsert_rows_lookup)

end
