(* ===== verification/Availability_Meaning.thy ===== *)
theory Availability_Meaning
  imports Availability_Correctness
begin

text \<open>
  What the loads of the recompute repository mean in terms of the tables, and with the store
  interface: what the materialized availability of a night is.
\<close>

definition units_of :: "(day \<times> int) list \<Rightarrow> day \<Rightarrow> int" where
  "units_of m d = (case map_of m d of None \<Rightarrow> 0 | Some n \<Rightarrow> n)"

lemma units_of_Nil [simp]: "units_of [] d = 0"
  by (simp add: units_of_def)

lemma units_of_bump [simp]: "units_of (bump d q m) e = units_of m e + (if e = d then q else 0)"
  by (simp add: units_of_def bump_def)

definition counts_held :: "ms \<Rightarrow> day \<Rightarrow> lock_view \<Rightarrow> bool" where
  "counts_held now d l \<longleftrightarrow> lv_date l = d \<and> \<not> truthy (lv_bookingId l) \<and> now < lv_expiresAt l"

definition counts_booked :: "day \<Rightarrow> lock_view \<Rightarrow> bool" where
  "counts_booked d l \<longleftrightarrow> lv_date l = d \<and> truthy (lv_bookingId l)"

lemma tally_locks_at:
  "tally_locks now ls held booked = (held', booked') \<Longrightarrow> \<forall>l \<in> set ls. 0 < lv_quantity l \<Longrightarrow>
    units_of held' d = units_of held d + total_where (counts_held now d) lv_quantity ls \<and>
    units_of booked' d = units_of booked d + total_where (counts_booked d) lv_quantity ls"
proof (induction ls arbitrary: held booked)
  case Nil
  then show ?case by simp
next
  case (Cons l ls)
  then have q: "0 < lv_quantity l" by simp
  consider "truthy (lv_bookingId l)" | "\<not> truthy (lv_bookingId l)" "now < lv_expiresAt l"
    | "\<not> truthy (lv_bookingId l)" "\<not> now < lv_expiresAt l"
    by blast
  then show ?case
  proof cases
    case 1
    then have "tally_locks now ls held (bump (lv_date l) (lv_quantity l) booked) = (held', booked')"
      using Cons.prems(1) q by (simp add: Let_def max_def)
    from Cons.IH [OF this] Cons.prems(2) 1 show ?thesis
      by (auto simp: counts_held_def counts_booked_def)
  next
    case 2
    then have "tally_locks now ls (bump (lv_date l) (lv_quantity l) held) booked = (held', booked')"
      using Cons.prems(1) q by (simp add: Let_def max_def)
    from Cons.IH [OF this] Cons.prems(2) 2 show ?thesis
      by (auto simp: counts_held_def counts_booked_def)
  next
    case 3
    then have "tally_locks now ls held booked = (held', booked')"
      using Cons.prems(1) q by (simp add: Let_def max_def)
    from Cons.IH [OF this] Cons.prems(2) 3 show ?thesis
      by (auto simp: counts_held_def counts_booked_def)
  qed
qed

lemma total_where_map:
  "total_where P f (map g xs) = total_where (P \<circ> g) (f \<circ> g) xs"
  by (induction xs) auto

text \<open>
  The locks the hold repository writes: they name their hold, and a booking id is a text with at least
  one character.
\<close>

definition locks_named :: "inv_db \<Rightarrow> bool" where
  "locks_named db \<longleftrightarrow> (\<forall>l \<in> set (locks db). lk_hold l \<noteq> None \<and> lk_booking l \<noteq> Some [])"

lemma loaded_locks:
  assumes "wf_inventory db" "locks_named db" "lo \<le> d" "d < hi"
    and "tally_locks now (loadInventoryLocksRange v lo hi db) [] [] = (held, booked)"
  shows "units_of held d = heldUnits now v d db \<and> units_of booked d = bookedUnits v d db"
proof -
  let ?ls = "loadInventoryLocksRange v lo hi db"
  have pos: "\<forall>l \<in> set ?ls. 0 < lv_quantity l"
    using wf_lock_pos [OF assms(1)] by (auto simp: loadInventoryLocksRange_def)
  have "total_where (counts_held now d) lv_quantity ?ls = heldUnits now v d db"
    unfolding loadInventoryLocksRange_def total_where_map total_where_filter heldUnits_def
    using assms(2-4)
    by (intro total_where_cong)
      (auto simp: counts_held_def on_day_def truthy_def locks_named_def)
  moreover have "total_where (counts_booked d) lv_quantity ?ls = bookedUnits v d db"
    unfolding loadInventoryLocksRange_def total_where_map total_where_filter bookedUnits_def
    using assms(2-4)
    by (intro total_where_cong)
      (auto simp: counts_booked_def on_day_def truthy_def locks_named_def)
  ultimately show ?thesis using tally_locks_at [OF assms(5) pos, of d] by simp
qed

section \<open>Blocked units\<close>

definition covers :: "string \<Rightarrow> day \<Rightarrow> calendar_event \<Rightarrow> bool" where
  "covers v d e \<longleftrightarrow> ev_variant e = v \<and> ev_active e \<and> ev_start e \<le> d \<and> d < ev_end e"

text \<open>Events of one resource that overlap on a night block one unit.\<close>

definition blockedUnits :: "string \<Rightarrow> day \<Rightarrow> inv_db \<Rightarrow> int" where
  "blockedUnits v d db = int (length (js_dedup (map unit_key (filter (covers v d) (events db)))))"

lemma blockedUnits_card:
  "blockedUnits v d db = int (card (unit_key ` {e \<in> set (events db). covers v d e}))"
  by (simp add: blockedUnits_def length_js_dedup)

lemma blockedUnits_nonneg: "0 \<le> blockedUnits v d db"
  by (simp add: blockedUnits_def)

lemma blockedUnits_le_externalBlocks: "blockedUnits v d db \<le> externalBlocks v d db"
proof -
  have "card (set (map unit_key (filter (covers v d) (events db))))
      \<le> length (map unit_key (filter (covers v d) (events db)))"
    by (rule card_length)
  then show ?thesis
    unfolding blockedUnits_def length_js_dedup externalBlocks_def covers_def by simp
qed

definition units_at :: "(day \<times> string list) list \<Rightarrow> day \<Rightarrow> string list" where
  "units_at m d = (case map_of m d of None \<Rightarrow> [] | Some ks \<Rightarrow> ks)"

definition units_ok :: "(day \<times> string list) list \<Rightarrow> bool" where
  "units_ok m \<longleftrightarrow> distinct (map fst m) \<and> (\<forall>d. distinct (units_at m d))"

lemma units_at_add:
  "units_at (add_unit k d m) e =
     (if e = d then (if k \<in> set (units_at m d) then units_at m d else units_at m d @ [k])
      else units_at m e)"
  by (cases "map_of m d") (auto simp: units_at_def add_unit_def Let_def)

lemma units_ok_add: "units_ok m \<Longrightarrow> units_ok (add_unit k d m)"
proof -
  assume "units_ok m"
  moreover have "distinct (map fst m) \<Longrightarrow> distinct (map fst (add_unit k d m))"
    by (simp add: add_unit_def Let_def)
  ultimately show ?thesis by (auto simp: units_ok_def units_at_add)
qed

lemma add_units_dates:
  "units_ok m \<Longrightarrow> units_ok (fold (add_unit k) ds m) \<and>
    set (units_at (fold (add_unit k) ds m) d) =
      set (units_at m d) \<union> (if d \<in> set ds then {k} else {})"
proof (induction ds arbitrary: m)
  case Nil
  then show ?case by simp
next
  case (Cons e ds)
  from Cons.IH [OF units_ok_add [OF Cons.prems, of k e]] show ?case
    by (auto simp: units_at_add)
qed

lemma add_units_rows:
  "units_ok m \<Longrightarrow>
    units_ok (fold (\<lambda>e. fold (add_unit (unit_key e)) (dates e)) rows m) \<and>
    set (units_at (fold (\<lambda>e. fold (add_unit (unit_key e)) (dates e)) rows m) d) =
      set (units_at m d) \<union> unit_key ` {e \<in> set rows. d \<in> set (dates e)}"
proof (induction rows arbitrary: m)
  case Nil
  then show ?case by simp
next
  case (Cons e rows)
  note one = add_units_dates [OF Cons.prems, of "unit_key e" "dates e"]
  from Cons.IH [OF conjunct1 [OF one]] one show ?case by auto
qed

lemma event_dates_eq: "event_dates lo hi e = [max lo (ev_start e)..min hi (ev_end e) - 1]"
proof -
  have "event_dates lo hi e =
      enumerateDates (parseDateOnly (max lo (ev_start e))) (parseDateOnly (min hi (ev_end e)))"
    by (simp add: event_dates_def Let_def max_def min_def)
  then show ?thesis by (simp only: enumerateDates_days)
qed

lemma tally_blocks_at:
  "distinct (map fst bs) \<Longrightarrow> \<forall>b \<in> set bs. 0 \<le> snd b \<Longrightarrow>
    units_of (tally_blocks bs m) d = units_of m d + units_of bs d"
proof (induction bs arbitrary: m)
  case Nil
  then show ?case by simp
next
  case (Cons b bs)
  obtain e q where b: "b = (e, q)" by (cases b)
  have new: "map_of bs e = None" using Cons.prems(1) b by (simp add: map_of_eq_None_iff)
  show ?case
  proof (cases "q \<le> 0")
    case True
    then have "q = 0" using Cons.prems(2) b by simp
    then show ?thesis using Cons b new by (auto simp: units_of_def Let_def)
  next
    case False
    then have "tally_blocks (b # bs) m = tally_blocks bs (bump e q m)"
      by (simp add: b Let_def max_def)
    then show ?thesis using Cons b new by (auto simp: units_of_def bump_def)
  qed
qed

lemma map_of_map_snd: "map_of (map (\<lambda>(k, x). (k, f x)) m) d = map_option f (map_of m d)"
  by (induction m) auto

lemma loaded_blocks:
  assumes "lo \<le> d" "d < hi"
  shows "units_of (tally_blocks (loadExternalCalendarBlocksRange v lo hi db) []) d = blockedUnits v d db"
proof -
  let ?rows = "filter (\<lambda>e. ev_variant e = v \<and> ev_active e \<and> ev_start e < hi \<and> lo < ev_end e) (events db)"
  let ?m = "fold (\<lambda>e. fold (add_unit (unit_key e)) (event_dates lo hi e)) ?rows []"
  have "units_ok []" by (simp add: units_ok_def units_at_def)
  note m = add_units_rows [OF this, of "event_dates lo hi" ?rows d]
  have bs: "loadExternalCalendarBlocksRange v lo hi db = map (\<lambda>(d, units). (d, int (length units))) ?m"
    by (simp add: loadExternalCalendarBlocksRange_def Let_def)
  have dist: "distinct (map fst (loadExternalCalendarBlocksRange v lo hi db))"
    using m by (simp add: bs units_ok_def o_def case_prod_beta)
  have nn: "\<forall>b \<in> set (loadExternalCalendarBlocksRange v lo hi db). 0 \<le> snd b" by (auto simp: bs)
  have "units_of (loadExternalCalendarBlocksRange v lo hi db) d = int (length (units_at ?m d))"
    by (simp add: units_of_def units_at_def bs map_of_map_snd split: option.split)
  also have "length (units_at ?m d) = card (set (units_at ?m d))"
  proof -
    have "distinct (units_at ?m d)" using conjunct1 [OF m] unfolding units_ok_def by (rule conjunct2 [THEN spec])
    then show ?thesis by (rule distinct_card [symmetric])
  qed
  also have "set (units_at ?m d) = unit_key ` {e \<in> set (events db). covers v d e}"
  proof -
    have "{e \<in> set ?rows. d \<in> set (event_dates lo hi e)} = {e \<in> set (events db). covers v d e}"
      using assms by (auto simp: event_dates_eq covers_def)
    then show ?thesis using m by (simp add: units_at_def)
  qed
  finally show ?thesis
    using tally_blocks_at [OF dist nn, of "[]" d] by (simp add: blockedUnits_card)
qed

lemma map_of_rev_distinct: "distinct (map fst m) \<Longrightarrow> map_of (rev m) = map_of m"
proof (induction m)
  case Nil
  then show ?case by simp
next
  case (Cons a m)
  then have "map_of m (fst a) = None" by (simp add: map_of_eq_None_iff)
  then show ?case using Cons by (auto simp: map_add_def fun_eq_iff split: option.split)
qed

lemma loaded_daily:
  assumes "wf_inventory db" "lo \<le> d" "d < hi"
  shows "units_of (rev (map (\<lambda>(d, n). (d, max 0 n)) (loadDailyInventoryRange v lo hi db))) d = totalAt v d db"
proof -
  let ?rs = "filter (\<lambda>r. di_variant r = v \<and> lo \<le> di_date r \<and> di_date r < hi) (daily db)"
  let ?m = "map (\<lambda>r. (di_date r, max 0 (di_total r))) ?rs"
  have form: "map (\<lambda>(d, n). (d, max 0 n)) (loadDailyInventoryRange v lo hi db) = ?m"
    by (simp add: loadDailyInventoryRange_def)
  have "distinct (map daily_key ?rs)"
    using assms(1) by (simp add: wf_inventory_def distinct_map_filter)
  then have dist: "distinct (map fst ?m)"
    by (auto simp: distinct_map inj_on_def daily_key_def)
  then have "map_of (rev ?m) d = map_of ?m d"
    by (simp add: map_of_rev_distinct)
  moreover have "map_of ?m d = map_option di_total (find_daily v d db)"
  proof (cases "find_daily v d db")
    case None
    then have "d \<notin> fst ` set ?m" by (auto simp: find_daily_def find_None_all daily_key_def)
    then show ?thesis using None by (simp add: map_of_eq_None_iff)
  next
    case (Some r)
    then have r: "r \<in> set (daily db)" "daily_key r = (v, d)" using find_daily_mem [OF Some] by auto
    then have "0 \<le> di_total r" using assms(1) by (auto simp: wf_inventory_def list_all_iff daily_check_def)
    moreover have "(d, max 0 (di_total r)) \<in> set ?m" using r assms(2,3) by (force simp: daily_key_def)
    ultimately show ?thesis using Some dist by (simp add: map_of_is_SomeI max_def)
  qed
  ultimately show ?thesis unfolding units_of_def form by (simp add: totalAt_def split: option.split)
qed

section \<open>What is materialized\<close>

definition shows_availability :: "ms \<Rightarrow> string \<Rightarrow> day \<Rightarrow> inv_db \<Rightarrow> int \<Rightarrow> avail_row \<Rightarrow> bool" where
  "shows_availability now v d db blocked r \<longleftrightarrow>
     ea_variant r = v \<and> ea_date r = d \<and> ea_total r = totalAt v d db \<and>
     ea_held r = heldUnits now v d db \<and> ea_booked r = bookedUnits v d db \<and> ea_external r = blocked \<and>
     ea_available r = max 0 (totalAt v d db - heldUnits now v d db - bookedUnits v d db - blocked)"

definition repo_deps :: "inv_db recompute_deps \<Rightarrow> bool" where
  "repo_deps deps \<longleftrightarrow> rd_daily deps = loadDailyInventoryRange \<and>
     rd_locks deps = loadInventoryLocksRange \<and> rd_upsert deps = upsertEffectiveAvailabilityRows \<and>
     (rd_blocks deps = None \<or> rd_blocks deps = Some loadExternalCalendarBlocksRange)"

lemma repo_deps_both [simp]: "repo_deps public_deps" "repo_deps internal_deps"
  by (simp_all add: repo_deps_def public_deps_def internal_deps_def)

definition blocked_for :: "inv_db recompute_deps \<Rightarrow> string \<Rightarrow> day \<Rightarrow> inv_db \<Rightarrow> int" where
  "blocked_for deps v d db = (if rd_blocks deps = None then 0 else blockedUnits v d db)"

lemma blocked_for_simps [simp]:
  "blocked_for public_deps v d db = blockedUnits v d db" "blocked_for internal_deps v d db = 0"
  by (simp_all add: blocked_for_def public_deps_def internal_deps_def)

lemma units_on_eq: "units_on m d = max 0 (units_of m d)"
  by (simp add: units_on_def units_of_def)

lemma recompute_row_shows:
  assumes wf: "wf_inventory db" and named: "locks_named db" and deps: "repo_deps deps"
    and d: "lo \<le> d" "d < hi"
  shows "shows_availability now v d db (blocked_for deps v d db)
    ((recompute_rows deps rowId now t v lo hi db ! nat (d - lo))\<lparr>ea_id := i\<rparr>)"
proof -
  obtain held booked where tally:
    "tally_locks now (loadInventoryLocksRange v lo hi db) [] [] = (held, booked)"
    by (cases "tally_locks now (loadInventoryLocksRange v lo hi db) [] []")
  let ?dm = "rev (map (\<lambda>(d, n). (d, max 0 n)) (loadDailyInventoryRange v lo hi db))"
  let ?blocks = "case rd_blocks deps of None \<Rightarrow> [] | Some load \<Rightarrow> load v lo hi db"
  have row: "recompute_rows deps rowId now t v lo hi db ! nat (d - lo) =
      availability_row v t ?dm held booked (tally_blocks ?blocks []) rowId d"
    using d deps
    by (simp add: recompute_rows_def repo_deps_def enumerateDates_days tally Let_def)
  have "units_of held d = heldUnits now v d db" "units_of booked d = bookedUnits v d db"
    using loaded_locks [OF wf named d tally] by auto
  moreover have "units_of ?dm d = totalAt v d db" by (rule loaded_daily [OF wf d])
  moreover have "units_of (tally_blocks ?blocks []) d = blocked_for deps v d db"
    using deps loaded_blocks [OF d] by (auto simp: repo_deps_def blocked_for_def)
  moreover have "0 \<le> blocked_for deps v d db" by (simp add: blocked_for_def blockedUnits_nonneg)
  moreover have "(case map_of ?dm d of None \<Rightarrow> 0 | Some n \<Rightarrow> n) = units_of ?dm d"
    by (simp add: units_of_def)
  ultimately show ?thesis
    using held_booked_nonneg [OF wf, of now v d]
    by (simp add: row availability_row_def units_on_eq shows_availability_def Let_def)
qed

definition same_facts :: "inv_db \<Rightarrow> inv_db \<Rightarrow> bool" where
  "same_facts db db' \<longleftrightarrow> daily db' = daily db \<and> locks db' = locks db \<and> holds db' = holds db \<and>
     events db' = events db"

lemma same_facts_refl [simp]: "same_facts db db"
  by (simp add: same_facts_def)

lemma same_facts_trans: "same_facts a b \<Longrightarrow> same_facts b c \<Longrightarrow> same_facts a c"
  by (simp add: same_facts_def)

lemma same_facts_units:
  assumes "same_facts db db'"
  shows "wf_inventory db' = wf_inventory db" "locks_named db' = locks_named db"
    "totalAt v d db' = totalAt v d db" "heldUnits now v d db' = heldUnits now v d db"
    "bookedUnits v d db' = bookedUnits v d db" "blockedUnits v d db' = blockedUnits v d db"
    "blocked_for deps v d db' = blocked_for deps v d db"
  using assms
  by (simp_all add: same_facts_def wf_inventory_def reservedAt_def lockUnits_def find_daily_def
      locks_named_def totalAt_def heldUnits_def bookedUnits_def blockedUnits_def blocked_for_def)

lemma recompute_frame:
  assumes "repo_deps deps"
    and "recomputeEffectiveAvailabilityRange deps rowId env input db = (res, db')"
  shows "same_facts db db'"
proof -
  have up: "same_facts db db1" if "rd_upsert deps rows db = Inr db1" for rows db1
    using that assms(1)
    by (auto simp: repo_deps_def upsertEffectiveAvailabilityRows_def same_facts_def split: if_splits)
  have "same_facts db db'"
    if "recompute_attempts deps rowId env v lo hi k left db = (res, db')" for v lo hi k left
    using that
  proof (induction left arbitrary: k)
    case 0
    then show ?case by simp
  next
    case (Suc left)
    then show ?case
      by (auto simp: Let_def intro: up split: sum.splits option.splits if_splits)
  qed
  then show ?thesis
    using assms(2)
    by (auto simp: recomputeEffectiveAvailabilityRange_def split: if_splits date_text.splits)
qed

definition recomputed ::
  "inv_db recompute_deps \<Rightarrow> ms \<Rightarrow> string \<Rightarrow> day \<Rightarrow> day \<Rightarrow> inv_db \<Rightarrow> inv_db \<Rightarrow> bool" where
  "recomputed deps now v lo hi db db' \<longleftrightarrow>
     same_facts db db' \<and>
     (\<forall>d. lo \<le> d \<and> d < hi \<longrightarrow>
       (\<exists>r. find_avail v d db' = Some r \<and> shows_availability now v d db (blocked_for deps v d db) r)) \<and>
     (\<forall>w d. w = v \<and> lo \<le> d \<and> d < hi \<or> find_avail w d db' = find_avail w d db)"

lemma recompute_meets:
  assumes "wf_inventory db" "locks_named db" "repo_deps deps" "recompute_store deps find_avail"
    and "recomputeEffectiveAvailabilityRange deps rowId env input db = (Inr res, db')"
  shows "\<exists>lo hi k. ri_from input = Iso lo \<and> ri_to input = Iso hi \<and> lo < hi \<and> 1 \<le> k \<and> k \<le> 5 \<and>
    rr_retries res = k - 1 \<and> rr_days res = nat (hi - lo) \<and>
    recomputed deps (re_now env k) (ri_variantId input) lo hi db db'"
proof -
  from recompute_store.recompute_lookup [OF assms(4,5)]
  obtain lo hi k where run: "ri_from input = Iso lo" "ri_to input = Iso hi" "lo < hi" "1 \<le> k" "k \<le> 5"
    "rr_retries res = k - 1" "rr_days res = nat (hi - lo)"
    and look: "\<forall>w d. find_avail w d db' =
      (if w = ri_variantId input \<and> lo \<le> d \<and> d < hi
       then Some ((recompute_rows deps rowId (re_now env k) (re_computedAt env k)
           (ri_variantId input) lo hi db ! nat (d - lo))
         \<lparr>ea_id := (case find_avail w d db of None \<Rightarrow> rowId w d | Some y \<Rightarrow> ea_id y)\<rparr>)
       else find_avail w d db)"
    by blast
  have "recomputed deps (re_now env k) (ri_variantId input) lo hi db db'"
    unfolding recomputed_def
    using look recompute_frame [OF assms(3,5)] recompute_row_shows [OF assms(1-3)] by auto
  then show ?thesis using run by blast
qed


definition quiet_recompute :: "ms \<Rightarrow> recompute_env" where
  "quiet_recompute t = \<lparr>re_now = \<lambda>_. t, re_computedAt = \<lambda>_. t, re_fault = \<lambda>_. None,
     re_timeout = \<lambda>_. False\<rparr>"

definition example_input :: recompute_input where
  "example_input = \<lparr>ri_variantId = ''v'', ri_from = Iso 10, ri_to = Iso 12, ri_reason = ''hold_create'',
     ri_idempotencyKey = None\<rparr>"

lemma example_held_named: "locks_named example_held"
proof -
  have "list_all (\<lambda>l. lk_hold l \<noteq> None \<and> lk_booking l \<noteq> Some []) (locks example_held)" by code_simp
  then show ?thesis by (simp add: locks_named_def list_all_iff)
qed


end
