(* ===== verification/Inventory_Mutation.thy ===== *)
theory Inventory_Mutation
  imports Availability_Meaning
begin

text \<open>
  Inventory mutations (\<open>application/use-cases/apply-inventory-mutation.ts\<close>): a change of the
  inventory with its retries, the recomputes it asks for, the validation of the materialized rows and
  what is published afterwards; and the release of expired holds
  (\<open>application/use-cases/release-expired-holds.ts\<close>), which runs one mutation per expired hold.

  Cache invalidation and search materialization, whose failures the code swallows, and the
  provider queue are effects of the outcome: the instructions they are run for. The per-range queue
  that serializes concurrent recomputes has no effect on a single run.
\<close>

record instruction =
  in_variantId :: string
  in_from :: day
  in_to :: day
  in_reason :: string
  in_idempotencyKey :: "string option"

definition recompute_input_of :: "instruction \<Rightarrow> recompute_input" where
  "recompute_input_of i = \<lparr>ri_variantId = in_variantId i, ri_from = Iso (in_from i),
     ri_to = Iso (in_to i), ri_reason = in_reason i, ri_idempotencyKey = in_idempotencyKey i\<rparr>"

text \<open>
  The environment of one call: whether the mutation budget is spent when attempt \<open>n\<close> has failed,
  whether the recompute budget is spent before instruction \<open>i\<close>, and the environments of the recomputes.
\<close>

record mutation_env =
  me_spent :: "nat \<Rightarrow> bool"
  me_chain_spent :: "nat \<Rightarrow> bool"
  me_recompute :: "nat \<Rightarrow> recompute_env"

record 'a mutation_outcome =
  mo_result :: "failure + 'a"
  mo_db :: inv_db
  mo_published :: "instruction list"
  mo_enqueued :: "instruction list"

definition isBusyMessage :: "failure \<Rightarrow> bool" where
  "isBusyMessage e \<longleftrightarrow> str_includes (failure_message e) ''SQLITE_BUSY'' \<or>
     str_includes (failure_message e) ''database is locked''"

fun runMutationWithRetry ::
  "(nat \<Rightarrow> inv_db \<Rightarrow> (failure + 'a) \<times> inv_db) \<Rightarrow> mutation_env \<Rightarrow> nat \<Rightarrow> nat \<Rightarrow> inv_db
     \<Rightarrow> (failure + 'a) \<times> inv_db" where
  "runMutationWithRetry mutate env attempt 0 db = (Inl (Thrown ''mutation_failed''), db)"
| "runMutationWithRetry mutate env attempt (Suc left) db =
     (case mutate attempt db of
        (Inr r, db') \<Rightarrow> (Inr r, db')
      | (Inl e, db') \<Rightarrow>
          if me_spent env attempt then (Inl (Thrown ''mutation_retry_timeout''), db')
          else if \<not> isBusyMessage e \<or> 8 \<le> attempt then (Inl e, db')
          else runMutationWithRetry mutate env (Suc attempt) left db')"

definition loadEffectiveAvailabilityForValidation :: "instruction \<Rightarrow> inv_db \<Rightarrow> avail_row list" where
  "loadEffectiveAvailabilityForValidation i db =
     filter (\<lambda>r. ea_variant r = in_variantId i \<and> in_from i \<le> ea_date r \<and> ea_date r < in_to i) (avail db)"

definition invalid_row :: "avail_row \<Rightarrow> bool" where
  "invalid_row r \<longleftrightarrow>
     (let total = ea_total r; held = ea_held r; booked = ea_booked r; available = ea_available r
      in held < 0 \<or> booked < 0 \<or> total < 0 \<or> available < 0 \<or> total < held + booked \<or>
         available \<noteq> max 0 (total - held - booked))"

text \<open>The error text also names the date of the row.\<close>

fun validateInstructions :: "instruction list \<Rightarrow> inv_db \<Rightarrow> failure option" where
  "validateInstructions [] db = None"
| "validateInstructions (i # is) db =
     (if list_ex invalid_row (loadEffectiveAvailabilityForValidation i db)
      then Some (Thrown (''inventory_invariant_violation:'' @ in_variantId i))
      else validateInstructions is db)"

fun run_recomputes ::
  "inv_db recompute_deps \<Rightarrow> (string \<Rightarrow> day \<Rightarrow> string) \<Rightarrow> mutation_env \<Rightarrow> bool \<Rightarrow> nat \<Rightarrow> instruction list
     \<Rightarrow> inv_db \<Rightarrow> failure option \<times> inv_db" where
  "run_recomputes deps rowId env failSoft n [] db = (None, db)"
| "run_recomputes deps rowId env failSoft n (i # is) db =
     (let (res, db') =
        (if me_chain_spent env n then (Inl (Thrown ''recompute_chain_timeout''), db)
         else recomputeEffectiveAvailabilityRange deps rowId (me_recompute env n)
           (recompute_input_of i) db)
      in case res of
           Inl e \<Rightarrow> if failSoft then run_recomputes deps rowId env failSoft (Suc n) is db'
             else (Some e, db')
         | Inr _ \<Rightarrow> run_recomputes deps rowId env failSoft (Suc n) is db')"

definition applyInventoryMutation ::
  "inv_db recompute_deps \<Rightarrow> (string \<Rightarrow> day \<Rightarrow> string) \<Rightarrow> mutation_env \<Rightarrow> bool \<Rightarrow> bool
     \<Rightarrow> (nat \<Rightarrow> inv_db \<Rightarrow> (failure + 'a) \<times> inv_db) \<Rightarrow> ('a \<Rightarrow> instruction list) \<Rightarrow> inv_db
     \<Rightarrow> 'a mutation_outcome" where
  "applyInventoryMutation deps rowId env failSoft enqueueIncremental mutate recompute db =
     (case runMutationWithRetry mutate env 1 8 db of
        (Inl e, db1) \<Rightarrow> \<lparr>mo_result = Inl e, mo_db = db1, mo_published = [], mo_enqueued = []\<rparr>
      | (Inr r, db1) \<Rightarrow>
          (let instructions = recompute r
           in case run_recomputes deps rowId env failSoft 0 instructions db1 of
                (Some e, db2) \<Rightarrow> \<lparr>mo_result = Inl e, mo_db = db2, mo_published = [], mo_enqueued = []\<rparr>
              | (None, db2) \<Rightarrow>
                  (case (validateInstructions instructions db2, failSoft) of
                     (Some e, False) \<Rightarrow>
                       \<lparr>mo_result = Inl e, mo_db = db2, mo_published = instructions, mo_enqueued = []\<rparr>
                   | _ \<Rightarrow>
                       \<lparr>mo_result = Inr r, mo_db = db2, mo_published = instructions,
                        mo_enqueued = (if enqueueIncremental
                          then filter (\<lambda>i. \<not> starts_with (in_reason i) ''channel_manager_'') instructions
                          else [])\<rparr>)))"

section \<open>Releasing expired holds\<close>

definition release_mutation ::
  "engine \<Rightarrow> (nat \<Rightarrow> attempt_env) \<Rightarrow> string \<Rightarrow> nat \<Rightarrow> inv_db \<Rightarrow> (failure + bool \<times> nat) \<times> inv_db" where
  "release_mutation eng envs holdId attempt db =
     (case releaseHold eng envs holdId db of
        (Inl e, db') \<Rightarrow> (Inl (Store e), db')
      | (Inr r, db') \<Rightarrow> (Inr r, db'))"

definition expire_instruction :: "string \<times> string \<times> day \<times> day \<Rightarrow> instruction" where
  "expire_instruction item =
     (case item of (holdId, variantId, lo, hi) \<Rightarrow>
       \<lparr>in_variantId = variantId, in_from = lo, in_to = hi, in_reason = ''hold_expire'',
        in_idempotencyKey = Some (''hold_expire:'' @ holdId)\<rparr>)"

fun release_items ::
  "engine \<Rightarrow> (nat \<Rightarrow> attempt_env) \<Rightarrow> (string \<Rightarrow> day \<Rightarrow> string) \<Rightarrow> mutation_env
     \<Rightarrow> (string \<times> string \<times> day \<times> day) list \<Rightarrow> nat \<Rightarrow> string list \<Rightarrow> inv_db
     \<Rightarrow> (failure + nat \<times> string list) \<times> inv_db" where
  "release_items eng envs rowId env [] released variants db = (Inr (released, variants), db)"
| "release_items eng envs rowId env (item # items) released variants db =
     (let out = applyInventoryMutation internal_deps rowId env False True
        (release_mutation eng envs (fst item)) (\<lambda>_. [expire_instruction item]) db
      in case mo_result out of
           Inl e \<Rightarrow> (Inl e, mo_db out)
         | Inr (done_, n) \<Rightarrow>
             release_items eng envs rowId env items (if done_ then Suc released else released)
               (if done_ \<and> fst (snd item) \<notin> set variants then variants @ [fst (snd item)] else variants)
               (mo_db out))"

definition releaseExpiredHolds ::
  "engine \<Rightarrow> (nat \<Rightarrow> attempt_env) \<Rightarrow> (string \<Rightarrow> day \<Rightarrow> string) \<Rightarrow> mutation_env \<Rightarrow> ms \<Rightarrow> inv_db
     \<Rightarrow> (failure + nat \<times> string list) \<times> inv_db" where
  "releaseExpiredHolds eng envs rowId env now db =
     release_items eng envs rowId env (listExpiredHolds now db) 0 [] db"

section \<open>Recomputes that are not disturbed\<close>

lemma tally_nonneg:
  "avail_check (availability_row v t dm h b x rowId d) \<longleftrightarrow>
     0 \<le> (case map_of dm d of None \<Rightarrow> 0 | Some n \<Rightarrow> n)"
  by (auto simp: avail_check_def availability_row_def units_on_eq Let_def)

lemma recompute_rows_check:
  "list_all avail_check (recompute_rows deps rowId now t v lo hi db)"
proof -
  have nn: "0 \<le> (case map_of (rev (map (\<lambda>(d, n). (d, max 0 n)) xs)) d of None \<Rightarrow> (0::int) | Some n \<Rightarrow> n)"
    for xs :: "(day \<times> int) list" and d
    by (auto split: option.split dest!: map_of_SomeD)
  show ?thesis
    unfolding recompute_rows_def Let_def
    by (cases "tally_locks now (rd_locks deps v lo hi db) [] []") (use nn in \<open>simp add: list_all_iff tally_nonneg\<close>)
qed

lemma recompute_undisturbed:
  assumes "wf_inventory db" "locks_named db" "repo_deps deps" "recompute_store deps find_avail"
    and "re_fault env 1 = None" "in_variantId i \<noteq> []" "in_reason i \<noteq> []"
    and "in_idempotencyKey i \<noteq> Some []" "in_from i < in_to i"
  shows "\<exists>res db'. recomputeEffectiveAvailabilityRange deps rowId env (recompute_input_of i) db = (Inr res, db') \<and>
    recomputed deps (re_now env 1) (in_variantId i) (in_from i) (in_to i) db db'"
proof -
  let ?rows = "recompute_rows deps rowId (re_now env 1) (re_computedAt env 1) (in_variantId i)
    (in_from i) (in_to i) db"
  obtain db' where up: "rd_upsert deps ?rows db = Inr db'"
    using recompute_store.upsert_ok [OF assms(4) recompute_rows_check, where s = db] by metis
  have run: "recomputeEffectiveAvailabilityRange deps rowId env (recompute_input_of i) db =
      (Inr \<lparr>rr_days = length ?rows, rr_computedAt = re_computedAt env 1, rr_retries = 0\<rparr>, db')"
    using assms(5-9) up
    by (simp add: recomputeEffectiveAvailabilityRange_def recompute_input_of_def numeral_eq_Suc Let_def)
  obtain lo hi k where "Iso (in_from i) = Iso lo" "Iso (in_to i) = Iso hi" "1 \<le> k" "k - 1 = (0::nat)"
    "recomputed deps (re_now env k) (in_variantId i) lo hi db db'"
    using recompute_meets [OF assms(1-4) run] by (auto simp: recompute_input_of_def)
  moreover have "k = 1" using calculation(3,4) by simp
  ultimately show ?thesis using run by blast
qed

section \<open>Validation\<close>

definition wf_avail :: "inv_db \<Rightarrow> bool" where
  "wf_avail db \<longleftrightarrow> distinct (map avail_key (avail db))"

lemma upsert_avail_unique:
  "distinct (map avail_key rs) \<Longrightarrow> distinct (map avail_key (upsert_avail r rs))"
proof (cases "List.find (\<lambda>x. avail_key x = avail_key r) rs")
  case None
  assume "distinct (map avail_key rs)"
  moreover have "\<forall>x \<in> set rs. avail_key x \<noteq> avail_key r" using None by (simp add: find_None_all)
  ultimately show ?thesis using None by (auto simp: upsert_avail_def)
next
  case (Some y)
  have "map avail_key (update_rows (\<lambda>x. avail_key x = avail_key r) (\<lambda>x. r\<lparr>ea_id := ea_id x\<rparr>) rs) =
      map avail_key rs"
    by (rule update_rows_key) (simp add: avail_key_def)
  moreover assume "distinct (map avail_key rs)"
  ultimately show ?thesis using Some by (simp add: upsert_avail_def)
qed

lemma upsert_rows_unique:
  "wf_avail db \<Longrightarrow> upsertEffectiveAvailabilityRows rows db = Inr db' \<Longrightarrow> wf_avail db'"
proof -
  have "distinct (map avail_key rs) \<Longrightarrow> distinct (map avail_key (fold upsert_avail rows rs))" for rs
    by (induction rows arbitrary: rs) (simp_all add: upsert_avail_unique)
  then show "wf_avail db \<Longrightarrow> upsertEffectiveAvailabilityRows rows db = Inr db' \<Longrightarrow> wf_avail db'"
    by (auto simp: upsertEffectiveAvailabilityRows_def wf_avail_def split: if_splits)
qed

lemma recompute_unique [preserve]:
  assumes "repo_deps deps" "wf_avail db"
    and "recomputeEffectiveAvailabilityRange deps rowId env input db = (res, db')"
  shows "wf_avail db'"
proof -
  have up: "wf_avail db1" if "rd_upsert deps rows db = Inr db1" for rows db1
    using that assms(1,2) by (auto simp: repo_deps_def intro: upsert_rows_unique)
  have "wf_avail db'"
    if "recompute_attempts deps rowId env v lo hi k left db = (res, db')" for v lo hi k left
    using that assms(2)
    by (induction left arbitrary: k)
      (auto simp: Let_def intro: up split: sum.splits option.splits if_splits)
  then show ?thesis
    using assms(2,3)
    by (auto simp: recomputeEffectiveAvailabilityRange_def split: if_splits date_text.splits)
qed

lemma invalid_shown:
  assumes "wf_inventory db" "shows_availability now v d db x r" "0 \<le> x"
  shows "invalid_row r \<longleftrightarrow> 0 < x \<and> heldUnits now v d db + bookedUnits v d db < totalAt v d db"
  using assms(2,3) held_booked_nonneg [OF assms(1), of now v d] wf_live_le_total [OF assms(1), of now v d]
  by (auto simp: invalid_row_def shows_availability_def Let_def max_def)

text \<open>Some night of the range has a blocked unit while units remain.\<close>

definition blocked_while_open ::
  "inv_db recompute_deps \<Rightarrow> ms \<Rightarrow> string \<Rightarrow> day \<Rightarrow> day \<Rightarrow> inv_db \<Rightarrow> bool" where
  "blocked_while_open deps now v lo hi db \<longleftrightarrow>
     list_ex (\<lambda>d. 0 < blocked_for deps v d db \<and>
       heldUnits now v d db + bookedUnits v d db < totalAt v d db) [lo..hi - 1]"

lemma validate_recomputed:
  assumes "wf_inventory db" "wf_avail db'"
    and "recomputed deps now (in_variantId i) (in_from i) (in_to i) db db'"
  shows "list_ex invalid_row (loadEffectiveAvailabilityForValidation i db') \<longleftrightarrow>
    blocked_while_open deps now (in_variantId i) (in_from i) (in_to i) db"
proof -
  let ?v = "in_variantId i"
  have nn: "0 \<le> blocked_for deps ?v d db" for d by (simp add: blocked_for_def blockedUnits_nonneg)
  have row: "\<exists>r. find_avail ?v d db' = Some r \<and> shows_availability now ?v d db (blocked_for deps ?v d db) r"
    if "in_from i \<le> d" "d < in_to i" for d
    using assms(3) that by (auto simp: recomputed_def)
  have only: "find_avail ?v (ea_date r) db' = Some r" if "r \<in> set (avail db')" "ea_variant r = ?v" for r
    using find_unique [of avail_key "avail db'" r] assms(2) that
    by (simp add: find_avail_def wf_avail_def avail_key_def [of r])
  have mem: "r \<in> set (avail db') \<and> ea_variant r = ?v \<and> ea_date r = d" if "find_avail ?v d db' = Some r" for d r
    using find_Some_mem [OF that [unfolded find_avail_def]] by (simp add: avail_key_def)
  show ?thesis
  proof
    assume "list_ex invalid_row (loadEffectiveAvailabilityForValidation i db')"
    then obtain r where r: "r \<in> set (avail db')" "ea_variant r = ?v" "in_from i \<le> ea_date r"
      "ea_date r < in_to i" "invalid_row r"
      by (auto simp: list_ex_iff loadEffectiveAvailabilityForValidation_def)
    then have "shows_availability now ?v (ea_date r) db (blocked_for deps ?v (ea_date r) db) r"
      using row [of "ea_date r"] only [of r] by auto
    with r show "blocked_while_open deps now ?v (in_from i) (in_to i) db"
      using invalid_shown [OF assms(1) _ nn]
      by (auto simp: blocked_while_open_def list_ex_iff intro!: bexI [of _ "ea_date r"])
  next
    assume "blocked_while_open deps now ?v (in_from i) (in_to i) db"
    then obtain d where d: "in_from i \<le> d" "d < in_to i" "0 < blocked_for deps ?v d db"
      "heldUnits now ?v d db + bookedUnits ?v d db < totalAt ?v d db"
      by (auto simp: blocked_while_open_def list_ex_iff)
    then obtain r where "find_avail ?v d db' = Some r"
      and sh: "shows_availability now ?v d db (blocked_for deps ?v d db) r" using row by blast
    then have "r \<in> set (loadEffectiveAvailabilityForValidation i db')"
      using mem d by (auto simp: loadEffectiveAvailabilityForValidation_def)
    moreover have "invalid_row r" using invalid_shown [OF assms(1) sh nn] d by blast
    ultimately show "list_ex invalid_row (loadEffectiveAvailabilityForValidation i db')"
      by (auto simp: list_ex_iff)
  qed
qed

definition undisturbed :: "mutation_env \<Rightarrow> bool" where
  "undisturbed env \<longleftrightarrow> \<not> me_chain_spent env 0 \<and> re_fault (me_recompute env 0) 1 = None"

definition sound_instruction :: "instruction \<Rightarrow> bool" where
  "sound_instruction i \<longleftrightarrow> in_variantId i \<noteq> [] \<and> in_reason i \<noteq> [] \<and> in_idempotencyKey i \<noteq> Some [] \<and>
     in_from i < in_to i"

lemma apply_single:
  assumes "runMutationWithRetry mutate env 1 8 db = (Inr r, db1)"
    and "wf_inventory db1" "locks_named db1" "wf_avail db1"
    and "repo_deps deps" "recompute_store deps find_avail"
    and "recompute r = [i]" "sound_instruction i" "undisturbed env"
  shows "let out = applyInventoryMutation deps rowId env False enq mutate recompute db;
      now = re_now (me_recompute env 0) 1; v = in_variantId i in
    recomputed deps now v (in_from i) (in_to i) db1 (mo_db out) \<and> wf_avail (mo_db out) \<and>
    mo_result out =
      (if blocked_while_open deps now v (in_from i) (in_to i) db1
       then Inl (Thrown (''inventory_invariant_violation:'' @ v)) else Inr r)"
proof -
  obtain res db2 where run: "recomputeEffectiveAvailabilityRange deps rowId (me_recompute env 0)
      (recompute_input_of i) db1 = (Inr res, db2)"
    and rec: "recomputed deps (re_now (me_recompute env 0) 1) (in_variantId i) (in_from i) (in_to i) db1 db2"
    using recompute_undisturbed [OF assms(2,3,5,6), of "me_recompute env 0" i rowId] assms(8,9)
    by (auto simp: sound_instruction_def undisturbed_def)
  have wa: "wf_avail db2" by (rule recompute_unique [OF assms(5,4) run])
  have "run_recomputes deps rowId env False 0 [i] db1 = (None, db2)"
    using run assms(9) by (simp add: undisturbed_def)
  then show ?thesis
    using rec wa validate_recomputed [OF assms(2) wa rec] assms(1,7)
    by (simp add: applyInventoryMutation_def Let_def)
qed

text \<open>
  A mutation through the public entry point, on a well-formed inventory and with nothing in the
  way: the nights of its instruction are materialized from the tables as the mutation left them. The
  validation that follows compares \<open>availableUnits\<close> with total minus held minus booked and leaves the
  blocked units out, so the call throws exactly when some night has a blocked unit while units remain,
  after the change itself has been committed.
\<close>

theorem public_mutation_outcome:
  assumes "runMutationWithRetry mutate env 1 8 db = (Inr r, db1)"
    and "wf_inventory db1" "locks_named db1" "wf_avail db1"
    and "recompute r = [i]" "sound_instruction i" "undisturbed env"
  shows "let out = applyInventoryMutation public_deps rowId env False enq mutate recompute db;
      now = re_now (me_recompute env 0) 1; v = in_variantId i in
    recomputed public_deps now v (in_from i) (in_to i) db1 (mo_db out) \<and> wf_avail (mo_db out) \<and>
    mo_result out =
      (if blocked_while_open public_deps now v (in_from i) (in_to i) db1
       then Inl (Thrown (''inventory_invariant_violation:'' @ v)) else Inr r)"
  using apply_single [where recompute = recompute and i = i, OF assms(1-4) repo_deps_both(1) public_store.recompute_store_axioms assms(5-7)]
  by simp

definition quiet_mutation :: "ms \<Rightarrow> mutation_env" where
  "quiet_mutation t = \<lparr>me_spent = \<lambda>_. False, me_chain_spent = \<lambda>_. False,
     me_recompute = \<lambda>_. quiet_recompute t\<rparr>"

lemma quiet_mutation_undisturbed [simp]: "undisturbed (quiet_mutation t)"
  by (simp add: undisturbed_def quiet_mutation_def quiet_recompute_def)

definition example_blocked :: inv_db where
  "example_blocked = example_inv\<lparr>events := [\<lparr>ev_id = ''e1'', ev_calendar = ''c1'', ev_resource = None,
     ev_variant = ''v'', ev_active = True, ev_start = 11, ev_end = 12\<rparr>]\<rparr>"

definition example_instruction :: instruction where
  "example_instruction = \<lparr>in_variantId = ''v'', in_from = 10, in_to = 12, in_reason = ''hold_create'',
     in_idempotencyKey = None\<rparr>"

theorem public_mutation_outcome_witness:
  "mo_result (applyInventoryMutation public_deps (\<lambda>v d. v) (quiet_mutation 5) False True
     (\<lambda>n db. (Inr (), db)) (\<lambda>_. [example_instruction]) example_blocked) =
   Inl (Thrown ''inventory_invariant_violation:v'')"
proof -
  have wf: "wf_inventory example_blocked"
    using example_inv_wf
    by (simp add: example_blocked_def wf_inventory_def reservedAt_def lockUnits_def find_daily_def)
  have named: "locks_named example_blocked" and unique: "wf_avail example_blocked"
    by (simp_all add: locks_named_def wf_avail_def example_blocked_def example_inv_def)
  have sound: "sound_instruction example_instruction"
    by (simp add: sound_instruction_def example_instruction_def)
  have run: "runMutationWithRetry (\<lambda>n db. (Inr (), db)) (quiet_mutation 5) 1 8 example_blocked =
      (Inr (), example_blocked)"
    by (simp add: numeral_eq_Suc)
  have "blocked_while_open public_deps 5 ''v'' 10 12 example_blocked" by code_simp
  then have "blocked_while_open public_deps (re_now (me_recompute (quiet_mutation 5) 0) 1)
      (in_variantId example_instruction) (in_from example_instruction) (in_to example_instruction)
      example_blocked"
    by (simp add: example_instruction_def quiet_mutation_def quiet_recompute_def)
  then show ?thesis
    using public_mutation_outcome [where recompute = "\<lambda>_. [example_instruction]",
        OF run wf named unique _ sound quiet_mutation_undisturbed, of "\<lambda>v d. v" True]
    by (simp add: Let_def) (simp add: example_instruction_def)
qed

end
