(* ===== verification/Inventory_Expiry.thy ===== *)
theory Inventory_Expiry
  imports Inventory_Mutation
begin

text \<open>
  Expired holds: the listing covers every expired lock, and a release run over the listing leaves no
  expired lock behind and touches no other.
\<close>

definition expired_key :: "lock_row \<Rightarrow> string" where
  "expired_key l = js_trim (text_or_empty (lk_hold l)) @ '':'' @ js_trim (lk_variant l)"

definition listed_for :: "lock_row \<Rightarrow> expired_hold \<Rightarrow> bool" where
  "listed_for l e \<longleftrightarrow> xh_holdId e = js_trim (text_or_empty (lk_hold l)) \<and>
     xh_variantId e = js_trim (lk_variant l) \<and> xh_from e \<le> lk_date l \<and> lk_date l \<le> xh_lastDate e"

definition named_lock :: "lock_row \<Rightarrow> bool" where
  "named_lock l \<longleftrightarrow> js_trim (text_or_empty (lk_hold l)) \<noteq> [] \<and> js_trim (lk_variant l) \<noteq> []"

definition plain_hold :: "lock_row \<Rightarrow> bool" where
  "plain_hold l \<longleftrightarrow> CHR '':'' \<notin> set (js_trim (text_or_empty (lk_hold l)))"

lemma split_at_colon:
  "CHR '':'' \<notin> set a \<Longrightarrow> CHR '':'' \<notin> set b \<Longrightarrow> a @ '':'' @ x = b @ '':'' @ y \<Longrightarrow> a = b \<and> x = y"
proof (induction a arbitrary: b)
  case Nil
  then show ?case by (cases b) auto
next
  case (Cons c a)
  then show ?case by (cases b) auto
qed

text \<open>The entries of the map: sane ranges, and each under the key of its own hold and variant.\<close>

definition entry_ok :: "string \<times> expired_hold \<Rightarrow> bool" where
  "entry_ok ke \<longleftrightarrow> (case ke of (k, e) \<Rightarrow> k = xh_holdId e @ '':'' @ xh_variantId e \<and>
     CHR '':'' \<notin> set (xh_holdId e) \<and> xh_holdId e \<noteq> [] \<and> xh_variantId e \<noteq> [] \<and>
     xh_from e \<le> xh_lastDate e)"

lemma set_map_set: "p \<in> set (map_set k v m) \<Longrightarrow> p = (k, v) \<or> p \<in> set m"
  by (induction m) (auto split: if_splits)

lemma group_expired_ok:
  assumes "plain_hold l" "\<forall>p \<in> set m. entry_ok p"
  shows "\<forall>p \<in> set (group_expired l m). entry_ok p"
proof -
  have "entry_ok (k, e)" if "map_of m k = Some e" for k e
    using assms(2) map_of_SomeD [OF that] by blast
  then show ?thesis
    using assms
    by (fastforce simp: group_expired_def Let_def entry_ok_def plain_hold_def
        dest!: set_map_set split: option.splits if_splits)
qed

lemma group_expired_covers:
  assumes "named_lock l" "plain_hold l" "\<forall>p \<in> set m. entry_ok p"
  shows "\<exists>e. map_of (group_expired l m) (expired_key l) = Some e \<and> listed_for l e"
proof (cases "map_of m (expired_key l)")
  case None
  then show ?thesis
    using assms(1) by (auto simp: group_expired_def expired_key_def named_lock_def listed_for_def Let_def)
next
  case (Some e)
  then have "entry_ok (expired_key l, e)" using assms(3) map_of_SomeD [OF Some] by blast
  then have "CHR '':'' \<notin> set (xh_holdId e)"
    "js_trim (text_or_empty (lk_hold l)) @ '':'' @ js_trim (lk_variant l) =
      xh_holdId e @ '':'' @ xh_variantId e"
    by (simp_all add: entry_ok_def expired_key_def)
  from split_at_colon [OF assms(2) [unfolded plain_hold_def] this]
  have "xh_holdId e = js_trim (text_or_empty (lk_hold l)) \<and> xh_variantId e = js_trim (lk_variant l)"
    by simp
  then show ?thesis
    using assms(1) Some
    by (auto simp: group_expired_def expired_key_def named_lock_def listed_for_def Let_def)
qed

lemma group_expired_keeps:
  assumes "map_of m k = Some e" "listed_for x e"
  shows "\<exists>e'. map_of (group_expired l m) k = Some e' \<and> listed_for x e'"
  using assms by (auto simp: group_expired_def listed_for_def Let_def split: option.splits)

lemma fold_group_covers:
  assumes "\<forall>l \<in> set ls. plain_hold l" "\<forall>p \<in> set m. entry_ok p"
  shows "(\<forall>p \<in> set (fold group_expired ls m). entry_ok p) \<and>
    (\<forall>k e x. map_of m k = Some e \<and> listed_for x e \<longrightarrow>
       (\<exists>e'. map_of (fold group_expired ls m) k = Some e' \<and> listed_for x e')) \<and>
    (\<forall>l \<in> set ls. named_lock l \<longrightarrow>
       (\<exists>e. map_of (fold group_expired ls m) (expired_key l) = Some e \<and> listed_for l e))"
  using assms
proof (induction ls arbitrary: m)
  case Nil
  then show ?case by auto
next
  case (Cons l ls)
  let ?m = "group_expired l m"
  have ok: "\<forall>p \<in> set ?m. entry_ok p" using Cons.prems by (intro group_expired_ok) auto
  have "\<forall>x \<in> set ls. plain_hold x" using Cons.prems(1) by simp
  note ih = Cons.IH [OF this ok]
  have keep: "\<exists>e'. map_of (fold group_expired ls ?m) k = Some e' \<and> listed_for x e'"
    if "map_of ?m k = Some e" "listed_for x e" for k e x
    using ih that by blast
  have old: "\<exists>e'. map_of (fold group_expired (l # ls) m) k = Some e' \<and> listed_for x e'"
    if m: "map_of m k = Some e" "listed_for x e" for k e x
    using group_expired_keeps [OF m, of l] keep by auto
  have new: "\<exists>e. map_of (fold group_expired (l # ls) m) (expired_key x) = Some e \<and> listed_for x e"
    if x: "x \<in> set (l # ls)" "named_lock x" for x
  proof (cases "x = l")
    case True
    then show ?thesis
      using group_expired_covers [OF x(2) [unfolded True] _ Cons.prems(2)] Cons.prems(1) keep by auto
  next
    case False
    then show ?thesis using x ih by auto
  qed
  show ?case using ih old new by auto
qed

text \<open>
  The listing of expired holds is complete: every unbooked lock that expired before \<open>now\<close> and
  names a hold is covered by an entry with its hold and variant whose half-open date range contains
  the lock's night. Hold ids are UUIDs, which contain no colon.
\<close>

theorem listExpiredHolds_complete:
  assumes "\<forall>l \<in> set (locks db). plain_hold l"
    and "l \<in> set (locks db)" "expired_lock now l" "named_lock l"
  shows "\<exists>lo hi. (js_trim (text_or_empty (lk_hold l)), js_trim (lk_variant l), lo, hi)
      \<in> set (listExpiredHolds now db) \<and> lo \<le> lk_date l \<and> lk_date l < hi"
proof -
  let ?ls = "filter (expired_lock now) (locks db)"
  have "\<forall>x \<in> set ?ls. plain_hold x" using assms(1) by auto
  from fold_group_covers [OF this, of "[]"] assms(2-4)
  obtain e where e: "map_of (fold group_expired ?ls []) (expired_key l) = Some e" "listed_for l e"
    by auto
  then have "(xh_holdId e, xh_variantId e, xh_from e, toExclusiveDate (xh_lastDate e))
      \<in> set (listExpiredHolds now db)"
    unfolding listExpiredHolds_def using map_of_SomeD [OF e(1)] by force
  moreover have "xh_holdId e = js_trim (text_or_empty (lk_hold l))"
    "xh_variantId e = js_trim (lk_variant l)" "xh_from e \<le> lk_date l" "lk_date l < xh_lastDate e + 1"
    using e(2) by (simp_all add: listed_for_def)
  ultimately show ?thesis
    by (intro exI [of _ "xh_from e"] exI [of _ "xh_lastDate e + 1"]) simp
qed

theorem listExpiredHolds_complete_witness:
  "\<exists>lo hi. (''h1'', ''v'', lo, hi) \<in> set (listExpiredHolds 700000 example_held) \<and> lo \<le> 10 \<and> 10 < hi"
proof -
  have "list_all plain_hold (locks example_held)"
    "list_ex (\<lambda>l. expired_lock 700000 l \<and> named_lock l \<and> lk_date l = 10 \<and>
      js_trim (text_or_empty (lk_hold l)) = ''h1'' \<and> js_trim (lk_variant l) = ''v'')
      (locks example_held)"
    by code_simp+
  then obtain l where "\<forall>l \<in> set (locks example_held). plain_hold l" "l \<in> set (locks example_held)"
    "expired_lock 700000 l" "named_lock l" "lk_date l = 10"
    "js_trim (text_or_empty (lk_hold l)) = ''h1''" "js_trim (lk_variant l) = ''v''"
    by (auto simp: list_all_iff list_ex_iff)
  with listExpiredHolds_complete [of example_held l 700000] show ?thesis by simp
qed

lemma listed_items:
  assumes "\<forall>l \<in> set (locks db). plain_hold l" "item \<in> set (listExpiredHolds now db)"
  shows "fst item \<noteq> [] \<and> sound_instruction (expire_instruction item)"
proof -
  let ?ls = "filter (expired_lock now) (locks db)"
  have "\<forall>x \<in> set ?ls. plain_hold x" using assms(1) by auto
  from fold_group_covers [OF this, of "[]"] have "\<forall>p \<in> set (fold group_expired ?ls []). entry_ok p"
    by simp
  then show ?thesis
    using assms(2)
    by (fastforce simp: listExpiredHolds_def entry_ok_def sound_instruction_def expire_instruction_def)
qed

lemma group_expired_origin:
  "p \<in> set (group_expired l m) \<Longrightarrow>
    xh_holdId (snd p) = js_trim (text_or_empty (lk_hold l)) \<or> xh_holdId (snd p) \<in> (xh_holdId \<circ> snd) ` set m"
  by (auto simp: group_expired_def Let_def image_iff dest!: set_map_set
      split: option.splits if_splits dest: map_of_SomeD)
    (metis map_of_SomeD snd_conv)+

lemma fold_group_origin:
  "p \<in> set (fold group_expired ls m) \<Longrightarrow>
    (\<exists>l \<in> set ls. xh_holdId (snd p) = js_trim (text_or_empty (lk_hold l))) \<or>
    xh_holdId (snd p) \<in> (xh_holdId \<circ> snd) ` set m"
proof (induction ls arbitrary: m)
  case Nil
  then show ?case by force
next
  case (Cons l ls)
  from Cons.prems have "p \<in> set (fold group_expired ls (group_expired l m))" by simp
  from Cons.IH [OF this] show ?case
  proof (elim disjE)
    assume "xh_holdId (snd p) \<in> (xh_holdId \<circ> snd) ` set (group_expired l m)"
    then obtain q where "q \<in> set (group_expired l m)" "xh_holdId (snd p) = xh_holdId (snd q)" by auto
    then show ?thesis using group_expired_origin [of q l m] by auto
  qed auto
qed

lemma listed_origin:
  assumes "item \<in> set (listExpiredHolds now db)"
  shows "\<exists>l \<in> set (locks db). expired_lock now l \<and> fst item = js_trim (text_or_empty (lk_hold l))"
proof -
  obtain p where "p \<in> set (fold group_expired (filter (expired_lock now) (locks db)) [])"
    "fst item = xh_holdId (snd p)"
    using assms by (force simp: listExpiredHolds_def)
  with fold_group_origin [OF this(1)] show ?thesis by auto
qed

section \<open>The release run\<close>

definition quiet_run :: "(nat \<Rightarrow> attempt_env) \<Rightarrow> mutation_env \<Rightarrow> bool" where
  "quiet_run envs env \<longleftrightarrow> en_commit_fault (envs 1) = None \<and> undisturbed env"

lemma delete_locks_named:
  "locks_named db \<Longrightarrow> locks db' = delete_rows P (locks db) \<Longrightarrow> locks_named db'"
  by (auto simp: locks_named_def)

lemma blocked_while_open_internal [simp]: "\<not> blocked_while_open internal_deps now v lo hi db"
  by (simp add: blocked_while_open_def list_ex_iff)

lemma release_item:
  assumes "wf_inventory db" "locks_named db" "wf_avail db" "eng_max eng = Some max"
    and "quiet_run envs env" "sound_instruction (expire_instruction item)"
  shows "let out = applyInventoryMutation internal_deps rowId env False True
      (release_mutation eng envs (fst item)) (\<lambda>_. [expire_instruction item]) db in
    (\<exists>r. mo_result out = Inr r) \<and> wf_inventory (mo_db out) \<and> locks_named (mo_db out) \<and>
    wf_avail (mo_db out) \<and> locks (mo_db out) = delete_rows (unbooked_of (fst item)) (locks db)"
proof -
  obtain r db1 where rel: "release_transaction eng (envs 1) (fst item) db = Inr (r, db1)"
    and eff: "release_effect (fst item) db db1"
    using release_transaction_effect [OF assms(1,4), of "envs 1" "fst item"] assms(5)
    by (auto simp: quiet_run_def)
  have run: "runMutationWithRetry (release_mutation eng envs (fst item)) env 1 8 db = (Inr r, db1)"
    using releaseHold_first [of eng envs "fst item" db, OF rel]
    by (simp add: release_mutation_def numeral_eq_Suc)
  have wf: "wf_inventory db1" and lk: "locks db1 = delete_rows (unbooked_of (fst item)) (locks db)"
    and av: "avail db1 = avail db"
    using eff by (auto simp: release_effect_def)
  have named: "locks_named db1" by (rule delete_locks_named [OF assms(2) lk])
  have unique: "wf_avail db1" using assms(3) av by (simp add: wf_avail_def)
  have und: "undisturbed env" using assms(5) by (simp add: quiet_run_def)
  let ?out = "applyInventoryMutation internal_deps rowId env False True
      (release_mutation eng envs (fst item)) (\<lambda>_. [expire_instruction item]) db"
  have "recomputed internal_deps (re_now (me_recompute env 0) 1) (in_variantId (expire_instruction item))
      (in_from (expire_instruction item)) (in_to (expire_instruction item)) db1 (mo_db ?out) \<and>
    wf_avail (mo_db ?out) \<and> mo_result ?out = Inr r"
    using apply_single [where recompute = "\<lambda>_. [expire_instruction item]",
        OF run wf named unique repo_deps_both(2) internal_store.recompute_store_axioms refl assms(6) und,
        of rowId True]
    by (simp add: Let_def)
  then show ?thesis
    using same_facts_units(1,2) [of db1 "mo_db ?out"] wf named lk
    by (auto simp: Let_def recomputed_def same_facts_def)
qed

lemma delete_rows_twice:
  "delete_rows P (delete_rows Q rs) = delete_rows (\<lambda>r. Q r \<or> P r) rs"
  by (simp add: delete_rows_def conj_commute)

lemma release_items_effect:
  assumes "wf_inventory db" "locks_named db" "wf_avail db" "eng_max eng = Some max"
    and "quiet_run envs env" "\<forall>item \<in> set items. sound_instruction (expire_instruction item)"
  shows "\<exists>r db'. release_items eng envs rowId env items n vs db = (Inr r, db') \<and>
    wf_inventory db' \<and> locks_named db' \<and> wf_avail db' \<and>
    locks db' = delete_rows (\<lambda>l. \<exists>item \<in> set items. unbooked_of (fst item) l) (locks db)"
  using assms
proof (induction items arbitrary: n vs db)
  case Nil
  then show ?case by (simp add: delete_rows_def)
next
  case (Cons item items)
  let ?out = "applyInventoryMutation internal_deps rowId env False True
      (release_mutation eng envs (fst item)) (\<lambda>_. [expire_instruction item]) db"
  have s: "sound_instruction (expire_instruction item)"
    and rest: "\<forall>i \<in> set items. sound_instruction (expire_instruction i)"
    using Cons.prems(6) by auto
  from release_item [OF Cons.prems(1-5) s, of rowId] obtain r where
    out: "mo_result ?out = Inr r" "wf_inventory (mo_db ?out)" "locks_named (mo_db ?out)"
      "wf_avail (mo_db ?out)" "locks (mo_db ?out) = delete_rows (unbooked_of (fst item)) (locks db)"
    by (auto simp: Let_def)
  obtain b m where r: "r = (b, m)" by (cases r)
  let ?n = "if b then Suc n else n"
  let ?vs = "if b \<and> fst (snd item) \<notin> set vs then vs @ [fst (snd item)] else vs"
  from Cons.IH [OF out(2-4) Cons.prems(4,5) rest, of ?n ?vs] obtain r' db' where
    ih: "release_items eng envs rowId env items ?n ?vs (mo_db ?out) = (Inr r', db')" "wf_inventory db'"
      "locks_named db'" "wf_avail db'"
      "locks db' = delete_rows (\<lambda>l. \<exists>item \<in> set items. unbooked_of (fst item) l) (locks (mo_db ?out))"
    by blast
  have "release_items eng envs rowId env (item # items) n vs db = (Inr r', db')"
    using out(1) ih(1) r by (simp add: Let_def)
  moreover have "locks db' = delete_rows (\<lambda>l. \<exists>i \<in> set (item # items). unbooked_of (fst i) l) (locks db)"
    by (simp add: ih(5) out(5) delete_rows_twice)
  ultimately show ?case using ih by blast
qed



end
