(* ===== verification/Create_Hold.thy ===== *)
theory Create_Hold
  imports Inventory_Expiry
begin

text \<open>
  The hold use cases: \<open>application/use-cases/create-inventory-hold.ts\<close>, \<open>hold-inventory.ts\<close> and
  \<open>release-inventory-hold.ts\<close>, written against the port \<open>InventoryHoldRepositoryPort\<close>, whose
  promises are the locale \<open>hold_repository\<close>.
\<close>

section \<open>The hold id\<close>

definition hex_digits :: string where
  "hex_digits = ''0123456789abcdef''"

fun index_of :: "char \<Rightarrow> string \<Rightarrow> nat" where
  "index_of c [] = 0"
| "index_of c (x # xs) = (if x = c then 0 else Suc (index_of c xs))"

definition hex_value :: "char \<Rightarrow> nat" where
  "hex_value c = index_of c hex_digits"

text \<open>\<open>((nibble & 0x3) | 0x8).toString(16)\<close>\<close>

definition variant_nibble :: "char \<Rightarrow> char" where
  "variant_nibble c = hex_digits ! (hex_value c mod 4 + 8)"

definition slice :: "nat \<Rightarrow> nat \<Rightarrow> string \<Rightarrow> string" where
  "slice i j s = drop i (take j s)"

definition toStableUuidFromString :: "(string \<Rightarrow> string) \<Rightarrow> string \<Rightarrow> string" where
  "toStableUuidFromString sha1 value =
     (let bytes = slice 0 32 (sha1 value);
          versioned = bytes[12 := CHR ''5''];
          normalized = versioned[16 := variant_nibble (versioned ! 16)]
      in slice 0 8 normalized @ ''-'' @ slice 8 12 normalized @ ''-'' @ slice 12 16 normalized @ ''-''
           @ slice 16 20 normalized @ ''-'' @ slice 20 32 normalized)"

fun digits_of :: "nat \<Rightarrow> string" where
  "digits_of n = (if n < 10 then [hex_digits ! n] else digits_of (n div 10) @ [hex_digits ! (n mod 10)])"

declare digits_of.simps [simp del]

definition buildIdempotencyHoldId ::
  "(string \<Rightarrow> string) \<Rightarrow> (date_text \<Rightarrow> string) \<Rightarrow> string \<Rightarrow> string \<Rightarrow> date_text \<Rightarrow> date_text \<Rightarrow> string \<Rightarrow> int
     \<Rightarrow> string option \<Rightarrow> string" where
  "buildIdempotencyHoldId sha1 text_of sessionId variantId lo hi ratePlanId rooms selectionKey =
     toStableUuidFromString sha1
       (''hold:'' @ sessionId @ '':'' @ variantId @ '':'' @ ratePlanId @ '':'' @ text_of lo @ '':'' @
        text_of hi @ '':'' @ digits_of (nat rooms) @ '':'' @ text_or_empty selectionKey)"

text \<open>What \<open>z.string().uuid()\<close> accepts, apart from the nil and the max UUID.\<close>

definition is_hex :: "char \<Rightarrow> bool" where
  "is_hex c \<longleftrightarrow> c \<in> set ''0123456789abcdefABCDEF''"

definition is_uuid :: "string \<Rightarrow> bool" where
  "is_uuid s \<longleftrightarrow> length s = 36 \<and>
     list_all (\<lambda>i. if i \<in> set [8, 13, 18, 23] then s ! i = CHR ''-'' else is_hex (s ! i)) [0..<36] \<and>
     s ! 14 \<in> set ''12345678'' \<and> s ! 19 \<in> set ''89abAB''"

section \<open>The port\<close>

record 's hold_port =
  hpo_find :: "string \<Rightarrow> ms \<Rightarrow> 's \<Rightarrow> (string \<times> ms \<times> hold_snapshot option) option"
  hpo_hold :: "hold_params \<Rightarrow> 's \<Rightarrow> (tx_error + hold_result) \<times> 's"
  hpo_release :: "string \<Rightarrow> 's \<Rightarrow> (tx_error + bool \<times> nat) \<times> 's"

record create_input =
  ci_variantId :: string
  ci_from :: date_text
  ci_to :: date_text
  ci_rooms :: "int option"
  ci_occupancy :: "int option"
  ci_sessionId :: string
  ci_selectionKey :: "string option"

text \<open>
  The other modules the use case calls. Policy resolution, exception rules and the policy snapshot
  are one dependency; each may throw. \<open>cd_audit\<close> is the audit sink, where one is wired: what it
  throws for an event, if anything.
\<close>

datatype audit_event =
    PolicySnapshotCreated string
  | PolicyOverrideResolved string "string option" policy_override string

record create_deps =
  cd_pricing :: "string \<Rightarrow> date_text \<Rightarrow> date_text \<Rightarrow> int \<Rightarrow> failure + hold_snapshot option"
  cd_policy :: "string \<Rightarrow> string \<Rightarrow> date_text \<Rightarrow> date_text \<Rightarrow> ms \<Rightarrow> failure + hold_policy"
  cd_audit :: "(audit_event \<Rightarrow> failure option) option"
  cd_guest :: "(string \<Rightarrow> failure + guest_json) option"
  cd_ratePlanId :: string
  cd_channel :: "string option"

record codec =
  cc_sha1 :: "string \<Rightarrow> string"
  cc_text :: "date_text \<Rightarrow> string"
  cc_lc :: "string \<Rightarrow> string \<Rightarrow> int"
  cc_digest :: "commercial_payload \<Rightarrow> string"

definition input_rejected :: "create_input \<Rightarrow> bool" where
  "input_rejected input \<longleftrightarrow>
     ci_variantId input = [] \<or> date_blank (ci_from input) \<or> date_blank (ci_to input) \<or>
     (case ci_rooms input of Some n \<Rightarrow> n < 1 | None \<Rightarrow> False) \<or>
     (case ci_occupancy input of Some n \<Rightarrow> n < 1 | None \<Rightarrow> False) \<or>
     ci_sessionId input = [] \<or>
     (case ci_selectionKey input of
        Some k \<Rightarrow> js_trim k = [] \<or> 240 < length (js_trim k) | None \<Rightarrow> False)"

definition requested_rooms :: "create_input \<Rightarrow> int" where
  "requested_rooms input = (case ci_rooms input of Some n \<Rightarrow> n
     | None \<Rightarrow> (case ci_occupancy input of Some n \<Rightarrow> n | None \<Rightarrow> 0))"

definition audit_events :: "string \<Rightarrow> hold_policy \<Rightarrow> audit_event list" where
  "audit_events ratePlanId policy = PolicySnapshotCreated ratePlanId #
     concat (map (\<lambda>item. case item of None \<Rightarrow> [] | Some i \<Rightarrow>
         map (\<lambda>ov. PolicyOverrideResolved (pi_policyId i) (pi_groupId i) ov (pi_category i))
           (pi_overrides i))
       [hp_cancellation policy, hp_payment policy, hp_no_show policy, hp_check_in policy])"

fun run_audit :: "(audit_event \<Rightarrow> failure option) \<Rightarrow> audit_event list \<Rightarrow> failure option" where
  "run_audit sink [] = None"
| "run_audit sink (e # es) = (case sink e of Some f \<Rightarrow> Some f | None \<Rightarrow> run_audit sink es)"

definition hold_params_of ::
  "string \<Rightarrow> create_deps \<Rightarrow> create_input \<Rightarrow> ms \<Rightarrow> ms \<Rightarrow> ms \<Rightarrow> hold_policy \<Rightarrow> guest_json \<Rightarrow> hold_snapshot
     \<Rightarrow> hold_params" where
  "hold_params_of holdId deps input checkIn checkOut expiresAt policy guest snapshot =
     \<lparr>pr_holdId = holdId, pr_variantId = ci_variantId input, pr_ratePlanId = js_trim (cd_ratePlanId deps),
      pr_checkIn = checkIn, pr_checkOut = checkOut, pr_quantity = requested_rooms input,
      pr_expiresAt = expiresAt, pr_channel = cd_channel deps, pr_policy = Some policy, pr_guest = guest,
      pr_snapshot = snapshot\<rparr>"

text \<open>The part after the lookup of an active hold: price, policies, audit, guest texts, hold.\<close>

definition create_new_hold ::
  "codec \<Rightarrow> 's hold_port \<Rightarrow> create_deps \<Rightarrow> create_input \<Rightarrow> ms \<Rightarrow> string \<Rightarrow> ms \<Rightarrow> ms \<Rightarrow> 's
     \<Rightarrow> (failure + string \<times> ms \<times> price_quote) \<times> 's" where
  "create_new_hold cc port deps input now holdId checkIn checkOut s =
     (let rooms = requested_rooms input; ratePlanId = js_trim (cd_ratePlanId deps);
          expiresAt = now + 600000
      in case cd_pricing deps (ci_variantId input) (ci_from input) (ci_to input) rooms of
           Inl e \<Rightarrow> (Inl e, s)
         | Inr None \<Rightarrow> (Inl (Thrown ''PRICING_SNAPSHOT_INVALID''), s)
         | Inr (Some snapshot) \<Rightarrow>
             if \<not> isHoldCommercialSnapshot (cc_lc cc) (cc_digest cc) snapshot
             then (Inl (Thrown ''PRICING_SNAPSHOT_INVALID''), s)
             else (case cd_policy deps (ci_variantId input) ratePlanId (ci_from input) (ci_to input) now of
                 Inl e \<Rightarrow> (Inl e, s)
               | Inr policy \<Rightarrow>
                   (case (case cd_audit deps of None \<Rightarrow> None
                       | Some sink \<Rightarrow> run_audit sink (audit_events ratePlanId policy)) of
                      Some e \<Rightarrow> (Inl e, s)
                    | None \<Rightarrow>
                        (case (case cd_guest deps of None \<Rightarrow> Inr None | Some g \<Rightarrow> g (ci_variantId input)) of
                           Inl e \<Rightarrow> (Inl e, s)
                         | Inr guest \<Rightarrow>
                             (case hpo_hold port (hold_params_of holdId deps input checkIn checkOut
                                 expiresAt policy guest snapshot) s of
                                (Inl e, s') \<Rightarrow> (Inl (Store e), s')
                              | (Inr HoldNotAvailable, s') \<Rightarrow> (Inl (Thrown ''not_available''), s')
                              | (Inr (HoldTaken h t), s') \<Rightarrow>
                                  (Inr (h, t, hs_priceQuote snapshot), s'))))))"

definition hold_id_of :: "codec \<Rightarrow> create_deps \<Rightarrow> create_input \<Rightarrow> string" where
  "hold_id_of cc deps input =
     buildIdempotencyHoldId (cc_sha1 cc) (cc_text cc) (ci_sessionId input) (ci_variantId input)
       (ci_from input) (ci_to input) (js_trim (cd_ratePlanId deps)) (requested_rooms input)
       (map_option js_trim (ci_selectionKey input))"

definition createInventoryHold ::
  "codec \<Rightarrow> 's hold_port \<Rightarrow> create_deps \<Rightarrow> create_input \<Rightarrow> ms \<Rightarrow> 's
     \<Rightarrow> (failure + string \<times> ms \<times> price_quote) \<times> 's" where
  "createInventoryHold cc port deps input now s =
     (if input_rejected input \<or> requested_rooms input < 1 then (Inl (Thrown ''ZodError''), s)
      else case (date_time (ci_from input), date_time (ci_to input)) of
          (Some checkIn, Some checkOut) \<Rightarrow>
            if checkOut \<le> checkIn then (Inl (Thrown ''ZodError''), s)
            else if js_trim (cd_ratePlanId deps) = [] then (Inl (Thrown ''ZodError''), s)
            else (let holdId = hold_id_of cc deps input
              in case hpo_find port holdId now s of
                   Some (h, t, snapshot) \<Rightarrow>
                     (case snapshot of
                        None \<Rightarrow> (Inl (Thrown ''HOLD_COMMERCIAL_SNAPSHOT_MISSING''), s)
                      | Some snap \<Rightarrow>
                          if isHoldCommercialSnapshot (cc_lc cc) (cc_digest cc) snap
                          then (Inr (h, t, hs_priceQuote snap), s)
                          else (Inl (Thrown ''HOLD_COMMERCIAL_SNAPSHOT_MISSING''), s))
                 | None \<Rightarrow> create_new_hold cc port deps input now holdId checkIn checkOut s)
        | _ \<Rightarrow> (Inl (Thrown ''ZodError''), s))"

text \<open>The thin use cases over the same port (\<open>hold-inventory.ts\<close>, \<open>release-inventory-hold.ts\<close>).\<close>

definition holdInventoryUseCase ::
  "codec \<Rightarrow> 's hold_port \<Rightarrow> hold_params \<Rightarrow> 's \<Rightarrow> (failure + hold_result) \<times> 's" where
  "holdInventoryUseCase cc port p s =
     (if pr_variantId p = [] \<or> pr_ratePlanId p = [] \<or> pr_quantity p < 1 \<or> \<not> is_uuid (pr_holdId p) \<or>
         (case pr_channel p of Some c \<Rightarrow> js_trim c = [] | None \<Rightarrow> False)
      then (Inl (Thrown ''ZodError''), s)
      else if pr_checkOut p \<le> pr_checkIn p then (Inr HoldNotAvailable, s)
      else if \<not> isHoldCommercialSnapshot (cc_lc cc) (cc_digest cc) (pr_snapshot p)
        then (Inl (Thrown ''PRICING_SNAPSHOT_INVALID''), s)
      else case hpo_hold port (p\<lparr>pr_channel := map_option js_trim (pr_channel p)\<rparr>) s of
          (Inl e, s') \<Rightarrow> (Inl (Store e), s')
        | (Inr r, s') \<Rightarrow> (Inr r, s'))"

definition releaseInventoryHold ::
  "'s hold_port \<Rightarrow> string \<Rightarrow> 's \<Rightarrow> (failure + bool \<times> nat) \<times> 's" where
  "releaseInventoryHold port holdId s =
     (if \<not> is_uuid holdId then (Inl (Thrown ''ZodError''), s)
      else case hpo_release port holdId s of
          (Inl e, s') \<Rightarrow> (Inl (Store e), s')
        | (Inr r, s') \<Rightarrow> (Inr r, s'))"

section \<open>What the port promises\<close>

text \<open>
  \<open>inv\<close> is the provider's state invariant. An active hold stays visible until it expires, a hold that
  has been taken is visible at once with its expiry and its snapshot, and a call that takes no hold
  changes nothing.
\<close>

locale hold_repository =
  fixes port :: "'s hold_port" and inv :: "'s \<Rightarrow> bool"
  assumes find_id: "hpo_find port h now s = Some (h', t, x) \<Longrightarrow> h' = h \<and> now \<le> t"
    and find_stable: "hpo_find port h now s = Some (h', t, x) \<Longrightarrow> now \<le> now' \<Longrightarrow> now' \<le> t \<Longrightarrow>
      hpo_find port h now' s = Some (h', t, x)"
    and hold_visible: "inv s \<Longrightarrow> 0 < pr_quantity p \<Longrightarrow> pr_holdId p \<noteq> [] \<Longrightarrow>
      hpo_hold port p s = (Inr (HoldTaken h t), s') \<Longrightarrow>
      h = pr_holdId p \<and> t = pr_expiresAt p \<and>
        (\<forall>now. now \<le> t \<longrightarrow> hpo_find port h now s' = Some (h, t, Some (pr_snapshot p)))"
    and hold_atomic: "hpo_hold port p s = (r, s') \<Longrightarrow> \<nexists>h t. r = Inr (HoldTaken h t) \<Longrightarrow> s' = s"
    and hold_keeps: "inv s \<Longrightarrow> 0 < pr_quantity p \<Longrightarrow> hpo_hold port p s = (r, s') \<Longrightarrow> inv s'"
begin

lemma create_new_failure:
  assumes "create_new_hold cc port deps input now holdId a b s = (Inl e, s')"
  shows "s' = s"
  using assms hold_atomic
  by (auto simp: create_new_hold_def Let_def split: sum.splits option.splits if_splits prod.splits
      hold_result.splits)

lemma create_failure:
  assumes "createInventoryHold cc port deps input now s = (Inl e, s')"
  shows "s' = s"
  using assms create_new_failure
  by (auto simp: createInventoryHold_def Let_def split: sum.splits option.splits if_splits prod.splits)

lemma create_new_success:
  assumes "create_new_hold cc port deps input now holdId a b s = (Inr (h, t, q), s')"
    and "inv s" "0 < requested_rooms input" "holdId \<noteq> []"
  shows "h = holdId \<and> t = now + 600000 \<and> inv s' \<and>
    (\<exists>snap. isHoldCommercialSnapshot (cc_lc cc) (cc_digest cc) snap \<and> q = hs_priceQuote snap \<and>
      cd_pricing deps (ci_variantId input) (ci_from input) (ci_to input) (requested_rooms input)
        = Inr (Some snap) \<and>
      (\<forall>now'. now' \<le> t \<longrightarrow> hpo_find port holdId now' s' = Some (holdId, t, Some snap)))"
proof -
  obtain snap policy guest where
    snap: "cd_pricing deps (ci_variantId input) (ci_from input) (ci_to input) (requested_rooms input)
        = Inr (Some snap)" "isHoldCommercialSnapshot (cc_lc cc) (cc_digest cc) snap"
    and q: "q = hs_priceQuote snap"
    and run: "hpo_hold port (hold_params_of holdId deps input a b (now + 600000) policy guest snap) s
        = (Inr (HoldTaken h t), s')"
    using assms(1)
    by (auto simp: create_new_hold_def Let_def
        split: sum.splits option.splits if_splits prod.splits hold_result.splits)
  let ?p = "hold_params_of holdId deps input a b (now + 600000) policy guest snap"
  have p: "pr_quantity ?p = requested_rooms input" "pr_holdId ?p = holdId"
    "pr_expiresAt ?p = now + 600000" "pr_snapshot ?p = snap"
    by (simp_all add: hold_params_of_def)
  show ?thesis
    using hold_visible [OF assms(2) _ _ run] hold_keeps [OF assms(2) _ run] assms(3,4) snap q p by auto
qed

lemma create_again:
  assumes "createInventoryHold cc port deps input now s = (Inr (h, t, q), s')"
    and "inv s" "hold_id_of cc deps input \<noteq> []"
    and "now \<le> now'" "now' \<le> t" "cd_ratePlanId deps' = cd_ratePlanId deps"
  shows "createInventoryHold cc port deps' input now' s' = (Inr (h, t, q), s')"
proof -
  let ?id = "hold_id_of cc deps input"
  have id': "hold_id_of cc deps' input = ?id" by (simp add: hold_id_of_def assms(6))
  obtain a b where guards: "\<not> input_rejected input" "\<not> requested_rooms input < 1"
    "date_time (ci_from input) = Some a" "date_time (ci_to input) = Some b" "a < b"
    "js_trim (cd_ratePlanId deps) \<noteq> []"
    and body: "(case hpo_find port ?id now s of
        Some (h, t, snapshot) \<Rightarrow>
          (case snapshot of
             None \<Rightarrow> (Inl (Thrown ''HOLD_COMMERCIAL_SNAPSHOT_MISSING''), s)
           | Some snap \<Rightarrow>
               if isHoldCommercialSnapshot (cc_lc cc) (cc_digest cc) snap
               then (Inr (h, t, hs_priceQuote snap), s)
               else (Inl (Thrown ''HOLD_COMMERCIAL_SNAPSHOT_MISSING''), s))
      | None \<Rightarrow> create_new_hold cc port deps input now ?id a b s) = (Inr (h, t, q), s')"
    using assms(1)
    by (auto simp: createInventoryHold_def Let_def not_le split: if_splits option.splits)
  have visible: "\<exists>snap. hpo_find port ?id now' s' = Some (h, t, Some snap) \<and>
      isHoldCommercialSnapshot (cc_lc cc) (cc_digest cc) snap \<and> q = hs_priceQuote snap"
  proof (cases "hpo_find port ?id now s")
    case None
    then have "create_new_hold cc port deps input now ?id a b s = (Inr (h, t, q), s')"
      using body by simp
    from create_new_success [OF this assms(2) _ assms(3)] guards(2) assms(5) show ?thesis by auto
  next
    case (Some x)
    then obtain snap where "hpo_find port ?id now s = Some (h, t, Some snap)"
      "isHoldCommercialSnapshot (cc_lc cc) (cc_digest cc) snap" "q = hs_priceQuote snap" "s' = s"
      using body by (cases x) (auto split: option.splits if_splits)
    then show ?thesis using find_stable [OF _ assms(4,5)] by auto
  qed
  then show ?thesis
    using guards id' by (auto simp: createInventoryHold_def Let_def assms(6))
qed

end

section \<open>The repository keeps the promises\<close>

text \<open>
  The repository on one engine, with the environment of its attempts. The promises hold where the
  \<open>Hold\<close> table exists: every named lock then has its \<open>Hold\<close> row.
\<close>

definition repository_port :: "engine \<Rightarrow> (nat \<Rightarrow> attempt_env) \<Rightarrow> inv_db hold_port" where
  "repository_port eng envs =
     \<lparr>hpo_find = findActiveHold, hpo_hold = holdInventory eng envs, hpo_release = releaseHold eng envs\<rparr>"

definition locks_have_holds :: "inv_db \<Rightarrow> bool" where
  "locks_have_holds db \<longleftrightarrow>
     (\<forall>l \<in> set (locks db). \<forall>h. lk_hold l = Some h \<longrightarrow> (\<exists>x \<in> set (holds db). h_id x = h))"

definition hold_table_present :: "engine \<Rightarrow> (nat \<Rightarrow> attempt_env) \<Rightarrow> bool" where
  "hold_table_present eng envs \<longleftrightarrow>
     (\<forall>n c m. en_insert_fault (envs n) = Some (DbError c m) \<longrightarrow> \<not> isMissingHoldTableError m) \<and>
     (\<forall>c m. eng_duplicate_hold eng = DbError c m \<longrightarrow> \<not> isMissingHoldTableError m)"

definition port_inv :: "inv_db \<Rightarrow> bool" where
  "port_inv db \<longleftrightarrow> wf_inventory db \<and> locks_have_holds db"

lemma insert_hold_fresh:
  assumes "hold_table_present eng envs" "insert_hold eng (envs n) p db = Inr db1"
  shows "db1 = db\<lparr>holds := holds db @ [hold_row_of p]\<rparr> \<and> (\<forall>h \<in> set (holds db). h_id h \<noteq> pr_holdId p)"
  using assms
  by (auto simp: insert_hold_def hold_table_present_def Let_def
      split: option.splits tx_error.splits if_splits)

lemma hold_transaction_tables:
  assumes "hold_table_present eng envs" "wf_inventory db" "0 < pr_quantity p"
    and "hold_transaction eng (envs n) p db = Inr db'"
  shows "holds db' = holds db @ [hold_row_of p] \<and> (\<forall>h \<in> set (holds db). h_id h \<noteq> pr_holdId p) \<and>
    locks db' = locks db @ map (lock_row_of p) (datesInRange (pr_checkIn p) (pr_checkOut p)) \<and>
    datesInRange (pr_checkIn p) (pr_checkOut p) \<noteq> []"
proof -
  let ?ds = "datesInRange (pr_checkIn p) (pr_checkOut p)"
  obtain db1 where ne: "?ds \<noteq> []" and ins: "insert_hold eng (envs n) p db = Inr db1"
    and nights: "hold_nights (en_now (envs n)) p ?ds db1 = Inr db'"
    using assms(4) by (auto simp: hold_transaction_def Let_def split: if_splits sum.splits option.splits)
  note db1 = insert_hold_fresh [OF assms(1) ins]
  then have "wf_inventory db1"
    using assms(2) same_tables_same_units(1) [of db1 db] by simp
  from hold_nights_effect [OF this assms(3) nights distinct_datesInRange] db1 ne show ?thesis by auto
qed

lemma find_narrow:
  "List.find P xs = Some l \<Longrightarrow> Q l \<Longrightarrow> (\<And>x. Q x \<Longrightarrow> P x) \<Longrightarrow> List.find Q xs = Some l"
  by (induction xs) (auto split: if_splits)

lemma find_active_first:
  "findActiveHold h now db = Some (h', t, x) \<Longrightarrow>
    h' = h \<and> now \<le> t \<and> (now \<le> now' \<longrightarrow> now' \<le> t \<longrightarrow> findActiveHold h now' db = Some (h', t, x))"
proof -
  let ?P = "\<lambda>n l. lk_hold l = Some h \<and> n \<le> lk_expires l \<and> lk_booking l = None \<and>
    (\<exists>x \<in> set (holds db). h_id x = h)"
  assume a: "findActiveHold h now db = Some (h', t, x)"
  then obtain l where l: "List.find (?P now) (locks db) = Some l" "lk_expires l = t" "h' = h"
    by (auto simp: findActiveHold_def split: option.splits if_splits)
  have "now \<le> t" using find_Some_mem [OF l(1)] l(2) by simp
  moreover have "List.find (?P now') (locks db) = Some l" if "now \<le> now'" "now' \<le> t"
    by (rule find_narrow [OF l(1)]) (use find_Some_mem [OF l(1)] l(2) that in auto)
  ultimately show ?thesis
    using a l by (auto simp: findActiveHold_def split: option.splits if_splits)
qed

lemma hold_then_find:
  assumes "hold_table_present eng envs" "port_inv db" "0 < pr_quantity p" "pr_holdId p \<noteq> []"
    and "holdInventory eng envs p db = (Inr (HoldTaken h t), db')"
  shows "h = pr_holdId p \<and> t = pr_expiresAt p \<and> port_inv db' \<and>
    (\<forall>now. now \<le> t \<longrightarrow> findActiveHold h now db' = Some (h, t, Some (pr_snapshot p)))"
proof -
  let ?ds = "datesInRange (pr_checkIn p) (pr_checkOut p)"
  have wf: "wf_inventory db" and rows: "locks_have_holds db" using assms(2) by (auto simp: port_inv_def)
  obtain n where tx: "hold_transaction eng (envs n) p db = Inr db'"
    and ht: "h = pr_holdId p" "t = pr_expiresAt p"
    using hold_attempts_cases [OF assms(5) [unfolded holdInventory_def]] by auto
  note tab = hold_transaction_tables [OF assms(1) wf assms(3) tx]
  have wf': "wf_inventory db'" by (rule holdInventory_wf [OF wf assms(3,5)])
  have "locks_have_holds db'"
    using rows tab by (fastforce simp: locks_have_holds_def lock_row_of_def hold_row_of_def)
  moreover have "findActiveHold h now db' = Some (h, t, Some (pr_snapshot p))" if now: "now \<le> t" for now
  proof -
    let ?P = "\<lambda>l. lk_hold l = Some h \<and> now \<le> lk_expires l \<and> lk_booking l = None \<and>
      (\<exists>x \<in> set (holds db'). h_id x = h)"
    have none: "List.find ?P (locks db) = None"
      using rows tab ht by (fastforce simp: find_None_all locks_have_holds_def)
    obtain d ds where ds: "?ds = d # ds" using tab by (cases ?ds) auto
    have "?P (lock_row_of p d)" using tab ht now by (auto simp: lock_row_of_def hold_row_of_def)
    then have "List.find ?P (map (lock_row_of p) ?ds) = Some (lock_row_of p d)" by (simp add: ds)
    then have l: "List.find ?P (locks db') = Some (lock_row_of p d)"
      using tab none by (simp add: find_append)
    have "List.find (\<lambda>x. h_id x = h) (holds db) = None" using tab ht by (simp add: find_None_all)
    then have "List.find (\<lambda>x. h_id x = h) (holds db') = Some (hold_row_of p)"
      using tab ht by (simp add: find_append hold_row_of_def)
    then show ?thesis
      using l assms(4) ht by (simp add: findActiveHold_def lock_row_of_def hold_row_of_def)
  qed
  ultimately show ?thesis using ht wf' by (simp add: port_inv_def)
qed

lemma repository_meets:
  assumes "hold_table_present eng envs"
  shows "hold_repository (repository_port eng envs) port_inv"
proof
  show "hpo_find (repository_port eng envs) h now s = Some (h', t, x) \<Longrightarrow> h' = h \<and> now \<le> t"
    for h now s h' t x
    using find_active_first [of h now s h' t x] by (simp add: repository_port_def)
  show "hpo_find (repository_port eng envs) h now s = Some (h', t, x) \<Longrightarrow> now \<le> now' \<Longrightarrow> now' \<le> t \<Longrightarrow>
      hpo_find (repository_port eng envs) h now' s = Some (h', t, x)" for h now s h' t x now'
    using find_active_first [of h now s h' t x now'] by (simp add: repository_port_def)
  show "port_inv s \<Longrightarrow> 0 < pr_quantity p \<Longrightarrow> pr_holdId p \<noteq> [] \<Longrightarrow>
      hpo_hold (repository_port eng envs) p s = (Inr (HoldTaken h t), s') \<Longrightarrow>
      h = pr_holdId p \<and> t = pr_expiresAt p \<and>
      (\<forall>now. now \<le> t \<longrightarrow>
        hpo_find (repository_port eng envs) h now s' = Some (h, t, Some (pr_snapshot p)))"
    for s p h t s'
    using hold_then_find [OF assms] by (simp add: repository_port_def)
  show "hpo_hold (repository_port eng envs) p s = (r, s') \<Longrightarrow> \<nexists>h t. r = Inr (HoldTaken h t) \<Longrightarrow> s' = s"
    for s p r s'
    using hold_attempts_cases [of eng envs p 1 5 s r s']
    by (auto simp: repository_port_def holdInventory_def)
  show "port_inv s \<Longrightarrow> 0 < pr_quantity p \<Longrightarrow> hpo_hold (repository_port eng envs) p s = (r, s') \<Longrightarrow>
      port_inv s'" for s p r s'
  proof -
    assume a: "port_inv s" "0 < pr_quantity p" "hpo_hold (repository_port eng envs) p s = (r, s')"
    then have run: "hold_attempts eng envs p 1 5 s = (r, s')"
      by (simp add: repository_port_def holdInventory_def)
    have wf: "wf_inventory s" "locks_have_holds s" using a(1) by (auto simp: port_inv_def)
    from hold_attempts_cases [OF run] show "port_inv s'"
    proof
      assume "\<exists>j. hold_transaction eng (envs j) p s = Inr s' \<and> r = Inr (HoldTaken (pr_holdId p) (pr_expiresAt p))"
      then obtain j where tx: "hold_transaction eng (envs j) p s = Inr s'" by blast
      have "wf_inventory s'"
        using hold_transaction_effect [OF wf(1) a(2) tx] by (simp add: hold_effect_def Let_def)
      moreover have "locks_have_holds s'"
        using hold_transaction_tables [OF assms wf(1) a(2) tx] wf(2)
        by (fastforce simp: locks_have_holds_def lock_row_of_def hold_row_of_def)
      ultimately show ?thesis by (simp add: port_inv_def)
    qed (use a(1) in simp)
  qed
qed

definition clock_env :: "ms \<Rightarrow> attempt_env" where
  "clock_env t = \<lparr>en_now = t, en_insert_fault = None, en_commit_fault = None\<rparr>"

lemma postgres_hold_table: "hold_table_present postgres_engine (\<lambda>_. clock_env t)"
proof -
  have "\<not> isMissingHoldTableError ''duplicate key value violates unique constraint Hold_pkey''"
    by code_simp
  then show ?thesis by (simp add: hold_table_present_def clock_env_def postgres_engine_def)
qed

interpretation postgres_port: hold_repository "repository_port postgres_engine (\<lambda>_. clock_env t)" port_inv
  for t
  by (rule repository_meets) (rule postgres_hold_table)

lemma hold_id_nonempty: "hold_id_of cc deps input \<noteq> []"
  by (simp add: hold_id_of_def buildIdempotencyHoldId_def toStableUuidFromString_def Let_def)

lemma hex_facts:
  "list_all (\<lambda>c. is_hex c \<and> is_hex (variant_nibble c) \<and> variant_nibble c \<in> set ''89abAB'') hex_digits"
  by code_simp

lemma explicit_32:
  "length n = 32 \<Longrightarrow> n = map ((!) n) [0..<32]"
  by (metis map_nth)

text \<open>
  Hold ids pass the schemas of the use cases that take them: for a digest of forty lower-case
  hexadecimal digits the stable id is a well-formed UUID of version 5 and RFC variant.
\<close>

theorem hold_id_is_uuid:
  assumes "length (sha1 value) = 40" "set (sha1 value) \<subseteq> set hex_digits"
  shows "is_uuid (toStableUuidFromString sha1 value)"
proof -
  define b where "b = slice 0 32 (sha1 value)"
  define n where "n = (b[12 := CHR ''5''])[16 := variant_nibble (b[12 := CHR ''5''] ! 16)]"
  have b: "length b = 32" "set b \<subseteq> set hex_digits"
    using assms set_take_subset [of 32 "sha1 value"] by (auto simp: b_def slice_def)
  then have hexb: "is_hex (b ! i)" "is_hex (variant_nibble (b ! i))"
    "variant_nibble (b ! i) \<in> set ''89abAB''" if "i < 32" for i
    using hex_facts that by (auto simp: list_all_iff subset_iff)
  have five: "is_hex (CHR ''5'')" by code_simp
  have len: "length n = 32" by (simp add: n_def b)
  have hexn: "is_hex (n ! i)" if "i < 32" for i
    using hexb that five b(1) by (auto simp: n_def nth_list_update)
  have fixed: "n ! 12 = CHR ''5''" "n ! 16 \<in> set ''89abAB''"
    using hexb(3) [of 16] b(1) by (simp_all add: n_def)
  have ex: "n = map ((!) n) [0..<32]" by (rule explicit_32 [OF len])
  have id: "toStableUuidFromString sha1 value =
      slice 0 8 n @ ''-'' @ slice 8 12 n @ ''-'' @ slice 12 16 n @ ''-''
           @ slice 16 20 n @ ''-'' @ slice 20 32 n"
    by (simp add: toStableUuidFromString_def Let_def n_def b_def)
  have sl: "slice i j n = map ((!) n) [i..<j]" if "j \<le> 32" for i j
    using that len by (simp add: slice_def) (subst ex, simp add: take_map drop_map)
  show ?thesis
    unfolding is_uuid_def id
    using hexn fixed five by (simp add: sl upt_rec)
qed
theorem hold_id_is_uuid_witness:
  "is_uuid (toStableUuidFromString (\<lambda>_. replicate 40 (CHR ''a'')) ''hold:s1:v'')"
  by (rule hold_id_is_uuid) (simp_all add: hex_digits_def)

section \<open>The use case\<close>

text \<open>
  C13. Creating a hold is idempotent: once a request has been answered with a hold, the same request
  repeated before the hold expires, whatever pricing, policies or audit would answer by then, returns
  the same hold id, the same expiry and the same price quote and changes nothing.
\<close>

theorem createInventoryHold_idempotent:
  assumes "hold_table_present eng envs" "port_inv db"
    and "createInventoryHold cc (repository_port eng envs) deps input now db = (Inr (h, t, q), db')"
    and "now \<le> now'" "now' \<le> t" "cd_ratePlanId deps' = cd_ratePlanId deps"
  shows "createInventoryHold cc (repository_port eng envs) deps' input now' db' = (Inr (h, t, q), db')"
  by (rule hold_repository.create_again [OF repository_meets [OF assms(1)] assms(3,2) hold_id_nonempty
        assms(4-6)])

text \<open>
  Creating a hold fails cleanly: whatever throws (validation, pricing, policies, audit, guest
  texts, no availability, the database), no table has changed.
\<close>

theorem createInventoryHold_failure_atomic:
  assumes "hold_table_present eng envs"
    and "createInventoryHold cc (repository_port eng envs) deps input now db = (Inl e, db')"
  shows "db' = db"
  by (rule hold_repository.create_failure [OF repository_meets [OF assms(1)] assms(2)])

definition example_create :: create_input where
  "example_create = \<lparr>ci_variantId = ''v'', ci_from = Iso 10, ci_to = Iso 12, ci_rooms = Some 1,
     ci_occupancy = None, ci_sessionId = ''s1'', ci_selectionKey = None\<rparr>"

definition example_policy :: hold_policy where
  "example_policy = \<lparr>hp_cancellation = Some \<lparr>pi_category = ''Cancellation'', pi_policyId = ''pol1'',
     pi_groupId = None, pi_overrides = []\<rparr>, hp_payment = None, hp_no_show = None, hp_check_in = None\<rparr>"

definition example_deps :: create_deps where
  "example_deps = \<lparr>cd_pricing = \<lambda>v a b n. Inr (Some example_snapshot),
     cd_policy = \<lambda>v r a b t. Inr example_policy, cd_audit = None, cd_guest = None,
     cd_ratePlanId = ''rp'', cd_channel = None\<rparr>"

definition example_codec :: codec where
  "example_codec = \<lparr>cc_sha1 = \<lambda>s. replicate 40 (CHR ''a''), cc_text = \<lambda>d. ''2026-05-11'',
     cc_lc = \<lambda>a b. 0, cc_digest = \<lambda>p. ''1''\<rparr>"

definition example_hold_id :: string where
  "example_hold_id = ''aaaaaaaa-aaaa-5aaa-aaaa-aaaaaaaaaaaa''"

definition example_created :: inv_db where
  "example_created = snd (createInventoryHold example_codec
     (repository_port postgres_engine (\<lambda>_. clock_env 0)) example_deps example_create 0 example_inv)"

lemma example_created_eq:
  "createInventoryHold example_codec (repository_port postgres_engine (\<lambda>_. clock_env 0)) example_deps
     example_create 0 example_inv = (Inr (example_hold_id, 600000, example_quote), example_created)"
  unfolding prod_eq_iff example_created_def by code_simp

lemma example_inv_port: "port_inv example_inv"
  by (simp add: port_inv_def example_inv_wf) (simp add: locks_have_holds_def example_inv_def)

theorem createInventoryHold_idempotent_witness:
  "createInventoryHold example_codec (repository_port postgres_engine (\<lambda>_. clock_env 0)) example_deps
     example_create 600000 example_created = (Inr (example_hold_id, 600000, example_quote), example_created)"
  by (rule createInventoryHold_idempotent [OF postgres_hold_table example_inv_port example_created_eq])
    simp_all

theorem createInventoryHold_failure_atomic_witness:
  "createInventoryHold example_codec (repository_port postgres_engine (\<lambda>_. clock_env 0)) example_deps
     (example_create\<lparr>ci_rooms := Some 3\<rparr>) 0 example_inv = (Inl (Thrown ''not_available''), example_inv)"
proof -
  let ?run = "createInventoryHold example_codec (repository_port postgres_engine (\<lambda>_. clock_env 0))
    example_deps (example_create\<lparr>ci_rooms := Some 3\<rparr>) 0 example_inv"
  have "fst ?run = Inl (Thrown ''not_available'')" by code_simp
  then have run: "?run = (Inl (Thrown ''not_available''), snd ?run)" by (simp add: prod_eq_iff)
  from createInventoryHold_failure_atomic [OF postgres_hold_table run] run show ?thesis by simp
qed

end
