(* ===== verification/Booking.thy ===== *)
theory Booking
  imports Create_Hold
begin

text \<open>
  Confirming a hold as a booking
  (\<open>modules/booking/infrastructure/repositories/BookingFromHoldRepository.ts\<close>,
  \<open>lib/tours/tourBookingQuestionsSnapshot.ts\<close>) and cancelling a booking
  (\<open>pages/api/booking/cancel.ts\<close>). The transaction is split into the phases the code has: the locks of
  the hold, the linked booking, the hold's evidence, the tour contract, the rows written, the locks
  consumed. Tables the transaction only reads are functions of the record \<open>booking_ref\<close>; the state of
  a provider's commercial agreement, which another module computes, is among them.
\<close>

section \<open>Tables\<close>

record variant_ref =
  vr_productId :: string
  vr_name :: "string option"
  vr_kind :: "string option"

record product_ref =
  pf_id :: string
  pf_providerId :: "string option"
  pf_name :: string

record user_ref =
  us_email :: string
  us_firstName :: "string option"
  us_lastName :: "string option"

record tour_ref =
  tr_productMeetingPoint :: "string option"
  tr_slotMeetingPoint :: "string option"
  tr_departureTime :: "string option"

record agreement_status =
  as_active :: bool
  as_terms :: "agreement_snapshot option"

record booking_ref =
  br_variant :: "string \<Rightarrow> variant_ref option"
  br_product :: "string \<Rightarrow> product_ref option"
  br_ratePlanName :: "string \<Rightarrow> string option"
  br_user :: "string \<Rightarrow> user_ref option"
  br_questions :: "string \<Rightarrow> tour_question list"
  br_tour :: "string \<Rightarrow> string \<Rightarrow> tour_ref option"
  br_revalidate :: "string \<Rightarrow> bool \<Rightarrow> bool"
  br_agreement :: "string \<Rightarrow> agreement_status"

record tour_answer =
  ta_questionId :: string
  ta_code :: string
  ta_label :: string
  ta_value :: string

record booking_row =
  bo_id :: string
  bo_providerId :: string
  bo_userId :: "string option"
  bo_ratePlanId :: string
  bo_bookingDate :: ms
  bo_checkIn :: day
  bo_checkOut :: day
  bo_adults :: rat
  bo_children :: rat
  bo_total :: rat
  bo_status :: string
  bo_currency :: string
  bo_source :: string
  bo_guestEmail :: "string option"
  bo_guestName :: "string option"
  bo_tourAnswers :: "tour_answer list"
  bo_meetingPoint :: "string option"
  bo_departureTime :: "string option"
  bo_guestExpectations :: guest_json

record line_item =
  li_bookingId :: string
  li_variantId :: string
  li_ratePlanId :: string
  li_checkIn :: day
  li_checkOut :: day
  li_adults :: rat
  li_children :: rat
  li_infants :: rat
  li_subtotal :: rat
  li_tax :: rat
  li_total :: rat
  li_nights :: "(day \<times> rat) list"
  li_priceQuote :: price_quote
  li_agreement :: "agreement_snapshot option"
  li_productId :: string
  li_productName :: string
  li_variantName :: "string option"
  li_ratePlanName :: "string option"

record policy_row =
  po_bookingId :: string
  po_item :: policy_item

record voucher_row =
  vo_bookingId :: string
  vo_code :: string
  vo_status :: string

record tax_row =
  tx_bookingId :: string
  tx_name :: string
  tx_amount :: rat

record booking_db =
  bk_inv :: inv_db
  bk_bookings :: "booking_row list"
  bk_items :: "line_item list"
  bk_policies :: "policy_row list"
  bk_vouchers :: "voucher_row list"
  bk_taxes :: "tax_row list"

record booking_input =
  bi_holdId :: string
  bi_priceQuoteId :: "string option"
  bi_userId :: "string option"
  bi_source :: "string option"
  bi_leadName :: "string option"
  bi_tourAnswers :: "(string \<times> string) list"

record booking_result =
  bx_bookingId :: string
  bx_status :: string
  bx_idempotent :: bool
  bx_variantId :: string
  bx_productId :: string
  bx_from :: day
  bx_to :: day

section \<open>The snapshot of the hold\<close>

definition resolveHoldDateRange :: "lock_row list \<Rightarrow> (day \<times> day) option" where
  "resolveHoldDateRange rows =
     (let sortedDates = js_sort (by_key id) (map lk_date rows)
      in case sortedDates of
           [] \<Rightarrow> None
         | start # _ \<Rightarrow> Some (start, toISODate (parseDateOnly (last sortedDates) + 86400000)))"

definition compactName :: "string option list \<Rightarrow> string option" where
  "compactName parts =
     (let kept = filter (\<lambda>p. p \<noteq> []) (map (\<lambda>p. js_trim (text_or_empty p)) parts);
          value = (case kept of [] \<Rightarrow> [] | p # ps \<Rightarrow> foldl (\<lambda>acc x. acc @ '' '' @ x) p ps)
      in if value = [] then None else Some value)"

record booking_snapshot =
  bs_ratePlanId :: string
  bs_currency :: string
  bs_agreement :: "agreement_snapshot option"
  bs_occupancy :: rat
  bs_adults :: rat
  bs_children :: rat
  bs_infants :: rat
  bs_from :: day
  bs_to :: day
  bs_nights :: rat
  bs_totalPrice :: rat
  bs_days :: "(day \<times> rat \<times> price_breakdown option) list"
  bs_breakdownV2 :: "price_breakdown option"
  bs_priceQuote :: price_quote

definition round_breakdown :: "price_breakdown \<Rightarrow> price_breakdown" where
  "round_breakdown b = \<lparr>pb_base = toFixed2 (pb_base b),
     pb_occupancyAdjustment = toFixed2 (pb_occupancyAdjustment b),
     pb_rules = toFixed2 (pb_rules b), pb_final = toFixed2 (pb_final b)\<rparr>"

definition snapshot_fields :: "hold_snapshot \<Rightarrow> day list \<Rightarrow> booking_snapshot option" where
  "snapshot_fields s lockDates =
     (let ratePlanId = js_trim (hs_ratePlanId s);
          currency = (if js_trim (hs_currency s) = [] then ''USD'' else js_trim (hs_currency s));
          adults = max 1 (hs_adults s); children = max 0 (hs_children s); infants = max 0 (hs_infants s);
          days = concat (map (\<lambda>d. case sd_date d of
              None \<Rightarrow> [] | Some x \<Rightarrow> [(x, sd_price d, sd_breakdownV2 d)]) (hs_days s))
      in case (hs_from s, hs_to s) of
           (Some start, Some end) \<Rightarrow>
             if ratePlanId = [] \<or> hs_nights s < 1 \<or> hs_totalPrice s \<le> 0 \<or> days = [] then None
             else if \<not> list_all (\<lambda>d. d \<in> set (map fst days)) lockDates then None
             else Some
               \<lparr>bs_ratePlanId = ratePlanId, bs_currency = currency, bs_agreement = hs_agreement s,
                bs_occupancy = max 1 (js_round (adults + children)),
                bs_adults = max 1 (js_round adults), bs_children = max 0 (js_round children),
                bs_infants = max 0 (js_round infants), bs_from = start, bs_to = end,
                bs_nights = max 1 (js_round (hs_nights s)),
                bs_totalPrice = toFixed2 (pq_totalAmount (hs_priceQuote s)),
                bs_days = map (\<lambda>(d, p, b). (d, toFixed2 p, map_option round_breakdown b)) days,
                bs_breakdownV2 = map_option round_breakdown (hs_breakdownV2 s),
                bs_priceQuote = hs_priceQuote s\<rparr>
         | _ \<Rightarrow> None)"

definition buildSnapshotFromHoldLifecycle ::
  "codec \<Rightarrow> hold_snapshot option \<Rightarrow> string option \<Rightarrow> string \<Rightarrow> string \<Rightarrow> day \<Rightarrow> day \<Rightarrow> day list
     \<Rightarrow> booking_snapshot option" where
  "buildSnapshotFromHoldLifecycle cc commercial priceQuoteId variantId ratePlanId checkIn checkOut lockDates =
     (case commercial of
        None \<Rightarrow> None
      | Some s \<Rightarrow>
          (let ctx = pq_context (hs_priceQuote s)
           in if \<not> isHoldCommercialSnapshot (cc_lc cc) (cc_digest cc) s then None
              else if Some (pq_quoteId (hs_priceQuote s)) \<noteq> priceQuoteId \<or> qc_variantId ctx \<noteq> variantId \<or>
                qc_ratePlanId ctx \<noteq> ratePlanId \<or> qc_checkIn ctx \<noteq> checkIn \<or> qc_checkOut ctx \<noteq> checkOut
                then None
              else snapshot_fields s lockDates))"

section \<open>Tour questions\<close>

fun read_questions :: "tour_question option list \<Rightarrow> string list \<Rightarrow> tour_question list option" where
  "read_questions [] ids = Some []"
| "read_questions (None # rest) ids = None"
| "read_questions (Some q # rest) ids =
     (let i = js_trim (tq_id q); code = js_trim (tq_code q); label = js_trim (tq_label q)
      in if i = [] \<or> code = [] \<or> label = [] \<or> i \<in> set ids then None
         else map_option (\<lambda>qs. \<lparr>tq_id = i, tq_code = code, tq_label = label, tq_required = tq_required q\<rparr> # qs)
           (read_questions rest (i # ids)))"

definition readTourBookingQuestionSnapshot :: "guest_json \<Rightarrow> tour_question list option" where
  "readTourBookingQuestionSnapshot g = (case g of None \<Rightarrow> None | Some raw \<Rightarrow> read_questions raw [])"

fun collect_answers :: "(string \<times> string) list \<Rightarrow> (string \<times> string) list \<Rightarrow> (string \<times> string) list option" where
  "collect_answers [] m = Some m"
| "collect_answers ((qid, val) # rest) m =
     (let q = js_trim qid; v = js_trim val
      in if q = [] \<or> 500 < length v \<or> q \<in> fst ` set m then None
         else collect_answers rest (map_set q v m))"

definition answer_of :: "(string \<times> string) list \<Rightarrow> string \<Rightarrow> string" where
  "answer_of m q = (case map_of m q of None \<Rightarrow> [] | Some v \<Rightarrow> v)"

definition check_answers ::
  "tour_question list \<Rightarrow> (string \<times> string) list \<Rightarrow> failure + tour_answer list" where
  "check_answers questions submitted =
     (case collect_answers submitted [] of
        None \<Rightarrow> Inl (Thrown ''INVALID_TOUR_ANSWERS'')
      | Some m \<Rightarrow>
          if list_ex (\<lambda>k. k \<notin> set (map tq_id questions)) (map fst m)
          then Inl (Thrown ''INVALID_TOUR_ANSWERS'')
          else if list_ex (\<lambda>q. tq_required q \<and> answer_of m (tq_id q) = []) questions
            then Inl (Thrown ''missing_required_answers'')
          else Inr (map (\<lambda>q. \<lparr>ta_questionId = tq_id q, ta_code = tq_code q, ta_label = tq_label q,
                ta_value = answer_of m (tq_id q)\<rparr>)
              (filter (\<lambda>q. answer_of m (tq_id q) \<noteq> []) questions)))"

definition agreement_changed :: "booking_ref \<Rightarrow> string \<Rightarrow> agreement_snapshot option \<Rightarrow> bool" where
  "agreement_changed ref providerId agreed =
     (let status = br_agreement ref providerId
      in \<not> as_active status \<or>
         (case (agreed, as_terms status) of
            (Some a, Some t) \<Rightarrow> ag_id a \<noteq> ag_id t \<or> ag_termsHash a \<noteq> ag_termsHash t \<or>
              ag_version a \<noteq> ag_version t \<or> ag_sellerName a \<noteq> ag_sellerName t \<or>
              ag_commissionPercent a \<noteq> ag_commissionPercent t \<or>
              ag_commissionBase a \<noteq> ag_commissionBase t \<or> ag_currency a \<noteq> ag_currency t
          | _ \<Rightarrow> True))"

definition is_tour_slot :: "variant_ref \<Rightarrow> bool" where
  "is_tour_slot v = (js_lower (js_trim (text_or_empty (vr_kind v))) = ''tour_slot'')"

text \<open>What the tour part decides: the answers to store, or the error it throws.\<close>

definition tour_contract ::
  "booking_ref \<Rightarrow> variant_ref \<Rightarrow> product_ref \<Rightarrow> string \<Rightarrow> hold_row \<Rightarrow> booking_snapshot \<Rightarrow> booking_input
     \<Rightarrow> failure + tour_answer list" where
  "tour_contract ref variant product providerId hold snapshot input =
     (if is_tour_slot variant \<and> br_revalidate ref providerId (bs_agreement snapshot \<noteq> None) \<and>
         agreement_changed ref providerId (bs_agreement snapshot)
      then Inl (Thrown ''COMMERCIAL_AGREEMENT_CHANGED'')
      else (let questions = (if is_tour_slot variant
              then (case readTourBookingQuestionSnapshot (h_guest hold) of
                      Some qs \<Rightarrow> qs | None \<Rightarrow> br_questions ref (pf_id product))
              else []);
            leadName = js_trim (text_or_empty (bi_leadName input))
        in case check_answers questions (bi_tourAnswers input) of
             Inl e \<Rightarrow> Inl e
           | Inr answers \<Rightarrow>
               if 160 < length leadName \<or> is_tour_slot variant \<and> length leadName < 2
               then Inl (Thrown ''INVALID_LEAD_CONTACT'') else Inr answers))"

section \<open>The transaction\<close>

text \<open>The answer for a hold that already carries a booking.\<close>

definition linked_booking ::
  "booking_ref \<Rightarrow> booking_db \<Rightarrow> booking_input \<Rightarrow> lock_row list \<Rightarrow> day \<times> day \<Rightarrow> string
     \<Rightarrow> failure + booking_result" where
  "linked_booking ref db input rows dateRange bookingId =
     (case List.find (\<lambda>b. bo_id b = bookingId) (bk_bookings db) of
        None \<Rightarrow> Inl (Thrown ''HOLD_ALREADY_CONFIRMED'')
      | Some b \<Rightarrow>
          if \<not> truthy (bi_userId input) \<or> bo_userId b \<noteq> bi_userId input
          then Inl (Thrown ''HOLD_OWNED_BY_ANOTHER_USER'')
          else (let variantId = lk_variant (hd rows)
            in case br_variant ref variantId of
                 None \<Rightarrow> Inl (Thrown ''HOLD_NOT_FOUND'')
               | Some v \<Rightarrow> Inr \<lparr>bx_bookingId = bo_id b, bx_status = bo_status b, bx_idempotent = True,
                   bx_variantId = variantId, bx_productId = vr_productId v,
                   bx_from = fst dateRange, bx_to = snd dateRange\<rparr>))"

record hold_evidence =
  he_variantId :: string
  he_variant :: variant_ref
  he_product :: product_ref
  he_providerId :: string
  he_hold :: hold_row
  he_policy :: hold_policy
  he_snapshot :: booking_snapshot

text \<open>Everything the confirmation of an open hold checks before it looks at tours.\<close>

definition hold_evidence_of ::
  "codec \<Rightarrow> booking_ref \<Rightarrow> ms \<Rightarrow> string \<Rightarrow> booking_input \<Rightarrow> lock_row list \<Rightarrow> inv_db
     \<Rightarrow> failure + hold_evidence" where
  "hold_evidence_of cc ref now holdId input rows iv =
     (let variantIds = js_dedup (filter (\<lambda>v. v \<noteq> []) (map lk_variant rows))
      in if list_ex (\<lambda>l. lk_expires l < now) rows then Inl (Thrown ''HOLD_EXPIRED'')
         else if length variantIds \<noteq> 1 then Inl (Thrown ''INVENTORY_CONFLICT'')
         else (let variantId = hd variantIds
           in case br_variant ref variantId of
                None \<Rightarrow> Inl (Thrown ''HOLD_NOT_FOUND'')
              | Some variant \<Rightarrow>
                (case br_product ref (vr_productId variant) of
                   None \<Rightarrow> Inl (Thrown ''HOLD_NOT_FOUND'')
                 | Some product \<Rightarrow>
                   if \<not> truthy (pf_providerId product) then Inl (Thrown ''PROVIDER_OWNERSHIP_REQUIRED'')
                   else (case List.find (\<lambda>h. h_id h = holdId) (holds iv) of
                      None \<Rightarrow> Inl (Thrown ''INVENTORY_CONFLICT'')
                    | Some hold \<Rightarrow>
                      (case h_policy hold of
                         None \<Rightarrow> Inl (Thrown ''INVENTORY_CONFLICT'')
                       | Some policy \<Rightarrow>
                         (case buildSnapshotFromHoldLifecycle cc (h_snapshot hold) (h_quoteId hold) variantId
                             (h_ratePlan hold) (h_checkIn hold) (h_checkOut hold) (map lk_date rows) of
                            None \<Rightarrow> Inl (Thrown ''HOLD_COMMERCIAL_SNAPSHOT_MISSING'')
                          | Some snapshot \<Rightarrow>
                            if h_version hold \<noteq> HOLD_COMMERCIAL_SNAPSHOT_VERSION
                            then Inl (Thrown ''HOLD_COMMERCIAL_SNAPSHOT_MISSING'')
                            else if truthy (bi_priceQuoteId input) \<and>
                              Some (pq_quoteId (bs_priceQuote snapshot)) \<noteq> bi_priceQuoteId input
                            then Inl (Thrown ''PRICE_QUOTE_MISMATCH'')
                            else Inr \<lparr>he_variantId = variantId, he_variant = variant,
                              he_product = product, he_providerId = the (pf_providerId product),
                              he_hold = hold, he_policy = policy, he_snapshot = snapshot\<rparr>))))))"

definition nonempty_text :: "string \<Rightarrow> string option" where
  "nonempty_text s = (if s = [] then None else Some s)"

definition booking_row_of ::
  "booking_ref \<Rightarrow> ms \<Rightarrow> string \<Rightarrow> hold_evidence \<Rightarrow> tour_answer list \<Rightarrow> booking_input \<Rightarrow> booking_row" where
  "booking_row_of ref now bookingId ev answers input =
     (let s = he_snapshot ev; slot = is_tour_slot (he_variant ev);
          guest = (case bi_userId input of None \<Rightarrow> None
            | Some u \<Rightarrow> if u = [] then None else br_user ref u);
          guestName = (case guest of None \<Rightarrow> None | Some g \<Rightarrow> compactName [us_firstName g, us_lastName g]);
          guestEmail = (case guest of None \<Rightarrow> None | Some g \<Rightarrow> nonempty_text (js_trim (us_email g)));
          leadName = js_trim (text_or_empty (bi_leadName input));
          tour = (if slot then br_tour ref (pf_id (he_product ev)) (he_variantId ev) else None)
      in \<lparr>bo_id = bookingId, bo_providerId = he_providerId ev, bo_userId = bi_userId input,
          bo_ratePlanId = bs_ratePlanId s, bo_bookingDate = now,
          bo_checkIn = bs_from s, bo_checkOut = bs_to s,
          bo_adults = max 1 (bs_adults s), bo_children = max 0 (bs_children s),
          bo_total = toFixed2 (pq_totalAmount (bs_priceQuote s)),
          bo_status = ''confirmed'', bo_currency = bs_currency s,
          bo_source = (case bi_source input of None \<Rightarrow> ''web'' | Some x \<Rightarrow> x),
          bo_guestEmail = guestEmail,
          bo_guestName = (if leadName \<noteq> [] then Some leadName else guestName),
          bo_tourAnswers = answers,
          bo_meetingPoint = (case tour of None \<Rightarrow> None
            | Some t \<Rightarrow> (case tr_slotMeetingPoint t of Some m \<Rightarrow> Some m | None \<Rightarrow> tr_productMeetingPoint t)),
          bo_departureTime = (case tour of None \<Rightarrow> None
            | Some t \<Rightarrow> (case tr_departureTime t of None \<Rightarrow> None | Some d \<Rightarrow> nonempty_text (js_trim d))),
          bo_guestExpectations = h_guest (he_hold ev)\<rparr>)"

definition line_item_of :: "booking_ref \<Rightarrow> string \<Rightarrow> hold_evidence \<Rightarrow> line_item" where
  "line_item_of ref bookingId ev =
     (let s = he_snapshot ev; q = bs_priceQuote s
      in \<lparr>li_bookingId = bookingId, li_variantId = he_variantId ev, li_ratePlanId = bs_ratePlanId s,
          li_checkIn = bs_from s, li_checkOut = bs_to s,
          li_adults = max 1 (bs_adults s), li_children = max 0 (bs_children s),
          li_infants = max 0 (bs_infants s),
          li_subtotal = toFixed2 (pq_baseAmount q), li_tax = quoteExtraAmount q,
          li_total = toFixed2 (pq_totalAmount q),
          li_nights = map (\<lambda>(d, p, _). (d, p)) (bs_days s), li_priceQuote = q,
          li_agreement = bs_agreement s, li_productId = pf_id (he_product ev),
          li_productName = pf_name (he_product ev), li_variantName = vr_name (he_variant ev),
          li_ratePlanName = br_ratePlanName ref (bs_ratePlanId s)\<rparr>)"

definition policy_rows_of :: "string \<Rightarrow> hold_policy \<Rightarrow> policy_row list" where
  "policy_rows_of bookingId policy =
     concat (map (\<lambda>item. case item of None \<Rightarrow> [] | Some i \<Rightarrow> [\<lparr>po_bookingId = bookingId, po_item = i\<rparr>])
       [hp_cancellation policy, hp_payment policy, hp_no_show policy, hp_check_in policy])"

definition voucher_rows_of :: "booking_ref \<Rightarrow> string \<Rightarrow> hold_evidence \<Rightarrow> voucher_row list" where
  "voucher_rows_of ref bookingId ev =
     (case br_tour ref (vr_productId (he_variant ev)) (he_variantId ev) of
        None \<Rightarrow> []
      | Some _ \<Rightarrow> [\<lparr>vo_bookingId = bookingId,
          vo_code = ''FT-'' @ js_upper (slice 0 10 (filter (\<lambda>c. c \<noteq> CHR ''-'') bookingId)),
          vo_status = ''issued''\<rparr>])"

definition tax_rows_of :: "string \<Rightarrow> tax_breakdown \<Rightarrow> tax_row list" where
  "tax_rows_of bookingId b =
     (let taxLines = tb_taxes_included b @ tb_taxes_excluded b @ tb_fees_included b @ tb_fees_excluded b
      in if taxLines = []
         then [\<lparr>tx_bookingId = bookingId, tx_name = ''Sin impuestos ni cargos adicionales'', tx_amount = 0\<rparr>]
         else map (\<lambda>l. \<lparr>tx_bookingId = bookingId, tx_name = tl_name l, tx_amount = tl_amount l\<rparr>) taxLines)"

text \<open>\<open>UPDATE "InventoryLock" SET "bookingId" ... RETURNING id\<close>: the affected rows and the tables.\<close>

definition consume_locks :: "string \<Rightarrow> string \<Rightarrow> inv_db \<Rightarrow> nat \<times> inv_db" where
  "consume_locks holdId bookingId iv =
     (length (filter (unbooked_of holdId) (locks iv)),
      iv\<lparr>locks := update_rows (unbooked_of holdId) (\<lambda>l. l\<lparr>lk_booking := Some bookingId\<rparr>) (locks iv)\<rparr>)"

definition write_booking ::
  "booking_ref \<Rightarrow> ms \<Rightarrow> string \<Rightarrow> string \<Rightarrow> nat \<Rightarrow> hold_evidence \<Rightarrow> tour_answer list \<Rightarrow> booking_input
     \<Rightarrow> booking_db \<Rightarrow> failure + booking_db" where
  "write_booking ref now holdId bookingId heldRows ev answers input db =
     (let (affected, iv') = consume_locks holdId bookingId (bk_inv db)
      in if affected \<noteq> heldRows then Inl (Thrown ''HOLD_ALREADY_CONFIRMED'')
         else Inr (db\<lparr>bk_inv := iv',
           bk_bookings := bk_bookings db @ [booking_row_of ref now bookingId ev answers input],
           bk_items := bk_items db @ [line_item_of ref bookingId ev],
           bk_policies := bk_policies db @ policy_rows_of bookingId (he_policy ev),
           bk_vouchers := bk_vouchers db @ voucher_rows_of ref bookingId ev,
           bk_taxes := bk_taxes db @
             tax_rows_of bookingId (pq_taxesAndFees (bs_priceQuote (he_snapshot ev)))\<rparr>))"

text \<open>
  The whole transaction: a throw rolls it back, so the state is returned only on success. \<open>bookingId\<close>
  is the random id of a new booking, \<open>now\<close> the clock reading.
\<close>

definition createBookingFromHold ::
  "codec \<Rightarrow> booking_ref \<Rightarrow> ms \<Rightarrow> string \<Rightarrow> booking_input \<Rightarrow> booking_db
     \<Rightarrow> failure + booking_result \<times> booking_db" where
  "createBookingFromHold cc ref now bookingId input db =
     (let holdId = js_trim (bi_holdId input);
          rows = filter (\<lambda>l. lk_hold l = Some holdId) (locks (bk_inv db))
      in if holdId = [] \<or> rows = [] then Inl (Thrown ''HOLD_NOT_FOUND'')
         else case resolveHoldDateRange rows of
             None \<Rightarrow> Inl (Thrown ''HOLD_NOT_FOUND'')
           | Some dateRange \<Rightarrow>
             (case List.find (\<lambda>l. truthy (lk_booking l)) rows of
                Some l \<Rightarrow> (case linked_booking ref db input rows dateRange (the (lk_booking l)) of
                    Inl e \<Rightarrow> Inl e | Inr r \<Rightarrow> Inr (r, db))
              | None \<Rightarrow>
                (case hold_evidence_of cc ref now holdId input rows (bk_inv db) of
                   Inl e \<Rightarrow> Inl e
                 | Inr ev \<Rightarrow>
                   (case tour_contract ref (he_variant ev) (he_product ev) (he_providerId ev)
                       (he_hold ev) (he_snapshot ev) input of
                      Inl e \<Rightarrow> Inl e
                    | Inr answers \<Rightarrow>
                      (case write_booking ref now holdId bookingId (length rows) ev answers input db of
                         Inl e \<Rightarrow> Inl e
                       | Inr db' \<Rightarrow> Inr (\<lparr>bx_bookingId = bookingId, bx_status = ''confirmed'',
                           bx_idempotent = False, bx_variantId = he_variantId ev,
                           bx_productId = vr_productId (he_variant ev),
                           bx_from = fst dateRange, bx_to = snd dateRange\<rparr>, db'))))))"

section \<open>Cancelling\<close>

definition cancel_range ::
  "lock_row \<Rightarrow> (string \<times> day \<times> day) list \<Rightarrow> (string \<times> day \<times> day) list" where
  "cancel_range l m =
     (let v = js_trim (lk_variant l); d = lk_date l
      in if v = [] then m
         else case map_of m v of
             None \<Rightarrow> map_set v (d, d) m
           | Some (lo, hi) \<Rightarrow> map_set v (if d < lo then d else lo, if hi < d then d else hi) m)"

definition cancel_instructions :: "string \<Rightarrow> inv_db \<Rightarrow> instruction list" where
  "cancel_instructions bookingId iv =
     map (\<lambda>(v, lo, hi). \<lparr>in_variantId = v, in_from = lo, in_to = toExclusiveDate hi,
         in_reason = ''booking_cancel'',
         in_idempotencyKey = Some (''booking_cancel:'' @ bookingId @ '':'' @ v)\<rparr>)
       (fold cancel_range (filter (\<lambda>l. lk_booking l = Some bookingId) (locks iv)) [])"

definition cancel_locks :: "string \<Rightarrow> inv_db \<Rightarrow> inv_db" where
  "cancel_locks bookingId iv = iv\<lparr>locks := delete_rows (\<lambda>l. lk_booking l = Some bookingId) (locks iv)\<rparr>"

text \<open>
  The cancellation after the provider check: \<open>quote\<close> is the status of the refund quote the financial
  module returns (or what it throws), and the ledger entry has been recorded.
\<close>

definition cancel_booking ::
  "(string \<Rightarrow> day \<Rightarrow> string) \<Rightarrow> mutation_env \<Rightarrow> failure + string \<Rightarrow> string \<Rightarrow> booking_db
     \<Rightarrow> (failure + unit) \<times> booking_db" where
  "cancel_booking rowId env quote bookingId db =
     (case quote of
        Inl e \<Rightarrow> (Inl e, db)
      | Inr status \<Rightarrow>
          if status \<noteq> ''quoted'' then (Inl (Thrown ''refund_quote_requires_manual_review''), db)
          else (let is = cancel_instructions bookingId (bk_inv db);
                    out = applyInventoryMutation public_deps rowId env False True
                      (\<lambda>n iv. (Inr (), cancel_locks bookingId iv)) (\<lambda>_. is) (bk_inv db);
                    db1 = db\<lparr>bk_inv := mo_db out, bk_bookings :=
                      update_rows (\<lambda>b. bo_id b = bookingId) (\<lambda>b. b\<lparr>bo_status := ''cancelled''\<rparr>)
                        (bk_bookings db)\<rparr>
            in case mo_result out of
                 Inl e \<Rightarrow> (Inl e, db1)
               | Inr _ \<Rightarrow> (Inr (), db1\<lparr>bk_vouchers :=
                   (case List.find (\<lambda>v. vo_bookingId v = bookingId) (bk_vouchers db1) of
                      None \<Rightarrow> bk_vouchers db1
                    | Some v \<Rightarrow> if vo_status v \<in> set [''issued'', ''redeemed'']
                        then update_rows (\<lambda>x. x = v) (\<lambda>x. x\<lparr>vo_status := ''void''\<rparr>) (bk_vouchers db1)
                        else bk_vouchers db1)\<rparr>)))"

end
