(* ===== verification/Booking_Correctness.thy ===== *)
theory Booking_Correctness
  imports Booking
begin

text \<open>
  What confirming a hold guarantees: the booking charges the price quote stored with the hold, consumes
  exactly the locks of the hold without moving the reserved counts, and can be repeated by its owner
  only. What cancelling does to the inventory.
\<close>

section \<open>Consuming the locks\<close>

lemma filter_length_eq:
  "length (filter (\<lambda>x. P x \<and> Q x) xs) = length (filter P xs) \<Longrightarrow> x \<in> set xs \<Longrightarrow> P x \<Longrightarrow> Q x"
proof (induction xs)
  case Nil
  then show ?case by simp
next
  case (Cons y ys)
  have le: "length (filter (\<lambda>x. P x \<and> Q x) ys) \<le> length (filter P ys)"
    by (induction ys) auto
  show ?case using Cons le by (auto split: if_splits)
qed

lemma consume_locks_units:
  assumes "consume_locks holdId bookingId iv = (n, iv')"
  shows "daily iv' = daily iv" "holds iv' = holds iv" "events iv' = events iv" "avail iv' = avail iv"
    and "lockUnits v d iv' = lockUnits v d iv"
    and "bookedUnits v d iv' = bookedUnits v d iv + heldBy holdId v d iv"
    and "wf_inventory iv \<Longrightarrow> wf_inventory iv'"
proof -
  let ?f = "\<lambda>l. l\<lparr>lk_booking := Some bookingId\<rparr>"
  have iv': "iv' = iv\<lparr>locks := update_rows (unbooked_of holdId) ?f (locks iv)\<rparr>"
    using assms by (simp add: consume_locks_def)
  show "daily iv' = daily iv" "holds iv' = holds iv" "events iv' = events iv" "avail iv' = avail iv"
    by (simp_all add: iv')
  show lu: "lockUnits v d iv' = lockUnits v d iv" for v d
    unfolding lockUnits_def iv' by (simp, rule total_where_update) (simp add: on_day_def)
  show "bookedUnits v d iv' = bookedUnits v d iv + heldBy holdId v d iv"
  proof -
    have "total_where (\<lambda>l. on_day v d l \<and> lk_booking l \<noteq> None) lk_qty
        (update_rows (unbooked_of holdId) ?f ls) =
      total_where (\<lambda>l. on_day v d l \<and> lk_booking l \<noteq> None) lk_qty ls +
      total_where (\<lambda>l. on_day v d l \<and> unbooked_of holdId l) lk_qty ls" for ls
      by (induction ls) (auto simp: update_rows_def unbooked_of_def on_day_def)
    then show ?thesis by (simp add: bookedUnits_def heldBy_def total_where_filter iv')
  qed
  show "wf_inventory iv'" if "wf_inventory iv"
    using that lu
    by (auto simp: wf_inventory_def iv' reservedAt_def find_daily_def list_all_iff set_update_rows
        lock_check_def)
qed

lemma linked_booking_idempotent: "linked_booking ref db input rows dr b = Inr r \<Longrightarrow> bx_idempotent r"
  by (auto simp: linked_booking_def Let_def split: option.splits if_splits)

lemma booking_new_cases:
  assumes "createBookingFromHold cc ref now bookingId input db = Inr (res, db')" "\<not> bx_idempotent res"
  obtains rows dateRange ev answers where
    "rows = filter (\<lambda>l. lk_hold l = Some (js_trim (bi_holdId input))) (locks (bk_inv db))"
    "rows \<noteq> []" "js_trim (bi_holdId input) \<noteq> []"
    "hold_evidence_of cc ref now (js_trim (bi_holdId input)) input rows (bk_inv db) = Inr ev"
    "tour_contract ref (he_variant ev) (he_product ev) (he_providerId ev) (he_hold ev) (he_snapshot ev)
       input = Inr answers"
    "write_booking ref now (js_trim (bi_holdId input)) bookingId (length rows) ev answers input db = Inr db'"
    "res = \<lparr>bx_bookingId = bookingId, bx_status = ''confirmed'', bx_idempotent = False,
       bx_variantId = he_variantId ev, bx_productId = vr_productId (he_variant ev),
       bx_from = fst dateRange, bx_to = snd dateRange\<rparr>"
    "resolveHoldDateRange rows = Some dateRange"
proof -
  show ?thesis
    using assms that
    by (auto simp: createBookingFromHold_def Let_def dest: linked_booking_idempotent
        split: if_splits option.splits sum.splits)
qed

lemma snapshot_fields_facts:
  assumes "snapshot_fields s ds = Some b"
  shows "bs_priceQuote b = hs_priceQuote s \<and> Some (bs_from b) = hs_from s \<and> Some (bs_to b) = hs_to s \<and>
    set ds \<subseteq> fst ` set (bs_days b)"
proof -
  let ?days = "concat (map (\<lambda>d. case sd_date d of
    None \<Rightarrow> [] | Some x \<Rightarrow> [(x, sd_price d, sd_breakdownV2 d)]) (hs_days s))"
  have b: "bs_priceQuote b = hs_priceQuote s" "Some (bs_from b) = hs_from s" "Some (bs_to b) = hs_to s"
    "bs_days b = map (\<lambda>(d, p, b). (d, toFixed2 p, map_option round_breakdown b)) ?days"
    "list_all (\<lambda>d. d \<in> set (map fst ?days)) ds"
    using assms by (auto simp: snapshot_fields_def Let_def split: if_splits option.splits)
  have "fst ` set (bs_days b) = fst ` set ?days"
    unfolding b(4) set_map image_image by (rule image_cong) (auto split: prod.split)
  then show ?thesis using b by (auto simp: list_all_iff)
qed

lemma evidence_facts:
  assumes "hold_evidence_of cc ref now holdId input rows iv = Inr ev"
  shows "\<forall>l \<in> set rows. now \<le> lk_expires l"
    and "he_hold ev \<in> set (holds iv)" "h_id (he_hold ev) = holdId"
    and "h_policy (he_hold ev) = Some (he_policy ev)"
    and "he_variantId ev \<in> set (map lk_variant rows)"
    and "\<exists>s. h_snapshot (he_hold ev) = Some s \<and> isHoldCommercialSnapshot (cc_lc cc) (cc_digest cc) s \<and>
      bs_priceQuote (he_snapshot ev) = hs_priceQuote s \<and>
      qc_checkIn (pq_context (hs_priceQuote s)) = h_checkIn (he_hold ev) \<and>
      qc_checkOut (pq_context (hs_priceQuote s)) = h_checkOut (he_hold ev) \<and>
      bs_from (he_snapshot ev) = h_checkIn (he_hold ev) \<and> bs_to (he_snapshot ev) = h_checkOut (he_hold ev) \<and>
      set (map lk_date rows) \<subseteq> fst ` set (bs_days (he_snapshot ev))"
proof -
  let ?vs = "js_dedup (filter (\<lambda>v. v \<noteq> []) (map lk_variant rows))"
  obtain hold where ev: "\<not> list_ex (\<lambda>l. lk_expires l < now) rows" "length ?vs = 1"
    "he_variantId ev = hd ?vs" "he_hold ev = hold" "List.find (\<lambda>h. h_id h = holdId) (holds iv) = Some hold"
    "h_policy hold = Some (he_policy ev)"
    and snap: "buildSnapshotFromHoldLifecycle cc (h_snapshot hold) (h_quoteId hold) (hd ?vs)
      (h_ratePlan hold) (h_checkIn hold) (h_checkOut hold) (map lk_date rows) = Some (he_snapshot ev)"
    using assms
    by (auto simp: hold_evidence_of_def Let_def split: if_splits option.splits)
  show "\<forall>l \<in> set rows. now \<le> lk_expires l" using ev(1) by (auto simp: list_ex_iff)
  show "he_hold ev \<in> set (holds iv)" "h_id (he_hold ev) = holdId"
    using find_Some_mem [OF ev(5)] ev(4) by auto
  show "h_policy (he_hold ev) = Some (he_policy ev)" using ev by simp
  have "hd ?vs \<in> set ?vs" using ev(2) by (intro hd_in_set) auto
  then show "he_variantId ev \<in> set (map lk_variant rows)" using ev(3) by auto
  obtain s where s: "h_snapshot hold = Some s" "isHoldCommercialSnapshot (cc_lc cc) (cc_digest cc) s"
    and ctx: "qc_checkIn (pq_context (hs_priceQuote s)) = h_checkIn hold"
      "qc_checkOut (pq_context (hs_priceQuote s)) = h_checkOut hold"
    and f: "snapshot_fields s (map lk_date rows) = Some (he_snapshot ev)"
    using snap by (auto simp: buildSnapshotFromHoldLifecycle_def Let_def split: option.splits if_splits)
  have dates: "hs_from s = Some (h_checkIn hold)" "hs_to s = Some (h_checkOut hold)"
    using s(2) ctx by (auto simp: isHoldCommercialSnapshot_def Let_def)
  have "bs_priceQuote (he_snapshot ev) = hs_priceQuote s \<and> bs_from (he_snapshot ev) = h_checkIn hold \<and>
      bs_to (he_snapshot ev) = h_checkOut hold \<and>
      set (map lk_date rows) \<subseteq> fst ` set (bs_days (he_snapshot ev))"
    using snapshot_fields_facts [OF f] dates by simp
  then show "\<exists>s. h_snapshot (he_hold ev) = Some s \<and>
      isHoldCommercialSnapshot (cc_lc cc) (cc_digest cc) s \<and>
      bs_priceQuote (he_snapshot ev) = hs_priceQuote s \<and>
      qc_checkIn (pq_context (hs_priceQuote s)) = h_checkIn (he_hold ev) \<and>
      qc_checkOut (pq_context (hs_priceQuote s)) = h_checkOut (he_hold ev) \<and>
      bs_from (he_snapshot ev) = h_checkIn (he_hold ev) \<and> bs_to (he_snapshot ev) = h_checkOut (he_hold ev) \<and>
      set (map lk_date rows) \<subseteq> fst ` set (bs_days (he_snapshot ev))"
    using s ctx ev(4) by auto
qed

lemma createBookingFromHold_locks:
  assumes "createBookingFromHold cc ref now bookingId input db = Inr (res, db')" "\<not> bx_idempotent res"
    and "wf_inventory (bk_inv db)"
  shows "(\<forall>l \<in> set (locks (bk_inv db)). lk_hold l = Some (js_trim (bi_holdId input)) \<longrightarrow>
      lk_booking l = None) \<and>
    locks (bk_inv db') = map (\<lambda>l. if lk_hold l = Some (js_trim (bi_holdId input))
      then l\<lparr>lk_booking := Some bookingId\<rparr> else l) (locks (bk_inv db))"
proof (rule booking_new_cases [OF assms(1,2)])
  fix rows dateRange ev answers
  let ?h = "js_trim (bi_holdId input)" and ?iv = "bk_inv db" and ?iv' = "bk_inv db'"
  assume rows: "rows = filter (\<lambda>l. lk_hold l = Some ?h) (locks ?iv)"
    and wr: "write_booking ref now ?h bookingId (length rows) ev answers input db = Inr db'"
  obtain n where cons: "consume_locks ?h bookingId ?iv = (n, ?iv')" and n: "n = length rows"
    using wr by (auto simp: write_booking_def Let_def split: prod.splits if_splits)
  have cnt: "length (filter (\<lambda>l. lk_hold l = Some ?h \<and> lk_booking l = None) (locks ?iv)) =
      length (filter (\<lambda>l. lk_hold l = Some ?h) (locks ?iv))"
    using cons n rows by (simp add: consume_locks_def unbooked_of_def [abs_def])
  have "lk_booking l = None" if "l \<in> set (locks ?iv)" "lk_hold l = Some ?h" for l
    using filter_length_eq [OF cnt that(1)] that(2) by blast
  moreover from this have "locks ?iv' = map (\<lambda>l. if lk_hold l = Some ?h
      then l\<lparr>lk_booking := Some bookingId\<rparr> else l) (locks ?iv)"
  proof -
    have "?iv' = ?iv\<lparr>locks := update_rows (unbooked_of ?h) (\<lambda>l. l\<lparr>lk_booking := Some bookingId\<rparr>) (locks ?iv)\<rparr>"
      using cons by (simp add: consume_locks_def)
    then have "locks ?iv' = update_rows (unbooked_of ?h) (\<lambda>l. l\<lparr>lk_booking := Some bookingId\<rparr>) (locks ?iv)"
      by simp
    then show ?thesis
      using calculation unfolding update_rows_def by (auto simp: unbooked_of_def)
  qed
  ultimately show ?thesis by blast
qed

text \<open>
  C11. Confirming an open hold. The hold had not expired and none of its locks was booked; afterwards
  every lock of the hold, and no other, carries the new booking id; reserved counts and the capacity
  invariant are unchanged, the hold's units have moved from held to booked. One booking and one line
  item are added, for the dates of the hold, and both charge the total of the accepted price quote that
  was stored when the hold was taken.
\<close>

theorem createBookingFromHold_success:
  assumes "createBookingFromHold cc ref now bookingId input db = Inr (res, db')" "\<not> bx_idempotent res"
    and "wf_inventory (bk_inv db)"
  shows "let h = js_trim (bi_holdId input); iv = bk_inv db; iv' = bk_inv db' in
    (\<exists>l \<in> set (locks iv). lk_hold l = Some h) \<and>
    (\<forall>l \<in> set (locks iv). lk_hold l = Some h \<longrightarrow> lk_booking l = None \<and> now \<le> lk_expires l) \<and>
    locks iv' = map (\<lambda>l. if lk_hold l = Some h then l\<lparr>lk_booking := Some bookingId\<rparr> else l) (locks iv) \<and>
    daily iv' = daily iv \<and> wf_inventory iv' \<and>
    (\<forall>v d. bookedUnits v d iv' = bookedUnits v d iv + heldBy h v d iv) \<and>
    (\<exists>hold b item s. hold \<in> set (holds iv) \<and> h_id hold = h \<and> h_snapshot hold = Some s \<and>
      isHoldCommercialSnapshot (cc_lc cc) (cc_digest cc) s \<and>
      bk_bookings db' = bk_bookings db @ [b] \<and> bk_items db' = bk_items db @ [item] \<and>
      bo_id b = bookingId \<and> bo_status b = ''confirmed'' \<and>
      bo_checkIn b = h_checkIn hold \<and> bo_checkOut b = h_checkOut hold \<and>
      bo_total b = toFixed2 (pq_totalAmount (hs_priceQuote s)) \<and> li_total item = bo_total b)"
proof (rule booking_new_cases [OF assms(1,2)])
  fix rows dateRange ev answers
  let ?h = "js_trim (bi_holdId input)" and ?iv = "bk_inv db" and ?iv' = "bk_inv db'"
  assume rows: "rows = filter (\<lambda>l. lk_hold l = Some ?h) (locks ?iv)" "rows \<noteq> []"
    and evd: "hold_evidence_of cc ref now ?h input rows ?iv = Inr ev"
    and wr: "write_booking ref now ?h bookingId (length rows) ev answers input db = Inr db'"
  obtain n where cons: "consume_locks ?h bookingId ?iv = (n, ?iv')" and n: "n = length rows"
    and db': "bk_bookings db' = bk_bookings db @ [booking_row_of ref now bookingId ev answers input]"
      "bk_items db' = bk_items db @ [line_item_of ref bookingId ev]"
    using wr by (auto simp: write_booking_def Let_def split: prod.splits if_splits)
  have unbooked: "lk_booking l = None" if "l \<in> set (locks ?iv)" "lk_hold l = Some ?h" for l
    using createBookingFromHold_locks [OF assms] that by blast
  have exp: "now \<le> lk_expires l" if "l \<in> set (locks ?iv)" "lk_hold l = Some ?h" for l
    using evidence_facts(1) [OF evd] rows(1) that by auto
  have lk: "locks ?iv' = map (\<lambda>l. if lk_hold l = Some ?h then l\<lparr>lk_booking := Some bookingId\<rparr> else l)
      (locks ?iv)"
    using createBookingFromHold_locks [OF assms] by blast
  have ex: "\<exists>l \<in> set (locks ?iv). lk_hold l = Some ?h"
    using rows by (auto simp: filter_empty_conv)
  obtain s where s: "h_snapshot (he_hold ev) = Some s" "isHoldCommercialSnapshot (cc_lc cc) (cc_digest cc) s"
    "bs_priceQuote (he_snapshot ev) = hs_priceQuote s"
    "bs_from (he_snapshot ev) = h_checkIn (he_hold ev)" "bs_to (he_snapshot ev) = h_checkOut (he_hold ev)"
    using evidence_facts(6) [OF evd] by auto
  have charge: "\<exists>hold b item s. hold \<in> set (holds ?iv) \<and> h_id hold = ?h \<and> h_snapshot hold = Some s \<and>
      isHoldCommercialSnapshot (cc_lc cc) (cc_digest cc) s \<and>
      bk_bookings db' = bk_bookings db @ [b] \<and> bk_items db' = bk_items db @ [item] \<and>
      bo_id b = bookingId \<and> bo_status b = ''confirmed'' \<and>
      bo_checkIn b = h_checkIn hold \<and> bo_checkOut b = h_checkOut hold \<and>
      bo_total b = toFixed2 (pq_totalAmount (hs_priceQuote s)) \<and> li_total item = bo_total b"
    using evidence_facts(2,3) [OF evd] s db'
    by (intro exI [of _ "he_hold ev"] exI [of _ "booking_row_of ref now bookingId ev answers input"]
        exI [of _ "line_item_of ref bookingId ev"] exI [of _ s])
      (simp add: booking_row_of_def line_item_of_def Let_def)
  note units = consume_locks_units [OF cons]
  show ?thesis
    unfolding Let_def
    using ex unbooked exp lk units(1,6) units(7) [OF assms(3)] charge by blast
qed

section \<open>Confirming again\<close>

lemma date_range_map:
  "(\<And>l. lk_date (f l) = lk_date l) \<Longrightarrow> resolveHoldDateRange (map f rows) = resolveHoldDateRange rows"
  by (simp add: resolveHoldDateRange_def o_def)

lemma filter_map_same:
  "(\<And>x. P (f x) = P x) \<Longrightarrow> filter P (map f xs) = map f (filter P xs)"
  by (induction xs) auto

text \<open>
  C12. Confirming is idempotent for its owner: the same hold confirmed again by the user who confirmed
  it returns the same booking, changes nothing and adds no second booking; anyone else, a guest
  without a user id included, is refused. Only the flag tells the two answers apart.
\<close>

theorem createBookingFromHold_again:
  assumes "createBookingFromHold cc ref now bookingId input db = Inr (res, db')" "\<not> bx_idempotent res"
    and "wf_inventory (bk_inv db)" "bookingId \<noteq> []"
    and "\<forall>b \<in> set (bk_bookings db). bo_id b \<noteq> bookingId"
    and "\<forall>l \<in> set (locks (bk_inv db)). lk_variant l \<noteq> []"
    and "js_trim (bi_holdId input') = js_trim (bi_holdId input)"
  shows "createBookingFromHold cc ref now' otherId input' db' =
    (if truthy (bi_userId input') \<and> bi_userId input' = bi_userId input
     then Inr (res\<lparr>bx_idempotent := True\<rparr>, db')
     else Inl (Thrown ''HOLD_OWNED_BY_ANOTHER_USER''))"
proof (rule booking_new_cases [OF assms(1,2)])
  fix rows dateRange ev answers
  let ?h = "js_trim (bi_holdId input)" and ?iv = "bk_inv db" and ?iv' = "bk_inv db'"
  let ?f = "\<lambda>l. l\<lparr>lk_booking := Some bookingId\<rparr>"
  let ?g = "\<lambda>l. if lk_hold l = Some ?h then ?f l else l"
  assume rows: "rows = filter (\<lambda>l. lk_hold l = Some ?h) (locks ?iv)" "rows \<noteq> []" "?h \<noteq> []"
    and evd: "hold_evidence_of cc ref now ?h input rows ?iv = Inr ev"
    and wr: "write_booking ref now ?h bookingId (length rows) ev answers input db = Inr db'"
    and res: "res = \<lparr>bx_bookingId = bookingId, bx_status = ''confirmed'', bx_idempotent = False,
       bx_variantId = he_variantId ev, bx_productId = vr_productId (he_variant ev),
       bx_from = fst dateRange, bx_to = snd dateRange\<rparr>"
    and dr: "resolveHoldDateRange rows = Some dateRange"
  have lk: "locks ?iv' = map ?g (locks ?iv)"
    using createBookingFromHold_locks [OF assms(1-3)] by simp
  have rows': "filter (\<lambda>l. lk_hold l = Some ?h) (locks ?iv') = map ?f rows"
  proof -
    have "filter (\<lambda>l. lk_hold l = Some ?h) (map ?g (locks ?iv)) = map ?g rows"
      unfolding rows(1) by (rule filter_map_same) simp
    also have "\<dots> = map ?f rows" by (auto simp: rows(1))
    finally show ?thesis by (simp add: lk)
  qed
  obtain l ls where ls: "rows = l # ls" using rows(2) by (cases rows) auto
  have first: "List.find (\<lambda>l. truthy (lk_booking l)) (map ?f rows) = Some (?f l)"
    using assms(4) by (simp add: ls truthy_def)
  have dr': "resolveHoldDateRange (map ?f rows) = Some dateRange"
    using dr by (simp add: date_range_map)
  have new: "bk_bookings db' = bk_bookings db @ [booking_row_of ref now bookingId ev answers input]"
    using wr by (auto simp: write_booking_def Let_def split: prod.splits if_splits)
  have found: "List.find (\<lambda>b. bo_id b = bookingId) (bk_bookings db') =
      Some (booking_row_of ref now bookingId ev answers input)"
  proof -
    have "List.find (\<lambda>b. bo_id b = bookingId) (bk_bookings db) = None"
      using assms(5) by (simp add: find_None_all)
    then show ?thesis by (simp add: new find_append) (simp add: booking_row_of_def Let_def)
  qed
  have var: "lk_variant (?f l) = he_variantId ev \<and> br_variant ref (he_variantId ev) = Some (he_variant ev)"
  proof -
    let ?vs = "js_dedup (filter (\<lambda>v. v \<noteq> []) (map lk_variant rows))"
    have one: "length ?vs = 1" "he_variantId ev = hd ?vs" "br_variant ref (hd ?vs) = Some (he_variant ev)"
      using evd by (auto simp: hold_evidence_of_def Let_def split: if_splits option.splits)
    have "l \<in> set rows" by (simp add: ls)
    then have "l \<in> set (locks ?iv)" unfolding rows(1) by simp
    then have "lk_variant l \<noteq> []" using assms(6) by blast
    then have "hd ?vs = lk_variant l" by (simp add: ls)
    then show ?thesis using one by simp
  qed
  have row: "bo_userId (booking_row_of ref now bookingId ev answers input) = bi_userId input"
    "bo_id (booking_row_of ref now bookingId ev answers input) = bookingId"
    "bo_status (booking_row_of ref now bookingId ev answers input) = ''confirmed''"
    by (simp_all add: booking_row_of_def Let_def)
  have hd: "lk_variant (hd (map ?f rows)) = he_variantId ev" using var by (simp add: ls)
  have "createBookingFromHold cc ref now' otherId input' db' =
      (case linked_booking ref db' input' (map ?f rows) dateRange bookingId of
         Inl e \<Rightarrow> Inl e | Inr r \<Rightarrow> Inr (r, db'))"
    using rows(2,3) first dr'
    by (simp add: createBookingFromHold_def assms(7) rows')
  also have "linked_booking ref db' input' (map ?f rows) dateRange bookingId =
      (if truthy (bi_userId input') \<and> bi_userId input' = bi_userId input
       then Inr (res\<lparr>bx_idempotent := True\<rparr>) else Inl (Thrown ''HOLD_OWNED_BY_ANOTHER_USER''))"
    using var by (auto simp: linked_booking_def found row hd Let_def res)
  finally show ?thesis
    by (auto split: if_split)
qed

definition example_ref :: booking_ref where
  "example_ref = \<lparr>
     br_variant = \<lambda>v. if v = ''v'' then Some \<lparr>vr_productId = ''p'', vr_name = Some ''Room'', vr_kind = Some ''room''\<rparr>
       else None,
     br_product = \<lambda>q. if q = ''p'' then Some \<lparr>pf_id = ''p'', pf_providerId = Some ''prov'', pf_name = ''Hotel''\<rparr>
       else None,
     br_ratePlanName = \<lambda>r. Some ''Flexible'', br_user = \<lambda>u. None, br_questions = \<lambda>q. [],
     br_tour = \<lambda>q v. None, br_revalidate = \<lambda>q b. False,
     br_agreement = \<lambda>q. \<lparr>as_active = False, as_terms = None\<rparr>\<rparr>"

definition example_booking_db :: booking_db where
  "example_booking_db = \<lparr>bk_inv = example_created, bk_bookings = [], bk_items = [], bk_policies = [],
     bk_vouchers = [], bk_taxes = []\<rparr>"

definition example_booking_input :: booking_input where
  "example_booking_input = \<lparr>bi_holdId = example_hold_id, bi_priceQuoteId = None, bi_userId = Some ''u1'',
     bi_source = None, bi_leadName = None, bi_tourAnswers = []\<rparr>"

lemma example_confirmed:
  "\<exists>res db'. createBookingFromHold example_codec example_ref 1000 ''b1'' example_booking_input
     example_booking_db = Inr (res, db') \<and> \<not> bx_idempotent res"
proof -
  have "case createBookingFromHold example_codec example_ref 1000 ''b1'' example_booking_input
      example_booking_db of Inl e \<Rightarrow> False | Inr (r, db') \<Rightarrow> \<not> bx_idempotent r"
    by code_simp
  then show ?thesis by (auto split: sum.splits)
qed

lemma example_created_wf: "wf_inventory example_created"
proof -
  have "hpo_hold (repository_port postgres_engine (\<lambda>_. clock_env 0)) (hold_params_of example_hold_id
      example_deps example_create (parseDateOnly 10) (parseDateOnly 12) 600000 example_policy None
      example_snapshot) example_inv = (Inr (HoldTaken example_hold_id 600000), example_created)"
    unfolding prod_eq_iff by code_simp
  then have "holdInventory postgres_engine (\<lambda>_. clock_env 0) (hold_params_of example_hold_id
      example_deps example_create (parseDateOnly 10) (parseDateOnly 12) 600000 example_policy None
      example_snapshot) example_inv = (Inr (HoldTaken example_hold_id 600000), example_created)"
    by (simp add: repository_port_def)
  from holdInventory_wf [OF example_inv_wf _ this] show ?thesis
    by (simp add: hold_params_of_def example_create_def requested_rooms_def)
qed

theorem createBookingFromHold_success_witness:
  "\<exists>res db'. createBookingFromHold example_codec example_ref 1000 ''b1'' example_booking_input
     example_booking_db = Inr (res, db') \<and> wf_inventory (bk_inv db') \<and>
     (\<exists>l \<in> set (locks example_created). lk_hold l = Some example_hold_id)"
proof -
  obtain res db' where run: "createBookingFromHold example_codec example_ref 1000 ''b1''
      example_booking_input example_booking_db = Inr (res, db')" "\<not> bx_idempotent res"
    using example_confirmed by blast
  have wf: "wf_inventory (bk_inv example_booking_db)"
    by (simp add: example_booking_db_def example_created_wf)
  have trim: "js_trim (bi_holdId example_booking_input) = example_hold_id" by code_simp
  from createBookingFromHold_success [OF run wf] run(1) show ?thesis
    unfolding Let_def trim by (auto simp: example_booking_db_def)
qed

theorem createBookingFromHold_again_witness:
  "\<exists>res db'. createBookingFromHold example_codec example_ref 1000 ''b1'' example_booking_input
       example_booking_db = Inr (res, db') \<and>
     createBookingFromHold example_codec example_ref 2000 ''b2'' example_booking_input db' =
       Inr (res\<lparr>bx_idempotent := True\<rparr>, db') \<and>
     createBookingFromHold example_codec example_ref 2000 ''b2''
       (example_booking_input\<lparr>bi_userId := None\<rparr>) db' = Inl (Thrown ''HOLD_OWNED_BY_ANOTHER_USER'')"
proof -
  obtain res db' where run: "createBookingFromHold example_codec example_ref 1000 ''b1''
      example_booking_input example_booking_db = Inr (res, db')" "\<not> bx_idempotent res"
    using example_confirmed by blast
  have wf: "wf_inventory (bk_inv example_booking_db)"
    by (simp add: example_booking_db_def example_created_wf)
  have fresh: "\<forall>b \<in> set (bk_bookings example_booking_db). bo_id b \<noteq> ''b1''"
    by (simp add: example_booking_db_def)
  have "list_all (\<lambda>l. lk_variant l \<noteq> []) (locks example_created)" by code_simp
  then have vars: "\<forall>l \<in> set (locks (bk_inv example_booking_db)). lk_variant l \<noteq> []"
    by (simp add: list_all_iff example_booking_db_def)
  have user: "bi_userId example_booking_input = Some ''u1''" by (simp add: example_booking_input_def)
  have same: "js_trim (bi_holdId example_booking_input) = js_trim (bi_holdId example_booking_input)"
    "js_trim (bi_holdId (example_booking_input\<lparr>bi_userId := None\<rparr>)) = js_trim (bi_holdId example_booking_input)"
    by simp_all
  show ?thesis
    using createBookingFromHold_again [OF run wf _ fresh vars same(1), of 2000 "''b2''"]
      createBookingFromHold_again [OF run wf _ fresh vars same(2), of 2000 "''b2''"] run(1)
    by (auto simp: user truthy_def)
qed

section \<open>Cancelling\<close>

text \<open>
  C18. Cancelling a booking. Its locks are deleted and its nights are materialized again without them,
  but the reserved counts stay where the hold put them: a night all of whose units were reserved shows
  the freed units as available, while every later hold on it is refused.
\<close>

theorem cancel_keeps_units_reserved:
  assumes "wf_inventory (bk_inv db)" "locks_named (bk_inv db)" "wf_avail (bk_inv db)"
    and "cancel_instructions bookingId (bk_inv db) = [i]" "sound_instruction i" "undisturbed env"
    and "cancel_booking rowId env (Inr ''quoted'') bookingId db = (res, db')"
    and "in_from i \<le> d" "d < in_to i" "reservedAt (in_variantId i) d (bk_inv db) = totalAt (in_variantId i) d (bk_inv db)"
    and "0 < pr_quantity p" "pr_variantId p = in_variantId i"
    and "d \<in> set (datesInRange (pr_checkIn p) (pr_checkOut p))"
  shows "let v = in_variantId i; iv = bk_inv db; iv' = bk_inv db' in
    locks iv' = delete_rows (\<lambda>l. lk_booking l = Some bookingId) (locks iv) \<and>
    daily iv' = daily iv \<and>
    (\<exists>r. find_avail v d iv' = Some r \<and> shows_availability (re_now (me_recompute env 0) 1) v d iv' (blockedUnits v d iv) r) \<and>
    (\<nexists>h t. fst (holdInventory eng envs p iv') = Inr (HoldTaken h t))"
proof -
  let ?iv = "bk_inv db" and ?iv' = "bk_inv db'" and ?v = "in_variantId i"
  let ?c = "cancel_locks bookingId ?iv"
  let ?now = "re_now (me_recompute env 0) 1"
  let ?out = "applyInventoryMutation public_deps rowId env False True
    (\<lambda>n inv. (Inr (), cancel_locks bookingId inv)) (\<lambda>_. [i]) ?iv"
  have run: "runMutationWithRetry (\<lambda>n inv. (Inr (), cancel_locks bookingId inv)) env 1 8 ?iv = (Inr (), ?c)"
    by (simp add: numeral_eq_Suc)
  have lu: "lockUnits v d ?c \<le> lockUnits v d ?iv" for v d
    unfolding cancel_locks_def lockUnits_def
    by (simp add: total_where_delete, rule total_where_mono)
      (use wf_lock_pos [OF assms(1)] in \<open>auto intro: less_imp_le\<close>)
  have wfc: "wf_inventory ?c"
  proof -
    have "lockUnits v d ?c \<le> reservedAt v d ?c" for v d
    proof -
      have "lockUnits v d ?c \<le> lockUnits v d ?iv" by (rule lu)
      also have "\<dots> \<le> reservedAt v d ?iv" using assms(1) by (simp add: wf_inventory_def)
      also have "\<dots> = reservedAt v d ?c" by (simp add: cancel_locks_def reservedAt_def find_daily_def)
      finally show ?thesis .
    qed
    then show ?thesis
      using assms(1) by (auto simp: wf_inventory_def cancel_locks_def list_all_iff)
  qed
  have nc: "locks_named ?c" using assms(2) by (auto simp: locks_named_def cancel_locks_def)
  have ac: "wf_avail ?c" using assms(3) by (simp add: wf_avail_def cancel_locks_def)
  have "recomputed public_deps ?now ?v (in_from i) (in_to i) ?c (mo_db ?out)"
    using apply_single [where recompute = "\<lambda>_. [i]", OF run wfc nc ac repo_deps_both(1)
        public_store.recompute_store_axioms refl assms(5,6), of rowId True]
    by (simp add: Let_def)
  moreover have iv': "mo_db ?out = ?iv'"
    using assms(4,7) by (auto simp: cancel_booking_def Let_def split: sum.splits)
  ultimately have rec: "recomputed public_deps ?now ?v (in_from i) (in_to i) ?c ?iv'" by simp
  then have same: "same_facts ?c ?iv'" by (simp add: recomputed_def)
  have lk: "locks ?iv' = delete_rows (\<lambda>l. lk_booking l = Some bookingId) (locks ?iv)"
    and dl: "daily ?iv' = daily ?iv"
    using same by (simp_all add: same_facts_def cancel_locks_def)
  have ev: "blockedUnits ?v d ?c = blockedUnits ?v d ?iv"
    by (simp add: cancel_locks_def blockedUnits_def)
  obtain r where "find_avail ?v d ?iv' = Some r" "shows_availability ?now ?v d ?c (blockedUnits ?v d ?c) r"
    using rec assms(8,9) by (auto simp: recomputed_def)
  then have shown: "\<exists>r. find_avail ?v d ?iv' = Some r \<and>
      shows_availability ?now ?v d ?iv' (blockedUnits ?v d ?iv) r"
    by (auto simp: shows_availability_def same_facts_units [OF same] ev)
  have "\<nexists>h t. fst (holdInventory eng envs p ?iv') = Inr (HoldTaken h t)"
  proof
    assume "\<exists>h t. fst (holdInventory eng envs p ?iv') = Inr (HoldTaken h t)"
    then obtain h t where hold: "holdInventory eng envs p ?iv' =
        (Inr (HoldTaken h t), snd (holdInventory eng envs p ?iv'))"
      by (metis prod.collapse)
    have wf': "wf_inventory ?iv'" using wfc same_facts_units(1) [OF same] by simp
    let ?iv2 = "snd (holdInventory eng envs p ?iv')"
    have "hold_effect p ?iv' ?iv2" using holdInventory_effect [OF wf' assms(11) hold] by blast
    then have "reservedAt ?v d ?iv2 + externalBlocks ?v d ?iv' \<le> totalAt ?v d ?iv'"
      "reservedAt ?v d ?iv2 = reservedAt ?v d ?iv' + pr_quantity p"
      using assms(12,13) by (auto simp: hold_effect_def Let_def)
    moreover have "reservedAt ?v d ?iv' = totalAt ?v d ?iv'"
      using assms(10) dl by (simp add: reservedAt_def totalAt_def find_daily_def)
    ultimately show False using assms(11) externalBlocks_nonneg [of ?v d ?iv'] by simp
  qed
  then show ?thesis using lk dl shown by (simp add: Let_def)
qed

definition example_booked :: booking_db where
  "example_booked = example_booking_db\<lparr>bk_inv := \<lparr>
     daily = [\<lparr>di_variant = ''v'', di_date = 10, di_total = 1, di_reserved = 1\<rparr>],
     locks = [\<lparr>lk_hold = Some ''h1'', lk_variant = ''v'', lk_date = 10, lk_qty = 1, lk_expires = 0,
       lk_booking = Some ''b1''\<rparr>],
     holds = [], events = [], avail = []\<rparr>\<rparr>"

theorem cancel_keeps_units_reserved_witness:
  "\<nexists>h t. fst (holdInventory postgres_engine (\<lambda>_. quiet_env)
     (example_params\<lparr>pr_checkOut := parseDateOnly 11\<rparr>)
     (bk_inv (snd (cancel_booking (\<lambda>v d. v) (quiet_mutation 5) (Inr ''quoted'') ''b1'' example_booked))))
     = Inr (HoldTaken h t)"
proof -
  let ?i = "\<lparr>in_variantId = ''v'', in_from = 10, in_to = 11, in_reason = ''booking_cancel'',
    in_idempotencyKey = Some ''booking_cancel:b1:v''\<rparr>"
  have wf: "wf_inventory (bk_inv example_booked)"
    by (auto simp: wf_inventory_def example_booked_def daily_key_def daily_check_def lock_check_def
        lockUnits_def reservedAt_def find_daily_def on_day_def)
  have named: "locks_named (bk_inv example_booked)" and unique: "wf_avail (bk_inv example_booked)"
    by (simp_all add: locks_named_def wf_avail_def example_booked_def)
  have one: "cancel_instructions ''b1'' (bk_inv example_booked) = [?i]" by code_simp
  have sound: "sound_instruction ?i" by (simp add: sound_instruction_def)
  have full: "reservedAt ''v'' 10 (bk_inv example_booked) = totalAt ''v'' 10 (bk_inv example_booked)"
    by code_simp
  have run: "cancel_booking (\<lambda>v d. v) (quiet_mutation 5) (Inr ''quoted'') ''b1'' example_booked =
      (fst (cancel_booking (\<lambda>v d. v) (quiet_mutation 5) (Inr ''quoted'') ''b1'' example_booked),
       snd (cancel_booking (\<lambda>v d. v) (quiet_mutation 5) (Inr ''quoted'') ''b1'' example_booked))"
    by simp
  show ?thesis
    using cancel_keeps_units_reserved [OF wf named unique one sound quiet_mutation_undisturbed run,
        of 10 "example_params\<lparr>pr_checkOut := parseDateOnly 11\<rparr>" postgres_engine "\<lambda>_. quiet_env"]
    by (auto simp: full example_params_def Let_def)
qed

end
