(* ===== verification/Inventory_System.thy ===== *)
theory Inventory_System
  imports Booking_Correctness
begin

text \<open>
  The inventory and the bookings as one machine: the operations of the previous theories as steps with
  whatever clock readings, faults, prices and policies the outside produces, and the invariant every
  run keeps. A night is never oversold, however requests, confirmations, cancellations, releases,
  recomputes and stock changes interleave.
\<close>

datatype inventory_op =
    SetStock string day "int option"
  | TakeHold codec "nat \<Rightarrow> attempt_env" create_deps create_input ms
  | ReleaseHold "nat \<Rightarrow> attempt_env" string
  | ExpireHolds "nat \<Rightarrow> attempt_env" "string \<Rightarrow> day \<Rightarrow> string" mutation_env ms
  | Recompute "string \<Rightarrow> day \<Rightarrow> string" recompute_env recompute_input
  | Confirm codec booking_ref ms string booking_input
  | Cancel "string \<Rightarrow> day \<Rightarrow> string" mutation_env "failure + string" string

text \<open>An operation that throws answers \<open>Inl\<close> with the state it leaves behind.\<close>

definition with_inv :: "booking_db \<Rightarrow> (failure + 'a) \<times> inv_db \<Rightarrow> booking_db + booking_db" where
  "with_inv db out = (case out of
     (Inl e, iv) \<Rightarrow> Inl (db\<lparr>bk_inv := iv\<rparr>) | (Inr r, iv) \<Rightarrow> Inr (db\<lparr>bk_inv := iv\<rparr>))"

fun inventory_step :: "engine \<Rightarrow> inventory_op \<Rightarrow> booking_db \<Rightarrow> booking_db + booking_db" where
  "inventory_step eng (SetStock v d units) db =
     (case upsertOperational v d units (bk_inv db) of
        Inl e \<Rightarrow> Inl db | Inr iv \<Rightarrow> Inr (db\<lparr>bk_inv := iv\<rparr>))"
| "inventory_step eng (TakeHold cc envs deps input now) db =
     with_inv db (createInventoryHold cc (repository_port eng envs) deps input now (bk_inv db))"
| "inventory_step eng (ReleaseHold envs holdId) db =
     with_inv db (releaseInventoryHold (repository_port eng envs) holdId (bk_inv db))"
| "inventory_step eng (ExpireHolds envs rowId env now) db =
     with_inv db (releaseExpiredHolds eng envs rowId env now (bk_inv db))"
| "inventory_step eng (Recompute rowId env input) db =
     with_inv db (recomputeEffectiveAvailabilityRange public_deps rowId env input (bk_inv db))"
| "inventory_step eng (Confirm cc ref now bookingId input) db =
     (case createBookingFromHold cc ref now bookingId input db of
        Inl e \<Rightarrow> Inl db | Inr (r, db') \<Rightarrow> Inr db')"
| "inventory_step eng (Cancel rowId env quote bookingId) db =
     (case cancel_booking rowId env quote bookingId db of
        (Inl e, db') \<Rightarrow> Inl db' | (Inr _, db') \<Rightarrow> Inr db')"

text \<open>The step relation: one operation, whether it returns or throws.\<close>

inductive inventory_steps :: "engine \<Rightarrow> booking_db \<Rightarrow> booking_db \<Rightarrow> bool" for eng where
  start: "inventory_steps eng db db"
| returns: "inventory_steps eng db db1 \<Longrightarrow> inventory_step eng x db1 = Inr db2 \<Longrightarrow> inventory_steps eng db db2"
| throws: "inventory_steps eng db db1 \<Longrightarrow> inventory_step eng x db1 = Inl db2 \<Longrightarrow> inventory_steps eng db db2"

inductive_cases inventory_stepsE: "inventory_steps eng db db'"

definition scalar_max_or_none :: "engine \<Rightarrow> bool" where
  "scalar_max_or_none eng \<longleftrightarrow> eng_max eng = Some max \<or> eng_max eng = None"

lemma both_engines [simp]: "scalar_max_or_none sqlite_engine" "scalar_max_or_none postgres_engine"
  by (simp_all add: scalar_max_or_none_def sqlite_engine_def postgres_engine_def)

section \<open>Every operation keeps the inventory well formed\<close>

lemma release_nights_without_max:
  "eng_max eng = None \<Longrightarrow> release_nights eng ls db = Inr db' \<Longrightarrow> ls = []"
  by (cases ls) auto

lemma release_any_wf:
  assumes "scalar_max_or_none eng" "wf_inventory db" "releaseHold eng envs h db = (res, db')"
  shows "wf_inventory db'"
proof (cases "eng_max eng = Some max")
  case True
  then show ?thesis using releaseHold_wf [OF assms(2) True assms(3)] by simp
next
  case False
  then have none: "eng_max eng = None" using assms(1) by (simp add: scalar_max_or_none_def)
  have tx: "release_transaction eng env h db = Inr (r, db1) \<Longrightarrow> db1 = db" for env r db1
    using release_nights_without_max [OF none]
    by (auto simp: release_transaction_def Let_def split: if_splits sum.splits option.splits)
  have "release_attempts eng envs h k left db = (res, db') \<Longrightarrow> db' = db" for k left
    by (induction left arbitrary: k) (auto dest: tx split: sum.splits tx_error.splits if_splits prod.splits)
  then show ?thesis using assms(2,3) by (auto simp: releaseHold_def)
qed

lemma create_hold_wf:
  assumes "wf_inventory db"
    and "createInventoryHold cc (repository_port eng envs) deps input now db = (res, db')"
  shows "wf_inventory db'"
proof -
  have new: "wf_inventory db'"
    if "create_new_hold cc (repository_port eng envs) deps input now h a b db = (res, db')"
      "\<not> requested_rooms input < 1" for h a b
  proof (cases "\<exists>p r. 0 < pr_quantity p \<and> holdInventory eng envs p db = (r, db')")
    case True
    then show ?thesis using holdInventory_wf [OF assms(1)] by blast
  next
    case False
    have "0 < pr_quantity (hold_params_of h deps input a b t pol g s)" for t pol g s
      using that(2) by (simp add: hold_params_of_def)
    then have "db' = db"
      using that(1) False
      by (auto simp: create_new_hold_def repository_port_def Let_def
          split: sum.splits option.splits if_splits prod.splits hold_result.splits)
    then show ?thesis using assms(1) by simp
  qed
  show ?thesis
    using assms new by (auto simp: createInventoryHold_def Let_def split: if_splits option.splits)
qed

definition keeps_wf :: "(nat \<Rightarrow> inv_db \<Rightarrow> (failure + 'a) \<times> inv_db) \<Rightarrow> bool" where
  "keeps_wf mutate \<longleftrightarrow> (\<forall>n db. wf_inventory db \<longrightarrow> wf_inventory (snd (mutate n db)))"

lemma mutation_retry_wf:
  "keeps_wf mutate \<Longrightarrow> wf_inventory db \<Longrightarrow> wf_inventory (snd (runMutationWithRetry mutate env k left db))"
proof (induction left arbitrary: k db)
  case 0
  then show ?case by simp
next
  case (Suc left)
  obtain r db1 where m: "mutate k db = (r, db1)" by (cases "mutate k db")
  then have "wf_inventory db1" using Suc.prems unfolding keeps_wf_def by (metis snd_conv)
  then show ?case using Suc.IH [OF Suc.prems(1)] m by (simp split: sum.split)
qed

lemma run_recomputes_frame:
  "repo_deps deps \<Longrightarrow> same_facts db (snd (run_recomputes deps rowId env soft n is db))"
proof (induction "is" arbitrary: n db)
  case Nil
  then show ?case by simp
next
  case (Cons i "is")
  obtain r db1 where first: "(if me_chain_spent env n then (Inl (Thrown ''recompute_chain_timeout''), db)
      else recomputeEffectiveAvailabilityRange deps rowId (me_recompute env n) (recompute_input_of i) db)
      = (r, db1)"
    by fastforce
  then have step: "same_facts db db1"
    using recompute_frame [OF Cons.prems] by (auto split: if_splits)
  have rest: "same_facts db (snd (run_recomputes deps rowId env soft (Suc n) is db1))"
    by (rule same_facts_trans [OF step Cons.IH [OF Cons.prems]])
  have "run_recomputes deps rowId env soft n (i # is) db =
      (case r of Inl e \<Rightarrow> if soft then run_recomputes deps rowId env soft (Suc n) is db1 else (Some e, db1)
       | Inr _ \<Rightarrow> run_recomputes deps rowId env soft (Suc n) is db1)"
    by (simp only: run_recomputes.simps first Let_def prod.case)
  then show ?case using step rest by (auto split: sum.split)
qed

lemma apply_mutation_wf:
  assumes "repo_deps deps" "wf_inventory db" "keeps_wf mutate"
  shows "wf_inventory (mo_db (applyInventoryMutation deps rowId env soft enq mutate recompute db))"
proof -
  obtain r db1 where m: "runMutationWithRetry mutate env 1 8 db = (r, db1)"
    by (cases "runMutationWithRetry mutate env 1 8 db")
  then have wf: "wf_inventory db1" using mutation_retry_wf [OF assms(3,2), of env 1 8] by simp
  show ?thesis
  proof (cases r)
    case (Inl e)
    then show ?thesis using m wf by (simp add: applyInventoryMutation_def)
  next
    case (Inr x)
    obtain e db2 where run: "run_recomputes deps rowId env soft 0 (recompute x) db1 = (e, db2)"
      by (cases "run_recomputes deps rowId env soft 0 (recompute x) db1")
    then have "same_facts db1 db2" using run_recomputes_frame [OF assms(1)] by (metis snd_conv)
    then have "wf_inventory db2" using same_facts_units(1) wf by blast
    then show ?thesis
      using m Inr run
      by (auto simp: applyInventoryMutation_def Let_def split: option.splits bool.splits)
  qed
qed

lemma expire_wf:
  assumes "scalar_max_or_none eng"
  shows "wf_inventory db \<Longrightarrow> release_items eng envs rowId env items n vs db = (res, db') \<Longrightarrow> wf_inventory db'"
proof (induction items arbitrary: n vs db)
  case Nil
  then show ?case by simp
next
  case (Cons item items)
  let ?out = "applyInventoryMutation internal_deps rowId env False True
      (release_mutation eng envs (fst item)) (\<lambda>_. [expire_instruction item]) db"
  have wf: "wf_inventory (mo_db ?out)"
    by (rule apply_mutation_wf [OF repo_deps_both(2) Cons.prems(1)])
      (auto simp: keeps_wf_def release_mutation_def split: prod.split sum.split
        dest: release_any_wf [OF assms])
  show ?case
    using Cons.prems(2) Cons.IH [OF wf] wf by (auto simp: Let_def split: sum.splits)
qed

lemma cancel_locks_wf: "wf_inventory iv \<Longrightarrow> wf_inventory (cancel_locks bookingId iv)"
proof -
  assume wf: "wf_inventory iv"
  let ?c = "cancel_locks bookingId iv"
  have "lockUnits v d ?c \<le> reservedAt v d ?c" for v d
  proof -
    have "lockUnits v d ?c \<le> lockUnits v d iv"
      unfolding cancel_locks_def lockUnits_def
      by (simp add: total_where_delete, rule total_where_mono)
        (use wf_lock_pos [OF wf] in \<open>auto intro: less_imp_le\<close>)
    also have "\<dots> \<le> reservedAt v d iv" using wf by (simp add: wf_inventory_def)
    also have "\<dots> = reservedAt v d ?c" by (simp add: cancel_locks_def reservedAt_def find_daily_def)
    finally show ?thesis .
  qed
  then show ?thesis using wf by (auto simp: wf_inventory_def cancel_locks_def list_all_iff)
qed

lemma cancel_wf:
  assumes "wf_inventory (bk_inv db)" "cancel_booking rowId env quote bookingId db = (res, db')"
  shows "wf_inventory (bk_inv db')"
proof -
  have "wf_inventory (mo_db (applyInventoryMutation public_deps rowId env False True
      (\<lambda>n iv. (Inr (), cancel_locks bookingId iv)) (\<lambda>_. cancel_instructions bookingId (bk_inv db))
      (bk_inv db)))"
    by (rule apply_mutation_wf [OF repo_deps_both(1) assms(1)]) (simp add: keeps_wf_def cancel_locks_wf)
  then show ?thesis
    using assms by (auto simp: cancel_booking_def Let_def split: sum.splits if_splits)
qed

lemma confirm_wf:
  assumes "wf_inventory (bk_inv db)" "createBookingFromHold cc ref now bookingId input db = Inr (res, db')"
  shows "wf_inventory (bk_inv db')"
proof (cases "bx_idempotent res")
  case True
  then have "db' = db"
    using assms(2)
    by (auto simp: createBookingFromHold_def Let_def split: if_splits option.splits sum.splits)
  then show ?thesis using assms(1) by simp
next
  case False
  obtain rows :: "lock_row list" and ev answers where
    "write_booking ref now (js_trim (bi_holdId input)) bookingId (length rows) ev answers input db = Inr db'"
    by (rule booking_new_cases [OF assms(2) False], rule that)
  then obtain n where cons:
    "consume_locks (js_trim (bi_holdId input)) bookingId (bk_inv db) = (n, bk_inv db')"
    by (auto simp: write_booking_def Let_def split: prod.splits if_splits)
  show ?thesis by (rule consume_locks_units(7) [OF cons assms(1)])
qed

definition inventory_inv :: "booking_db \<Rightarrow> bool" where
  "inventory_inv db \<longleftrightarrow> wf_inventory (bk_inv db)"

lemma inventory_step_keeps:
  assumes "scalar_max_or_none eng" "inventory_inv db"
    and "inventory_step eng x db = Inr db' \<or> inventory_step eng x db = Inl db'"
  shows "inventory_inv db'"
proof -
  have wf: "wf_inventory (bk_inv db)" using assms(2) by (simp add: inventory_inv_def)
  have carry: "wf_inventory (bk_inv db')"
    if "with_inv db out = Inr db' \<or> with_inv db out = Inl db'" "wf_inventory (snd out)"
    for out :: "(failure + 'a) \<times> inv_db"
    using that by (auto simp: with_inv_def split: prod.splits sum.splits)
  have "wf_inventory (bk_inv db')"
  proof (cases x)
    case (SetStock v d units)
    then show ?thesis
      using assms(3) wf by (auto split: sum.splits dest: upsertOperational_wf)
  next
    case (TakeHold cc envs deps input now)
    then show ?thesis
      using assms(3) carry create_hold_wf [OF wf] by (metis inventory_step.simps(2) prod.collapse)
  next
    case (ReleaseHold envs h)
    have "wf_inventory (snd (releaseInventoryHold (repository_port eng envs) h (bk_inv db)))"
      using wf release_any_wf [OF assms(1) wf]
      by (auto simp: releaseInventoryHold_def repository_port_def split: prod.splits sum.splits)
    then show ?thesis using assms(3) carry ReleaseHold by (metis inventory_step.simps(3))
  next
    case (ExpireHolds envs rowId env now)
    have "wf_inventory (snd (releaseExpiredHolds eng envs rowId env now (bk_inv db)))"
      unfolding releaseExpiredHolds_def
      by (rule expire_wf [OF assms(1) wf]) (rule prod.collapse [symmetric])
    then show ?thesis using assms(3) carry ExpireHolds by (metis inventory_step.simps(4))
  next
    case (Recompute rowId env input)
    have "same_facts (bk_inv db)
        (snd (recomputeEffectiveAvailabilityRange public_deps rowId env input (bk_inv db)))"
      by (rule recompute_frame [OF repo_deps_both(1)]) (rule prod.collapse [symmetric])
    then have "wf_inventory
        (snd (recomputeEffectiveAvailabilityRange public_deps rowId env input (bk_inv db)))"
      using wf same_facts_units(1) by blast
    then show ?thesis using assms(3) carry Recompute by (metis inventory_step.simps(5))
  next
    case (Confirm cc ref now bookingId input)
    then show ?thesis
      using assms(3) wf by (auto split: sum.splits dest: confirm_wf)
  next
    case (Cancel rowId env quote bookingId)
    then show ?thesis
      using assms(3) wf by (auto split: sum.splits prod.splits dest: cancel_wf)
  qed
  then show ?thesis by (simp add: inventory_inv_def)
qed

interpretation sqlite_machine: guarded_machine "inventory_step sqlite_engine" inventory_inv
  by unfold_locales (rule inventory_step_keeps [OF both_engines(1)], auto)

interpretation postgres_machine: guarded_machine "inventory_step postgres_engine" inventory_inv
  by unfold_locales (rule inventory_step_keeps [OF both_engines(2)], auto)

lemma reachable_inv:
  assumes "inventory_steps eng db db'" "scalar_max_or_none eng" "inventory_inv db"
  shows "inventory_inv db'"
  using assms by (induction rule: inventory_steps.induct) (blast intro: inventory_step_keeps)+

text \<open>
  C1. No overbooking. From a well-formed inventory, after any sequence of stock changes, hold requests,
  releases, expiry runs, recomputes, confirmations and cancellations, returning or throwing, with any
  clock readings, faults, prices and policies, on either engine: on every night the live holds and the
  bookings together never exceed the stock, and neither does the reserved count.
\<close>

theorem never_overbooked:
  assumes "inventory_steps eng db db'" "scalar_max_or_none eng" "wf_inventory (bk_inv db)"
  shows "heldUnits now v d (bk_inv db') + bookedUnits v d (bk_inv db') \<le> totalAt v d (bk_inv db') \<and>
    lockUnits v d (bk_inv db') \<le> reservedAt v d (bk_inv db') \<and>
    reservedAt v d (bk_inv db') \<le> totalAt v d (bk_inv db')"
proof -
  have wf: "wf_inventory (bk_inv db')"
    using reachable_inv [OF assms(1,2)] assms(3) by (simp add: inventory_inv_def)
  then show ?thesis
    using wf_live_le_total [OF wf] wf_reserved_le_total [OF wf] by (simp add: wf_inventory_def)
qed

theorem never_overbooked_witness:
  "\<exists>db'. inventory_steps postgres_engine (example_booking_db\<lparr>bk_inv := example_inv\<rparr>) db' \<and>
     bk_inv db' = example_created \<and>
     heldUnits 0 ''v'' 10 example_created + bookedUnits ''v'' 10 example_created
       \<le> totalAt ''v'' 10 example_created"
proof -
  let ?db = "example_booking_db\<lparr>bk_inv := example_inv\<rparr>"
  let ?op = "TakeHold example_codec (\<lambda>_. clock_env 0) example_deps example_create 0"
  have "inventory_step postgres_engine ?op ?db = Inr (?db\<lparr>bk_inv := example_created\<rparr>)"
    by (simp add: example_created_eq with_inv_def)
  then have steps: "inventory_steps postgres_engine ?db (?db\<lparr>bk_inv := example_created\<rparr>)"
    by (rule inventory_steps.returns [OF inventory_steps.start])
  have "wf_inventory (bk_inv ?db)" by (simp add: example_inv_wf)
  from never_overbooked [OF steps both_engines(2) this, of 0 "''v''" 10] steps show ?thesis
    by (intro exI [of _ "?db\<lparr>bk_inv := example_created\<rparr>"]) simp
qed

text \<open>The same for a list of operations run in order where a failed one is rolled back.\<close>

lemma run_never_overbooked:
  assumes "wf_inventory (bk_inv db)"
  shows "heldUnits now v d (bk_inv (run_ops (inventory_step postgres_engine) ops db)) +
    bookedUnits v d (bk_inv (run_ops (inventory_step postgres_engine) ops db))
    \<le> totalAt v d (bk_inv (run_ops (inventory_step postgres_engine) ops db))"
  using postgres_machine.run_keeps [of db ops] assms
  by (simp add: inventory_inv_def wf_live_le_total)

end
