(* ===== verification/Commands.thy ===== *)
theory Commands
  imports Prelude
begin

text \<open>
  Idempotent sensitive commands: the reservation table
  (\<open>lib/commands/command-idempotency.ts\<close>) and the boundary every sensitive mutation goes through
  (\<open>lib/commands/sensitive-command.ts\<close>). A statement is atomic; between the statements of one call
  other requests may run, and what they do to the table in between is a parameter of the call. The
  hash of the canonical payload is an argument where the code passes the payload.
\<close>

section \<open>The reservation table\<close>

datatype command_status = Started | Succeeded | Failed

record 'r command_row =
  cm_id :: string
  cm_scope :: string
  cm_key :: string
  cm_requestHash :: string
  cm_status :: command_status
  cm_response :: "'r option"
  cm_actor :: "string option"
  cm_requestId :: string
  cm_expiresAt :: ms

text \<open>A thrown error: its message and, where it has one, its HTTP status.\<close>

datatype command_error = CommandError string int

fun error_message :: "command_error \<Rightarrow> string" where
  "error_message (CommandError m s) = m"

fun error_status :: "command_error \<Rightarrow> int" where
  "error_status (CommandError m s) = s"

datatype 'r reservation = Execute string | Replay "'r option" | InProgress

record reserve_params =
  rp_scope :: string
  rp_key :: string
  rp_hash :: string
  rp_requestId :: string
  rp_actor :: "string option"
  rp_ttlMs :: "ms option"
  rp_now :: ms
  rp_clock :: ms
  rp_newId :: string

definition conflict_error :: command_error where
  "conflict_error =
     CommandError ''An idempotency key cannot be reused with a different command payload.'' 0"

definition normalizeCommandIdempotencyKey :: "string \<Rightarrow> command_error + string" where
  "normalizeCommandIdempotencyKey value =
     (let key = js_trim value
      in if key = [] \<or> 200 < length key then Inl (CommandError ''idempotency_key_invalid'' 400)
         else Inr key)"

definition lease_end :: "reserve_params \<Rightarrow> ms" where
  "lease_end p = rp_clock p + (case rp_ttlMs p of Some t \<Rightarrow> t | None \<Rightarrow> 86400000)"

definition command_at :: "string \<Rightarrow> string \<Rightarrow> 'r command_row list \<Rightarrow> 'r command_row option" where
  "command_at scope key t = List.find (\<lambda>r. cm_scope r = scope \<and> cm_key r = key) t"

definition reclaimable :: "string \<Rightarrow> ms \<Rightarrow> 'r command_row \<Rightarrow> bool" where
  "reclaimable i now r \<longleftrightarrow> cm_id r = i \<and> (cm_status r = Started \<or> cm_status r = Failed) \<and>
     (cm_status r = Failed \<or> cm_expiresAt r < now)"

definition retake :: "reserve_params \<Rightarrow> 'r command_row \<Rightarrow> 'r command_row" where
  "retake p r = r\<lparr>cm_status := Started, cm_response := None,
     cm_actor := (case rp_actor p of Some a \<Rightarrow> Some a | None \<Rightarrow> cm_actor r),
     cm_requestId := rp_requestId p, cm_expiresAt := lease_end p\<rparr>"

text \<open>The branch for a key that is already in the table; \<open>meanwhile\<close> runs before the update.\<close>

definition reserve_existing ::
  "('r command_row list \<Rightarrow> 'r command_row list) \<Rightarrow> reserve_params \<Rightarrow> 'r command_row \<Rightarrow> 'r command_row list
     \<Rightarrow> (command_error + 'r reservation) \<times> 'r command_row list" where
  "reserve_existing meanwhile p row t =
     (if cm_actor row \<noteq> None \<and> cm_actor row \<noteq> Some [] \<and> cm_actor row \<noteq> rp_actor p
      then (Inl conflict_error, t)
      else if cm_requestHash row \<noteq> rp_hash p then (Inl conflict_error, t)
      else if cm_status row = Succeeded then (Inr (Replay (cm_response row)), t)
      else if cm_status row = Started \<and> rp_now p < cm_expiresAt row then (Inr InProgress, t)
      else (let t1 = meanwhile t
        in if filter (reclaimable (cm_id row) (rp_now p)) t1 \<noteq> []
           then (Inr (Execute (cm_id row)), update_rows (reclaimable (cm_id row) (rp_now p)) (retake p) t1)
           else (Inr InProgress, t1)))"

definition new_command :: "reserve_params \<Rightarrow> string \<Rightarrow> string \<Rightarrow> 'r command_row" where
  "new_command p scope key = \<lparr>cm_id = rp_newId p, cm_scope = scope, cm_key = key,
     cm_requestHash = rp_hash p, cm_status = Started, cm_response = None, cm_actor = rp_actor p,
     cm_requestId = rp_requestId p, cm_expiresAt = lease_end p\<rparr>"

text \<open>
  The body, for the changes other requests make between its two statements, one per round: a lost
  insertion race restarts it.
\<close>

fun reserve_rounds ::
  "('r command_row list \<Rightarrow> 'r command_row list) list \<Rightarrow> reserve_params \<Rightarrow> string \<Rightarrow> string
     \<Rightarrow> 'r command_row list \<Rightarrow> (command_error + 'r reservation) \<times> 'r command_row list" where
  "reserve_rounds [] p scope key t =
     (case command_at scope key t of
        Some row \<Rightarrow> reserve_existing id p row t
      | None \<Rightarrow> (Inr (Execute (rp_newId p)), t @ [new_command p scope key]))"
| "reserve_rounds (meanwhile # later) p scope key t =
     (case command_at scope key t of
        Some row \<Rightarrow> reserve_existing meanwhile p row t
      | None \<Rightarrow>
          (let t1 = meanwhile t
           in if command_at scope key t1 \<noteq> None then reserve_rounds later p scope key t1
              else (Inr (Execute (rp_newId p)), t1 @ [new_command p scope key])))"

definition reserveCommandIdempotency ::
  "('r command_row list \<Rightarrow> 'r command_row list) list \<Rightarrow> reserve_params \<Rightarrow> 'r command_row list
     \<Rightarrow> (command_error + 'r reservation) \<times> 'r command_row list" where
  "reserveCommandIdempotency others p t =
     (let scope = js_trim (rp_scope p)
      in if scope = [] \<or> 160 < length scope then (Inl (CommandError ''idempotency_scope_invalid'' 0), t)
         else case normalizeCommandIdempotencyKey (rp_key p) of
             Inl e \<Rightarrow> (Inl e, t)
           | Inr key \<Rightarrow> reserve_rounds others p scope key t)"

definition lease_changed :: command_error where
  "lease_changed = CommandError ''idempotency_lease_changed'' 409"

definition lockCommandIdempotency :: "string \<Rightarrow> string \<Rightarrow> 'r command_row list \<Rightarrow> command_error option" where
  "lockCommandIdempotency i requestId t =
     (case List.find (\<lambda>r. cm_id r = i) t of
        None \<Rightarrow> Some lease_changed
      | Some r \<Rightarrow> if cm_status r \<noteq> Started \<or> cm_requestId r \<noteq> requestId then Some lease_changed else None)"

definition completeCommandIdempotency ::
  "string \<Rightarrow> 'r \<Rightarrow> ms \<Rightarrow> 'r command_row list \<Rightarrow> 'r command_row list" where
  "completeCommandIdempotency i response now t =
     update_rows (\<lambda>r. cm_id r = i)
       (\<lambda>r. r\<lparr>cm_status := Succeeded, cm_response := Some response, cm_expiresAt := now + 86400000\<rparr>) t"

definition failCommandIdempotency ::
  "string \<Rightarrow> string option \<Rightarrow> 'r command_row list \<Rightarrow> 'r command_row list" where
  "failCommandIdempotency i requestId t =
     update_rows (\<lambda>r. cm_id r = i \<and> cm_status r = Started \<and>
         (case requestId of None \<Rightarrow> True | Some q \<Rightarrow> q = [] \<or> cm_requestId r = q))
       (\<lambda>r. r\<lparr>cm_status := Failed\<rparr>) t"

text \<open>\<open>ORDER BY expiresAt LIMIT n\<close>, with the order of the table among equal expiries.\<close>

fun insert_by_expiry :: "'r command_row \<Rightarrow> 'r command_row list \<Rightarrow> 'r command_row list" where
  "insert_by_expiry r [] = [r]"
| "insert_by_expiry r (x # xs) =
     (if cm_expiresAt r \<le> cm_expiresAt x then r # x # xs else x # insert_by_expiry r xs)"

definition by_expiry :: "'r command_row list \<Rightarrow> 'r command_row list" where
  "by_expiry t = foldr insert_by_expiry t []"

definition cleanupExpiredCommandIdempotency ::
  "ms \<Rightarrow> int option \<Rightarrow> string option \<Rightarrow> 'r command_row list \<Rightarrow> nat \<times> 'r command_row list" where
  "cleanupExpiredCommandIdempotency now limit scope t =
     (let n = min (max (case limit of Some l \<Rightarrow> l | None \<Rightarrow> 250) 1) 1000;
          old = take (nat n) (by_expiry (filter (\<lambda>r. cm_expiresAt r < now \<and>
              (cm_status r = Succeeded \<or> cm_status r = Failed) \<and>
              (case scope of None \<Rightarrow> True | Some s \<Rightarrow> s = [] \<or> cm_scope r = s)) t))
      in if old = [] then (0, t)
         else (length old, delete_rows (\<lambda>r. cm_id r \<in> set (map cm_id old)) t))"

section \<open>The command boundary\<close>

datatype audit_outcome = Attempted | AuditSucceeded | Denied | AuditFailed

record ('r, 's) command_state =
  cs_commands :: "'r command_row list"
  cs_domain :: 's
  cs_audit :: "audit_outcome list"

record ('r, 's) command_params =
  cp_atomic :: bool
  cp_idempotency :: "(string \<times> string \<times> string \<times> ms option) option"
  cp_requestId :: string
  cp_actor :: "string option"
  cp_authorize :: "command_error option"
  cp_execute :: "'s \<Rightarrow> (command_error + 'r) \<times> 's"

text \<open>
  The environment: other requests during the reservation and between the reservation and the work,
  the audit sink's faults, the clock, the id of a new reservation.
\<close>

record 'r command_env =
  ce_race :: "('r command_row list \<Rightarrow> 'r command_row list) list"
  ce_between :: "'r command_row list \<Rightarrow> 'r command_row list"
  ce_audit :: "audit_outcome \<Rightarrow> command_error option"
  ce_now :: ms
  ce_newId :: string

definition outcomeForError :: "command_error \<Rightarrow> audit_outcome" where
  "outcomeForError e = (if error_status e = 401 \<or> error_status e = 403 then Denied else AuditFailed)"

definition recordOutcome ::
  "'r command_env \<Rightarrow> audit_outcome \<Rightarrow> ('r, 's) command_state \<Rightarrow> command_error option \<times> ('r, 's) command_state"
  where
  "recordOutcome env outcome st =
     (case ce_audit env outcome of
        Some e \<Rightarrow> (Some e, st)
      | None \<Rightarrow> (None, st\<lparr>cs_audit := cs_audit st @ [outcome]\<rparr>))"

text \<open>The work under a reservation: the error, whether it had completed, and the state.\<close>

definition run_reserved ::
  "('r, 's) command_params \<Rightarrow> 'r command_env \<Rightarrow> string option \<Rightarrow> ('r, 's) command_state
     \<Rightarrow> (command_error \<times> bool + 'r) \<times> ('r, 's) command_state" where
  "run_reserved p env lease st =
     (case (if cp_atomic p then (case lease of Some i \<Rightarrow>
            lockCommandIdempotency i (cp_requestId p) (cs_commands st) | None \<Rightarrow> None) else None) of
        Some e \<Rightarrow> (Inl (e, False), st)
      | None \<Rightarrow>
          (case cp_execute p (cs_domain st) of
             (Inl e, s') \<Rightarrow> (Inl (e, False), if cp_atomic p then st else st\<lparr>cs_domain := s'\<rparr>)
           | (Inr response, s') \<Rightarrow>
               (let st1 = st\<lparr>cs_domain := s', cs_commands := (case lease of
                        Some i \<Rightarrow> completeCommandIdempotency i response (ce_now env) (cs_commands st)
                      | None \<Rightarrow> cs_commands st)\<rparr>
                in case recordOutcome env AuditSucceeded st1 of
                     (Some e, st2) \<Rightarrow> (Inl (e, \<not> cp_atomic p), if cp_atomic p then st else st2)
                   | (None, st2) \<Rightarrow> (Inr response, st2))))"

definition catch_error ::
  "('r, 's) command_params \<Rightarrow> 'r command_env \<Rightarrow> string option \<Rightarrow> bool \<Rightarrow> command_error
     \<Rightarrow> ('r, 's) command_state \<Rightarrow> (command_error + 'r option \<times> bool) \<times> ('r, 's) command_state" where
  "catch_error p env lease completed e st =
     (let st1 = (case lease of
            Some i \<Rightarrow> if \<not> completed \<and> error_message e \<noteq> ''idempotency_lease_changed''
              then st\<lparr>cs_commands := failCommandIdempotency i
                (if cp_atomic p then Some (cp_requestId p) else None) (cs_commands st)\<rparr>
              else st
          | None \<Rightarrow> st)
      in (Inl e, snd (recordOutcome env (outcomeForError e) st1)))"

definition reserve_params_of ::
  "('r, 's) command_params \<Rightarrow> 'r command_env \<Rightarrow> string \<times> string \<times> string \<times> ms option \<Rightarrow> reserve_params" where
  "reserve_params_of p env idem = (case idem of (scope, key, hash, ttl) \<Rightarrow>
     \<lparr>rp_scope = scope, rp_key = key, rp_hash = hash, rp_requestId = cp_requestId p,
      rp_actor = cp_actor p,
      rp_ttlMs = (case ttl of Some t \<Rightarrow> Some t | None \<Rightarrow> if cp_atomic p then Some 60000 else None),
      rp_now = ce_now env, rp_clock = ce_now env, rp_newId = ce_newId env\<rparr>)"

definition finish_reserved ::
  "('r, 's) command_params \<Rightarrow> 'r command_env \<Rightarrow> string option \<Rightarrow> ('r, 's) command_state
     \<Rightarrow> (command_error + 'r option \<times> bool) \<times> ('r, 's) command_state" where
  "finish_reserved p env lease st =
     (case run_reserved p env lease (st\<lparr>cs_commands := ce_between env (cs_commands st)\<rparr>) of
        (Inl (e, completed), st') \<Rightarrow> catch_error p env lease completed e st'
      | (Inr response, st') \<Rightarrow> (Inr (Some response, False), st'))"

definition executeSensitiveCommand ::
  "('r, 's) command_params \<Rightarrow> 'r command_env \<Rightarrow> ('r, 's) command_state
     \<Rightarrow> (command_error + 'r option \<times> bool) \<times> ('r, 's) command_state" where
  "executeSensitiveCommand p env st =
     (case recordOutcome env Attempted st of
        (Some e, st0) \<Rightarrow> (Inl e, st0)
      | (None, st0) \<Rightarrow>
          (case cp_authorize p of
             Some e \<Rightarrow> catch_error p env None False e st0
           | None \<Rightarrow>
               (case cp_idempotency p of
                  None \<Rightarrow> finish_reserved p env None st0
                | Some idem \<Rightarrow>
                    (case reserveCommandIdempotency (ce_race env) (reserve_params_of p env idem)
                        (cs_commands st0) of
                       (Inl e, t) \<Rightarrow> catch_error p env None False e (st0\<lparr>cs_commands := t\<rparr>)
                     | (Inr (Replay response), t) \<Rightarrow>
                         (case recordOutcome env AuditSucceeded (st0\<lparr>cs_commands := t\<rparr>) of
                            (Some e, st1) \<Rightarrow> catch_error p env None False e st1
                          | (None, st1) \<Rightarrow> (Inr (response, True), st1))
                     | (Inr InProgress, t) \<Rightarrow>
                         catch_error p env None False
                           (CommandError ''idempotency_command_in_progress'' 409) (st0\<lparr>cs_commands := t\<rparr>)
                     | (Inr (Execute i), t) \<Rightarrow>
                         finish_reserved p env (Some i) (st0\<lparr>cs_commands := t\<rparr>)))))"

end
