(* ===== verification/Command_Correctness.thy ===== *)
theory Command_Correctness
  imports Commands
begin

text \<open>
  What the idempotency boundary guarantees: one request at a time holds the lease of a key, a command
  that succeeded is replayed and never run again, an atomic command is all or nothing; and what a
  command without the atomic flag does when it has lost its lease.
\<close>

definition wf_commands :: "'r command_row list \<Rightarrow> bool" where
  "wf_commands t \<longleftrightarrow> distinct (map (\<lambda>r. (cm_scope r, cm_key r)) t) \<and> distinct (map cm_id t)"

definition fresh_command :: "string \<Rightarrow> 'r command_row list \<Rightarrow> bool" where
  "fresh_command i t \<longleftrightarrow> i \<notin> set (map cm_id t)"

definition actor_admits :: "string option \<Rightarrow> 'r command_row \<Rightarrow> bool" where
  "actor_admits a r \<longleftrightarrow> cm_actor r = None \<or> cm_actor r = Some [] \<or> cm_actor r = a"

lemma command_at_mem: "command_at scope key t = Some r \<Longrightarrow> r \<in> set t \<and> cm_scope r = scope \<and> cm_key r = key"
  unfolding command_at_def by (drule find_Some_mem) simp

lemma command_at_update:
  "(\<And>r. cm_scope (f r) = cm_scope r \<and> cm_key (f r) = cm_key r) \<Longrightarrow>
    command_at scope key (update_rows P f t) = map_option (\<lambda>r. if P r then f r else r) (command_at scope key t)"
  unfolding command_at_def by (induction t) (auto simp: update_rows_def)

lemma command_at_append:
  "command_at scope key t = None \<Longrightarrow>
    command_at scope key (t @ [r]) = (if cm_scope r = scope \<and> cm_key r = key then Some r else None)"
  unfolding command_at_def by (induction t) (auto split: if_splits)

lemma same_id: "wf_commands t \<Longrightarrow> r \<in> set t \<Longrightarrow> s \<in> set t \<Longrightarrow> cm_id r = cm_id s \<Longrightarrow> r = s"
  by (auto simp: wf_commands_def distinct_map dest: inj_onD)

lemma find_by_id: "wf_commands t \<Longrightarrow> r \<in> set t \<Longrightarrow> List.find (\<lambda>x. cm_id x = cm_id r) t = Some r"
  unfolding wf_commands_def by (rule find_unique) auto

lemma update_wf:
  "wf_commands t \<Longrightarrow> (\<And>r. cm_scope (f r) = cm_scope r \<and> cm_key (f r) = cm_key r \<and> cm_id (f r) = cm_id r)
    \<Longrightarrow> wf_commands (update_rows P f t)"
  by (simp add: wf_commands_def)

lemma append_wf:
  "wf_commands t \<Longrightarrow> fresh_command (cm_id r) t \<Longrightarrow> command_at (cm_scope r) (cm_key r) t = None \<Longrightarrow>
    wf_commands (t @ [r])"
  by (auto simp: wf_commands_def fresh_command_def command_at_def find_None_all)

section \<open>Taking the lease\<close>

definition holds_lease :: "reserve_params \<Rightarrow> string \<Rightarrow> 'r command_row \<Rightarrow> bool" where
  "holds_lease p i r \<longleftrightarrow> cm_id r = i \<and> cm_status r = Started \<and> cm_requestId r = rp_requestId p \<and>
     cm_requestHash r = rp_hash p \<and> cm_expiresAt r = lease_end p \<and> actor_admits (rp_actor p) r"

lemma reserve_alone:
  assumes "wf_commands t" "fresh_command (rp_newId p) t"
    and "reserve_rounds [] p scope key t = (res, t')"
  shows "wf_commands t'"
    and "res = Inr (Execute i) \<Longrightarrow> \<exists>r. command_at scope key t' = Some r \<and> holds_lease p i r"
    and "(\<nexists>i. res = Inr (Execute i)) \<Longrightarrow> t' = t"
proof -
  have "wf_commands t' \<and>
      (\<forall>i. res = Inr (Execute i) \<longrightarrow> (\<exists>r. command_at scope key t' = Some r \<and> holds_lease p i r)) \<and>
      ((\<nexists>i. res = Inr (Execute i)) \<longrightarrow> t' = t)"
  proof (cases "command_at scope key t")
    case None
    then show ?thesis
      using assms
      by (auto simp: command_at_append new_command_def holds_lease_def actor_admits_def intro!: append_wf)
  next
    case (Some row)
    then have run: "reserve_existing id p row t = (res, t')" using assms(3) by simp
    have row: "row \<in> set t" "cm_scope row = scope" "cm_key row = key" using command_at_mem [OF Some] by auto
    show ?thesis
    proof (cases "\<exists>i. res = Inr (Execute i)")
      case False
      then have "t' = t" using run by (auto simp: reserve_existing_def Let_def split: if_splits)
      then show ?thesis using False assms(1) by auto
    next
      case True
      let ?P = "reclaimable (cm_id row) (rp_now p)"
      have act: "actor_admits (rp_actor p) row" "cm_requestHash row = rp_hash p"
        and ne: "filter ?P t \<noteq> []" and res: "res = Inr (Execute (cm_id row))"
        and t': "t' = update_rows ?P (retake p) t"
        using run True by (auto simp: reserve_existing_def actor_admits_def Let_def split: if_splits)
      obtain x where "x \<in> set t" "?P x" using ne by (auto simp: filter_empty_conv)
      moreover from this have "x = row" using same_id [OF assms(1) _ row(1)] by (simp add: reclaimable_def)
      ultimately have "?P row" by simp
      moreover have keep: "cm_scope (retake p r) = cm_scope r \<and> cm_key (retake p r) = cm_key r \<and>
          cm_id (retake p r) = cm_id r" for r :: "'a command_row"
        by (simp add: retake_def)
      ultimately have at: "command_at scope key t' = Some (retake p row)"
        unfolding t' by (subst command_at_update) (auto simp: Some)
      have "holds_lease p (cm_id row) (retake p row)"
        using act by (auto simp: holds_lease_def retake_def actor_admits_def split: option.split)
      then show ?thesis using at res update_wf [OF assms(1) keep] t' by auto
    qed
  qed
  then show "wf_commands t'"
    and "res = Inr (Execute i) \<Longrightarrow> \<exists>r. command_at scope key t' = Some r \<and> holds_lease p i r"
    and "(\<nexists>i. res = Inr (Execute i)) \<Longrightarrow> t' = t"
    by auto
qed

text \<open>While a lease is live, no request for the same key is told to execute, nor changes the table.\<close>

lemma live_lease_excludes:
  assumes "command_at scope key t = Some r" "cm_status r = Started" "rp_now q < cm_expiresAt r"
  shows "reserve_rounds others q scope key t =
    (if actor_admits (rp_actor q) r \<and> cm_requestHash r = rp_hash q then Inr InProgress
     else Inl conflict_error, t)"
  using assms by (cases others) (auto simp: reserve_existing_def actor_admits_def)

lemma reserve_execute_table:
  assumes "wf_commands t" "fresh_command (rp_newId q) t"
    and "reserve_rounds [] q scope key t = (Inr (Execute i), t1)"
  shows "\<exists>r. command_at scope key t1 = Some r \<and> holds_lease q i r"
  using reserve_alone(2) [OF assms refl] .


definition example_reserve :: "string \<Rightarrow> ms \<Rightarrow> reserve_params" where
  "example_reserve r now = \<lparr>rp_scope = ''booking'', rp_key = ''k1'', rp_hash = ''h'', rp_requestId = r,
     rp_actor = Some ''u1'', rp_ttlMs = Some 1000, rp_now = now, rp_clock = now, rp_newId = r\<rparr>"


section \<open>Replay\<close>

definition example_command :: "(nat, nat) command_params" where
  "example_command = \<lparr>cp_atomic = True, cp_idempotency = Some (''booking'', ''k1'', ''h'', None),
     cp_requestId = ''r1'', cp_actor = Some ''u1'', cp_authorize = None,
     cp_execute = \<lambda>n. (Inr (n + 10), n + 1)\<rparr>"

definition example_command_env :: "nat command_env" where
  "example_command_env = \<lparr>ce_race = [], ce_between = id, ce_audit = \<lambda>_. None, ce_now = 5,
     ce_newId = ''id1''\<rparr>"

definition example_command_state :: "(nat, nat) command_state" where
  "example_command_state = \<lparr>cs_commands = [], cs_domain = 7, cs_audit = []\<rparr>"

definition example_command_done :: "(nat, nat) command_state" where
  "example_command_done = \<lparr>cs_commands = [\<lparr>cm_id = ''id1'', cm_scope = ''booking'', cm_key = ''k1'',
       cm_requestHash = ''h'', cm_status = Succeeded, cm_response = Some 17, cm_actor = Some ''u1'',
       cm_requestId = ''r1'', cm_expiresAt = 86400005\<rparr>],
     cs_domain = 8, cs_audit = [Attempted, AuditSucceeded]\<rparr>"

lemma example_command_runs:
  "executeSensitiveCommand example_command example_command_env example_command_state =
     (Inr (Some 17, False), example_command_done)"
  by code_simp

definition undisturbed_command :: "'r command_env \<Rightarrow> bool" where
  "undisturbed_command env \<longleftrightarrow> ce_race env = [] \<and> ce_between env = id \<and> (\<forall>x. ce_audit env x = None)"

definition same_request :: "('r, 's) command_params \<Rightarrow> ('r, 's) command_params \<Rightarrow> bool" where
  "same_request p p' \<longleftrightarrow> (\<exists>scope key hash ttl ttl'. cp_idempotency p = Some (scope, key, hash, ttl) \<and>
     cp_idempotency p' = Some (scope, key, hash, ttl')) \<and> cp_actor p' = cp_actor p"

lemma complete_keys:
  "cm_scope (r\<lparr>cm_status := s, cm_response := x, cm_expiresAt := e\<rparr>) = cm_scope r \<and>
   cm_key (r\<lparr>cm_status := s, cm_response := x, cm_expiresAt := e\<rparr>) = cm_key r"
  by simp

lemma run_reserved_success:
  "run_reserved p env lease st = (Inr response, st') \<Longrightarrow>
    (\<exists>s'. cp_execute p (cs_domain st) = (Inr response, s') \<and> cs_domain st' = s') \<and>
    cs_commands st' = (case lease of
      Some i \<Rightarrow> completeCommandIdempotency i response (ce_now env) (cs_commands st)
    | None \<Rightarrow> cs_commands st) \<and>
    (cp_atomic p \<longrightarrow> (\<forall>i. lease = Some i \<longrightarrow>
      lockCommandIdempotency i (cp_requestId p) (cs_commands st) = None))"
  by (auto simp: run_reserved_def recordOutcome_def Let_def split: option.splits if_splits prod.splits sum.splits)

lemma catch_error_fails: "fst (catch_error p env lease c e st) = Inl e"
  by (simp add: catch_error_def Let_def)

text \<open>How a call that executes and returns gets there.\<close>

lemma execute_success_path:
  assumes "executeSensitiveCommand p env st = (Inr (resp, False), st1)"
    and "cp_idempotency p = Some idem"
  obtains i t response where "cp_authorize p = None"
    "reserveCommandIdempotency (ce_race env) (reserve_params_of p env idem) (cs_commands st) = (Inr (Execute i), t)"
    "run_reserved p env (Some i) (st\<lparr>cs_audit := cs_audit st @ [Attempted], cs_commands := ce_between env t\<rparr>)
       = (Inr response, st1)"
    "resp = Some response"
proof -
  have catch: "catch_error p env l c e s \<noteq> (Inr x, y)" for l c e s x y
    using catch_error_fails [of p env l c e s] by (cases "catch_error p env l c e s") auto
  show ?thesis
    using assms that catch
    by (auto simp: executeSensitiveCommand_def recordOutcome_def finish_reserved_def
        split: option.splits sum.splits prod.splits reservation.splits)
qed

text \<open>
  A command runs once. After a call with an idempotency key has executed and returned, every later
  call by the same actor with the same key and payload, in any state that still has the reservation
  row, returns the stored response as a replay: neither the domain nor the reservations change and the
  work is not run.
\<close>

theorem command_replayed:
  assumes "wf_commands (cs_commands st)" "fresh_command (ce_newId env) (cs_commands st)"
    and "undisturbed_command env" "executeSensitiveCommand p env st = (Inr (resp, False), st1)"
    and "same_request p p'" "cp_authorize p' = None" "\<forall>x. ce_audit env' x = None"
    and "\<forall>scope key. command_at scope key (cs_commands st2) = command_at scope key (cs_commands st1)"
  shows "executeSensitiveCommand p' env' st2 =
    (Inr (resp, True), st2\<lparr>cs_audit := cs_audit st2 @ [Attempted, AuditSucceeded]\<rparr>)"
proof -
  obtain scope key hash ttl ttl' where idem: "cp_idempotency p = Some (scope, key, hash, ttl)"
    "cp_idempotency p' = Some (scope, key, hash, ttl')" and actor: "cp_actor p' = cp_actor p"
    using assms(5) by (auto simp: same_request_def)
  let ?q = "reserve_params_of p env (scope, key, hash, ttl)"
  let ?q' = "reserve_params_of p' env' (scope, key, hash, ttl')"
  obtain i t response where
    res: "reserveCommandIdempotency (ce_race env) ?q (cs_commands st) = (Inr (Execute i), t)"
    and run: "run_reserved p env (Some i) (st\<lparr>cs_audit := cs_audit st @ [Attempted],
       cs_commands := ce_between env t\<rparr>) = (Inr response, st1)"
    and resp: "resp = Some response"
    by (rule execute_success_path [OF assms(4) idem(1)], rule that)
  let ?k = "js_trim key" and ?s = "js_trim scope"
  have names: "rp_scope ?q = scope" "rp_key ?q = key" "rp_hash ?q = hash" "rp_newId ?q = ce_newId env"
    "rp_actor ?q = cp_actor p" "rp_scope ?q' = scope" "rp_key ?q' = key" "rp_hash ?q' = hash"
    "rp_actor ?q' = cp_actor p"
    by (simp_all add: reserve_params_of_def actor)
  have valid: "?s \<noteq> [] \<and> length ?s \<le> 160 \<and> normalizeCommandIdempotencyKey key = Inr ?k"
    and rounds: "reserve_rounds [] ?q ?s ?k (cs_commands st) = (Inr (Execute i), t)"
    using res assms(3)
    by (auto simp: reserveCommandIdempotency_def normalizeCommandIdempotencyKey_def names Let_def
        undisturbed_command_def split: if_splits)
  obtain r where r: "command_at ?s ?k t = Some r" "holds_lease ?q i r"
    using reserve_execute_table [OF assms(1) _ rounds] assms(2) by (auto simp: names)
  have "cs_commands st1 = completeCommandIdempotency i response (ce_now env) t"
    using run_reserved_success [OF run] assms(3) by (simp add: undisturbed_command_def)
  then have "command_at ?s ?k (cs_commands st1) = Some (r\<lparr>cm_status := Succeeded,
      cm_response := Some response, cm_expiresAt := ce_now env + 86400000\<rparr>)"
    using r unfolding completeCommandIdempotency_def
    by (simp add: command_at_update holds_lease_def)
  then have row: "command_at ?s ?k (cs_commands st2) = Some (r\<lparr>cm_status := Succeeded,
      cm_response := Some response, cm_expiresAt := ce_now env + 86400000\<rparr>)"
    using assms(8) by simp
  have "reserve_rounds others ?q' ?s ?k (cs_commands st2) = (Inr (Replay (Some response)), cs_commands st2)"
    for others
    using row r(2)
    by (cases others) (auto simp: reserve_existing_def holds_lease_def actor_admits_def names)
  then have "reserveCommandIdempotency (ce_race env') ?q' (cs_commands st2) =
      (Inr (Replay (Some response)), cs_commands st2)"
    using valid by (simp add: reserveCommandIdempotency_def names)
  then show ?thesis
    using assms(6,7) idem(2) resp
    by (simp add: executeSensitiveCommand_def recordOutcome_def)
qed

theorem command_replayed_witness:
  "executeSensitiveCommand example_command example_command_env (example_command_done\<lparr>cs_domain := 99\<rparr>) =
     (Inr (Some 17, True), example_command_done\<lparr>cs_domain := 99,
       cs_audit := [Attempted, AuditSucceeded, Attempted, AuditSucceeded]\<rparr>)"
proof -
  have "undisturbed_command example_command_env"
    by (simp add: undisturbed_command_def example_command_env_def)
  moreover have "same_request example_command example_command"
    by (simp add: same_request_def example_command_def)
  ultimately have "executeSensitiveCommand example_command example_command_env
      (example_command_done\<lparr>cs_domain := 99\<rparr>) =
    (Inr (Some 17, True), (example_command_done\<lparr>cs_domain := 99\<rparr>)\<lparr>cs_audit :=
      cs_audit (example_command_done\<lparr>cs_domain := 99\<rparr>) @ [Attempted, AuditSucceeded]\<rparr>)"
    by (intro command_replayed [OF _ _ _ example_command_runs])
      (simp_all add: wf_commands_def fresh_command_def example_command_state_def example_command_env_def
        example_command_def)
  then show ?thesis by (simp add: example_command_done_def)
qed

section \<open>All or nothing\<close>

text \<open>
  C30. An atomic command is all or nothing, whatever other requests do to the reservations meanwhile and
  whichever audit writes fail. If it returns a fresh response, the domain is what its work made of it,
  the lease was still its own when the work began, and the response is stored as the row's replay. In
  every other case, an error or a replay, the domain is untouched.
\<close>

theorem atomic_command_all_or_nothing:
  assumes "cp_atomic p" "cp_idempotency p = Some idem"
    and "executeSensitiveCommand p env st = (res, st1)"
  shows "case res of
      Inr (resp, False) \<Rightarrow> (\<exists>response i t r.
        cp_execute p (cs_domain st) = (Inr response, cs_domain st1) \<and> resp = Some response \<and>
        List.find (\<lambda>r. cm_id r = i) t = Some r \<and> cm_status r = Started \<and>
        cm_requestId r = cp_requestId p \<and>
        cs_commands st1 = completeCommandIdempotency i response (ce_now env) t)
    | _ \<Rightarrow> cs_domain st1 = cs_domain st"
proof -
  have rec: "cs_domain (snd (recordOutcome env x s)) = cs_domain s" for x s
    by (simp add: recordOutcome_def split: option.split)
  have catch: "cs_domain (snd (catch_error p env l c e s)) = cs_domain s" for l c e s
    by (simp add: catch_error_def rec Let_def split: option.split)
  have run: "cs_domain (snd (run_reserved p env l s)) = cs_domain s"
    if "\<nexists>x. fst (run_reserved p env l s) = Inr x" for l s
    using that assms(1)
    by (auto simp: run_reserved_def recordOutcome_def Let_def
        split: option.splits if_splits prod.splits sum.splits)
  have finish: "cs_domain (snd (finish_reserved p env l s)) = cs_domain s"
    if fin: "\<nexists>x. fst (finish_reserved p env l s) = Inr x" for l s
  proof -
    let ?s = "s\<lparr>cs_commands := ce_between env (cs_commands s)\<rparr>"
    obtain e s' where r: "run_reserved p env l ?s = (Inl e, s')"
      using fin by (cases "run_reserved p env l ?s") (auto simp: finish_reserved_def split: sum.splits prod.splits)
    then have "cs_domain s' = cs_domain s" using run [of l ?s] by simp
    moreover obtain x c where "e = (x, c)" by (cases e)
    ultimately show ?thesis
      using r catch [of l c x s'] by (simp add: finish_reserved_def)
  qed
  show ?thesis
  proof (cases "\<exists>resp. res = Inr (resp, False)")
    case True
    then obtain resp where res: "res = Inr (resp, False)" by blast
    obtain i t response where
      run: "run_reserved p env (Some i) (st\<lparr>cs_audit := cs_audit st @ [Attempted],
         cs_commands := ce_between env t\<rparr>) = (Inr response, st1)" and resp: "resp = Some response"
      by (rule execute_success_path [OF assms(3) [unfolded res] assms(2)], rule that)
    note ok = run_reserved_success [OF run]
    then have "lockCommandIdempotency i (cp_requestId p) (ce_between env t) = None"
      using assms(1) by simp
    then obtain r where "List.find (\<lambda>r. cm_id r = i) (ce_between env t) = Some r" "cm_status r = Started"
      "cm_requestId r = cp_requestId p"
      by (auto simp: lockCommandIdempotency_def split: option.splits if_splits)
    then show ?thesis using ok resp res by auto
  next
    case False
    then have no: "\<nexists>x. res = Inr (x, False)" by blast
    have "cs_domain st1 = cs_domain st"
    proof -
      have f: "finish_reserved p env l s = (res, st1) \<Longrightarrow> cs_domain s = cs_domain st \<Longrightarrow> ?thesis" for l s
      proof -
        assume a: "finish_reserved p env l s = (res, st1)" "cs_domain s = cs_domain st"
        have "\<nexists>x. fst (finish_reserved p env l s) = Inr x"
          using a(1) no by (auto simp: finish_reserved_def catch_error_def Let_def
              split: prod.splits sum.splits)
        then show ?thesis using finish [of l s] a by simp
      qed
      have c: "catch_error p env l cc e s = (res, st1) \<Longrightarrow> cs_domain s = cs_domain st \<Longrightarrow> ?thesis"
        for l cc e s
        using catch [of l cc e s] by simp
      show ?thesis
        using assms(2,3) f c
        by (auto simp: executeSensitiveCommand_def recordOutcome_def
            split: option.splits sum.splits prod.splits reservation.splits)
    qed
    then show ?thesis using False by (auto split: sum.split prod.split bool.split)
  qed
qed

theorem atomic_command_all_or_nothing_witness:
  "cs_domain example_command_done = 8 \<and>
   (\<exists>response i t r. cp_execute example_command (cs_domain example_command_state) =
       (Inr response, cs_domain example_command_done) \<and>
     List.find (\<lambda>r. cm_id r = i) t = Some r \<and> cm_status r = Started \<and>
     cs_commands example_command_done = completeCommandIdempotency i response 5 t)"
  using atomic_command_all_or_nothing [OF _ _ example_command_runs]
  by (fastforce simp: example_command_def example_command_env_def example_command_done_def)

section \<open>A lease that was lost\<close>

text \<open>
  What guards a lost lease is the atomic flag alone. If another request has reclaimed the lease in
  the meantime, an atomic command stops before its work with \<open>idempotency_lease_changed\<close> and changes
  nothing; the same command without the flag runs its work a second time and marks the other request's
  reservation succeeded with its own response.
\<close>

theorem lost_lease_stops_atomic_only:
  assumes "wf_commands (cs_commands st)" "r \<in> set (cs_commands st)" "cm_id r = i"
    and "cm_requestId r \<noteq> cp_requestId p" "\<forall>x. ce_audit env x = None"
    and "cp_execute p (cs_domain st) = (Inr response, s')"
  shows "run_reserved (p\<lparr>cp_atomic := True\<rparr>) env (Some i) st = (Inl (lease_changed, False), st) \<and>
    (\<exists>st'. run_reserved (p\<lparr>cp_atomic := False\<rparr>) env (Some i) st = (Inr response, st') \<and>
      cs_domain st' = s' \<and>
      List.find (\<lambda>x. cm_id x = i) (cs_commands st') =
        Some (r\<lparr>cm_status := Succeeded, cm_response := Some response,
          cm_expiresAt := ce_now env + 86400000\<rparr>))"
proof -
  have found: "List.find (\<lambda>x. cm_id x = i) (cs_commands st) = Some r"
    using find_by_id [OF assms(1,2)] assms(3) by simp
  have "List.find (\<lambda>x. cm_id x = i) (completeCommandIdempotency i response (ce_now env) (cs_commands st)) =
      Some (r\<lparr>cm_status := Succeeded, cm_response := Some response,
        cm_expiresAt := ce_now env + 86400000\<rparr>)"
    unfolding completeCommandIdempotency_def
    by (subst find_update_key) (simp_all add: found assms(3))
  then show ?thesis
    using assms found
    by (simp add: run_reserved_def lockCommandIdempotency_def recordOutcome_def Let_def)
qed

theorem lost_lease_stops_atomic_only_witness:
  "run_reserved example_command example_command_env (Some ''id1'')
     (example_command_state\<lparr>cs_commands := [(hd (cs_commands example_command_done))
        \<lparr>cm_status := Started, cm_requestId := ''r2''\<rparr>]\<rparr>) =
   (Inl (lease_changed, False), example_command_state\<lparr>cs_commands := [(hd (cs_commands example_command_done))
        \<lparr>cm_status := Started, cm_requestId := ''r2''\<rparr>]\<rparr>)"
proof -
  let ?r = "(hd (cs_commands example_command_done))\<lparr>cm_status := Started, cm_requestId := ''r2''\<rparr>"
  let ?st = "example_command_state\<lparr>cs_commands := [?r]\<rparr>"
  have "run_reserved (example_command\<lparr>cp_atomic := True\<rparr>) example_command_env (Some ''id1'') ?st =
      (Inl (lease_changed, False), ?st)"
    by (rule conjunct1 [OF lost_lease_stops_atomic_only [of ?st ?r "''id1''" example_command
            example_command_env 17 8]])
      (simp_all add: wf_commands_def example_command_done_def example_command_def
        example_command_env_def example_command_state_def)
  moreover have "example_command\<lparr>cp_atomic := True\<rparr> = example_command" by (simp add: example_command_def)
  ultimately show ?thesis by simp
qed

end
