(* ===== verification/Bulk_Jobs.thy ===== *)
theory Bulk_Jobs
  imports Prelude
begin

text \<open>
  Bulk pricing jobs: the two tables with their CHECK constraints
  (\<open>shared/infrastructure/db/schema/tables.ts\<close>), and the operations of the provider on them
  (\<open>modules/pricing/infrastructure/repositories/PricingBulkJobRepository.ts\<close>): enqueue, retry of
  the failed items, cancellation. The columns \<open>updatedAt\<close> and the texts that only explain an error
  code are left out: nothing reads them back. The stored commands, previews and results are values of
  the type parameters. A random id is an argument of the operation that draws it.
\<close>

section \<open>The tables\<close>

datatype item_status =
  ItemQueued | ItemRunning | ItemSucceeded | ItemFailed | ItemSkipped | ItemCancelled

datatype job_status = JobQueued | JobRunning | JobFinalizing | JobSucceeded | JobPartial | JobFailed
  | JobRequiresAttention | JobCancelled

datatype operation_type = CreatePricingRule | PreviewPricingRule

record job_counts =
  jc_pending :: int
  jc_running :: int
  jc_succeeded :: int
  jc_failed :: int
  jc_skipped :: int
  jc_cancelled :: int

record impact =
  im_ratePlanId :: string
  im_variantId :: string
  im_from :: day
  im_toExclusive :: day
  im_occupancyKey :: "string option"

text \<open>What \<open>processItem\<close> stores as the commercial impact of an item.\<close>

record stored_impact =
  si_impact :: impact
  si_replayed :: bool
  si_ruleCount :: nat

record materialization =
  mt_impact :: impact
  mt_missing :: int
  mt_generated :: int

record 'p bulk_item =
  bi_id :: string
  bi_jobId :: string
  bi_ratePlanId :: string
  bi_productId :: string
  bi_variantId :: string
  bi_status :: item_status
  bi_attempts :: nat
  bi_ruleId :: "string option"
  bi_preview :: "'p option"
  bi_materialization :: "materialization option"
  bi_impact :: "stored_impact option"
  bi_error :: "string option"
  bi_createdAt :: ms
  bi_startedAt :: "ms option"
  bi_finishedAt :: "ms option"

record finalization_result =
  fr_status :: job_status
  fr_counts :: job_counts
  fr_completed :: int
  fr_materialized :: bool
  fr_cacheInvalidated :: bool
  fr_ariEnqueued :: bool

record 'c bulk_job =
  bj_id :: string
  bj_providerId :: string
  bj_requestedBy :: string
  bj_idempotencyKey :: string
  bj_payloadHash :: string
  bj_operationType :: operation_type
  bj_command :: 'c
  bj_status :: job_status
  bj_total :: int
  bj_counts :: job_counts
  bj_completed :: int
  bj_attempts :: int
  bj_maxAttempts :: int
  bj_runAfter :: ms
  bj_lockedAt :: "ms option"
  bj_lockedBy :: "string option"
  bj_finalAttempts :: int
  bj_finalMax :: int
  bj_finalizationError :: "string option"
  bj_finalError :: "string option"
  bj_finalizationStartedAt :: "ms option"
  bj_finalizationFinishedAt :: "ms option"
  bj_materializedAt :: "ms option"
  bj_cacheAt :: "ms option"
  bj_ariAt :: "ms option"
  bj_result :: "finalization_result option"
  bj_attentionAt :: "ms option"
  bj_createdAt :: ms
  bj_startedAt :: "ms option"
  bj_finishedAt :: "ms option"

record plan_row =
  pl_ratePlanId :: string
  pl_productId :: string
  pl_variantId :: string
  pl_providerId :: string

datatype risk = LowRisk | MediumRisk | HighRisk

record audit_row =
  au_providerId :: string
  au_actor :: string
  au_action :: string
  au_entityId :: string
  au_risk :: risk

record ('c, 'p) bulk_db =
  bd_jobs :: "'c bulk_job list"
  bd_items :: "'p bulk_item list"
  bd_plans :: "plan_row list"
  bd_audit :: "audit_row list"

datatype bulk_error = BulkError string int | CheckViolation

section \<open>The CHECK constraints\<close>

definition settled_count :: "job_counts \<Rightarrow> int" where
  "settled_count c = jc_succeeded c + jc_failed c + jc_skipped c + jc_cancelled c"

definition counts_nonneg :: "job_counts \<Rightarrow> bool" where
  "counts_nonneg c \<longleftrightarrow> 0 \<le> jc_pending c \<and> 0 \<le> jc_running c \<and> 0 \<le> jc_succeeded c \<and>
     0 \<le> jc_failed c \<and> 0 \<le> jc_skipped c \<and> 0 \<le> jc_cancelled c"

definition job_checks :: "'c bulk_job \<Rightarrow> bool" where
  "job_checks j \<longleftrightarrow>
     0 \<le> bj_attempts j \<and> 0 < bj_maxAttempts j \<and> bj_attempts j \<le> bj_maxAttempts j \<and>
     0 \<le> bj_finalAttempts j \<and> 0 < bj_finalMax j \<and> bj_finalAttempts j \<le> bj_finalMax j \<and>
     0 \<le> bj_total j \<and> counts_nonneg (bj_counts j) \<and> 0 \<le> bj_completed j \<and>
     bj_completed j = settled_count (bj_counts j) \<and>
     bj_total j = jc_pending (bj_counts j) + jc_running (bj_counts j) + bj_completed j"

definition job_by_id :: "string \<Rightarrow> ('c, 'p) bulk_db \<Rightarrow> 'c bulk_job option" where
  "job_by_id i db = List.find (\<lambda>j. bj_id j = i) (bd_jobs db)"

text \<open>\<open>UPDATE job SET ... WHERE P\<close>: the statement throws when a row it writes breaks a CHECK.\<close>

definition update_jobs ::
  "('c bulk_job \<Rightarrow> bool) \<Rightarrow> ('c bulk_job \<Rightarrow> 'c bulk_job) \<Rightarrow> ('c, 'p) bulk_db
     \<Rightarrow> bulk_error + nat \<times> ('c, 'p) bulk_db" where
  "update_jobs P f db =
     (if list_all (\<lambda>j. P j \<longrightarrow> job_checks (f j)) (bd_jobs db)
      then Inr (length (filter P (bd_jobs db)), db\<lparr>bd_jobs := update_rows P f (bd_jobs db)\<rparr>)
      else Inl CheckViolation)"

definition update_items ::
  "('p bulk_item \<Rightarrow> bool) \<Rightarrow> ('p bulk_item \<Rightarrow> 'p bulk_item) \<Rightarrow> ('c, 'p) bulk_db \<Rightarrow> ('c, 'p) bulk_db" where
  "update_items P f db = db\<lparr>bd_items := update_rows P f (bd_items db)\<rparr>"

definition write_audit ::
  "string \<Rightarrow> string \<Rightarrow> string \<Rightarrow> string \<Rightarrow> risk \<Rightarrow> ('c, 'p) bulk_db \<Rightarrow> ('c, 'p) bulk_db" where
  "write_audit provider actor action entity risk db = db\<lparr>bd_audit := bd_audit db @
     [\<lparr>au_providerId = provider, au_actor = actor, au_action = action, au_entityId = entity,
       au_risk = risk\<rparr>]\<rparr>"

definition items_with :: "string \<Rightarrow> item_status \<Rightarrow> ('c, 'p) bulk_db \<Rightarrow> 'p bulk_item list" where
  "items_with i st db = filter (\<lambda>x. bi_jobId x = i \<and> bi_status x = st) (bd_items db)"

definition count_status :: "string \<Rightarrow> item_status \<Rightarrow> ('c, 'p) bulk_db \<Rightarrow> int" where
  "count_status i st db = int (length (items_with i st db))"

definition countsForJob :: "string \<Rightarrow> ('c, 'p) bulk_db \<Rightarrow> job_counts" where
  "countsForJob i db = \<lparr>jc_pending = count_status i ItemQueued db,
     jc_running = count_status i ItemRunning db, jc_succeeded = count_status i ItemSucceeded db,
     jc_failed = count_status i ItemFailed db, jc_skipped = count_status i ItemSkipped db,
     jc_cancelled = count_status i ItemCancelled db\<rparr>"

section \<open>Enqueue\<close>

record 'c enqueue_input =
  ei_providerId :: string
  ei_requestedBy :: string
  ei_idempotencyKey :: string
  ei_payloadHash :: string
  ei_operationType :: operation_type
  ei_command :: 'c
  ei_ratePlanIds :: "string list"
  ei_maxAttempts :: int

definition resolveOwnedTargets ::
  "string \<Rightarrow> string list \<Rightarrow> ('c, 'p) bulk_db \<Rightarrow> bulk_error + plan_row list" where
  "resolveOwnedTargets provider ids db =
     (let rows = filter (\<lambda>r. pl_ratePlanId r \<in> set ids) (bd_plans db)
      in if length rows \<noteq> length ids \<or> list_ex (\<lambda>r. pl_providerId r \<noteq> provider) rows
         then Inl (BulkError ''bulk_rate_plan_ownership_invalid'' 400) else Inr rows)"

definition job_by_key :: "string \<Rightarrow> string \<Rightarrow> ('c, 'p) bulk_db \<Rightarrow> 'c bulk_job option" where
  "job_by_key provider key db =
     List.find (\<lambda>j. bj_providerId j = provider \<and> bj_idempotencyKey j = key) (bd_jobs db)"

definition no_counts :: job_counts where
  "no_counts = \<lparr>jc_pending = 0, jc_running = 0, jc_succeeded = 0, jc_failed = 0, jc_skipped = 0,
     jc_cancelled = 0\<rparr>"

definition new_job :: "'c enqueue_input \<Rightarrow> string \<Rightarrow> nat \<Rightarrow> ms \<Rightarrow> 'c bulk_job" where
  "new_job input i n now = \<lparr>bj_id = i, bj_providerId = ei_providerId input,
     bj_requestedBy = ei_requestedBy input, bj_idempotencyKey = ei_idempotencyKey input,
     bj_payloadHash = ei_payloadHash input, bj_operationType = ei_operationType input,
     bj_command = ei_command input, bj_status = JobQueued, bj_total = int n,
     bj_counts = no_counts\<lparr>jc_pending := int n\<rparr>, bj_completed = 0, bj_attempts = 0,
     bj_maxAttempts = ei_maxAttempts input, bj_runAfter = now, bj_lockedAt = None, bj_lockedBy = None,
     bj_finalAttempts = 0, bj_finalMax = 5, bj_finalizationError = None, bj_finalError = None,
     bj_finalizationStartedAt = None, bj_finalizationFinishedAt = None, bj_materializedAt = None,
     bj_cacheAt = None, bj_ariAt = None, bj_result = None, bj_attentionAt = None,
     bj_createdAt = now, bj_startedAt = None, bj_finishedAt = None\<rparr>"

definition new_item :: "string \<Rightarrow> ms \<Rightarrow> string \<times> plan_row \<Rightarrow> 'p bulk_item" where
  "new_item job now = (\<lambda>(i, target). \<lparr>bi_id = i, bi_jobId = job, bi_ratePlanId = pl_ratePlanId target,
     bi_productId = pl_productId target, bi_variantId = pl_variantId target, bi_status = ItemQueued,
     bi_attempts = 0, bi_ruleId = None, bi_preview = None, bi_materialization = None,
     bi_impact = None, bi_error = None, bi_createdAt = now, bi_startedAt = None,
     bi_finishedAt = None\<rparr>)"

definition replay_job ::
  "'c enqueue_input \<Rightarrow> 'c bulk_job \<Rightarrow> bulk_error + 'c bulk_job \<times> bool" where
  "replay_job input j =
     (if bj_payloadHash j \<noteq> ei_payloadHash input
      then Inl (BulkError ''bulk_job_idempotency_conflict'' 409) else Inr (j, True))"

text \<open>
  The insertion finds the key taken when another request committed it after this one looked: the
  argument \<open>meanwhile\<close> is what other requests commit in between. The ids are drawn by the call.
\<close>

definition enqueue ::
  "(('c, 'p) bulk_db \<Rightarrow> ('c, 'p) bulk_db) \<Rightarrow> 'c enqueue_input \<Rightarrow> string \<Rightarrow> string list \<Rightarrow> ms
     \<Rightarrow> ('c, 'p) bulk_db \<Rightarrow> (bulk_error + 'c bulk_job \<times> bool) \<times> ('c, 'p) bulk_db" where
  "enqueue meanwhile input i itemIds now db =
     (case job_by_key (ei_providerId input) (ei_idempotencyKey input) db of
        Some j \<Rightarrow> (replay_job input j, db)
      | None \<Rightarrow>
          (case resolveOwnedTargets (ei_providerId input) (ei_ratePlanIds input) db of
             Inl e \<Rightarrow> (Inl e, db)
           | Inr targets \<Rightarrow>
               (let db1 = meanwhile db;
                    j = new_job input i (length targets) now
                in if \<not> job_checks j then (Inl CheckViolation, db1)
                   else case job_by_key (ei_providerId input) (ei_idempotencyKey input) db1 of
                       Some c \<Rightarrow> (replay_job input c, db1)
                     | None \<Rightarrow>
                         if job_by_id i db1 \<noteq> None then (Inl (BulkError ''bulk_job_enqueue_race'' 409), db1)
                         else (Inr (j, False),
                           write_audit (ei_providerId input) (ei_requestedBy input)
                             (case ei_operationType input of
                                PreviewPricingRule \<Rightarrow> ''pricing.bulk_preview.enqueued''
                              | CreatePricingRule \<Rightarrow> ''pricing.bulk_job.enqueued'') i
                             (case ei_operationType input of
                                PreviewPricingRule \<Rightarrow> LowRisk | CreatePricingRule \<Rightarrow> MediumRisk)
                             (db1\<lparr>bd_jobs := bd_jobs db1 @ [j],
                                bd_items := bd_items db1 @
                                  map (new_item i now) (zip itemIds targets)\<rparr>)))))"

section \<open>Retry of the failed items\<close>

definition owned_job :: "string \<Rightarrow> string \<Rightarrow> ('c, 'p) bulk_db \<Rightarrow> 'c bulk_job option" where
  "owned_job provider i db =
     List.find (\<lambda>j. bj_id j = i \<and> bj_providerId j = provider) (bd_jobs db)"

definition reopen_finalization :: "ms \<Rightarrow> 'c bulk_job \<Rightarrow> 'c bulk_job" where
  "reopen_finalization now j = j\<lparr>bj_status := JobFinalizing, bj_finalAttempts := 0,
     bj_runAfter := now, bj_lockedAt := None, bj_lockedBy := None, bj_attentionAt := None,
     bj_finalError := None, bj_finalizationError := None, bj_finishedAt := None\<rparr>"

definition requeue_job :: "nat \<Rightarrow> ms \<Rightarrow> 'c bulk_job \<Rightarrow> 'c bulk_job \<Rightarrow> 'c bulk_job" where
  "requeue_job n now row j = j\<lparr>bj_status := JobQueued, bj_attempts := 0,
     bj_counts := (bj_counts j)\<lparr>jc_pending := int n, jc_running := 0, jc_failed := 0\<rparr>,
     bj_completed := jc_succeeded (bj_counts row) + jc_skipped (bj_counts row)
       + jc_cancelled (bj_counts row),
     bj_runAfter := now, bj_lockedAt := None, bj_lockedBy := None, bj_finalError := None,
     bj_finishedAt := None\<rparr>"

definition requeue_item :: "'p bulk_item \<Rightarrow> 'p bulk_item" where
  "requeue_item x = x\<lparr>bi_status := ItemQueued, bi_startedAt := None, bi_finishedAt := None\<rparr>"

definition retryFailed ::
  "string \<Rightarrow> string \<Rightarrow> string \<Rightarrow> ms \<Rightarrow> ('c, 'p) bulk_db
     \<Rightarrow> (bulk_error + 'c bulk_job option) \<times> ('c, 'p) bulk_db" where
  "retryFailed provider actor i now db =
     (case owned_job provider i db of
        None \<Rightarrow> (Inl (BulkError ''bulk_job_not_found'' 404), db)
      | Some row \<Rightarrow>
          if bj_status row = JobRequiresAttention
          then (case update_jobs (\<lambda>j. bj_id j = i) (reopen_finalization now) db of
              Inl e \<Rightarrow> (Inl e, db)
            | Inr (n, db1) \<Rightarrow> (Inr (job_by_id i db1),
                write_audit provider actor ''pricing.bulk_job.finalization_retry_requested'' i
                  MediumRisk db1))
          else if bj_status row \<noteq> JobFailed \<and> bj_status row \<noteq> JobPartial
          then (Inl (BulkError ''bulk_job_not_retryable'' 409), db)
          else (let failed = items_with i ItemFailed db
            in if failed = [] then (Inl (BulkError ''bulk_job_no_failed_items'' 409), db)
               else case update_jobs (\<lambda>j. bj_id j = i) (requeue_job (length failed) now row)
                       (update_items (\<lambda>x. bi_id x \<in> set (map bi_id failed)) requeue_item db) of
                   Inl e \<Rightarrow> (Inl e, db)
                 | Inr (n, db1) \<Rightarrow> (Inr (job_by_id i db1),
                     write_audit provider actor ''pricing.bulk_job.retry_requested'' i MediumRisk db1)))"

section \<open>Cancellation\<close>

definition cancel_job :: "ms \<Rightarrow> 'c bulk_job \<Rightarrow> 'c bulk_job \<Rightarrow> 'c bulk_job" where
  "cancel_job now row j = j\<lparr>bj_status := JobCancelled,
     bj_counts := (bj_counts j)\<lparr>jc_pending := 0, jc_running := 0, jc_cancelled := bj_total row\<rparr>,
     bj_completed := bj_total row, bj_finishedAt := Some now\<rparr>"

definition cancel_item :: "ms \<Rightarrow> 'p bulk_item \<Rightarrow> 'p bulk_item" where
  "cancel_item now x = x\<lparr>bi_status := ItemCancelled, bi_finishedAt := Some now\<rparr>"

definition already_started :: "bulk_error" where
  "already_started = BulkError ''bulk_job_already_started'' 409"

definition cancelQueued ::
  "string \<Rightarrow> string \<Rightarrow> string \<Rightarrow> ms \<Rightarrow> ('c, 'p) bulk_db
     \<Rightarrow> (bulk_error + 'c bulk_job option) \<times> ('c, 'p) bulk_db" where
  "cancelQueued provider actor i now db =
     (case owned_job provider i db of
        None \<Rightarrow> (Inl (BulkError ''bulk_job_not_found'' 404), db)
      | Some row \<Rightarrow>
          if bj_status row \<noteq> JobQueued \<or> bj_attempts row \<noteq> 0 \<or> bj_startedAt row \<noteq> None
          then (Inl already_started, db)
          else (let queued = items_with i ItemQueued db
            in if int (length queued) \<noteq> bj_total row then (Inl already_started, db)
               else case update_jobs (\<lambda>j. bj_id j = i \<and> bj_status j = JobQueued \<and> bj_attempts j = 0 \<and>
                         bj_startedAt j = None) (cancel_job now row) db of
                   Inl e \<Rightarrow> (Inl e, db)
                 | Inr (n, db1) \<Rightarrow>
                     if n = 0 then (Inl already_started, db)
                     else (let db2 = update_items (\<lambda>x. bi_id x \<in> set (map bi_id queued))
                             (cancel_item now) db1
                       in (Inr (job_by_id i db2), write_audit provider actor
                             ''pricing.bulk_job.cancelled'' i MediumRisk db2))))"

end
