(* ===== verification/Queue_Order.thy ===== *)
theory Queue_Order
  imports Prelude
begin

text \<open>
  What the two job queues share: \<open>ORDER BY runAfter, createdAt\<close> as the order of a key type,
  \<open>LIMIT\<close> over rows that no other transaction has locked, and the interface of a table whose rows
  are leased to a session.
\<close>

section \<open>The order of due rows\<close>

datatype due_key = DueKey (due_runAfter: ms) (due_createdAt: ms)

instantiation due_key :: linorder
begin

definition less_eq_due_key :: "due_key \<Rightarrow> due_key \<Rightarrow> bool" where
  "less_eq_due_key a b \<longleftrightarrow> due_runAfter a < due_runAfter b \<or>
     due_runAfter a = due_runAfter b \<and> due_createdAt a \<le> due_createdAt b"

definition less_due_key :: "due_key \<Rightarrow> due_key \<Rightarrow> bool" where
  "less_due_key a b \<longleftrightarrow> due_runAfter a < due_runAfter b \<or>
     due_runAfter a = due_runAfter b \<and> due_createdAt a < due_createdAt b"

instance
  by standard (auto simp: less_eq_due_key_def less_due_key_def due_key.expand)

end

text \<open>\<open>SELECT ... WHERE P ORDER BY key LIMIT n FOR UPDATE SKIP LOCKED\<close>.\<close>

definition select_due ::
  "('r \<Rightarrow> bool) \<Rightarrow> ('r \<Rightarrow> 'k::linorder) \<Rightarrow> ('r \<Rightarrow> bool) \<Rightarrow> nat \<Rightarrow> 'r list \<Rightarrow> 'r list" where
  "select_due P key locked n rs = take n (sort_key key (filter (\<lambda>r. P r \<and> \<not> locked r) rs))"

lemma select_due_subset: "set (select_due P key locked n rs) \<subseteq> {r \<in> set rs. P r \<and> \<not> locked r}"
  unfolding select_due_def using set_take_subset by fastforce

lemma select_due_bounded: "length (select_due P key locked n rs) \<le> n"
  by (simp add: select_due_def)

lemma sorted_split_le:
  "sorted (xs @ ys) \<Longrightarrow> x \<in> set xs \<Longrightarrow> y \<in> set ys \<Longrightarrow> x \<le> y"
  by (auto simp: sorted_append)

text \<open>No row left out of a full batch comes before one that is in it.\<close>

lemma select_due_first:
  assumes "r \<in> set rs" "P r" "\<not> locked r" "r \<notin> set (select_due P key locked n rs)"
    and "x \<in> set (select_due P key locked n rs)"
  shows "key x \<le> key r"
proof -
  let ?s = "sort_key key (filter (\<lambda>r. P r \<and> \<not> locked r) rs)"
  have "r \<in> set ?s" using assms(1-3) by simp
  then have "r \<in> set (take n ?s @ drop n ?s)" by (simp only: append_take_drop_id)
  then have "r \<in> set (drop n ?s)" using assms(4)
    by (simp only: set_append Un_iff select_due_def) blast
  then have "key r \<in> set (map key (drop n ?s))" by simp
  moreover have "key x \<in> set (map key (take n ?s))" using assms(5) by (simp add: select_due_def)
  moreover have "sorted (map key (take n ?s) @ map key (drop n ?s))"
    by (simp only: flip: map_append) (simp del: map_append)
  ultimately show ?thesis using sorted_split_le by blast
qed

lemma select_due_all:
  assumes "r \<in> set rs" "P r" "\<not> locked r" "length (select_due P key locked n rs) < n"
  shows "r \<in> set (select_due P key locked n rs)"
proof -
  have "take n (sort_key key (filter (\<lambda>r. P r \<and> \<not> locked r) rs)) =
      sort_key key (filter (\<lambda>r. P r \<and> \<not> locked r) rs)"
    using assms(4) by (simp add: select_due_def)
  then show ?thesis using assms(1-3) by (simp add: select_due_def)
qed

section \<open>Leases\<close>

text \<open>
  The interface of a leased table. A call is made by a session or by nobody in particular
  (\<open>None\<close>). The law: where a session still holds the lease of a key after a call of anybody else,
  it held it before, and the call kept what the lease protects. The client lemma extends it to any
  sequence of calls by others.
\<close>

locale leased_store =
  fixes act :: "'s option \<Rightarrow> 'db \<Rightarrow> 'db \<Rightarrow> bool"
    and owned :: "'s \<Rightarrow> 'k \<Rightarrow> 'db \<Rightarrow> bool"
    and kept :: "'k \<Rightarrow> 'db \<Rightarrow> 'db \<Rightarrow> bool"
  assumes others: "act s d d' \<Longrightarrow> s \<noteq> Some t \<Longrightarrow> owned t k d' \<Longrightarrow> owned t k d \<and> kept k d d'"
    and kept_refl: "kept k d d"
    and kept_trans: "kept k d d' \<Longrightarrow> kept k d' d'' \<Longrightarrow> kept k d d''"
begin

lemma others_run:
  assumes "(\<lambda>d d'. \<exists>s. s \<noteq> Some t \<and> act s d d')\<^sup>*\<^sup>* d d'" and "owned t k d'"
  shows "owned t k d \<and> kept k d d'"
  using assms
proof (induction rule: converse_rtranclp_induct)
  case base
  then show ?case by (simp add: kept_refl)
next
  case (step y z)
  then show ?case using others kept_trans by metis
qed

end

end
