(* ===== verification/Bulk_Queue.thy ===== *)
theory Bulk_Queue
  imports Bulk_Jobs Queue_Order
begin

text \<open>
  The worker's side of the bulk pricing tables (\<open>lib/pricing/pricing-bulk-job-queue.ts\<close>): leases are
  taken by \<open>claimQueuedPricingBulkJobs\<close>, extended by \<open>refreshPricingBulkJobLease\<close>, given back by
  \<open>releasePricingBulkJobLease\<close>, and taken away by \<open>recoverExpiredPricingBulkJobLeases\<close>. Each
  statement is atomic. The rows another transaction has locked, which \<open>SKIP LOCKED\<close> passes over, are
  the argument \<open>locked\<close>; the clock of the database is the argument \<open>clock\<close>.
\<close>

definition pricingBulkRetryDelayMs :: "int \<Rightarrow> ms" where
  "pricingBulkRetryDelayMs attempts =
     (let attempt = max 1 attempts in min (30000 * 2 ^ nat (min (attempt - 1) 7)) 3600000)"

definition holds_lease :: "string \<Rightarrow> string \<Rightarrow> job_status \<Rightarrow> 'c bulk_job \<Rightarrow> bool" where
  "holds_lease token i st j \<longleftrightarrow> bj_id j = i \<and> bj_status j = st \<and> bj_lockedBy j = Some token"

definition leased_running :: "string \<Rightarrow> string \<Rightarrow> ('c, 'p) bulk_db \<Rightarrow> bool" where
  "leased_running token i db \<longleftrightarrow> list_ex (holds_lease token i JobRunning) (bd_jobs db)"

definition leased_finalizing :: "string \<Rightarrow> string \<Rightarrow> ('c, 'p) bulk_db \<Rightarrow> bool" where
  "leased_finalizing token i db \<longleftrightarrow> list_ex (holds_lease token i JobFinalizing) (bd_jobs db)"

definition with_counts :: "job_counts \<Rightarrow> 'c bulk_job \<Rightarrow> 'c bulk_job" where
  "with_counts c j = j\<lparr>bj_counts := c, bj_completed := settled_count c\<rparr>"

definition unlocked :: "'c bulk_job \<Rightarrow> 'c bulk_job" where
  "unlocked j = j\<lparr>bj_lockedAt := None, bj_lockedBy := None\<rparr>"

section \<open>Recovery of expired leases\<close>

definition defer_job :: "ms \<Rightarrow> string \<Rightarrow> 'c bulk_job \<Rightarrow> 'c bulk_job \<Rightarrow> 'c bulk_job" where
  "defer_job now code row j =
     (let attempts = min (bj_finalAttempts row + 1) (bj_finalMax row);
          exhausted = bj_finalMax row \<le> attempts
      in (unlocked j)\<lparr>
           bj_status := if exhausted then JobRequiresAttention else JobFinalizing,
           bj_runAfter := if exhausted then now else now + pricingBulkRetryDelayMs attempts,
           bj_finalAttempts := attempts,
           bj_finalizationError := Some code,
           bj_finalError := Some (if exhausted then ''pricing_bulk_finalization_requires_attention''
             else ''pricing_bulk_finalization_retry_pending''),
           bj_attentionAt := if exhausted then Some now else None\<rparr>)"

definition recover_exhausted :: "'c bulk_job \<Rightarrow> bool" where
  "recover_exhausted row \<longleftrightarrow> bj_maxAttempts row \<le> bj_attempts row + 1"

definition recover_item :: "ms \<Rightarrow> 'c bulk_job \<Rightarrow> 'p bulk_item \<Rightarrow> 'p bulk_item" where
  "recover_item now row x = x\<lparr>
     bi_status := if recover_exhausted row then ItemFailed else ItemQueued,
     bi_attempts := nat (bj_attempts row + 1), bi_error := Some ''worker_lease_expired'',
     bi_finishedAt := if recover_exhausted row then Some now else None\<rparr>"

definition recover_job :: "ms \<Rightarrow> job_counts \<Rightarrow> 'c bulk_job \<Rightarrow> 'c bulk_job \<Rightarrow> 'c bulk_job" where
  "recover_job now c row j = (with_counts c (unlocked j))\<lparr>
     bj_status := if recover_exhausted row then JobFailed else JobQueued,
     bj_runAfter := now, bj_finalError := Some ''worker_lease_expired'',
     bj_finishedAt := if recover_exhausted row then Some now else None\<rparr>"

definition recover_one ::
  "ms \<Rightarrow> 'c bulk_job \<Rightarrow> ('c, 'p) bulk_db \<Rightarrow> bulk_error + ('c, 'p) bulk_db" where
  "recover_one now row db =
     (if bj_status row = JobFinalizing
      then map_sum id snd (update_jobs (\<lambda>j. bj_id j = bj_id row)
             (defer_job now ''worker_lease_expired'' row) db)
      else (let db1 = update_items (\<lambda>x. bi_jobId x = bj_id row \<and> bi_status x = ItemRunning)
              (recover_item now row) db
        in map_sum id snd (update_jobs (\<lambda>j. bj_id j = bj_id row)
             (recover_job now (countsForJob (bj_id row) db1) row) db1)))"

fun recover_all ::
  "ms \<Rightarrow> 'c bulk_job list \<Rightarrow> ('c, 'p) bulk_db \<Rightarrow> bulk_error + ('c, 'p) bulk_db" where
  "recover_all now [] db = Inr db"
| "recover_all now (row # rows) db =
     (case recover_one now row db of Inl e \<Rightarrow> Inl e | Inr db1 \<Rightarrow> recover_all now rows db1)"

definition lease_expired :: "ms \<Rightarrow> 'c bulk_job \<Rightarrow> bool" where
  "lease_expired cutoff j \<longleftrightarrow> (bj_status j = JobRunning \<or> bj_status j = JobFinalizing) \<and>
     (case bj_lockedAt j of Some t \<Rightarrow> t < cutoff | None \<Rightarrow> False)"

definition recoverExpiredPricingBulkJobLeases ::
  "('c bulk_job \<Rightarrow> bool) \<Rightarrow> ms \<Rightarrow> ms \<Rightarrow> ('c, 'p) bulk_db \<Rightarrow> (bulk_error + nat) \<times> ('c, 'p) bulk_db" where
  "recoverExpiredPricingBulkJobLeases locked now leaseMs db =
     (let expired = sort_key (\<lambda>j. case bj_lockedAt j of Some t \<Rightarrow> t | None \<Rightarrow> 0)
            (filter (\<lambda>j. lease_expired (now - leaseMs) j \<and> \<not> locked j) (bd_jobs db))
      in case recover_all now expired db of
           Inl e \<Rightarrow> (Inl e, db)
         | Inr db' \<Rightarrow> (Inr (length expired), db'))"

section \<open>Claiming, refreshing and releasing a lease\<close>

definition claimable :: "ms \<Rightarrow> 'c bulk_job \<Rightarrow> bool" where
  "claimable now j \<longleftrightarrow>
     ((bj_status j = JobQueued \<and> bj_attempts j < bj_maxAttempts j) \<or>
      (bj_status j = JobFinalizing \<and> bj_finalAttempts j < bj_finalMax j)) \<and>
     bj_lockedBy j = None \<and> bj_runAfter j \<le> now"

definition job_due :: "'c bulk_job \<Rightarrow> due_key" where
  "job_due j = DueKey (bj_runAfter j) (bj_createdAt j)"

definition claim_job :: "string \<Rightarrow> ms \<Rightarrow> 'c bulk_job \<Rightarrow> 'c bulk_job" where
  "claim_job token now j = j\<lparr>
     bj_status := if bj_status j = JobQueued then JobRunning else JobFinalizing,
     bj_lockedAt := Some now, bj_lockedBy := Some token,
     bj_startedAt := (case bj_startedAt j of Some t \<Rightarrow> Some t | None \<Rightarrow> Some now)\<rparr>"

definition claimQueuedPricingBulkJobs ::
  "('c bulk_job \<Rightarrow> bool) \<Rightarrow> ms \<Rightarrow> nat \<Rightarrow> string \<Rightarrow> ('c, 'p) bulk_db
     \<Rightarrow> (bulk_error + 'c bulk_job list) \<times> ('c, 'p) bulk_db" where
  "claimQueuedPricingBulkJobs locked now batchSize token db =
     (let due = map bj_id (select_due (claimable now) job_due locked batchSize (bd_jobs db))
      in case update_jobs (\<lambda>j. bj_id j \<in> set due) (claim_job token now) db of
           Inl e \<Rightarrow> (Inl e, db)
         | Inr (n, db') \<Rightarrow> (Inr (filter (\<lambda>j. bj_id j \<in> set due) (bd_jobs db')), db'))"

text \<open>A statement on one job that tells whether it wrote a row.\<close>

definition lease_write ::
  "('c bulk_job \<Rightarrow> bool) \<Rightarrow> ('c bulk_job \<Rightarrow> 'c bulk_job) \<Rightarrow> ('c, 'p) bulk_db
     \<Rightarrow> (bulk_error + bool) \<times> ('c, 'p) bulk_db" where
  "lease_write P f db =
     (case update_jobs P f db of Inl e \<Rightarrow> (Inl e, db) | Inr (n, db') \<Rightarrow> (Inr (0 < n), db'))"

definition holds_any_lease :: "string \<Rightarrow> string \<Rightarrow> 'c bulk_job \<Rightarrow> bool" where
  "holds_any_lease token i j \<longleftrightarrow> holds_lease token i JobRunning j \<or> holds_lease token i JobFinalizing j"

definition releasePricingBulkJobLease ::
  "string \<Rightarrow> string \<Rightarrow> ms \<Rightarrow> ('c, 'p) bulk_db \<Rightarrow> (bulk_error + bool) \<times> ('c, 'p) bulk_db" where
  "releasePricingBulkJobLease i token now =
     lease_write (holds_any_lease token i)
       (\<lambda>j. (unlocked j)\<lparr>bj_status := if bj_status j = JobRunning then JobQueued else JobFinalizing,
          bj_runAfter := now\<rparr>)"

definition refreshPricingBulkJobLease ::
  "string \<Rightarrow> string \<Rightarrow> ms \<Rightarrow> ('c, 'p) bulk_db \<Rightarrow> (bulk_error + bool) \<times> ('c, 'p) bulk_db" where
  "refreshPricingBulkJobLease i token now =
     lease_write (holds_any_lease token i) (\<lambda>j. j\<lparr>bj_lockedAt := Some now\<rparr>)"

section \<open>Items\<close>

definition start_item :: "ms \<Rightarrow> 'p bulk_item \<Rightarrow> 'p bulk_item" where
  "start_item clock x = x\<lparr>bi_status := ItemRunning, bi_attempts := bi_attempts x + 1,
     bi_startedAt := (case bi_startedAt x of Some t \<Rightarrow> Some t | None \<Rightarrow> Some clock)\<rparr>"

definition claimPricingBulkJobItems ::
  "('p bulk_item \<Rightarrow> bool) \<Rightarrow> string \<Rightarrow> string \<Rightarrow> nat \<Rightarrow> ms \<Rightarrow> ('c, 'p) bulk_db
     \<Rightarrow> 'p bulk_item list \<times> ('c, 'p) bulk_db" where
  "claimPricingBulkJobItems locked i token batchSize clock db =
     (let due = map bi_id (select_due (\<lambda>x. bi_jobId x = i \<and> bi_status x = ItemQueued \<and>
              leased_running token i db) bi_createdAt locked batchSize (bd_items db));
          db' = update_items (\<lambda>x. bi_id x \<in> set due \<and> bi_status x = ItemQueued) (start_item clock) db
      in (filter (\<lambda>x. bi_id x \<in> set due) (bd_items db'), db'))"

record 'p item_success =
  is_ruleId :: "string option"
  is_preview :: 'p
  is_impact :: "stored_impact option"

definition succeed_item :: "'p item_success \<Rightarrow> ms \<Rightarrow> 'p bulk_item \<Rightarrow> 'p bulk_item" where
  "succeed_item r clock x = x\<lparr>bi_status := ItemSucceeded, bi_ruleId := is_ruleId r,
     bi_preview := Some (is_preview r), bi_materialization := None, bi_impact := is_impact r,
     bi_error := None, bi_finishedAt := Some clock\<rparr>"

definition fail_item :: "string \<Rightarrow> ms option \<Rightarrow> ms \<Rightarrow> 'p bulk_item \<Rightarrow> 'p bulk_item" where
  "fail_item code retryAt clock x = x\<lparr>
     bi_status := if retryAt \<noteq> None then ItemQueued else ItemFailed, bi_error := Some code,
     bi_finishedAt := if retryAt \<noteq> None then None else Some clock\<rparr>"

text \<open>The item of a job whose lease the session holds while it runs.\<close>

definition item_write ::
  "string \<Rightarrow> string \<Rightarrow> string \<Rightarrow> ('p bulk_item \<Rightarrow> 'p bulk_item) \<Rightarrow> ('c, 'p) bulk_db
     \<Rightarrow> bool \<times> ('c, 'p) bulk_db" where
  "item_write i item token f db =
     (let P = (\<lambda>x. bi_id x = item \<and> bi_jobId x = i \<and> leased_running token i db)
      in (list_ex P (bd_items db), update_items P f db))"

definition markPricingBulkItemSucceeded ::
  "string \<Rightarrow> string \<Rightarrow> string \<Rightarrow> 'p item_success \<Rightarrow> ms \<Rightarrow> ('c, 'p) bulk_db
     \<Rightarrow> bool \<times> ('c, 'p) bulk_db" where
  "markPricingBulkItemSucceeded i item token r clock = item_write i item token (succeed_item r clock)"

definition markPricingBulkItemFailed ::
  "string \<Rightarrow> string \<Rightarrow> string \<Rightarrow> string \<Rightarrow> ms option \<Rightarrow> ms \<Rightarrow> ('c, 'p) bulk_db
     \<Rightarrow> bool \<times> ('c, 'p) bulk_db" where
  "markPricingBulkItemFailed i item token code retryAt clock =
     item_write i item token (fail_item code retryAt clock)"

section \<open>Settling the items\<close>

definition terminalStatus :: "job_counts \<Rightarrow> job_status" where
  "terminalStatus c = (if jc_failed c = 0 then JobSucceeded
     else if 0 < jc_succeeded c + jc_skipped c + jc_cancelled c then JobPartial else JobFailed)"

definition item_error :: "job_counts \<Rightarrow> string option" where
  "item_error c = (if 0 < jc_failed c then Some ''pricing_bulk_item_failed'' else None)"

definition exhaust_item :: "ms \<Rightarrow> 'p bulk_item \<Rightarrow> 'p bulk_item" where
  "exhaust_item clock x = x\<lparr>bi_status := ItemFailed, bi_error := Some ''retry_budget_exhausted'',
     bi_finishedAt := Some clock\<rparr>"

definition fail_queued_items :: "string \<Rightarrow> ms \<Rightarrow> ('c, 'p) bulk_db \<Rightarrow> ('c, 'p) bulk_db" where
  "fail_queued_items i clock =
     update_items (\<lambda>x. bi_jobId x = i \<and> bi_status x = ItemQueued) (exhaust_item clock)"

definition finalizing_job :: "job_counts \<Rightarrow> int \<Rightarrow> ms \<Rightarrow> 'c bulk_job \<Rightarrow> 'c bulk_job" where
  "finalizing_job c attempts now j = (with_counts c j)\<lparr>bj_status := JobFinalizing,
     bj_attempts := attempts,
     bj_finalizationStartedAt := (case bj_finalizationStartedAt j of Some t \<Rightarrow> Some t | None \<Rightarrow> Some now),
     bj_finalizationError := None, bj_finishedAt := None\<rparr>"

definition requeued_job :: "job_counts \<Rightarrow> int \<Rightarrow> ms \<Rightarrow> 'c bulk_job \<Rightarrow> 'c bulk_job" where
  "requeued_job c attempts runAfter j = (with_counts c (unlocked j))\<lparr>bj_status := JobQueued,
     bj_attempts := attempts, bj_runAfter := runAfter, bj_finalError := item_error c,
     bj_finishedAt := None\<rparr>"

record 'c settle_params =
  sp_job :: "'c bulk_job"
  sp_token :: string
  sp_now :: ms
  sp_nextRunAt :: "ms option"
  sp_retrying :: bool

text \<open>
  The call is three statements, between which other sessions run: it counts the items, fails the
  queued ones where the attempts are used up and counts again, and writes the job. The job is the row
  as it was claimed.
\<close>

definition settle_attempts :: "'c settle_params \<Rightarrow> int" where
  "settle_attempts p = bj_attempts (sp_job p) + (if sp_retrying p then 1 else 0)"

definition must_exhaust :: "'c settle_params \<Rightarrow> job_counts \<Rightarrow> bool" where
  "must_exhaust p c \<longleftrightarrow> 0 < jc_pending c \<and> bj_maxAttempts (sp_job p) \<le> settle_attempts p"

definition all_settled :: "job_counts \<Rightarrow> bool" where
  "all_settled c \<longleftrightarrow> jc_pending c = 0 \<and> jc_running c = 0"

definition settle_write ::
  "'c settle_params \<Rightarrow> job_counts \<Rightarrow> ('c, 'p) bulk_db \<Rightarrow> (bulk_error + bool) \<times> ('c, 'p) bulk_db" where
  "settle_write p c db =
     (case update_jobs (holds_lease (sp_token p) (bj_id (sp_job p)) JobRunning)
             (if all_settled c then finalizing_job c (settle_attempts p) (sp_now p)
              else requeued_job c (settle_attempts p)
                (case sp_nextRunAt p of Some t \<Rightarrow> t | None \<Rightarrow> sp_now p)) db of
        Inl e \<Rightarrow> (Inl e, db)
      | Inr (n, db') \<Rightarrow> (Inr (all_settled c), db'))"

definition settlePricingBulkJobItems ::
  "'c settle_params \<Rightarrow> ms \<Rightarrow> ('c, 'p) bulk_db \<Rightarrow> (bulk_error + bool) \<times> ('c, 'p) bulk_db" where
  "settlePricingBulkJobItems p clock db =
     (let i = bj_id (sp_job p); c = countsForJob i db
      in if must_exhaust p c
         then (let db1 = fail_queued_items i clock db in settle_write p (countsForJob i db1) db1)
         else settle_write p c db)"

section \<open>Finalization\<close>

definition store_materialization ::
  "string \<Rightarrow> materialization \<Rightarrow> ('c, 'p) bulk_db \<Rightarrow> ('c, 'p) bulk_db" where
  "store_materialization i r =
     update_items (\<lambda>x. bi_jobId x = i \<and> bi_ratePlanId x = im_ratePlanId (mt_impact r) \<and>
         bi_status x = ItemSucceeded) (\<lambda>x. x\<lparr>bi_materialization := Some r\<rparr>)"

definition checkpointPricingBulkMaterialization ::
  "string \<Rightarrow> string \<Rightarrow> materialization list \<Rightarrow> ms \<Rightarrow> ('c, 'p) bulk_db
     \<Rightarrow> (bulk_error + bool) \<times> ('c, 'p) bulk_db" where
  "checkpointPricingBulkMaterialization i token results now db =
     (case lease_write (holds_lease token i JobFinalizing) (\<lambda>j. j\<lparr>bj_materializedAt := Some now\<rparr>)
         (fold (store_materialization i) results db) of
        (Inl e, _) \<Rightarrow> (Inl e, db)
      | (Inr b, db') \<Rightarrow> (Inr b, db'))"

datatype effect_stage = CacheInvalidation | AriEnqueue

definition checkpointPricingBulkEffect ::
  "string \<Rightarrow> string \<Rightarrow> effect_stage \<Rightarrow> ms \<Rightarrow> ('c, 'p) bulk_db
     \<Rightarrow> (bulk_error + bool) \<times> ('c, 'p) bulk_db" where
  "checkpointPricingBulkEffect i token stage now =
     lease_write (holds_lease token i JobFinalizing)
       (\<lambda>j. case stage of CacheInvalidation \<Rightarrow> j\<lparr>bj_cacheAt := Some now\<rparr>
          | AriEnqueue \<Rightarrow> j\<lparr>bj_ariAt := Some now\<rparr>)"

definition listPricingBulkJobImpacts :: "string \<Rightarrow> string \<Rightarrow> ('c, 'p) bulk_db \<Rightarrow> stored_impact list" where
  "listPricingBulkJobImpacts i token db =
     List.map_filter bi_impact (sort_key bi_createdAt
       (filter (\<lambda>x. bi_jobId x = i \<and> bi_status x = ItemSucceeded \<and> leased_finalizing token i db)
         (bd_items db)))"

definition finalization_result_of :: "job_counts \<Rightarrow> 'c bulk_job \<Rightarrow> finalization_result" where
  "finalization_result_of c row = \<lparr>fr_status = terminalStatus c, fr_counts = c,
     fr_completed = settled_count c, fr_materialized = (bj_materializedAt row \<noteq> None),
     fr_cacheInvalidated = (bj_cacheAt row \<noteq> None), fr_ariEnqueued = (bj_ariAt row \<noteq> None)\<rparr>"

definition completed_job :: "job_counts \<Rightarrow> 'c bulk_job \<Rightarrow> ms \<Rightarrow> 'c bulk_job \<Rightarrow> 'c bulk_job" where
  "completed_job c row now j = (with_counts c (unlocked j))\<lparr>bj_status := terminalStatus c,
     bj_finalizationError := None, bj_finalizationFinishedAt := Some now,
     bj_result := Some (finalization_result_of c row), bj_attentionAt := None,
     bj_finalError := item_error c, bj_finishedAt := Some now\<rparr>"

definition completePricingBulkJobFinalization ::
  "'c bulk_job \<Rightarrow> string \<Rightarrow> ms \<Rightarrow> ('c, 'p) bulk_db \<Rightarrow> (bulk_error + bool) \<times> ('c, 'p) bulk_db" where
  "completePricingBulkJobFinalization row token now db =
     (let c = countsForJob (bj_id row) db
      in case lease_write (holds_lease token (bj_id row) JobFinalizing) (completed_job c row now) db of
           (Inl e, _) \<Rightarrow> (Inl e, db)
         | (Inr False, _) \<Rightarrow> (Inr False, db)
         | (Inr True, db') \<Rightarrow> (Inr True, write_audit (bj_providerId row) (bj_requestedBy row)
             ''pricing.bulk_job.completed'' (bj_id row)
             (if 0 < jc_failed c then MediumRisk else LowRisk) db'))"

definition deferPricingBulkJobFinalization ::
  "'c bulk_job \<Rightarrow> string \<Rightarrow> ms \<Rightarrow> string \<Rightarrow> ('c, 'p) bulk_db
     \<Rightarrow> (bulk_error + bool) \<times> ('c, 'p) bulk_db" where
  "deferPricingBulkJobFinalization row token now code db =
     (case lease_write (holds_lease token (bj_id row) JobFinalizing) (defer_job now code row) db of
        (Inl e, db') \<Rightarrow> (Inl e, db')
      | (Inr updated, db') \<Rightarrow>
          (Inr updated,
           if updated \<and> bj_finalMax row \<le> min (bj_finalAttempts row + 1) (bj_finalMax row)
           then write_audit (bj_providerId row) (bj_requestedBy row)
             ''pricing.bulk_job.requires_attention'' (bj_id row) HighRisk db'
           else db'))"

section \<open>The queue as the operators see it\<close>

record queue_snapshot =
  qs_queued :: int
  qs_due :: int
  qs_running :: int
  qs_finalizing :: int
  qs_requiresAttention :: int
  qs_retrying :: int
  qs_itemsQueued :: int
  qs_itemsRunning :: int
  qs_itemsFailed :: int

definition count_where :: "('r \<Rightarrow> bool) \<Rightarrow> 'r list \<Rightarrow> int" where
  "count_where P rs = int (length (filter P rs))"

definition getPricingBulkQueueSnapshot :: "ms \<Rightarrow> ('c, 'p) bulk_db \<Rightarrow> queue_snapshot" where
  "getPricingBulkQueueSnapshot now db = \<lparr>
     qs_queued = count_where (\<lambda>j. bj_status j = JobQueued) (bd_jobs db),
     qs_due = count_where (\<lambda>j. bj_status j = JobQueued \<and> bj_runAfter j \<le> now) (bd_jobs db),
     qs_running = count_where (\<lambda>j. bj_status j = JobRunning) (bd_jobs db),
     qs_finalizing = count_where (\<lambda>j. bj_status j = JobFinalizing) (bd_jobs db),
     qs_requiresAttention = count_where (\<lambda>j. bj_status j = JobRequiresAttention) (bd_jobs db),
     qs_retrying = count_where (\<lambda>j. bj_status j = JobQueued \<and> 0 < bj_attempts j \<or>
       bj_status j = JobFinalizing \<and> 0 < bj_finalAttempts j) (bd_jobs db),
     qs_itemsQueued = count_where (\<lambda>x. bi_status x = ItemQueued) (bd_items db),
     qs_itemsRunning = count_where (\<lambda>x. bi_status x = ItemRunning) (bd_items db),
     qs_itemsFailed = count_where (\<lambda>x. bi_status x = ItemFailed) (bd_items db)\<rparr>"

end
