(* ===== verification/Bulk_Leases.thy ===== *)
theory Bulk_Leases
  imports Bulk_Queue
begin

text \<open>
  Concurrent sessions on the bulk pricing tables. A session is a worker, known by its lease token; its
  settling of a job is three statements, and what it has read so far is its memory. Every other
  operation is one statement or one transaction. Any session may take a step at any time, also one
  whose lease has been recovered and handed to somebody else.
\<close>

section \<open>The well-formed tables\<close>

definition unsettled :: "item_status \<Rightarrow> bool" where
  "unsettled st \<longleftrightarrow> st = ItemQueued \<or> st = ItemRunning"

definition past_items :: "job_status \<Rightarrow> bool" where
  "past_items st \<longleftrightarrow> st = JobFinalizing \<or> st = JobSucceeded \<or> st = JobPartial \<or>
     st = JobRequiresAttention \<or> st = JobCancelled"

definition settled :: "string \<Rightarrow> ('c, 'p) bulk_db \<Rightarrow> bool" where
  "settled i db \<longleftrightarrow> list_all (\<lambda>x. bi_jobId x = i \<longrightarrow> \<not> unsettled (bi_status x)) (bd_items db)"

definition job_size :: "string \<Rightarrow> ('c, 'p) bulk_db \<Rightarrow> int" where
  "job_size i db = int (length (filter (\<lambda>x. bi_jobId x = i) (bd_items db)))"

definition leased_state :: "'c bulk_job \<Rightarrow> bool" where
  "leased_state j \<longleftrightarrow> bj_lockedBy j = None \<or> bj_status j = JobRunning \<or> bj_status j = JobFinalizing"

definition job_wf :: "('c, 'p) bulk_db \<Rightarrow> 'c bulk_job \<Rightarrow> bool" where
  "job_wf db j \<longleftrightarrow> job_checks j \<and> leased_state j \<and> bj_total j = job_size (bj_id j) db \<and>
     (past_items (bj_status j) \<longrightarrow> settled (bj_id j) db)"

definition bulk_wf :: "('c, 'p) bulk_db \<Rightarrow> bool" where
  "bulk_wf db \<longleftrightarrow> distinct (map bj_id (bd_jobs db)) \<and> distinct (map bi_id (bd_items db)) \<and>
     bi_jobId ` set (bd_items db) \<subseteq> bj_id ` set (bd_jobs db) \<and> list_all (job_wf db) (bd_jobs db)"

lemma bulk_wfD:
  "bulk_wf db \<Longrightarrow> distinct (map bj_id (bd_jobs db))"
  "bulk_wf db \<Longrightarrow> distinct (map bi_id (bd_items db))"
  "bulk_wf db \<Longrightarrow> j \<in> set (bd_jobs db) \<Longrightarrow> job_wf db j"
  by (auto simp: bulk_wf_def list_all_iff)

lemma same_job: "bulk_wf db \<Longrightarrow> j \<in> set (bd_jobs db) \<Longrightarrow> k \<in> set (bd_jobs db) \<Longrightarrow> bj_id j = bj_id k \<Longrightarrow> j = k"
  using bulk_wfD(1) by (metis inj_on_def distinct_map)

lemma same_item: "bulk_wf db \<Longrightarrow> x \<in> set (bd_items db) \<Longrightarrow> y \<in> set (bd_items db) \<Longrightarrow> bi_id x = bi_id y \<Longrightarrow> x = y"
  using bulk_wfD(2) by (metis inj_on_def distinct_map)

lemma job_wf_items: "bd_items db' = bd_items db \<Longrightarrow> job_wf db' = job_wf db"
  by (rule ext) (simp add: job_wf_def settled_def job_size_def)

lemma update_jobs_Inr:
  assumes "update_jobs P f db = Inr (n, db')"
  shows "bd_jobs db' = update_rows P f (bd_jobs db)" "bd_items db' = bd_items db"
    "bd_audit db' = bd_audit db" "bd_plans db' = bd_plans db"
    "\<And>j. j \<in> set (bd_jobs db) \<Longrightarrow> P j \<Longrightarrow> job_checks (f j)" "n = length (filter P (bd_jobs db))"
  using assms by (auto simp: update_jobs_def list_all_iff split: if_splits)

text \<open>Writing jobs keeps the tables well formed where a job is not moved past its items too early.\<close>

lemma update_jobs_wf:
  assumes wf: "bulk_wf db" and upd: "update_jobs P f db = Inr (n, db')"
    and f: "\<And>j. j \<in> set (bd_jobs db) \<Longrightarrow> P j \<Longrightarrow> bj_id (f j) = bj_id j \<and> bj_total (f j) = bj_total j \<and>
      leased_state (f j) \<and>
      (past_items (bj_status (f j)) \<longrightarrow> past_items (bj_status j) \<or> settled (bj_id j) db)"
  shows "bulk_wf db'"
proof -
  note u = update_jobs_Inr [OF upd]
  have ids: "map bj_id (bd_jobs db') = map bj_id (bd_jobs db)"
    using f by (auto simp: u(1) update_rows_def)
  have "job_wf db (if P j then f j else j)" if "j \<in> set (bd_jobs db)" for j
    using bulk_wfD(3) [OF wf that] f [OF that] u(5) [OF that] by (auto simp: job_wf_def)
  then have "list_all (job_wf db) (bd_jobs db')" unfolding list_all_iff u(1) set_update_rows by blast
  moreover have "bj_id ` set (bd_jobs db') = bj_id ` set (bd_jobs db)"
    using ids by (metis list.set_map)
  ultimately show ?thesis
    using wf ids by (auto simp: bulk_wf_def u(2) job_wf_items [OF u(2)])
qed

text \<open>Writing items keeps the tables well formed where only items of an earlier job become unsettled.\<close>

lemma job_size_update:
  "(\<And>x. P x \<Longrightarrow> bi_jobId (f x) = bi_jobId x) \<Longrightarrow> job_size i (update_items P f db) = job_size i db"
proof -
  assume a: "\<And>x. P x \<Longrightarrow> bi_jobId (f x) = bi_jobId x"
  have "length (filter (\<lambda>x. bi_jobId x = i) (update_rows P f xs)) = length (filter (\<lambda>x. bi_jobId x = i) xs)" for xs
    using a by (induction xs) (auto simp: update_rows_def)
  then show ?thesis by (simp add: job_size_def update_items_def)
qed

lemma update_items_wf:
  assumes wf: "bulk_wf db"
    and f: "\<And>x. P x \<Longrightarrow> bi_id (f x) = bi_id x \<and> bi_jobId (f x) = bi_jobId x"
    and s: "\<And>x. x \<in> set (bd_items db) \<Longrightarrow> P x \<Longrightarrow> unsettled (bi_status (f x)) \<Longrightarrow> \<not> unsettled (bi_status x) \<Longrightarrow>
      (\<forall>j \<in> set (bd_jobs db). bj_id j = bi_jobId x \<longrightarrow> \<not> past_items (bj_status j))"
  shows "bulk_wf (update_items P f db)"
proof -
  let ?db = "update_items P f db"
  have keys: "map bi_id (bd_items ?db) = map bi_id (bd_items db)"
      "map bi_jobId (bd_items ?db) = map bi_jobId (bd_items db)"
    using f by (auto simp: update_items_def update_rows_def)
  have "job_wf ?db j" if j: "j \<in> set (bd_jobs db)" for j
  proof -
    have "settled (bj_id j) ?db" if past: "past_items (bj_status j)"
    proof -
      have "settled (bj_id j) db" using bulk_wfD(3) [OF wf j] past by (simp add: job_wf_def)
      then show ?thesis
        using s f j past by (auto simp: settled_def update_items_def list_all_iff set_update_rows)
    qed
    then show ?thesis using bulk_wfD(3) [OF wf j] f by (simp add: job_wf_def job_size_update)
  qed
  moreover have "bi_jobId ` set (bd_items ?db) = bi_jobId ` set (bd_items db)"
    using keys(2) by (metis list.set_map)
  moreover have "bd_jobs ?db = bd_jobs db" by (simp add: update_items_def)
  ultimately show ?thesis using wf keys by (simp add: bulk_wf_def list_all_iff)
qed

lemma write_audit_wf [simp]: "bulk_wf (write_audit p a act e r db) = bulk_wf db"
proof -
  have "job_wf (write_audit p a act e r db) = job_wf db"
    by (rule job_wf_items) (simp add: write_audit_def)
  then show ?thesis by (simp add: bulk_wf_def write_audit_def)
qed

lemma update_items_commute:
  "update_jobs P f (update_items Q g db) =
     map_sum id (\<lambda>(n, d). (n, update_items Q g d)) (update_jobs P f db)"
  by (simp add: update_jobs_def update_items_def)

section \<open>What a lease protects\<close>

definition owned :: "string \<Rightarrow> string \<Rightarrow> ('c, 'p) bulk_db \<Rightarrow> bool" where
  "owned t i db \<longleftrightarrow> list_ex (\<lambda>j. bj_id j = i \<and> bj_lockedBy j = Some t) (bd_jobs db)"

definition item_kept :: "'p bulk_item \<Rightarrow> 'p bulk_item \<Rightarrow> bool" where
  "item_kept x y \<longleftrightarrow> bi_id y = bi_id x \<and> bi_ruleId y = bi_ruleId x \<and> bi_impact y = bi_impact x \<and>
     bi_attempts y = bi_attempts x \<and>
     (bi_status y = bi_status x \<or> bi_status x = ItemQueued \<and> bi_status y = ItemFailed)"

definition kept :: "string \<Rightarrow> ('c, 'p) bulk_db \<Rightarrow> ('c, 'p) bulk_db \<Rightarrow> bool" where
  "kept i db db' \<longleftrightarrow> job_by_id i db' = job_by_id i db \<and>
     list_all2 item_kept (filter (\<lambda>x. bi_jobId x = i) (bd_items db))
       (filter (\<lambda>x. bi_jobId x = i) (bd_items db'))"

lemma item_kept_refl [simp]: "item_kept x x"
  by (simp add: item_kept_def)

lemma item_kept_trans: "item_kept x y \<Longrightarrow> item_kept y z \<Longrightarrow> item_kept x z"
  by (auto simp: item_kept_def)

lemma kept_refl [simp]: "kept i db db"
  by (simp add: kept_def list.rel_refl)

lemma kept_trans: "kept i a b \<Longrightarrow> kept i b c \<Longrightarrow> kept i a c"
  unfolding kept_def
  by (auto intro: list_all2_trans [of item_kept item_kept item_kept, OF item_kept_trans])

lemma write_audit_lease [simp]:
  "owned t i (write_audit p a act e r db) = owned t i db"
  "kept i db (write_audit p a act e r db') = kept i db db'"
  by (simp_all add: owned_def kept_def write_audit_def job_by_id_def)

lemma update_jobs_lease:
  assumes "update_jobs P f db = Inr (n, db')"
    and f: "\<And>j. P j \<Longrightarrow> bj_id (f j) = bj_id j"
    and t: "\<And>j. j \<in> set (bd_jobs db) \<Longrightarrow> P j \<Longrightarrow> bj_id j = i \<Longrightarrow> bj_lockedBy (f j) \<noteq> Some t"
    and wf: "bulk_wf db" and own: "owned t i db'"
  shows "owned t i db \<and> kept i db db'"
proof -
  note u = update_jobs_Inr [OF assms(1)]
  obtain j where j: "j \<in> set (bd_jobs db)" "bj_id (if P j then f j else j) = i"
      "bj_lockedBy (if P j then f j else j) = Some t"
    using own by (auto simp: owned_def list_ex_iff u(1) set_update_rows)
  have np: "\<not> P j" using j t f by (auto split: if_splits)
  have ji: "bj_id j = i" "bj_lockedBy j = Some t" using j np by auto
  have find: "List.find (\<lambda>k. bj_id k = i) (bd_jobs db) = Some j"
    using find_unique [OF bulk_wfD(1) [OF wf] j(1)] ji(1) by simp
  have "List.find (\<lambda>k. bj_id k = i) (bd_jobs db') = Some j"
    unfolding u(1) by (subst find_update_key) (auto simp: f find np)
  then have "job_by_id i db' = job_by_id i db" using find by (simp add: job_by_id_def)
  moreover have "owned t i db" using j(1) ji by (auto simp: owned_def list_ex_iff)
  ultimately show ?thesis using u(2) by (simp add: kept_def list.rel_refl)
qed

lemma update_items_owned [simp]: "owned t i (update_items P f db) = owned t i db"
  by (simp add: owned_def update_items_def)

lemma update_items_kept:
  assumes f: "\<And>x. P x \<Longrightarrow> bi_jobId (f x) = bi_jobId x"
    and k: "\<And>x. x \<in> set (bd_items db) \<Longrightarrow> P x \<Longrightarrow> bi_jobId x = i \<Longrightarrow> item_kept x (f x)"
  shows "kept i db (update_items P f db)"
proof -
  have "list_all2 item_kept (filter (\<lambda>x. bi_jobId x = i) xs)
      (filter (\<lambda>x. bi_jobId x = i) (update_rows P f xs))" if "set xs \<subseteq> set (bd_items db)" for xs
    using that f k by (induction xs) (auto simp: update_rows_def)
  then show ?thesis by (simp add: kept_def update_items_def job_by_id_def)
qed

lemma kept_settled:
  assumes "kept i db db'" "settled i db"
  shows "settled i db'"
proof -
  have "list_all (\<lambda>x. \<not> unsettled (bi_status x)) (filter (\<lambda>x. bi_jobId x = i) (bd_items db))"
    using assms(2) by (auto simp: settled_def list_all_iff)
  moreover have "list_all (\<lambda>x. \<not> unsettled (bi_status x)) ys"
    if "list_all2 item_kept xs ys" "list_all (\<lambda>x. \<not> unsettled (bi_status x)) xs" for xs ys
    using that by (induction rule: list_all2_induct) (auto simp: item_kept_def unsettled_def)
  ultimately have "list_all (\<lambda>x. \<not> unsettled (bi_status x)) (filter (\<lambda>x. bi_jobId x = i) (bd_items db'))"
    using assms(1) by (auto simp: kept_def)
  then show ?thesis by (auto simp: settled_def list_all_iff)
qed

end
