(* ===== verification/Bulk_Sessions.thy ===== *)
theory Bulk_Sessions
  imports Bulk_Leases
begin

text \<open>
  The operations of the bulk pricing tables as steps of concurrent sessions, and what every step keeps:
  the tables stay well formed, and nobody but its holder changes what a lease protects.
\<close>

section \<open>Calls\<close>

datatype ('c, 'p) worker_call =
    ClaimJobs "'c bulk_job \<Rightarrow> bool" ms nat
  | ReleaseLease string ms
  | RefreshLease string ms
  | ClaimItems "'p bulk_item \<Rightarrow> bool" string nat ms
  | MarkSucceeded string string "'p item_success" ms
  | MarkFailed string string string "ms option" ms
  | CheckpointMaterialization string "materialization list" ms
  | CheckpointEffect string effect_stage ms
  | CompleteJob "'c bulk_job" ms
  | DeferJob "'c bulk_job" ms string

datatype 'c provider_call =
    EnqueueJob "'c enqueue_input" string "string list" ms
  | RetryJob string string string ms
  | CancelJob string string string ms
  | RecoverLeases "'c bulk_job \<Rightarrow> bool" ms ms

fun worker_step :: "string \<Rightarrow> ('c, 'p) worker_call \<Rightarrow> ('c, 'p) bulk_db \<Rightarrow> ('c, 'p) bulk_db" where
  "worker_step t (ClaimJobs locked now n) db = snd (claimQueuedPricingBulkJobs locked now n t db)"
| "worker_step t (ReleaseLease i now) db = snd (releasePricingBulkJobLease i t now db)"
| "worker_step t (RefreshLease i now) db = snd (refreshPricingBulkJobLease i t now db)"
| "worker_step t (ClaimItems locked i n clock) db = snd (claimPricingBulkJobItems locked i t n clock db)"
| "worker_step t (MarkSucceeded i x r clock) db = snd (markPricingBulkItemSucceeded i x t r clock db)"
| "worker_step t (MarkFailed i x code retryAt clock) db =
     snd (markPricingBulkItemFailed i x t code retryAt clock db)"
| "worker_step t (CheckpointMaterialization i rs now) db =
     snd (checkpointPricingBulkMaterialization i t rs now db)"
| "worker_step t (CheckpointEffect i stage now) db = snd (checkpointPricingBulkEffect i t stage now db)"
| "worker_step t (CompleteJob row now) db = snd (completePricingBulkJobFinalization row t now db)"
| "worker_step t (DeferJob row now code) db = snd (deferPricingBulkJobFinalization row t now code db)"

fun provider_step :: "'c provider_call \<Rightarrow> ('c, 'p) bulk_db \<Rightarrow> ('c, 'p) bulk_db" where
  "provider_step (EnqueueJob input i ids now) db = snd (enqueue id input i ids now db)"
| "provider_step (RetryJob provider actor i now) db = snd (retryFailed provider actor i now db)"
| "provider_step (CancelJob provider actor i now) db = snd (cancelQueued provider actor i now db)"
| "provider_step (RecoverLeases locked now leaseMs) db =
     snd (recoverExpiredPricingBulkJobLeases locked now leaseMs db)"

text \<open>The ids an enqueue draws at random are new, one per item.\<close>

fun fresh_ids :: "'c provider_call \<Rightarrow> ('c, 'p) bulk_db \<Rightarrow> bool" where
  "fresh_ids (EnqueueJob input i ids now) db \<longleftrightarrow> distinct ids \<and>
     set ids \<inter> bi_id ` set (bd_items db) = {} \<and> length ids = length (ei_ratePlanIds input)"
| "fresh_ids _ db \<longleftrightarrow> True"

section \<open>Writes of the job row\<close>

lemma lease_write_db:
  obtains "snd (lease_write P f db) = db"
  | n db' where "update_jobs P f db = Inr (n, db')" "lease_write P f db = (Inr (0 < n), db')"
  by (cases "update_jobs P f db") (auto simp: lease_write_def)

lemma lease_write_wf:
  assumes "bulk_wf db"
    and "\<And>j. j \<in> set (bd_jobs db) \<Longrightarrow> P j \<Longrightarrow> bj_id (f j) = bj_id j \<and> bj_total (f j) = bj_total j \<and>
      leased_state (f j) \<and>
      (past_items (bj_status (f j)) \<longrightarrow> past_items (bj_status j) \<or> settled (bj_id j) db)"
  shows "bulk_wf (snd (lease_write P f db))"
  using update_jobs_wf [OF assms(1) _ assms(2)] assms(1)
  by (cases "update_jobs P f db") (auto simp: lease_write_def)

text \<open>Neither a worker that asks for its own token nor one that clears the lock leaves another's lease.\<close>

lemma lease_write_others:
  assumes "bulk_wf db" "s \<noteq> t" "owned t i (snd (lease_write P f db))"
    and "\<And>j. P j \<Longrightarrow> bj_id (f j) = bj_id j \<and> (bj_lockedBy (f j) = Some s \<or> bj_lockedBy (f j) = None)"
  shows "owned t i db \<and> kept i db (snd (lease_write P f db))"
proof (rule lease_write_db [of P f db])
  fix n db'
  assume u: "update_jobs P f db = Inr (n, db')" and l: "lease_write P f db = (Inr (0 < n), db')"
  have nt: "bj_lockedBy (f j) \<noteq> Some t" if "P j" for j using assms(4) [OF that] assms(2) by auto
  have own: "owned t i db'" using assms(3) l by simp
  have "owned t i db \<and> kept i db db'"
    by (rule update_jobs_lease [OF u _ _ assms(1) own]) (simp_all add: assms(4) nt)
  then show ?thesis using l by simp
qed (use assms in simp)

lemmas lease_defs = holds_any_lease_def holds_lease_def unlocked_def with_counts_def leased_state_def
  past_items_def

lemma defer_job_simps [simp]:
  "bj_id (defer_job now code row j) = bj_id j" "bj_total (defer_job now code row j) = bj_total j"
  "bj_lockedBy (defer_job now code row j) = None"
  "past_items (bj_status (defer_job now code row j))"
  by (simp_all add: defer_job_def Let_def unlocked_def past_items_def)

lemma completed_job_simps [simp]:
  "bj_id (completed_job c row now j) = bj_id j" "bj_total (completed_job c row now j) = bj_total j"
  "bj_lockedBy (completed_job c row now j) = None"
  by (simp_all add: completed_job_def with_counts_def unlocked_def)

lemma claim_job_simps [simp]:
  "bj_id (claim_job t now j) = bj_id j" "bj_total (claim_job t now j) = bj_total j"
  "bj_lockedBy (claim_job t now j) = Some t"
  by (simp_all add: claim_job_def)

lemma release_wf: "bulk_wf db \<Longrightarrow> bulk_wf (snd (releasePricingBulkJobLease i t now db))"
  unfolding releasePricingBulkJobLease_def by (rule lease_write_wf) (auto simp: lease_defs)

lemma refresh_wf: "bulk_wf db \<Longrightarrow> bulk_wf (snd (refreshPricingBulkJobLease i t now db))"
  unfolding refreshPricingBulkJobLease_def by (rule lease_write_wf) (auto simp: lease_defs)

lemma effect_wf: "bulk_wf db \<Longrightarrow> bulk_wf (snd (checkpointPricingBulkEffect i t stage now db))"
  unfolding checkpointPricingBulkEffect_def
  by (rule lease_write_wf) (auto simp: lease_defs split: effect_stage.splits)

lemma defer_wf: "bulk_wf db \<Longrightarrow> bulk_wf (snd (deferPricingBulkJobFinalization row t now code db))"
proof -
  assume wf: "bulk_wf db"
  have "bulk_wf (snd (lease_write (holds_lease t (bj_id row) JobFinalizing) (defer_job now code row) db))"
    by (rule lease_write_wf [OF wf]) (auto simp: holds_lease_def leased_state_def past_items_def)
  then show ?thesis by (auto simp: deferPricingBulkJobFinalization_def split: prod.splits sum.splits)
qed

lemma terminalStatus_cases: "terminalStatus c \<in> {JobSucceeded, JobPartial, JobFailed}"
  by (simp add: terminalStatus_def)

lemma complete_wf: "bulk_wf db \<Longrightarrow> bulk_wf (snd (completePricingBulkJobFinalization row t now db))"
proof -
  assume wf: "bulk_wf db"
  let ?c = "countsForJob (bj_id row) db"
  have "bulk_wf (snd (lease_write (holds_lease t (bj_id row) JobFinalizing) (completed_job ?c row now) db))"
    by (rule lease_write_wf [OF wf]) (auto simp: holds_lease_def leased_state_def past_items_def)
  then show ?thesis using wf
    by (auto simp: completePricingBulkJobFinalization_def Let_def split: prod.splits sum.splits bool.splits)
qed

lemma claim_wf: "bulk_wf db \<Longrightarrow> bulk_wf (snd (claimQueuedPricingBulkJobs locked now n t db))"
proof -
  assume wf: "bulk_wf db"
  let ?due = "select_due (claimable now) job_due locked n (bd_jobs db)"
  have due: "claimable now j" if a: "j \<in> set (bd_jobs db)" "bj_id j \<in> set (map bj_id ?due)" for j
  proof -
    obtain k where k: "k \<in> set ?due" "bj_id j = bj_id k" using a(2) by auto
    then have "k \<in> set (bd_jobs db)" "claimable now k" using select_due_subset by fast+
    then show ?thesis using same_job [OF wf a(1)] k(2) by simp
  qed
  show ?thesis
  proof (cases "update_jobs (\<lambda>j. bj_id j \<in> set (map bj_id ?due)) (claim_job t now) db")
    case (Inl e)
    then show ?thesis using wf by (simp add: claimQueuedPricingBulkJobs_def Let_def)
  next
    case (Inr r)
    obtain m db' where r: "r = (m, db')" by (cases r)
    have "bulk_wf db'"
      by (rule update_jobs_wf [OF wf Inr [unfolded r]])
        (use due in \<open>auto simp: claimable_def claim_job_def leased_state_def past_items_def\<close>)
    then show ?thesis using Inr r by (simp add: claimQueuedPricingBulkJobs_def Let_def)
  qed
qed

lemma settle_write_wf:
  assumes wf: "bulk_wf db"
    and s: "all_settled c \<Longrightarrow> leased_running (sp_token p) (bj_id (sp_job p)) db \<Longrightarrow> settled (bj_id (sp_job p)) db"
  shows "bulk_wf (snd (settle_write p c db))"
proof -
  let ?f = "if all_settled c then finalizing_job c (settle_attempts p) (sp_now p)
    else requeued_job c (settle_attempts p) (case sp_nextRunAt p of Some t \<Rightarrow> t | None \<Rightarrow> sp_now p)"
  let ?P = "holds_lease (sp_token p) (bj_id (sp_job p)) JobRunning"
  have "bulk_wf (snd (lease_write ?P ?f db))"
  proof (rule lease_write_wf [OF wf])
    fix j assume j: "j \<in> set (bd_jobs db)" "?P j"
    then have "leased_running (sp_token p) (bj_id (sp_job p)) db"
      by (auto simp: leased_running_def list_ex_iff)
    then show "bj_id (?f j) = bj_id j \<and> bj_total (?f j) = bj_total j \<and> leased_state (?f j) \<and>
        (past_items (bj_status (?f j)) \<longrightarrow> past_items (bj_status j) \<or> settled (bj_id j) db)"
      using s j by (auto simp: finalizing_job_def requeued_job_def lease_defs)
  qed
  moreover have "snd (settle_write p c db) = snd (lease_write ?P ?f db)"
    by (auto simp: settle_write_def lease_write_def split: sum.splits)
  ultimately show ?thesis by simp
qed

section \<open>Writes of the items\<close>

lemma update_items_jobs [simp]: "bd_jobs (update_items P f db) = bd_jobs db"
  by (simp add: update_items_def)

lemma leased_running_job:
  assumes "bulk_wf db" "leased_running t i db" "k \<in> set (bd_jobs db)" "bj_id k = i"
  shows "bj_status k = JobRunning \<and> bj_lockedBy k = Some t"
  using assms same_job [OF assms(1)] by (force simp: leased_running_def list_ex_iff holds_lease_def)

lemma owned_job_unique:
  assumes "bulk_wf db" "owned t i db" "k \<in> set (bd_jobs db)" "bj_id k = i"
  shows "bj_lockedBy k = Some t"
  using assms same_job [OF assms(1)] by (force simp: owned_def list_ex_iff)

lemma leased_running_owner:
  "bulk_wf db \<Longrightarrow> leased_running s i db \<Longrightarrow> owned t i db \<Longrightarrow> s = t"
  using owned_job_unique leased_running_job by (fastforce simp: leased_running_def list_ex_iff holds_lease_def)

lemma item_write_wf:
  assumes wf: "bulk_wf db" and f: "\<And>x. bi_id (f x) = bi_id x \<and> bi_jobId (f x) = bi_jobId x"
  shows "bulk_wf (snd (item_write i item t f db))"
  unfolding item_write_def Let_def snd_conv
  by (rule update_items_wf [OF wf]) (use f leased_running_job [OF wf] in \<open>auto simp: past_items_def\<close>)

lemma item_write_others:
  assumes wf: "bulk_wf db" and st: "s \<noteq> t" and own: "owned t i (snd (item_write k item s f db))"
    and f: "\<And>x. bi_jobId (f x) = bi_jobId x"
  shows "owned t i db \<and> kept i db (snd (item_write k item s f db))"
proof -
  have own': "owned t i db" using own by (simp add: item_write_def Let_def)
  have "\<not> (leased_running s k db \<and> k = i)" using leased_running_owner [OF wf _ own'] st by blast
  then have "kept i db (snd (item_write k item s f db))"
    unfolding item_write_def Let_def snd_conv by (intro update_items_kept) (auto simp: f)
  then show ?thesis using own' by simp
qed

lemma start_item_simps [simp]:
  "bi_id (start_item c x) = bi_id x" "bi_jobId (start_item c x) = bi_jobId x"
  "bi_id (succeed_item r c x) = bi_id x" "bi_jobId (succeed_item r c x) = bi_jobId x"
  "bi_id (fail_item e at c x) = bi_id x" "bi_jobId (fail_item e at c x) = bi_jobId x"
  "bi_id (exhaust_item c x) = bi_id x" "bi_jobId (exhaust_item c x) = bi_jobId x"
  "bi_id (recover_item n row x) = bi_id x" "bi_jobId (recover_item n row x) = bi_jobId x"
  "bi_id (requeue_item x) = bi_id x" "bi_jobId (requeue_item x) = bi_jobId x"
  "bi_id (cancel_item n x) = bi_id x" "bi_jobId (cancel_item n x) = bi_jobId x"
  by (simp_all add: start_item_def succeed_item_def fail_item_def exhaust_item_def recover_item_def
      requeue_item_def cancel_item_def)

lemma item_due:
  assumes wf: "bulk_wf db" and x: "x \<in> set (bd_items db)"
    and "bi_id x \<in> set (map bi_id (select_due P key locked n (bd_items db)))"
  shows "P x"
proof -
  obtain y where y: "y \<in> set (select_due P key locked n (bd_items db))" "bi_id x = bi_id y"
    using assms(3) by auto
  then have "y \<in> set (bd_items db)" "P y" using select_due_subset by fast+
  then show ?thesis using same_item [OF wf x] y(2) by simp
qed

lemma claim_items_db:
  "snd (claimPricingBulkJobItems locked i t n clock db) =
     update_items (\<lambda>x. bi_id x \<in> set (map bi_id (select_due (\<lambda>x. bi_jobId x = i \<and> bi_status x = ItemQueued \<and>
         leased_running t i db) bi_createdAt locked n (bd_items db))) \<and> bi_status x = ItemQueued)
       (start_item clock) db"
  by (simp add: claimPricingBulkJobItems_def Let_def)

lemma claim_items_wf: "bulk_wf db \<Longrightarrow> bulk_wf (snd (claimPricingBulkJobItems locked i t n clock db))"
  unfolding claim_items_db by (rule update_items_wf) (auto simp: unsettled_def)

lemma claim_items_others:
  assumes wf: "bulk_wf db" and st: "s \<noteq> t"
    and own: "owned t i (snd (claimPricingBulkJobItems locked k s n clock db))"
  shows "owned t i db \<and> kept i db (snd (claimPricingBulkJobItems locked k s n clock db))"
proof -
  have own': "owned t i db" using own by (simp add: claim_items_db)
  have no: "\<not> (leased_running s k db \<and> k = i)" using leased_running_owner [OF wf _ own'] st by blast
  have "kept i db (snd (claimPricingBulkJobItems locked k s n clock db))"
    unfolding claim_items_db
  proof (rule update_items_kept)
    fix x
    assume x: "x \<in> set (bd_items db)" "bi_jobId x = i"
      and "bi_id x \<in> set (map bi_id (select_due (\<lambda>x. bi_jobId x = k \<and> bi_status x = ItemQueued \<and>
         leased_running s k db) bi_createdAt locked n (bd_items db))) \<and> bi_status x = ItemQueued"
    then have "bi_jobId x = k \<and> leased_running s k db" using item_due [OF wf x(1)] by blast
    then show "item_kept x (start_item clock x)" using no x(2) by simp
  qed simp
  then show ?thesis using own' by simp
qed

lemma fail_queued_wf: "bulk_wf db \<Longrightarrow> bulk_wf (fail_queued_items i clock db)"
  unfolding fail_queued_items_def by (rule update_items_wf) (auto simp: unsettled_def exhaust_item_def)

lemma fail_queued_kept: "kept i db (fail_queued_items k clock db)"
  unfolding fail_queued_items_def
  by (rule update_items_kept) (auto simp: item_kept_def exhaust_item_def)

lemma fail_queued_owned [simp]: "owned t i (fail_queued_items k clock db) = owned t i db"
  by (simp add: fail_queued_items_def)

lemma store_materialization_wf: "bulk_wf db \<Longrightarrow> bulk_wf (store_materialization i r db)"
  unfolding store_materialization_def by (rule update_items_wf) auto

lemma store_materialization_kept: "kept i db (store_materialization k r db)"
  unfolding store_materialization_def by (rule update_items_kept) (auto simp: item_kept_def)

lemma fold_store_wf: "bulk_wf db \<Longrightarrow> bulk_wf (fold (store_materialization i) rs db)"
  by (induction rs arbitrary: db) (simp_all add: store_materialization_wf)

lemma fold_store_lease:
  "owned t i (fold (store_materialization k) rs db) = owned t i db"
  "kept i db (fold (store_materialization k) rs db)"
proof (induction rs arbitrary: db)
  case (Cons r rs)
  case 1
  then show ?case by (simp add: Cons.IH(1)) (simp add: store_materialization_def)
  case 2
  then show ?case using kept_trans [OF store_materialization_kept Cons.IH(2)] by simp
qed simp_all

lemma checkpoint_wf:
  assumes wf: "bulk_wf db"
  shows "bulk_wf (snd (checkpointPricingBulkMaterialization i t rs now db))"
proof -
  have "bulk_wf (snd (lease_write (holds_lease t i JobFinalizing) (\<lambda>j. j\<lparr>bj_materializedAt := Some now\<rparr>)
      (fold (store_materialization i) rs db)))"
    by (rule lease_write_wf [OF fold_store_wf [OF wf]]) (auto simp: lease_defs)
  then show ?thesis using wf
    by (auto simp: checkpointPricingBulkMaterialization_def split: prod.splits sum.splits)
qed

lemma checkpoint_others:
  assumes wf: "bulk_wf db" and st: "s \<noteq> t"
    and own: "owned t i (snd (checkpointPricingBulkMaterialization k s rs now db))"
  shows "owned t i db \<and> kept i db (snd (checkpointPricingBulkMaterialization k s rs now db))"
proof -
  let ?db1 = "fold (store_materialization k) rs db"
  let ?w = "lease_write (holds_lease s k JobFinalizing) (\<lambda>j. j\<lparr>bj_materializedAt := Some now\<rparr>) ?db1"
  have w: "owned t i (snd ?w) \<Longrightarrow> owned t i ?db1 \<and> kept i ?db1 (snd ?w)"
    by (rule lease_write_others [OF fold_store_wf [OF wf] st]) (auto simp: holds_lease_def)
  show ?thesis
  proof (cases "fst ?w")
    case (Inl e)
    then show ?thesis using own
      by (auto simp: checkpointPricingBulkMaterialization_def split: prod.splits sum.splits)
  next
    case (Inr b)
    then have eq: "snd (checkpointPricingBulkMaterialization k s rs now db) = snd ?w"
      by (auto simp: checkpointPricingBulkMaterialization_def split: prod.splits sum.splits)
    then have "owned t i ?db1 \<and> kept i ?db1 (snd ?w)" using w own by simp
    then show ?thesis using eq fold_store_lease(1) [of t i k rs db]
        kept_trans [OF fold_store_lease(2)] by metis
  qed
qed

section \<open>Recovery\<close>

lemma update_jobs_not_owned:
  assumes "update_jobs P f db = Inr (n, db')" "\<And>j. bj_id j = i \<Longrightarrow> P j"
    "\<And>j. bj_id (f j) = bj_id j" "\<And>j. bj_lockedBy (f j) = None"
  shows "\<not> owned t i db'"
  using assms by (auto simp: owned_def list_ex_iff update_jobs_Inr(1) [OF assms(1)] set_update_rows split: if_splits)

lemma recover_job_simps [simp]:
  "bj_id (recover_job now c row j) = bj_id j" "bj_total (recover_job now c row j) = bj_total j"
  "bj_lockedBy (recover_job now c row j) = None"
  "\<not> past_items (bj_status (recover_job now c row j))"
  by (simp_all add: recover_job_def with_counts_def unlocked_def past_items_def)

definition recover_items :: "ms \<Rightarrow> 'c bulk_job \<Rightarrow> ('c, 'p) bulk_db \<Rightarrow> ('c, 'p) bulk_db" where
  "recover_items now row db =
     update_items (\<lambda>x. bi_jobId x = bj_id row \<and> bi_status x = ItemRunning) (recover_item now row) db"

lemma recover_one_cases:
  assumes "recover_one now row db = Inr db'"
  obtains n where "bj_status row = JobFinalizing"
      "update_jobs (\<lambda>j. bj_id j = bj_id row) (defer_job now ''worker_lease_expired'' row) db = Inr (n, db')"
  | n where "bj_status row \<noteq> JobFinalizing"
      "update_jobs (\<lambda>j. bj_id j = bj_id row)
         (recover_job now (countsForJob (bj_id row) (recover_items now row db)) row)
         (recover_items now row db) = Inr (n, db')"
proof (cases "bj_status row = JobFinalizing")
  case True
  then show ?thesis using assms that(1)
    by (cases "update_jobs (\<lambda>j. bj_id j = bj_id row) (defer_job now ''worker_lease_expired'' row) db")
      (auto simp: recover_one_def)
next
  case False
  then show ?thesis using assms that(2)
    by (cases "update_jobs (\<lambda>j. bj_id j = bj_id row)
         (recover_job now (countsForJob (bj_id row) (recover_items now row db)) row)
         (recover_items now row db)")
      (auto simp: recover_one_def recover_items_def Let_def)
qed

lemma recover_items_wf:
  assumes wf: "bulk_wf db" and row: "row \<in> set (bd_jobs db)" "bj_status row = JobRunning"
  shows "bulk_wf (recover_items now row db)"
  unfolding recover_items_def
  by (rule update_items_wf [OF wf]) (auto simp: unsettled_def)

lemma recover_items_jobs [simp]: "bd_jobs (recover_items now row db) = bd_jobs db"
  by (simp add: recover_items_def update_items_def)

definition recoverable :: "'c bulk_job list \<Rightarrow> ('c, 'p) bulk_db \<Rightarrow> bool" where
  "recoverable rows db \<longleftrightarrow> set rows \<subseteq> set (bd_jobs db) \<and> distinct (map bj_id rows) \<and>
     list_all (\<lambda>j. bj_status j = JobRunning \<or> bj_status j = JobFinalizing) rows"

lemma recover_one_wf:
  assumes wf: "bulk_wf db" and r: "recoverable (row # rows) db" and ok: "recover_one now row db = Inr db'"
  shows "bulk_wf db'"
  using ok
proof (cases rule: recover_one_cases)
  case (1 n)
  have "bj_status j = JobFinalizing" if "j \<in> set (bd_jobs db)" "bj_id j = bj_id row" for j
    using same_job [OF wf that(1), of row] that(2) r 1(1) by (auto simp: recoverable_def)
  then show ?thesis
    by (intro update_jobs_wf [OF wf 1(2)]) (simp_all add: leased_state_def past_items_def)
next
  case (2 n)
  have "bulk_wf (recover_items now row db)"
    using r 2(1) by (intro recover_items_wf [OF wf]) (auto simp: recoverable_def)
  then show ?thesis by (rule update_jobs_wf [OF _ 2(2)]) (simp add: leased_state_def)
qed

lemma recover_one_others:
  assumes wf: "bulk_wf db" and r: "recoverable (row # rows) db"
    and ok: "recover_one now row db = Inr db'" and own: "owned t i db'"
  shows "owned t i db \<and> kept i db db'"
  using ok
proof (cases rule: recover_one_cases)
  case (1 n)
  show ?thesis by (rule update_jobs_lease [OF 1(2) _ _ wf own]) simp_all
next
  case (2 n)
  have wf1: "bulk_wf (recover_items now row db)"
    using r 2(1) by (intro recover_items_wf [OF wf]) (auto simp: recoverable_def)
  have a: "owned t i (recover_items now row db) \<and> kept i (recover_items now row db) db'"
    by (rule update_jobs_lease [OF 2(2) _ _ wf1 own]) simp_all
  have "bj_id row \<noteq> i"
  proof
    assume "bj_id row = i"
    then have "\<not> owned t i db'" by (intro update_jobs_not_owned [OF 2(2)]) simp_all
    then show False using own by simp
  qed
  then have "kept i db (recover_items now row db)"
    unfolding recover_items_def by (intro update_items_kept) auto
  then show ?thesis using a kept_trans by (auto simp: recover_items_def)
qed

lemma recover_one_recoverable:
  assumes r: "recoverable (row # rows) db" and ok: "recover_one now row db = Inr db'"
  shows "recoverable rows db'"
proof -
  have mem: "j \<in> set (bd_jobs db')" if j: "j \<in> set (bd_jobs db)" "bj_id j \<noteq> bj_id row" for j
    using ok
  proof (cases rule: recover_one_cases)
    case (1 n)
    then show ?thesis using j by (auto simp: update_jobs_Inr(1) [OF 1(2)] set_update_rows)
  next
    case (2 n)
    then show ?thesis using j by (auto simp: update_jobs_Inr(1) [OF 2(2)] set_update_rows)
  qed
  have "bj_id j \<noteq> bj_id row" if "j \<in> set rows" for j
  proof
    assume "bj_id j = bj_id row"
    then have "bj_id row \<in> bj_id ` set rows" using that by (metis imageI)
    then show False using r by (simp add: recoverable_def)
  qed
  then show ?thesis using r mem by (auto simp: recoverable_def)
qed

lemma recover_all_keeps:
  assumes "bulk_wf db" "recoverable rows db" "recover_all now rows db = Inr db'"
  shows "bulk_wf db' \<and> (owned t i db' \<longrightarrow> owned t i db \<and> kept i db db')"
  using assms
proof (induction rows arbitrary: db)
  case Nil
  then show ?case by simp
next
  case (Cons row rows)
  obtain db1 where one: "recover_one now row db = Inr db1" "recover_all now rows db1 = Inr db'"
    using Cons.prems(3) by (auto split: sum.splits)
  have ih: "bulk_wf db' \<and> (owned t i db' \<longrightarrow> owned t i db1 \<and> kept i db1 db')"
    by (rule Cons.IH [OF recover_one_wf [OF Cons.prems(1,2) one(1)]
        recover_one_recoverable [OF Cons.prems(2) one(1)] one(2)])
  then show ?case
    using recover_one_others [OF Cons.prems(1,2) one(1)] kept_trans by blast
qed

lemma recover_keeps:
  assumes wf: "bulk_wf db"
  shows "bulk_wf (snd (recoverExpiredPricingBulkJobLeases locked now leaseMs db))"
    and "owned t i (snd (recoverExpiredPricingBulkJobLeases locked now leaseMs db)) \<Longrightarrow>
      owned t i db \<and> kept i db (snd (recoverExpiredPricingBulkJobLeases locked now leaseMs db))"
proof -
  let ?rows = "sort_key (\<lambda>j. case bj_lockedAt j of Some t \<Rightarrow> t | None \<Rightarrow> 0)
    (filter (\<lambda>j. lease_expired (now - leaseMs) j \<and> \<not> locked j) (bd_jobs db))"
  have "distinct (map bj_id (filter (\<lambda>j. lease_expired (now - leaseMs) j \<and> \<not> locked j) (bd_jobs db)))"
    by (rule distinct_map_filter [OF bulk_wfD(1) [OF wf]])
  then have "distinct (map bj_id ?rows)" by (simp add: distinct_map)
  then have rec: "recoverable ?rows db" by (auto simp: recoverable_def list_all_iff lease_expired_def)
  show "bulk_wf (snd (recoverExpiredPricingBulkJobLeases locked now leaseMs db))"
    using recover_all_keeps [OF wf rec] wf
    by (auto simp: recoverExpiredPricingBulkJobLeases_def Let_def split: sum.splits)
  show "owned t i db \<and> kept i db (snd (recoverExpiredPricingBulkJobLeases locked now leaseMs db))"
    if "owned t i (snd (recoverExpiredPricingBulkJobLeases locked now leaseMs db))"
    using recover_all_keeps [OF wf rec] that
    by (auto simp: recoverExpiredPricingBulkJobLeases_def Let_def split: sum.splits)
qed

section \<open>The provider's operations\<close>

lemma enqueue_cases:
  obtains "snd (enqueue id input i ids now db) = db"
  | targets act risk where
      "job_by_id i db = None" "length targets = length (ei_ratePlanIds input)"
      "job_checks (new_job input i (length targets) now)"
      "snd (enqueue id input i ids now db) = write_audit (ei_providerId input) (ei_requestedBy input) act i risk
         (db\<lparr>bd_jobs := bd_jobs db @ [new_job input i (length targets) now],
            bd_items := bd_items db @ map (new_item i now) (zip ids targets)\<rparr>)"
proof (cases "job_by_key (ei_providerId input) (ei_idempotencyKey input) db")
  case (Some j)
  then show ?thesis by (intro that(1)) (simp add: enqueue_def)
next
  case key: None
  show ?thesis
  proof (cases "resolveOwnedTargets (ei_providerId input) (ei_ratePlanIds input) db")
    case (Inl e)
    then show ?thesis using key by (intro that(1)) (simp add: enqueue_def)
  next
    case (Inr targets)
    then have len: "length targets = length (ei_ratePlanIds input)"
      by (auto simp: resolveOwnedTargets_def Let_def split: if_splits)
    show ?thesis
    proof (cases "job_checks (new_job input i (length targets) now) \<and> job_by_id i db = None")
      case True
      then show ?thesis using key Inr len
        by (intro that(2) [of targets]) (simp_all add: enqueue_def Let_def)
    next
      case False
      then show ?thesis using key Inr by (intro that(1)) (auto simp: enqueue_def Let_def)
    qed
  qed
qed

lemma new_item_simps [simp]:
  "bi_jobId (new_item i now z) = i" "bi_id (new_item i now z) = fst z"
  by (simp_all add: new_item_def split: prod.splits)

lemma new_job_simps [simp]:
  "bj_id (new_job input i n now) = i" "bj_lockedBy (new_job input i n now) = None"
  "bj_status (new_job input i n now) = JobQueued" "bj_total (new_job input i n now) = int n"
  by (simp_all add: new_job_def)

lemma enqueue_wf:
  assumes wf: "bulk_wf db" and fresh: "fresh_ids (EnqueueJob input i ids now) db"
  shows "bulk_wf (snd (enqueue id input i ids now db))"
proof (rule enqueue_cases [of input i ids now db])
  fix targets :: "plan_row list" and act risk
  let ?j = "new_job input i (length targets) now"
  let ?new = "map (new_item i now) (zip ids targets)"
  let ?db = "db\<lparr>bd_jobs := bd_jobs db @ [?j], bd_items := bd_items db @ ?new\<rparr>"
  assume none: "job_by_id i db = None" and len: "length targets = length (ei_ratePlanIds input)"
    and ok: "job_checks ?j"
    and db: "snd (enqueue id input i ids now db) =
      write_audit (ei_providerId input) (ei_requestedBy input) act i risk ?db"
  have i: "bj_id j \<noteq> i" if "j \<in> set (bd_jobs db)" for j
    using none that by (auto simp: job_by_id_def find_None_all)
  have orphan: "bi_jobId x \<noteq> i" if "x \<in> set (bd_items db)" for x
  proof
    assume "bi_jobId x = i"
    then have "i \<in> bj_id ` set (bd_jobs db)" using wf that by (auto simp: bulk_wf_def)
    then show False using i by auto
  qed
  have keys: "map bi_id ?new = ids" using fresh len by (simp add: comp_def)
  have "job_wf ?db j" if j: "j \<in> set (bd_jobs db)" for j
    using bulk_wfD(3) [OF wf j] i [OF j]
    by (auto simp: job_wf_def job_size_def settled_def list_all_iff filter_empty_conv)
  moreover have "job_wf ?db ?j"
    using ok len fresh orphan
    by (auto simp: job_wf_def leased_state_def past_items_def job_size_def filter_empty_conv)
  moreover have "distinct (map bi_id (bd_items db @ ?new))"
    using fresh bulk_wfD(2) [OF wf] by (auto simp only: map_append keys distinct_append fresh_ids.simps set_map)
  ultimately have "bulk_wf ?db" using wf i by (auto simp: bulk_wf_def list_all_iff)
  then show ?thesis by (simp add: db)
qed (use wf in simp)

lemma find_append_other: "(\<And>y. y \<in> set ys \<Longrightarrow> \<not> P y) \<Longrightarrow> List.find P (xs @ ys) = List.find P xs"
proof (induction xs)
  case Nil
  then show ?case by (simp add: find_None_all)
qed simp

lemma enqueue_others:
  assumes wf: "bulk_wf db" and own: "owned t i (snd (enqueue id input k ids now db))"
  shows "owned t i db \<and> kept i db (snd (enqueue id input k ids now db))"
proof (rule enqueue_cases [of input k ids now db])
  fix targets :: "plan_row list" and act risk
  let ?j = "new_job input k (length targets) now"
  let ?db = "db\<lparr>bd_jobs := bd_jobs db @ [?j],
    bd_items := bd_items db @ map (new_item k now) (zip ids targets)\<rparr>"
  assume none: "job_by_id k db = None" and db: "snd (enqueue id input k ids now db) =
      write_audit (ei_providerId input) (ei_requestedBy input) act k risk ?db"
  have own': "owned t i db" using own by (simp add: db) (simp add: owned_def)
  then obtain j where j: "j \<in> set (bd_jobs db)" "bj_id j = i" by (auto simp: owned_def list_ex_iff)
  then have ki: "k \<noteq> i" using none by (auto simp: job_by_id_def find_None_all)
  then have "List.find (\<lambda>j. bj_id j = i) (bd_jobs db @ [?j]) = List.find (\<lambda>j. bj_id j = i) (bd_jobs db)"
    by (intro find_append_other) simp
  moreover have "filter (\<lambda>x. bi_jobId x = i) (bd_items ?db) = filter (\<lambda>x. bi_jobId x = i) (bd_items db)"
    using ki by (auto simp: filter_empty_conv)
  ultimately have "kept i db ?db" by (simp add: kept_def job_by_id_def list.rel_refl)
  then show ?thesis using own' by (simp add: db)
qed (use own in simp)

lemma owned_job_mem:
  "owned_job provider i db = Some row \<Longrightarrow> row \<in> set (bd_jobs db) \<and> bj_id row = i \<and> bj_providerId row = provider"
  by (auto simp: owned_job_def dest: find_Some_mem)

lemma items_with_iff [simp]:
  "x \<in> set (items_with i st db) \<longleftrightarrow> x \<in> set (bd_items db) \<and> bi_jobId x = i \<and> bi_status x = st"
  by (simp add: items_with_def)

lemma reopen_simps [simp]:
  "bj_id (reopen_finalization now j) = bj_id j" "bj_total (reopen_finalization now j) = bj_total j"
  "bj_lockedBy (reopen_finalization now j) = None" "bj_status (reopen_finalization now j) = JobFinalizing"
  "bj_id (requeue_job n now row j) = bj_id j" "bj_total (requeue_job n now row j) = bj_total j"
  "bj_lockedBy (requeue_job n now row j) = None" "bj_status (requeue_job n now row j) = JobQueued"
  "bj_id (cancel_job now row j) = bj_id j" "bj_total (cancel_job now row j) = bj_total j"
  "bj_lockedBy (cancel_job now row j) = bj_lockedBy j" "bj_status (cancel_job now row j) = JobCancelled"
  by (simp_all add: reopen_finalization_def requeue_job_def cancel_job_def)

text \<open>The failed items of the job, by their ids.\<close>

definition requeue_failed :: "string \<Rightarrow> ('c, 'p) bulk_db \<Rightarrow> ('c, 'p) bulk_db" where
  "requeue_failed i db =
     update_items (\<lambda>x. bi_id x \<in> set (map bi_id (items_with i ItemFailed db))) requeue_item db"

lemma items_by_id:
  assumes "bulk_wf db" "x \<in> set (bd_items db)" "bi_id x \<in> set (map bi_id (items_with i st db))"
  shows "bi_jobId x = i \<and> bi_status x = st"
proof -
  obtain y where "y \<in> set (items_with i st db)" "bi_id x = bi_id y" using assms(3) by auto
  then show ?thesis using same_item [OF assms(1,2)] by auto
qed

lemma retry_cases:
  obtains "snd (retryFailed provider actor i now db) = db"
  | row n db1 act risk where "row \<in> set (bd_jobs db)" "bj_id row = i" "bj_status row = JobRequiresAttention"
      "update_jobs (\<lambda>j. bj_id j = i) (reopen_finalization now) db = Inr (n, db1)"
      "snd (retryFailed provider actor i now db) = write_audit provider actor act i risk db1"
  | row n db1 act risk where "row \<in> set (bd_jobs db)" "bj_id row = i"
      "bj_status row = JobFailed \<or> bj_status row = JobPartial"
      "update_jobs (\<lambda>j. bj_id j = i) (requeue_job (length (items_with i ItemFailed db)) now row)
         (requeue_failed i db) = Inr (n, db1)"
      "snd (retryFailed provider actor i now db) = write_audit provider actor act i risk db1"
proof (cases "owned_job provider i db")
  case None
  then show ?thesis by (intro that(1)) (simp add: retryFailed_def)
next
  case (Some row)
  note row = owned_job_mem [OF Some]
  consider (attention) "bj_status row = JobRequiresAttention"
    | (failed) "bj_status row = JobFailed \<or> bj_status row = JobPartial"
    | (other) "bj_status row \<notin> {JobRequiresAttention, JobFailed, JobPartial}" by auto
  then show ?thesis
  proof cases
    case attention
    show ?thesis
    proof (cases "update_jobs (\<lambda>j. bj_id j = i) (reopen_finalization now) db")
      case (Inl e)
      then show ?thesis using Some attention by (intro that(1)) (simp add: retryFailed_def)
    next
      case (Inr r)
      then show ?thesis using Some attention row
        by (cases r) (auto intro!: that(2) [of row] simp: retryFailed_def)
    qed
  next
    case failed
    show ?thesis
    proof (cases "update_jobs (\<lambda>j. bj_id j = i) (requeue_job (length (items_with i ItemFailed db)) now row)
         (requeue_failed i db)")
      case (Inl e)
      then show ?thesis using Some failed
        by (intro that(1)) (auto simp: retryFailed_def requeue_failed_def Let_def)
    next
      case (Inr r)
      show ?thesis
      proof (cases "items_with i ItemFailed db = []")
        case True
        then show ?thesis using Some failed by (intro that(1)) (auto simp: retryFailed_def)
      next
        case False
        obtain n db1 where r: "r = (n, db1)" by (cases r)
        have "snd (retryFailed provider actor i now db) =
            write_audit provider actor ''pricing.bulk_job.retry_requested'' i MediumRisk db1"
          using Some failed False Inr r by (auto simp: retryFailed_def requeue_failed_def Let_def)
        then show ?thesis using that(3) row failed Inr r by blast
      qed
    qed
  next
    case other
    then show ?thesis using Some by (intro that(1)) (simp add: retryFailed_def)
  qed
qed

lemma requeue_failed_jobs [simp]: "bd_jobs (requeue_failed i db) = bd_jobs db"
  by (simp add: requeue_failed_def update_items_def)

text \<open>The job is no longer past its items when they are queued again, so the order of the writes is free.\<close>

lemma retry_wf:
  assumes wf: "bulk_wf db"
  shows "bulk_wf (snd (retryFailed provider actor i now db))"
proof (rule retry_cases [of provider actor i now db])
  fix row n db1 act risk
  assume row: "row \<in> set (bd_jobs db)" "bj_id row = i" "bj_status row = JobRequiresAttention"
    and u: "update_jobs (\<lambda>j. bj_id j = i) (reopen_finalization now) db = Inr (n, db1)"
    and db: "snd (retryFailed provider actor i now db) = write_audit provider actor act i risk db1"
  have "bj_status j = JobRequiresAttention" if "j \<in> set (bd_jobs db)" "bj_id j = i" for j
    using same_job [OF wf that(1) row(1)] that(2) row(2,3) by simp
  then have "bulk_wf db1"
    by (intro update_jobs_wf [OF wf u]) (simp_all add: leased_state_def past_items_def)
  then show ?thesis by (simp add: db)
next
  fix row n db1 act risk
  assume row: "row \<in> set (bd_jobs db)" "bj_id row = i"
    and u: "update_jobs (\<lambda>j. bj_id j = i) (requeue_job (length (items_with i ItemFailed db)) now row)
         (requeue_failed i db) = Inr (n, db1)"
    and db: "snd (retryFailed provider actor i now db) = write_audit provider actor act i risk db1"
  obtain d where d: "update_jobs (\<lambda>j. bj_id j = i)
        (requeue_job (length (items_with i ItemFailed db)) now row) db = Inr (n, d)"
      "db1 = update_items (\<lambda>x. bi_id x \<in> set (map bi_id (items_with i ItemFailed db))) requeue_item d"
    using u unfolding requeue_failed_def update_items_commute
    by (cases "update_jobs (\<lambda>j. bj_id j = i) (requeue_job (length (items_with i ItemFailed db)) now row) db")
      auto
  have "bulk_wf d" by (rule update_jobs_wf [OF wf d(1)]) (simp add: leased_state_def past_items_def)
  moreover have "\<not> past_items (bj_status j)" if j: "j \<in> set (bd_jobs d)" "bj_id j = i" for j
  proof -
    obtain k where k: "j = (if bj_id k = i
        then requeue_job (length (items_with i ItemFailed db)) now row k else k)"
      using j(1) unfolding update_jobs_Inr(1) [OF d(1)] set_update_rows by (elim imageE) (erule that)
    then have "bj_id k = i" using j(2) by (cases "bj_id k = i") simp_all
    then have "bj_status j = JobQueued" by (simp add: k)
    then show ?thesis by (simp add: past_items_def)
  qed
  moreover have "bi_jobId x = i" if "x \<in> set (bd_items d)"
      "bi_id x \<in> set (map bi_id (items_with i ItemFailed db))" for x
    using items_by_id [OF wf _ that(2)] that(1) by (simp add: update_jobs_Inr(2) [OF d(1)])
  ultimately have "bulk_wf db1" unfolding d(2) by (intro update_items_wf) auto
  then show ?thesis by (simp add: db)
qed (use wf in simp)

lemma retry_others:
  assumes wf: "bulk_wf db" and own: "owned t i (snd (retryFailed provider actor k now db))"
  shows "owned t i db \<and> kept i db (snd (retryFailed provider actor k now db))"
proof (rule retry_cases [of provider actor k now db])
  fix row n db1 act risk
  assume u: "update_jobs (\<lambda>j. bj_id j = k) (reopen_finalization now) db = Inr (n, db1)"
    and db: "snd (retryFailed provider actor k now db) = write_audit provider actor act k risk db1"
  have own1: "owned t i db1" using own by (simp add: db)
  have "owned t i db \<and> kept i db db1" by (rule update_jobs_lease [OF u _ _ wf own1]) simp_all
  then show ?thesis by (simp add: db)
next
  fix row n db1 act risk
  assume u: "update_jobs (\<lambda>j. bj_id j = k) (requeue_job (length (items_with k ItemFailed db)) now row)
         (requeue_failed k db) = Inr (n, db1)"
    and db: "snd (retryFailed provider actor k now db) = write_audit provider actor act k risk db1"
  have own1: "owned t i db1" using own by (simp add: db)
  have ki: "k \<noteq> i"
  proof
    assume "k = i"
    then have "\<not> owned t i db1" by (intro update_jobs_not_owned [OF u]) simp_all
    then show False using own1 by simp
  qed
  obtain d where d: "update_jobs (\<lambda>j. bj_id j = k)
        (requeue_job (length (items_with k ItemFailed db)) now row) db = Inr (n, d)"
      "db1 = update_items (\<lambda>x. bi_id x \<in> set (map bi_id (items_with k ItemFailed db))) requeue_item d"
    using u unfolding requeue_failed_def update_items_commute
    by (cases "update_jobs (\<lambda>j. bj_id j = k) (requeue_job (length (items_with k ItemFailed db)) now row) db")
      auto
  have "owned t i d" using own1 by (simp add: d(2))
  then have a: "owned t i db \<and> kept i db d" by (intro update_jobs_lease [OF d(1) _ _ wf]) simp_all
  have "kept i d db1" unfolding d(2)
  proof (rule update_items_kept)
    fix x
    assume "x \<in> set (bd_items d)" "bi_id x \<in> set (map bi_id (items_with k ItemFailed db))" "bi_jobId x = i"
    then show "item_kept x (requeue_item x)"
      using items_by_id [OF wf, of x k ItemFailed] ki by (simp add: update_jobs_Inr(2) [OF d(1)])
  qed simp
  then show ?thesis using a kept_trans by (auto simp: db)
qed (use own in simp)

lemma cancel_cases:
  obtains "snd (cancelQueued provider actor i now db) = db"
  | row n db1 act risk where "row \<in> set (bd_jobs db)" "bj_id row = i" "bj_status row = JobQueued"
      "int (length (items_with i ItemQueued db)) = bj_total row"
      "update_jobs (\<lambda>j. bj_id j = i \<and> bj_status j = JobQueued \<and> bj_attempts j = 0 \<and> bj_startedAt j = None)
         (cancel_job now row) db = Inr (n, db1)"
      "snd (cancelQueued provider actor i now db) = write_audit provider actor act i risk
         (update_items (\<lambda>x. bi_id x \<in> set (map bi_id (items_with i ItemQueued db))) (cancel_item now) db1)"
proof (cases "owned_job provider i db")
  case None
  then show ?thesis by (intro that(1)) (simp add: cancelQueued_def)
next
  case (Some row)
  note row = owned_job_mem [OF Some]
  let ?P = "\<lambda>j. bj_id j = i \<and> bj_status j = JobQueued \<and> bj_attempts j = 0 \<and> bj_startedAt j = None"
  show ?thesis
  proof (cases "bj_status row = JobQueued \<and> bj_attempts row = 0 \<and> bj_startedAt row = None \<and>
      int (length (items_with i ItemQueued db)) = bj_total row")
    case False
    then show ?thesis using Some by (intro that(1)) (auto simp: cancelQueued_def Let_def)
  next
    case True
    show ?thesis
    proof (cases "update_jobs ?P (cancel_job now row) db")
      case (Inl e)
      then show ?thesis using Some True by (intro that(1)) (simp add: cancelQueued_def Let_def)
    next
      case (Inr r)
      obtain n db1 where r: "r = (n, db1)" by (cases r)
      show ?thesis
      proof (cases "n = 0")
        case True
        then show ?thesis using Some Inr r \<open>bj_status row = JobQueued \<and> _\<close>
          by (intro that(1)) (simp add: cancelQueued_def Let_def)
      next
        case False
        then show ?thesis using Some Inr r row \<open>bj_status row = JobQueued \<and> _\<close>
          by (intro that(2) [of row n db1]) (simp_all add: cancelQueued_def Let_def)
      qed
    qed
  qed
qed

lemma all_queued:
  assumes "length (filter (\<lambda>x. P x \<and> Q x) xs) = length (filter P xs)" "x \<in> set xs" "P x"
  shows "Q x"
proof (rule ccontr)
  assume "\<not> Q x"
  then have "length (filter Q (filter P xs)) < length (filter P xs)"
    by (intro length_filter_less [of x]) (use assms(2,3) in simp_all)
  then show False using assms(1) by (simp add: conj_commute)
qed

lemma cancel_queued_wf:
  assumes wf: "bulk_wf db"
  shows "bulk_wf (snd (cancelQueued provider actor i now db))"
proof (rule cancel_cases [of provider actor i now db])
  fix row n db1 act risk
  let ?P = "\<lambda>j. bj_id j = i \<and> bj_status j = JobQueued \<and> bj_attempts j = 0 \<and> bj_startedAt j = None"
  let ?ids = "set (map bi_id (items_with i ItemQueued db))"
  let ?db = "update_items (\<lambda>x. bi_id x \<in> ?ids) (cancel_item now) db"
  assume row: "row \<in> set (bd_jobs db)" "bj_id row = i" "bj_status row = JobQueued"
    and count: "int (length (items_with i ItemQueued db)) = bj_total row"
    and u: "update_jobs ?P (cancel_job now row) db = Inr (n, db1)"
    and db: "snd (cancelQueued provider actor i now db) = write_audit provider actor act i risk
       (update_items (\<lambda>x. bi_id x \<in> ?ids) (cancel_item now) db1)"
  have wf1: "bulk_wf ?db"
    by (rule update_items_wf [OF wf]) (simp_all add: cancel_item_def unsettled_def)
  have "bj_total row = job_size i db" using bulk_wfD(3) [OF wf row(1)] row(2) by (simp add: job_wf_def)
  then have "length (filter (\<lambda>x. bi_jobId x = i \<and> bi_status x = ItemQueued) (bd_items db)) =
      length (filter (\<lambda>x. bi_jobId x = i) (bd_items db))"
    using count by (simp add: job_size_def items_with_def)
  then have queued: "bi_status x = ItemQueued" if "x \<in> set (bd_items db)" "bi_jobId x = i" for x
    using all_queued [of "\<lambda>x. bi_jobId x = i" "\<lambda>x. bi_status x = ItemQueued"] that by blast
  have st: "settled i ?db"
    using queued
    by (auto simp: settled_def update_items_def list_all_iff set_update_rows unsettled_def cancel_item_def)
  have u': "update_jobs ?P (cancel_job now row) ?db =
      Inr (n, update_items (\<lambda>x. bi_id x \<in> ?ids) (cancel_item now) db1)"
    by (simp only: update_items_commute u) simp
  have ls: "leased_state (cancel_job now row j)" if "j \<in> set (bd_jobs db)" "?P j" for j
    using bulk_wfD(3) [OF wf that(1)] that(2) by (auto simp: job_wf_def leased_state_def)
  have "bulk_wf (update_items (\<lambda>x. bi_id x \<in> ?ids) (cancel_item now) db1)"
    by (rule update_jobs_wf [OF wf1 u']) (use st ls in auto)
  then show ?thesis by (simp add: db)
qed (use wf in simp)

lemma cancel_others:
  assumes wf: "bulk_wf db" and own: "owned t i (snd (cancelQueued provider actor k now db))"
  shows "owned t i db \<and> kept i db (snd (cancelQueued provider actor k now db))"
proof (rule cancel_cases [of provider actor k now db])
  fix row n db1 act risk
  let ?P = "\<lambda>j. bj_id j = k \<and> bj_status j = JobQueued \<and> bj_attempts j = 0 \<and> bj_startedAt j = None"
  let ?ids = "set (map bi_id (items_with k ItemQueued db))"
  assume row: "row \<in> set (bd_jobs db)" "bj_id row = k" "bj_status row = JobQueued"
    and u: "update_jobs ?P (cancel_job now row) db = Inr (n, db1)"
    and db: "snd (cancelQueued provider actor k now db) = write_audit provider actor act k risk
       (update_items (\<lambda>x. bi_id x \<in> ?ids) (cancel_item now) db1)"
  have own1: "owned t i db1" using own by (simp add: db)
  have free: "bj_lockedBy j = None" if "j \<in> set (bd_jobs db)" "bj_status j = JobQueued" for j
    using bulk_wfD(3) [OF wf that(1)] that(2) by (auto simp: job_wf_def leased_state_def)
  have a: "owned t i db \<and> kept i db db1"
    by (rule update_jobs_lease [OF u _ _ wf own1]) (use free in auto)
  have ki: "k \<noteq> i"
    using owned_job_unique [OF wf conjunct1 [OF a] row(1)] free [OF row(1,3)] row(2) by auto
  have "kept i db1 (update_items (\<lambda>x. bi_id x \<in> ?ids) (cancel_item now) db1)"
  proof (rule update_items_kept)
    fix x
    assume "x \<in> set (bd_items db1)" "bi_id x \<in> ?ids" "bi_jobId x = i"
    then show "item_kept x (cancel_item now x)"
      using items_by_id [OF wf, of x k ItemQueued] ki by (simp add: update_jobs_Inr(2) [OF u])
  qed simp
  then show ?thesis using a kept_trans by (auto simp: db)
qed (use own in simp)

end
