(* ===== verification/Bulk_Interleaving.thy ===== *)
theory Bulk_Interleaving
  imports Bulk_Sessions
begin

text \<open>
  Every interleaving of the sessions: the step relation, its invariant, and the contract of a lease
  (\<open>leased_store\<close>) for the bulk pricing tables.
\<close>

section \<open>The step relation\<close>

datatype 'c settle_stage =
    Idle
  | ToExhaust "'c settle_params"
  | ToRecount "'c settle_params"
  | ToWrite "'c settle_params" job_counts

record ('c, 'p) bulk_world =
  bw_db :: "('c, 'p) bulk_db"
  bw_stage :: "string \<Rightarrow> 'c settle_stage"

abbreviation to_stage :: "string \<Rightarrow> 'c settle_stage \<Rightarrow> ('c, 'p) bulk_world \<Rightarrow> ('c, 'p) bulk_world" where
  "to_stage t m w \<equiv> w\<lparr>bw_stage := (bw_stage w)(t := m)\<rparr>"

abbreviation settle_job :: "'c settle_params \<Rightarrow> string" where
  "settle_job p \<equiv> bj_id (sp_job p)"

definition counted :: "'c settle_params \<Rightarrow> ('c, 'p) bulk_db \<Rightarrow> 'c settle_stage" where
  "counted p db = (let c = countsForJob (settle_job p) db
     in if must_exhaust p c then ToExhaust p else ToWrite p c)"

inductive bulk_step :: "string option \<Rightarrow> ('c, 'p) bulk_world \<Rightarrow> ('c, 'p) bulk_world \<Rightarrow> bool" where
  worker: "bw_stage w t = Idle \<Longrightarrow>
    bulk_step (Some t) w (w\<lparr>bw_db := worker_step t c (bw_db w)\<rparr>)"
| provider: "fresh_ids c (bw_db w) \<Longrightarrow> bulk_step None w (w\<lparr>bw_db := provider_step c (bw_db w)\<rparr>)"
| count_items: "bw_stage w t = Idle \<Longrightarrow> sp_token p = t \<Longrightarrow>
    bulk_step (Some t) w (to_stage t (counted p (bw_db w)) w)"
| exhaust: "bw_stage w t = ToExhaust p \<Longrightarrow>
    bulk_step (Some t) w (to_stage t (ToRecount p)
      (w\<lparr>bw_db := fail_queued_items (settle_job p) clock (bw_db w)\<rparr>))"
| recount: "bw_stage w t = ToRecount p \<Longrightarrow>
    bulk_step (Some t) w (to_stage t (ToWrite p (countsForJob (settle_job p) (bw_db w))) w)"
| write_job: "bw_stage w t = ToWrite p c \<Longrightarrow>
    bulk_step (Some t) w (to_stage t Idle (w\<lparr>bw_db := snd (settle_write p c (bw_db w))\<rparr>))"

text \<open>The statements of one call, run without a pause, are the call.\<close>

lemma settle_is_its_statements:
  assumes "bw_stage w t = Idle" "sp_token p = t"
  shows "(bulk_step (Some t))\<^sup>*\<^sup>* w (w\<lparr>bw_db := snd (settlePricingBulkJobItems p clock (bw_db w))\<rparr>)"
proof -
  let ?db = "bw_db w" and ?i = "settle_job p"
  let ?c = "countsForJob ?i ?db"
  have idle: "to_stage t Idle w = w" using assms(1) by (cases w) (auto simp: fun_upd_idem)
  have first: "bulk_step (Some t) w (to_stage t (counted p ?db) w)"
    by (rule count_items [OF assms])
  show ?thesis
  proof (cases "must_exhaust p ?c")
    case False
    then have "bulk_step (Some t) (to_stage t (ToWrite p ?c) w)
        (to_stage t Idle ((to_stage t (ToWrite p ?c) w)\<lparr>bw_db := snd (settle_write p ?c ?db)\<rparr>))"
      using write_job [of "to_stage t (ToWrite p ?c) w" t p ?c] by simp
    then show ?thesis using first False assms(1)
      by (auto simp: counted_def settlePricingBulkJobItems_def Let_def fun_upd_idem
          intro: rtranclp.rtrancl_into_rtrancl)
  next
    case True
    let ?db1 = "fail_queued_items ?i clock ?db"
    let ?w1 = "to_stage t (ToRecount p) (w\<lparr>bw_db := ?db1\<rparr>)"
    let ?w2 = "to_stage t (ToWrite p (countsForJob ?i ?db1)) (w\<lparr>bw_db := ?db1\<rparr>)"
    have "bulk_step (Some t) w (to_stage t (ToExhaust p) w)"
      using first True by (simp add: counted_def)
    moreover have "bulk_step (Some t) (to_stage t (ToExhaust p) w) ?w1"
      using exhaust [of "to_stage t (ToExhaust p) w" t p clock] by simp
    moreover have "bulk_step (Some t) ?w1 ?w2"
      using recount [of ?w1 t p] by simp
    moreover have "bulk_step (Some t) ?w2 (w\<lparr>bw_db := snd (settlePricingBulkJobItems p clock ?db)\<rparr>)"
      using write_job [of ?w2 t p "countsForJob ?i ?db1"] True assms(1)
      by (simp add: settlePricingBulkJobItems_def Let_def fun_upd_idem)
    ultimately show ?thesis by (meson rtranclp.rtrancl_refl rtranclp.rtrancl_into_rtrancl)
  qed
qed

section \<open>The contract of a lease\<close>

lemma worker_step_wf: "bulk_wf db \<Longrightarrow> bulk_wf (worker_step t c db)"
  by (cases c) (auto intro: claim_wf release_wf refresh_wf claim_items_wf checkpoint_wf effect_wf
      complete_wf defer_wf item_write_wf simp: markPricingBulkItemSucceeded_def markPricingBulkItemFailed_def)

lemma provider_step_wf: "bulk_wf db \<Longrightarrow> fresh_ids c db \<Longrightarrow> bulk_wf (provider_step c db)"
  by (cases c) (auto intro: enqueue_wf retry_wf cancel_queued_wf recover_keeps(1) simp del: fresh_ids.simps(1))

lemma complete_others:
  assumes wf: "bulk_wf db" and st: "s \<noteq> t"
    and own: "owned t i (snd (completePricingBulkJobFinalization row s now db))"
  shows "owned t i db \<and> kept i db (snd (completePricingBulkJobFinalization row s now db))"
proof -
  let ?w = "lease_write (holds_lease s (bj_id row) JobFinalizing)
    (completed_job (countsForJob (bj_id row) db) row now) db"
  have w: "owned t i (snd ?w) \<Longrightarrow> owned t i db \<and> kept i db (snd ?w)"
    by (rule lease_write_others [OF wf st]) simp_all
  have "snd (completePricingBulkJobFinalization row s now db) = db \<or>
      (\<exists>p a act e r. snd (completePricingBulkJobFinalization row s now db) = write_audit p a act e r (snd ?w))"
    by (auto simp: completePricingBulkJobFinalization_def Let_def split: prod.splits sum.splits bool.splits)
      blast+
  then show ?thesis using w own by auto
qed

lemma defer_others:
  assumes wf: "bulk_wf db" and st: "s \<noteq> t"
    and own: "owned t i (snd (deferPricingBulkJobFinalization row s now code db))"
  shows "owned t i db \<and> kept i db (snd (deferPricingBulkJobFinalization row s now code db))"
proof -
  let ?w = "lease_write (holds_lease s (bj_id row) JobFinalizing) (defer_job now code row) db"
  have w: "owned t i (snd ?w) \<Longrightarrow> owned t i db \<and> kept i db (snd ?w)"
    by (rule lease_write_others [OF wf st]) simp_all
  have "snd (deferPricingBulkJobFinalization row s now code db) = snd ?w \<or>
      (\<exists>p a act e r. snd (deferPricingBulkJobFinalization row s now code db) = write_audit p a act e r (snd ?w))"
    by (auto simp: deferPricingBulkJobFinalization_def split: prod.splits sum.splits) blast+
  then show ?thesis using w own by auto
qed

lemma claim_others:
  assumes wf: "bulk_wf db" and st: "s \<noteq> t"
    and own: "owned t i (snd (claimQueuedPricingBulkJobs locked now n s db))"
  shows "owned t i db \<and> kept i db (snd (claimQueuedPricingBulkJobs locked now n s db))"
proof -
  let ?due = "map bj_id (select_due (claimable now) job_due locked n (bd_jobs db))"
  let ?w = "lease_write (\<lambda>j. bj_id j \<in> set ?due) (claim_job s now) db"
  have w: "owned t i (snd ?w) \<Longrightarrow> owned t i db \<and> kept i db (snd ?w)"
    by (rule lease_write_others [OF wf st]) simp_all
  have "snd (claimQueuedPricingBulkJobs locked now n s db) = snd ?w"
    by (auto simp: claimQueuedPricingBulkJobs_def lease_write_def Let_def split: sum.splits)
  then show ?thesis using w own by simp
qed

lemma worker_step_others:
  assumes "bulk_wf db" "s \<noteq> t" "owned t i (worker_step s c db)"
  shows "owned t i db \<and> kept i db (worker_step s c db)"
proof (cases c)
  case (ReleaseLease k now)
  then show ?thesis using assms unfolding releasePricingBulkJobLease_def
    by (simp add: releasePricingBulkJobLease_def)
      (rule lease_write_others [OF assms(1,2)], simp_all add: unlocked_def)
next
  case (RefreshLease k now)
  then show ?thesis using assms
    by (simp add: refreshPricingBulkJobLease_def)
      (rule lease_write_others [OF assms(1,2)], auto simp: holds_any_lease_def holds_lease_def)
next
  case (CheckpointEffect k stage now)
  then show ?thesis using assms
    by (simp add: checkpointPricingBulkEffect_def)
      (rule lease_write_others [OF assms(1,2)], auto simp: holds_lease_def split: effect_stage.splits)
next
  case (MarkSucceeded k x r clock)
  then show ?thesis using assms item_write_others [OF assms(1,2)]
    by (simp add: markPricingBulkItemSucceeded_def)
next
  case (MarkFailed k x code at clock)
  then show ?thesis using assms item_write_others [OF assms(1,2)]
    by (simp add: markPricingBulkItemFailed_def)
qed (use assms claim_others claim_items_others checkpoint_others complete_others defer_others in
    \<open>simp_all del: bulk_step.intros\<close>)

lemma provider_step_others:
  assumes "bulk_wf db" "owned t i (provider_step c db)"
  shows "owned t i db \<and> kept i db (provider_step c db)"
  using assms by (cases c) (simp_all add: enqueue_others retry_others cancel_others recover_keeps(2))

lemma settle_write_others:
  assumes wf: "bulk_wf db" and st: "sp_token p \<noteq> t" and own: "owned t i (snd (settle_write p c db))"
  shows "owned t i db \<and> kept i db (snd (settle_write p c db))"
proof -
  let ?w = "lease_write (holds_lease (sp_token p) (settle_job p) JobRunning)
    (if all_settled c then finalizing_job c (settle_attempts p) (sp_now p)
     else requeued_job c (settle_attempts p) (case sp_nextRunAt p of Some t \<Rightarrow> t | None \<Rightarrow> sp_now p)) db"
  have w: "owned t i (snd ?w) \<Longrightarrow> owned t i db \<and> kept i db (snd ?w)"
    by (rule lease_write_others [OF wf st])
      (auto simp: holds_lease_def finalizing_job_def requeued_job_def with_counts_def unlocked_def)
  have "snd (settle_write p c db) = snd ?w"
    by (auto simp: settle_write_def lease_write_def split: sum.splits)
  then show ?thesis using w own by simp
qed

text \<open>
  A step taken where the tables are well formed. What a lease protects: the job row, and of its items
  everything but the failing of one that is still queued, which a session whose lease was lost can do.
\<close>

definition lease_act ::
  "string option \<Rightarrow> ('c, 'p) bulk_world \<Rightarrow> ('c, 'p) bulk_world \<Rightarrow> bool" where
  "lease_act s w w' \<longleftrightarrow> bulk_wf (bw_db w) \<and>
     (\<forall>t p. (\<exists>c. bw_stage w t = ToWrite p c) \<longrightarrow> sp_token p = t) \<and> bulk_step s w w'"

lemma lease_act_others:
  assumes "lease_act s w w'" "s \<noteq> Some t" "owned t i (bw_db w')"
  shows "owned t i (bw_db w) \<and> kept i (bw_db w) (bw_db w')"
proof -
  have wf: "bulk_wf (bw_db w)" and st: "bulk_step s w w'" using assms(1) by (auto simp: lease_act_def)
  show ?thesis using st
  proof (cases rule: bulk_step.cases)
    case (worker u c)
    then show ?thesis using worker_step_others [OF wf, of u t] assms(2,3) by simp
  next
    case (provider c)
    then show ?thesis using provider_step_others [OF wf] assms(3) by simp
  next
    case (exhaust u p clock)
    then show ?thesis using fail_queued_kept assms(3) by simp
  next
    case (write_job u p c)
    then have "sp_token p = u" using assms(1) by (auto simp: lease_act_def)
    then show ?thesis using settle_write_others [OF wf, of p t i c] write_job assms(2,3) by simp
  qed (use assms(3) in simp_all)
qed

interpretation bulk_lease: leased_store lease_act
  "\<lambda>t i w. owned t i (bw_db w)" "\<lambda>i w w'. kept i (bw_db w) (bw_db w')"
  by unfold_locales (auto dest: lease_act_others intro: kept_trans)

section \<open>The invariant of the steps\<close>

definition stage_ok :: "('c, 'p) bulk_db \<Rightarrow> string \<Rightarrow> 'c settle_stage \<Rightarrow> bool" where
  "stage_ok db t m \<longleftrightarrow> (case m of Idle \<Rightarrow> True | ToExhaust p \<Rightarrow> sp_token p = t | ToRecount p \<Rightarrow> sp_token p = t
     | ToWrite p c \<Rightarrow> sp_token p = t \<and>
         (all_settled c \<longrightarrow> leased_running t (settle_job p) db \<longrightarrow> settled (settle_job p) db))"

lemmas stage_ok_simps [simp] = stage_ok_def [where m = Idle, simplified]
  stage_ok_def [where m = "ToExhaust p" for p, simplified]
  stage_ok_def [where m = "ToRecount p" for p, simplified]
  stage_ok_def [where m = "ToWrite p c" for p c, simplified]

definition world_inv :: "('c, 'p) bulk_world \<Rightarrow> bool" where
  "world_inv w \<longleftrightarrow> bulk_wf (bw_db w) \<and> (\<forall>t. stage_ok (bw_db w) t (bw_stage w t))"

lemma all_settled_iff: "all_settled (countsForJob i db) \<longleftrightarrow> settled i db"
  by (auto simp: all_settled_def countsForJob_def count_status_def settled_def unsettled_def items_with_def
      list_all_iff filter_empty_conv)

lemma leased_running_owned: "leased_running t i db \<Longrightarrow> owned t i db"
  by (auto simp: leased_running_def owned_def list_ex_iff holds_lease_def)

lemma kept_leased_running:
  assumes "bulk_wf db" "owned t i db" "kept i db db'" "bulk_wf db'" "leased_running t i db'"
  shows "leased_running t i db"
proof -
  obtain j where j: "j \<in> set (bd_jobs db')" "holds_lease t i JobRunning j"
    using assms(5) by (auto simp: leased_running_def list_ex_iff)
  then have "job_by_id i db' = Some j"
    using find_unique [OF bulk_wfD(1) [OF assms(4)] j(1)] by (simp add: job_by_id_def holds_lease_def)
  then have "job_by_id i db = Some j" using assms(3) by (simp add: kept_def)
  then have "j \<in> set (bd_jobs db)" by (auto simp: job_by_id_def dest: find_Some_mem)
  then show ?thesis using j(2) by (auto simp: leased_running_def list_ex_iff)
qed

text \<open>What a session has counted stays true while it holds the lease, whatever the others do.\<close>

lemma stage_ok_others:
  assumes "bulk_wf db" "bulk_wf db'" "stage_ok db t m"
    and "\<And>i. owned t i db' \<Longrightarrow> owned t i db \<and> kept i db db'"
  shows "stage_ok db' t m"
proof (cases m)
  case (ToWrite p c)
  have "settled (settle_job p) db'" if "all_settled c" "leased_running t (settle_job p) db'"
    using that assms ToWrite kept_settled kept_leased_running [OF assms(1) _ _ assms(2)]
      leased_running_owned by (metis stage_ok_simps(4))
  then show ?thesis using assms(3) ToWrite by simp
qed (use assms(3) in simp_all)

lemma bulk_step_keeps:
  assumes inv: "world_inv w" and st: "bulk_step s w w'"
  shows "world_inv w'"
proof -
  have wf: "bulk_wf (bw_db w)" and ok: "stage_ok (bw_db w) t (bw_stage w t)" for t
    using inv by (simp_all add: world_inv_def)
  have act: "lease_act s w w'"
    using wf st ok unfolding lease_act_def by (metis stage_ok_simps(4))
  have other: "stage_ok (bw_db w') t (bw_stage w t)" if "s \<noteq> Some t" "bulk_wf (bw_db w')" for t
    by (rule stage_ok_others [OF wf that(2) ok]) (rule lease_act_others [OF act that(1)])
  show ?thesis using st
  proof (cases rule: bulk_step.cases)
    case (worker u c)
    have wf': "bulk_wf (bw_db w')" using worker worker_step_wf [OF wf] by simp
    have "stage_ok (bw_db w') t (bw_stage w' t)" for t
      using other [OF _ wf', of t] worker by (cases "t = u") auto
    then show ?thesis using wf' by (simp add: world_inv_def)
  next
    case (provider c)
    have wf': "bulk_wf (bw_db w')" using provider provider_step_wf [OF wf] by simp
    have "stage_ok (bw_db w') t (bw_stage w' t)" for t using other [OF _ wf', of t] provider by auto
    then show ?thesis using wf' by (simp add: world_inv_def)
  next
    case (count_items u p)
    then have "stage_ok (bw_db w) u (counted p (bw_db w))"
      by (simp add: counted_def Let_def all_settled_iff)
    then show ?thesis using count_items wf ok by (simp add: world_inv_def)
  next
    case (exhaust u p clock)
    have wf': "bulk_wf (bw_db w')" using exhaust fail_queued_wf [OF wf] by simp
    have "stage_ok (bw_db w') t (bw_stage w' t)" for t
      using other [OF _ wf', of t] exhaust ok [of u] by (cases "t = u") auto
    then show ?thesis using wf' by (simp add: world_inv_def)
  next
    case (recount u p)
    then have "stage_ok (bw_db w) u (ToWrite p (countsForJob (settle_job p) (bw_db w)))"
      using ok [of u] by (simp add: all_settled_iff)
    then show ?thesis using recount wf ok by (simp add: world_inv_def)
  next
    case (write_job u p c)
    then have "stage_ok (bw_db w) u (ToWrite p c)" using ok [of u] by simp
    then have wf': "bulk_wf (bw_db w')" using write_job settle_write_wf [OF wf, of c p] by simp
    have "stage_ok (bw_db w') t (bw_stage w' t)" for t
      using other [OF _ wf', of t] write_job by (cases "t = u") auto
    then show ?thesis using wf' by (simp add: world_inv_def)
  qed
qed

definition bulk_steps :: "('c, 'p) bulk_world \<Rightarrow> ('c, 'p) bulk_world \<Rightarrow> bool" where
  "bulk_steps = (\<lambda>w w'. \<exists>s. bulk_step s w w')\<^sup>*\<^sup>*"

lemma bulk_steps_keep: "bulk_steps w w' \<Longrightarrow> world_inv w \<Longrightarrow> world_inv w'"
  unfolding bulk_steps_def by (induction rule: rtranclp_induct) (auto intro: bulk_step_keeps)

definition empty_world :: "plan_row list \<Rightarrow> ('c, 'p) bulk_world" where
  "empty_world plans = \<lparr>bw_db = \<lparr>bd_jobs = [], bd_items = [], bd_plans = plans, bd_audit = []\<rparr>,
     bw_stage = \<lambda>_. Idle\<rparr>"

lemma empty_world_inv: "world_inv (empty_world plans)"
  by (simp add: world_inv_def empty_world_def bulk_wf_def)

end
