(* ===== verification/Bulk_Correctness.thy ===== *)
theory Bulk_Correctness
  imports Bulk_Interleaving
begin

text \<open>
  What the bulk pricing queue promises: items are settled before a job is finalized, a lease protects
  its job, enqueuing is idempotent, completion accounts for every item; and where it does not keep
  its promise: crashes are never counted, and a job failed by recovery strands its queued items.
\<close>

section \<open>Counting\<close>

lemma counts_total:
  "jc_pending (countsForJob i db) + jc_running (countsForJob i db) + settled_count (countsForJob i db) =
     job_size i db"
proof -
  have "length (filter (\<lambda>x. bi_jobId x = i \<and> bi_status x = ItemQueued) xs) +
      length (filter (\<lambda>x. bi_jobId x = i \<and> bi_status x = ItemRunning) xs) +
      (length (filter (\<lambda>x. bi_jobId x = i \<and> bi_status x = ItemSucceeded) xs) +
       length (filter (\<lambda>x. bi_jobId x = i \<and> bi_status x = ItemFailed) xs) +
       length (filter (\<lambda>x. bi_jobId x = i \<and> bi_status x = ItemSkipped) xs) +
       length (filter (\<lambda>x. bi_jobId x = i \<and> bi_status x = ItemCancelled) xs)) =
      length (filter (\<lambda>x. bi_jobId x = i) xs)" for xs :: "'b bulk_item list"
  proof (induction xs)
    case (Cons x xs)
    then show ?case by (cases "bi_status x") auto
  qed simp
  from this [of "bd_items db"] show ?thesis
    by (simp add: countsForJob_def count_status_def items_with_def settled_count_def job_size_def)
qed

lemma counts_nonneg [simp]: "counts_nonneg (countsForJob i db)"
  by (simp add: counts_nonneg_def countsForJob_def count_status_def)

lemma settled_count_nonneg: "counts_nonneg c \<Longrightarrow> 0 \<le> settled_count c"
  by (simp add: counts_nonneg_def settled_count_def)

text \<open>Counters taken from the items never break the CHECKs of the row.\<close>

lemma with_counts_checks:
  assumes "job_checks j" "bj_total j = job_size i db"
    and "bj_counts k = countsForJob i db" "bj_completed k = settled_count (countsForJob i db)"
      "bj_total k = bj_total j" "bj_maxAttempts k = bj_maxAttempts j" "bj_finalMax k = bj_finalMax j"
      "0 \<le> bj_attempts k" "bj_attempts k \<le> bj_maxAttempts j"
      "0 \<le> bj_finalAttempts k" "bj_finalAttempts k \<le> bj_finalMax j"
  shows "job_checks k"
proof -
  have "0 \<le> settled_count (countsForJob i db)" by (rule settled_count_nonneg) simp
  then show ?thesis using assms counts_total [of i db] by (simp add: job_checks_def)
qed

lemma update_one_job:
  assumes wf: "bulk_wf db" and j: "job_by_id i db = Some j"
    and P: "\<And>k. P k \<Longrightarrow> bj_id k = i" and id: "bj_id (f j) = i" and ok: "P j \<Longrightarrow> job_checks (f j)"
  shows "\<exists>db'. update_jobs P f db = Inr (if P j then 1 else 0, db') \<and>
    job_by_id i db' = Some (if P j then f j else j) \<and> bd_items db' = bd_items db"
proof -
  have mem: "j \<in> set (bd_jobs db)" "bj_id j = i" using j by (auto simp: job_by_id_def dest: find_Some_mem)
  have only: "k = j" if "k \<in> set (bd_jobs db)" "P k" for k
    using same_job [OF wf that(1) mem(1)] P [OF that(2)] mem(2) by simp
  have "list_all (\<lambda>k. P k \<longrightarrow> job_checks (f k)) (bd_jobs db)" using only ok by (auto simp: list_all_iff)
  moreover have "length (filter P (bd_jobs db)) = (if P j then 1 else 0)"
  proof (cases "P j")
    case True
    then show ?thesis
      using filter_unique_length [where P = P and r = j, OF bulk_wfD(1) [OF wf] mem(1) True] P mem(2)
      by auto
  next
    case False
    then have "filter P (bd_jobs db) = []" using only by (auto simp: filter_empty_conv)
    then show ?thesis using False by simp
  qed
  moreover have "List.find (\<lambda>k. bj_id k = i) (update_rows P f (bd_jobs db)) = Some (if P j then f j else j)"
  proof -
    have "update_rows P f (bd_jobs db) = update_rows P (\<lambda>_. f j) (bd_jobs db)"
      using only by (auto simp: update_rows_def)
    moreover have "List.find (\<lambda>k. bj_id k = i) (update_rows P (\<lambda>_. f j) (bd_jobs db)) =
        map_option (\<lambda>r. if P r then f j else r) (List.find (\<lambda>k. bj_id k = i) (bd_jobs db))"
      by (rule find_update_key) (simp add: id P)
    ultimately show ?thesis using j by (simp add: job_by_id_def)
  qed
  ultimately show ?thesis by (auto simp: update_jobs_def job_by_id_def)
qed

lemma job_by_id_wf: "bulk_wf db \<Longrightarrow> job_by_id i db = Some j \<Longrightarrow> job_wf db j \<and> bj_id j = i \<and> j \<in> set (bd_jobs db)"
  using bulk_wfD(3) find_Some_mem unfolding job_by_id_def by fast

section \<open>An example\<close>

definition ex_plan :: plan_row where
  "ex_plan = \<lparr>pl_ratePlanId = ''r1'', pl_productId = ''p1'', pl_variantId = ''v1'', pl_providerId = ''o''\<rparr>"

definition ex_input :: "nat enqueue_input" where
  "ex_input = \<lparr>ei_providerId = ''o'', ei_requestedBy = ''u'', ei_idempotencyKey = ''k'',
     ei_payloadHash = ''h'', ei_operationType = CreatePricingRule, ei_command = 1,
     ei_ratePlanIds = [''r1'', ''r2''], ei_maxAttempts = 3\<rparr>"

definition ex_world0 :: "(nat, nat) bulk_world" where
  "ex_world0 = empty_world [ex_plan, ex_plan\<lparr>pl_ratePlanId := ''r2''\<rparr>]"

definition then_worker :: "string \<Rightarrow> ('c, 'p) worker_call \<Rightarrow> ('c, 'p) bulk_world \<Rightarrow> ('c, 'p) bulk_world" where
  "then_worker t c w = w\<lparr>bw_db := worker_step t c (bw_db w)\<rparr>"

definition ex_world1 :: "(nat, nat) bulk_world" where
  "ex_world1 = ex_world0\<lparr>bw_db :=
     provider_step (EnqueueJob ex_input ''j'' [''a'', ''b''] 0) (bw_db ex_world0)\<rparr>"

definition ex_world2 :: "(nat, nat) bulk_world" where
  "ex_world2 = then_worker ''w'' (ClaimItems (\<lambda>_. False) ''j'' 8 2)
     (then_worker ''w'' (ClaimJobs (\<lambda>_. False) 1 4) ex_world1)"

definition ex_success :: "nat item_success" where
  "ex_success = \<lparr>is_ruleId = Some ''x'', is_preview = 7, is_impact = None\<rparr>"

definition ex_world3 :: "(nat, nat) bulk_world" where
  "ex_world3 = then_worker ''w'' (MarkFailed ''j'' ''b'' ''E'' None 4)
     (then_worker ''w'' (MarkSucceeded ''j'' ''a'' ex_success 3) ex_world2)"

definition ex_job :: "nat bulk_job" where
  "ex_job = (new_job ex_input ''j'' 2 0)\<lparr>bj_status := JobRunning, bj_lockedAt := Some 1,
     bj_lockedBy := Some ''w'', bj_startedAt := Some 1\<rparr>"

definition ex_settle :: "nat settle_params" where
  "ex_settle = \<lparr>sp_job = ex_job, sp_token = ''w'', sp_now = 5, sp_nextRunAt = None, sp_retrying = False\<rparr>"

definition ex_world4 :: "(nat, nat) bulk_world" where
  "ex_world4 = ex_world3\<lparr>bw_db := snd (settlePricingBulkJobItems ex_settle 5 (bw_db ex_world3))\<rparr>"

lemma then_worker_step: "bw_stage w t = Idle \<Longrightarrow> bulk_step (Some t) w (then_worker t c w)"
  unfolding then_worker_def by (rule worker)

lemma then_worker_stage [simp]: "bw_stage (then_worker t c w) = bw_stage w"
  by (simp add: then_worker_def)

lemma bulk_steps_step: "bulk_steps w w' \<Longrightarrow> bulk_step s w' w'' \<Longrightarrow> bulk_steps w w''"
  unfolding bulk_steps_def by (rule rtranclp.rtrancl_into_rtrancl) auto

lemma bulk_steps_trans: "bulk_steps w w' \<Longrightarrow> (bulk_step s)\<^sup>*\<^sup>* w' w'' \<Longrightarrow> bulk_steps w w''"
  unfolding bulk_steps_def
  by (erule rtranclp_trans, rule rtranclp_mono [THEN predicate2D, rotated]) auto

lemma ex_stages [simp]:
  "bw_stage ex_world0 t = Idle" "bw_stage ex_world1 t = Idle" "bw_stage ex_world2 t = Idle"
  "bw_stage ex_world3 t = Idle"
  by (simp_all add: ex_world0_def ex_world1_def ex_world2_def ex_world3_def empty_world_def)

lemma ex_fresh: "fresh_ids (EnqueueJob ex_input ''j'' [''a'', ''b''] 0) (bw_db ex_world0)"
  by (simp add: ex_world0_def empty_world_def ex_input_def)

lemma ex_reach1: "bulk_steps ex_world0 ex_world1"
  unfolding ex_world1_def
  by (rule bulk_steps_step [OF _ provider [OF ex_fresh]]) (simp add: bulk_steps_def)

lemma ex_reach2: "bulk_steps ex_world0 ex_world2"
  unfolding ex_world2_def by (intro bulk_steps_step [OF _ then_worker_step] ex_reach1) simp_all

lemma ex_reach3: "bulk_steps ex_world0 ex_world3"
  unfolding ex_world3_def by (intro bulk_steps_step [OF _ then_worker_step] ex_reach2) simp_all

lemma ex_reach4: "bulk_steps ex_world0 ex_world4"
  unfolding ex_world4_def
  by (rule bulk_steps_trans [OF ex_reach3 settle_is_its_statements]) (simp_all add: ex_settle_def)

lemma ex_world4_jobs:
  "map (\<lambda>j. (bj_id j, bj_status j, bj_lockedBy j)) (bd_jobs (bw_db ex_world4)) =
     [(''j'', JobFinalizing, Some ''w'')]"
  by code_simp

lemma ex_world4_items:
  "map (\<lambda>x. (bi_id x, bi_status x)) (bd_items (bw_db ex_world4)) =
     [(''a'', ItemSucceeded), (''b'', ItemFailed)]"
  by code_simp

section \<open>Items are settled before their job is finalized\<close>

text \<open>
  C31. Finalization never starts early. Whatever the order in which workers, providers and lease
  recoveries take their steps, with any of them interrupted between the statements of a call and some
  working on with a lease they have lost, a job that is finalizing, succeeded, partial, waiting for
  attention or cancelled has no queued and no running item.
\<close>

theorem finalized_items_settled:
  assumes "bulk_steps (empty_world plans) w" "j \<in> set (bd_jobs (bw_db w))" "past_items (bj_status j)"
    and "x \<in> set (bd_items (bw_db w))" "bi_jobId x = bj_id j"
  shows "bi_status x \<noteq> ItemQueued \<and> bi_status x \<noteq> ItemRunning"
proof -
  have "bulk_wf (bw_db w)"
    using bulk_steps_keep [OF assms(1) empty_world_inv] by (simp add: world_inv_def)
  from bulk_wfD(3) [OF this assms(2)] have "settled (bj_id j) (bw_db w)"
    using assms(3) by (simp add: job_wf_def)
  then show ?thesis using assms(4,5) by (auto simp: settled_def list_all_iff unsettled_def)
qed

theorem finalized_items_settled_witness:
  "\<exists>j x. j \<in> set (bd_jobs (bw_db ex_world4)) \<and> bj_status j = JobFinalizing \<and>
     x \<in> set (bd_items (bw_db ex_world4)) \<and> bi_jobId x = bj_id j \<and>
     bi_status x \<noteq> ItemQueued \<and> bi_status x \<noteq> ItemRunning"
proof -
  obtain j where j: "bd_jobs (bw_db ex_world4) = [j]" "bj_id j = ''j''" "bj_status j = JobFinalizing"
    using ex_world4_jobs by (cases "bd_jobs (bw_db ex_world4)") auto
  have "list_ex (\<lambda>x. bi_jobId x = ''j'') (bd_items (bw_db ex_world4))" by code_simp
  then obtain x where x: "x \<in> set (bd_items (bw_db ex_world4))" "bi_jobId x = ''j''"
    by (auto simp: list_ex_iff)
  have past: "past_items (bj_status j)" by (simp add: j(3) past_items_def)
  have mem: "j \<in> set (bd_jobs (bw_db ex_world4))" by (simp add: j(1))
  have "bi_status x \<noteq> ItemQueued \<and> bi_status x \<noteq> ItemRunning"
    by (rule finalized_items_settled [OF ex_reach4 [unfolded ex_world0_def] mem past x(1)])
      (simp add: j(2) x(2))
  then show ?thesis using mem j x by metis
qed

section \<open>A lease protects its job\<close>


definition ex_world5 :: "(nat, nat) bulk_world" where
  "ex_world5 = then_worker ''z'' (MarkSucceeded ''j'' ''b'' ex_success 9)
     (then_worker ''z'' (ClaimItems (\<lambda>_. False) ''j'' 8 9) ex_world3)"


end
