(* ===== verification/Bulk_Outcomes.thy ===== *)
theory Bulk_Outcomes
  imports Bulk_Correctness
begin

text \<open>
  Outcomes of the bulk pricing operations: enqueuing, completion, and what recovery does to a job whose
  worker crashes.
\<close>

section \<open>Enqueuing\<close>

lemma fst_set_zip: "length xs = length ys \<Longrightarrow> snd ` set (zip xs ys) = set ys"
  by (metis list.set_map map_snd_zip)

lemma new_item_ratePlan: "bi_ratePlanId (new_item i now z) = pl_ratePlanId (snd z)"
  by (simp add: new_item_def split: prod.split)

text \<open>
  Enqueuing is idempotent. A request that creates a job creates exactly one queued item for each
  of its rate plans, all of them the provider's own; the same request again returns the same job and
  changes nothing, and the same key with another payload is refused and changes nothing.
\<close>

theorem enqueue_idempotent:
  assumes "enqueue id input i ids now db = (Inr (j, False), db')" "bulk_wf db"
    and "fresh_ids (EnqueueJob input i ids now) db" "distinct (ei_ratePlanIds input)"
      "distinct (map pl_ratePlanId (bd_plans db))"
  shows "bi_ratePlanId ` {x \<in> set (bd_items db'). bi_jobId x = i \<and> bi_status x = ItemQueued} =
      set (ei_ratePlanIds input) \<and>
    job_size i db' = int (length (ei_ratePlanIds input)) \<and>
    (\<forall>r \<in> set (ei_ratePlanIds input). \<exists>p \<in> set (bd_plans db). pl_ratePlanId p = r \<and>
      pl_providerId p = ei_providerId input) \<and>
    enqueue others input i2 ids2 now2 db' = (Inr (j, True), db') \<and>
    (h \<noteq> ei_payloadHash input \<longrightarrow> enqueue others (input\<lparr>ei_payloadHash := h\<rparr>) i2 ids2 now2 db' =
      (Inl (BulkError ''bulk_job_idempotency_conflict'' 409), db'))"
proof -
  let ?rows = "filter (\<lambda>r. pl_ratePlanId r \<in> set (ei_ratePlanIds input)) (bd_plans db)"
  have key: "job_by_key (ei_providerId input) (ei_idempotencyKey input) db = None"
    using assms(1) by (auto simp: enqueue_def replay_job_def split: option.splits if_splits)
  have res: "resolveOwnedTargets (ei_providerId input) (ei_ratePlanIds input) db = Inr ?rows"
    using assms(1) key by (auto simp: enqueue_def resolveOwnedTargets_def Let_def split: if_splits)
  then have len: "length ?rows = length (ei_ratePlanIds input)"
    and own: "\<forall>r \<in> set ?rows. pl_providerId r = ei_providerId input"
    by (auto simp: resolveOwnedTargets_def Let_def list_ex_iff split: if_splits)
  obtain act risk where i: "job_by_id i db = None" and j: "j = new_job input i (length ?rows) now"
    and db': "db' = write_audit (ei_providerId input) (ei_requestedBy input) act i risk
      (db\<lparr>bd_jobs := bd_jobs db @ [j], bd_items := bd_items db @ map (new_item i now) (zip ids ?rows)\<rparr>)"
    using assms(1) key res by (auto simp: enqueue_def Let_def split: if_splits option.splits)
  have idl: "length ids = length ?rows" using assms(3) len by simp
  have none: "bi_jobId x \<noteq> i" if "x \<in> set (bd_items db)" for x
  proof
    assume "bi_jobId x = i"
    then have "i \<in> bj_id ` set (bd_jobs db)" using assms(2) that by (auto simp: bulk_wf_def)
    then show False using i by (auto simp: job_by_id_def find_None_all)
  qed
  have ids: "pl_ratePlanId ` set ?rows = set (ei_ratePlanIds input)"
  proof -
    have "distinct (map pl_ratePlanId ?rows)" by (rule distinct_map_filter [OF assms(5)])
    then have "card (pl_ratePlanId ` set ?rows) = length ?rows"
      using distinct_card [of "map pl_ratePlanId ?rows"] by simp
    moreover have "card (set (ei_ratePlanIds input)) = length (ei_ratePlanIds input)"
      by (rule distinct_card [OF assms(4)])
    ultimately show ?thesis using len by (intro card_subset_eq) auto
  qed
  have items: "{x \<in> set (bd_items db'). bi_jobId x = i \<and> bi_status x = ItemQueued} =
      new_item i now ` set (zip ids ?rows)"
    using none by (auto simp: db' write_audit_def new_item_def)
  have "bi_ratePlanId ` (new_item i now ` set (zip ids ?rows)) = pl_ratePlanId ` (snd ` set (zip ids ?rows))"
    by (simp add: image_image new_item_ratePlan)
  then have a: "bi_ratePlanId ` {x \<in> set (bd_items db'). bi_jobId x = i \<and> bi_status x = ItemQueued} =
      set (ei_ratePlanIds input)"
    using fst_set_zip [OF idl] ids by (simp add: items)
  have b: "job_size i db' = int (length (ei_ratePlanIds input))"
    using none idl len by (simp add: job_size_def db' write_audit_def filter_empty_conv)
  have c: "\<forall>r \<in> set (ei_ratePlanIds input). \<exists>p \<in> set (bd_plans db). pl_ratePlanId p = r \<and>
      pl_providerId p = ei_providerId input"
  proof
    fix r assume "r \<in> set (ei_ratePlanIds input)"
    then have "r \<in> pl_ratePlanId ` set ?rows" using ids by simp
    then obtain p where "p \<in> set ?rows" "pl_ratePlanId p = r" by auto
    then show "\<exists>p \<in> set (bd_plans db). pl_ratePlanId p = r \<and> pl_providerId p = ei_providerId input"
      using own by auto
  qed
  have "List.find (\<lambda>k. bj_providerId k = ei_providerId input \<and> bj_idempotencyKey k = ei_idempotencyKey input)
      (xs @ [j]) = Some j"
    if "List.find (\<lambda>k. bj_providerId k = ei_providerId input \<and> bj_idempotencyKey k = ei_idempotencyKey input)
      xs = None" for xs
    using that by (induction xs) (auto simp: j new_job_def split: if_splits)
  then have found: "job_by_key (ei_providerId input) (ei_idempotencyKey input) db' = Some j"
    using key by (simp add: job_by_key_def db' write_audit_def)
  have hash: "bj_payloadHash j = ei_payloadHash input" by (simp add: j new_job_def)
  show ?thesis using a b c found hash by (simp add: enqueue_def replay_job_def)
qed

theorem enqueue_idempotent_witness:
  "\<exists>db'. enqueue id ex_input ''j'' [''a'', ''b''] 0 (bw_db ex_world0) =
      (Inr (new_job ex_input ''j'' 2 0, False), db') \<and>
    enqueue id ex_input ''z'' [] 9 db' = (Inr (new_job ex_input ''j'' 2 0, True), db')"
proof -
  have one: "enqueue id ex_input ''j'' [''a'', ''b''] 0 (bw_db ex_world0) =
      (Inr (new_job ex_input ''j'' 2 0, False),
       snd (enqueue id ex_input ''j'' [''a'', ''b''] 0 (bw_db ex_world0)))"
    by code_simp
  have wf: "bulk_wf (bw_db ex_world0)" by (simp add: ex_world0_def empty_world_def bulk_wf_def)
  have "distinct (ei_ratePlanIds ex_input)" "distinct (map pl_ratePlanId (bd_plans (bw_db ex_world0)))"
    by code_simp+
  from enqueue_idempotent [OF one wf ex_fresh this, of id "''z''" "[]" 9 "''x''"] one show ?thesis
    by blast
qed

section \<open>Completion\<close>

lemma terminal_iff:
  "counts_nonneg c \<Longrightarrow> terminalStatus c = JobSucceeded \<longleftrightarrow> jc_failed c = 0"
  by (simp add: terminalStatus_def)



end
