(* ===== verification/Bulk_Crashes.thy ===== *)
theory Bulk_Crashes
  imports Bulk_Correctness
begin

text \<open>
  What recovery does to a job whose worker crashes: the crash is not counted in the job's attempts, and
  a job that recovery declares failed keeps its queued items for ever.
\<close>

section \<open>Recovering one job\<close>

lemma recover_items_count:
  "bd_items (recover_items now row db) = update_rows
     (\<lambda>x. bi_jobId x = bj_id row \<and> bi_status x = ItemRunning) (recover_item now row) (bd_items db)"
  by (simp add: recover_items_def update_items_def)

lemma recover_running:
  assumes wf: "bulk_wf db" and j: "j \<in> set (bd_jobs db)" "bj_status j = JobRunning"
  shows "\<exists>db'. recover_one now j db = Inr db' \<and> bulk_wf db' \<and>
    job_by_id (bj_id j) db' = Some (recover_job now (countsForJob (bj_id j) db') j j) \<and>
    bd_items db' = bd_items (recover_items now j db)"
proof -
  let ?db1 = "recover_items now j db" and ?i = "bj_id j"
  let ?k = "recover_job now (countsForJob ?i ?db1) j j"
  have wf1: "bulk_wf ?db1" by (rule recover_items_wf [OF wf j])
  have found: "job_by_id ?i ?db1 = Some j"
    using find_unique [OF bulk_wfD(1) [OF wf] j(1)] by (simp add: job_by_id_def)
  have jwf: "job_wf ?db1 j" using job_by_id_wf [OF wf1 found] by simp
  have "job_checks ?k"
    by (rule with_counts_checks [where j = j and db = ?db1 and i = ?i])
      (use jwf in \<open>simp_all add: job_wf_def recover_job_def with_counts_def unlocked_def job_checks_def\<close>)
  then obtain db' where db': "update_jobs (\<lambda>k. bj_id k = ?i)
      (recover_job now (countsForJob ?i ?db1) j) ?db1 = Inr (1, db')"
      "job_by_id ?i db' = Some ?k" "bd_items db' = bd_items ?db1"
    using update_one_job [OF wf1 found, of "\<lambda>k. bj_id k = ?i"
        "recover_job now (countsForJob ?i ?db1) j"] by auto
  have one: "recover_one now j db = Inr db'"
    using db'(1) j(2) by (simp add: recover_one_def Let_def recover_items_def)
  have "bulk_wf db'"
    by (rule recover_one_wf [OF wf _ one, of "[]"]) (use j in \<open>simp add: recoverable_def\<close>)
  moreover have "countsForJob ?i db' = countsForJob ?i ?db1"
    using db'(3) by (simp add: countsForJob_def count_status_def items_with_def)
  ultimately show ?thesis using one db' by auto
qed

section \<open>Crashes are not counted\<close>

text \<open>A worker claims what is due, dies, and its lease is recovered once it has expired.\<close>

fun crash_rounds :: "string \<Rightarrow> ms \<Rightarrow> nat \<Rightarrow> ms \<Rightarrow> ('c, 'p) bulk_db \<Rightarrow> ('c, 'p) bulk_db" where
  "crash_rounds t lease 0 now db = db"
| "crash_rounds t lease (Suc k) now db =
     crash_rounds t lease k (now + lease + 1)
       (snd (recoverExpiredPricingBulkJobLeases (\<lambda>_. False) (now + lease + 1) lease
         (snd (claimQueuedPricingBulkJobs (\<lambda>_. False) now 1 t db))))"

definition waiting :: "ms \<Rightarrow> int \<Rightarrow> 'c bulk_job \<Rightarrow> bool" where
  "waiting now a j \<longleftrightarrow> bj_status j = JobQueued \<and> bj_attempts j = a \<and> a + 1 < bj_maxAttempts j \<and>
     bj_lockedBy j = None \<and> bj_runAfter j \<le> now"

lemma job_checks_claim: "job_checks (claim_job t now j) = job_checks j"
  by (simp add: job_checks_def claim_job_def)

lemma crash_round:
  assumes wf: "bulk_wf db" and db: "bd_jobs db = [j]" and w: "waiting now a j"
  obtains db' k where "snd (recoverExpiredPricingBulkJobLeases (\<lambda>_. False) (now + lease + 1) lease
      (snd (claimQueuedPricingBulkJobs (\<lambda>_. False) now 1 t db))) = db'"
    "bulk_wf db'" "bd_jobs db' = [k]" "waiting (now + lease + 1) a k"
proof -
  let ?j = "claim_job t now j"
  let ?db1 = "snd (claimQueuedPricingBulkJobs (\<lambda>_. False) now 1 t db)"
  let ?db2 = "snd (recoverExpiredPricingBulkJobLeases (\<lambda>_. False) (now + lease + 1) lease ?db1)"
  have jwf: "job_wf db j" using bulk_wfD(3) [OF wf] db by simp
  have "claimable now j" using w by (auto simp: waiting_def claimable_def)
  then have due: "select_due (claimable now) job_due (\<lambda>_. False) (Suc 0) [j] = [j]" by (simp add: select_due_def)
  have "update_jobs (\<lambda>k. bj_id k \<in> set (map bj_id [j])) (claim_job t now) db =
      Inr (1, db\<lparr>bd_jobs := [?j]\<rparr>)"
    using jwf db by (simp add: update_jobs_def update_rows_def job_checks_claim job_wf_def)
  then have db1: "?db1 = db\<lparr>bd_jobs := [?j]\<rparr>"
    by (simp add: claimQueuedPricingBulkJobs_def db due)
  have wf1: "bulk_wf ?db1" by (rule claim_wf [OF wf])
  have st: "bj_status ?j = JobRunning" "bj_lockedAt ?j = Some now" "bj_attempts ?j = a"
      "a + 1 < bj_maxAttempts ?j"
    using w by (simp_all add: claim_job_def waiting_def)
  have exp: "lease_expired (now + 1) ?j" using st by (simp add: lease_expired_def)
  have mem: "?j \<in> set (bd_jobs ?db1)" unfolding db1 by simp
  obtain db' where r: "recover_one (now + lease + 1) ?j ?db1 = Inr db'"
      "job_by_id (bj_id ?j) db' = Some (recover_job (now + lease + 1) (countsForJob (bj_id ?j) db') ?j ?j)"
    using recover_running [OF wf1 mem st(1)] by blast
  have "?db2 = db'"
    using r(1) exp unfolding db1 by (simp add: recoverExpiredPricingBulkJobLeases_def Let_def)
  then have db2: "?db2 = db'" .
  have wf2: "bulk_wf db'" using recover_keeps(1) [OF wf1] db2 by metis
  obtain k where k: "bd_jobs db' = [k]"
    using r(1) st(1) db1
    by (auto simp: recover_one_def Let_def update_jobs_def update_items_def update_rows_def split: if_splits)
  then have "k = recover_job (now + lease + 1) (countsForJob (bj_id ?j) db') ?j ?j"
    using r(2) by (simp add: job_by_id_def split: if_splits)
  then have "waiting (now + lease + 1) a k"
    using st by (simp add: waiting_def recover_job_def recover_exhausted_def with_counts_def unlocked_def)
  then show thesis using that db2 wf2 k by blast
qed

text \<open>
  Crashes are never counted. However often a worker claims a job and dies before it settles it, the
  recovery of its lease puts the job back in the queue with the attempts it had, so a job that kills
  its worker is tried for ever and never reaches \<open>maxAttempts\<close>.
\<close>

theorem crashes_never_counted:
  assumes "bulk_wf db" "bd_jobs db = [j]" "bj_status j = JobQueued" "bj_lockedBy j = None"
    and "bj_runAfter j \<le> now" "bj_attempts j + 1 < bj_maxAttempts j"
  shows "\<exists>k. bd_jobs (crash_rounds t lease n now db) = [k] \<and> bj_status k = JobQueued \<and>
    bj_attempts k = bj_attempts j \<and> bj_lockedBy k = None"
proof -
  have "\<exists>k. bd_jobs (crash_rounds t lease n now db) = [k] \<and> bj_status k = JobQueued \<and>
      bj_attempts k = a \<and> bj_lockedBy k = None"
    if "bulk_wf db" "bd_jobs db = [j]" "waiting now a j" for a now and db :: "('a, 'b) bulk_db" and j
    using that
  proof (induction n arbitrary: now db j)
    case 0
    then show ?case by (simp add: waiting_def)
  next
    case (Suc n)
    show ?case
      by (rule crash_round [OF Suc.prems, of lease t]) (simp add: Suc.IH)
  qed
  from this [OF assms(1,2), of now "bj_attempts j"] assms(3-6) show ?thesis by (simp add: waiting_def)
qed

theorem crashes_never_counted_witness:
  "\<exists>k. bd_jobs (crash_rounds ''w'' 30000 1000 1 (bw_db ex_world1)) = [k] \<and> bj_status k = JobQueued \<and>
     bj_attempts k = 0"
proof -
  have wf: "bulk_wf (bw_db ex_world1)"
    using bulk_steps_keep [OF ex_reach1 [unfolded ex_world0_def] empty_world_inv] by (simp add: world_inv_def)
  have j: "bd_jobs (bw_db ex_world1) = [new_job ex_input ''j'' 2 0]" by code_simp
  have k: "bj_runAfter (new_job ex_input ''j'' 2 0) \<le> 1"
      "bj_attempts (new_job ex_input ''j'' 2 0) + 1 < bj_maxAttempts (new_job ex_input ''j'' 2 0)"
      "bj_attempts (new_job ex_input ''j'' 2 0) = 0"
    by code_simp+
  show ?thesis using crashes_never_counted [OF wf j _ _ k(1,2), of "''w''" 30000 1000] k(3) by auto
qed

section \<open>Items stranded by recovery\<close>

text \<open>
  Recovery strands queued items. When the lease of a running job is recovered with its attempts
  used up, the job becomes failed while its queued items stay queued; from then on no worker can claim
  it, its provider cannot cancel it, and a retry of its failed items breaks the progress CHECK of the
  table and is refused, so those items are never processed.
\<close>

theorem recovery_strands_items:
  assumes "bulk_wf db" "j \<in> set (bd_jobs db)" "bj_status j = JobRunning"
    and "bj_maxAttempts j \<le> bj_attempts j + 1"
    and "items_with (bj_id j) ItemQueued db \<noteq> []" "items_with (bj_id j) ItemRunning db \<noteq> []"
  shows "\<exists>db' k. recover_one now j db = Inr db' \<and> job_by_id (bj_id j) db' = Some k \<and>
    bj_status k = JobFailed \<and> items_with (bj_id j) ItemQueued db' = items_with (bj_id j) ItemQueued db \<and>
    \<not> claimable later k \<and>
    retryFailed (bj_providerId j) actor (bj_id j) later db' = (Inl CheckViolation, db') \<and>
    cancelQueued (bj_providerId j) actor (bj_id j) later db' = (Inl already_started, db')"
proof -
  let ?i = "bj_id j"
  obtain db' where r: "recover_one now j db = Inr db'" "bulk_wf db'"
      "job_by_id ?i db' = Some (recover_job now (countsForJob ?i db') j j)"
      "bd_items db' = bd_items (recover_items now j db)"
    using recover_running [OF assms(1-3)] by blast
  let ?k = "recover_job now (countsForJob ?i db') j j"
  have ex: "recover_exhausted j" using assms(4) by (simp add: recover_exhausted_def)
  have st: "bj_status ?k = JobFailed" "bj_id ?k = ?i" "bj_providerId ?k = bj_providerId j"
      "bj_counts ?k = countsForJob ?i db'"
    using ex by (simp_all add: recover_job_def with_counts_def unlocked_def)
  have queued: "items_with ?i ItemQueued db' = items_with ?i ItemQueued db"
  proof -
    have "filter (\<lambda>x. bi_jobId x = ?i \<and> bi_status x = ItemQueued) (update_rows
        (\<lambda>x. bi_jobId x = ?i \<and> bi_status x = ItemRunning) (recover_item now j) xs) =
        filter (\<lambda>x. bi_jobId x = ?i \<and> bi_status x = ItemQueued) xs" for xs :: "'b bulk_item list"
      using ex by (induction xs) (auto simp: update_rows_def recover_item_def)
    then show ?thesis by (simp add: items_with_def r(4) recover_items_count)
  qed
  obtain x where x: "x \<in> set (bd_items db)" "bi_jobId x = ?i" "bi_status x = ItemRunning"
    using assms(6) by (auto simp: items_with_def filter_empty_conv)
  have "recover_item now j x \<in> set (items_with ?i ItemFailed db')"
    using x ex by (force simp: r(4) recover_items_count set_update_rows recover_item_def)
  then have failed: "items_with ?i ItemFailed db' \<noteq> []" by (auto simp del: items_with_iff)
  have mem: "?k \<in> set (bd_jobs db')" using r(3) by (auto simp: job_by_id_def dest: find_Some_mem)
  have owned: "owned_job (bj_providerId j) ?i db' = Some ?k"
  proof -
    have "List.find (\<lambda>k. bj_id k = ?i \<and> bj_providerId k = bj_providerId j) (bd_jobs db') \<noteq> None"
      unfolding find_None_all using mem st(2,3) by blast
    then obtain m where m: "List.find (\<lambda>k. bj_id k = ?i \<and> bj_providerId k = bj_providerId j) (bd_jobs db') = Some m"
      by auto
    then have "m = ?k" using find_Some_mem [OF m] same_job [OF r(2) _ mem] st(2) by auto
    then show ?thesis using m by (simp add: owned_job_def)
  qed
  let ?c = "countsForJob ?i db'"
  have total: "bj_total ?k = jc_pending ?c + jc_running ?c + settled_count ?c"
    using job_by_id_wf [OF r(2,3)] st(2) counts_total [of ?i db'] by (simp add: job_wf_def)
  have "0 < jc_pending ?c" using assms(5) queued by (simp add: countsForJob_def count_status_def)
  moreover have "0 \<le> jc_running ?c" by (simp add: countsForJob_def count_status_def)
  moreover have "jc_failed ?c = int (length (items_with ?i ItemFailed db'))"
    by (simp add: countsForJob_def count_status_def)
  ultimately have bad: "\<not> job_checks (requeue_job (length (items_with ?i ItemFailed db')) later ?k ?k)"
    using total st(4) by (auto simp: job_checks_def requeue_job_def settled_count_def)
  have "retryFailed (bj_providerId j) actor ?i later db' = (Inl CheckViolation, db')"
  proof -
    have "update_jobs (\<lambda>m. bj_id m = ?i) (requeue_job (length (items_with ?i ItemFailed db')) later ?k)
        (requeue_failed ?i db') = Inl CheckViolation"
    proof -
      have "\<not> list_all (\<lambda>m. bj_id m = ?i \<longrightarrow>
          job_checks (requeue_job (length (items_with ?i ItemFailed db')) later ?k m)) (bd_jobs db')"
        unfolding list_all_iff using bad mem st(2) by blast
      then show ?thesis by (simp add: update_jobs_def)
    qed
    then show ?thesis
      using owned failed st(1) by (simp add: retryFailed_def Let_def requeue_failed_def)
  qed
  moreover have "cancelQueued (bj_providerId j) actor ?i later db' = (Inl already_started, db')"
    using owned st(1) by (simp add: cancelQueued_def)
  moreover have "\<not> claimable later ?k" using st(1) by (simp add: claimable_def)
  ultimately show ?thesis using r st(1) queued by blast
qed

definition ex_doomed :: "(nat, nat) bulk_db" where
  "ex_doomed = snd (claimPricingBulkJobItems (\<lambda>_. False) ''j'' ''w'' 1 2
     (snd (claimQueuedPricingBulkJobs (\<lambda>_. False) 1 4 ''w''
       (snd (enqueue id (ex_input\<lparr>ei_maxAttempts := 1\<rparr>) ''j'' [''a'', ''b''] 0 (bw_db ex_world0))))))"

definition ex_doomed_job :: "nat bulk_job" where
  "ex_doomed_job = ex_job\<lparr>bj_maxAttempts := 1\<rparr>"

theorem recovery_strands_items_witness:
  "\<exists>db'. recover_one 900000 ex_doomed_job ex_doomed = Inr db' \<and>
     length (items_with ''j'' ItemQueued db') = 1 \<and>
     retryFailed ''o'' ''u'' ''j'' 900001 db' = (Inl CheckViolation, db')"
proof -
  have "bulk_wf (bw_db ex_world0)" by (simp add: ex_world0_def empty_world_def bulk_wf_def)
  moreover have "fresh_ids (EnqueueJob (ex_input\<lparr>ei_maxAttempts := 1\<rparr>) ''j'' [''a'', ''b''] 0) (bw_db ex_world0)"
    by (simp add: ex_world0_def empty_world_def ex_input_def)
  ultimately have wf: "bulk_wf ex_doomed"
    unfolding ex_doomed_def by (intro claim_items_wf claim_wf enqueue_wf)
  have "bd_jobs ex_doomed = [ex_doomed_job]" by code_simp
  then have mem: "ex_doomed_job \<in> set (bd_jobs ex_doomed)" by simp
  have e: "bj_status ex_doomed_job = JobRunning" "bj_maxAttempts ex_doomed_job \<le> bj_attempts ex_doomed_job + 1"
    "bj_id ex_doomed_job = ''j''" "bj_providerId ex_doomed_job = ''o''"
    by code_simp+
  have items: "length (items_with ''j'' ItemQueued ex_doomed) = 1" "length (items_with ''j'' ItemRunning ex_doomed) = 1"
    by code_simp+
  then have "items_with ''j'' ItemQueued ex_doomed \<noteq> []" "items_with ''j'' ItemRunning ex_doomed \<noteq> []"
    by auto
  then show ?thesis
    using recovery_strands_items [OF wf mem e(1,2), of 900000 900001 "''u''"] e(3,4) items(1) by auto
qed

end
