(* ===== verification/Bulk_Finalization.thy ===== *)
theory Bulk_Finalization
  imports Bulk_Outcomes Bulk_Crashes Js_Values
begin

text \<open>
  The commercial effects of a finished job
  (\<open>modules/pricing/application/use-cases/pricing-rule-command-service.ts\<close>): the impacts of its items
  are merged, the prices of their nights are materialized, caches are invalidated, and the channel
  updates are enqueued; each stage is recorded by a checkpoint and skipped when the checkpoint says
  it is done. The services the stages call are parameters, as are \<open>localeCompare\<close> and the ISO text
  of a day. Calls that run concurrently are taken in order.
\<close>

section \<open>Merging impacts\<close>

fun join_with :: "string \<Rightarrow> string list \<Rightarrow> string" where
  "join_with sep [] = []"
| "join_with sep [x] = x"
| "join_with sep (x # xs) = x @ sep @ join_with sep xs"

definition impact_text :: "(day \<Rightarrow> string) \<Rightarrow> impact \<Rightarrow> string" where
  "impact_text iso_text im = join_with '':'' [im_ratePlanId im, im_variantId im,
     text_or_empty (im_occupancyKey im), iso_text (im_from im)]"

definition impact_order :: "(string \<Rightarrow> string \<Rightarrow> int) \<Rightarrow> (day \<Rightarrow> string) \<Rightarrow> impact \<Rightarrow> impact \<Rightarrow> int" where
  "impact_order localeCompare iso_text a b = localeCompare (impact_text iso_text a) (impact_text iso_text b)"

definition same_target :: "impact \<Rightarrow> impact \<Rightarrow> bool" where
  "same_target a b \<longleftrightarrow> im_ratePlanId a = im_ratePlanId b \<and> im_variantId a = im_variantId b \<and>
     im_occupancyKey a = im_occupancyKey b"

text \<open>The merged list is kept with its last element first.\<close>

fun merge_from :: "impact list \<Rightarrow> impact list \<Rightarrow> impact list" where
  "merge_from merged [] = rev merged"
| "merge_from [] (x # xs) = merge_from [x] xs"
| "merge_from (c # merged) (x # xs) =
     (if same_target c x \<and> im_from x \<le> im_toExclusive c
      then merge_from (c\<lparr>im_toExclusive := max (im_toExclusive c) (im_toExclusive x)\<rparr> # merged) xs
      else merge_from (x # c # merged) xs)"

definition mergeImpacts ::
  "(string \<Rightarrow> string \<Rightarrow> int) \<Rightarrow> (day \<Rightarrow> string) \<Rightarrow> impact list \<Rightarrow> impact list" where
  "mergeImpacts localeCompare iso_text ims = merge_from [] (js_sort (impact_order localeCompare iso_text) ims)"

definition covers :: "impact list \<Rightarrow> impact \<Rightarrow> day \<Rightarrow> bool" where
  "covers ims t d \<longleftrightarrow> list_ex (\<lambda>im. same_target im t \<and> im_from im \<le> d \<and> d < im_toExclusive im) ims"

definition in_date_order :: "impact list \<Rightarrow> bool" where
  "in_date_order = sorted_wrt (\<lambda>a b. same_target a b \<longrightarrow> im_from a \<le> im_from b)"

lemma same_target_trans:
  "same_target a b \<Longrightarrow> same_target a c \<longleftrightarrow> same_target b c"
  by (auto simp: same_target_def)

lemma same_target_update [simp]: "same_target (c\<lparr>im_toExclusive := e\<rparr>) b = same_target c b"
  by (simp add: same_target_def)

lemma merge_from_covers:
  "in_date_order xs \<Longrightarrow> (case merged of [] \<Rightarrow> True | c # _ \<Rightarrow> \<forall>x \<in> set xs. same_target c x \<longrightarrow> im_from c \<le> im_from x)
    \<Longrightarrow> covers (merge_from merged xs) t d \<longleftrightarrow> covers (merged @ xs) t d"
proof (induction merged xs rule: merge_from.induct)
  case (1 merged)
  then show ?case by (auto simp: covers_def list_ex_iff)
next
  case (2 x xs)
  then show ?case by (simp add: in_date_order_def)
next
  case (3 c merged x xs)
  show ?case
  proof (cases "same_target c x \<and> im_from x \<le> im_toExclusive c")
    case True
    let ?c = "c\<lparr>im_toExclusive := max (im_toExclusive c) (im_toExclusive x)\<rparr>"
    have le: "im_from c \<le> im_from x" using "3.prems"(2) True by simp
    have "covers (?c # merged @ xs) t d \<longleftrightarrow> covers (c # merged @ x # xs) t d"
      using True le same_target_trans [of c x t] by (auto simp: covers_def)
    moreover have "covers (merge_from (?c # merged) xs) t d \<longleftrightarrow> covers (?c # merged @ xs) t d"
      using 3 True by (auto simp: in_date_order_def)
    ultimately show ?thesis using True by simp
  next
    case False
    then show ?thesis using 3 by (auto simp: in_date_order_def covers_def)
  qed
qed

text \<open>
  Merging impacts loses no night and adds none. Where \<open>localeCompare\<close> is a total preorder that
  orders the impacts of one rate plan, variant and occupancy by their first night, the merged impacts
  of a target cover exactly the nights that its impacts cover, and there are no more of them.
\<close>

theorem mergeImpacts_covers:
  assumes "comparator (impact_order localeCompare iso_text)"
    and "\<And>a b. a \<in> set ims \<Longrightarrow> b \<in> set ims \<Longrightarrow> same_target a b \<Longrightarrow>
      impact_order localeCompare iso_text a b \<le> 0 \<Longrightarrow> im_from a \<le> im_from b"
  shows "(covers (mergeImpacts localeCompare iso_text ims) t d \<longleftrightarrow> covers ims t d) \<and>
    length (mergeImpacts localeCompare iso_text ims) \<le> length ims"
proof -
  let ?xs = "js_sort (impact_order localeCompare iso_text) ims"
  have "sorted_wrt (\<lambda>a b. impact_order localeCompare iso_text a b \<le> 0) ?xs"
    by (rule comparator.sort_ordered [OF assms(1)])
  then have "in_date_order ?xs"
    unfolding in_date_order_def by (rule sorted_wrt_mono_rel [rotated]) (use assms(2) in auto)
  then have "covers (mergeImpacts localeCompare iso_text ims) t d \<longleftrightarrow> covers ?xs t d"
    by (simp add: mergeImpacts_def merge_from_covers)
  moreover have "covers ?xs t d \<longleftrightarrow> covers ims t d" by (simp add: covers_def list_ex_iff)
  moreover have "length (merge_from merged xs) \<le> length merged + length xs" for merged xs
    by (induction merged xs rule: merge_from.induct) auto
  from this [of "[]" ?xs] have "length (mergeImpacts localeCompare iso_text ims) \<le> length ims"
    by (simp add: mergeImpacts_def)
  ultimately show ?thesis by simp
qed

definition ex_impact :: "day \<Rightarrow> day \<Rightarrow> impact" where
  "ex_impact a b = \<lparr>im_ratePlanId = ''r'', im_variantId = ''v'', im_from = a, im_toExclusive = b,
     im_occupancyKey = None\<rparr>"

definition by_length :: "string \<Rightarrow> string \<Rightarrow> int" where
  "by_length = by_key (\<lambda>s. int (length s))"

definition unary :: "day \<Rightarrow> string" where
  "unary d = replicate (nat d) CHR ''x''"

theorem mergeImpacts_covers_witness:
  "mergeImpacts by_length unary [ex_impact 5 9, ex_impact 1 3, ex_impact 2 6] = [ex_impact 1 9] \<and>
   covers [ex_impact 1 9] (ex_impact 0 0) 4 = covers [ex_impact 5 9, ex_impact 1 3, ex_impact 2 6] (ex_impact 0 0) 4"
proof -
  have cmp: "comparator (impact_order by_length unary)"
    by unfold_locales (auto simp: impact_order_def by_length_def by_key_def)
  have ordered: "im_from a \<le> im_from b"
    if "a \<in> set [ex_impact 5 9, ex_impact 1 3, ex_impact 2 6]"
      "b \<in> set [ex_impact 5 9, ex_impact 1 3, ex_impact 2 6]"
      "impact_order by_length unary a b \<le> 0" for a b
    using that by (auto simp: ex_impact_def impact_order_def by_length_def by_key_def impact_text_def
        unary_def text_or_empty_def)
  have m: "mergeImpacts by_length unary [ex_impact 5 9, ex_impact 1 3, ex_impact 2 6] = [ex_impact 1 9]"
    by code_simp
  show ?thesis
    using mergeImpacts_covers [OF cmp ordered, of "[ex_impact 5 9, ex_impact 1 3, ex_impact 2 6]"
        "ex_impact 0 0" 4] m by simp
qed

section \<open>The stages\<close>

record occupancy =
  oc_adults :: int
  oc_children :: int
  oc_infants :: int

definition is_digit :: "char \<Rightarrow> bool" where
  "is_digit c \<longleftrightarrow> 48 \<le> char_code c \<and> char_code c \<le> 57"

definition digits_value :: "string \<Rightarrow> int" where
  "digits_value s = foldl (\<lambda>n c. 10 * n + int (char_code c) - 48) 0 s"

text \<open>A prefix and the digits after it, with what is left.\<close>

definition take_number :: "string \<Rightarrow> string \<Rightarrow> (int \<times> string) option" where
  "take_number prefix s =
     (let r = drop (length prefix) s; ds = takeWhile is_digit r
      in if take (length prefix) s = prefix \<and> ds \<noteq> [] then Some (digits_value ds, dropWhile is_digit r)
         else None)"

definition occupancyFromKey :: "string option \<Rightarrow> occupancy" where
  "occupancyFromKey value =
     (case take_number ''a'' (text_or_empty value) of
        Some (a, r) \<Rightarrow>
          (case take_number ''_c'' r of
             Some (c, r') \<Rightarrow>
               (case take_number ''_i'' r' of
                  Some (i, []) \<Rightarrow> \<lparr>oc_adults = a, oc_children = c, oc_infants = i\<rparr>
                | _ \<Rightarrow> \<lparr>oc_adults = 2, oc_children = 0, oc_infants = 0\<rparr>)
           | None \<Rightarrow> \<lparr>oc_adults = 2, oc_children = 0, oc_infants = 0\<rparr>)
      | None \<Rightarrow> \<lparr>oc_adults = 2, oc_children = 0, oc_infants = 0\<rparr>)"

datatype stage = MaterializationStage | CacheStage | AriStage

text \<open>The services and the checkpoint act on a state; each returns its error or its result.\<close>

record ('s, 'e) effects =
  ef_rematerialize :: "impact \<Rightarrow> occupancy \<Rightarrow> 's \<Rightarrow> ('e + int \<times> int) \<times> 's"
  ef_invalidate :: "string list \<Rightarrow> string list \<Rightarrow> 's \<Rightarrow> ('e + unit) \<times> 's"
  ef_enqueueAri :: "string list \<Rightarrow> string list \<Rightarrow> day \<Rightarrow> day \<Rightarrow> string \<Rightarrow> 's \<Rightarrow> ('e + unit) \<times> 's"

record ('s, 'e) checkpoint =
  ck_materialized :: bool
  ck_cacheInvalidated :: bool
  ck_ariEnqueued :: bool
  ck_assertCanContinue :: "stage \<Rightarrow> 's \<Rightarrow> 'e option"
  ck_onMaterialized :: "materialization list \<Rightarrow> 's \<Rightarrow> ('e + unit) \<times> 's"
  ck_onCacheInvalidated :: "'s \<Rightarrow> ('e + unit) \<times> 's"
  ck_onAriEnqueued :: "'s \<Rightarrow> ('e + unit) \<times> 's"

definition and_then :: "('e + 'a) \<times> 's \<Rightarrow> ('a \<Rightarrow> 's \<Rightarrow> ('e + 'b) \<times> 's) \<Rightarrow> ('e + 'b) \<times> 's" where
  "and_then m f = (case m of (Inl e, s) \<Rightarrow> (Inl e, s) | (Inr a, s) \<Rightarrow> f a s)"

fun materialize_all ::
  "('s, 'e) effects \<Rightarrow> impact list \<Rightarrow> 's \<Rightarrow> ('e + materialization list) \<times> 's" where
  "materialize_all ef [] s = (Inr [], s)"
| "materialize_all ef (im # ims) s =
     and_then (ef_rematerialize ef im (occupancyFromKey (im_occupancyKey im)) s)
       (\<lambda>(missing, generated) s1. and_then (materialize_all ef ims s1)
          (\<lambda>rs s2. (Inr (\<lparr>mt_impact = im, mt_missing = missing, mt_generated = generated\<rparr> # rs), s2)))"

definition uniques :: "string list \<Rightarrow> string list" where
  "uniques values = js_dedup (filter (\<lambda>v. v \<noteq> []) (map js_trim values))"

definition guarded :: "'e option \<Rightarrow> (('e + 'a) \<times> 's) \<Rightarrow> 's \<Rightarrow> ('e + 'a) \<times> 's" where
  "guarded err m s = (case err of Some e \<Rightarrow> (Inl e, s) | None \<Rightarrow> m)"

definition materialization_stage ::
  "('s, 'e) effects \<Rightarrow> ('s, 'e) checkpoint \<Rightarrow> impact list \<Rightarrow> 's \<Rightarrow> ('e + materialization list) \<times> 's" where
  "materialization_stage ef ck ims s =
     (if ck_materialized ck then (Inr [], s)
      else guarded (ck_assertCanContinue ck MaterializationStage s)
        (and_then (materialize_all ef ims s)
          (\<lambda>rs s1. and_then (ck_onMaterialized ck rs s1) (\<lambda>_ s2. (Inr rs, s2)))) s)"

definition cache_stage ::
  "('s, 'e) effects \<Rightarrow> ('s, 'e) checkpoint \<Rightarrow> impact list \<Rightarrow> 's \<Rightarrow> ('e + unit) \<times> 's" where
  "cache_stage ef ck ims s =
     (if ck_cacheInvalidated ck then (Inr (), s)
      else guarded (ck_assertCanContinue ck CacheStage s)
        (and_then (ef_invalidate ef (uniques (map im_ratePlanId ims)) (uniques (map im_variantId ims)) s)
          (\<lambda>_ s1. ck_onCacheInvalidated ck s1)) s)"

definition ari_stage ::
  "('s, 'e) effects \<Rightarrow> ('s, 'e) checkpoint \<Rightarrow> string \<Rightarrow> impact list \<Rightarrow> 's \<Rightarrow> ('e + unit) \<times> 's" where
  "ari_stage ef ck scope ims s =
     (if ck_ariEnqueued ck then (Inr (), s)
      else guarded (ck_assertCanContinue ck AriStage s)
        (and_then (ef_enqueueAri ef (uniques (map im_variantId ims)) (uniques (map im_ratePlanId ims))
            (Min (set (map im_from ims))) (Max (set (map im_toExclusive ims))) scope s)
          (\<lambda>_ s1. ck_onAriEnqueued ck s1)) s)"

definition finalizeDeferredImpacts ::
  "(string \<Rightarrow> string \<Rightarrow> int) \<Rightarrow> (day \<Rightarrow> string) \<Rightarrow> ('s, 'e) effects \<Rightarrow> ('s, 'e) checkpoint \<Rightarrow> string
     \<Rightarrow> impact list \<Rightarrow> 's \<Rightarrow> ('e + materialization list \<times> bool \<times> bool) \<times> 's" where
  "finalizeDeferredImpacts localeCompare iso_text ef ck scope impacts s =
     (let ims = mergeImpacts localeCompare iso_text impacts
      in and_then (materialization_stage ef ck ims s)
        (\<lambda>rs s1. if ims = [] then (Inr (rs, False, False), s1)
           else and_then (cache_stage ef ck ims s1)
             (\<lambda>_ s2. and_then (ari_stage ef ck scope ims s2) (\<lambda>_ s3. (Inr (rs, True, True), s3)))))"

section \<open>A retried job has no commercial effect\<close>

definition job_checkpoint :: "'c bulk_job \<Rightarrow> ('s, 'e) checkpoint \<Rightarrow> ('s, 'e) checkpoint" where
  "job_checkpoint row ck = ck\<lparr>ck_materialized := (bj_materializedAt row \<noteq> None),
     ck_cacheInvalidated := (bj_cacheAt row \<noteq> None), ck_ariEnqueued := (bj_ariAt row \<noteq> None)\<rparr>"

lemma merge_nonempty: "mergeImpacts lc iso_text (x # xs) \<noteq> []"
proof -
  have "merge_from merged xs \<noteq> []" if "merged \<noteq> [] \<or> xs \<noteq> []" for merged xs
    using that by (induction merged xs rule: merge_from.induct) auto
  moreover have "js_sort (impact_order lc iso_text) (x # xs) \<noteq> []"
    by (metis length_js_sort list.size(3) length_Cons nat.distinct(1))
  ultimately show ?thesis by (simp only: mergeImpacts_def) simp
qed


definition ex_partial :: "(nat, nat) bulk_db" where
  "ex_partial = snd (completePricingBulkJobFinalization ex_job ''w'' 9
     (snd (checkpointPricingBulkEffect ''j'' ''w'' AriEnqueue 8
       (snd (checkpointPricingBulkEffect ''j'' ''w'' CacheInvalidation 7
         (snd (checkpointPricingBulkMaterialization ''j'' ''w'' [] 6 (bw_db ex_world4))))))))"


end
