(* ===== verification/Bulk_Worker.thy ===== *)
theory Bulk_Worker
  imports Bulk_Finalization
begin

text \<open>
  The worker of the bulk pricing queue (\<open>lib/pricing/pricing-bulk-job-worker.ts\<close>): one run recovers
  expired leases, claims jobs, processes their items, settles and finalizes them within its time
  budget. The run is taken without interference of other sessions (\<open>Bulk_Interleaving\<close> has those);
  the services it calls (ownership lookup, preview, rule creation, the effects of finalization) and
  the outcome of its looks at the clock are its environment. Items of a batch are processed in order.
\<close>

section \<open>Configuration and errors\<close>

text \<open>\<open>Number(value)\<close> is \<open>None\<close> where it is not finite.\<close>

definition boundedInteger :: "rat option \<Rightarrow> int \<Rightarrow> int \<Rightarrow> int \<Rightarrow> int" where
  "boundedInteger value fallback lo hi =
     (case value of None \<Rightarrow> fallback | Some x \<Rightarrow> max lo (min hi \<lfloor>js_trunc x\<rfloor>))"

record worker_configuration =
  wc_jobBatchSize :: int
  wc_itemBatchSize :: int
  wc_itemConcurrency :: int
  wc_leaseMs :: int
  wc_timeBudgetMs :: int

definition pricingBulkWorkerConfiguration ::
  "rat option \<Rightarrow> rat option \<Rightarrow> rat option \<Rightarrow> rat option \<Rightarrow> rat option \<Rightarrow> worker_configuration" where
  "pricingBulkWorkerConfiguration jobBatch itemBatch concurrency lease budget = \<lparr>
     wc_jobBatchSize = boundedInteger jobBatch 4 1 20,
     wc_itemBatchSize = boundedInteger itemBatch 8 1 20,
     wc_itemConcurrency = boundedInteger concurrency 3 2 4,
     wc_leaseMs = boundedInteger lease 300000 30000 1800000,
     wc_timeBudgetMs = boundedInteger budget 45000 10000 50000\<rparr>"

datatype failure =
    BudgetError
  | RuleCommandError string int
  | DatabaseError bulk_error
  | OtherError string

fun failure_code :: "failure \<Rightarrow> string" where
  "failure_code BudgetError = ''pricing_bulk_worker_time_budget_exhausted''"
| "failure_code (RuleCommandError code status) = code"
| "failure_code _ = ''pricing_bulk_item_execution_failed''"

fun failure_retryable :: "failure \<Rightarrow> bool" where
  "failure_retryable (RuleCommandError code status) \<longleftrightarrow> 500 \<le> status \<or> status = 429"
| "failure_retryable _ \<longleftrightarrow> True"

definition impactFromStoredResult :: "stored_impact \<Rightarrow> impact option" where
  "impactFromStoredResult si =
     (let im = si_impact si; rate = js_trim (im_ratePlanId im); variant = js_trim (im_variantId im)
      in if rate = [] \<or> variant = [] then None
         else Some (im\<lparr>im_ratePlanId := rate, im_variantId := variant\<rparr>))"

section \<open>The environment of a run\<close>

record ('c, 'p, 'x) worker_env =
  we_token :: string
  we_now :: ms
  we_clock :: ms
  we_jobBatch :: nat
  we_itemBatch :: nat
  we_leaseMs :: ms
  we_lateStart :: "string \<Rightarrow> bool"
  we_lateFinish :: "string \<Rightarrow> bool"
  we_budget :: "string \<Rightarrow> stage \<Rightarrow> bool"
  we_valid :: "'c \<Rightarrow> bool"
  we_owner :: "string \<Rightarrow> plan_row option"
  we_preview :: "'c bulk_job \<Rightarrow> 'p bulk_item \<Rightarrow> failure + 'p"
  we_create :: "'c bulk_job \<Rightarrow> 'p bulk_item \<Rightarrow> failure + string \<times> stored_impact"
  we_effects :: "('x, failure) effects"
  we_compare :: "string \<Rightarrow> string \<Rightarrow> int"
  we_iso :: "day \<Rightarrow> string"

section \<open>One item\<close>

datatype item_outcome = Done | Broken | Deferred

definition owner_kept :: "'c bulk_job \<Rightarrow> 'p bulk_item \<Rightarrow> plan_row option \<Rightarrow> bool" where
  "owner_kept job item own \<longleftrightarrow> (case own of None \<Rightarrow> False
     | Some r \<Rightarrow> pl_providerId r = bj_providerId job \<and> pl_productId r = bi_productId item \<and>
         pl_variantId r = bi_variantId item)"

definition item_result ::
  "('c, 'p, 'x) worker_env \<Rightarrow> 'c bulk_job \<Rightarrow> 'p bulk_item \<Rightarrow> failure + 'p item_success" where
  "item_result env job item =
     (case we_preview env job item of
        Inl e \<Rightarrow> Inl e
      | Inr preview \<Rightarrow>
          (case bj_operationType job of
             PreviewPricingRule \<Rightarrow> Inr \<lparr>is_ruleId = None, is_preview = preview, is_impact = None\<rparr>
           | CreatePricingRule \<Rightarrow>
               (case we_create env job item of
                  Inl e \<Rightarrow> Inl e
                | Inr (rule, si) \<Rightarrow>
                    Inr \<lparr>is_ruleId = Some rule, is_preview = preview, is_impact = Some si\<rparr>)))"

definition item_retry_at ::
  "('c, 'p, 'x) worker_env \<Rightarrow> 'c bulk_job \<Rightarrow> 'p bulk_item \<Rightarrow> failure \<Rightarrow> ms option" where
  "item_retry_at env job item e =
     (if failure_retryable e \<and> int (bi_attempts item) < bj_maxAttempts job \<and>
         bj_attempts job + 1 < bj_maxAttempts job
      then Some (we_now env + pricingBulkRetryDelayMs (int (bi_attempts item))) else None)"

definition processItem ::
  "('c, 'p, 'x) worker_env \<Rightarrow> 'c bulk_job \<Rightarrow> 'p bulk_item \<Rightarrow> ('c, 'p) bulk_db
     \<Rightarrow> item_outcome \<times> ('c, 'p) bulk_db" where
  "processItem env job item db =
     (let fail = (\<lambda>code retryAt. snd (markPricingBulkItemFailed (bj_id job) (bi_id item) (we_token env)
            code retryAt (we_clock env) db))
      in if \<not> we_valid env (bj_command job) then (Broken, fail ''pricing_bulk_command_invalid'' None)
         else if \<not> owner_kept job item (we_owner env (bi_ratePlanId item))
         then (Broken, fail ''rate_plan_ownership_changed'' None)
         else case item_result env job item of
             Inr r \<Rightarrow> (Done, snd (markPricingBulkItemSucceeded (bj_id job) (bi_id item) (we_token env) r
                 (we_clock env) db))
           | Inl e \<Rightarrow> (if item_retry_at env job item e \<noteq> None then Deferred else Broken,
               fail (failure_code e) (item_retry_at env job item e)))"

fun process_items ::
  "('c, 'p, 'x) worker_env \<Rightarrow> 'c bulk_job \<Rightarrow> 'p bulk_item list \<Rightarrow> ('c, 'p) bulk_db
     \<Rightarrow> item_outcome list \<times> ('c, 'p) bulk_db" where
  "process_items env job [] db = ([], db)"
| "process_items env job (x # xs) db =
     (let (o1, db1) = processItem env job x db; (os, db2) = process_items env job xs db1
      in (o1 # os, db2))"

section \<open>One job\<close>

record run_result =
  rr_processed :: nat
  rr_succeeded :: nat
  rr_failed :: nat
  rr_deferred :: nat
  rr_finalized :: nat
  rr_finalizationFailures :: nat
  rr_released :: nat
  rr_budgetExceeded :: bool

record ('c, 'p, 'x) run_state =
  rs_db :: "('c, 'p) bulk_db"
  rs_ext :: 'x
  rs_result :: run_result

definition on_db ::
  "(('c, 'p) bulk_db \<Rightarrow> (bulk_error + 'a) \<times> ('c, 'p) bulk_db) \<Rightarrow> ('c, 'p, 'x) run_state
     \<Rightarrow> (bulk_error + 'a) \<times> ('c, 'p, 'x) run_state" where
  "on_db f st = (case f (rs_db st) of (r, db) \<Rightarrow> (r, st\<lparr>rs_db := db\<rparr>))"

text \<open>Releasing the leases of the jobs that are left.\<close>

fun release_jobs ::
  "('c, 'p, 'x) worker_env \<Rightarrow> 'c bulk_job list \<Rightarrow> ('c, 'p, 'x) run_state
     \<Rightarrow> (bulk_error + unit) \<times> ('c, 'p, 'x) run_state" where
  "release_jobs env [] st = (Inr (), st)"
| "release_jobs env (job # jobs) st =
     and_then (on_db (releasePricingBulkJobLease (bj_id job) (we_token env) (we_clock env)) st)
       (\<lambda>released st1. release_jobs env jobs (if released
          then st1\<lparr>rs_result := (rs_result st1)\<lparr>rr_released := rr_released (rs_result st1) + 1\<rparr>\<rparr>
          else st1))"

definition budget_exceeded :: "('c, 'p, 'x) run_state \<Rightarrow> ('c, 'p, 'x) run_state" where
  "budget_exceeded st = st\<lparr>rs_result := (rs_result st)\<lparr>rr_budgetExceeded := True\<rparr>\<rparr>"

text \<open>The checkpoint of a job: its stages write the job row under the lease.\<close>

definition checkpointed ::
  "string \<Rightarrow> (bulk_error + bool) \<times> ('c, 'p) bulk_db \<Rightarrow> 'x
     \<Rightarrow> (failure + unit) \<times> (('c, 'p) bulk_db \<times> 'x)" where
  "checkpointed lost r x =
     (case r of (Inl e, db) \<Rightarrow> (Inl (DatabaseError e), (db, x))
      | (Inr True, db) \<Rightarrow> (Inr (), (db, x))
      | (Inr False, db) \<Rightarrow> (Inl (OtherError lost), (db, x)))"

definition worker_checkpoint ::
  "('c, 'p, 'x) worker_env \<Rightarrow> 'c bulk_job \<Rightarrow> (('c, 'p) bulk_db \<times> 'x, failure) checkpoint" where
  "worker_checkpoint env job = \<lparr>
     ck_materialized = (bj_materializedAt job \<noteq> None),
     ck_cacheInvalidated = (bj_cacheAt job \<noteq> None),
     ck_ariEnqueued = (bj_ariAt job \<noteq> None),
     ck_assertCanContinue = (\<lambda>stage s. if we_budget env (bj_id job) stage then None else Some BudgetError),
     ck_onMaterialized = (\<lambda>rs (db, x). checkpointed ''pricing_bulk_job_lease_lost_during_materialization_checkpoint''
       (checkpointPricingBulkMaterialization (bj_id job) (we_token env) rs (we_clock env) db) x),
     ck_onCacheInvalidated = (\<lambda>(db, x). checkpointed ''pricing_bulk_job_lease_lost_during_cache_checkpoint''
       (checkpointPricingBulkEffect (bj_id job) (we_token env) CacheInvalidation (we_clock env) db) x),
     ck_onAriEnqueued = (\<lambda>(db, x). checkpointed ''pricing_bulk_job_lease_lost_during_ari_checkpoint''
       (checkpointPricingBulkEffect (bj_id job) (we_token env) AriEnqueue (we_clock env) db) x)\<rparr>"

text \<open>The services of the effects work on their own state, beside the queue.\<close>

definition beside :: "('x \<Rightarrow> 'r \<times> 'x) \<Rightarrow> 'd \<times> 'x \<Rightarrow> 'r \<times> ('d \<times> 'x)" where
  "beside f = (\<lambda>(d, x). case f x of (r, x') \<Rightarrow> (r, (d, x')))"

definition worker_effects ::
  "('c, 'p, 'x) worker_env \<Rightarrow> (('c, 'p) bulk_db \<times> 'x, failure) effects" where
  "worker_effects env = \<lparr>
     ef_rematerialize = (\<lambda>im occ. beside (ef_rematerialize (we_effects env) im occ)),
     ef_invalidate = (\<lambda>rs vs. beside (ef_invalidate (we_effects env) rs vs)),
     ef_enqueueAri = (\<lambda>vs rs a b scope. beside (ef_enqueueAri (we_effects env) vs rs a b scope))\<rparr>"

definition stamped :: "ms \<Rightarrow> ms option \<Rightarrow> ms option" where
  "stamped clock t0 = (case t0 of None \<Rightarrow> Some clock | Some t \<Rightarrow> Some t)"

text \<open>
  The effects of a job, with the row as the worker holds it afterwards, and its completion. What is
  thrown in here is caught by the run.
\<close>

definition run_effects ::
  "('c, 'p, 'x) worker_env \<Rightarrow> 'c bulk_job \<Rightarrow> ('c, 'p) bulk_db \<times> 'x
     \<Rightarrow> (failure + 'c bulk_job) \<times> (('c, 'p) bulk_db \<times> 'x)" where
  "run_effects env job s =
     (let impacts = List.map_filter impactFromStoredResult
            (listPricingBulkJobImpacts (bj_id job) (we_token env) (fst s))
      in if bj_operationType job = CreatePricingRule \<and> impacts \<noteq> []
         then and_then (finalizeDeferredImpacts (we_compare env) (we_iso env) (worker_effects env)
                (worker_checkpoint env job) (''pricing-bulk:'' @ bj_id job @ '':effects'') impacts s)
              (\<lambda>_ s1. (Inr (job\<lparr>bj_materializedAt := stamped (we_clock env) (bj_materializedAt job),
                 bj_cacheAt := stamped (we_clock env) (bj_cacheAt job),
                 bj_ariAt := stamped (we_clock env) (bj_ariAt job)\<rparr>), s1))
         else (Inr job, s))"

definition finalize_job ::
  "('c, 'p, 'x) worker_env \<Rightarrow> 'c bulk_job \<Rightarrow> ('c, 'p) bulk_db \<times> 'x
     \<Rightarrow> (failure + bool) \<times> (('c, 'p) bulk_db \<times> 'x)" where
  "finalize_job env job s = and_then (run_effects env job s)
     (\<lambda>row (db, x). case completePricingBulkJobFinalization row (we_token env) (we_clock env) db of
        (Inl e, db') \<Rightarrow> (Inl (DatabaseError e), (db', x))
      | (Inr b, db') \<Rightarrow> (Inr b, (db', x)))"

text \<open>The value of a job step: whether the loop stops.\<close>

definition finish_job ::
  "('c, 'p, 'x) worker_env \<Rightarrow> 'c bulk_job \<Rightarrow> 'c bulk_job list \<Rightarrow> ('c, 'p, 'x) run_state
     \<Rightarrow> (bulk_error + bool) \<times> ('c, 'p, 'x) run_state" where
  "finish_job env job rest st =
     (case finalize_job env job (rs_db st, rs_ext st) of (r, (db, x)) \<Rightarrow>
        (let st1 = st\<lparr>rs_db := db, rs_ext := x\<rparr>
         in case r of
              Inr done \<Rightarrow> (Inr False, if done
                then st1\<lparr>rs_result := (rs_result st1)\<lparr>rr_finalized := rr_finalized (rs_result st1) + 1\<rparr>\<rparr>
                else st1)
            | Inl BudgetError \<Rightarrow>
                and_then (release_jobs env (job # rest) (budget_exceeded st1)) (\<lambda>_ st2. (Inr True, st2))
            | Inl e \<Rightarrow>
                and_then (on_db (deferPricingBulkJobFinalization job (we_token env) (we_clock env)
                    (failure_code e)) st1)
                  (\<lambda>deferred st2. (Inr False, if deferred
                     then st2\<lparr>rs_result := (rs_result st2)\<lparr>rr_finalizationFailures :=
                       rr_finalizationFailures (rs_result st2) + 1\<rparr>\<rparr>
                     else st2))))"

definition count_outcomes :: "item_outcome list \<Rightarrow> run_result \<Rightarrow> run_result" where
  "count_outcomes os r = r\<lparr>rr_processed := rr_processed r + length os,
     rr_succeeded := rr_succeeded r + length (filter (\<lambda>x. x = Done) os),
     rr_failed := rr_failed r + length (filter (\<lambda>x. x = Broken) os),
     rr_deferred := rr_deferred r + length (filter (\<lambda>x. x = Deferred) os)\<rparr>"

text \<open>The items of a running job; the value says whether it can be finalized.\<close>

definition work_items ::
  "('c, 'p, 'x) worker_env \<Rightarrow> 'c bulk_job \<Rightarrow> ('c, 'p, 'x) run_state
     \<Rightarrow> (bulk_error + bool) \<times> ('c, 'p, 'x) run_state" where
  "work_items env job st =
     (let (items, db1) = claimPricingBulkJobItems (\<lambda>_. False) (bj_id job) (we_token env)
            (we_itemBatch env) (we_clock env) (rs_db st);
          (os, db2) = process_items env job items db1;
          deferred = (Deferred \<in> set os)
      in on_db (settlePricingBulkJobItems \<lparr>sp_job = job, sp_token = we_token env, sp_now = we_now env,
             sp_nextRunAt = (if deferred
               then Some (we_now env + pricingBulkRetryDelayMs (bj_attempts job + 1)) else None),
             sp_retrying = deferred\<rparr> (we_clock env))
           (st\<lparr>rs_db := db2, rs_result := count_outcomes os (rs_result st)\<rparr>))"

text \<open>The rest of a job's turn once its items are settled, and its whole turn.\<close>

definition conclude_job ::
  "('c, 'p, 'x) worker_env \<Rightarrow> 'c bulk_job \<Rightarrow> 'c bulk_job list \<Rightarrow> bool \<Rightarrow> ('c, 'p, 'x) run_state
     \<Rightarrow> (bulk_error + bool) \<times> ('c, 'p, 'x) run_state" where
  "conclude_job env job rest ready st =
     (if \<not> ready then (Inr False, st)
      else if we_lateFinish env (bj_id job)
      then and_then (release_jobs env (job # rest) (budget_exceeded st)) (\<lambda>_ st1. (Inr True, st1))
      else and_then (on_db (refreshPricingBulkJobLease (bj_id job) (we_token env) (we_clock env)) st)
        (\<lambda>still st1. if \<not> still then (Inr False, st1) else finish_job env job rest st1))"

definition work_job ::
  "('c, 'p, 'x) worker_env \<Rightarrow> 'c bulk_job \<Rightarrow> 'c bulk_job list \<Rightarrow> ('c, 'p, 'x) run_state
     \<Rightarrow> (bulk_error + bool) \<times> ('c, 'p, 'x) run_state" where
  "work_job env job rest st =
     and_then (if bj_status job = JobRunning then work_items env job st
               else (Inr (bj_status job = JobFinalizing), st)) (conclude_job env job rest)"

definition run_job ::
  "('c, 'p, 'x) worker_env \<Rightarrow> 'c bulk_job \<Rightarrow> 'c bulk_job list \<Rightarrow> ('c, 'p, 'x) run_state
     \<Rightarrow> (bulk_error + bool) \<times> ('c, 'p, 'x) run_state" where
  "run_job env job rest st =
     (if we_lateStart env (bj_id job)
      then and_then (release_jobs env (job # rest) (budget_exceeded st)) (\<lambda>_ st1. (Inr True, st1))
      else and_then (on_db (refreshPricingBulkJobLease (bj_id job) (we_token env) (we_now env)) st)
        (\<lambda>current st1. if \<not> current then (Inr False, st1) else work_job env job rest st1))"

fun run_jobs ::
  "('c, 'p, 'x) worker_env \<Rightarrow> 'c bulk_job list \<Rightarrow> ('c, 'p, 'x) run_state
     \<Rightarrow> (bulk_error + unit) \<times> ('c, 'p, 'x) run_state" where
  "run_jobs env [] st = (Inr (), st)"
| "run_jobs env (job # jobs) st =
     and_then (run_job env job jobs st)
       (\<lambda>stop st1. if stop then (Inr (), st1) else run_jobs env jobs st1)"

definition empty_result :: run_result where
  "empty_result = \<lparr>rr_processed = 0, rr_succeeded = 0, rr_failed = 0, rr_deferred = 0,
     rr_finalized = 0, rr_finalizationFailures = 0, rr_released = 0, rr_budgetExceeded = False\<rparr>"

definition runPricingBulkJobWorker ::
  "('c, 'p, 'x) worker_env \<Rightarrow> ('c, 'p) bulk_db \<Rightarrow> 'x \<Rightarrow> (bulk_error + unit) \<times> ('c, 'p, 'x) run_state" where
  "runPricingBulkJobWorker env db x =
     and_then (on_db (recoverExpiredPricingBulkJobLeases (\<lambda>_. False) (we_now env) (we_leaseMs env))
         \<lparr>rs_db = db, rs_ext = x, rs_result = empty_result\<rparr>)
       (\<lambda>recovered st1. and_then (on_db (claimQueuedPricingBulkJobs (\<lambda>_. False) (we_now env)
            (we_jobBatch env) (we_token env)) st1)
          (\<lambda>jobs st2. run_jobs env jobs st2))"

end
