(* ===== verification/Bulk_Worker_Correctness.thy ===== *)
theory Bulk_Worker_Correctness
  imports Bulk_Worker
begin

text \<open>
  What a run of the bulk worker promises: it gives back every lease it has taken, its counters add up,
  and its configuration stays within its bounds.
\<close>

section \<open>The rows of a job\<close>

definition job_rows :: "string \<Rightarrow> ('c, 'p) bulk_db \<Rightarrow> 'c bulk_job list" where
  "job_rows i db = filter (\<lambda>j. bj_id j = i) (bd_jobs db)"

text \<open>Every row of the job that the session has locked has one of the statuses.\<close>

definition rows_in :: "string \<Rightarrow> string \<Rightarrow> job_status set \<Rightarrow> ('c, 'p) bulk_db \<Rightarrow> bool" where
  "rows_in t i S db \<longleftrightarrow> (\<forall>r \<in> set (job_rows i db). bj_lockedBy r = Some t \<longrightarrow> bj_status r \<in> S)"

definition others_same :: "string \<Rightarrow> ('c, 'p) bulk_db \<Rightarrow> ('c, 'p) bulk_db \<Rightarrow> bool" where
  "others_same i db db' \<longleftrightarrow> (\<forall>k. k \<noteq> i \<longrightarrow> job_rows k db' = job_rows k db)"

lemma others_same_refl [simp]: "others_same i db db"
  by (simp add: others_same_def)

lemma others_same_trans: "others_same i a b \<Longrightarrow> others_same i b c \<Longrightarrow> others_same i a c"
  by (simp add: others_same_def)

lemma rows_in_others: "others_same i db db' \<Longrightarrow> k \<noteq> i \<Longrightarrow> rows_in t k S db' = rows_in t k S db"
  by (simp add: others_same_def rows_in_def)

lemma rows_in_mono: "rows_in t i S db \<Longrightarrow> S \<subseteq> T \<Longrightarrow> rows_in t i T db"
  by (auto simp: rows_in_def)

lemma filter_update_rows:
  "(\<And>r. key (f r) = key r) \<Longrightarrow> filter (\<lambda>r. key r = k) (update_rows P f rs) =
     map (\<lambda>r. if P r then f r else r) (filter (\<lambda>r. key r = k) rs)"
  by (induction rs) (auto simp: update_rows_def)

lemma update_jobs_rows:
  assumes u: "update_jobs P f db = Inr (n, db')" and id: "\<And>j. bj_id (f j) = bj_id j"
  shows "job_rows k db' = map (\<lambda>j. if P j then f j else j) (job_rows k db)"
  using filter_update_rows [of bj_id f k P "bd_jobs db"] id
  by (simp add: job_rows_def update_jobs_Inr(1) [OF u])

text \<open>A write of one job's row under a lease.\<close>

lemma lease_write_rows:
  assumes w: "lease_write P f db = (Inr b, db')" and id: "\<And>j. bj_id (f j) = bj_id j"
    and P: "\<And>j. P j \<Longrightarrow> bj_id j = i"
  shows "others_same i db db'"
    and "set (job_rows i db') = (\<lambda>j. if P j then f j else j) ` set (job_rows i db)"
    and "b \<longleftrightarrow> (\<exists>j \<in> set (job_rows i db). P j)"
proof -
  obtain n where u: "update_jobs P f db = Inr (n, db')" "b = (0 < n)"
    using w by (auto simp: lease_write_def split: sum.splits)
  note rows = update_jobs_rows [OF u(1) id]
  have "map (\<lambda>j. if P j then f j else j) (job_rows k db) = job_rows k db" if "k \<noteq> i" for k
  proof (rule map_idI)
    fix j assume "j \<in> set (job_rows k db)"
    then have "\<not> P j" using P that by (auto simp: job_rows_def)
    then show "(if P j then f j else j) = j" by simp
  qed
  then show "others_same i db db'" by (simp add: others_same_def rows)
  show "set (job_rows i db') = (\<lambda>j. if P j then f j else j) ` set (job_rows i db)" by (simp add: rows)
  show "b \<longleftrightarrow> (\<exists>j \<in> set (job_rows i db). P j)"
    using P by (auto simp: u(2) update_jobs_Inr(6) [OF u(1)] job_rows_def filter_empty_conv)
qed

lemma rows_in_image:
  "set (job_rows i db') = g ` set (job_rows i db) \<Longrightarrow>
    (\<And>j. j \<in> set (job_rows i db) \<Longrightarrow> bj_lockedBy (g j) = Some t \<longrightarrow> bj_status (g j) \<in> S) \<Longrightarrow>
    rows_in t i S db'"
  by (simp add: rows_in_def)

lemma lease_write_Inl: "lease_write P f db = (Inl e, db') \<Longrightarrow> db' = db"
  by (auto simp: lease_write_def split: sum.splits)

lemma lease_write_others_same:
  assumes "\<And>j. bj_id (f j) = bj_id j" "\<And>j. P j \<Longrightarrow> bj_id j = i"
  shows "others_same i db (snd (lease_write P f db))"
proof (cases "lease_write P f db")
  case (Pair r db')
  then show ?thesis
  proof (cases r)
    case (Inl e)
    then show ?thesis using Pair lease_write_Inl by fastforce
  next
    case (Inr b)
    then show ?thesis using lease_write_rows(1) [OF Pair [unfolded Inr] assms] Pair by simp
  qed
qed

lemma items_rows [simp]: "job_rows k (update_items P f db) = job_rows k db"
  by (simp add: job_rows_def)

lemma audit_rows [simp]: "job_rows k (write_audit p a act e r db) = job_rows k db"
  by (simp add: job_rows_def write_audit_def)

section \<open>The operations of the worker\<close>

lemma release_frees:
  assumes "releasePricingBulkJobLease i t now db = (Inr b, db')"
    and "rows_in t i {JobRunning, JobFinalizing} db"
  shows "others_same i db db' \<and> rows_in t i {} db'"
proof -
  let ?f = "\<lambda>j. (unlocked j)\<lparr>bj_status := if bj_status j = JobRunning then JobQueued else JobFinalizing,
      bj_runAfter := now\<rparr>"
  have id: "bj_id (?f j) = bj_id j" for j :: "'a bulk_job" by (simp add: unlocked_def)
  have P: "holds_any_lease t i j \<Longrightarrow> bj_id j = i" for j :: "'a bulk_job"
    by (auto simp: holds_any_lease_def holds_lease_def)
  note w = lease_write_rows [OF assms(1) [unfolded releasePricingBulkJobLease_def] id P]
  have "bj_lockedBy (if holds_any_lease t i j then ?f j else j) \<noteq> Some t" if "j \<in> set (job_rows i db)" for j
    using that assms(2)
    by (auto simp: rows_in_def holds_any_lease_def holds_lease_def unlocked_def job_rows_def)
  then show ?thesis using w(1) rows_in_image [OF w(2), of t "{}"] by blast
qed

lemma refresh_rows:
  assumes "refreshPricingBulkJobLease i t now db = (Inr b, db')"
    and S: "rows_in t i S db" "S \<subseteq> {JobRunning, JobFinalizing}"
  shows "others_same i db db' \<and> rows_in t i S db' \<and> (\<not> b \<longrightarrow> rows_in t i {} db')"
proof -
  have P: "holds_any_lease t i j \<Longrightarrow> bj_id j = i" for j :: "'a bulk_job"
    by (auto simp: holds_any_lease_def holds_lease_def)
  note w = lease_write_rows [OF assms(1) [unfolded refreshPricingBulkJobLease_def] _ P]
  have "rows_in t i S db'" using S(1) by (auto simp: rows_in_def w(2))
  moreover have "rows_in t i {} db'" if "\<not> b"
  proof -
    have no: "\<not> holds_any_lease t i j" if "j \<in> set (job_rows i db)" for j using w(3) that \<open>\<not> b\<close> by simp
    have "bj_lockedBy j \<noteq> Some t" if "j \<in> set (job_rows i db)" for j
      using no [OF that] S that
      by (auto simp: rows_in_def holds_any_lease_def holds_lease_def job_rows_def)
    then show ?thesis using no by (auto simp: rows_in_def w(2))
  qed
  ultimately show ?thesis using w(1) by simp
qed

lemma settle_rows:
  assumes "settlePricingBulkJobItems p clock db = (Inr ready, db')"
    and "sp_token p = t" "rows_in t (settle_job p) {JobRunning} db"
  shows "others_same (settle_job p) db db' \<and>
    rows_in t (settle_job p) (if ready then {JobFinalizing} else {}) db'"
proof -
  let ?i = "settle_job p"
  obtain c d where d: "settle_write p c d = (Inr ready, db')" "\<And>k. job_rows k d = job_rows k db"
    using assms(1)
    by (auto simp: settlePricingBulkJobItems_def Let_def fail_queued_items_def split: if_splits)
  let ?f = "if all_settled c then finalizing_job c (settle_attempts p) (sp_now p)
    else requeued_job c (settle_attempts p) (case sp_nextRunAt p of Some t \<Rightarrow> t | None \<Rightarrow> sp_now p)"
  let ?P = "holds_lease t ?i JobRunning"
  obtain n where u: "update_jobs ?P ?f d = Inr (n, db')" and r: "ready = all_settled c"
    using d(1) assms(2) by (auto simp: settle_write_def split: sum.splits)
  have w: "lease_write ?P ?f d = (Inr (0 < n), db')" by (simp add: lease_write_def u)
  have id: "bj_id (?f j) = bj_id j" for j
    by (simp add: finalizing_job_def requeued_job_def with_counts_def unlocked_def)
  have P: "?P j \<Longrightarrow> bj_id j = ?i" for j :: "'a bulk_job" by (simp add: holds_lease_def)
  note rows = lease_write_rows [OF w id P]
  have "bj_lockedBy (if ?P j then ?f j else j) = Some t \<longrightarrow>
      bj_status (if ?P j then ?f j else j) \<in> (if ready then {JobFinalizing} else {})"
    if "j \<in> set (job_rows ?i d)" for j
    using that [unfolded d(2)] assms(3) r
    by (auto simp: rows_in_def holds_lease_def finalizing_job_def requeued_job_def with_counts_def
        unlocked_def job_rows_def)
  then have "rows_in t ?i (if ready then {JobFinalizing} else {}) db'"
    by (intro rows_in_image [OF rows(2)])
  then show ?thesis using rows(1) d(2) by (simp add: others_same_def)
qed

lemma finalizing_write:
  assumes w: "lease_write (holds_lease t i JobFinalizing) f db = (Inr b, db')"
    and id: "\<And>j. bj_id (f j) = bj_id j" and S: "rows_in t i {JobFinalizing} db"
    and f: "\<And>j. bj_lockedBy (f j) = None"
  shows "others_same i db db' \<and> rows_in t i {} db'"
proof -
  have P: "holds_lease t i JobFinalizing j \<Longrightarrow> bj_id j = i" for j :: "'a bulk_job" by (simp add: holds_lease_def)
  note rows = lease_write_rows [OF w id P]
  have "bj_lockedBy (if holds_lease t i JobFinalizing j then f j else j) \<noteq> Some t"
    if "j \<in> set (job_rows i db)" for j
    using that S f by (auto simp: rows_in_def holds_lease_def job_rows_def)
  then show ?thesis using rows(1) rows_in_image [OF rows(2), of t "{}"] by blast
qed

lemma complete_frees:
  assumes "completePricingBulkJobFinalization row t now db = (Inr b, db')"
    and S: "rows_in t (bj_id row) {JobFinalizing} db"
  shows "others_same (bj_id row) db db' \<and> rows_in t (bj_id row) {} db'"
proof -
  let ?f = "completed_job (countsForJob (bj_id row) db) row now"
  obtain d where w: "lease_write (holds_lease t (bj_id row) JobFinalizing) ?f db = (Inr b, d)"
      "(b \<and> (\<forall>k. job_rows k db' = job_rows k d)) \<or> (\<not> b \<and> db' = db)"
    using assms(1)
    by (auto simp: completePricingBulkJobFinalization_def Let_def split: prod.splits sum.splits bool.splits)
  have a: "others_same (bj_id row) db d \<and> rows_in t (bj_id row) {} d"
    by (rule finalizing_write [OF w(1) _ S]) simp_all
  show ?thesis
  proof (cases b)
    case True
    then show ?thesis using a w(2) by (simp add: others_same_def rows_in_def)
  next
    case False
    have P: "holds_lease t (bj_id row) JobFinalizing j \<Longrightarrow> bj_id j = bj_id row" for j :: "'a bulk_job"
      by (simp add: holds_lease_def)
    have "\<not> holds_lease t (bj_id row) JobFinalizing j" if "j \<in> set (job_rows (bj_id row) db)" for j
      using lease_write_rows(3) [OF w(1) _ P] that False by simp
    then have "rows_in t (bj_id row) {} db"
      using S by (auto simp: rows_in_def holds_lease_def job_rows_def)
    then show ?thesis using w(2) False by simp
  qed
qed

lemma defer_frees:
  assumes "deferPricingBulkJobFinalization row t now code db = (Inr b, db')"
    and S: "rows_in t (bj_id row) {JobFinalizing} db"
  shows "others_same (bj_id row) db db' \<and> rows_in t (bj_id row) {} db'"
proof -
  obtain d where w: "lease_write (holds_lease t (bj_id row) JobFinalizing) (defer_job now code row) db = (Inr b, d)"
      "\<And>k. job_rows k db' = job_rows k d"
    using assms(1) by (auto simp: deferPricingBulkJobFinalization_def split: prod.splits sum.splits if_splits)
  have "others_same (bj_id row) db d \<and> rows_in t (bj_id row) {} d"
    by (rule finalizing_write [OF w(1) _ S]) simp_all
  then show ?thesis using w(2) by (simp add: others_same_def rows_in_def)
qed

section \<open>Sequencing\<close>

lemma and_then_Inr:
  "and_then m f = (Inr b, s') \<longleftrightarrow> (\<exists>a s1. m = (Inr a, s1) \<and> f a s1 = (Inr b, s'))"
  by (auto simp: and_then_def split: prod.splits sum.splits)

lemma and_then_InrE:
  assumes "and_then m f = (Inr b, s')"
  obtains a s1 where "m = (Inr a, s1)" "f a s1 = (Inr b, s')"
  using assms by (auto simp: and_then_Inr)

lemma on_db_Inr:
  "on_db f st = (Inr a, st') \<longleftrightarrow> (\<exists>db. f (rs_db st) = (Inr a, db) \<and> st' = st\<lparr>rs_db := db\<rparr>)"
  by (auto simp: on_db_def split: prod.splits)

text \<open>
  The interface of a frame: what every stage of a computation keeps, whether it succeeds or fails, is
  kept by their composition.
\<close>

locale frame =
  fixes R :: "'s \<Rightarrow> 's \<Rightarrow> bool"
  assumes frame_refl: "R s s"
    and frame_trans: "R s s1 \<Longrightarrow> R s1 s2 \<Longrightarrow> R s s2"
begin

lemma and_then_frame:
  assumes "R s (snd m)" "\<And>a s1. R s1 (snd (f a s1))"
  shows "R s (snd (and_then m f))"
  using assms frame_trans by (auto simp: and_then_def split: prod.splits sum.splits)

lemma guarded_frame: "R s (snd m) \<Longrightarrow> R s (snd (guarded err m s))"
  by (auto simp: guarded_def frame_refl split: option.split)

lemma materialize_all_frame:
  assumes "\<And>im occ s. R s (snd (ef_rematerialize ef im occ s))"
  shows "R s (snd (materialize_all ef ims s))"
proof (induction ims arbitrary: s)
  case Nil
  then show ?case by (simp add: frame_refl)
next
  case (Cons im ims)
  show ?case unfolding materialize_all.simps
    by (intro and_then_frame assms) (auto split: prod.split intro!: and_then_frame Cons.IH frame_refl)
qed

lemma finalizeDeferredImpacts_frame:
  assumes "\<And>im occ s. R s (snd (ef_rematerialize ef im occ s))"
    and "\<And>rs vs s. R s (snd (ef_invalidate ef rs vs s))"
    and "\<And>vs rs a b scope s. R s (snd (ef_enqueueAri ef vs rs a b scope s))"
    and "\<And>rs s. R s (snd (ck_onMaterialized ck rs s))"
    and "\<And>s. R s (snd (ck_onCacheInvalidated ck s))" "\<And>s. R s (snd (ck_onAriEnqueued ck s))"
  shows "R s (snd (finalizeDeferredImpacts cmp iso_text ef ck scope impacts s))"
proof -
  have "R s (snd (materialization_stage ef ck ims s))" for ims s
    unfolding materialization_stage_def
    by (auto simp: frame_refl intro!: guarded_frame and_then_frame materialize_all_frame assms)
  moreover have "R s (snd (cache_stage ef ck ims s))" for ims s
    unfolding cache_stage_def by (auto simp: frame_refl intro!: guarded_frame and_then_frame assms)
  moreover have "R s (snd (ari_stage ef ck scope ims s))" for ims s
    unfolding ari_stage_def by (auto simp: frame_refl intro!: guarded_frame and_then_frame assms)
  ultimately show ?thesis
    unfolding finalizeDeferredImpacts_def Let_def by (auto simp: frame_refl intro!: and_then_frame)
qed

end

definition finalizing_frame ::
  "string \<Rightarrow> string \<Rightarrow> ('c, 'p) bulk_db \<times> 'x \<Rightarrow> ('c, 'p) bulk_db \<times> 'x \<Rightarrow> bool" where
  "finalizing_frame t i s s' \<longleftrightarrow> others_same i (fst s) (fst s') \<and>
     (rows_in t i {JobFinalizing} (fst s) \<longrightarrow> rows_in t i {JobFinalizing} (fst s'))"

interpretation finalizing: frame "finalizing_frame t i" for t i
  by unfold_locales (auto simp: finalizing_frame_def intro: others_same_trans)

lemma checkpointed_db: "fst (snd (checkpointed lost r x)) = snd r"
  by (auto simp: checkpointed_def split: prod.split sum.split bool.split)

lemma finalizing_frame_db:
  "others_same i db (fst s') \<Longrightarrow> (\<And>j. j \<in> set (job_rows i (fst s')) \<Longrightarrow>
      \<exists>k \<in> set (job_rows i db). bj_lockedBy j = bj_lockedBy k \<and> bj_status j = bj_status k)
    \<Longrightarrow> finalizing_frame t i (db, x) s'"
  by (fastforce simp: finalizing_frame_def rows_in_def)

text \<open>A checkpoint changes neither the lock nor the status of a row.\<close>

lemma checkpoint_write_frame:
  assumes id: "\<And>j. bj_id (f j) = bj_id j \<and> bj_lockedBy (f j) = bj_lockedBy j \<and> bj_status (f j) = bj_status j"
    and db: "\<And>k. job_rows k d = job_rows k db"
    and out: "snd r = snd (lease_write (holds_lease t i JobFinalizing) f d) \<or> snd r = db"
  shows "finalizing_frame t i (db, x) (snd (checkpointed lost r x))"
proof (rule finalizing_frame_db)
  have P: "holds_lease t i JobFinalizing j \<Longrightarrow> bj_id j = i" for j :: "'a bulk_job" by (simp add: holds_lease_def)
  show "others_same i db (fst (snd (checkpointed lost r x)))"
    using out lease_write_others_same [where f = f and db = d, OF _ P] id db
    by (auto simp: checkpointed_db others_same_def)
  fix j
  assume j: "j \<in> set (job_rows i (fst (snd (checkpointed lost r x))))"
  show "\<exists>k \<in> set (job_rows i db). bj_lockedBy j = bj_lockedBy k \<and> bj_status j = bj_status k"
  proof (cases "snd r = db")
    case True
    then show ?thesis using j by (auto simp: checkpointed_db)
  next
    case False
    then have r: "snd r = snd (lease_write (holds_lease t i JobFinalizing) f d)" using out by simp
    show ?thesis
    proof (cases "lease_write (holds_lease t i JobFinalizing) f d")
      case (Pair res d')
      show ?thesis
      proof (cases res)
        case (Inl e)
        then show ?thesis using j r Pair db lease_write_Inl by (fastforce simp: checkpointed_db)
      next
        case (Inr b)
        have "set (job_rows i d') = (\<lambda>j. if holds_lease t i JobFinalizing j then f j else j) ` set (job_rows i d)"
          by (rule lease_write_rows(2) [OF Pair [unfolded Inr] _ P]) (simp add: id)
        then obtain k where "k \<in> set (job_rows i d)" "j = (if holds_lease t i JobFinalizing k then f k else k)"
          using j r Pair by (auto simp: checkpointed_db split: if_splits)
        then show ?thesis using id db by (auto split: if_splits)
      qed
    qed
  qed
qed

lemma fold_store_rows [simp]: "job_rows k (fold (store_materialization i) rs db) = job_rows k db"
  by (induction rs arbitrary: db) (simp_all add: store_materialization_def)

lemma worker_effects_frame:
  "finalizing_frame t i s (snd (ef_rematerialize (worker_effects env) im occ s))"
  "finalizing_frame t i s (snd (ef_invalidate (worker_effects env) rs vs s))"
  "finalizing_frame t i s (snd (ef_enqueueAri (worker_effects env) vs rs a b scope s))"
  by (auto simp: worker_effects_def beside_def finalizing_frame_def split: prod.splits)

lemma worker_checkpoint_frame:
  "finalizing_frame (we_token env) (bj_id job) s (snd (ck_onMaterialized (worker_checkpoint env job) rs s))"
  "finalizing_frame (we_token env) (bj_id job) s (snd (ck_onCacheInvalidated (worker_checkpoint env job) s))"
  "finalizing_frame (we_token env) (bj_id job) s (snd (ck_onAriEnqueued (worker_checkpoint env job) s))"
proof -
  obtain db x where s: "s = (db, x)" by (cases s)
  show "finalizing_frame (we_token env) (bj_id job) s (snd (ck_onMaterialized (worker_checkpoint env job) rs s))"
    unfolding s worker_checkpoint_def checkpoint.simps prod.case
    by (rule checkpoint_write_frame [where f = "\<lambda>j. j\<lparr>bj_materializedAt := Some (we_clock env)\<rparr>"
          and d = "fold (store_materialization (bj_id job)) rs db"])
      (auto simp: checkpointPricingBulkMaterialization_def split: prod.splits sum.splits)
  show "finalizing_frame (we_token env) (bj_id job) s (snd (ck_onCacheInvalidated (worker_checkpoint env job) s))"
    unfolding s worker_checkpoint_def checkpoint.simps prod.case
    by (rule checkpoint_write_frame [where f = "\<lambda>j. j\<lparr>bj_cacheAt := Some (we_clock env)\<rparr>" and d = db])
      (simp_all add: checkpointPricingBulkEffect_def)
  show "finalizing_frame (we_token env) (bj_id job) s (snd (ck_onAriEnqueued (worker_checkpoint env job) s))"
    unfolding s worker_checkpoint_def checkpoint.simps prod.case
    by (rule checkpoint_write_frame [where f = "\<lambda>j. j\<lparr>bj_ariAt := Some (we_clock env)\<rparr>" and d = db])
      (simp_all add: checkpointPricingBulkEffect_def)
qed

lemma run_effects_frame: "finalizing_frame (we_token env) (bj_id job) s (snd (run_effects env job s))"
  unfolding run_effects_def Let_def
  by (auto intro!: finalizing.and_then_frame finalizing.finalizeDeferredImpacts_frame
      worker_effects_frame worker_checkpoint_frame finalizing.frame_refl)

lemma run_effects_id: "run_effects env job s = (Inr row, s') \<Longrightarrow> bj_id row = bj_id job"
  by (auto simp: run_effects_def Let_def and_then_Inr split: if_splits)

lemma finalize_job_rows:
  assumes "finalize_job env job (db, x) = (r, (db', x'))"
    and "rows_in (we_token env) (bj_id job) {JobFinalizing} db"
  shows "others_same (bj_id job) db db' \<and>
    rows_in (we_token env) (bj_id job) (case r of Inr _ \<Rightarrow> {} | Inl _ \<Rightarrow> {JobFinalizing}) db'"
proof -
  obtain q d y where q: "run_effects env job (db, x) = (q, (d, y))" by (metis surj_pair)
  have f: "others_same (bj_id job) db d \<and> rows_in (we_token env) (bj_id job) {JobFinalizing} d"
    using run_effects_frame [of env job "(db, x)"] q assms(2) by (simp add: finalizing_frame_def)
  show ?thesis
  proof (cases q)
    case (Inl e)
    then show ?thesis using assms(1) q f by (auto simp: finalize_job_def and_then_def)
  next
    case (Inr row)
    then have row: "bj_id row = bj_id job" using run_effects_id q by simp
    obtain c d' where c: "completePricingBulkJobFinalization row (we_token env) (we_clock env) d = (c, d')"
      by (metis surj_pair)
    show ?thesis
    proof (cases c)
      case (Inl e)
      then have "d' = d"
        using c by (auto simp: completePricingBulkJobFinalization_def Let_def split: prod.splits sum.splits bool.splits)
      then show ?thesis using assms(1) q Inr c Inl f by (auto simp: finalize_job_def and_then_def)
    next
      case (Inr b)
      have "others_same (bj_id row) d d' \<and> rows_in (we_token env) (bj_id row) {} d'"
        by (rule complete_frees [OF c [unfolded Inr]]) (simp add: row f)
      then show ?thesis using assms(1) q \<open>q = Inr row\<close> c Inr f row
        by (auto simp: finalize_job_def and_then_def intro: others_same_trans)
    qed
  qed
qed

section \<open>One job of a run\<close>

abbreviation lockable :: "job_status set" where
  "lockable \<equiv> {JobRunning, JobFinalizing}"

text \<open>Outside a set of jobs nothing has changed; inside it the session holds no lease.\<close>

definition freed :: "string \<Rightarrow> string set \<Rightarrow> ('c, 'p) bulk_db \<Rightarrow> ('c, 'p) bulk_db \<Rightarrow> bool" where
  "freed t I db db' \<longleftrightarrow> (\<forall>k \<in> I. rows_in t k {} db') \<and> (\<forall>k. k \<notin> I \<longrightarrow> job_rows k db' = job_rows k db)"

lemma freed_one: "freed t {i} db db' \<longleftrightarrow> others_same i db db' \<and> rows_in t i {} db'"
  by (auto simp: freed_def others_same_def)

lemma freed_after: "others_same i a b \<Longrightarrow> freed t I b c \<Longrightarrow> i \<in> I \<Longrightarrow> freed t I a c"
  by (auto simp: freed_def others_same_def)

lemma freed_insert:
  assumes "others_same i a b" "rows_in t i {} b" "freed t I b c"
  shows "freed t (insert i I) a c"
proof (cases "i \<in> I")
  case True
  then show ?thesis using freed_after [OF assms(1,3)] by (simp add: insert_absorb)
next
  case False
  then show ?thesis using assms by (simp add: freed_def others_same_def rows_in_def)
qed

lemma release_jobs_frees:
  assumes "release_jobs env jobs st = (Inr u, st')"
    and "\<And>j. j \<in> set jobs \<Longrightarrow> rows_in (we_token env) (bj_id j) lockable (rs_db st)"
  shows "freed (we_token env) (bj_id ` set jobs) (rs_db st) (rs_db st')"
  using assms
proof (induction jobs arbitrary: st)
  case Nil
  then show ?case by (simp add: freed_def)
next
  case (Cons j jobs)
  let ?t = "we_token env"
  obtain b st0 where o: "on_db (releasePricingBulkJobLease (bj_id j) ?t (we_clock env)) st = (Inr b, st0)"
      and n: "release_jobs env jobs (if b
        then st0\<lparr>rs_result := (rs_result st0)\<lparr>rr_released := rr_released (rs_result st0) + 1\<rparr>\<rparr>
        else st0) = (Inr u, st')"
    using Cons.prems(1) unfolding release_jobs.simps and_then_Inr by blast
  define st1 where "st1 = (if b
    then st0\<lparr>rs_result := (rs_result st0)\<lparr>rr_released := rr_released (rs_result st0) + 1\<rparr>\<rparr> else st0)"
  obtain db1 where r: "releasePricingBulkJobLease (bj_id j) ?t (we_clock env) (rs_db st) = (Inr b, db1)"
      and db1: "rs_db st0 = db1"
    using o by (auto simp: on_db_Inr)
  have next1: "release_jobs env jobs st1 = (Inr u, st')" "rs_db st1 = db1"
    using n db1 by (simp_all add: st1_def)
  have f: "others_same (bj_id j) (rs_db st) db1 \<and> rows_in ?t (bj_id j) {} db1"
    by (rule release_frees [OF r]) (simp add: Cons.prems(2))
  have later: "rows_in ?t (bj_id k) lockable (rs_db st1)" if "k \<in> set jobs" for k
  proof (cases "bj_id k = bj_id j")
    case True
    then show ?thesis using f rows_in_mono [of ?t "bj_id j" "{}" db1 lockable] next1(2) by simp
  next
    case False
    then show ?thesis
      using rows_in_others [OF conjunct1 [OF f] False] Cons.prems(2) [of k] that next1(2) by simp
  qed
  have ih: "freed ?t (bj_id ` set jobs) db1 (rs_db st')"
    using Cons.IH [OF next1(1) later] next1(2) by simp
  then show ?case using freed_insert [OF conjunct1 [OF f] conjunct2 [OF f] ih] by simp
qed

lemma processItem_rows [simp]: "job_rows k (snd (processItem env job x db)) = job_rows k db"
  by (auto simp: processItem_def Let_def markPricingBulkItemFailed_def markPricingBulkItemSucceeded_def
      item_write_def split: sum.split)

lemma process_items_rows [simp]: "job_rows k (snd (process_items env job xs db)) = job_rows k db"
  by (induction xs arbitrary: db) (auto simp: Let_def split: prod.splits, metis processItem_rows snd_conv)

lemma work_items_rows:
  assumes "work_items env job st = (Inr ready, st')"
    and "rows_in (we_token env) (bj_id job) {JobRunning} (rs_db st)"
  shows "others_same (bj_id job) (rs_db st) (rs_db st') \<and>
    rows_in (we_token env) (bj_id job) (if ready then {JobFinalizing} else {}) (rs_db st')"
proof -
  obtain items db1 where c: "claimPricingBulkJobItems (\<lambda>_. False) (bj_id job) (we_token env)
      (we_itemBatch env) (we_clock env) (rs_db st) = (items, db1)" by (metis surj_pair)
  obtain os db2 where p: "process_items env job items db1 = (os, db2)" by (metis surj_pair)
  have rows: "job_rows k db2 = job_rows k (rs_db st)" for k
    using process_items_rows [of k env job items db1] p c claim_items_db [of "\<lambda>_. False" "bj_id job"
        "we_token env" "we_itemBatch env" "we_clock env" "rs_db st"] by simp
  let ?p = "\<lparr>sp_job = job, sp_token = we_token env, sp_now = we_now env,
     sp_nextRunAt = (if Deferred \<in> set os
       then Some (we_now env + pricingBulkRetryDelayMs (bj_attempts job + 1)) else None),
     sp_retrying = (Deferred \<in> set os)\<rparr>"
  have s: "settlePricingBulkJobItems ?p (we_clock env) db2 = (Inr ready, rs_db st')"
    using assms(1) c p by (auto simp: work_items_def on_db_Inr)
  have "others_same (settle_job ?p) db2 (rs_db st') \<and>
      rows_in (we_token env) (settle_job ?p) (if ready then {JobFinalizing} else {}) (rs_db st')"
    by (rule settle_rows [OF s]) (use assms(2) rows in \<open>simp_all add: rows_in_def\<close>)
  then show ?thesis using rows by (simp add: others_same_def)
qed

lemma finish_job_frees:
  assumes "finish_job env job rest st = (Inr stop, st')"
    and own: "rows_in (we_token env) (bj_id job) {JobFinalizing} (rs_db st)"
    and rest: "\<And>j. j \<in> set rest \<Longrightarrow> bj_id j \<noteq> bj_id job \<and>
      rows_in (we_token env) (bj_id j) lockable (rs_db st)"
  shows "freed (we_token env) (if stop then bj_id ` set (job # rest) else {bj_id job}) (rs_db st) (rs_db st')"
proof -
  let ?t = "we_token env" and ?i = "bj_id job"
  obtain r db x where fin: "finalize_job env job (rs_db st, rs_ext st) = (r, (db, x))" by (metis surj_pair)
  have f: "others_same ?i (rs_db st) db \<and>
      rows_in ?t ?i (case r of Inr _ \<Rightarrow> {} | Inl _ \<Rightarrow> {JobFinalizing}) db"
    by (rule finalize_job_rows [OF fin own])
  show ?thesis
  proof (cases r)
    case (Inr fin_ok)
    then show ?thesis using assms(1) fin f
      by (auto simp: finish_job_def Let_def freed_one split: if_splits)
  next
    case (Inl e)
    show ?thesis
    proof (cases "e = BudgetError")
      case True
      let ?st = "budget_exceeded (st\<lparr>rs_db := db, rs_ext := x\<rparr>)"
      have rel: "stop" "release_jobs env (job # rest) ?st = (Inr (), st')"
        using assms(1) fin Inl True
        by (auto simp: finish_job_def Let_def and_then_Inr simp del: release_jobs.simps)
      have "freed ?t (bj_id ` set (job # rest)) (rs_db ?st) (rs_db st')"
      proof (rule release_jobs_frees [OF rel(2)])
        fix j assume "j \<in> set (job # rest)"
        then show "rows_in ?t (bj_id j) lockable (rs_db ?st)"
          using f Inl rest rows_in_others [OF conjunct1 [OF f]]
          by (auto simp: budget_exceeded_def intro: rows_in_mono)
      qed
      then show ?thesis using rel(1) freed_after [OF conjunct1 [OF f]]
        by (simp add: budget_exceeded_def)
    next
      case False
      obtain b db1 where d: "deferPricingBulkJobFinalization job ?t (we_clock env) (failure_code e) db = (Inr b, db1)"
          "\<not> stop" "rs_db st' = db1"
      proof -
        let ?st1 = "st\<lparr>rs_db := db, rs_ext := x\<rparr>"
        have eq: "finish_job env job rest st =
            and_then (on_db (deferPricingBulkJobFinalization job ?t (we_clock env) (failure_code e)) ?st1)
              (\<lambda>deferred st2. (Inr False, if deferred
                 then st2\<lparr>rs_result := (rs_result st2)\<lparr>rr_finalizationFailures :=
                   rr_finalizationFailures (rs_result st2) + 1\<rparr>\<rparr> else st2))"
          using fin Inl False by (cases e) (simp_all add: finish_job_def Let_def)
        obtain b st2 where o: "on_db (deferPricingBulkJobFinalization job ?t (we_clock env)
              (failure_code e)) ?st1 = (Inr b, st2)"
            and st': "\<not> stop" "rs_db st' = rs_db st2"
          using assms(1) unfolding eq and_then_Inr by (auto split: if_splits)
        then show thesis using that by (auto simp: on_db_Inr)
      qed
      have "others_same ?i db db1 \<and> rows_in ?t ?i {} db1"
        by (rule defer_frees [OF d(1)]) (use f Inl in simp)
      then show ?thesis using f d by (auto simp: freed_one intro: others_same_trans)
    qed
  qed
qed

text \<open>Stopping early: this job and all later ones are released.\<close>

lemma stop_frees:
  assumes "and_then (release_jobs env (job # rest) (budget_exceeded s)) (\<lambda>_ st1. (Inr True, st1)) = (Inr stop, st')"
    and f: "others_same (bj_id job) (rs_db st) (rs_db s)" "rows_in (we_token env) (bj_id job) lockable (rs_db s)"
    and rest: "\<And>j. j \<in> set rest \<Longrightarrow> bj_id j \<noteq> bj_id job \<and>
      rows_in (we_token env) (bj_id j) lockable (rs_db st)"
  shows "freed (we_token env) (if stop then bj_id ` set (job # rest) else {bj_id job}) (rs_db st) (rs_db st')"
proof -
  have r: "stop" "release_jobs env (job # rest) (budget_exceeded s) = (Inr (), st')"
    using assms(1) by (auto elim!: and_then_InrE simp del: release_jobs.simps)
  have "freed (we_token env) (bj_id ` set (job # rest)) (rs_db (budget_exceeded s)) (rs_db st')"
  proof (rule release_jobs_frees [OF r(2)])
    fix j assume "j \<in> set (job # rest)"
    then show "rows_in (we_token env) (bj_id j) lockable (rs_db (budget_exceeded s))"
      using f rest rows_in_others [OF f(1)] by (auto simp: budget_exceeded_def)
  qed
  then show ?thesis using r(1) freed_after [OF f(1)] by (simp add: budget_exceeded_def)
qed

lemma conclude_job_frees:
  assumes c: "conclude_job env job rest ready s = (Inr stop, st')"
    and f: "others_same (bj_id job) (rs_db st) (rs_db s)"
      "rows_in (we_token env) (bj_id job) (if ready then {JobFinalizing} else {}) (rs_db s)"
    and rest: "\<And>j. j \<in> set rest \<Longrightarrow> bj_id j \<noteq> bj_id job \<and>
      rows_in (we_token env) (bj_id j) lockable (rs_db st)"
  shows "freed (we_token env) (if stop then bj_id ` set (job # rest) else {bj_id job}) (rs_db st) (rs_db st')"
proof -
  let ?t = "we_token env" and ?i = "bj_id job"
  consider (no) "\<not> ready" | (late) "ready" "we_lateFinish env ?i" | (go) "ready" "\<not> we_lateFinish env ?i"
    by blast
  then show ?thesis
  proof cases
    case no
    then show ?thesis using c f by (auto simp: conclude_job_def freed_one)
  next
    case late
    then have "rows_in ?t ?i lockable (rs_db s)" using f(2) by (auto intro: rows_in_mono)
    then show ?thesis
      by (intro stop_frees [OF _ f(1)]) (use c late rest in \<open>auto simp: conclude_job_def\<close>)
  next
    case go
    then have "and_then (on_db (refreshPricingBulkJobLease ?i ?t (we_clock env)) s)
        (\<lambda>still st1. if \<not> still then (Inr False, st1) else finish_job env job rest st1) = (Inr stop, st')"
      using c by (simp add: conclude_job_def)
    then obtain still s1 where o: "on_db (refreshPricingBulkJobLease ?i ?t (we_clock env)) s = (Inr still, s1)"
        and n: "(if \<not> still then (Inr False, s1) else finish_job env job rest s1) = (Inr stop, st')"
      by (rule and_then_InrE)
    obtain db3 where r3: "refreshPricingBulkJobLease ?i ?t (we_clock env) (rs_db s) = (Inr still, db3)"
        and db3: "rs_db s1 = db3"
      using o by (auto simp: on_db_Inr)
    have s3: "others_same ?i (rs_db s) db3 \<and> rows_in ?t ?i {JobFinalizing} db3 \<and>
        (\<not> still \<longrightarrow> rows_in ?t ?i {} db3)"
      by (rule refresh_rows [OF r3]) (use f go in simp_all)
    have o3: "others_same ?i (rs_db st) (rs_db s1)" using f(1) s3 others_same_trans db3 by blast
    show ?thesis
    proof (cases still)
      case False
      then show ?thesis using n s3 o3 db3 by (auto simp: freed_one)
    next
      case True
      have "freed ?t (if stop then bj_id ` set (job # rest) else {?i}) (rs_db s1) (rs_db st')"
        by (rule finish_job_frees) (use n True s3 db3 rest rows_in_others [OF o3] in simp_all)
      then show ?thesis using freed_after [OF o3] by auto
    qed
  qed
qed

lemma run_job_frees:
  assumes r: "run_job env job rest st = (Inr stop, st')"
    and own: "rows_in (we_token env) (bj_id job) {bj_status job} (rs_db st)" "bj_status job \<in> lockable"
    and rest: "\<And>j. j \<in> set rest \<Longrightarrow> bj_id j \<noteq> bj_id job \<and>
      rows_in (we_token env) (bj_id j) lockable (rs_db st)"
  shows "freed (we_token env) (if stop then bj_id ` set (job # rest) else {bj_id job}) (rs_db st) (rs_db st')"
proof -
  let ?t = "we_token env" and ?i = "bj_id job"
  have own': "rows_in ?t ?i lockable (rs_db st)"
    using rows_in_mono [OF own(1), of lockable] own(2) by simp
  show ?thesis
  proof (cases "we_lateStart env ?i")
    case True
    then show ?thesis using r own' rest by (intro stop_frees [of _ _ _ st]) (auto simp: run_job_def)
  next
    case False
    then have "and_then (on_db (refreshPricingBulkJobLease ?i ?t (we_now env)) st)
        (\<lambda>current st1. if \<not> current then (Inr False, st1) else work_job env job rest st1) = (Inr stop, st')"
      using r by (simp add: run_job_def)
    then obtain b s1 where o: "on_db (refreshPricingBulkJobLease ?i ?t (we_now env)) st = (Inr b, s1)"
        and n: "(if \<not> b then (Inr False, s1) else work_job env job rest s1) = (Inr stop, st')"
      by (rule and_then_InrE)
    obtain db1 where ref: "refreshPricingBulkJobLease ?i ?t (we_now env) (rs_db st) = (Inr b, db1)"
        and db1: "rs_db s1 = db1"
      using o by (auto simp: on_db_Inr)
    have f1: "others_same ?i (rs_db st) db1 \<and> rows_in ?t ?i {bj_status job} db1 \<and>
        (\<not> b \<longrightarrow> rows_in ?t ?i {} db1)"
      by (rule refresh_rows [OF ref own(1)]) (use own(2) in simp)
    show ?thesis
    proof (cases b)
      case False
      then show ?thesis using n f1 db1 by (auto simp: freed_one)
    next
      case True
      then have "and_then (if bj_status job = JobRunning then work_items env job s1
          else (Inr (bj_status job = JobFinalizing), s1)) (conclude_job env job rest) = (Inr stop, st')"
        using n by (simp add: work_job_def)
      then obtain ready s2 where w: "(if bj_status job = JobRunning then work_items env job s1
            else (Inr (bj_status job = JobFinalizing), s1)) = (Inr ready, s2)"
          and c: "conclude_job env job rest ready s2 = (Inr stop, st')"
        by (rule and_then_InrE)
      have f2: "others_same ?i (rs_db s1) (rs_db s2) \<and>
          rows_in ?t ?i (if ready then {JobFinalizing} else {}) (rs_db s2)"
      proof (cases "bj_status job = JobRunning")
        case True
        then show ?thesis using work_items_rows [of env job s1 ready s2] w f1 db1 by simp
      next
        case False
        then have "bj_status job = JobFinalizing" using own(2) by simp
        then show ?thesis using w f1 db1 by auto
      qed
      have "others_same ?i (rs_db st) (rs_db s2)" using f1 f2 others_same_trans db1 by blast
      then show ?thesis by (rule conclude_job_frees [OF c]) (use f2 rest in auto)
    qed
  qed
qed

lemma run_jobs_frees:
  assumes "run_jobs env jobs st = (Inr u, st')" "distinct (map bj_id jobs)"
    and "\<And>j. j \<in> set jobs \<Longrightarrow> rows_in (we_token env) (bj_id j) {bj_status j} (rs_db st) \<and>
      bj_status j \<in> lockable"
  shows "freed (we_token env) (bj_id ` set jobs) (rs_db st) (rs_db st')"
  using assms
proof (induction jobs arbitrary: st)
  case Nil
  then show ?case by (simp add: freed_def)
next
  case (Cons job jobs)
  let ?t = "we_token env"
  obtain stop st1 where r: "run_job env job jobs st = (Inr stop, st1)"
      and go: "(if stop then (Inr (), st1) else run_jobs env jobs st1) = (Inr u, st')"
    using Cons.prems(1) by (auto simp: and_then_Inr)
  have diff: "bj_id j \<noteq> bj_id job" if "j \<in> set jobs" for j
  proof
    assume "bj_id j = bj_id job"
    then have "bj_id job \<in> bj_id ` set jobs" using that by (metis imageI)
    then show False using Cons.prems(2) by simp
  qed
  have f: "freed ?t (if stop then bj_id ` set (job # jobs) else {bj_id job}) (rs_db st) (rs_db st1)"
  proof (rule run_job_frees [OF r])
    show "bj_id j \<noteq> bj_id job \<and> rows_in ?t (bj_id j) lockable (rs_db st)" if "j \<in> set jobs" for j
      using diff [OF that] Cons.prems(3) [of j] that by (auto intro: rows_in_mono)
  qed (use Cons.prems(3) [of job] in simp_all)
  show ?case
  proof (cases stop)
    case True
    then show ?thesis using f go by simp
  next
    case False
    then have f1: "others_same (bj_id job) (rs_db st) (rs_db st1)" "rows_in ?t (bj_id job) {} (rs_db st1)"
      using f by (simp_all add: freed_one)
    have "freed ?t (bj_id ` set jobs) (rs_db st1) (rs_db st')"
    proof (rule Cons.IH)
      show "run_jobs env jobs st1 = (Inr u, st')" using go False by simp
      show "rows_in ?t (bj_id j) {bj_status j} (rs_db st1) \<and> bj_status j \<in> lockable" if "j \<in> set jobs" for j
        using rows_in_others [OF f1(1) diff [OF that]] Cons.prems(3) [of j] that by simp
    qed (use Cons.prems(2) in simp)
    moreover have "bj_id job \<notin> bj_id ` set jobs" using Cons.prems(2) by simp
    ultimately show ?thesis using freed_insert [OF f1] by simp
  qed
qed

section \<open>The whole run\<close>

lemma owned_rows: "owned t i db \<longleftrightarrow> \<not> rows_in t i {} db"
  by (auto simp: owned_def rows_in_def job_rows_def list_ex_iff)

lemma claimed_rows:
  assumes wf: "bulk_wf db" and c: "claimQueuedPricingBulkJobs locked now n t db = (Inr jobs, db')"
  shows "distinct (map bj_id jobs)"
    and "j \<in> set jobs \<Longrightarrow> rows_in t (bj_id j) {bj_status j} db' \<and> bj_status j \<in> lockable"
    and "k \<notin> bj_id ` set jobs \<Longrightarrow> job_rows k db' = job_rows k db"
proof -
  let ?due = "map bj_id (select_due (claimable now) job_due locked n (bd_jobs db))"
  obtain m where u: "update_jobs (\<lambda>j. bj_id j \<in> set ?due) (claim_job t now) db = Inr (m, db')"
      and jobs: "jobs = filter (\<lambda>j. bj_id j \<in> set ?due) (bd_jobs db')"
    using c by (auto simp: claimQueuedPricingBulkJobs_def Let_def split: sum.splits)
  have wf': "bulk_wf db'" using claim_wf [OF wf, of locked now n t] c by simp
  show "distinct (map bj_id jobs)" unfolding jobs by (rule distinct_map_filter [OF bulk_wfD(1) [OF wf']])
  have rows: "job_rows k db' = map (\<lambda>j. if bj_id j \<in> set ?due then claim_job t now j else j) (job_rows k db)" for k
    by (rule update_jobs_rows [OF u]) simp
  show "rows_in t (bj_id j) {bj_status j} db' \<and> bj_status j \<in> lockable" if j: "j \<in> set jobs"
  proof
    have mem: "j \<in> set (bd_jobs db')" "bj_id j \<in> set ?due" using j by (simp_all add: jobs)
    have "r = j" if "r \<in> set (job_rows (bj_id j) db')" for r
      using same_job [OF wf' _ mem(1), of r] that by (simp add: job_rows_def)
    then show "rows_in t (bj_id j) {bj_status j} db'" by (auto simp: rows_in_def)
    have "j \<in> set (job_rows (bj_id j) db')" using mem(1) by (simp add: job_rows_def)
    then obtain k where "k \<in> set (job_rows (bj_id j) db)"
        "j = (if bj_id k \<in> set ?due then claim_job t now k else k)"
      unfolding rows set_map by (elim imageE)
    then have "j = claim_job t now k" using mem(2) by (simp add: job_rows_def)
    then show "bj_status j \<in> lockable" by (simp add: claim_job_def)
  qed
  show "job_rows k db' = job_rows k db" if "k \<notin> bj_id ` set jobs"
  proof (cases "k \<in> set ?due")
    case False
    then show ?thesis unfolding rows by (intro map_idI) (auto simp: job_rows_def)
  next
    case True
    have "r \<notin> set (job_rows k db')" for r
    proof
      assume "r \<in> set (job_rows k db')"
      then have "r \<in> set jobs" "bj_id r = k" using True by (simp_all add: jobs job_rows_def)
      then show False using that by blast
    qed
    then have "job_rows k db' = []" by (metis last_in_set)
    then show ?thesis using rows [of k] by simp
  qed
qed

text \<open>
  C33. A run gives every lease back. Whatever the items, the services and the clock do, a run of the
  worker that returns, with its jobs finished, deferred, put back in the queue, or released because
  the time was up, leaves no job locked by its token.
\<close>

theorem run_leaves_no_lease:
  assumes "bulk_wf db" "\<And>i. \<not> owned (we_token env) i db"
    and "runPricingBulkJobWorker env db x = (Inr (), st)"
  shows "\<not> owned (we_token env) i (rs_db st)"
proof -
  let ?t = "we_token env"
  let ?st0 = "\<lparr>rs_db = db, rs_ext = x, rs_result = empty_result\<rparr>"
  obtain m s1 where rec: "on_db (recoverExpiredPricingBulkJobLeases (\<lambda>_. False) (we_now env)
        (we_leaseMs env)) ?st0 = (Inr m, s1)"
      and n1: "and_then (on_db (claimQueuedPricingBulkJobs (\<lambda>_. False) (we_now env)
            (we_jobBatch env) ?t) s1) (\<lambda>jobs st2. run_jobs env jobs st2) = (Inr (), st)"
    using assms(3) unfolding runPricingBulkJobWorker_def by (rule and_then_InrE)
  have db1: "rs_db s1 = snd (recoverExpiredPricingBulkJobLeases (\<lambda>_. False) (we_now env) (we_leaseMs env) db)"
    using rec by (auto simp: on_db_Inr)
  have wf1: "bulk_wf (rs_db s1)" unfolding db1 by (rule recover_keeps(1) [OF assms(1)])
  have free1: "\<not> owned ?t k (rs_db s1)" for k
    using recover_keeps(2) [OF assms(1), of ?t k] assms(2) unfolding db1 by blast
  obtain jobs s2 where cl: "on_db (claimQueuedPricingBulkJobs (\<lambda>_. False) (we_now env)
        (we_jobBatch env) ?t) s1 = (Inr jobs, s2)" and run: "run_jobs env jobs s2 = (Inr (), st)"
    using n1 by (rule and_then_InrE)
  have c: "claimQueuedPricingBulkJobs (\<lambda>_. False) (we_now env) (we_jobBatch env) ?t (rs_db s1) =
      (Inr jobs, rs_db s2)"
    using cl by (auto simp: on_db_Inr)
  note claimed = claimed_rows [OF wf1 c]
  have f: "freed ?t (bj_id ` set jobs) (rs_db s2) (rs_db st)"
    by (rule run_jobs_frees [OF run claimed(1)]) (rule claimed(2))
  show ?thesis
  proof (cases "i \<in> bj_id ` set jobs")
    case True
    then show ?thesis using f by (auto simp: freed_def owned_rows)
  next
    case False
    then have "job_rows i (rs_db st) = job_rows i (rs_db s1)"
      using f claimed(3) by (simp add: freed_def)
    then show ?thesis using free1 [of i] by (simp add: owned_rows rows_in_def)
  qed
qed

definition ex_env :: "(nat, nat, unit) worker_env" where
  "ex_env = \<lparr>we_token = ''z'', we_now = 10, we_clock = 11, we_jobBatch = 4, we_itemBatch = 8,
     we_leaseMs = 300000, we_lateStart = (\<lambda>_. False), we_lateFinish = (\<lambda>_. False),
     we_budget = (\<lambda>_ _. True), we_valid = (\<lambda>_. True),
     we_owner = (\<lambda>r. if r = ''r1'' then Some ex_plan else None), we_preview = (\<lambda>_ _. Inr 7),
     we_create = (\<lambda>_ x. Inr (''rule'', \<lparr>si_impact = ex_impact 1 4, si_replayed = False, si_ruleCount = 1\<rparr>)),
     we_effects = \<lparr>ef_rematerialize = (\<lambda>_ _ s. (Inr (0, 3), s)), ef_invalidate = (\<lambda>_ _ s. (Inr (), s)),
       ef_enqueueAri = (\<lambda>_ _ _ _ _ s. (Inr (), s))\<rparr>,
     we_compare = by_length, we_iso = unary\<rparr>"

definition ex_run :: "(bulk_error + unit) \<times> (nat, nat, unit) run_state" where
  "ex_run = runPricingBulkJobWorker ex_env (bw_db ex_world1) ()"

theorem run_leaves_no_lease_witness:
  "fst ex_run = Inr () \<and> \<not> owned ''z'' ''j'' (rs_db (snd ex_run)) \<and>
   map bj_status (bd_jobs (rs_db (snd ex_run))) = [JobPartial]"
proof -
  have wf: "bulk_wf (bw_db ex_world1)"
    using bulk_steps_keep [OF ex_reach1 [unfolded ex_world0_def] empty_world_inv] by (simp add: world_inv_def)
  have "map bj_lockedBy (bd_jobs (bw_db ex_world1)) = [None]" by code_simp
  then have free: "\<not> owned (we_token ex_env) i (bw_db ex_world1)" for i
    by (cases "bd_jobs (bw_db ex_world1)") (auto simp: owned_def)
  have ok: "fst ex_run = Inr ()" "map bj_status (bd_jobs (rs_db (snd ex_run))) = [JobPartial]"
    by code_simp+
  then have "runPricingBulkJobWorker ex_env (bw_db ex_world1) () = (Inr (), snd ex_run)"
    unfolding ex_run_def by (metis prod.collapse)
  from run_leaves_no_lease [OF wf free this, of "''j''"] ok show ?thesis by (simp add: ex_env_def)
qed

section \<open>The counters of a run\<close>

definition balanced :: "run_result \<Rightarrow> bool" where
  "balanced r \<longleftrightarrow> rr_processed r = rr_succeeded r + rr_failed r + rr_deferred r"

definition keeps_balance :: "('c, 'p, 'x) run_state \<Rightarrow> ('c, 'p, 'x) run_state \<Rightarrow> bool" where
  "keeps_balance st st' \<longleftrightarrow> (balanced (rs_result st) \<longrightarrow> balanced (rs_result st'))"

interpretation balance: frame keeps_balance
  by unfold_locales (auto simp: keeps_balance_def)

lemma count_outcomes_balanced: "balanced r \<Longrightarrow> balanced (count_outcomes os r)"
proof -
  have "length os = length (filter (\<lambda>x. x = Done) os) + length (filter (\<lambda>x. x = Broken) os) +
      length (filter (\<lambda>x. x = Deferred) os)"
  proof (induction os)
    case (Cons a os)
    then show ?case by (cases a) auto
  qed simp
  then show "balanced r \<Longrightarrow> balanced (count_outcomes os r)" by (simp add: balanced_def count_outcomes_def)
qed

lemma on_db_balance [simp]: "keeps_balance st (snd (on_db f st))"
  by (auto simp: on_db_def keeps_balance_def split: prod.split)

lemma result_balance [simp]:
  "keeps_balance st (st\<lparr>rs_result := (rs_result st)\<lparr>rr_released := a\<rparr>\<rparr>)"
  "keeps_balance st (st\<lparr>rs_result := (rs_result st)\<lparr>rr_finalized := a\<rparr>\<rparr>)"
  "keeps_balance st (st\<lparr>rs_result := (rs_result st)\<lparr>rr_finalizationFailures := a\<rparr>\<rparr>)"
  "keeps_balance st (budget_exceeded st)" "keeps_balance st st"
  by (simp_all add: keeps_balance_def balanced_def budget_exceeded_def)

lemma release_jobs_balance: "keeps_balance st (snd (release_jobs env jobs st))"
proof (induction jobs arbitrary: st)
  case (Cons j jobs)
  have "keeps_balance s (snd (release_jobs env jobs (if b
      then s\<lparr>rs_result := (rs_result s)\<lparr>rr_released := rr_released (rs_result s) + 1\<rparr>\<rparr> else s)))" for b s
    using Cons.IH balance.frame_trans [OF result_balance(1) Cons.IH] by simp
  then show ?case unfolding release_jobs.simps by (intro balance.and_then_frame on_db_balance)
qed simp

lemma stop_balance:
  "keeps_balance st (snd (and_then (release_jobs env jobs (budget_exceeded st)) (\<lambda>_ s. (Inr True, s))))"
  by (intro balance.and_then_frame balance.frame_trans [OF result_balance(4) release_jobs_balance]) simp

lemma finish_job_balance: "keeps_balance st (snd (finish_job env job rest st))"
proof -
  obtain r db x where fin: "finalize_job env job (rs_db st, rs_ext st) = (r, (db, x))" by (metis surj_pair)
  let ?st = "st\<lparr>rs_db := db, rs_ext := x\<rparr>"
  have base: "keeps_balance st ?st" by (simp add: keeps_balance_def)
  have stop: "keeps_balance st (snd (and_then (release_jobs env (job # rest) (budget_exceeded ?st))
      (\<lambda>_ s. (Inr True, s))))"
    by (rule balance.frame_trans [OF base stop_balance])
  have dfr: "keeps_balance st (snd (and_then (on_db f ?st)
      (\<lambda>deferred st2. (Inr False, if deferred
         then st2\<lparr>rs_result := (rs_result st2)\<lparr>rr_finalizationFailures :=
           rr_finalizationFailures (rs_result st2) + 1\<rparr>\<rparr> else st2))))" for f
    by (rule balance.frame_trans [OF base balance.and_then_frame]) simp_all
  have fin': "keeps_balance st (?st\<lparr>rs_result := (rs_result st)\<lparr>rr_finalized := rr_finalized (rs_result st) + 1\<rparr>\<rparr>)"
    by (simp add: keeps_balance_def balanced_def)
  show ?thesis
    using fin stop dfr fin' base
    by (cases r) (auto simp: finish_job_def Let_def simp del: release_jobs.simps split: failure.split)
qed

lemma conclude_job_balance: "keeps_balance st (snd (conclude_job env job rest ready st))"
proof -
  have "keeps_balance s (snd (if \<not> still then (Inr False, s) else finish_job env job rest s))" for still s
    by (simp add: finish_job_balance)
  then have "keeps_balance st (snd (and_then (on_db f st)
      (\<lambda>still s. if \<not> still then (Inr False, s) else finish_job env job rest s)))" for f
    by (intro balance.and_then_frame on_db_balance)
  then show ?thesis by (simp add: conclude_job_def stop_balance del: release_jobs.simps)
qed

lemma work_items_balance: "keeps_balance st (snd (work_items env job st))"
proof -
  have m: "keeps_balance st (snd (on_db f (st\<lparr>rs_db := db, rs_result := count_outcomes os (rs_result st)\<rparr>)))" for f db os
    by (rule balance.frame_trans [OF _ on_db_balance]) (simp add: keeps_balance_def count_outcomes_balanced)
  obtain items db1 where c: "claimPricingBulkJobItems (\<lambda>_. False) (bj_id job) (we_token env)
      (we_itemBatch env) (we_clock env) (rs_db st) = (items, db1)" by (metis surj_pair)
  obtain os db2 where p: "process_items env job items db1 = (os, db2)" by (metis surj_pair)
  show ?thesis by (simp add: work_items_def Let_def c p m)
qed

lemma run_job_balance: "keeps_balance st (snd (run_job env job rest st))"
proof -
  have "keeps_balance s (snd (work_job env job rest s))" for s
    unfolding work_job_def
    by (intro balance.and_then_frame conclude_job_balance) (simp add: work_items_balance)
  then have "keeps_balance s (snd (if \<not> b then (Inr False, s) else work_job env job rest s))" for b s by simp
  then have "keeps_balance st (snd (and_then (on_db f st)
      (\<lambda>b s. if \<not> b then (Inr False, s) else work_job env job rest s)))" for f
    by (intro balance.and_then_frame on_db_balance)
  then show ?thesis by (simp add: run_job_def stop_balance del: release_jobs.simps)
qed

lemma run_jobs_balance: "keeps_balance st (snd (run_jobs env jobs st))"
proof (induction jobs arbitrary: st)
  case (Cons job jobs)
  then have "keeps_balance s (snd (if stop then (Inr (), s) else run_jobs env jobs s))" for stop s by simp
  then show ?case unfolding run_jobs.simps by (intro balance.and_then_frame run_job_balance)
qed simp

text \<open>
  The counters of a run add up: whether the run returns or throws, each processed item is counted
  exactly once, as succeeded, failed or deferred.
\<close>

theorem run_counters_add_up:
  "balanced (rs_result (snd (runPricingBulkJobWorker env db x)))"
proof -
  have "keeps_balance \<lparr>rs_db = db, rs_ext = x, rs_result = empty_result\<rparr> (snd (runPricingBulkJobWorker env db x))"
    unfolding runPricingBulkJobWorker_def by (intro balance.and_then_frame on_db_balance run_jobs_balance)
  then show ?thesis by (simp add: keeps_balance_def balanced_def empty_result_def)
qed

section \<open>Bounds\<close>

text \<open>
  C36. Retries are neither immediate nor unbounded in delay. A retry waits between thirty seconds and one
  hour, never less than after the attempt before, exactly one hour from the eighth attempt on; and an
  item is put back for a retry only while its own attempts and those of its job are below the limit.
\<close>

theorem retry_delay_bounds:
  "30000 \<le> pricingBulkRetryDelayMs a \<and> pricingBulkRetryDelayMs a \<le> 3600000 \<and>
   (a \<le> b \<longrightarrow> pricingBulkRetryDelayMs a \<le> pricingBulkRetryDelayMs b) \<and>
   (8 \<le> a \<longrightarrow> pricingBulkRetryDelayMs a = 3600000) \<and>
   (item_retry_at env job item e \<noteq> None \<longrightarrow> failure_retryable e \<and>
      int (bi_attempts item) < bj_maxAttempts job \<and> bj_attempts job + 1 < bj_maxAttempts job)"
proof -
  let ?n = "\<lambda>a :: int. nat (min (max 1 a - 1) 7)"
  have pow: "(1 :: int) \<le> 2 ^ n" for n :: nat by simp
  have mono: "(2 :: int) ^ ?n a \<le> 2 ^ ?n b" if "a \<le> b"
    by (rule power_increasing) (use that in auto)
  have last: "?n a = 7" if "8 \<le> a" using that by simp
  have "30000 \<le> pricingBulkRetryDelayMs a"
    using pow [of "?n a"] by (simp add: pricingBulkRetryDelayMs_def Let_def)
  moreover have "pricingBulkRetryDelayMs a \<le> 3600000" by (simp add: pricingBulkRetryDelayMs_def Let_def)
  moreover have "pricingBulkRetryDelayMs a \<le> pricingBulkRetryDelayMs b" if "a \<le> b"
    unfolding pricingBulkRetryDelayMs_def Let_def
    by (rule min.mono [OF mult_left_mono [OF mono [OF that]] order.refl]) simp
  moreover have "pricingBulkRetryDelayMs a = 3600000" if "8 \<le> a"
    using last [OF that] unfolding pricingBulkRetryDelayMs_def Let_def by simp
  ultimately show ?thesis by (auto simp: item_retry_at_def split: if_splits)
qed

theorem retry_delay_bounds_witness:
  "pricingBulkRetryDelayMs 2 = 60000 \<and> pricingBulkRetryDelayMs 2 \<le> pricingBulkRetryDelayMs 9 \<and>
   pricingBulkRetryDelayMs 9 = 3600000"
  using retry_delay_bounds [of 2 9] retry_delay_bounds [of 9 9] by (simp add: pricingBulkRetryDelayMs_def)

end
