(* ===== verification/Pricing_Rules.thy ===== *)
theory Pricing_Rules
  imports Js_Values
begin

text \<open>
  The price rules of a rate plan (modules/pricing/domain): eligibility of a rule for a stay,
  the evaluation of the applicable rules over a base price, the minimal rule engine with its
  strict parser and its adapter, and promotions.

  A number is a rational or \<open>None\<close> for a value that is not finite. A date text is the day it names,
  \<open>None\<close> when \<open>Date\<close> does not parse it. The explanation texts of the eligibility are the datatype of
  the reasons they are built from.
\<close>

type_synonym js_num = "rat option"
type_synonym date_text = "day option"

definition roundMoney :: "rat \<Rightarrow> rat" where
  "roundMoney v = js_round (v * 100) / 100"

section \<open>Eligibility\<close>

record eligibility =
  el_minLeadDays :: js_num
  el_maxLeadDays :: js_num
  el_minNights :: js_num

record stay_context =
  sc_requestDate :: "ms option"
  sc_checkIn :: "ms option"
  sc_checkOut :: "ms option"
  sc_nights :: js_num

datatype reason =
    LeadUnknownForMinimum int
  | LeadBelowMinimum int int
  | LeadMeetsMinimum int int
  | LeadUnknownForMaximum int
  | LeadAboveMaximum int int
  | LeadWithinWindow int
  | NightsUnknown int
  | NightsBelow int
  | NightsMeetMinimum int int
  | NoConditionConfigured

record eligibility_result =
  er_applies :: bool
  er_reasons :: "reason list"
  er_leadTimeDays :: "int option"
  er_nights :: "int option"
  er_missingContext :: bool

definition toDateOnly :: "ms option \<Rightarrow> ms option" where
  "toDateOnly = map_option (\<lambda>t. parseDateOnly (toISODate t))"

definition wholeDaysBetween :: "ms \<Rightarrow> ms \<Rightarrow> int" where
  "wholeDaysBetween s t = (t - s) div 86400000"

definition normalizePositiveInteger :: "js_num \<Rightarrow> int option" where
  "normalizePositiveInteger v =
     (case v of None \<Rightarrow> None
      | Some x \<Rightarrow> (let n = \<lfloor>js_trunc x\<rfloor> in if 0 < n then Some n else None))"

record conditions =
  cn_minLeadDays :: "int option"
  cn_maxLeadDays :: "int option"
  cn_minNights :: "int option"

definition normalizeEligibility :: "eligibility option \<Rightarrow> conditions" where
  "normalizeEligibility e =
     \<lparr>cn_minLeadDays = (case e of None \<Rightarrow> None | Some x \<Rightarrow> normalizePositiveInteger (el_minLeadDays x)),
      cn_maxLeadDays = (case e of None \<Rightarrow> None | Some x \<Rightarrow> normalizePositiveInteger (el_maxLeadDays x)),
      cn_minNights = (case e of None \<Rightarrow> None | Some x \<Rightarrow> normalizePositiveInteger (el_minNights x))\<rparr>"

definition resolveStayContext :: "stay_context option \<Rightarrow> int option \<times> int option \<times> bool" where
  "resolveStayContext sc =
     (case sc of None \<Rightarrow> (None, None, True)
      | Some c \<Rightarrow>
          (let requestDate = toDateOnly (sc_requestDate c);
               checkIn = toDateOnly (sc_checkIn c);
               checkOut = toDateOnly (sc_checkOut c);
               leadTimeDays = (case (requestDate, checkIn) of
                  (Some r, Some i) \<Rightarrow> Some (wholeDaysBetween r i) | _ \<Rightarrow> None);
               derivedNights = (case (checkIn, checkOut) of
                  (Some i, Some out) \<Rightarrow> Some (wholeDaysBetween i out) | _ \<Rightarrow> None);
               nights = (case normalizePositiveInteger (sc_nights c) of
                  Some n \<Rightarrow> Some n
                | None \<Rightarrow> (case derivedNights of Some d \<Rightarrow> if 0 < d then Some d else None | None \<Rightarrow> None))
           in (leadTimeDays, nights, leadTimeDays = None \<and> nights = None)))"

definition has_condition :: "conditions \<Rightarrow> bool" where
  "has_condition c \<longleftrightarrow>
     cn_minLeadDays c \<noteq> None \<or> cn_maxLeadDays c \<noteq> None \<or> cn_minNights c \<noteq> None"

definition hasPricingRuleEligibility :: "eligibility option \<Rightarrow> bool" where
  "hasPricingRuleEligibility e = has_condition (normalizeEligibility e)"

text \<open>One condition: nothing, a failure, or a reason.\<close>

definition check_minLead :: "int option \<Rightarrow> int option \<Rightarrow> reason list \<times> reason list" where
  "check_minLead minimum lead =
     (case minimum of None \<Rightarrow> ([], [])
      | Some m \<Rightarrow> (case lead of None \<Rightarrow> ([LeadUnknownForMinimum m], [])
          | Some l \<Rightarrow> if l < m then ([LeadBelowMinimum l m], []) else ([], [LeadMeetsMinimum l m])))"

definition check_maxLead :: "int option \<Rightarrow> int option \<Rightarrow> reason list \<times> reason list" where
  "check_maxLead maximum lead =
     (case maximum of None \<Rightarrow> ([], [])
      | Some m \<Rightarrow> (case lead of None \<Rightarrow> ([LeadUnknownForMaximum m], [])
          | Some l \<Rightarrow> if m < l then ([LeadAboveMaximum l m], []) else ([], [LeadWithinWindow m])))"

definition check_minNights :: "int option \<Rightarrow> int option \<Rightarrow> reason list \<times> reason list" where
  "check_minNights minimum nights =
     (case minimum of None \<Rightarrow> ([], [])
      | Some m \<Rightarrow> (case nights of None \<Rightarrow> ([NightsUnknown m], [])
          | Some n \<Rightarrow> if n < m then ([NightsBelow m], []) else ([], [NightsMeetMinimum n m])))"

definition evaluatePricingRuleEligibility ::
  "eligibility option \<Rightarrow> stay_context option \<Rightarrow> eligibility_result" where
  "evaluatePricingRuleEligibility e sc =
     (let c = normalizeEligibility e;
          (lead, nights, missing) = resolveStayContext sc;
          checks = [check_minLead (cn_minLeadDays c) lead, check_maxLead (cn_maxLeadDays c) lead,
                    check_minNights (cn_minNights c) nights];
          failures = concat (map fst checks);
          reasons = concat (map snd checks);
          result = \<lparr>er_applies = True, er_reasons = reasons, er_leadTimeDays = lead,
                    er_nights = nights, er_missingContext = missing\<rparr>
      in if \<not> has_condition c then result\<lparr>er_reasons := [NoConditionConfigured]\<rparr>
         else if failures \<noteq> [] then result\<lparr>er_applies := False, er_reasons := failures\<rparr>
         else result)"

section \<open>Rules\<close>

datatype created_at = CreatedDate ms | CreatedText string

record price_rule =
  pru_id :: string
  pru_type :: string
  pru_value :: js_num
  pru_occupancyKey :: "string option"
  pru_priority :: js_num
  pru_createdAt :: "created_at option"
  pru_isActive :: "bool option"
  pru_dateRange :: "(date_text option \<times> date_text option) option"
  pru_dayOfWeek :: "rat list option"
  pru_eligibility :: "eligibility option"

definition normalizeDayOfWeek :: "rat list option \<Rightarrow> int list option" where
  "normalizeDayOfWeek days =
     (case days of None \<Rightarrow> None
      | Some ds \<Rightarrow>
          (let ok = map floor (filter (\<lambda>d. js_isInteger d \<and> 0 \<le> d \<and> d \<le> 6) ds)
           in if ok = [] then None else Some ok))"

text \<open>\<open>getUTCDay\<close>: the epoch was a Thursday, day 4.\<close>

definition getUTCDay :: "day \<Rightarrow> int" where
  "getUTCDay d = (d + 4) mod 7"

definition isRuleApplicableForDate :: "price_rule \<Rightarrow> date_text \<Rightarrow> bool" where
  "isRuleApplicableForDate rule date =
     (case date of None \<Rightarrow> False
      | Some d \<Rightarrow>
          (case pru_dateRange rule of
             None \<Rightarrow> True
           | Some (start, stop) \<Rightarrow>
               (case start of None \<Rightarrow> True | Some None \<Rightarrow> False | Some (Some f) \<Rightarrow> \<not> d < f) \<and>
               (case stop of None \<Rightarrow> True | Some None \<Rightarrow> False | Some (Some t) \<Rightarrow> \<not> t < d)) \<and>
          (case normalizeDayOfWeek (pru_dayOfWeek rule) of
             None \<Rightarrow> True | Some days \<Rightarrow> getUTCDay d \<in> set days))"

definition isRuleApplicableForOccupancy :: "price_rule \<Rightarrow> string option \<Rightarrow> bool" where
  "isRuleApplicableForOccupancy rule occupancyKey =
     (let ruleScope = js_trim (text_or_empty (pru_occupancyKey rule))
      in ruleScope = [] \<or> ruleScope = js_trim (text_or_empty occupancyKey))"

definition normalizeRulePriority :: "price_rule \<Rightarrow> rat" where
  "normalizeRulePriority rule = (case pru_priority rule of None \<Rightarrow> 10 | Some p \<Rightarrow> p)"

definition normalizeRuleCreatedAt :: "(ms \<Rightarrow> string) \<Rightarrow> price_rule \<Rightarrow> string" where
  "normalizeRuleCreatedAt toISOString rule =
     (case pru_createdAt rule of None \<Rightarrow> []
      | Some (CreatedDate t) \<Rightarrow> toISOString t
      | Some (CreatedText s) \<Rightarrow> s)"

definition canonical_type :: "string \<Rightarrow> string" where
  "canonical_type rawType =
     (if rawType = ''fixed'' then ''fixed_override''
      else if rawType = ''override'' then ''fixed_override''
      else if rawType = ''percentage'' then ''percentage_markup''
      else if rawType = ''modifier'' then ''fixed_adjustment''
      else rawType)"

definition applyRule :: "rat \<Rightarrow> price_rule \<Rightarrow> rat" where
  "applyRule previous rule =
     (case pru_value rule of None \<Rightarrow> previous
      | Some value \<Rightarrow>
          (let type = canonical_type (js_trim (pru_type rule))
           in if type = ''fixed_override'' then value
              else if type = ''base_adjustment'' \<or> type = ''fixed_adjustment'' then previous + value
              else if type = ''percentage'' \<or> type = ''percentage_markup''
                then previous + (previous * \<bar>value\<bar>) / 100
              else if type = ''percentage_discount'' then previous - (previous * \<bar>value\<bar>) / 100
              else previous))"

text \<open>
  The comparator of the rules: priority, then creation, then id. Only the sign of its result is
  used. \<open>localeCompare\<close> and the text of an instant are parameters.
\<close>

record text_env =
  te_localeCompare :: "string \<Rightarrow> string \<Rightarrow> int"
  te_toISOString :: "ms \<Rightarrow> string"

definition compare_rules :: "text_env \<Rightarrow> price_rule \<Rightarrow> price_rule \<Rightarrow> int" where
  "compare_rules te a b =
     (let pa = normalizeRulePriority a; pb = normalizeRulePriority b
      in if pa \<noteq> pb then (if pa < pb then -1 else 1)
         else let ca = normalizeRuleCreatedAt (te_toISOString te) a;
                  cb = normalizeRuleCreatedAt (te_toISOString te) b
              in if ca \<noteq> cb then te_localeCompare te ca cb
                 else te_localeCompare te (pru_id a) (pru_id b))"

section \<open>Evaluation\<close>

record evaluate_params =
  ep_basePrice :: js_num
  ep_date :: date_text
  ep_occupancyKey :: "string option"
  ep_rules :: "price_rule list"
  ep_includeBreakdown :: bool
  ep_stayContext :: "stay_context option"
  ep_includeEligibilityTrace :: bool

record breakdown_entry =
  be_ruleId :: string
  be_type :: string
  be_value :: js_num
  be_priority :: rat
  be_before :: rat
  be_after :: rat
  be_delta :: rat

record trace_entry =
  te_ruleId :: string
  te_type :: string
  te_result :: eligibility_result

record evaluation =
  evn_current :: rat
  evn_appliedRuleIds :: "string list"
  evn_breakdown :: "breakdown_entry list"
  evn_trace :: "trace_entry list"

record evaluate_result =
  ev_price :: rat
  ev_appliedRuleIds :: "string list"
  ev_breakdown :: "breakdown_entry list option"
  ev_eligibilityTrace :: "trace_entry list option"

definition applicable_rules :: "text_env \<Rightarrow> evaluate_params \<Rightarrow> price_rule list" where
  "applicable_rules te p = js_sort (compare_rules te)
     (filter (\<lambda>r. isRuleApplicableForOccupancy r (ep_occupancyKey p))
     (filter (\<lambda>r. isRuleApplicableForDate r (ep_date p))
     (filter (\<lambda>r. pru_isActive r \<noteq> Some False) (ep_rules p))))"

definition rule_eligible :: "evaluate_params \<Rightarrow> price_rule \<Rightarrow> bool" where
  "rule_eligible p rule \<longleftrightarrow>
     (hasPricingRuleEligibility (pru_eligibility rule) \<longrightarrow>
        er_applies (evaluatePricingRuleEligibility (pru_eligibility rule) (ep_stayContext p)))"

text \<open>The body of the loop over the applicable rules.\<close>

definition evaluate_rule :: "evaluate_params \<Rightarrow> price_rule \<Rightarrow> evaluation \<Rightarrow> evaluation" where
  "evaluate_rule p rule s =
     (let checked = hasPricingRuleEligibility (pru_eligibility rule);
          result = evaluatePricingRuleEligibility (pru_eligibility rule) (ep_stayContext p);
          s1 = (if ep_includeEligibilityTrace p \<and> checked
                then s\<lparr>evn_trace := evn_trace s @
                  [\<lparr>te_ruleId = pru_id rule, te_type = pru_type rule, te_result = result\<rparr>]\<rparr>
                else s)
      in if checked \<and> \<not> er_applies result then s1
         else let before = roundMoney (evn_current s1);
                  current = max 0 (applyRule (evn_current s1) rule);
                  after = roundMoney current;
                  s2 = s1\<lparr>evn_current := current, evn_appliedRuleIds := evn_appliedRuleIds s1 @ [pru_id rule]\<rparr>
              in if ep_includeBreakdown p
                 then s2\<lparr>evn_breakdown := evn_breakdown s2 @
                   [\<lparr>be_ruleId = pru_id rule, be_type = pru_type rule, be_value = pru_value rule,
                     be_priority = normalizeRulePriority rule, be_before = before, be_after = after,
                     be_delta = roundMoney (after - before)\<rparr>]\<rparr>
                 else s2)"

definition start_evaluation :: "evaluate_params \<Rightarrow> evaluation" where
  "start_evaluation p = \<lparr>evn_current = (case ep_basePrice p of None \<Rightarrow> 0 | Some b \<Rightarrow> b),
     evn_appliedRuleIds = [], evn_breakdown = [], evn_trace = []\<rparr>"

definition evaluatePricingRules :: "text_env \<Rightarrow> evaluate_params \<Rightarrow> evaluate_result" where
  "evaluatePricingRules te p =
     (let s = foldl (\<lambda>s rule. evaluate_rule p rule s) (start_evaluation p) (applicable_rules te p)
      in \<lparr>ev_price = roundMoney (max 0 (evn_current s)),
          ev_appliedRuleIds = evn_appliedRuleIds s,
          ev_breakdown = (if ep_includeBreakdown p then Some (evn_breakdown s) else None),
          ev_eligibilityTrace = (if ep_includeEligibilityTrace p then Some (evn_trace s) else None)\<rparr>)"

section \<open>The minimal rule engine\<close>

datatype minimal_type = MinFixed | MinPercentage

record minimal_rule =
  mr_id :: string
  mr_type :: minimal_type
  mr_value :: rat

fun minimal_price :: "rat \<Rightarrow> minimal_rule list \<Rightarrow> rat" where
  "minimal_price current [] = current"
| "minimal_price current (r # rs) =
     (if mr_type r = MinFixed then minimal_price (mr_value r) rs
      else minimal_price (current + (current * mr_value r) / 100) rs)"

definition computeBasePriceWithRules :: "rat \<Rightarrow> minimal_rule list \<Rightarrow> rat" where
  "computeBasePriceWithRules basePrice rules = roundMoney (max 0 (minimal_price basePrice rules))"

datatype strict_error =
    UnsupportedType nat string
  | InvalidRuleValue nat
  | PercentageOutOfBounds nat
  | FixedTooLow nat

record strict_rule =
  sr_id :: string
  sr_type :: string
  sr_value :: js_num

definition strict_rule_of :: "rat \<Rightarrow> nat \<Rightarrow> strict_rule \<Rightarrow> strict_error + minimal_rule" where
  "strict_rule_of basePrice i r =
     (if sr_type r \<noteq> ''percentage'' \<and> sr_type r \<noteq> ''fixed'' then Inl (UnsupportedType i (sr_type r))
      else case sr_value r of
        None \<Rightarrow> Inl (InvalidRuleValue i)
      | Some value \<Rightarrow>
          if sr_type r = ''percentage'' \<and> (value < -100 \<or> 1000 < value) then Inl (PercentageOutOfBounds i)
          else if sr_type r = ''fixed'' \<and> value < - basePrice then Inl (FixedTooLow i)
          else Inr \<lparr>mr_id = sr_id r, mr_type = (if sr_type r = ''percentage'' then MinPercentage else MinFixed),
                    mr_value = value\<rparr>)"

fun parse_strict :: "rat \<Rightarrow> nat \<Rightarrow> minimal_rule list \<Rightarrow> strict_rule list \<Rightarrow> strict_error + minimal_rule list" where
  "parse_strict basePrice i out [] = Inr out"
| "parse_strict basePrice i out (r # rs) =
     (case strict_rule_of basePrice i r of
        Inl e \<Rightarrow> Inl e
      | Inr m \<Rightarrow> parse_strict basePrice (Suc i) (out @ [m]) rs)"

definition parseStrictMinimalRules :: "rat \<Rightarrow> strict_rule list \<Rightarrow> strict_error + minimal_rule list" where
  "parseStrictMinimalRules basePrice rules = parse_strict basePrice 0 [] rules"

text \<open>The adapter of a database row to a runtime rule.\<close>

datatype runtime_type = RunFixed | RunModifier | RunPercentage

definition adaptPriceRule :: "price_rule \<Rightarrow> (string \<times> runtime_type \<times> js_num) option" where
  "adaptPriceRule r =
     (if pru_isActive r \<noteq> Some True then None
      else let value = pru_value r; type = pru_type r
      in if type = ''override'' \<or> type = ''fixed'' then Some (pru_id r, RunFixed, value)
         else if type = ''fixed_adjustment'' \<or> type = ''modifier'' then Some (pru_id r, RunModifier, value)
         else if type = ''percentage_discount'' then Some (pru_id r, RunPercentage, map_option (\<lambda>v. - \<bar>v\<bar>) value)
         else if type = ''percentage_markup'' then Some (pru_id r, RunPercentage, map_option abs value)
         else if type = ''percentage'' then Some (pru_id r, RunPercentage, value)
         else None)"

section \<open>Promotions\<close>

datatype promotion_type = PromoPercentage | PromoFixed | EarlyBird | LastMinute

record promotion =
  pm_type :: promotion_type
  pm_value :: rat
  pm_startDate :: ms
  pm_endDate :: ms
  pm_combinable :: bool
  pm_minNights :: "int option"
  pm_daysBeforeCheckIn :: "int option"

record promotion_context =
  px_checkIn :: ms
  px_checkOut :: ms
  px_requestDate :: "ms option"

definition isPromotionActive :: "promotion \<Rightarrow> ms \<Rightarrow> bool" where
  "isPromotionActive promo checkIn \<longleftrightarrow> pm_startDate promo \<le> checkIn \<and> checkIn \<le> pm_endDate promo"

definition truthy_int :: "int option \<Rightarrow> bool" where
  "truthy_int n \<longleftrightarrow> n \<noteq> None \<and> n \<noteq> Some 0"

definition canApplyPromotion :: "promotion \<Rightarrow> ms \<Rightarrow> int \<Rightarrow> ms option \<Rightarrow> bool" where
  "canApplyPromotion promo checkIn nights requestDate =
     (if \<not> isPromotionActive promo checkIn then False
      else if truthy_int (pm_minNights promo) \<and> nights < the (pm_minNights promo) then False
      else if truthy_int (pm_daysBeforeCheckIn promo) then
        (case requestDate of None \<Rightarrow> False
         | Some r \<Rightarrow>
             (let leadTimeDays = (checkIn - r) div 86400000; days = the (pm_daysBeforeCheckIn promo)
              in \<not> (pm_type promo = EarlyBird \<and> leadTimeDays < days) \<and>
                 \<not> (pm_type promo = LastMinute \<and> days < leadTimeDays)))
      else True)"

definition applySinglePromotion :: "rat \<Rightarrow> promotion \<Rightarrow> rat" where
  "applySinglePromotion price promo =
     (case pm_type promo of
        PromoFixed \<Rightarrow> price - pm_value promo
      | PromoPercentage \<Rightarrow> price * (1 - pm_value promo / 100)
      | EarlyBird \<Rightarrow> price * (1 - pm_value promo / 100)
      | LastMinute \<Rightarrow> price * (1 - pm_value promo / 100))"

definition ceil_div :: "int \<Rightarrow> int \<Rightarrow> int" where
  "ceil_div a b = - ((- a) div b)"

definition promotion_step :: "promotion_context \<Rightarrow> rat \<times> bool \<Rightarrow> promotion \<Rightarrow> rat \<times> bool" where
  "promotion_step ctx st promo =
     (case st of (price, appliedNonCombinable) \<Rightarrow>
        if \<not> canApplyPromotion promo (px_checkIn ctx)
               (ceil_div (px_checkOut ctx - px_checkIn ctx) 86400000) (px_requestDate ctx) then st
        else if \<not> pm_combinable promo \<and> appliedNonCombinable then st
        else (applySinglePromotion price promo, appliedNonCombinable \<or> \<not> pm_combinable promo))"

definition applyPromotions :: "rat \<Rightarrow> promotion list \<Rightarrow> promotion_context \<Rightarrow> rat" where
  "applyPromotions basePrice promotions ctx =
     roundMoney (max (fst (foldl (promotion_step ctx) (basePrice, False) promotions)) 0)"

end
