(* ===== verification/Commercial_Rules.thy ===== *)
theory Commercial_Rules
  imports Pricing_Rules
begin

text \<open>
  The commercial rules of a provider (lib/commercial-rules/commercialRulesRepository.ts): rule
  sets, rules and their applications to a product, a variant or a rate plan, with the statements
  that create, read, change and delete them.

  The configuration of a rule is the object the code writes into its JSON column; an absent and a
  null member are the same value, and a date range without a member is the empty object. The hash
  of a create command is a parameter, a function of the command's canonical fields. The display
  columns of a rule set (description, color) and the time of its last update are left out.
\<close>

section \<open>Tables\<close>

record date_range =
  dr_from :: "date_text option"
  dr_to :: "date_text option"
  dr_eligibility :: "eligibility option"

record price_config =
  cfg_dateRange :: "date_range option"
  cfg_dayOfWeek :: "rat list"
  cfg_occupancyKey :: "string option"
  cfg_sourceRuleId :: "string option"

datatype rule_config = PriceConfig price_config | SellConfig date_text date_text "rat list"

record rule_set =
  rst_id :: string
  rst_providerId :: string
  rst_name :: string
  rst_status :: string
  rst_priority :: rat
  rst_dateFrom :: "date_text option"
  rst_dateTo :: "date_text option"

record rule_row =
  cru_id :: string
  cru_providerId :: string
  cru_ruleSetId :: string
  cru_category :: string
  cru_type :: string
  cru_name :: "string option"
  cru_value :: "rat option"
  cru_config :: rule_config
  cru_idempotencyKey :: "string option"
  cru_payloadHash :: "string option"
  cru_priority :: rat
  cru_isActive :: bool
  cru_createdAt :: ms

record application_row =
  apl_id :: string
  apl_providerId :: string
  apl_ruleSetId :: string
  apl_ruleId :: string
  apl_scope :: string
  apl_scopeId :: string
  apl_startDate :: "date_text option"
  apl_endDate :: "date_text option"
  apl_validDays :: "rat list option"
  apl_isActive :: bool

record rules_db =
  rdb_sets :: "rule_set list"
  rdb_rules :: "rule_row list"
  rdb_applications :: "application_row list"

datatype rule_error =
    IdempotencyConflict string
  | IdempotencyKeyInvalid
  | TargetIdRequired
  | UniqueViolation
  | ForeignKeyViolation
  | RuleCheckViolation

section \<open>Inserts\<close>

text \<open>
  An insert fails when its primary key exists, when it refers to a row that does not, or when a
  CHECK of the table refuses it. Whether a provider or the target of an application exists is
  decided by tables outside this component.
\<close>

record rule_env =
  rle_targetExists :: "string \<Rightarrow> string \<Rightarrow> bool"
  rle_providerExists :: "string \<Rightarrow> bool"
  rle_now :: ms

definition insert_set :: "rule_env \<Rightarrow> rule_set \<Rightarrow> rules_db \<Rightarrow> rule_error + rules_db" where
  "insert_set env r db =
     (if rst_id r \<in> set (map rst_id (rdb_sets db)) then Inl UniqueViolation
      else if \<not> rle_providerExists env (rst_providerId r) then Inl ForeignKeyViolation
      else Inr (db\<lparr>rdb_sets := rdb_sets db @ [r]\<rparr>))"

definition hex_digit :: "char \<Rightarrow> bool" where
  "hex_digit c \<longleftrightarrow> c \<in> set ''0123456789abcdef''"

definition idempotency_pair_check :: "rule_row \<Rightarrow> bool" where
  "idempotency_pair_check r \<longleftrightarrow>
     (cru_idempotencyKey r = None \<and> cru_payloadHash r = None) \<or>
     (case (cru_idempotencyKey r, cru_payloadHash r) of
        (Some k, Some h) \<Rightarrow> js_trim k \<noteq> [] \<and> length h = 64 \<and> list_all hex_digit h
      | _ \<Rightarrow> False)"

definition same_key :: "rule_row \<Rightarrow> rule_row \<Rightarrow> bool" where
  "same_key r r' \<longleftrightarrow> cru_idempotencyKey r \<noteq> None \<and> cru_idempotencyKey r = cru_idempotencyKey r' \<and>
     cru_providerId r = cru_providerId r'"

definition insert_rule :: "rule_env \<Rightarrow> rule_row \<Rightarrow> rules_db \<Rightarrow> rule_error + rules_db" where
  "insert_rule env r db =
     (if \<not> idempotency_pair_check r then Inl RuleCheckViolation
      else if cru_id r \<in> set (map cru_id (rdb_rules db)) \<or> list_ex (same_key r) (rdb_rules db)
        then Inl UniqueViolation
      else if cru_ruleSetId r \<notin> set (map rst_id (rdb_sets db)) \<or> \<not> rle_providerExists env (cru_providerId r)
        then Inl ForeignKeyViolation
      else Inr (db\<lparr>rdb_rules := rdb_rules db @ [r]\<rparr>))"

definition insert_application :: "rule_env \<Rightarrow> application_row \<Rightarrow> rules_db \<Rightarrow> rule_error + rules_db" where
  "insert_application env a db =
     (if apl_scope a \<notin> {''product'', ''variant'', ''rate_plan''} then Inl RuleCheckViolation
      else if apl_id a \<in> set (map apl_id (rdb_applications db)) then Inl UniqueViolation
      else if apl_ruleId a \<notin> set (map cru_id (rdb_rules db)) \<or> apl_ruleSetId a \<notin> set (map rst_id (rdb_sets db)) \<or>
              \<not> rle_providerExists env (apl_providerId a) \<or> \<not> rle_targetExists env (apl_scope a) (apl_scopeId a)
        then Inl ForeignKeyViolation
      else Inr (db\<lparr>rdb_applications := rdb_applications db @ [a]\<rparr>))"

definition typedCatalogAssignmentTarget :: "string \<Rightarrow> rule_error + string" where
  "typedCatalogAssignmentTarget targetId =
     (let normalized = js_trim targetId in if normalized = [] then Inl TargetIdRequired else Inr normalized)"

definition bind_db :: "'e + 'a \<Rightarrow> ('a \<Rightarrow> 'e + 'b) \<Rightarrow> 'e + 'b" where
  "bind_db r f = (case r of Inl e \<Rightarrow> Inl e | Inr x \<Rightarrow> f x)"

section \<open>Creating a price rule\<close>

record price_command =
  pcm_providerId :: string
  pcm_ratePlanId :: string
  pcm_name :: "string option"
  pcm_type :: string
  pcm_value :: rat
  pcm_priority :: "rat option"
  pcm_dateRange :: "date_range option"
  pcm_dayOfWeek :: "rat list option"
  pcm_occupancyKey :: "string option"
  pcm_isActive :: "bool option"
  pcm_sourceRuleId :: "string option"
  pcm_idempotencyKey :: "string option"
  pcm_ruleId :: "string option"

record fresh_ids =
  fid_ruleSetId :: string
  fid_ruleId :: string
  fid_applicationId :: string

text \<open>The fields the payload hash is computed from.\<close>

type_synonym payload =
  "string \<times> string \<times> string option \<times> string \<times> rat \<times> rat \<times> bool \<times> price_config"

definition normalizeIdempotencyKey :: "string option \<Rightarrow> rule_error + string option" where
  "normalizeIdempotencyKey value =
     (let key = js_trim (text_or_empty value)
      in if key = [] then Inr None
         else if 200 < length key then Inl IdempotencyKeyInvalid
         else Inr (Some key))"

definition config_of :: "price_command \<Rightarrow> price_config" where
  "config_of c = \<lparr>cfg_dateRange = pcm_dateRange c,
     cfg_dayOfWeek = (case pcm_dayOfWeek c of None \<Rightarrow> [] | Some ds \<Rightarrow> ds),
     cfg_occupancyKey = pcm_occupancyKey c, cfg_sourceRuleId = pcm_sourceRuleId c\<rparr>"

definition command_priority :: "price_command \<Rightarrow> rat" where
  "command_priority c = (case pcm_priority c of None \<Rightarrow> 20 | Some p \<Rightarrow> p)"

definition command_active :: "price_command \<Rightarrow> bool" where
  "command_active c \<longleftrightarrow> pcm_isActive c \<noteq> Some False"

definition payload_of :: "price_command \<Rightarrow> payload" where
  "payload_of c = (pcm_providerId c, pcm_ratePlanId c, pcm_name c, pcm_type c, pcm_value c,
     command_priority c, command_active c, config_of c)"

definition findExisting :: "string \<Rightarrow> string option \<Rightarrow> rules_db \<Rightarrow> rule_row option" where
  "findExisting providerId key db =
     (case key of None \<Rightarrow> None
      | Some k \<Rightarrow> find (\<lambda>r. cru_providerId r = providerId \<and> cru_idempotencyKey r = Some k) (rdb_rules db))"

record create_result =
  crr_ruleSetId :: string
  crr_ruleId :: string
  crr_replayed :: bool

definition replayOrConflict ::
  "string \<Rightarrow> string option \<Rightarrow> string option \<Rightarrow> rules_db \<Rightarrow> rule_error + create_result option" where
  "replayOrConflict providerId key hash db =
     (case findExisting providerId key db of
        None \<Rightarrow> Inr None
      | Some r \<Rightarrow>
          if cru_payloadHash r = hash
          then Inr (Some \<lparr>crr_ruleSetId = cru_ruleSetId r, crr_ruleId = cru_id r, crr_replayed = True\<rparr>)
          else Inl (IdempotencyConflict (text_or_empty key)))"

definition range_start :: "date_range option \<Rightarrow> date_text option" where
  "range_start r = (case r of None \<Rightarrow> None | Some x \<Rightarrow> dr_from x)"

definition range_end :: "date_range option \<Rightarrow> date_text option" where
  "range_end r = (case r of None \<Rightarrow> None | Some x \<Rightarrow> dr_to x)"

definition auto_name :: string where
  "auto_name = ''Regla autom'' @ [CHR 0xE1] @ ''tica de precio''"

definition set_name :: "string option \<Rightarrow> string" where
  "set_name name = (case name of None \<Rightarrow> auto_name
     | Some n \<Rightarrow> if starts_with n ''ctx:'' \<or> n = [] then auto_name else n)"

text \<open>The transaction of three inserts.\<close>

definition chosen_rule_id :: "fresh_ids \<Rightarrow> price_command \<Rightarrow> string" where
  "chosen_rule_id ids c = (case pcm_ruleId c of None \<Rightarrow> fid_ruleId ids | Some i \<Rightarrow> i)"

definition price_set_row :: "fresh_ids \<Rightarrow> price_command \<Rightarrow> rule_set" where
  "price_set_row ids c =
     \<lparr>rst_id = fid_ruleSetId ids, rst_providerId = pcm_providerId c, rst_name = set_name (pcm_name c),
      rst_status = (if command_active c then ''active'' else ''paused''),
      rst_priority = command_priority c, rst_dateFrom = range_start (pcm_dateRange c),
      rst_dateTo = range_end (pcm_dateRange c)\<rparr>"

definition price_rule_row ::
  "rule_env \<Rightarrow> fresh_ids \<Rightarrow> price_command \<Rightarrow> string option \<Rightarrow> string option \<Rightarrow> rule_row" where
  "price_rule_row env ids c key hash =
     \<lparr>cru_id = chosen_rule_id ids c, cru_providerId = pcm_providerId c, cru_ruleSetId = fid_ruleSetId ids,
      cru_category = ''price'', cru_type = pcm_type c, cru_name = pcm_name c, cru_value = Some (pcm_value c),
      cru_config = PriceConfig (config_of c), cru_idempotencyKey = key, cru_payloadHash = hash,
      cru_priority = command_priority c, cru_isActive = command_active c, cru_createdAt = rle_now env\<rparr>"

definition price_application_row :: "fresh_ids \<Rightarrow> price_command \<Rightarrow> string \<Rightarrow> application_row" where
  "price_application_row ids c target =
     \<lparr>apl_id = fid_applicationId ids, apl_providerId = pcm_providerId c, apl_ruleSetId = fid_ruleSetId ids,
      apl_ruleId = chosen_rule_id ids c, apl_scope = ''rate_plan'', apl_scopeId = target,
      apl_startDate = range_start (pcm_dateRange c), apl_endDate = range_end (pcm_dateRange c),
      apl_validDays = None, apl_isActive = command_active c\<rparr>"

definition create_transaction ::
  "rule_env \<Rightarrow> fresh_ids \<Rightarrow> price_command \<Rightarrow> string option \<Rightarrow> string option \<Rightarrow> rules_db \<Rightarrow> rule_error + rules_db" where
  "create_transaction env ids c key hash db =
     bind_db (insert_set env (price_set_row ids c) db) (\<lambda>db1.
     bind_db (insert_rule env (price_rule_row env ids c key hash) db1) (\<lambda>db2.
     bind_db (typedCatalogAssignmentTarget (pcm_ratePlanId c)) (\<lambda>target.
     insert_application env (price_application_row ids c target) db2)))"

text \<open>
  The command. Between its first look for the key and its transaction other processes may write:
  \<open>meanwhile\<close>. A unique violation with a key is resolved as a replay.
\<close>

definition createCommercialPriceRule ::
  "(payload \<Rightarrow> string) \<Rightarrow> (rules_db \<Rightarrow> rules_db) \<Rightarrow> rule_env \<Rightarrow> fresh_ids \<Rightarrow> price_command \<Rightarrow> rules_db
     \<Rightarrow> (rule_error + create_result) \<times> rules_db" where
  "createCommercialPriceRule sha256 meanwhile env ids c db =
     (case normalizeIdempotencyKey (pcm_idempotencyKey c) of
        Inl e \<Rightarrow> (Inl e, db)
      | Inr key \<Rightarrow>
          (let hash = (case key of None \<Rightarrow> None | Some _ \<Rightarrow> Some (sha256 (payload_of c)))
           in case replayOrConflict (pcm_providerId c) key hash db of
                Inl e \<Rightarrow> (Inl e, db)
              | Inr (Some replay) \<Rightarrow> (Inr replay, db)
              | Inr None \<Rightarrow>
                  (let db1 = meanwhile db
                   in case create_transaction env ids c key hash db1 of
                        Inr db2 \<Rightarrow>
                          (Inr \<lparr>crr_ruleSetId = fid_ruleSetId ids,
                                crr_ruleId = chosen_rule_id ids c,
                                crr_replayed = False\<rparr>, db2)
                      | Inl e \<Rightarrow>
                          if key = None \<or> e \<noteq> UniqueViolation then (Inl e, db1)
                          else (case replayOrConflict (pcm_providerId c) key hash db1 of
                                  Inl e' \<Rightarrow> (Inl e', db1)
                                | Inr (Some replay) \<Rightarrow> (Inr replay, db1)
                                | Inr None \<Rightarrow> (Inl e, db1)))))"

section \<open>Reading price rules\<close>

record commercial_price_rule =
  cpr_id :: string
  cpr_ruleSetId :: string
  cpr_ratePlanId :: string
  cpr_name :: "string option"
  cpr_occupancyKey :: "string option"
  cpr_type :: string
  cpr_value :: rat
  cpr_priority :: rat
  cpr_dateRange :: "date_range option"
  cpr_dayOfWeek :: "rat list"
  cpr_sourceRuleId :: "string option"
  cpr_isActive :: bool
  cpr_createdAt :: ms

definition trimmed_or_null :: "string option \<Rightarrow> string option" where
  "trimmed_or_null s = (let t = js_trim (text_or_empty s) in if t = [] then None else Some t)"

definition normalizeValidDays :: "rat list \<Rightarrow> rat list" where
  "normalizeValidDays = filter (\<lambda>d. js_isInteger d \<and> 0 \<le> d \<and> d \<le> 7)"

definition normalizeDateRange :: "date_range option \<Rightarrow> date_range option" where
  "normalizeDateRange r = (case r of None \<Rightarrow> None
     | Some x \<Rightarrow> if dr_from x = None \<and> dr_to x = None \<and> dr_eligibility x = None then None else Some x)"

definition price_config_of :: "rule_row \<Rightarrow> price_config" where
  "price_config_of r = (case cru_config r of PriceConfig c \<Rightarrow> c
     | SellConfig _ _ _ \<Rightarrow> \<lparr>cfg_dateRange = None, cfg_dayOfWeek = [], cfg_occupancyKey = None, cfg_sourceRuleId = None\<rparr>)"

definition priceRuleFromRaw :: "rule_row \<times> application_row \<Rightarrow> commercial_price_rule" where
  "priceRuleFromRaw row = (case row of (r, a) \<Rightarrow>
     (let config = price_config_of r
      in \<lparr>cpr_id = cru_id r, cpr_ruleSetId = cru_ruleSetId r, cpr_ratePlanId = apl_scopeId a, cpr_name = cru_name r,
          cpr_occupancyKey = trimmed_or_null (cfg_occupancyKey config), cpr_type = cru_type r,
          cpr_value = (case cru_value r of None \<Rightarrow> 0 | Some v \<Rightarrow> v), cpr_priority = cru_priority r,
          cpr_dateRange = normalizeDateRange (cfg_dateRange config),
          cpr_dayOfWeek = normalizeValidDays (cfg_dayOfWeek config),
          cpr_sourceRuleId = trimmed_or_null (cfg_sourceRuleId config),
          cpr_isActive = (cru_isActive r \<and> apl_isActive a), cpr_createdAt = cru_createdAt r\<rparr>))"

text \<open>The join of the rules with their applications.\<close>

definition selectCommercialRules :: "(rule_row \<times> application_row \<Rightarrow> bool) \<Rightarrow> rules_db \<Rightarrow> (rule_row \<times> application_row) list" where
  "selectCommercialRules P db =
     filter (\<lambda>(r, a). apl_ruleId a = cru_id r \<and> P (r, a)) (List.product (rdb_rules db) (rdb_applications db))"

definition listCommercialPriceRulesByRatePlan :: "string \<Rightarrow> rules_db \<Rightarrow> commercial_price_rule list" where
  "listCommercialPriceRulesByRatePlan ratePlanId db = map priceRuleFromRaw
     (selectCommercialRules (\<lambda>(r, a). cru_category r = ''price'' \<and> apl_scope a = ''rate_plan'' \<and>
        apl_scopeId a = ratePlanId) db)"

definition listCommercialPriceRulesByRatePlans :: "string list \<Rightarrow> rules_db \<Rightarrow> commercial_price_rule list" where
  "listCommercialPriceRulesByRatePlans ratePlanIds db =
     (if ratePlanIds = [] then []
      else map priceRuleFromRaw
        (selectCommercialRules (\<lambda>(r, a). cru_category r = ''price'' \<and> apl_scope a = ''rate_plan'' \<and>
           apl_scopeId a \<in> set ratePlanIds) db))"

definition getCommercialPriceRule :: "string \<Rightarrow> string option \<Rightarrow> rules_db \<Rightarrow> commercial_price_rule option" where
  "getCommercialPriceRule ruleId ratePlanId db =
     (case selectCommercialRules (\<lambda>(r, a). cru_id r = ruleId \<and> cru_category r = ''price'' \<and> apl_scope a = ''rate_plan'' \<and>
         (case ratePlanId of None \<Rightarrow> True | Some [] \<Rightarrow> True | Some p \<Rightarrow> apl_scopeId a = p)) db of
        [] \<Rightarrow> None | row # _ \<Rightarrow> Some (priceRuleFromRaw row))"

section \<open>Changing and deleting rules\<close>

record price_patch =
  ppt_type :: string
  ppt_value :: rat
  ppt_priority :: "rat option"
  ppt_dateRange :: "date_range option"
  ppt_dayOfWeek :: "rat list option"
  ppt_occupancyKey :: "string option"
  ppt_name :: "string option"
  ppt_isActive :: "bool option"
  ppt_sourceRuleId :: "string option option"

definition set_status :: "string \<Rightarrow> bool \<Rightarrow> rules_db \<Rightarrow> rules_db" where
  "set_status ruleId active db =
     db\<lparr>rdb_sets := update_rows
       (\<lambda>s. rst_id s \<in> set (map cru_ruleSetId (filter (\<lambda>r. cru_id r = ruleId) (rdb_rules db))))
       (\<lambda>s. s\<lparr>rst_status := if active then ''active'' else ''paused''\<rparr>) (rdb_sets db)\<rparr>"

definition updateCommercialPriceRule :: "string \<Rightarrow> price_patch \<Rightarrow> rules_db \<Rightarrow> rules_db" where
  "updateCommercialPriceRule ruleId p db =
     (let existing = getCommercialPriceRule ruleId None db;
          config = \<lparr>cfg_dateRange = ppt_dateRange p,
            cfg_dayOfWeek = (case ppt_dayOfWeek p of None \<Rightarrow> [] | Some ds \<Rightarrow> ds),
            cfg_occupancyKey = ppt_occupancyKey p,
            cfg_sourceRuleId = (case ppt_sourceRuleId p of
               None \<Rightarrow> (case existing of None \<Rightarrow> None | Some e \<Rightarrow> cpr_sourceRuleId e) | Some s \<Rightarrow> s)\<rparr>;
          db1 = db\<lparr>rdb_rules := update_rows (\<lambda>r. cru_id r = ruleId)
            (\<lambda>r. r\<lparr>cru_type := ppt_type p, cru_value := Some (ppt_value p),
              cru_priority := (case ppt_priority p of None \<Rightarrow> 20 | Some x \<Rightarrow> x), cru_name := ppt_name p,
              cru_config := PriceConfig config,
              cru_isActive := (case ppt_isActive p of None \<Rightarrow> cru_isActive r | Some b \<Rightarrow> b)\<rparr>) (rdb_rules db)\<rparr>;
          db2 = (if ppt_dateRange p \<noteq> None \<or> ppt_isActive p \<noteq> None
            then db1\<lparr>rdb_applications := update_rows (\<lambda>a. apl_ruleId a = ruleId)
              (\<lambda>a. a\<lparr>apl_startDate := (case ppt_dateRange p of None \<Rightarrow> apl_startDate a | Some d \<Rightarrow> dr_from d),
                 apl_endDate := (case ppt_dateRange p of None \<Rightarrow> apl_endDate a | Some d \<Rightarrow> dr_to d),
                 apl_isActive := (case ppt_isActive p of None \<Rightarrow> apl_isActive a | Some b \<Rightarrow> b)\<rparr>) (rdb_applications db1)\<rparr>
            else db1)
      in case ppt_isActive p of None \<Rightarrow> db2 | Some b \<Rightarrow> set_status ruleId b db2)"

text \<open>
  A deletion is refused by the foreign keys while a row refers to the one deleted. A rule has one
  application, made with it, so here it is deleted after its application, and a set after its rules.
\<close>

definition drop_empty_set :: "string \<Rightarrow> rules_db \<Rightarrow> rules_db" where
  "drop_empty_set setId db =
     (if list_ex (\<lambda>r. cru_ruleSetId r = setId) (rdb_rules db) then db
      else db\<lparr>rdb_sets := delete_rows (\<lambda>s. rst_id s = setId) (rdb_sets db)\<rparr>)"

definition deleteCommercialRule :: "string \<Rightarrow> rules_db \<Rightarrow> rules_db" where
  "deleteCommercialRule ruleId db =
     (let existing = find (\<lambda>r. cru_id r = ruleId) (rdb_rules db);
          db1 = db\<lparr>rdb_applications := delete_rows (\<lambda>a. apl_ruleId a = ruleId) (rdb_applications db)\<rparr>;
          db2 = db1\<lparr>rdb_rules := delete_rows (\<lambda>r. cru_id r = ruleId) (rdb_rules db1)\<rparr>
      in case existing of None \<Rightarrow> db2 | Some r \<Rightarrow> drop_empty_set (cru_ruleSetId r) db2)"

definition deleteCommercialRulesForScope :: "string \<Rightarrow> string \<Rightarrow> rules_db \<Rightarrow> rules_db" where
  "deleteCommercialRulesForScope scope scopeId db =
     (let rows = filter (\<lambda>a. apl_scope a = scope \<and> apl_scopeId a = scopeId) (rdb_applications db);
          ruleIds = js_dedup (filter (\<lambda>i. i \<noteq> []) (map apl_ruleId rows));
          ruleSetIds = js_dedup (filter (\<lambda>i. i \<noteq> []) (map apl_ruleSetId rows));
          db1 = db\<lparr>rdb_applications := delete_rows (\<lambda>a. apl_scope a = scope \<and> apl_scopeId a = scopeId)
            (rdb_applications db)\<rparr>;
          db2 = db1\<lparr>rdb_rules := delete_rows (\<lambda>r. cru_id r \<in> set ruleIds) (rdb_rules db1)\<rparr>
      in fold drop_empty_set ruleSetIds db2)"

definition setCommercialRuleActive :: "string \<Rightarrow> bool \<Rightarrow> rules_db \<Rightarrow> rules_db" where
  "setCommercialRuleActive ruleId active db =
     (let db1 = db\<lparr>rdb_rules := update_rows (\<lambda>r. cru_id r = ruleId) (\<lambda>r. r\<lparr>cru_isActive := active\<rparr>) (rdb_rules db)\<rparr>;
          db2 = db1\<lparr>rdb_applications := update_rows (\<lambda>a. apl_ruleId a = ruleId)
            (\<lambda>a. a\<lparr>apl_isActive := active\<rparr>) (rdb_applications db1)\<rparr>
      in set_status ruleId active db2)"

section \<open>Sellability rules\<close>

record sell_command =
  scm_providerId :: string
  scm_scope :: string
  scm_scopeId :: string
  scm_type :: string
  scm_value :: "rat option"
  scm_startDate :: date_text
  scm_endDate :: date_text
  scm_validDays :: "rat list option"
  scm_priority :: "rat option"

definition sell_category :: "string \<Rightarrow> string" where
  "sell_category type =
     (if type = ''min_los'' \<or> type = ''max_los'' then ''stay''
      else if type = ''cta'' \<or> type = ''ctd'' then ''arrival_departure''
      else if type = ''min_lead_time'' \<or> type = ''max_lead_time'' then ''booking_window''
      else ''sellability'')"

definition sell_priority :: "sell_command \<Rightarrow> rat" where
  "sell_priority c = (case scm_priority c of None \<Rightarrow> 100 | Some p \<Rightarrow> p)"

definition sell_days :: "sell_command \<Rightarrow> rat list" where
  "sell_days c = (case scm_validDays c of None \<Rightarrow> [] | Some ds \<Rightarrow> ds)"

definition sell_set_row :: "fresh_ids \<Rightarrow> sell_command \<Rightarrow> rule_set" where
  "sell_set_row ids c =
     \<lparr>rst_id = fid_ruleSetId ids, rst_providerId = scm_providerId c, rst_name = ''Regla de venta'',
      rst_status = ''active'', rst_priority = sell_priority c, rst_dateFrom = Some (scm_startDate c),
      rst_dateTo = Some (scm_endDate c)\<rparr>"

definition sell_rule_row :: "rule_env \<Rightarrow> fresh_ids \<Rightarrow> sell_command \<Rightarrow> rule_row" where
  "sell_rule_row env ids c =
     \<lparr>cru_id = fid_ruleId ids, cru_providerId = scm_providerId c, cru_ruleSetId = fid_ruleSetId ids,
      cru_category = sell_category (scm_type c), cru_type = scm_type c, cru_name = None, cru_value = scm_value c,
      cru_config = SellConfig (scm_startDate c) (scm_endDate c) (sell_days c), cru_idempotencyKey = None,
      cru_payloadHash = None, cru_priority = sell_priority c, cru_isActive = True, cru_createdAt = rle_now env\<rparr>"

definition sell_application_row :: "fresh_ids \<Rightarrow> sell_command \<Rightarrow> string \<Rightarrow> application_row" where
  "sell_application_row ids c target =
     \<lparr>apl_id = fid_applicationId ids, apl_providerId = scm_providerId c, apl_ruleSetId = fid_ruleSetId ids,
      apl_ruleId = fid_ruleId ids, apl_scope = scm_scope c, apl_scopeId = target,
      apl_startDate = Some (scm_startDate c), apl_endDate = Some (scm_endDate c),
      apl_validDays = (if sell_days c = [] then None else Some (sell_days c)), apl_isActive = True\<rparr>"

text \<open>Three statements outside a transaction: those before a failing one stay.\<close>

definition createCommercialSellabilityRule ::
  "rule_env \<Rightarrow> fresh_ids \<Rightarrow> sell_command \<Rightarrow> rules_db \<Rightarrow> (rule_error + string \<times> string) \<times> rules_db" where
  "createCommercialSellabilityRule env ids c db =
     (case insert_set env (sell_set_row ids c) db of
        Inl e \<Rightarrow> (Inl e, db)
      | Inr db1 \<Rightarrow>
          (case insert_rule env (sell_rule_row env ids c) db1 of
             Inl e \<Rightarrow> (Inl e, db1)
           | Inr db2 \<Rightarrow>
               (case bind_db (typedCatalogAssignmentTarget (scm_scopeId c))
                       (\<lambda>target. insert_application env (sell_application_row ids c target) db2) of
                  Inl e \<Rightarrow> (Inl e, db2)
                | Inr db3 \<Rightarrow> (Inr (fid_ruleSetId ids, fid_ruleId ids), db3))))"

record sellability_rule =
  slr_id :: string
  slr_ruleSetId :: string
  slr_scope :: string
  slr_scopeId :: string
  slr_type :: string
  slr_value :: "rat option"
  slr_startDate :: "date_text option"
  slr_endDate :: "date_text option"
  slr_validDays :: "rat list"
  slr_isActive :: bool
  slr_priority :: rat
  slr_createdAt :: ms

definition sellabilityRuleFromRaw :: "rule_row \<times> application_row \<Rightarrow> sellability_rule" where
  "sellabilityRuleFromRaw row = (case row of (r, a) \<Rightarrow>
     (let (start, stop, days) = (case cru_config r of
          SellConfig s t ds \<Rightarrow> (Some s, Some t, ds) | PriceConfig _ \<Rightarrow> (None, None, []))
      in \<lparr>slr_id = cru_id r, slr_ruleSetId = cru_ruleSetId r, slr_scope = apl_scope a, slr_scopeId = apl_scopeId a,
          slr_type = cru_type r, slr_value = cru_value r,
          slr_startDate = (case apl_startDate a of Some d \<Rightarrow> Some d | None \<Rightarrow> start),
          slr_endDate = (case apl_endDate a of Some d \<Rightarrow> Some d | None \<Rightarrow> stop),
          slr_validDays = normalizeValidDays (case apl_validDays a of Some ds \<Rightarrow> ds | None \<Rightarrow> days),
          slr_isActive = (cru_isActive r \<and> apl_isActive a), slr_priority = cru_priority r,
          slr_createdAt = cru_createdAt r\<rparr>))"

definition listCommercialSellabilityRulesForScopes :: "string list \<Rightarrow> string option \<Rightarrow> rules_db \<Rightarrow> sellability_rule list" where
  "listCommercialSellabilityRulesForScopes scopeIds providerId db =
     (if scopeIds = [] then []
      else map sellabilityRuleFromRaw (selectCommercialRules (\<lambda>(r, a). apl_scopeId a \<in> set scopeIds \<and>
        cru_category r \<noteq> ''price'' \<and>
        (case providerId of None \<Rightarrow> True | Some [] \<Rightarrow> True | Some p \<Rightarrow> cru_providerId r = p)) db))"

definition listActiveCommercialSellabilityRulesForContext :: "string list \<Rightarrow> rules_db \<Rightarrow> sellability_rule list" where
  "listActiveCommercialSellabilityRulesForContext scopeIds db =
     (if scopeIds = [] then []
      else map sellabilityRuleFromRaw (selectCommercialRules (\<lambda>(r, a). apl_scopeId a \<in> set scopeIds \<and>
        cru_category r \<noteq> ''price'' \<and> cru_isActive r \<and> apl_isActive a) db))"

end
