(* ===== verification/Commercial_Correctness.thy ===== *)
theory Commercial_Correctness
  imports Commercial_Rules
begin

text \<open>
  The integrity of the rule tables under every operation, and the idempotence and atomicity of
  creating a price rule.
\<close>

section \<open>Integrity\<close>

text \<open>
  The keys of the tables: ids are unique, a rule belongs to an existing set and has a set of its own, an
  application belongs to an existing rule and to its set, a rule has at most one, and no two rules of
  a provider share an idempotency key.
\<close>

type_synonym rule_key = "string \<times> string \<times> string \<times> string option"
type_synonym application_key = "string \<times> string \<times> string"

definition rule_key :: "rule_row \<Rightarrow> rule_key" where
  "rule_key r = (cru_id r, cru_ruleSetId r, cru_providerId r, cru_idempotencyKey r)"

definition application_key :: "application_row \<Rightarrow> application_key" where
  "application_key a = (apl_id a, apl_ruleId a, apl_ruleSetId a)"

definition keys_ok :: "string list \<Rightarrow> rule_key list \<Rightarrow> application_key list \<Rightarrow> bool" where
  "keys_ok S R A \<longleftrightarrow>
     distinct S \<and> distinct (map fst R) \<and> distinct (map (fst \<circ> snd) R) \<and>
     distinct (map fst A) \<and> distinct (map (fst \<circ> snd) A) \<and>
     (\<forall>(i, s, k) \<in> set R. s \<in> set S) \<and>
     (\<forall>(a, i, s) \<in> set A. \<exists>k. (i, s, k) \<in> set R) \<and>
     (\<forall>(i, s, p, k) \<in> set R. \<forall>(i', s', p', k') \<in> set R. k \<noteq> None \<and> k = k' \<and> p = p' \<longrightarrow> i = i')"

definition rules_wf :: "rules_db \<Rightarrow> bool" where
  "rules_wf db \<longleftrightarrow> keys_ok (map rst_id (rdb_sets db)) (map rule_key (rdb_rules db))
     (map application_key (rdb_applications db))"

definition empty_rules :: rules_db where
  "empty_rules = \<lparr>rdb_sets = [], rdb_rules = [], rdb_applications = []\<rparr>"

lemma empty_rules_wf: "rules_wf empty_rules"
  by (simp add: rules_wf_def keys_ok_def empty_rules_def)

lemma keys_ok_set: "keys_ok S R A \<Longrightarrow> s \<notin> set S \<Longrightarrow> keys_ok (S @ [s]) R A"
  by (fastforce simp: keys_ok_def)

lemma keys_ok_rule:
  assumes "keys_ok S R A" "s \<in> set S" "i \<notin> fst ` set R" "s \<notin> (fst \<circ> snd) ` set R"
    and "\<And>i' s'. k \<noteq> None \<Longrightarrow> (i', s', p, k) \<notin> set R"
  shows "keys_ok S (R @ [(i, s, p, k)]) A"
proof -
  have "\<forall>(a, i', s') \<in> set A. \<exists>k'. (i', s', k') \<in> set (R @ [(i, s, p, k)])"
    using assms(1) by (fastforce simp: keys_ok_def)
  moreover have "\<forall>(i1, s1, p1, k1) \<in> set (R @ [(i, s, p, k)]). \<forall>(i2, s2, p2, k2) \<in> set (R @ [(i, s, p, k)]).
      k1 \<noteq> None \<and> k1 = k2 \<and> p1 = p2 \<longrightarrow> i1 = i2"
    using assms(1,5) unfolding keys_ok_def by simp blast
  ultimately show ?thesis using assms(1-4) unfolding keys_ok_def by simp
qed

lemma keys_ok_application:
  "keys_ok S R A \<Longrightarrow> (i, s, p, k) \<in> set R \<Longrightarrow> a \<notin> fst ` set A \<Longrightarrow> i \<notin> (fst \<circ> snd) ` set A \<Longrightarrow>
     keys_ok S R (A @ [(a, i, s)])"
  by (auto simp: keys_ok_def)

lemma keys_ok_filter:
  assumes "keys_ok S R A" "\<And>i s k. (i, s, k) \<in> set R \<Longrightarrow> P (i, s, k) \<Longrightarrow> s \<in> set S'"
    and "\<And>a i s k. (a, i, s) \<in> set A \<Longrightarrow> Q (a, i, s) \<Longrightarrow> (i, s, k) \<in> set R \<Longrightarrow> P (i, s, k)" "distinct S'"
  shows "keys_ok S' (filter P R) (filter Q A)"
proof -
  have "\<forall>(i, s, k) \<in> set (filter P R). s \<in> set S'" using assms(2) by auto
  moreover have "\<forall>(a, i, s) \<in> set (filter Q A). \<exists>k. (i, s, k) \<in> set (filter P R)"
    using assms(1,3) unfolding keys_ok_def by fastforce
  moreover have "\<forall>(i, s, p, k) \<in> set (filter P R). \<forall>(i', s', p', k') \<in> set (filter P R).
      k \<noteq> None \<and> k = k' \<and> p = p' \<longrightarrow> i = i'"
    using assms(1) unfolding keys_ok_def by simp blast
  ultimately show ?thesis using assms(1,4) unfolding keys_ok_def by (simp add: distinct_map_filter)
qed

lemma insert_set_keeps: "rules_wf db \<Longrightarrow> insert_set env s db = Inr db' \<Longrightarrow> rules_wf db'"
  by (auto simp: rules_wf_def insert_set_def keys_ok_set split: if_splits)

lemma rule_sets: "rules_wf db \<Longrightarrow> r \<in> set (rdb_rules db) \<Longrightarrow> cru_ruleSetId r \<in> set (map rst_id (rdb_sets db))"
  by (fastforce simp: rules_wf_def keys_ok_def rule_key_def)

lemma application_rules:
  "rules_wf db \<Longrightarrow> a \<in> set (rdb_applications db) \<Longrightarrow> apl_ruleId a \<in> set (map cru_id (rdb_rules db))"
  by (fastforce simp: rules_wf_def keys_ok_def rule_key_def application_key_def)

lemma insert_rule_keeps:
  assumes "rules_wf db" "insert_rule env r db = Inr db'" "cru_ruleSetId r \<notin> set (map cru_ruleSetId (rdb_rules db))"
  shows "rules_wf db'"
proof -
  have db': "db' = db\<lparr>rdb_rules := rdb_rules db @ [r]\<rparr>" "cru_id r \<notin> set (map cru_id (rdb_rules db))"
    "\<not> list_ex (same_key r) (rdb_rules db)" "cru_ruleSetId r \<in> set (map rst_id (rdb_sets db))"
    using assms(2) by (auto simp: insert_rule_def split: if_splits)
  have "keys_ok (map rst_id (rdb_sets db))
      (map rule_key (rdb_rules db) @ [(cru_id r, cru_ruleSetId r, cru_providerId r, cru_idempotencyKey r)])
      (map application_key (rdb_applications db))"
    using assms(1,3) db'(2-4) unfolding rules_wf_def
    by (intro keys_ok_rule) (auto simp: rule_key_def same_key_def list_ex_iff image_iff)
  then show ?thesis by (simp add: rules_wf_def db'(1) rule_key_def)
qed

lemma insert_application_keeps:
  assumes "rules_wf db" "insert_application env a db = Inr db'"
    and "r \<in> set (rdb_rules db)" "apl_ruleId a = cru_id r" "apl_ruleSetId a = cru_ruleSetId r"
    and "apl_ruleId a \<notin> set (map apl_ruleId (rdb_applications db))"
  shows "rules_wf db'"
proof -
  have db': "db' = db\<lparr>rdb_applications := rdb_applications db @ [a]\<rparr>"
    "apl_id a \<notin> set (map apl_id (rdb_applications db))"
    using assms(2) by (auto simp: insert_application_def split: if_splits)
  have "rule_key r \<in> set (map rule_key (rdb_rules db))" using assms(3) by simp
  then have "keys_ok (map rst_id (rdb_sets db)) (map rule_key (rdb_rules db))
      (map application_key (rdb_applications db) @ [(apl_id a, apl_ruleId a, apl_ruleSetId a)])"
    using assms(1,4-6) db'(2) unfolding rules_wf_def
    by (intro keys_ok_application) (auto simp: rule_key_def application_key_def image_iff)
  then show ?thesis by (simp add: rules_wf_def db'(1) application_key_def)
qed

text \<open>A set, its rule and the rule's application, made one after the other.\<close>

lemma new_set_and_rule:
  assumes "rules_wf db" "insert_set env s db = Inr db1" "insert_rule env r db1 = Inr db2" "cru_ruleSetId r = rst_id s"
  shows "rules_wf db1" "rules_wf db2"
    "insert_application env a db2 = Inr db3 \<Longrightarrow> apl_ruleId a = cru_id r \<Longrightarrow> apl_ruleSetId a = rst_id s \<Longrightarrow> rules_wf db3"
proof -
  show wf1: "rules_wf db1" using insert_set_keeps [OF assms(1,2)] .
  have s: "rst_id s \<notin> set (map rst_id (rdb_sets db))" "rdb_rules db1 = rdb_rules db" "rdb_applications db1 = rdb_applications db"
    using assms(2) by (auto simp: insert_set_def split: if_splits)
  then have "cru_ruleSetId r \<notin> set (map cru_ruleSetId (rdb_rules db1))"
    using rule_sets [OF assms(1)] assms(4) by auto
  then show wf2: "rules_wf db2" using insert_rule_keeps [OF wf1 assms(3)] by blast
  have r: "cru_id r \<notin> set (map cru_id (rdb_rules db))" "rdb_rules db2 = rdb_rules db @ [r]"
    "rdb_applications db2 = rdb_applications db"
    using assms(3) s by (auto simp: insert_rule_def split: if_splits)
  assume a: "insert_application env a db2 = Inr db3" "apl_ruleId a = cru_id r" "apl_ruleSetId a = rst_id s"
  show "rules_wf db3"
    by (rule insert_application_keeps [OF wf2 a(1), of r])
      (use a r assms(4) application_rules [OF assms(1)] in auto)
qed

lemma create_transaction_keeps:
  assumes "rules_wf db" "create_transaction env ids c key hash db = Inr db'"
  shows "rules_wf db'"
proof -
  obtain db1 db2 target where ins:
    "insert_set env (price_set_row ids c) db = Inr db1"
    "insert_rule env (price_rule_row env ids c key hash) db1 = Inr db2"
    "insert_application env (price_application_row ids c target) db2 = Inr db'"
    using assms(2) by (auto simp: create_transaction_def bind_db_def split: sum.splits)
  show ?thesis
    by (rule new_set_and_rule(3) [OF assms(1) ins(1,2) _ ins(3)])
      (simp_all add: price_rule_row_def price_set_row_def price_application_row_def)
qed

lemma create_keeps:
  assumes "rules_wf db" "rules_wf (meanwhile db)"
  shows "rules_wf (snd (createCommercialPriceRule sha256 meanwhile env ids c db))"
  using assms create_transaction_keeps [OF assms(2)]
  by (auto simp: createCommercialPriceRule_def Let_def split: sum.splits option.splits)

lemma sell_keeps:
  assumes "rules_wf db"
  shows "rules_wf (snd (createCommercialSellabilityRule env ids c db))"
proof (cases "insert_set env (sell_set_row ids c) db")
  case (Inl e)
  then show ?thesis using assms by (simp add: createCommercialSellabilityRule_def)
next
  case (Inr db1)
  note s = this
  show ?thesis
  proof (cases "insert_rule env (sell_rule_row env ids c) db1")
    case (Inl e)
    then show ?thesis using s insert_set_keeps [OF assms s] by (simp add: createCommercialSellabilityRule_def)
  next
    case (Inr db2)
    have eq: "cru_ruleSetId (sell_rule_row env ids c) = rst_id (sell_set_row ids c)"
      by (simp add: sell_rule_row_def sell_set_row_def)
    note wf = new_set_and_rule [OF assms s Inr eq]
    have "rules_wf db3" if "insert_application env (sell_application_row ids c target) db2 = Inr db3" for db3 target
      by (rule wf(3) [OF that]) (simp_all add: sell_application_row_def sell_rule_row_def sell_set_row_def)
    then show ?thesis using s Inr wf(2)
      by (auto simp: createCommercialSellabilityRule_def bind_db_def split: sum.splits)
  qed
qed

text \<open>Changes that keep the keys.\<close>

lemma map_update_rows: "(\<And>r. key (f r) = key r) \<Longrightarrow> map key (update_rows P f rs) = map key rs"
  by (auto simp: update_rows_def)

lemma set_status_keeps: "rules_wf db \<Longrightarrow> rules_wf (set_status i b db)"
  by (simp add: rules_wf_def set_status_def map_update_rows)

lemma update_rules_keeps:
  "rules_wf db \<Longrightarrow> (\<And>r. rule_key (f r) = rule_key r) \<Longrightarrow> rules_wf (db\<lparr>rdb_rules := update_rows P f (rdb_rules db)\<rparr>)"
  by (simp add: rules_wf_def map_update_rows)

lemma update_applications_keeps:
  "rules_wf db \<Longrightarrow> (\<And>a. application_key (f a) = application_key a) \<Longrightarrow>
     rules_wf (db\<lparr>rdb_applications := update_rows P f (rdb_applications db)\<rparr>)"
  by (simp add: rules_wf_def map_update_rows)

lemma update_both_keeps:
  "rules_wf db \<Longrightarrow> (\<And>r. rule_key (f r) = rule_key r) \<Longrightarrow> (\<And>a. application_key (g a) = application_key a) \<Longrightarrow>
     rules_wf (db\<lparr>rdb_rules := update_rows P f (rdb_rules db), rdb_applications := update_rows Q g (rdb_applications db)\<rparr>)"
  by (simp add: rules_wf_def map_update_rows)

lemma update_keeps: "rules_wf db \<Longrightarrow> rules_wf (updateCommercialPriceRule i p db)"
  unfolding updateCommercialPriceRule_def Let_def
  by (cases "ppt_isActive p"; cases "ppt_dateRange p")
    (simp_all add: set_status_keeps update_both_keeps update_rules_keeps rule_key_def application_key_def)

lemma set_active_keeps: "rules_wf db \<Longrightarrow> rules_wf (setCommercialRuleActive i b db)"
  unfolding setCommercialRuleActive_def Let_def
  by (intro set_status_keeps update_applications_keeps update_rules_keeps) (simp_all add: rule_key_def application_key_def)

text \<open>Deletions.\<close>

lemma delete_rules_keeps:
  assumes "rules_wf db" "\<And>a. a \<in> set (rdb_applications db) \<Longrightarrow> apl_ruleId a \<in> I \<Longrightarrow> Q a"
  shows "rules_wf (db\<lparr>rdb_applications := delete_rows Q (rdb_applications db),
    rdb_rules := delete_rows (\<lambda>r. cru_id r \<in> I) (rdb_rules db)\<rparr>)"
proof -
  let ?P = "\<lambda>(i, _). i \<notin> I" and ?R = "map rule_key (rdb_rules db)" and ?as = "rdb_applications db"
  have wf: "keys_ok (map rst_id (rdb_sets db)) ?R (map application_key ?as)" using assms(1) by (simp add: rules_wf_def)
  have A: "keys_ok (map rst_id (rdb_sets db)) ?R (map application_key (filter (\<lambda>a. \<not> Q a) ?as))"
    using wf unfolding keys_ok_def by (auto simp: distinct_map_filter)
  have "keys_ok (map rst_id (rdb_sets db)) (filter ?P ?R) (filter (\<lambda>_. True) (map application_key (filter (\<lambda>a. \<not> Q a) ?as)))"
  proof (rule keys_ok_filter [OF A])
    show "(i, s, k) \<in> set ?R \<Longrightarrow> ?P (i, s, k) \<Longrightarrow> s \<in> set (map rst_id (rdb_sets db))" for i s k
      using wf unfolding keys_ok_def by auto
    show "(a, i, s) \<in> set (map application_key (filter (\<lambda>a. \<not> Q a) ?as)) \<Longrightarrow> (\<lambda>_. True) (a, i, s) \<Longrightarrow>
        (i, s, k) \<in> set ?R \<Longrightarrow> ?P (i, s, k)" for a i s k
      using assms(2) by (auto simp: application_key_def)
    show "distinct (map rst_id (rdb_sets db))" using wf by (simp add: keys_ok_def)
  qed
  then show ?thesis by (simp add: rules_wf_def delete_rows_def filter_map comp_def rule_key_def)
qed

lemma drop_empty_set_keeps:
  assumes "rules_wf db"
  shows "rules_wf (drop_empty_set i db)"
proof (cases "list_ex (\<lambda>r. cru_ruleSetId r = i) (rdb_rules db)")
  case True
  then show ?thesis using assms by (simp add: drop_empty_set_def)
next
  case False
  let ?S = "map rst_id (filter (\<lambda>s. rst_id s \<noteq> i) (rdb_sets db))"
  have wf: "keys_ok (map rst_id (rdb_sets db)) (map rule_key (rdb_rules db)) (map application_key (rdb_applications db))"
    using assms by (simp add: rules_wf_def)
  have "keys_ok ?S (filter (\<lambda>_. True) (map rule_key (rdb_rules db)))
      (filter (\<lambda>_. True) (map application_key (rdb_applications db)))"
  proof (rule keys_ok_filter [OF wf])
    show "(r, s, k) \<in> set (map rule_key (rdb_rules db)) \<Longrightarrow> (\<lambda>_. True) (r, s, k) \<Longrightarrow> s \<in> set ?S" for r s k
      using False rule_sets [OF assms] by (auto simp: rule_key_def list_ex_iff)
    show "distinct ?S" using wf by (simp add: keys_ok_def distinct_map_filter)
  qed simp
  then show ?thesis using False by (simp add: drop_empty_set_def rules_wf_def delete_rows_def)
qed

lemma drop_empty_sets_keep: "rules_wf db \<Longrightarrow> rules_wf (fold drop_empty_set is db)"
  by (induction "is" arbitrary: db) (simp_all add: drop_empty_set_keeps)

lemma delete_keeps: "rules_wf db \<Longrightarrow> rules_wf (deleteCommercialRule i db)"
  using delete_rules_keeps [of db "{i}" "\<lambda>a. apl_ruleId a = i"]
  by (auto simp: deleteCommercialRule_def Let_def drop_empty_set_keeps split: option.splits)

lemma application_rule_unique:
  "rules_wf db \<Longrightarrow> a \<in> set (rdb_applications db) \<Longrightarrow> b \<in> set (rdb_applications db) \<Longrightarrow>
     apl_ruleId a = apl_ruleId b \<Longrightarrow> a = b"
  by (auto simp: rules_wf_def keys_ok_def comp_def application_key_def dest: inj_onD [rotated] simp: distinct_map)

lemma delete_scope_keeps:
  assumes "rules_wf db"
  shows "rules_wf (deleteCommercialRulesForScope scope i db)"
proof -
  let ?Q = "\<lambda>a. apl_scope a = scope \<and> apl_scopeId a = i"
  let ?I = "set (js_dedup (filter (\<lambda>i. i \<noteq> []) (map apl_ruleId (filter ?Q (rdb_applications db)))))"
  have "rules_wf (db\<lparr>rdb_applications := delete_rows ?Q (rdb_applications db),
      rdb_rules := delete_rows (\<lambda>r. cru_id r \<in> ?I) (rdb_rules db)\<rparr>)"
    using application_rule_unique [OF assms] by (intro delete_rules_keeps assms) auto
  then show ?thesis by (simp add: deleteCommercialRulesForScope_def Let_def drop_empty_sets_keep)
qed

section \<open>Runs of the operations\<close>

datatype rule_op =
    CreatePrice rule_env fresh_ids price_command
  | CreateSellability rule_env fresh_ids sell_command
  | UpdatePrice string price_patch
  | SetActive string bool
  | DeleteRule string
  | DeleteScope string string

fun rule_step :: "(payload \<Rightarrow> string) \<Rightarrow> rule_op \<Rightarrow> rules_db \<Rightarrow> rule_error + rules_db" where
  "rule_step sha256 (CreatePrice env ids c) db = Inr (snd (createCommercialPriceRule sha256 id env ids c db))"
| "rule_step sha256 (CreateSellability env ids c) db = Inr (snd (createCommercialSellabilityRule env ids c db))"
| "rule_step sha256 (UpdatePrice i p) db = Inr (updateCommercialPriceRule i p db)"
| "rule_step sha256 (SetActive i b) db = Inr (setCommercialRuleActive i b db)"
| "rule_step sha256 (DeleteRule i) db = Inr (deleteCommercialRule i db)"
| "rule_step sha256 (DeleteScope s i) db = Inr (deleteCommercialRulesForScope s i db)"

interpretation rule_tables: guarded_machine "rule_step sha256" rules_wf for sha256
proof
  show "rules_wf db \<Longrightarrow> rule_step sha256 x db = Inr db' \<Longrightarrow> rules_wf db'" for db x db'
    by (cases x) (auto simp: create_keeps sell_keeps update_keeps set_active_keeps delete_keeps delete_scope_keeps)
qed

text \<open>
  C37. After any sequence of rule operations, the failing ones included, the rule tables are intact: ids are
  unique, every rule belongs to an existing set of its own, every application to an existing rule and to
  the set of that rule, a rule has at most one application, and no two rules of a provider share an
  idempotency key.
\<close>

theorem rule_tables_intact: "rules_wf (run_ops (rule_step sha256) ops empty_rules)"
  by (rule rule_tables.run_keeps) (rule empty_rules_wf)

section \<open>Creating a rule twice\<close>

lemma create_transaction_rule:
  assumes "create_transaction env ids c key hash db = Inr db'"
  shows "rdb_rules db' = rdb_rules db @ [price_rule_row env ids c key hash]"
    "\<not> list_ex (same_key (price_rule_row env ids c key hash)) (rdb_rules db)"
  using assms
  by (auto simp: create_transaction_def bind_db_def insert_set_def insert_rule_def insert_application_def
      split: sum.splits if_splits)

text \<open>A command that returned left a rule with its key and payload, which later looks find.\<close>

lemma created_found:
  assumes "createCommercialPriceRule sha256 meanwhile env ids c db = (Inr r, db')"
    and "normalizeIdempotencyKey (pcm_idempotencyKey c) = Inr (Some key)"
  shows "\<exists>x. findExisting (pcm_providerId c) (Some key) db' = Some x \<and> cru_payloadHash x = Some (sha256 (payload_of c)) \<and>
     crr_ruleSetId r = cru_ruleSetId x \<and> crr_ruleId r = cru_id x"
proof -
  have replay: "\<exists>x. findExisting (pcm_providerId c) (Some key) d = Some x \<and> cru_payloadHash x = Some (sha256 (payload_of c)) \<and>
     crr_ruleSetId s = cru_ruleSetId x \<and> crr_ruleId s = cru_id x"
    if "replayOrConflict (pcm_providerId c) (Some key) (Some (sha256 (payload_of c))) d = Inr (Some s)" for d s
    using that by (auto simp: replayOrConflict_def split: option.splits if_splits)
  have new: "findExisting (pcm_providerId c) (Some key) d' = Some (price_rule_row env ids c (Some key) (Some (sha256 (payload_of c))))"
    if "create_transaction env ids c (Some key) (Some (sha256 (payload_of c))) d = Inr d'" for d d'
  proof -
    have "find (\<lambda>r. cru_providerId r = pcm_providerId c \<and> cru_idempotencyKey r = Some key) (rdb_rules d) = None"
      using create_transaction_rule(2) [OF that]
      by (auto simp: find_None_iff same_key_def list_ex_iff price_rule_row_def)
    then show ?thesis using create_transaction_rule(1) [OF that]
      by (simp add: findExisting_def find_append) (simp add: price_rule_row_def)
  qed
  show ?thesis
    using assms replay new
    by (auto simp: createCommercialPriceRule_def Let_def price_rule_row_def split: sum.splits option.splits if_splits)
qed

lemma create_rule_atomic:
  "createCommercialPriceRule sha256 meanwhile env ids c db = (Inl e, db') \<Longrightarrow> db' = db \<or> db' = meanwhile db"
  by (auto simp: createCommercialPriceRule_def Let_def split: sum.splits option.splits if_splits)

text \<open>
  Creating a price rule with an idempotency key is idempotent. Once a command has returned, a later
  command of the provider with the key writes nothing, whatever its fresh ids are and whatever other
  processes do meanwhile: with the same payload it returns the first rule set and rule, with another
  one it is refused.
\<close>

theorem create_rule_idempotent:
  assumes "createCommercialPriceRule sha256 meanwhile env ids c db = (Inr r, db')"
    and "normalizeIdempotencyKey (pcm_idempotencyKey c) = Inr (Some key)"
    and "normalizeIdempotencyKey (pcm_idempotencyKey c') = Inr (Some key)" "pcm_providerId c' = pcm_providerId c"
  shows "createCommercialPriceRule sha256 meanwhile' env' ids' c' db' =
    (if sha256 (payload_of c') = sha256 (payload_of c) then Inr (r\<lparr>crr_replayed := True\<rparr>)
     else Inl (IdempotencyConflict key), db')"
proof -
  obtain x where x: "findExisting (pcm_providerId c) (Some key) db' = Some x"
    "cru_payloadHash x = Some (sha256 (payload_of c))" "crr_ruleSetId r = cru_ruleSetId x" "crr_ruleId r = cru_id x"
    using created_found [OF assms(1,2)] by blast
  then show ?thesis
    using assms(3,4) by (cases r) (simp add: createCommercialPriceRule_def replayOrConflict_def)
qed

definition ex_rule_env :: rule_env where
  "ex_rule_env = \<lparr>rle_targetExists = (\<lambda>_ _. True), rle_providerExists = (\<lambda>_. True), rle_now = 1000\<rparr>"

definition ex_ids :: "string \<Rightarrow> fresh_ids" where
  "ex_ids i = \<lparr>fid_ruleSetId = ''s'' @ i, fid_ruleId = ''r'' @ i, fid_applicationId = ''a'' @ i\<rparr>"

definition ex_command :: "rat \<Rightarrow> price_command" where
  "ex_command v = \<lparr>pcm_providerId = ''p'', pcm_ratePlanId = ''plan'', pcm_name = None, pcm_type = ''percentage_markup'',
     pcm_value = v, pcm_priority = None, pcm_dateRange = None, pcm_dayOfWeek = None, pcm_occupancyKey = None,
     pcm_isActive = None, pcm_sourceRuleId = None, pcm_idempotencyKey = Some '' k '', pcm_ruleId = None\<rparr>"

definition ex_sha :: "payload \<Rightarrow> string" where
  "ex_sha x = (case x of (_, _, _, _, v, _) \<Rightarrow> replicate 64 (if v = 10 then CHR ''a'' else CHR ''b''))"

definition ex_created :: "(rule_error + create_result) \<times> rules_db" where
  "ex_created = createCommercialPriceRule ex_sha id ex_rule_env (ex_ids ''1'') (ex_command 10) empty_rules"

lemmas ex_rule_defs = ex_created_def ex_rule_env_def ex_ids_def ex_command_def ex_sha_def empty_rules_def

theorem create_rule_idempotent_witness:
  "createCommercialPriceRule ex_sha id ex_rule_env (ex_ids ''2'') (ex_command 10) (snd ex_created) =
     (Inr \<lparr>crr_ruleSetId = ''s1'', crr_ruleId = ''r1'', crr_replayed = True\<rparr>, snd ex_created) \<and>
   createCommercialPriceRule ex_sha id ex_rule_env (ex_ids ''2'') (ex_command 20) (snd ex_created) =
     (Inl (IdempotencyConflict ''k''), snd ex_created) \<and>
   snd ex_created \<noteq> empty_rules"
proof -
  have first: "createCommercialPriceRule ex_sha id ex_rule_env (ex_ids ''1'') (ex_command 10) empty_rules =
      (Inr \<lparr>crr_ruleSetId = ''s1'', crr_ruleId = ''r1'', crr_replayed = False\<rparr>, snd ex_created)"
    by code_simp
  have key: "normalizeIdempotencyKey (pcm_idempotencyKey (ex_command v)) = Inr (Some ''k'')" for v
    by (simp add: ex_command_def normalizeIdempotencyKey_def js_trim_def js_space_def)
  have same: "pcm_providerId (ex_command v) = pcm_providerId (ex_command 10)" for v by (simp add: ex_command_def)
  have differ: "ex_sha (payload_of (ex_command 20)) \<noteq> ex_sha (payload_of (ex_command 10))"
    by code_simp
  have new: "snd ex_created \<noteq> empty_rules" by code_simp
  have later: "createCommercialPriceRule ex_sha id ex_rule_env (ex_ids ''2'') (ex_command v) (snd ex_created) =
      (if ex_sha (payload_of (ex_command v)) = ex_sha (payload_of (ex_command 10))
       then Inr \<lparr>crr_ruleSetId = ''s1'', crr_ruleId = ''r1'', crr_replayed = True\<rparr>
       else Inl (IdempotencyConflict ''k''), snd ex_created)" for v
    using create_rule_idempotent [OF first key key same] by simp
  show ?thesis using later [of 10] later [of 20] differ new by simp
qed

end
