(* ===== verification/Worker_Pool.thy ===== *)
theory Worker_Pool
  imports Prelude "HOL-Library.Multiset"
begin

text \<open>
  The pool of asynchronous workers the code starts over a list of items with a shared cursor
  (lib/provider-sync-job-queue.ts \<open>mapWithConcurrency\<close>, recompute-effective-pricing.ts): each
  worker takes the item under the cursor, awaits its work and takes the next one; a worker whose
  work throws stops, the others go on. The work of an item is one step on the store; which worker
  finishes next is the schedule, a list of choices among the busy workers.
\<close>

datatype ('i, 'e) worker = is_Busy: Busy (un_Busy: 'i) | Returned | Failed 'e

record ('i, 'e, 's) pool =
  wp_todo :: "'i list"
  wp_workers :: "('i, 'e) worker list"
  wp_rejected :: "'e option"
  wp_store :: 's

fun next_item :: "'i list \<Rightarrow> ('i, 'e) worker \<times> 'i list" where
  "next_item [] = (Returned, [])"
| "next_item (i # is) = (Busy i, is)"

text \<open>Each worker runs up to its first \<open>await\<close> when it is created.\<close>

fun start_workers :: "nat \<Rightarrow> 'i list \<Rightarrow> ('i, 'e) worker list \<times> 'i list" where
  "start_workers 0 todo = ([], todo)"
| "start_workers (Suc n) todo =
     (let (w, todo1) = next_item todo; (ws, todo2) = start_workers n todo1 in (w # ws, todo2))"

definition start_pool :: "nat \<Rightarrow> 'i list \<Rightarrow> 's \<Rightarrow> ('i, 'e, 's) pool" where
  "start_pool n items s = (let (ws, todo) = start_workers n items
     in \<lparr>wp_todo = todo, wp_workers = ws, wp_rejected = None, wp_store = s\<rparr>)"

definition busy :: "('i, 'e, 's) pool \<Rightarrow> nat list" where
  "busy p = filter (\<lambda>w. is_Busy (wp_workers p ! w)) [0..<length (wp_workers p)]"

definition complete_item ::
  "('i \<Rightarrow> 's \<Rightarrow> 'e option \<times> 's) \<Rightarrow> nat \<Rightarrow> ('i, 'e, 's) pool \<Rightarrow> ('i, 'e, 's) pool" where
  "complete_item work w p =
     (case wp_workers p ! w of
        Busy i \<Rightarrow>
          (case work i (wp_store p) of
             (None, s') \<Rightarrow> (let (wk, todo') = next_item (wp_todo p)
                in p\<lparr>wp_todo := todo', wp_workers := (wp_workers p)[w := wk], wp_store := s'\<rparr>)
           | (Some e, s') \<Rightarrow> p\<lparr>wp_workers := (wp_workers p)[w := Failed e],
                wp_rejected := (case wp_rejected p of None \<Rightarrow> Some e | Some e' \<Rightarrow> Some e'), wp_store := s'\<rparr>)
      | _ \<Rightarrow> p)"

definition chosen :: "nat list \<Rightarrow> nat list \<Rightarrow> nat" where
  "chosen sched ws = ws ! ((case sched of [] \<Rightarrow> 0 | c # _ \<Rightarrow> c) mod length ws)"

definition pool_size :: "('i, 'e, 's) pool \<Rightarrow> nat" where
  "pool_size p = length (wp_todo p) + length (filter is_Busy (wp_workers p))"

lemma busy_Nil: "busy p = [] \<longleftrightarrow> filter is_Busy (wp_workers p) = []"
  by (auto simp: busy_def filter_empty_conv all_set_conv_all_nth)

lemma chosen_busy:
  assumes "busy p \<noteq> []"
  shows "chosen sched (busy p) < length (wp_workers p) \<and> is_Busy (wp_workers p ! chosen sched (busy p))"
proof -
  have "chosen sched (busy p) \<in> set (busy p)" using assms by (simp add: chosen_def)
  then show ?thesis by (auto simp: busy_def)
qed

lemma length_filter_update:
  "w < length xs \<Longrightarrow> length (filter P (xs[w := x])) + (if P (xs ! w) then 1 else 0) =
     length (filter P xs) + (if P x then 1 else 0)"
proof (induction xs arbitrary: w)
  case Nil
  then show ?case by simp
next
  case (Cons a xs)
  then show ?case by (cases w) auto
qed

lemma complete_item_size:
  assumes "w < length (wp_workers p)" "is_Busy (wp_workers p ! w)"
  shows "pool_size (complete_item work w p) < pool_size p"
proof -
  obtain i where i: "wp_workers p ! w = Busy i" using assms(2) by (cases "wp_workers p ! w") auto
  show ?thesis
  proof (cases "work i (wp_store p)")
    case (Pair r s)
    have step: "length (filter is_Busy ((wp_workers p)[w := x])) + 1 =
        length (filter is_Busy (wp_workers p)) + (if is_Busy x then 1 else 0)" for x
      using length_filter_update [OF assms(1), of is_Busy x] assms(2) by simp
    show ?thesis
      using step [of Returned] step [of "Busy (hd (wp_todo p))"] step [of "Failed (the r)"] i Pair
      by (cases "wp_todo p"; cases r) (simp_all add: complete_item_def pool_size_def)
  qed
qed

text \<open>
  A pool runs until no worker is busy. Each step takes an item from the cursor or stops a worker,
  so every schedule ends.
\<close>

function run_pool ::
  "('i \<Rightarrow> 's \<Rightarrow> 'e option \<times> 's) \<Rightarrow> nat list \<Rightarrow> ('i, 'e, 's) pool \<Rightarrow> ('i, 'e, 's) pool" where
  "run_pool work sched p =
     (if busy p = [] then p
      else run_pool work (tl sched) (complete_item work (chosen sched (busy p)) p))"
  by pat_completeness auto
termination
  by (relation "measure (\<lambda>(_, _, p). pool_size p)") (auto dest: chosen_busy intro!: complete_item_size)

declare run_pool.simps [simp del]

section \<open>Every item is worked on once\<close>

definition in_hand :: "('i, 'e) worker list \<Rightarrow> 'i multiset" where
  "in_hand ws = mset (concat (map (\<lambda>w. case w of Busy i \<Rightarrow> [i] | _ \<Rightarrow> []) ws))"

lemma in_hand_simps [simp]:
  "in_hand [] = {#}"
  "in_hand (Busy i # ws) = add_mset i (in_hand ws)"
  "in_hand (Returned # ws) = in_hand ws"
  "in_hand (Failed e # ws) = in_hand ws"
  by (simp_all add: in_hand_def)

lemma in_hand_update:
  "w < length ws \<Longrightarrow> in_hand (ws[w := x]) + in_hand [ws ! w] = in_hand ws + in_hand [x]"
proof (induction ws arbitrary: w)
  case Nil
  then show ?case by simp
next
  case (Cons a ws)
  then show ?case by (cases w; cases a; cases x) (auto simp: union_ac)
qed

definition pending :: "('i, 'e, 's) pool \<Rightarrow> 'i multiset" where
  "pending p = mset (wp_todo p) + in_hand (wp_workers p)"

definition do_item :: "('i \<Rightarrow> 's \<Rightarrow> 'e option \<times> 's) \<Rightarrow> 'i \<Rightarrow> 's \<Rightarrow> 's" where
  "do_item work i s = snd (work i s)"

lemma complete_item_pending:
  assumes "w < length (wp_workers p)" "wp_workers p ! w = Busy i"
  shows "wp_store (complete_item work w p) = do_item work i (wp_store p)"
    and "pending (complete_item work w p) + {#i#} = pending p"
proof -
  note upd = in_hand_update [OF assms(1), unfolded assms(2)]
  show "wp_store (complete_item work w p) = do_item work i (wp_store p)"
    using assms(2) by (cases "wp_todo p"; cases "work i (wp_store p)"; cases "fst (work i (wp_store p))")
      (simp_all add: complete_item_def do_item_def)
  show "pending (complete_item work w p) + {#i#} = pending p"
    using assms(2) upd [of Returned] upd [of "Busy (hd (wp_todo p))"] upd [of "Failed (the (fst (work i (wp_store p))))"]
    by (cases "wp_todo p"; cases "work i (wp_store p)"; cases "fst (work i (wp_store p))")
      (simp_all add: complete_item_def pending_def)
qed

lemma in_hand_idle: "filter is_Busy ws = [] \<Longrightarrow> in_hand ws = {#}"
proof (induction ws)
  case Nil
  then show ?case by simp
next
  case (Cons w ws)
  then show ?case by (cases w) auto
qed

text \<open>The runs of a pool with the items whose work has finished, in the order in which it has.\<close>

inductive pool_steps ::
  "('i \<Rightarrow> 's \<Rightarrow> 'e option \<times> 's) \<Rightarrow> ('i, 'e, 's) pool \<Rightarrow> 'i list \<Rightarrow> ('i, 'e, 's) pool \<Rightarrow> bool"
  for work where
  pool_none: "pool_steps work p [] p"
| pool_item: "w < length (wp_workers p) \<Longrightarrow> wp_workers p ! w = Busy i \<Longrightarrow>
    pool_steps work (complete_item work w p) is p' \<Longrightarrow> pool_steps work p (i # is) p'"

inductive_simps pool_steps_Nil: "pool_steps work p [] p'"
inductive_cases pool_steps_ConsE: "pool_steps work p (i # is) p'"

lemma run_pool_steps:
  "\<exists>is. pool_steps work p is (run_pool work sched p) \<and> busy (run_pool work sched p) = []"
proof (induction work sched p rule: run_pool.induct)
  case (1 work sched p)
  show ?case
  proof (cases "busy p = []")
    case True
    then show ?thesis by (auto simp: run_pool.simps intro: pool_none)
  next
    case False
    let ?w = "chosen sched (busy p)"
    obtain i where w: "?w < length (wp_workers p)" "wp_workers p ! ?w = Busy i"
      using chosen_busy [OF False, of sched] by (cases "wp_workers p ! ?w") auto
    show ?thesis
      using 1 [OF False] pool_item [OF w] False by (simp add: run_pool.simps [of work sched]) blast
  qed
qed

lemma pool_steps_pending:
  "pool_steps work p is p' \<Longrightarrow> mset is + pending p' = pending p \<and> wp_store p' = fold (do_item work) is (wp_store p)"
proof (induction rule: pool_steps.induct)
  case (pool_none p)
  then show ?case by simp
next
  case (pool_item w p i "is" p')
  then show ?case using complete_item_pending [OF pool_item.hyps(1,2), of work] by simp
qed

text \<open>A run is no longer than the items and the busy workers it starts with.\<close>

lemma pool_steps_bounded: "pool_steps work p is p' \<Longrightarrow> length is + pool_size p' \<le> pool_size p"
proof (induction rule: pool_steps.induct)
  case (pool_none p)
  then show ?case by simp
next
  case (pool_item w p i "is" p')
  then show ?case using complete_item_size [OF pool_item.hyps(1), of work] by simp
qed

lemma start_workers_pending: "mset (snd (start_workers n items)) + in_hand (fst (start_workers n items)) = mset items"
proof (induction n arbitrary: items)
  case 0
  then show ?case by simp
next
  case (Suc n)
  show ?case using Suc [of "tl items"] Suc [of "[]"] by (cases items) (simp_all add: case_prod_beta)
qed

lemma start_pool_pending [simp]: "pending (start_pool n items s) = mset items"
  using start_workers_pending [of n items] by (simp add: start_pool_def pending_def case_prod_beta)

lemma start_pool_store [simp]:
  "wp_store (start_pool n items s) = s" "wp_rejected (start_pool n items s) = None"
  by (simp_all add: start_pool_def case_prod_beta)


section \<open>Items are left only when every worker has failed\<close>

definition failed_workers :: "('i, 'e, 's) pool \<Rightarrow> nat" where
  "failed_workers p = length (filter is_Failed (wp_workers p))"

definition staffed :: "('i, 'e, 's) pool \<Rightarrow> bool" where
  "staffed p \<longleftrightarrow> (Returned \<in> set (wp_workers p) \<longrightarrow> wp_todo p = [])"

lemma set_update_cases: "x \<in> set (xs[w := y]) \<Longrightarrow> x \<in> set xs \<or> x = y"
  using set_update_subset_insert [of xs w y] by blast

lemma complete_item_staffed: "staffed p \<Longrightarrow> wp_workers p ! w = Busy i \<Longrightarrow> staffed (complete_item work w p)"
  by (cases "wp_todo p"; cases "work i (wp_store p)"; cases "fst (work i (wp_store p))")
    (auto simp: complete_item_def staffed_def dest!: set_update_cases)

lemma complete_item_workers [simp]: "length (wp_workers (complete_item work w p)) = length (wp_workers p)"
  by (auto simp: complete_item_def Let_def split: worker.splits option.splits prod.splits)

lemma complete_item_failures:
  assumes "w < length (wp_workers p)" "wp_workers p ! w = Busy i"
  shows "failed_workers (complete_item work w p) =
      failed_workers p + (if fst (work i (wp_store p)) = None then 0 else 1)"
    and "wp_rejected (complete_item work w p) = None \<longleftrightarrow>
      wp_rejected p = None \<and> fst (work i (wp_store p)) = None"
proof -
  have upd: "length (filter is_Failed ((wp_workers p)[w := x])) = failed_workers p + (if is_Failed x then 1 else 0)" for x
    using length_filter_update [OF assms(1), of is_Failed x] assms(2) by (simp add: failed_workers_def)
  show "failed_workers (complete_item work w p) =
      failed_workers p + (if fst (work i (wp_store p)) = None then 0 else 1)"
    using assms(2) upd [of Returned] upd [of "Busy (hd (wp_todo p))"] upd [of "Failed (the (fst (work i (wp_store p))))"]
    by (cases "wp_todo p"; cases "work i (wp_store p)"; cases "fst (work i (wp_store p))")
      (simp_all add: complete_item_def failed_workers_def)
  show "wp_rejected (complete_item work w p) = None \<longleftrightarrow>
      wp_rejected p = None \<and> fst (work i (wp_store p)) = None"
    using assms(2) by (cases "wp_todo p"; cases "work i (wp_store p)"; cases "fst (work i (wp_store p))")
      (auto simp: complete_item_def split: option.splits)
qed

lemma pool_steps_staffed:
  "pool_steps work p is p' \<Longrightarrow> staffed p \<Longrightarrow> staffed p' \<and> length (wp_workers p') = length (wp_workers p)"
  by (induction rule: pool_steps.induct) (auto intro: complete_item_staffed)

lemma staffed_idle:
  assumes "staffed p" "busy p = []" "failed_workers p < length (wp_workers p)"
  shows "wp_todo p = []"
proof (rule ccontr)
  assume "wp_todo p \<noteq> []"
  then have "Returned \<notin> set (wp_workers p)" using assms(1) by (auto simp: staffed_def)
  moreover have "\<not> is_Busy x" if "x \<in> set (wp_workers p)" for x
    using assms(2) that unfolding busy_Nil by (auto simp: filter_empty_conv)
  ultimately have "is_Failed x" if "x \<in> set (wp_workers p)" for x using that by (cases x) fastforce+
  then have "filter is_Failed (wp_workers p) = wp_workers p" by simp
  then show False using assms(3) by (simp add: failed_workers_def)
qed

lemma start_workers_Nil [simp]: "snd (start_workers n []) = []"
  by (induction n) (simp_all add: case_prod_beta)

lemma start_workers_returned: "Returned \<in> set (fst (start_workers n items)) \<Longrightarrow> snd (start_workers n items) = []"
proof (induction n arbitrary: items)
  case 0
  then show ?case by simp
next
  case (Suc n)
  then show ?case by (cases items) (auto simp: case_prod_beta)
qed

lemma start_workers_length [simp]: "length (fst (start_workers n items)) = n"
  by (induction n arbitrary: items) (simp_all add: case_prod_beta)

lemma start_workers_failed [simp]: "filter is_Failed (fst (start_workers n items)) = []"
proof (induction n arbitrary: items)
  case 0
  then show ?case by simp
next
  case (Suc n)
  then show ?case by (cases items) (simp_all add: case_prod_beta)
qed

lemma start_pool_staffed [simp]:
  "staffed (start_pool n items s)" "length (wp_workers (start_pool n items s)) = n"
  "failed_workers (start_pool n items s) = 0"
  by (auto simp: start_pool_def staffed_def failed_workers_def case_prod_beta start_workers_returned)

section \<open>Independent items\<close>

text \<open>
  The contract of the items of a pool: the work of one does not disturb the work of another. The
  outcome is then the same in every schedule.
\<close>

locale independent_items =
  fixes work :: "'i \<Rightarrow> 's \<Rightarrow> 'e option \<times> 's"
  assumes commute: "do_item work i (do_item work j s) = do_item work j (do_item work i s)"
    and undisturbed: "fst (work i (do_item work j s)) = fst (work i s)"
begin

lemma fold_permuted: "mset is = mset js \<Longrightarrow> fold (do_item work) is s = fold (do_item work) js s"
  by (rule fun_cong [OF fold_multiset_equiv]) (simp_all add: fun_eq_iff commute)

lemma undisturbed_fold: "fst (work i (fold (do_item work) js s)) = fst (work i s)"
  by (induction js arbitrary: s) (simp_all add: undisturbed)

lemma pool_steps_failures:
  "pool_steps work p is p' \<Longrightarrow>
     failed_workers p' = failed_workers p + length (filter (\<lambda>i. fst (work i (wp_store p)) \<noteq> None) is) \<and>
     (wp_rejected p' = None \<longleftrightarrow> wp_rejected p = None \<and> (\<forall>i \<in> set is. fst (work i (wp_store p)) = None))"
proof (induction rule: pool_steps.induct)
  case (pool_none p)
  then show ?case by simp
next
  case (pool_item w p i "is" p')
  show ?case
    using pool_item.IH complete_item_failures [OF pool_item.hyps(1,2), of work]
      complete_item_pending(1) [OF pool_item.hyps(1,2), of work]
    by (simp add: undisturbed)
qed

text \<open>
  With fewer failing items than workers, every item is worked on whatever the schedule: the store is
  that of the items in their order, and the pool rejects exactly when an item fails.
\<close>

lemma pool_outcome:
  assumes "length (filter (\<lambda>i. fst (work i s) \<noteq> None) items) < n"
  shows "wp_store (run_pool work sched (start_pool n items s)) = fold (do_item work) items s"
    and "wp_rejected (run_pool work sched (start_pool n items s)) = None \<longleftrightarrow>
      (\<forall>i \<in> set items. fst (work i s) = None)"
proof -
  let ?p = "start_pool n items s" and ?p' = "run_pool work sched (start_pool n items s)"
  obtain done_items where st: "pool_steps work ?p done_items ?p'" and idle: "busy ?p' = []"
    using run_pool_steps by blast
  note fin = pool_steps_pending [OF st, simplified]
  note fl = pool_steps_failures [OF st, simplified]
  have "mset done_items \<subseteq># mset items" using fin by (metis mset_subset_eq_add_left)
  then have "size (filter_mset (\<lambda>i. fst (work i s) \<noteq> None) (mset done_items)) \<le>
      size (filter_mset (\<lambda>i. fst (work i s) \<noteq> None) (mset items))"
    by (intro size_mset_mono multiset_filter_mono)
  then have "failed_workers ?p' < n" using fl assms by (simp flip: mset_filter)
  then have "wp_todo ?p' = []"
    using pool_steps_staffed [OF st] idle by (intro staffed_idle) simp_all
  then have "pending ?p' = {#}" using idle by (simp add: pending_def in_hand_idle busy_Nil)
  then have all: "mset done_items = mset items" using fin by simp
  then show "wp_store ?p' = fold (do_item work) items s" using fin fold_permuted by metis
  show "wp_rejected ?p' = None \<longleftrightarrow> (\<forall>i \<in> set items. fst (work i s) = None)"
    using fl all by (metis set_mset_mset)
qed

text \<open>A pool with a worker rejects exactly when an item fails, and otherwise all its items are worked on.\<close>

lemma pool_accepts:
  assumes "0 < n"
  shows "wp_rejected (run_pool work sched (start_pool n items s)) = None \<longleftrightarrow> (\<forall>i \<in> set items. fst (work i s) = None)"
    and "wp_rejected (run_pool work sched (start_pool n items s)) = None \<Longrightarrow>
      wp_store (run_pool work sched (start_pool n items s)) = fold (do_item work) items s"
proof -
  let ?p = "start_pool n items s" and ?p' = "run_pool work sched (start_pool n items s)"
  obtain done_items where st: "pool_steps work ?p done_items ?p'" and idle: "busy ?p' = []"
    using run_pool_steps by blast
  note fl = pool_steps_failures [OF st, simplified]
  have ok: "\<forall>i \<in> set items. fst (work i s) = None" if "wp_rejected ?p' = None"
  proof -
    have "filter (\<lambda>i. fst (work i s) \<noteq> None) done_items = []" using fl that by (simp add: filter_empty_conv)
    then have "failed_workers ?p' < length (wp_workers ?p')"
      using fl assms pool_steps_staffed [OF st] by (simp add: filter_empty_conv)
    then have "wp_todo ?p' = []" using pool_steps_staffed [OF st] idle by (intro staffed_idle) simp_all
    then have "pending ?p' = {#}" using idle by (simp add: pending_def in_hand_idle busy_Nil)
    then have "mset done_items = mset items" using pool_steps_pending [OF st] by simp
    then show ?thesis using fl that by (metis set_mset_mset)
  qed
  have none: "length (filter (\<lambda>i. fst (work i s) \<noteq> None) items) < n" if "\<forall>i \<in> set items. fst (work i s) = None"
  proof -
    have "filter (\<lambda>i. fst (work i s) \<noteq> None) items = []" using that by (simp add: filter_empty_conv)
    then show ?thesis using assms by simp
  qed
  show "wp_rejected ?p' = None \<longleftrightarrow> (\<forall>i \<in> set items. fst (work i s) = None)"
    using ok pool_outcome(2) [OF none] by blast
  show "wp_rejected ?p' = None \<Longrightarrow> wp_store ?p' = fold (do_item work) items s"
    using ok pool_outcome(1) [OF none] by blast
qed

end

end
