(* ===== verification/Effective_Pricing.thy ===== *)
theory Effective_Pricing
  imports Commercial_Rules Worker_Pool Hold_Snapshot Bulk_Finalization
begin

text \<open>
  The materialized price of a night (modules/pricing): the occupancy policies and their base, the
  computation of a price from policy, occupancy and rules, the recomputation of a range by a pool of
  workers and the coverage of a stay, over the tables \<open>RatePlanOccupancyPolicy\<close>, the commercial
  rules and \<open>EffectivePricing\<close>. The rows of the last are grouped by rate plan, date and occupancy: a
  group holds one row per variant, which is the unique index of the table.

  The hash of the computation's inputs is a parameter. A recomputation reads one clock.
\<close>

section \<open>Occupancies\<close>

definition toNonNegativeInteger :: "js_num \<Rightarrow> int" where
  "toNonNegativeInteger v = (case v of None \<Rightarrow> 0 | Some x \<Rightarrow> max 0 \<lfloor>x\<rfloor>)"

definition normalizeOccupancy :: "js_num \<Rightarrow> js_num \<Rightarrow> js_num \<Rightarrow> occupancy" where
  "normalizeOccupancy adults children infants =
     \<lparr>oc_adults = max 1 (toNonNegativeInteger adults), oc_children = toNonNegativeInteger children,
      oc_infants = toNonNegativeInteger infants\<rparr>"

definition normalized :: "occupancy \<Rightarrow> occupancy" where
  "normalized oc = normalizeOccupancy (Some (of_int (oc_adults oc))) (Some (of_int (oc_children oc)))
     (Some (of_int (oc_infants oc)))"

text \<open>The decimal text of an integer that is not negative.\<close>

fun decimal :: "nat \<Rightarrow> string" where
  "decimal n = (if n < 10 then [char_of (48 + n)] else decimal (n div 10) @ [char_of (48 + n mod 10)])"

declare decimal.simps [simp del]

definition occupancy_key :: "occupancy \<Rightarrow> string" where
  "occupancy_key oc = ''a'' @ decimal (nat (oc_adults oc)) @ ''_c'' @ decimal (nat (oc_children oc)) @
     ''_i'' @ decimal (nat (oc_infants oc))"

definition buildOccupancyKey :: "occupancy \<Rightarrow> string" where
  "buildOccupancyKey oc = occupancy_key (normalized oc)"

section \<open>Tables\<close>

record policy =
  pol_id :: string
  pol_ratePlanId :: string
  pol_baseAmount :: rat
  pol_currency :: string
  pol_baseAdults :: int
  pol_baseChildren :: int
  pol_extraAdultMode :: string
  pol_extraAdultValue :: rat
  pol_childMode :: string
  pol_childValue :: rat
  pol_effectiveFrom :: ms
  pol_effectiveTo :: "ms option"

record effective_row =
  efp_id :: string
  efp_variantId :: string
  efp_ratePlanId :: string
  efp_date :: day
  efp_occupancyKey :: string
  efp_baseComponent :: rat
  efp_occupancyAdjustment :: rat
  efp_ruleAdjustment :: rat
  efp_finalBasePrice :: rat
  efp_currency :: string
  efp_computedAt :: ms
  efp_sourceVersion :: string

type_synonym price_index = "string \<times> day \<times> string"

record pricing_db =
  pdb_rules :: rules_db
  pdb_policies :: "policy list"
  pdb_effective :: "price_index \<Rightarrow> effective_row list"

section \<open>Policies\<close>

text \<open>\<open>ORDER BY effectiveFrom DESC, id DESC\<close>; the collation of the ids is a parameter.\<close>

definition newest_policy :: "text_env \<Rightarrow> policy \<Rightarrow> policy \<Rightarrow> int" where
  "newest_policy te a b =
     (if pol_effectiveFrom a \<noteq> pol_effectiveFrom b then pol_effectiveFrom b - pol_effectiveFrom a
      else te_localeCompare te (pol_id b) (pol_id a))"

definition active_policies :: "text_env \<Rightarrow> string \<Rightarrow> ms \<Rightarrow> pricing_db \<Rightarrow> policy list" where
  "active_policies te ratePlanId target db = js_sort (newest_policy te)
     (filter (\<lambda>p. pol_ratePlanId p = ratePlanId \<and> pol_effectiveFrom p \<le> target \<and>
        (case pol_effectiveTo p of None \<Rightarrow> True | Some t \<Rightarrow> target < t)) (pdb_policies db))"

definition newest_row :: "text_env \<Rightarrow> effective_row \<Rightarrow> effective_row \<Rightarrow> int" where
  "newest_row te a b =
     (if efp_computedAt a \<noteq> efp_computedAt b then efp_computedAt b - efp_computedAt a
      else te_localeCompare te (efp_id b) (efp_id a))"

definition first_of :: "'a list \<Rightarrow> 'a option" where
  "first_of xs = (case xs of [] \<Rightarrow> None | x # _ \<Rightarrow> Some x)"

definition getBaseFromExistingEffectivePricing :: "text_env \<Rightarrow> price_index \<Rightarrow> pricing_db \<Rightarrow> (rat \<times> string) option" where
  "getBaseFromExistingEffectivePricing te ix db =
     map_option (\<lambda>r. (efp_baseComponent r, efp_currency r)) (first_of (js_sort (newest_row te) (pdb_effective db ix)))"

definition getBaseFromPolicy :: "text_env \<Rightarrow> price_index \<Rightarrow> pricing_db \<Rightarrow> (rat \<times> string) option" where
  "getBaseFromPolicy te ix db = (case ix of (ratePlanId, date, key) \<Rightarrow>
     (case first_of (active_policies te ratePlanId (parseDateOnly date) db) of
        None \<Rightarrow> getBaseFromExistingEffectivePricing te ix db
      | Some p \<Rightarrow> Some (pol_baseAmount p, pol_currency p)))"

record active_policy =
  act_baseAdults :: int
  act_baseChildren :: int
  act_extraAdultPercentage :: bool
  act_extraAdultValue :: rat
  act_childPercentage :: bool
  act_childValue :: rat
  act_currency :: string

definition getActiveOccupancyPolicy :: "text_env \<Rightarrow> string \<Rightarrow> day \<Rightarrow> pricing_db \<Rightarrow> active_policy option" where
  "getActiveOccupancyPolicy te ratePlanId date db =
     map_option (\<lambda>p. \<lparr>act_baseAdults = max 1 (pol_baseAdults p), act_baseChildren = max 0 (pol_baseChildren p),
        act_extraAdultPercentage = (pol_extraAdultMode p = ''percentage''), act_extraAdultValue = pol_extraAdultValue p,
        act_childPercentage = (pol_childMode p = ''percentage''), act_childValue = pol_childValue p,
        act_currency = pol_currency p\<rparr>)
       (first_of (active_policies te ratePlanId (parseDateOnly date) db))"

definition getFallbackCurrency :: "string \<Rightarrow> string" where
  "getFallbackCurrency ratePlanId = ''USD''"

definition save_group :: "effective_row \<Rightarrow> effective_row list \<Rightarrow> effective_row list" where
  "save_group r rows =
     (if list_ex (\<lambda>x. efp_variantId x = efp_variantId r) rows
      then update_rows (\<lambda>x. efp_variantId x = efp_variantId r) (\<lambda>x. r\<lparr>efp_id := efp_id x\<rparr>) rows
      else rows @ [r])"

definition row_index :: "effective_row \<Rightarrow> price_index" where
  "row_index r = (efp_ratePlanId r, efp_date r, efp_occupancyKey r)"

definition saveEffectivePricing :: "effective_row \<Rightarrow> pricing_db \<Rightarrow> pricing_db" where
  "saveEffectivePricing r db = db\<lparr>pdb_effective := (pdb_effective db)
     (row_index r := save_group r (pdb_effective db (row_index r)))\<rparr>"

definition listEffectivePricingCombinations ::
  "string \<Rightarrow> string \<Rightarrow> day list \<Rightarrow> string list \<Rightarrow> pricing_db \<Rightarrow> (day \<times> string) list" where
  "listEffectivePricingCombinations variantId ratePlanId dates keys db =
     filter (\<lambda>(d, k). list_ex (\<lambda>r. efp_variantId r = variantId) (pdb_effective db (ratePlanId, d, k)))
       (List.product dates keys)"

section \<open>The rules a price is computed from\<close>

record preview_rule =
  pvr_id :: string
  pvr_type :: string
  pvr_value :: rat
  pvr_priority :: rat
  pvr_dateRange :: "date_range option"
  pvr_dayOfWeek :: "rat list option"
  pvr_occupancyKey :: "string option"
  pvr_createdAt :: ms

definition oldest_rule :: "text_env \<Rightarrow> commercial_price_rule \<Rightarrow> commercial_price_rule \<Rightarrow> int" where
  "oldest_rule te a b =
     (if cpr_createdAt a \<noteq> cpr_createdAt b then cpr_createdAt a - cpr_createdAt b
      else te_localeCompare te (cpr_id a) (cpr_id b))"

text \<open>\<open>PricingRepository.getPreviewRules\<close>; the members it does not return are null to its callers.\<close>

definition getPreviewRules :: "text_env \<Rightarrow> string \<Rightarrow> rules_db \<Rightarrow> preview_rule list" where
  "getPreviewRules te ratePlanId db =
     map (\<lambda>r. \<lparr>pvr_id = cpr_id r, pvr_type = cpr_type r, pvr_value = cpr_value r, pvr_priority = cpr_priority r,
        pvr_dateRange = cpr_dateRange r, pvr_dayOfWeek = Some (cpr_dayOfWeek r), pvr_occupancyKey = None,
        pvr_createdAt = cpr_createdAt r\<rparr>)
       (filter cpr_isActive (js_sort (oldest_rule te) (listCommercialPriceRulesByRatePlan ratePlanId db)))"

definition range_of :: "date_range option \<Rightarrow> (date_text option \<times> date_text option) option" where
  "range_of = map_option (\<lambda>r. (dr_from r, dr_to r))"

definition canonical_rule :: "preview_rule \<Rightarrow> price_rule" where
  "canonical_rule r =
     \<lparr>pru_id = pvr_id r, pru_type = pvr_type r, pru_value = Some (pvr_value r),
      pru_occupancyKey = trimmed_or_null (pvr_occupancyKey r), pru_priority = Some (pvr_priority r),
      pru_createdAt = Some (CreatedDate (pvr_createdAt r)), pru_isActive = Some True,
      pru_dateRange = range_of (pvr_dateRange r), pru_dayOfWeek = pvr_dayOfWeek r, pru_eligibility = None\<rparr>"

section \<open>The price of a night\<close>

datatype pricing_error =
    PolicyBaseNotFound string day string
  | PreviewUnsupportedType string
  | PreviewRatePlanRequired

definition computeOccupancyAdjustment :: "rat \<Rightarrow> occupancy \<Rightarrow> active_policy \<Rightarrow> rat" where
  "computeOccupancyAdjustment base oc p =
     (let extraAdults = of_int (max 0 (oc_adults oc - max 1 (act_baseAdults p)));
          extraChildren = of_int (max 0 (oc_children oc - max 0 (act_baseChildren p)));
          adultAdj = (if act_extraAdultPercentage p then (base * \<bar>act_extraAdultValue p\<bar> * extraAdults) / 100
            else \<bar>act_extraAdultValue p\<bar> * extraAdults);
          childAdj = (if act_childPercentage p then (base * \<bar>act_childValue p\<bar> * extraChildren) / 100
            else \<bar>act_childValue p\<bar> * extraChildren)
      in toFixed2 (adultAdj + childAdj))"

definition evaluate_night :: "rat \<Rightarrow> day \<Rightarrow> string \<Rightarrow> price_rule list \<Rightarrow> evaluate_params" where
  "evaluate_night base date key rules =
     \<lparr>ep_basePrice = Some base, ep_date = Some date, ep_occupancyKey = Some key, ep_rules = rules,
      ep_includeBreakdown = False, ep_stayContext = None, ep_includeEligibilityTrace = False\<rparr>"

definition is_fixed_type :: "string \<Rightarrow> bool" where
  "is_fixed_type t \<longleftrightarrow> t = ''fixed_override'' \<or> t = ''fixed'' \<or> t = ''override''"

definition default_policy :: "occupancy \<Rightarrow> string \<Rightarrow> active_policy" where
  "default_policy oc currency = \<lparr>act_baseAdults = oc_adults oc, act_baseChildren = oc_children oc,
     act_extraAdultPercentage = False, act_extraAdultValue = 0, act_childPercentage = False, act_childValue = 0,
     act_currency = currency\<rparr>"

record night_price =
  npr_occupancyKey :: string
  npr_breakdown :: price_breakdown
  npr_currency :: string
  npr_sourceVersion :: string

type_synonym source_inputs =
  "string \<times> string \<times> day \<times> string \<times> active_policy \<times> rat \<times> rat \<times> preview_rule list"

record compute_input =
  cmi_variantId :: string
  cmi_ratePlanId :: string
  cmi_date :: day
  cmi_occupancy :: occupancy
  cmi_fallbackCurrency :: "string option"

definition source_order :: "text_env \<Rightarrow> preview_rule \<Rightarrow> preview_rule \<Rightarrow> int" where
  "source_order te a b =
     (if pvr_priority a \<noteq> pvr_priority b then (if pvr_priority a < pvr_priority b then -1 else 1)
      else te_localeCompare te (pvr_id a) (pvr_id b))"

text \<open>The base a night starts from: the policy's, or nothing when a fixed price applies.\<close>

definition night_base ::
  "text_env \<Rightarrow> (rat \<times> string) option \<Rightarrow> preview_rule list \<Rightarrow> compute_input \<Rightarrow> pricing_error + rat \<times> string" where
  "night_base te policyBase rules input =
     (let oc = normalized (cmi_occupancy input); key = buildOccupancyKey oc
      in case policyBase of
           Some b \<Rightarrow> Inr b
         | None \<Rightarrow>
             (let fromZero = evaluatePricingRules te (evaluate_night 0 (cmi_date input) key (map canonical_rule rules))
              in if list_ex (\<lambda>r. is_fixed_type (pvr_type r) \<and> pvr_id r \<in> set (ev_appliedRuleIds fromZero)) rules
                 then Inr (0, let f = js_upper (js_trim (text_or_empty (cmi_fallbackCurrency input)))
                              in if f \<noteq> [] then f else getFallbackCurrency (cmi_ratePlanId input))
                 else Inl (PolicyBaseNotFound (cmi_ratePlanId input) (cmi_date input) key)))"

definition computeEffectivePricing ::
  "text_env \<Rightarrow> (source_inputs \<Rightarrow> string) \<Rightarrow> active_policy option \<Rightarrow> (rat \<times> string) option \<Rightarrow> preview_rule list
     \<Rightarrow> compute_input \<Rightarrow> pricing_error + night_price" where
  "computeEffectivePricing te sha1 policy policyBase rules input =
     (case night_base te policyBase rules input of
        Inl e \<Rightarrow> Inl e
      | Inr (baseAmount, currency) \<Rightarrow>
          (let oc = normalized (cmi_occupancy input);
               key = buildOccupancyKey oc;
               activePolicy = (case policy of None \<Rightarrow> default_policy oc currency | Some p \<Rightarrow> p);
               base = max 0 baseAmount;
               occupancyAdjustment = computeOccupancyAdjustment base oc activePolicy;
               preRulePrice = max 0 (toFixed2 (base + occupancyAdjustment));
               evaluated = evaluatePricingRules te (evaluate_night preRulePrice (cmi_date input) key (map canonical_rule rules));
               final = max 0 (toFixed2 (ev_price evaluated))
           in Inr \<lparr>npr_occupancyKey = key,
                npr_breakdown = \<lparr>pb_base = toFixed2 base, pb_occupancyAdjustment = occupancyAdjustment,
                  pb_rules = toFixed2 (final - preRulePrice), pb_final = final\<rparr>,
                npr_currency = currency,
                npr_sourceVersion = sha1 (cmi_variantId input, cmi_ratePlanId input, cmi_date input, key, activePolicy,
                  base, occupancyAdjustment, js_sort (source_order te) rules)\<rparr>))"

section \<open>Recomputing a range\<close>

record recompute_request =
  rcq_variantId :: string
  rcq_ratePlanId :: string
  rcq_dates :: "day list"
  rcq_occupancies :: "occupancy list"
  rcq_fallbackCurrency :: "string option"
  rcq_maxConcurrency :: "rat option"

record pricing_env =
  pen_text :: text_env
  pen_sha1 :: "source_inputs \<Rightarrow> string"
  pen_now :: ms
  pen_rowId :: "price_index \<Rightarrow> string"

definition SHADOW_OCCUPANCIES :: "occupancy list" where
  "SHADOW_OCCUPANCIES = map (\<lambda>(a, c). \<lparr>oc_adults = a, oc_children = c, oc_infants = 0\<rparr>) [(1, 0), (2, 0), (2, 1), (3, 0)]"

definition item_input :: "recompute_request \<Rightarrow> day \<times> occupancy \<Rightarrow> compute_input" where
  "item_input q item = \<lparr>cmi_variantId = rcq_variantId q, cmi_ratePlanId = rcq_ratePlanId q, cmi_date = fst item,
     cmi_occupancy = snd item, cmi_fallbackCurrency = rcq_fallbackCurrency q\<rparr>"

definition item_index :: "recompute_request \<Rightarrow> day \<times> occupancy \<Rightarrow> price_index" where
  "item_index q item = (rcq_ratePlanId q, fst item, buildOccupancyKey (snd item))"

definition price_item ::
  "pricing_env \<Rightarrow> recompute_request \<Rightarrow> preview_rule list \<Rightarrow> pricing_db \<Rightarrow> day \<times> occupancy \<Rightarrow> pricing_error + effective_row" where
  "price_item env q rules db item =
     (case computeEffectivePricing (pen_text env) (pen_sha1 env)
         (getActiveOccupancyPolicy (pen_text env) (rcq_ratePlanId q) (fst item) db)
         (getBaseFromPolicy (pen_text env) (item_index q item) db) rules (item_input q item) of
        Inl e \<Rightarrow> Inl e
      | Inr r \<Rightarrow> Inr \<lparr>efp_id = pen_rowId env (rcq_ratePlanId q, fst item, npr_occupancyKey r), efp_variantId = rcq_variantId q,
          efp_ratePlanId = rcq_ratePlanId q, efp_date = fst item, efp_occupancyKey = npr_occupancyKey r,
          efp_baseComponent = pb_base (npr_breakdown r),
          efp_occupancyAdjustment = pb_occupancyAdjustment (npr_breakdown r),
          efp_ruleAdjustment = pb_rules (npr_breakdown r), efp_finalBasePrice = pb_final (npr_breakdown r),
          efp_currency = npr_currency r, efp_computedAt = pen_now env, efp_sourceVersion = npr_sourceVersion r\<rparr>)"

text \<open>The work of one item of the pool: compute, then save.\<close>

definition recompute_item ::
  "pricing_env \<Rightarrow> recompute_request \<Rightarrow> preview_rule list \<Rightarrow> day \<times> occupancy \<Rightarrow> pricing_db
     \<Rightarrow> pricing_error option \<times> pricing_db" where
  "recompute_item env q rules item db =
     (case price_item env q rules db item of
        Inl e \<Rightarrow> (Some e, db)
      | Inr r \<Rightarrow> (None, saveEffectivePricing r db))"

definition pool_concurrency :: "rat option \<Rightarrow> nat \<Rightarrow> nat" where
  "pool_concurrency maxConcurrency workLength =
     (let c = max 1 (min \<lfloor>js_trunc (case maxConcurrency of None \<Rightarrow> 4 | Some m \<Rightarrow> m)\<rfloor> 8)
      in min (nat c) (if workLength = 0 then 1 else workLength))"

definition recompute_work :: "recompute_request \<Rightarrow> (day \<times> occupancy) list" where
  "recompute_work q = List.product (rcq_dates q)
     (if rcq_occupancies q \<noteq> [] then rcq_occupancies q else SHADOW_OCCUPANCIES)"

definition recomputeEffectivePricingRange ::
  "pricing_env \<Rightarrow> nat list \<Rightarrow> recompute_request \<Rightarrow> pricing_db \<Rightarrow> (pricing_error + nat \<times> string list) \<times> pricing_db" where
  "recomputeEffectivePricingRange env schedule q db =
     (let rules = getPreviewRules (pen_text env) (rcq_ratePlanId q) (pdb_rules db);
          work = recompute_work q;
          p = run_pool (recompute_item env q rules) schedule
            (start_pool (pool_concurrency (rcq_maxConcurrency q) (length work)) work db)
      in (case wp_rejected p of
            Some e \<Rightarrow> Inl e
          | None \<Rightarrow> Inr (length work,
              js_sort (te_localeCompare (pen_text env)) (js_dedup (map (buildOccupancyKey \<circ> snd) work))),
          wp_store p))"

section \<open>The coverage of a stay\<close>

record capacity =
  cap_maxOccupancy :: "int option"
  cap_maxAdults :: "int option"
  cap_maxChildren :: "int option"

definition push_unique :: "int \<Rightarrow> occupancy list \<Rightarrow> occupancy \<Rightarrow> occupancy list" where
  "push_unique maxOccupancy out oc =
     (if oc_adults oc < 1 then out
      else if oc_children oc < 0 then out
      else if maxOccupancy < oc_adults oc + oc_children oc then out
      else if oc \<in> set out then out
      else out @ [oc])"

definition buildShadowOccupanciesFromCapacity :: "capacity option \<Rightarrow> occupancy option \<Rightarrow> int option \<Rightarrow> occupancy list" where
  "buildShadowOccupanciesFromCapacity cap requested maxCombinations =
     (let maxOccupancy = max 1 (case Option.bind cap cap_maxOccupancy of None \<Rightarrow> 4 | Some n \<Rightarrow> n);
          maxAdults = max 1 (case Option.bind cap cap_maxAdults of None \<Rightarrow> maxOccupancy | Some n \<Rightarrow> n);
          maxChildren = max 0 (case Option.bind cap cap_maxChildren of None \<Rightarrow> min 2 (maxOccupancy - 1) | Some n \<Rightarrow> n);
          grid = concat (map (\<lambda>a. map (\<lambda>c. \<lparr>oc_adults = a, oc_children = c, oc_infants = 0\<rparr>) [0..maxChildren]) [1..maxAdults]);
          out = foldl (push_unique maxOccupancy) [] (SHADOW_OCCUPANCIES @ (case requested of None \<Rightarrow> [] | Some r \<Rightarrow> [r]) @ grid)
      in case maxCombinations of None \<Rightarrow> out | Some n \<Rightarrow> if 0 < n then take (nat n) out else out)"

function chunkArray :: "nat \<Rightarrow> 'a list \<Rightarrow> 'a list list" where
  "chunkArray chunkSize items =
     (if items = [] then []
      else let size = max 1 chunkSize in take size items # chunkArray chunkSize (drop size items))"
  by pat_completeness auto
termination
  by (relation "measure (\<lambda>(_, items). length items)") auto

declare chunkArray.simps [simp del]

record coverage_input =
  cov_variantId :: string
  cov_ratePlanId :: string
  cov_from :: day
  cov_to :: day
  cov_recomputeExisting :: bool
  cov_maxCombinations :: "int option"
  cov_chunkSize :: "nat option"
  cov_occupancy :: "occupancy option"
  cov_fallbackCurrency :: "string option"

definition buildDateRange :: "day \<Rightarrow> day \<Rightarrow> day list" where
  "buildDateRange start stop =
     (if stop \<le> start then [] else enumerateDates (parseDateOnly start) (parseDateOnly stop))"

definition coverage_occupancies :: "capacity option \<Rightarrow> coverage_input \<Rightarrow> (string \<times> occupancy) list" where
  "coverage_occupancies cap inp =
     (let shadow = (case cov_occupancy inp of
          Some oc \<Rightarrow> [oc]
        | None \<Rightarrow> buildShadowOccupanciesFromCapacity cap None (cov_maxCombinations inp))
      in foldl (\<lambda>m oc. map_set (buildOccupancyKey oc) oc m) [] shadow)"

definition missing_combinations :: "coverage_input \<Rightarrow> string list \<Rightarrow> pricing_db \<Rightarrow> (day \<times> string) list" where
  "missing_combinations inp keys db =
     (let dates = buildDateRange (cov_from inp) (cov_to inp);
          expected = List.product dates keys;
          existing = listEffectivePricingCombinations (cov_variantId inp) (cov_ratePlanId inp) dates keys db
      in if cov_recomputeExisting inp then expected else filter (\<lambda>c. c \<notin> set existing) expected)"

text \<open>The recomputations of one occupancy, chunk by chunk; the first that fails ends the coverage.\<close>

fun recompute_chunks ::
  "pricing_env \<Rightarrow> (string \<Rightarrow> day list \<Rightarrow> nat list) \<Rightarrow> coverage_input \<Rightarrow> (string \<times> occupancy \<times> day list) list
     \<Rightarrow> pricing_db \<Rightarrow> (pricing_error + unit) \<times> pricing_db" where
  "recompute_chunks env schedule inp [] db = (Inr (), db)"
| "recompute_chunks env schedule inp ((key, oc, dates) # rest) db =
     and_then (recomputeEffectivePricingRange env (schedule key dates)
         \<lparr>rcq_variantId = cov_variantId inp, rcq_ratePlanId = cov_ratePlanId inp, rcq_dates = dates,
          rcq_occupancies = [oc], rcq_fallbackCurrency = cov_fallbackCurrency inp, rcq_maxConcurrency = None\<rparr> db)
       (\<lambda>_ db1. recompute_chunks env schedule inp rest db1)"

definition coverage_chunks :: "text_env \<Rightarrow> coverage_input \<Rightarrow> (string \<times> occupancy) list \<Rightarrow> (day \<times> string) list
     \<Rightarrow> (string \<times> occupancy \<times> day list) list" where
  "coverage_chunks te inp occupancies missing =
     concat (map (\<lambda>key. case map_of occupancies key of
          None \<Rightarrow> []
        | Some oc \<Rightarrow> map (\<lambda>dates. (key, oc, dates))
            (chunkArray (case cov_chunkSize inp of None \<Rightarrow> 31 | Some n \<Rightarrow> n)
              (js_sort (by_key id) (js_dedup (map fst (filter (\<lambda>c. snd c = key) missing))))))
       (js_dedup (map snd missing)))"

definition ensurePricingCoverage ::
  "pricing_env \<Rightarrow> (string \<Rightarrow> day list \<Rightarrow> nat list) \<Rightarrow> (string \<Rightarrow> capacity option) \<Rightarrow> coverage_input \<Rightarrow> pricing_db
     \<Rightarrow> (pricing_error + int \<times> int) \<times> pricing_db" where
  "ensurePricingCoverage env schedule getCapacity inp db =
     (if buildDateRange (cov_from inp) (cov_to inp) = [] then (Inr (0, 0), db)
      else let occupancies = coverage_occupancies (getCapacity (cov_variantId inp)) inp;
               missing = missing_combinations inp (map fst occupancies) db;
               missingDates = int (length (js_dedup (map fst missing)))
           in if \<not> cov_recomputeExisting inp \<and> missing = [] then (Inr (missingDates, 0), db)
              else and_then (recompute_chunks env schedule inp (coverage_chunks (pen_text env) inp occupancies missing) db)
                (\<lambda>_ db1. (Inr (0, missingDates), db1)))"

end
