(* ===== verification/Price_Rule_Commands.thy ===== *)
theory Price_Rule_Commands
  imports Effective_Pricing
begin

text \<open>
  The commands on price rules (modules/pricing/application/use-cases): creating, changing and deleting
  a rule of a rate plan, the price preview of a rate plan, the preview of a candidate rule, and the
  creation of a rule with the rematerialization of its nights. A validation error is the branch that
  raised it; the owner of a rate plan, which other tables decide, is a parameter.
\<close>

section \<open>The baseline of a rate plan\<close>

definition getCanonicalPricingBaselineByRatePlanId :: "text_env \<Rightarrow> ms \<Rightarrow> string \<Rightarrow> pricing_db \<Rightarrow> (rat \<times> string) option" where
  "getCanonicalPricingBaselineByRatePlanId te now ratePlanId db =
     (let plan = js_trim ratePlanId
      in if plan = [] then None
         else map_option (\<lambda>p. (pol_baseAmount p, pol_currency p)) (first_of (js_sort (newest_policy te)
           (filter (\<lambda>p. pol_ratePlanId p = plan \<and> pol_effectiveFrom p \<le> now \<and>
              (case pol_effectiveTo p of None \<Rightarrow> False | Some t \<Rightarrow> now < t)) (pdb_policies db)))))"

definition baseline_policy :: "string \<Rightarrow> string \<Rightarrow> string \<Rightarrow> rat \<Rightarrow> ms \<Rightarrow> policy" where
  "baseline_policy i plan currency basePrice now =
     \<lparr>pol_id = i, pol_ratePlanId = plan, pol_baseAmount = basePrice, pol_currency = currency, pol_baseAdults = 2,
      pol_baseChildren = 0, pol_extraAdultMode = ''fixed'', pol_extraAdultValue = 0, pol_childMode = ''fixed'',
      pol_childValue = 0, pol_effectiveFrom = now, pol_effectiveTo = Some 4102444799999\<rparr>"

definition setCanonicalPricingBaselineForRatePlan ::
  "text_env \<Rightarrow> ms \<Rightarrow> string \<Rightarrow> string \<Rightarrow> string \<Rightarrow> rat \<Rightarrow> pricing_db \<Rightarrow> pricing_db" where
  "setCanonicalPricingBaselineForRatePlan te now newId ratePlanId currency basePrice db =
     (let plan = js_trim ratePlanId;
          normalizedCurrency = js_upper (js_trim (if currency = [] then ''USD'' else currency))
      in if plan = [] then db
         else case first_of (js_sort (newest_policy te)
                (filter (\<lambda>p. pol_ratePlanId p = plan \<and> pol_baseAdults p = 2 \<and> pol_baseChildren p = 0) (pdb_policies db))) of
           Some existing \<Rightarrow> db\<lparr>pdb_policies := update_rows (\<lambda>p. pol_id p = pol_id existing)
             (\<lambda>p. p\<lparr>pol_baseAmount := basePrice, pol_currency := normalizedCurrency\<rparr>) (pdb_policies db)\<rparr>
         | None \<Rightarrow> db\<lparr>pdb_policies := pdb_policies db @ [baseline_policy newId plan normalizedCurrency basePrice now]\<rparr>)"

section \<open>Creating a rule\<close>

datatype command_fault =
    SchemaViolation
  | RatePlanIdRequired
  | PercentageOutOfRange
  | OverrideNegative
  | AdjustmentTooLow
  | DateFromInvalid
  | DateToInvalid
  | DateRangeReversed
  | RatePlanProviderNotFound
  | RuleStoreFault rule_error
  | PricingFault pricing_error
  | InvalidValue
  | InvalidDate string
  | PricingMissing

record default_rule_input =
  dri_ratePlanId :: "string option"
  dri_type :: string
  dri_value :: rat
  dri_priority :: "rat option"
  dri_dateRange :: "(date_text option \<times> date_text option) option"
  dri_dayOfWeek :: "rat list option"
  dri_contextKey :: "string option"

definition rule_types :: "string list" where
  "rule_types = [''base_adjustment'', ''percentage_discount'', ''percentage_markup'', ''fixed_override'',
     ''fixed_adjustment'', ''percentage'', ''fixed'', ''override'', ''modifier'']"

definition createRuleSchema :: "default_rule_input \<Rightarrow> bool" where
  "createRuleSchema p \<longleftrightarrow>
     (case dri_ratePlanId p of None \<Rightarrow> True | Some i \<Rightarrow> js_trim i \<noteq> []) \<and>
     dri_type p \<in> set rule_types \<and>
     (case dri_priority p of None \<Rightarrow> True | Some n \<Rightarrow> js_isInteger n \<and> 0 \<le> n \<and> n \<le> 1000) \<and>
     (case dri_dayOfWeek p of None \<Rightarrow> True | Some ds \<Rightarrow> list_all (\<lambda>d. js_isInteger d \<and> 0 \<le> d \<and> d \<le> 6) ds) \<and>
     (case dri_contextKey p of None \<Rightarrow> True | Some c \<Rightarrow> c \<in> {''season'', ''promotion'', ''day'', ''manual''})"

text \<open>The checks of a rule's value against its canonical type and of its dates.\<close>

definition value_fault :: "string \<Rightarrow> rat \<Rightarrow> rat \<Rightarrow> command_fault option" where
  "value_fault canonicalType value basePrice =
     (if (canonicalType = ''percentage_discount'' \<or> canonicalType = ''percentage_markup'') \<and> (value < 0 \<or> 1000 < value)
        then Some PercentageOutOfRange
      else if canonicalType = ''fixed_override'' \<and> value < 0 then Some OverrideNegative
      else if (canonicalType = ''fixed_adjustment'' \<or> canonicalType = ''base_adjustment'') \<and> value < - basePrice
        then Some AdjustmentTooLow
      else None)"

definition date_fault :: "(date_text option \<times> date_text option) option \<Rightarrow> command_fault option" where
  "date_fault r =
     (case r of None \<Rightarrow> None
      | Some (start, stop) \<Rightarrow>
          if start = Some None then Some DateFromInvalid
          else if stop = Some None then Some DateToInvalid
          else case (start, stop) of
            (Some (Some f), Some (Some t)) \<Rightarrow> if t < f then Some DateRangeReversed else None
          | _ \<Rightarrow> None)"

definition plain_date_range :: "(date_text option \<times> date_text option) option \<Rightarrow> date_range option" where
  "plain_date_range = map_option (\<lambda>(f, t). \<lparr>dr_from = f, dr_to = t, dr_eligibility = None\<rparr>)"

definition context_name :: "string option \<Rightarrow> string option" where
  "context_name = map_option (\<lambda>c. ''ctx:'' @ c)"

text \<open>\<open>PriceRuleCommandRepository.create\<close>: the row is created under an id of its own.\<close>

definition repository_create ::
  "(string \<Rightarrow> string option) \<Rightarrow> (payload \<Rightarrow> string) \<Rightarrow> rule_env \<Rightarrow> fresh_ids \<Rightarrow> string \<Rightarrow> default_rule_input \<Rightarrow> rules_db
     \<Rightarrow> (command_fault + unit) \<times> rules_db" where
  "repository_create owner sha256 env ids plan p db =
     (case owner plan of
        None \<Rightarrow> (Inl RatePlanProviderNotFound, db)
      | Some providerId \<Rightarrow>
          (case createCommercialPriceRule sha256 id env ids
              \<lparr>pcm_providerId = providerId, pcm_ratePlanId = plan, pcm_name = context_name (dri_contextKey p),
               pcm_type = canonical_type (dri_type p), pcm_value = dri_value p,
               pcm_priority = Some (case dri_priority p of None \<Rightarrow> 10 | Some n \<Rightarrow> n),
               pcm_dateRange = plain_date_range (dri_dateRange p), pcm_dayOfWeek = dri_dayOfWeek p,
               pcm_occupancyKey = None, pcm_isActive = None, pcm_sourceRuleId = None, pcm_idempotencyKey = None,
               pcm_ruleId = None\<rparr> db of
             (Inl e, db') \<Rightarrow> (Inl (RuleStoreFault e), db')
           | (Inr _, db') \<Rightarrow> (Inr (), db')))"

definition input_fault :: "text_env \<Rightarrow> ms \<Rightarrow> default_rule_input \<Rightarrow> pricing_db \<Rightarrow> command_fault option" where
  "input_fault te now p db =
     (let plan = js_trim (text_or_empty (dri_ratePlanId p));
          basePrice = (case getCanonicalPricingBaselineByRatePlanId te now plan db of None \<Rightarrow> 0 | Some (b, _) \<Rightarrow> b)
      in if \<not> createRuleSchema p then Some SchemaViolation
         else if plan = [] then Some RatePlanIdRequired
         else case value_fault (canonical_type (dri_type p)) (dri_value p) basePrice of
                Some f \<Rightarrow> Some f
              | None \<Rightarrow> date_fault (dri_dateRange p))"

definition createDefaultPriceRule ::
  "text_env \<Rightarrow> (string \<Rightarrow> string option) \<Rightarrow> (payload \<Rightarrow> string) \<Rightarrow> rule_env \<Rightarrow> fresh_ids \<Rightarrow> string \<Rightarrow> default_rule_input
     \<Rightarrow> pricing_db \<Rightarrow> (command_fault + string \<times> string) \<times> pricing_db" where
  "createDefaultPriceRule te owner sha256 env ids uuid p db =
     (case input_fault te (rle_now env) p db of
        Some f \<Rightarrow> (Inl f, db)
      | None \<Rightarrow>
          (let plan = js_trim (text_or_empty (dri_ratePlanId p))
           in case repository_create owner sha256 env ids plan p (pdb_rules db) of
                (Inl f, rdb) \<Rightarrow> (Inl f, db\<lparr>pdb_rules := rdb\<rparr>)
              | (Inr _, rdb) \<Rightarrow> (Inr (uuid, plan), db\<lparr>pdb_rules := rdb\<rparr>)))"

section \<open>Changing and deleting a rule\<close>

definition updateDefaultPriceRule ::
  "text_env \<Rightarrow> ms \<Rightarrow> string \<Rightarrow> default_rule_input \<Rightarrow> pricing_db \<Rightarrow> (command_fault + bool) \<times> pricing_db" where
  "updateDefaultPriceRule te now ruleId p db =
     (if js_trim ruleId = [] then (Inl SchemaViolation, db)
      else case input_fault te now p db of
        Some f \<Rightarrow> (Inl f, db)
      | None \<Rightarrow>
          if getCommercialPriceRule (js_trim ruleId) None (pdb_rules db) = None then (Inr False, db)
          else (Inr True, db\<lparr>pdb_rules := updateCommercialPriceRule (js_trim ruleId)
            \<lparr>ppt_type = canonical_type (dri_type p), ppt_value = dri_value p,
             ppt_priority = Some (case dri_priority p of None \<Rightarrow> 10 | Some n \<Rightarrow> n),
             ppt_dateRange = plain_date_range (dri_dateRange p), ppt_dayOfWeek = dri_dayOfWeek p,
             ppt_occupancyKey = None, ppt_name = context_name (dri_contextKey p), ppt_isActive = None,
             ppt_sourceRuleId = None\<rparr> (pdb_rules db)\<rparr>))"

definition deletePriceRule :: "string \<Rightarrow> pricing_db \<Rightarrow> (command_fault + bool) \<times> pricing_db" where
  "deletePriceRule ruleId db =
     (if js_trim ruleId = [] then (Inl SchemaViolation, db)
      else if getCommercialPriceRule (js_trim ruleId) None (pdb_rules db) = None then (Inr False, db)
      else (Inr True, db\<lparr>pdb_rules := deleteCommercialRule (js_trim ruleId) (pdb_rules db)\<rparr>))"

section \<open>The preview of a price\<close>

definition allowedRuleTypes :: "string list" where
  "allowedRuleTypes = [''percentage'', ''fixed'', ''override'', ''percentage_markup'', ''percentage_discount'', ''fixed_adjustment'']"

definition preview_price_rule :: "preview_rule \<Rightarrow> price_rule" where
  "preview_price_rule r =
     (let rawType = js_trim (pvr_type r); rawValue = pvr_value r
      in \<lparr>pru_id = pvr_id r,
          pru_type = (if rawType = ''percentage'' then (if rawValue < 0 then ''percentage_discount'' else ''percentage_markup'')
            else if rawType = ''fixed'' then ''override'' else rawType),
          pru_value = Some (if rawType = ''percentage'' then \<bar>rawValue\<bar> else rawValue),
          pru_occupancyKey = None, pru_priority = Some 10, pru_createdAt = Some (CreatedDate (pvr_createdAt r)),
          pru_isActive = Some True, pru_dateRange = None, pru_dayOfWeek = None, pru_eligibility = None\<rparr>)"

definition preview_params :: "rat \<Rightarrow> day \<Rightarrow> price_rule list \<Rightarrow> evaluate_params" where
  "preview_params basePrice date rules = \<lparr>ep_basePrice = Some basePrice, ep_date = Some date, ep_occupancyKey = None, ep_rules = rules,
     ep_includeBreakdown = False, ep_stayContext = None, ep_includeEligibilityTrace = False\<rparr>"

definition computePricePreview ::
  "text_env \<Rightarrow> ms \<Rightarrow> string option \<Rightarrow> pricing_db \<Rightarrow> pricing_error + rat \<times> rat \<times> string" where
  "computePricePreview te now ratePlanId db =
     (let plan = js_trim (text_or_empty ratePlanId)
      in if plan = [] then Inl PreviewRatePlanRequired
         else let baseline = getCanonicalPricingBaselineByRatePlanId te now plan db;
                  basePrice = (case baseline of None \<Rightarrow> 0 | Some (b, _) \<Rightarrow> b);
                  currency = (case baseline of Some (_, c) \<Rightarrow> if c = ''BOB'' then ''BOB'' else ''USD'' | None \<Rightarrow> ''USD'');
                  rules = getPreviewRules te plan (pdb_rules db)
              in case find (\<lambda>r. js_trim (pvr_type r) \<notin> set allowedRuleTypes) rules of
                   Some r \<Rightarrow> Inl (PreviewUnsupportedType (js_trim (pvr_type r)))
                 | None \<Rightarrow> Inr (basePrice,
                     ev_price (evaluatePricingRules te (preview_params basePrice (toISODate now) (map preview_price_rule rules))),
                     currency))"

section \<open>The preview of a candidate rule\<close>

record stored_rule =
  str_id :: string
  str_type :: string
  str_value :: rat
  str_priority :: rat
  str_dateFrom :: "date_text option"
  str_dateTo :: "date_text option"
  str_eligibility :: "eligibility option"
  str_dayOfWeek :: "rat list"
  str_occupancyKey :: "string option"
  str_isActive :: bool
  str_createdAt :: ms

definition truncate_num :: "js_num \<Rightarrow> js_num" where
  "truncate_num = map_option js_trunc"

definition truthy_num :: "js_num \<Rightarrow> bool" where
  "truthy_num v \<longleftrightarrow> v \<noteq> None \<and> v \<noteq> Some 0"

definition readPricingRuleEligibility :: "date_range option \<Rightarrow> eligibility option" where
  "readPricingRuleEligibility r =
     (case Option.bind r dr_eligibility of None \<Rightarrow> None
      | Some e \<Rightarrow>
          (let n = \<lparr>el_minLeadDays = truncate_num (el_minLeadDays e), el_maxLeadDays = truncate_num (el_maxLeadDays e),
                    el_minNights = truncate_num (el_minNights e)\<rparr>
           in if truthy_num (el_minLeadDays n) \<or> truthy_num (el_maxLeadDays n) \<or> truthy_num (el_minNights n)
              then Some n else None))"

definition stored_order :: "text_env \<Rightarrow> stored_rule \<Rightarrow> stored_rule \<Rightarrow> int" where
  "stored_order te a b =
     (if str_priority a \<noteq> str_priority b then (if str_priority a < str_priority b then -1 else 1)
      else if str_createdAt a \<noteq> str_createdAt b then str_createdAt a - str_createdAt b
      else te_localeCompare te (str_id a) (str_id b))"

definition stored_rule_of :: "commercial_price_rule \<Rightarrow> stored_rule" where
  "stored_rule_of r =
     \<lparr>str_id = cpr_id r, str_type = cpr_type r, str_value = cpr_value r, str_priority = cpr_priority r,
      str_dateFrom = Option.bind (cpr_dateRange r) dr_from, str_dateTo = Option.bind (cpr_dateRange r) dr_to,
      str_eligibility = readPricingRuleEligibility (cpr_dateRange r),
      str_dayOfWeek = filter (\<lambda>d. js_isInteger d \<and> 0 \<le> d \<and> d \<le> 6) (cpr_dayOfWeek r),
      str_occupancyKey = trimmed_or_null (cpr_occupancyKey r), str_isActive = cpr_isActive r,
      str_createdAt = cpr_createdAt r\<rparr>"

definition listRulesByRatePlan :: "text_env \<Rightarrow> string \<Rightarrow> rules_db \<Rightarrow> stored_rule list" where
  "listRulesByRatePlan te plan db =
     js_sort (stored_order te) (map stored_rule_of (listCommercialPriceRulesByRatePlan plan db))"

record rule_command =
  rcm_type :: string
  rcm_value :: js_num
  rcm_priority :: rat
  rcm_dateFrom :: "date_text option"
  rcm_dateTo :: "date_text option"
  rcm_dayOfWeek :: "rat list option"
  rcm_contextKey :: "string option"
  rcm_occupancyKey :: "string option"
  rcm_currency :: "string option"
  rcm_previewFrom :: "date_text option"
  rcm_previewDays :: "rat option"
  rcm_requestDate :: "date_text option"
  rcm_checkIn :: "date_text option"
  rcm_checkOut :: "date_text option"
  rcm_nights :: js_num
  rcm_idempotencyKey :: "string option"
  rcm_eligibility :: "eligibility option"

definition dateRange :: "rule_command \<Rightarrow> command_fault + date_range option" where
  "dateRange c =
     (if rcm_dateFrom c = Some None then Inl (InvalidDate ''invalid_date_from'')
      else if rcm_dateTo c = Some None then Inl (InvalidDate ''invalid_date_to'')
      else case (rcm_dateFrom c, rcm_dateTo c) of
        (Some (Some f), Some (Some t)) \<Rightarrow>
          if t < f then Inl (InvalidDate ''invalid_date_range'')
          else Inr (Some \<lparr>dr_from = rcm_dateFrom c, dr_to = rcm_dateTo c, dr_eligibility = rcm_eligibility c\<rparr>)
      | _ \<Rightarrow>
          Inr (if rcm_dateFrom c = None \<and> rcm_dateTo c = None \<and> rcm_eligibility c = None then None
            else Some \<lparr>dr_from = rcm_dateFrom c, dr_to = rcm_dateTo c, dr_eligibility = rcm_eligibility c\<rparr>))"

definition candidate_of :: "rule_command \<Rightarrow> date_range option \<Rightarrow> ms \<Rightarrow> price_rule" where
  "candidate_of c rg now =
     \<lparr>pru_id = ''__candidate__'', pru_type = rcm_type c, pru_value = rcm_value c, pru_occupancyKey = rcm_occupancyKey c,
      pru_priority = Some (rcm_priority c), pru_createdAt = Some (CreatedDate now), pru_isActive = Some True,
      pru_dateRange = range_of rg, pru_dayOfWeek = rcm_dayOfWeek c, pru_eligibility = rcm_eligibility c\<rparr>"

definition existing_rule :: "stored_rule \<Rightarrow> price_rule" where
  "existing_rule r =
     \<lparr>pru_id = str_id r, pru_type = str_type r, pru_value = Some (str_value r), pru_occupancyKey = str_occupancyKey r,
      pru_priority = Some (str_priority r), pru_createdAt = Some (CreatedDate (str_createdAt r)), pru_isActive = Some True,
      pru_dateRange = (if str_dateFrom r = None \<and> str_dateTo r = None then None else Some (str_dateFrom r, str_dateTo r)),
      pru_dayOfWeek = Some (str_dayOfWeek r), pru_eligibility = str_eligibility r\<rparr>"

record preview_day =
  pvd_date :: day
  pvd_before :: rat
  pvd_after :: rat
  pvd_delta :: rat
  pvd_appliedRuleIds :: "string list"

definition stay_params :: "rat \<Rightarrow> day \<Rightarrow> string option \<Rightarrow> price_rule list \<Rightarrow> stay_context \<Rightarrow> evaluate_params" where
  "stay_params basePrice date key rules stay = \<lparr>ep_basePrice = Some basePrice, ep_date = Some date, ep_occupancyKey = key, ep_rules = rules,
     ep_includeBreakdown = False, ep_stayContext = Some stay, ep_includeEligibilityTrace = True\<rparr>"

definition preview_one_day :: "text_env \<Rightarrow> rat \<Rightarrow> string option \<Rightarrow> price_rule list \<Rightarrow> price_rule \<Rightarrow> stay_context \<Rightarrow> day \<Rightarrow> preview_day" where
  "preview_one_day te basePrice key rules candidate stay date =
     (let before = evaluatePricingRules te (stay_params basePrice date key rules stay);
          after = evaluatePricingRules te (stay_params basePrice date key (rules @ [candidate]) stay)
      in \<lparr>pvd_date = date, pvd_before = ev_price before, pvd_after = ev_price after,
          pvd_delta = toFixed2 (ev_price after - ev_price before), pvd_appliedRuleIds = ev_appliedRuleIds after\<rparr>)"

definition preview_length :: "rat option \<Rightarrow> nat" where
  "preview_length days = nat (min (max \<lfloor>js_trunc (case days of None \<Rightarrow> 30 | Some d \<Rightarrow> d)\<rfloor> 1) 120)"

definition previewCandidate ::
  "text_env \<Rightarrow> ms \<Rightarrow> (rat \<times> string) option \<Rightarrow> string \<Rightarrow> rule_command \<Rightarrow> pricing_db \<Rightarrow> command_fault + preview_day list" where
  "previewCandidate te now summary plan c db =
     (if rcm_value c = None then Inl InvalidValue
      else case dateRange c of
        Inl f \<Rightarrow> Inl f
      | Inr rg \<Rightarrow>
          (case (case summary of Some (b, _) \<Rightarrow> Some b | None \<Rightarrow> if rcm_type c = ''fixed_override'' then Some 0 else None) of
             None \<Rightarrow> Inl PricingMissing
           | Some basePrice \<Rightarrow>
               (case (case rcm_previewFrom c of None \<Rightarrow> Some (toISODate now) | Some t \<Rightarrow> t) of
                  None \<Rightarrow> Inl (InvalidDate ''invalid_preview_from'')
                | Some previewFrom \<Rightarrow>
                    (let today = Some (toISODate now);
                         requestDate = (case rcm_requestDate c of None \<Rightarrow> today | Some t \<Rightarrow> t);
                         checkIn = (case rcm_checkIn c of None \<Rightarrow> Some previewFrom | Some t \<Rightarrow> t);
                         stayNights = max 1 (case rcm_nights c of None \<Rightarrow> 1 | Some n \<Rightarrow> n)
                     in if rcm_checkOut c = None \<and> checkIn = None then Inl (InvalidDate ''Invalid time value'')
                        else let checkOut = (case rcm_checkOut c of Some t \<Rightarrow> t
                                   | None \<Rightarrow> map_option (\<lambda>d. d + \<lfloor>js_trunc stayNights\<rfloor>) checkIn);
                                 stay = \<lparr>sc_requestDate = map_option parseDateOnly requestDate,
                                   sc_checkIn = map_option parseDateOnly checkIn,
                                   sc_checkOut = map_option parseDateOnly checkOut, sc_nights = rcm_nights c\<rparr>;
                                 rules = map existing_rule (listRulesByRatePlan te plan (pdb_rules db))
                             in Inr (map (\<lambda>n. preview_one_day te basePrice (rcm_occupancyKey c) rules (candidate_of c rg now)
                                    stay (previewFrom + int n)) [0..<preview_length (rcm_previewDays c)])))))"

section \<open>Creating a rule and rematerializing its nights\<close>

record rule_context =
  rctx_providerId :: string
  rctx_variantId :: string
  rctx_ratePlanId :: string

definition impact_range :: "rule_command \<Rightarrow> day \<Rightarrow> day \<times> day" where
  "impact_range c today =
     (let start = (case rcm_dateFrom c of Some (Some f) \<Rightarrow> f | _ \<Rightarrow> today)
      in (start, case rcm_dateTo c of Some (Some t) \<Rightarrow> t + 1 | _ \<Rightarrow> start + 60))"

definition rematerialize_input :: "rule_context \<Rightarrow> rule_command \<Rightarrow> day \<Rightarrow> coverage_input" where
  "rematerialize_input ctx c today =
     \<lparr>cov_variantId = rctx_variantId ctx, cov_ratePlanId = rctx_ratePlanId ctx, cov_from = fst (impact_range c today),
      cov_to = snd (impact_range c today), cov_recomputeExisting = True, cov_maxCombinations = None, cov_chunkSize = None,
      cov_occupancy = Some (occupancyFromKey (rcm_occupancyKey c)), cov_fallbackCurrency = rcm_currency c\<rparr>"

text \<open>\<open>createRule\<close> in its immediate mode; the services it notifies when nights were generated come after the tables are written.\<close>

definition createRule ::
  "pricing_env \<Rightarrow> (string \<Rightarrow> day list \<Rightarrow> nat list) \<Rightarrow> (string \<Rightarrow> capacity option) \<Rightarrow> (payload \<Rightarrow> string) \<Rightarrow> rule_env \<Rightarrow> fresh_ids
     \<Rightarrow> rule_context \<Rightarrow> rule_command \<Rightarrow> pricing_db \<Rightarrow> (command_fault + string \<times> int \<times> int) \<times> pricing_db" where
  "createRule penv schedule getCapacity sha256 env ids ctx c db =
     (case rcm_value c of
        None \<Rightarrow> (Inl InvalidValue, db)
      | Some value \<Rightarrow>
          (case dateRange c of
             Inl f \<Rightarrow> (Inl f, db)
           | Inr rg \<Rightarrow>
               (case createCommercialPriceRule sha256 id env ids
                   \<lparr>pcm_providerId = rctx_providerId ctx, pcm_ratePlanId = rctx_ratePlanId ctx,
                    pcm_name = context_name (rcm_contextKey c), pcm_type = rcm_type c, pcm_value = value,
                    pcm_priority = Some (rcm_priority c), pcm_dateRange = rg, pcm_dayOfWeek = rcm_dayOfWeek c,
                    pcm_occupancyKey = rcm_occupancyKey c, pcm_isActive = None, pcm_sourceRuleId = None,
                    pcm_idempotencyKey = rcm_idempotencyKey c, pcm_ruleId = None\<rparr> (pdb_rules db) of
                  (Inl e, rdb) \<Rightarrow> (Inl (RuleStoreFault e), db\<lparr>pdb_rules := rdb\<rparr>)
                | (Inr created, rdb) \<Rightarrow>
                    (case ensurePricingCoverage penv schedule getCapacity
                        (rematerialize_input ctx c (toISODate (rle_now env))) (db\<lparr>pdb_rules := rdb\<rparr>) of
                       (Inl e, db') \<Rightarrow> (Inl (PricingFault e), db')
                     | (Inr (missing, generated), db') \<Rightarrow> (Inr (crr_ruleId created, missing, generated), db')))))"

end
