(* ===== verification/Pricing_Rules_Correctness.thy ===== *)
theory Pricing_Rules_Correctness
  imports Pricing_Rules "HOL-Library.List_Lexorder" "HOL-Library.Char_ord"
begin

text \<open>
  What the evaluation of price rules guarantees: the breakdown explains the price, the order in
  which the rules are stored does not matter, the conditions of a rule mean what they say, and
  where the evaluation and the minimal rule engine agree and where they do not.
\<close>

section \<open>Money\<close>

definition in_cents :: "rat \<Rightarrow> bool" where
  "in_cents x \<longleftrightarrow> js_isInteger (x * 100)"

lemma js_round_isInteger: "js_isInteger x \<Longrightarrow> js_round x = x"
  unfolding js_isInteger_def js_round_def by (metis floor_of_int_half)

lemma in_cents_roundMoney [simp]: "in_cents (roundMoney x)"
  by (simp add: in_cents_def roundMoney_def js_round_def js_isInteger_def)

lemma roundMoney_in_cents: "in_cents x \<Longrightarrow> roundMoney x = x"
  by (simp add: in_cents_def roundMoney_def js_round_isInteger)

lemma roundMoney_idem [simp]: "roundMoney (roundMoney x) = roundMoney x"
  by (rule roundMoney_in_cents) simp

lemma in_cents_diff: "in_cents x \<Longrightarrow> in_cents y \<Longrightarrow> in_cents (x - y)"
  unfolding in_cents_def js_isInteger_def left_diff_distrib by (metis floor_of_int of_int_diff)

lemma roundMoney_diff [simp]: "roundMoney (roundMoney x - roundMoney y) = roundMoney x - roundMoney y"
  by (rule roundMoney_in_cents) (simp add: in_cents_diff)

lemma roundMoney_mono: "x \<le> y \<Longrightarrow> roundMoney x \<le> roundMoney y"
  by (simp add: roundMoney_def js_round_def divide_right_mono floor_mono)

lemma roundMoney_zero [simp]: "roundMoney 0 = 0"
  by (rule roundMoney_in_cents) (simp add: in_cents_def js_isInteger_def)

lemma roundMoney_nonneg: "0 \<le> x \<Longrightarrow> 0 \<le> roundMoney x"
  using roundMoney_mono [of 0 x] by simp

section \<open>The price the loop computes\<close>

definition rule_effect :: "evaluate_params \<Rightarrow> rat \<Rightarrow> price_rule \<Rightarrow> rat" where
  "rule_effect p c rule = (if rule_eligible p rule then max 0 (applyRule c rule) else c)"

lemma evaluate_rule_current [simp]:
  "evn_current (evaluate_rule p rule s) = rule_effect p (evn_current s) rule"
  by (auto simp: evaluate_rule_def rule_effect_def rule_eligible_def Let_def)

lemma evaluate_rules_current:
  "evn_current (foldl (\<lambda>s rule. evaluate_rule p rule s) s rules) = foldl (rule_effect p) (evn_current s) rules"
  by (induction rules arbitrary: s) simp_all

lemma evaluated_price:
  "ev_price (evaluatePricingRules te p) =
   roundMoney (max 0 (foldl (rule_effect p) (evn_current (start_evaluation p)) (applicable_rules te p)))"
  by (simp add: evaluatePricingRules_def Let_def evaluate_rules_current)

lemma rule_effect_nonneg: "0 \<le> c \<Longrightarrow> 0 \<le> rule_effect p c rule"
  by (simp add: rule_effect_def)

lemma rules_effect_nonneg: "0 \<le> c \<Longrightarrow> 0 \<le> foldl (rule_effect p) c rules"
  by (induction rules arbitrary: c) (simp_all add: rule_effect_nonneg)

section \<open>The breakdown\<close>

text \<open>A breakdown leads from one price to another: each entry starts where the one before ends.\<close>

fun explains :: "rat \<Rightarrow> breakdown_entry list \<Rightarrow> rat \<Rightarrow> bool" where
  "explains x [] y \<longleftrightarrow> x = y"
| "explains x (e # es) y \<longleftrightarrow>
     be_before e = x \<and> be_delta e = be_after e - be_before e \<and> 0 \<le> be_after e \<and> explains (be_after e) es y"

lemma explains_append: "explains x (es @ fs) z \<longleftrightarrow> (\<exists>y. explains x es y \<and> explains y fs z)"
  by (induction es arbitrary: x) auto

lemma explains_sum: "explains x es y \<Longrightarrow> y = x + sum_list (map be_delta es)"
  by (induction es arbitrary: x) auto

definition explained :: "rat \<Rightarrow> evaluation \<Rightarrow> bool" where
  "explained b s \<longleftrightarrow> explains (roundMoney b) (evn_breakdown s) (roundMoney (evn_current s)) \<and>
     map be_ruleId (evn_breakdown s) = evn_appliedRuleIds s"

lemma evaluate_rule_explained:
  assumes "ep_includeBreakdown p" "explained b s"
  shows "explained b (evaluate_rule p rule s)"
  using assms
  by (auto simp: explained_def evaluate_rule_def Let_def explains_append roundMoney_nonneg)

lemma evaluate_rules_explained:
  "ep_includeBreakdown p \<Longrightarrow> explained b s \<Longrightarrow> explained b (foldl (\<lambda>s rule. evaluate_rule p rule s) s rules)"
  by (induction rules arbitrary: s) (simp_all add: evaluate_rule_explained)

text \<open>
  C39. The breakdown of an evaluation explains its price: starting from the rounded base price each
  entry begins at the amount the one before ends with, its delta is exactly its difference, no
  amount is negative, the last amount is the price, so the base and the deltas add up to the price,
  and there is one entry per applied rule.
\<close>

theorem breakdown_explains_price:
  assumes "ep_includeBreakdown p" "ep_basePrice p = Some b" "0 \<le> b"
  shows "\<exists>es. ev_breakdown (evaluatePricingRules te p) = Some es \<and>
     explains (roundMoney b) es (ev_price (evaluatePricingRules te p)) \<and>
     ev_price (evaluatePricingRules te p) = roundMoney b + sum_list (map be_delta es) \<and>
     map be_ruleId es = ev_appliedRuleIds (evaluatePricingRules te p)"
proof -
  let ?s = "foldl (\<lambda>s rule. evaluate_rule p rule s) (start_evaluation p) (applicable_rules te p)"
  have "explained b (start_evaluation p)"
    using assms by (simp add: explained_def start_evaluation_def)
  then have e: "explained b ?s" using assms by (simp add: evaluate_rules_explained)
  have "0 \<le> evn_current ?s"
    unfolding evaluate_rules_current using assms
    by (intro rules_effect_nonneg) (simp add: start_evaluation_def)
  then have "ev_price (evaluatePricingRules te p) = roundMoney (evn_current ?s)"
    by (simp add: evaluatePricingRules_def Let_def max_def)
  with e assms explains_sum show ?thesis
    by (auto simp: explained_def evaluatePricingRules_def Let_def)
qed

section \<open>The order of the rules\<close>

text \<open>
  A comparator that tells elements of different keys apart. Sorting by it forgets the order of
  the input when the keys are distinct.
\<close>

locale keyed_comparator = comparator cmp for cmp :: "'a \<Rightarrow> 'a \<Rightarrow> int" +
  fixes key :: "'a \<Rightarrow> 'k"
  assumes antisym: "cmp x y \<le> 0 \<Longrightarrow> cmp y x \<le> 0 \<Longrightarrow> key x = key y"
begin

lemma ordered_unique:
  "sorted_wrt (\<lambda>a b. cmp a b \<le> 0) xs \<Longrightarrow> sorted_wrt (\<lambda>a b. cmp a b \<le> 0) ys \<Longrightarrow>
   mset xs = mset ys \<Longrightarrow> distinct (map key xs) \<Longrightarrow> xs = ys"
proof (induction xs arbitrary: ys)
  case Nil
  then show ?case by simp
next
  case (Cons x xs)
  then obtain y ys' where ys: "ys = y # ys'" by (cases ys) auto
  have "x = y"
  proof (rule ccontr)
    assume "x \<noteq> y"
    have sets: "set (x # xs) = set ys" using Cons.prems(3) by (metis set_mset_mset)
    then have "x \<in> set ys'" "y \<in> set xs" using \<open>x \<noteq> y\<close> ys by auto
    then have "cmp x y \<le> 0" "cmp y x \<le> 0" using Cons.prems(1,2) ys by auto
    then have "key x = key y" by (rule antisym)
    then show False using Cons.prems(4) \<open>y \<in> set xs\<close> by (auto dest: imageI [of y _ key])
  qed
  with Cons ys show ?case by simp
qed

lemma sort_permutation:
  "mset xs = mset ys \<Longrightarrow> distinct (map key xs) \<Longrightarrow> js_sort cmp xs = js_sort cmp ys"
proof (rule ordered_unique)
  assume "mset xs = mset ys" "distinct (map key xs)"
  then show "mset (js_sort cmp xs) = mset (js_sort cmp ys)" by simp
  have "mset (map key (js_sort cmp xs)) = mset (map key xs)" by simp
  with \<open>distinct (map key xs)\<close> show "distinct (map key (js_sort cmp xs))"
    by (metis mset_eq_imp_distinct_iff)
qed (rule sort_ordered)+

end

interpretation by_key_order: keyed_comparator "by_key key" key for key
  by unfold_locales (simp add: by_key_def)

text \<open>The law of \<open>localeCompare\<close> the order of the rules rests on: a total order of the texts.\<close>

definition collation :: "(string \<Rightarrow> string \<Rightarrow> int) \<Rightarrow> bool" where
  "collation lc \<longleftrightarrow> keyed_comparator lc id"

lemma collation_rules:
  assumes "collation (te_localeCompare te)"
  shows "keyed_comparator (compare_rules te) pru_id"
proof -
  let ?lc = "te_localeCompare te"
  note order = assms [unfolded collation_def keyed_comparator_def keyed_comparator_axioms_def comparator_def id_apply]
  have refl: "?lc a a \<le> 0" and trans: "?lc a b \<le> 0 \<Longrightarrow> ?lc b c \<le> 0 \<Longrightarrow> ?lc a c \<le> 0"
    and total: "?lc a b \<le> 0 \<or> ?lc b a \<le> 0" and anti: "?lc a b \<le> 0 \<Longrightarrow> ?lc b a \<le> 0 \<Longrightarrow> a = b" for a b c
    using order by blast+
  let ?P = normalizeRulePriority and ?C = "normalizeRuleCreatedAt (te_toISOString te)"
  have le: "compare_rules te a b \<le> 0 \<longleftrightarrow> ?P a < ?P b \<or>
      (?P a = ?P b \<and> (?C a \<noteq> ?C b \<and> ?lc (?C a) (?C b) \<le> 0 \<or>
         ?C a = ?C b \<and> ?lc (pru_id a) (pru_id b) \<le> 0))" for a b
    by (auto simp: compare_rules_def Let_def)
  show ?thesis
  proof unfold_locales
    fix x y z :: price_rule
    show "compare_rules te x x \<le> 0" by (simp add: le refl)
    show "compare_rules te x y \<le> 0 \<or> compare_rules te y x \<le> 0"
      unfolding le using total by (metis linorder_less_linear)
    show "compare_rules te x y \<le> 0 \<Longrightarrow> compare_rules te y z \<le> 0 \<Longrightarrow> compare_rules te x z \<le> 0"
      unfolding le by (elim disjE conjE) (auto dest: trans anti)
    show "compare_rules te x y \<le> 0 \<Longrightarrow> compare_rules te y x \<le> 0 \<Longrightarrow> pru_id x = pru_id y"
      unfolding le by (elim disjE conjE) (auto dest: anti)
  qed
qed

lemma distinct_filter_map: "distinct (map f xs) \<Longrightarrow> distinct (map f (filter P xs))"
  by (induction xs) auto

lemma applicable_rules_permutation:
  assumes "collation (te_localeCompare te)" "mset rules = mset (ep_rules p)" "distinct (map pru_id rules)"
  shows "applicable_rules te (p\<lparr>ep_rules := rules\<rparr>) = applicable_rules te p"
  unfolding applicable_rules_def using assms
  by (auto intro!: keyed_comparator.sort_permutation [OF collation_rules] distinct_filter_map)

lemma evaluate_rule_rules [simp]: "evaluate_rule (p\<lparr>ep_rules := rules\<rparr>) = evaluate_rule p"
  unfolding evaluate_rule_def Let_def by (intro ext) simp

text \<open>
  Where \<open>localeCompare\<close> is a total order of the texts and the rules have distinct ids, the
  evaluation does not depend on the order in which the rules are given: any permutation of them
  gives the same price, applied rules, breakdown and trace.
\<close>

theorem rule_order_irrelevant:
  assumes "collation (te_localeCompare te)" "mset rules = mset (ep_rules p)" "distinct (map pru_id rules)"
  shows "evaluatePricingRules te (p\<lparr>ep_rules := rules\<rparr>) = evaluatePricingRules te p"
  using applicable_rules_permutation [OF assms]
  by (simp add: evaluatePricingRules_def start_evaluation_def Let_def)

definition ex_price_rule :: "string \<Rightarrow> string \<Rightarrow> rat \<Rightarrow> price_rule" where
  "ex_price_rule i type value = \<lparr>pru_id = i, pru_type = type, pru_value = Some value, pru_occupancyKey = None,
     pru_priority = Some 10, pru_createdAt = None, pru_isActive = Some True, pru_dateRange = None, pru_dayOfWeek = None,
     pru_eligibility = None\<rparr>"

definition ex_params :: evaluate_params where
  "ex_params = \<lparr>ep_basePrice = Some 100, ep_date = Some 10, ep_occupancyKey = None,
     ep_rules = [ex_price_rule ''r1'' ''percentage_discount'' 10, ex_price_rule ''r2'' ''fixed_adjustment'' 7],
     ep_includeBreakdown = True, ep_stayContext = None, ep_includeEligibilityTrace = False\<rparr>"

definition text_order :: "string \<Rightarrow> string \<Rightarrow> int" where
  "text_order a b = (if a < b then -1 else if a = b then 0 else 1)"

definition ex_text :: text_env where
  "ex_text = \<lparr>te_localeCompare = text_order, te_toISOString = (\<lambda>_. [])\<rparr>"

lemma text_order_collation: "collation text_order"
  unfolding collation_def by unfold_locales (auto simp: text_order_def split: if_splits)

lemma ex_params_simps: "ep_includeBreakdown ex_params" "ep_basePrice ex_params = Some 100"
  by (simp_all add: ex_params_def)

lemma ex_params_price: "ev_price (evaluatePricingRules ex_text ex_params) = 97"
  by code_simp

theorem breakdown_explains_price_witness:
  "\<exists>es. ev_breakdown (evaluatePricingRules ex_text ex_params) = Some es \<and> explains (roundMoney 100) es 97 \<and>
     97 = roundMoney 100 + sum_list (map be_delta es)"
  using breakdown_explains_price [OF ex_params_simps, of ex_text] by (auto simp: ex_params_price)

theorem rule_order_irrelevant_witness:
  "evaluatePricingRules ex_text (ex_params\<lparr>ep_rules := rev (ep_rules ex_params)\<rparr>) = evaluatePricingRules ex_text ex_params"
proof -
  have "collation (te_localeCompare ex_text)" by (simp add: ex_text_def text_order_collation)
  moreover have "mset (rev (ep_rules ex_params)) = mset (ep_rules ex_params)" by simp
  moreover have "distinct (map pru_id (rev (ep_rules ex_params)))" by code_simp
  ultimately show ?thesis by (rule rule_order_irrelevant)
qed

section \<open>The minimal engine\<close>

text \<open>A minimal rule as a price rule of the full engine; the priorities keep the order of the list.\<close>

definition full_rule :: "nat \<Rightarrow> minimal_rule \<Rightarrow> price_rule" where
  "full_rule n r =
     \<lparr>pru_id = mr_id r, pru_type = (case mr_type r of MinFixed \<Rightarrow> ''fixed'' | MinPercentage \<Rightarrow> ''percentage''),
      pru_value = Some (mr_value r), pru_occupancyKey = None, pru_priority = Some (of_nat n), pru_createdAt = None,
      pru_isActive = None, pru_dateRange = None, pru_dayOfWeek = None, pru_eligibility = None\<rparr>"

definition markup_rule :: "minimal_rule \<Rightarrow> minimal_rule" where
  "markup_rule r = (if mr_type r = MinPercentage then r\<lparr>mr_value := \<bar>mr_value r\<bar>\<rparr> else r)"

fun full_rules :: "nat \<Rightarrow> minimal_rule list \<Rightarrow> price_rule list" where
  "full_rules n [] = []"
| "full_rules n (r # rs) = full_rule n r # full_rules (Suc n) rs"

definition minimal_params :: "rat \<Rightarrow> day \<Rightarrow> minimal_rule list \<Rightarrow> evaluate_params" where
  "minimal_params b date rules = \<lparr>ep_basePrice = Some b, ep_date = Some date, ep_occupancyKey = None, ep_rules = full_rules 0 rules,
     ep_includeBreakdown = False, ep_stayContext = None, ep_includeEligibilityTrace = False\<rparr>"

lemma full_rules_priority: "r \<in> set (full_rules n rs) \<Longrightarrow> \<exists>k m. n \<le> k \<and> r = full_rule k m"
  by (induction rs arbitrary: n) (auto, metis Suc_leD)

lemma full_rules_applicable:
  "applicable_rules te (minimal_params b date rules) = full_rules 0 rules"
proof -
  have "sorted_wrt (\<lambda>x y. compare_rules te x y \<le> 0) (full_rules n rs)" for n rs
  proof (induction rs arbitrary: n)
    case (Cons r rs)
    have "compare_rules te (full_rule n r) y \<le> 0" if "y \<in> set (full_rules (Suc n) rs)" for y
      using full_rules_priority [OF that] by (auto simp: compare_rules_def normalizeRulePriority_def full_rule_def)
    with Cons show ?case by simp
  qed simp
  moreover have "pru_isActive r \<noteq> Some False" "isRuleApplicableForDate r (Some date)" "isRuleApplicableForOccupancy r None"
    if "r \<in> set (full_rules n rs)" for r n rs
    using full_rules_priority [OF that]
    by (auto simp: full_rule_def isRuleApplicableForDate_def isRuleApplicableForOccupancy_def normalizeDayOfWeek_def js_trim_def)
  ultimately show ?thesis
    by (simp add: applicable_rules_def minimal_params_def filter_id_conv [THEN iffD2] js_sort_sorted)
qed

lemma trim_type: "js_trim ''fixed'' = ''fixed''" "js_trim ''percentage'' = ''percentage''"
  by code_simp+

lemma full_rule_effect:
  "rule_effect (minimal_params b date all) c (full_rule n r) =
     max 0 (case mr_type r of MinFixed \<Rightarrow> mr_value r | MinPercentage \<Rightarrow> c + (c * \<bar>mr_value r\<bar>) / 100)"
  by (cases "mr_type r")
    (simp_all add: rule_effect_def rule_eligible_def full_rule_def hasPricingRuleEligibility_def normalizeEligibility_def
      has_condition_def applyRule_def canonical_type_def trim_type)

lemma markup_floor:
  fixes c c' v :: rat
  assumes "max 0 c = max 0 c'"
  shows "max 0 (c + (c * \<bar>v\<bar>) / 100) = max 0 (c' + (c' * \<bar>v\<bar>) / 100)"
proof -
  have "max 0 (x + (x * \<bar>v\<bar>) / 100) = max 0 x * (1 + \<bar>v\<bar> / 100)" for x :: rat
    by (cases "0 \<le> x") (auto simp: max_def algebra_simps mult_nonpos_nonneg add_nonpos_nonpos not_le intro: antisym)
  with assms show ?thesis by simp
qed

lemma minimal_rules_current:
  "max 0 c = max 0 c' \<Longrightarrow>
   max 0 (foldl (rule_effect (minimal_params b date all)) c (full_rules n rs)) = max 0 (minimal_price c' (map markup_rule rs))"
proof (induction rs arbitrary: n c c')
  case (Cons r rs)
  then show ?case
    by (cases "mr_type r") (simp_all add: full_rule_effect markup_rule_def markup_floor [OF Cons.prems])
qed simp

text \<open>
  On the rules of the minimal engine the full engine agrees with it once every percentage is
  taken as its absolute value: the price the full engine gives for them is the price
  of the minimal engine for the same list with positive percentages. A negative percentage therefore
  lowers the price in one engine and raises it in the other.
\<close>

theorem engines_agree_on_markups:
  "ev_price (evaluatePricingRules te (minimal_params b date rules)) = computeBasePriceWithRules b (map markup_rule rules)"
proof -
  have "evn_current (start_evaluation (minimal_params b date rules)) = b"
    by (simp add: start_evaluation_def minimal_params_def)
  then show ?thesis
    by (simp add: evaluated_price full_rules_applicable computeBasePriceWithRules_def minimal_rules_current [of b b])
qed

end
