(* ===== verification/Effective_Pricing_Correctness.thy ===== *)
theory Effective_Pricing_Correctness
  imports Effective_Pricing Pricing_Rules_Correctness
begin

text \<open>
  What a recomputation and a coverage leave in the table of prices, in every schedule of the pool.
\<close>

section \<open>Occupancy keys\<close>

lemma char_code_digit [simp]: "d < 10 \<Longrightarrow> char_code (char_of (48 + d)) = 48 + d"
  by (simp add: char_code_def of_char_of)

lemma is_digit_char [simp]: "(d :: nat) < 10 \<Longrightarrow> is_digit (char_of (48 + d))"
  by (simp add: is_digit_def)

lemma decimal_digits: "list_all is_digit (decimal n) \<and> decimal n \<noteq> [] \<and> digits_value (decimal n) = int n"
proof (induction n rule: decimal.induct)
  case (1 n)
  show ?case
  proof (cases "n < 10")
    case True
    then show ?thesis by (simp add: decimal.simps [of n] digits_value_def)
  next
    case False
    then have ih: "list_all is_digit (decimal (n div 10))" "digits_value (decimal (n div 10)) = int (n div 10)"
      using 1 by simp_all
    have "digits_value (decimal (n div 10) @ [char_of (48 + n mod 10)]) = 10 * int (n div 10) + int (n mod 10)"
      using ih(2) by (simp add: digits_value_def)
    moreover have "10 * int (n div 10) + int (n mod 10) = int n" by (simp add: zdiv_int zmod_int)
    ultimately show ?thesis using False ih(1) by (simp add: decimal.simps [of n])
  qed
qed

lemma take_decimal_digits [simp]:
  "\<not> is_digit c \<Longrightarrow> takeWhile is_digit (decimal n @ c # s) = decimal n"
  "\<not> is_digit c \<Longrightarrow> dropWhile is_digit (decimal n @ c # s) = c # s"
  "takeWhile is_digit (decimal n) = decimal n" "dropWhile is_digit (decimal n) = []"
  using decimal_digits [of n] by (simp_all add: list_all_iff)

lemma take_decimal:
  "\<not> is_digit c \<Longrightarrow> take_number prefix (prefix @ decimal n @ c # s) = Some (int n, c # s)"
  "take_number prefix (prefix @ decimal n) = Some (int n, [])"
  using decimal_digits [of n] by (simp_all add: take_number_def)

lemma normalized_simps [simp]:
  "oc_adults (normalized oc) = max 1 (oc_adults oc)" "oc_children (normalized oc) = max 0 (oc_children oc)"
  "oc_infants (normalized oc) = max 0 (oc_infants oc)"
  by (simp_all add: normalized_def normalizeOccupancy_def toNonNegativeInteger_def)

lemma normalized_idem [simp]: "normalized (normalized oc) = normalized oc"
  by (simp add: occupancy.equality)

lemma key_normalized [simp]: "buildOccupancyKey (normalized oc) = buildOccupancyKey oc"
  by (simp add: buildOccupancyKey_def)

lemma key_reads_back: "occupancyFromKey (Some (buildOccupancyKey oc)) = normalized oc"
proof -
  have nd: "\<not> is_digit CHR ''_''" by (simp add: is_digit_def char_code_def)
  show ?thesis
    using take_decimal(1) [OF nd, of "''a''"] take_decimal(1) [OF nd, of "''_c''"] take_decimal(2) [of "''_i''"]
    by (simp add: occupancyFromKey_def buildOccupancyKey_def occupancy_key_def occupancy.equality)
qed

text \<open>
  The key of an occupancy reads back as the occupancy: what the finalization of a bulk job parses
  out of a stored key is the normalized occupancy the key was built from.
\<close>

theorem occupancy_key_roundtrip: "occupancyFromKey (Some (buildOccupancyKey oc)) = normalized oc"
  by (rule key_reads_back)

lemma key_inj: "buildOccupancyKey a = buildOccupancyKey b \<longleftrightarrow> normalized a = normalized b"
  by (metis key_normalized key_reads_back)

section \<open>The work of an item\<close>

lemma item_index_simps: "item_index q item = (rcq_ratePlanId q, fst item, buildOccupancyKey (snd item))"
  by (simp add: item_index_def)

lemma price_item_index:
  "price_item env q rules db item = Inr r \<Longrightarrow> row_index r = item_index q item \<and> efp_variantId r = rcq_variantId q"
  by (auto simp: price_item_def computeEffectivePricing_def item_input_def row_index_def item_index_simps Let_def split: sum.splits)

text \<open>The price of an item depends on the policies and on the rows of its own night and occupancy.\<close>

lemma price_item_local:
  assumes "pdb_policies db' = pdb_policies db"
    and "pdb_effective db' (item_index q item) = pdb_effective db (item_index q item)"
  shows "price_item env q rules db' item = price_item env q rules db item"
proof -
  have "active_policies te p t db' = active_policies te p t db" for te p t
    using assms(1) by (simp add: active_policies_def)
  moreover have "getBaseFromExistingEffectivePricing te (item_index q item) db' =
      getBaseFromExistingEffectivePricing te (item_index q item) db" for te
    using assms(2) by (simp add: getBaseFromExistingEffectivePricing_def)
  ultimately have "getActiveOccupancyPolicy te p d db' = getActiveOccupancyPolicy te p d db"
    "getBaseFromPolicy te (item_index q item) db' = getBaseFromPolicy te (item_index q item) db" for te p d
    by (simp_all add: getActiveOccupancyPolicy_def getBaseFromPolicy_def split: prod.split option.split)
  then show ?thesis by (simp add: price_item_def)
qed

lemma save_policies [simp]:
  "pdb_policies (saveEffectivePricing r db) = pdb_policies db" "pdb_rules (saveEffectivePricing r db) = pdb_rules db"
  by (simp_all add: saveEffectivePricing_def)

lemma save_effective [simp]:
  "pdb_effective (saveEffectivePricing r db) =
     (pdb_effective db)(row_index r := save_group r (pdb_effective db (row_index r)))"
  by (simp add: saveEffectivePricing_def)

lemma save_group_nonempty [simp]: "save_group r rows \<noteq> []"
  by (auto simp: save_group_def update_rows_def)

lemma getBase_after_save:
  assumes "row_index r = ix" "getBaseFromPolicy te ix (saveEffectivePricing r db) = None"
  shows False
proof -
  have "js_sort (newest_row te) (save_group r rows) \<noteq> []" for rows
    by (metis length_0_conv length_js_sort save_group_nonempty)
  then show False using assms
    by (auto simp: getBaseFromPolicy_def getBaseFromExistingEffectivePricing_def first_of_def
        split: prod.splits option.splits list.splits)
qed

lemma same_index_items:
  assumes "item_index q i = item_index q j"
  shows "price_item env q rules db i = price_item env q rules db j"
proof -
  have "fst i = fst j" "normalized (snd i) = normalized (snd j)" "buildOccupancyKey (snd i) = buildOccupancyKey (snd j)"
    using assms by (auto simp: item_index_simps key_inj)
  then show ?thesis using assms
    by (simp add: price_item_def computeEffectivePricing_def night_base_def item_input_def Let_def
        cong: sum.case_cong option.case_cong)
qed

lemma priced_with_base:
  "getBaseFromPolicy (pen_text env) (item_index q item) db \<noteq> None \<Longrightarrow> \<exists>r. price_item env q rules db item = Inr r"
  by (auto simp: price_item_def computeEffectivePricing_def night_base_def Let_def 
      split: sum.splits option.splits)

lemma recompute_item_eq:
  "fst (recompute_item env q rules i db) = (case price_item env q rules db i of Inl e \<Rightarrow> Some e | Inr _ \<Rightarrow> None)"
  "do_item (recompute_item env q rules) i db =
     (case price_item env q rules db i of Inl e \<Rightarrow> db | Inr r \<Rightarrow> saveEffectivePricing r db)"
  by (simp_all add: recompute_item_def do_item_def split: sum.splits)

lemma do_item_effective:
  "pdb_effective (do_item (recompute_item env q rules) i db) ix =
     (case price_item env q rules db i of
        Inl e \<Rightarrow> pdb_effective db ix
      | Inr r \<Rightarrow> if ix = item_index q i then save_group r (pdb_effective db ix) else pdb_effective db ix)"
  "pdb_policies (do_item (recompute_item env q rules) i db) = pdb_policies db"
  "pdb_rules (do_item (recompute_item env q rules) i db) = pdb_rules db"
  using price_item_index [of env q rules db i]
  by (auto simp: recompute_item_eq split: sum.splits)

lemma other_item_undisturbed:
  "item_index q i \<noteq> item_index q j \<Longrightarrow>
     price_item env q rules (do_item (recompute_item env q rules) j db) i = price_item env q rules db i"
  by (rule price_item_local) (simp_all add: do_item_effective split: sum.splits)

lemma pricing_db_eqI:
  "pdb_rules a = pdb_rules b \<Longrightarrow> pdb_policies a = pdb_policies b \<Longrightarrow> (\<And>ix. pdb_effective a ix = pdb_effective b ix) \<Longrightarrow>
     a = (b :: pricing_db)"
  by (cases a; cases b) auto

text \<open>The items of a recomputation meet the contract of a pool.\<close>

interpretation pricing_pool: independent_items "recompute_item env q rules" for env q rules
proof
  fix i j and db :: pricing_db
  let ?do = "do_item (recompute_item env q rules)"
  show "?do i (?do j db) = ?do j (?do i db)"
  proof (cases "item_index q i = item_index q j")
    case True
    then have "?do i = ?do j" by (intro ext) (simp add: recompute_item_eq same_index_items [OF True])
    then show ?thesis by simp
  next
    case False
    then show ?thesis
      using other_item_undisturbed [OF False, of env rules db] other_item_undisturbed [OF False [symmetric], of env rules db]
      by (intro pricing_db_eqI) (auto simp: do_item_effective split: sum.splits)
  qed
  show "fst (recompute_item env q rules i (?do j db)) = fst (recompute_item env q rules i db)"
  proof (cases "item_index q i = item_index q j")
    case False
    then show ?thesis by (simp only: recompute_item_eq(1) other_item_undisturbed not_False_eq_True)
  next
    case True
    note same = same_index_items [OF True, of env rules]
    show ?thesis
    proof (cases "price_item env q rules db j")
      case (Inl e)
      then show ?thesis by (simp add: recompute_item_eq same)
    next
      case (Inr r)
      then have "row_index r = item_index q i" using price_item_index True by fastforce
      then have "getBaseFromPolicy (pen_text env) (item_index q i) (saveEffectivePricing r db) \<noteq> None"
        using getBase_after_save by blast
      then obtain r' where "price_item env q rules (saveEffectivePricing r db) i = Inr r'"
        using priced_with_base by blast
      then show ?thesis using Inr by (simp add: recompute_item_eq same)
    qed
  qed
qed

section \<open>A whole recomputation\<close>

lemma pool_concurrency_pos [simp]: "0 < pool_concurrency m n"
  by (simp add: pool_concurrency_def Let_def less_max_iff_disj)

definition night_row :: "pricing_env \<Rightarrow> recompute_request \<Rightarrow> pricing_db \<Rightarrow> day \<times> occupancy \<Rightarrow> pricing_error + effective_row" where
  "night_row env q db = price_item env q (getPreviewRules (pen_text env) (rcq_ratePlanId q) (pdb_rules db)) db"

lemma fold_items:
  assumes "distinct (map (item_index q) items)" "\<forall>i \<in> set items. \<exists>r. price_item env q rules db i = Inr r"
  shows "pdb_effective (fold (do_item (recompute_item env q rules)) items db) ix =
      (case find (\<lambda>i. item_index q i = ix) items of
         None \<Rightarrow> pdb_effective db ix
       | Some i \<Rightarrow> save_group (projr (price_item env q rules db i)) (pdb_effective db ix)) \<and>
    pdb_policies (fold (do_item (recompute_item env q rules)) items db) = pdb_policies db \<and>
    pdb_rules (fold (do_item (recompute_item env q rules)) items db) = pdb_rules db"
  using assms
proof (induction items arbitrary: db)
  case Nil
  then show ?case by simp
next
  case (Cons i items)
  let ?db = "do_item (recompute_item env q rules) i db"
  have other: "item_index q j \<noteq> item_index q i" if "j \<in> set items" for j
    using Cons.prems(1) that by (metis distinct.simps(2) imageI list.simps(9) list.set_map)
  have same: "price_item env q rules ?db j = price_item env q rules db j" if "j \<in> set items" for j
    using other_item_undisturbed other [OF that] by blast
  have d: "distinct (map (item_index q) items)" using Cons.prems(1) by simp
  have p: "\<forall>j \<in> set items. \<exists>r. price_item env q rules ?db j = Inr r" using Cons.prems(2) same by simp
  note ih = Cons.IH [OF d p]
  obtain r where r: "price_item env q rules db i = Inr r" using Cons.prems(2) by auto
  have step: "pdb_effective ?db ix = (if ix = item_index q i then save_group r (pdb_effective db ix) else pdb_effective db ix)"
    using r by (simp add: do_item_effective)
  show ?case
  proof (cases "ix = item_index q i")
    case True
    have "find (\<lambda>j. item_index q j = item_index q i) items = None"
      using other by (auto simp: find_None_iff )
    then show ?thesis using ih step r True by (simp add: do_item_effective)
  next
    case False
    have "price_item env q rules ?db x = price_item env q rules db x" if "find P items = Some x" for x P
      using same that by (metis find_Some_iff nth_mem)
    then show ?thesis using ih step False
      by (auto simp: do_item_effective split: option.splits)
  qed
qed

lemma recompute_outcome:
  assumes "recomputeEffectivePricingRange env schedule q db = (result, db')"
    and "rules = getPreviewRules (pen_text env) (rcq_ratePlanId q) (pdb_rules db)"
  shows "(\<exists>r. result = Inr r) \<longleftrightarrow> (\<forall>i \<in> set (recompute_work q). fst (recompute_item env q rules i db) = None)"
    and "result = Inr r \<Longrightarrow> db' = fold (do_item (recompute_item env q rules)) (recompute_work q) db"
proof -
  let ?p = "run_pool (recompute_item env q rules) schedule
    (start_pool (pool_concurrency (rcq_maxConcurrency q) (length (recompute_work q))) (recompute_work q) db)"
  have acc: "wp_rejected ?p = None \<longleftrightarrow> (\<forall>i \<in> set (recompute_work q). fst (recompute_item env q rules i db) = None)"
    "wp_rejected ?p = None \<Longrightarrow> wp_store ?p = fold (do_item (recompute_item env q rules)) (recompute_work q) db"
    by (rule pricing_pool.pool_accepts, simp)+
  have res: "result = (case wp_rejected ?p of Some e \<Rightarrow> Inl e | None \<Rightarrow> Inr (length (recompute_work q),
      js_sort (te_localeCompare (pen_text env)) (js_dedup (map (buildOccupancyKey \<circ> snd) (recompute_work q)))))"
    "db' = wp_store ?p"
    using assms by (auto simp: recomputeEffectivePricingRange_def Let_def)
  show "(\<exists>r. result = Inr r) \<longleftrightarrow> (\<forall>i \<in> set (recompute_work q). fst (recompute_item env q rules i db) = None)"
    using acc(1) res(1) by (cases "wp_rejected ?p") auto
  show "result = Inr r \<Longrightarrow> db' = fold (do_item (recompute_item env q rules)) (recompute_work q) db"
    using acc(2) res by (cases "wp_rejected ?p") auto
qed

section \<open>The coverage\<close>

definition cov_request :: "coverage_input \<Rightarrow> recompute_request" where
  "cov_request inp = \<lparr>rcq_variantId = cov_variantId inp, rcq_ratePlanId = cov_ratePlanId inp, rcq_dates = [],
     rcq_occupancies = [], rcq_fallbackCurrency = cov_fallbackCurrency inp, rcq_maxConcurrency = None\<rparr>"

lemma recompute_item_request:
  "recompute_item env \<lparr>rcq_variantId = cov_variantId inp, rcq_ratePlanId = cov_ratePlanId inp, rcq_dates = ds,
     rcq_occupancies = ocs, rcq_fallbackCurrency = cov_fallbackCurrency inp, rcq_maxConcurrency = m\<rparr> rules =
   recompute_item env (cov_request inp) rules"
  by (intro ext) (simp add: recompute_item_def price_item_def item_index_def item_input_def cov_request_def
      cong: sum.case_cong)

definition chunk_items :: "(string \<times> occupancy \<times> day list) list \<Rightarrow> (day \<times> occupancy) list" where
  "chunk_items chunks = concat (map (\<lambda>(key, oc, dates). map (\<lambda>d. (d, oc)) dates) chunks)"

lemma chunk_items_simps [simp]:
  "chunk_items [] = []"
  "chunk_items ((key, oc, dates) # rest) = map (\<lambda>d. (d, oc)) dates @ chunk_items rest"
  by (simp_all add: chunk_items_def)

lemma product_single: "List.product ds [oc] = map (\<lambda>d. (d, oc)) ds"
  by (induction ds) simp_all

lemma fold_items_rules: "pdb_rules (fold (do_item (recompute_item env q rules)) items db) = pdb_rules db"
  by (induction items arbitrary: db) (simp_all add: do_item_effective)

lemma recompute_chunks_outcome:
  assumes "recompute_chunks env schedule inp chunks db = (Inr (), db')"
    and "rules = getPreviewRules (pen_text env) (cov_ratePlanId inp) (pdb_rules db)"
  shows "db' = fold (do_item (recompute_item env (cov_request inp) rules)) (chunk_items chunks) db \<and>
    (\<forall>i \<in> set (chunk_items chunks). fst (recompute_item env (cov_request inp) rules i db) = None)"
  using assms
proof (induction chunks arbitrary: db)
  case Nil
  then show ?case by simp
next
  case (Cons c chunks)
  obtain key oc dates where c: "c = (key, oc, dates)" by (cases c)
  let ?q = "\<lparr>rcq_variantId = cov_variantId inp, rcq_ratePlanId = cov_ratePlanId inp, rcq_dates = dates,
    rcq_occupancies = [oc], rcq_fallbackCurrency = cov_fallbackCurrency inp, rcq_maxConcurrency = None\<rparr>"
  let ?w = "recompute_item env (cov_request inp) rules" and ?items = "map (\<lambda>d. (d, oc)) dates"
  obtain r db1 where one: "recomputeEffectivePricingRange env (schedule key dates) ?q db = (Inr r, db1)"
    and rest: "recompute_chunks env schedule inp chunks db1 = (Inr (), db')"
    using Cons.prems(1) c by (auto simp: and_then_def split: prod.splits sum.splits)
  have work: "recompute_work ?q = ?items" by (simp add: recompute_work_def product_single)
  have rules: "rules = getPreviewRules (pen_text env) (rcq_ratePlanId ?q) (pdb_rules db)" using Cons.prems(2) by simp
  have db1: "db1 = fold (do_item ?w) ?items db" "\<forall>i \<in> set ?items. fst (?w i db) = None"
    using recompute_outcome [OF one rules] work by (auto simp: recompute_item_request)
  have "pdb_rules db1 = pdb_rules db" by (simp add: db1(1) fold_items_rules)
  then have ih: "db' = fold (do_item ?w) (chunk_items chunks) db1 \<and> (\<forall>i \<in> set (chunk_items chunks). fst (?w i db1) = None)"
    using Cons.IH [OF rest] Cons.prems(2) by simp
  then show ?case using c db1 pricing_pool.undisturbed_fold by (simp add: ball_Un)
qed

lemma chunkArray_Nil [simp]: "chunkArray n [] = []"
  by (simp add: chunkArray.simps)

lemma concat_chunkArray [simp]: "concat (chunkArray n items) = items"
proof (induction n items rule: chunkArray.induct)
  case (1 n items)
  show ?case
  proof (cases "items = []")
    case True
    then show ?thesis by simp
  next
    case False
    then show ?thesis using 1 by (simp add: chunkArray.simps [of n items] Let_def)
  qed
qed

lemma distinct_indexed:
  "distinct ks \<Longrightarrow> (\<And>k. distinct (D k)) \<Longrightarrow> distinct (concat (map (\<lambda>k. map (\<lambda>d. (p, d, k)) (D k)) ks))"
  by (induction ks) (auto simp: distinct_map inj_on_def)

definition dates_of :: "(day \<times> string) list \<Rightarrow> string \<Rightarrow> day list" where
  "dates_of missing key = js_sort (by_key id) (js_dedup (map fst (filter (\<lambda>c. snd c = key) missing)))"

lemma dates_of_simps [simp]: "distinct (dates_of missing key)" "d \<in> set (dates_of missing key) \<longleftrightarrow> (d, key) \<in> set missing"
proof -
  have "mset (dates_of missing key) = mset (js_dedup (map fst (filter (\<lambda>c. snd c = key) missing)))"
    by (simp add: dates_of_def)
  then show "distinct (dates_of missing key)" by (metis distinct_js_dedup mset_eq_imp_distinct_iff)
  show "d \<in> set (dates_of missing key) \<longleftrightarrow> (d, key) \<in> set missing" by (force simp: dates_of_def)
qed

lemma coverage_items_index:
  assumes "\<And>k. k \<in> snd ` set missing \<Longrightarrow> \<exists>oc. map_of occs k = Some oc \<and> buildOccupancyKey oc = k"
  shows "map (item_index (cov_request inp)) (chunk_items (coverage_chunks te inp occs missing)) =
    concat (map (\<lambda>k. map (\<lambda>d. (cov_ratePlanId inp, d, k)) (dates_of missing k)) (js_dedup (map snd missing)))"
proof -
  let ?n = "case cov_chunkSize inp of None \<Rightarrow> 31 | Some n \<Rightarrow> n"
  let ?chunks = "\<lambda>key. case map_of occs key of None \<Rightarrow> [] | Some oc \<Rightarrow> map (\<lambda>dates. (key, oc, dates)) (chunkArray ?n (dates_of missing key))"
  have flat: "chunk_items (map (\<lambda>dates. (key, oc, dates)) dss) = map (\<lambda>d. (d, oc)) (concat dss)" for key oc dss
    by (induction dss) simp_all
  have app: "chunk_items (a @ b) = chunk_items a @ chunk_items b" for a b by (simp add: chunk_items_def)
  have "map (item_index (cov_request inp)) (chunk_items (concat (map ?chunks ks))) =
      concat (map (\<lambda>k. map (\<lambda>d. (cov_ratePlanId inp, d, k)) (dates_of missing k)) ks)"
    if "set ks \<subseteq> snd ` set missing" for ks
    using that
  proof (induction ks)
    case Nil
    then show ?case by simp
  next
    case (Cons k ks)
    then obtain oc where "map_of occs k = Some oc" "buildOccupancyKey oc = k" using assms by auto
    then show ?case using Cons by (simp add: app flat cov_request_def item_index_simps comp_def)
  qed
  moreover have "set (js_dedup (map snd missing)) \<subseteq> snd ` set missing" by simp
  ultimately show ?thesis by (simp only: coverage_chunks_def dates_of_def)
qed

lemma coverage_occupancies_keys:
  "map_of (coverage_occupancies cap inp) k = Some oc \<Longrightarrow> buildOccupancyKey oc = k"
proof -
  have "buildOccupancyKey oc = k" if "map_of (foldl (\<lambda>m oc. map_set (buildOccupancyKey oc) oc m) m ocs) k = Some oc"
    "\<And>oc. map_of m k = Some oc \<Longrightarrow> buildOccupancyKey oc = k" for m ocs
    using that
  proof (induction ocs arbitrary: m)
    case Nil
    then show ?case by simp
  next
    case (Cons x ocs)
    show ?case by (rule Cons.IH [of "map_set (buildOccupancyKey x) x m"]) (use Cons.prems in \<open>auto split: if_splits\<close>)
  qed
  from this [of "[]"] show "map_of (coverage_occupancies cap inp) k = Some oc \<Longrightarrow> buildOccupancyKey oc = k"
    by (simp add: coverage_occupancies_def)
qed

text \<open>The table of prices of a variant's rate plan, and what covering it means.\<close>

definition prices :: "string \<Rightarrow> string \<Rightarrow> pricing_db \<Rightarrow> day \<Rightarrow> string \<Rightarrow> rat option" where
  "prices variantId ratePlanId db d k =
     map_option efp_finalBasePrice (find (\<lambda>r. efp_variantId r = variantId) (pdb_effective db (ratePlanId, d, k)))"

definition cover_prices ::
  "(day \<Rightarrow> string \<Rightarrow> rat) \<Rightarrow> bool \<Rightarrow> day set \<Rightarrow> string set \<Rightarrow> (day \<Rightarrow> string \<Rightarrow> rat option) \<Rightarrow> day \<Rightarrow> string \<Rightarrow> rat option" where
  "cover_prices night again days keys t d k =
     (if d \<in> days \<and> k \<in> keys \<and> (again \<or> t d k = None) then Some (night d k) else t d k)"

definition night_final :: "pricing_env \<Rightarrow> coverage_input \<Rightarrow> pricing_db \<Rightarrow> day \<Rightarrow> string \<Rightarrow> rat" where
  "night_final env inp db d k =
     efp_finalBasePrice (projr (night_row env (cov_request inp) db (d, occupancyFromKey (Some k))))"

lemma prices_None: "prices v p db d k = None \<longleftrightarrow> \<not> list_ex (\<lambda>r. efp_variantId r = v) (pdb_effective db (p, d, k))"
  by (auto simp: prices_def find_None_iff list_ex_iff)

lemma find_save_group:
  "map_option efp_finalBasePrice (find (\<lambda>x. efp_variantId x = efp_variantId r) (save_group r rows)) =
     Some (efp_finalBasePrice r)"
proof (cases "list_ex (\<lambda>x. efp_variantId x = efp_variantId r) rows")
  case True
  then have "\<exists>y. find (\<lambda>x. efp_variantId x = efp_variantId r)
      (update_rows (\<lambda>x. efp_variantId x = efp_variantId r) (\<lambda>x. r\<lparr>efp_id := efp_id x\<rparr>) rows) = Some y \<and>
    efp_finalBasePrice y = efp_finalBasePrice r"
    by (induction rows) (auto simp: update_rows_def)
  then show ?thesis using True by (auto simp: save_group_def)
next
  case False
  then show ?thesis by (induction rows) (auto simp: save_group_def)
qed

lemma set_missing:
  "(d, k) \<in> set (missing_combinations inp keys db) \<longleftrightarrow>
     d \<in> set (buildDateRange (cov_from inp) (cov_to inp)) \<and> k \<in> set keys \<and>
     (cov_recomputeExisting inp \<or> prices (cov_variantId inp) (cov_ratePlanId inp) db d k = None)"
  by (auto simp: missing_combinations_def listEffectivePricingCombinations_def prices_None Let_def)

lemma set_buildDateRange [simp]: "set (buildDateRange a b) = {a..<b}"
  by (auto simp: buildDateRange_def enumerateDates_days)

lemma find_image:
  "x \<in> f ` set xs \<Longrightarrow> \<exists>i. find (\<lambda>i. f i = x) xs = Some i \<and> f i = x \<and> i \<in> set xs"
  "x \<notin> f ` set xs \<Longrightarrow> find (\<lambda>i. f i = x) xs = None"
  by (induction xs) auto

lemma priced_iff: "fst (recompute_item env q rules i db) = None \<longleftrightarrow> (\<exists>r. price_item env q rules db i = Inr r)"
  by (cases "price_item env q rules db i") (simp_all add: recompute_item_eq(1))

text \<open>A coverage that returns has run the items of its missing combinations, and each has a price.\<close>

lemma coverage_ran:
  assumes "ensurePricingCoverage env schedule getCapacity inp db = (Inr counts, db')"
    and "occs = coverage_occupancies (getCapacity (cov_variantId inp)) inp"
    and "missing = missing_combinations inp (map fst occs) db"
    and "rules = getPreviewRules (pen_text env) (cov_ratePlanId inp) (pdb_rules db)"
    and "items = chunk_items (coverage_chunks (pen_text env) inp occs missing)"
  shows "db' = fold (do_item (recompute_item env (cov_request inp) rules)) items db \<and>
    (\<forall>i \<in> set items. \<exists>r. price_item env (cov_request inp) rules db i = Inr r)"
proof (cases "missing = [] \<and> \<not> cov_recomputeExisting inp \<or> buildDateRange (cov_from inp) (cov_to inp) = []")
  case True
  then have "missing = []" "db' = db" using assms(1-3)
    by (auto simp: ensurePricingCoverage_def missing_combinations_def Let_def split: if_splits)
  then show ?thesis using assms(5) by (simp add: coverage_chunks_def)
next
  case False
  then have "recompute_chunks env schedule inp (coverage_chunks (pen_text env) inp occs missing) db = (Inr (), db')"
    using assms(1-3) by (auto simp: ensurePricingCoverage_def and_then_def Let_def split: if_splits sum.splits prod.splits)
  from recompute_chunks_outcome [OF this assms(4)] show ?thesis using assms(5) by (simp add: priced_iff)
qed

lemma coverage_refines:
  assumes "ensurePricingCoverage env schedule getCapacity inp db = (Inr counts, db')"
  shows "prices (cov_variantId inp) (cov_ratePlanId inp) db' =
      cover_prices (night_final env inp db) (cov_recomputeExisting inp) {cov_from inp..<cov_to inp}
        (fst ` set (coverage_occupancies (getCapacity (cov_variantId inp)) inp))
        (prices (cov_variantId inp) (cov_ratePlanId inp) db) \<and>
    pdb_policies db' = pdb_policies db \<and> pdb_rules db' = pdb_rules db"
proof -
  let ?occs = "coverage_occupancies (getCapacity (cov_variantId inp)) inp"
  let ?missing = "missing_combinations inp (map fst ?occs) db"
  let ?rules = "getPreviewRules (pen_text env) (cov_ratePlanId inp) (pdb_rules db)"
  let ?q = "cov_request inp" and ?v = "cov_variantId inp" and ?p = "cov_ratePlanId inp"
  let ?items = "chunk_items (coverage_chunks (pen_text env) inp ?occs ?missing)"
  have keys: "\<exists>oc. map_of ?occs k = Some oc \<and> buildOccupancyKey oc = k" if "k \<in> snd ` set ?missing" for k
    using that coverage_occupancies_keys by (force simp: set_missing dest: weak_map_of_SomeI)
  note index = coverage_items_index [of ?missing ?occs inp "pen_text env", OF keys]
  have distinct: "distinct (map (item_index ?q) ?items)" by (simp only: index) (intro distinct_indexed, simp_all)
  have range: "item_index ?q ` set ?items = {(?p, d, k) |d k. (d, k) \<in> set ?missing}"
  proof -
    have "item_index ?q ` set ?items = set (map (item_index ?q) ?items)" by simp
    also have "\<dots> = {(?p, d, k) |d k. (d, k) \<in> set ?missing}" by (simp only: index) force
    finally show ?thesis .
  qed
  note ran = coverage_ran [OF assms refl refl refl refl]
  then have priced: "\<forall>i \<in> set ?items. \<exists>r. price_item env ?q ?rules db i = Inr r" by blast
  note final = fold_items [OF distinct priced]
  have "prices ?v ?p db' d k = cover_prices (night_final env inp db) (cov_recomputeExisting inp) {cov_from inp..<cov_to inp}
      (fst ` set ?occs) (prices ?v ?p db) d k" for d k
  proof (cases "(d, k) \<in> set ?missing")
    case False
    then have "find (\<lambda>i. item_index ?q i = (?p, d, k)) ?items = None"
      by (intro find_image(2)) (simp only: range, simp)
    then have "prices ?v ?p db' d k = prices ?v ?p db d k" using final ran by (simp add: prices_def)
    then show ?thesis using False by (auto simp: cover_prices_def set_missing)
  next
    case True
    then have "(?p, d, k) \<in> item_index ?q ` set ?items" by (simp only: range) simp
    from find_image(1) [OF this] obtain i where i: "find (\<lambda>i. item_index ?q i = (?p, d, k)) ?items = Some i"
      and ix: "item_index ?q i = (?p, d, k)" and mem: "i \<in> set ?items" by blast
    obtain oc where "buildOccupancyKey oc = k" using keys True by force
    then have "item_index ?q (d, occupancyFromKey (Some k)) = item_index ?q i"
      using ix by (auto simp: item_index_simps cov_request_def key_reads_back)
    then have same: "night_row env ?q db (d, occupancyFromKey (Some k)) = price_item env ?q ?rules db i"
      using same_index_items [of ?q "(d, occupancyFromKey (Some k))" i env ?rules db]
      by (simp add: night_row_def cov_request_def)
    obtain r where r: "price_item env ?q ?rules db i = Inr r" using priced mem by blast
    have "efp_variantId r = ?v" using price_item_index [OF r] by (simp add: cov_request_def)
    then have "prices ?v ?p db' d k = Some (efp_finalBasePrice r)"
      using final ran i r find_save_group [of r "pdb_effective db (?p, d, k)"] by (simp add: prices_def)
    then show ?thesis using True same r by (auto simp: cover_prices_def night_final_def set_missing)
  qed
  then show ?thesis using final ran by (simp add: fun_eq_iff)
qed


definition ex_collate :: "string \<Rightarrow> string \<Rightarrow> int" where
  "ex_collate a b = (if a = b then 0 else if list_all2 (\<lambda>x y. x = y) (take 1 a) (take 1 b) then -1 else 1)"

definition ex_pricing_env :: pricing_env where
  "ex_pricing_env = \<lparr>pen_text = \<lparr>te_localeCompare = ex_collate, te_toISOString = (\<lambda>_. [])\<rparr>, pen_sha1 = (\<lambda>_. ''v''),
     pen_now = 7, pen_rowId = (\<lambda>_. ''e'')\<rparr>"

definition ex_policy :: policy where
  "ex_policy = \<lparr>pol_id = ''o'', pol_ratePlanId = ''plan'', pol_baseAmount = 100, pol_currency = ''USD'', pol_baseAdults = 1,
     pol_baseChildren = 0, pol_extraAdultMode = ''fixed'', pol_extraAdultValue = 20, pol_childMode = ''fixed'',
     pol_childValue = 0, pol_effectiveFrom = 0, pol_effectiveTo = None\<rparr>"

definition ex_rule :: "string option \<Rightarrow> eligibility option \<Rightarrow> rule_row" where
  "ex_rule key e = \<lparr>cru_id = ''r'', cru_providerId = ''p'', cru_ruleSetId = ''s'', cru_category = ''price'',
     cru_type = ''percentage_discount'', cru_name = None, cru_value = Some 50,
     cru_config = PriceConfig \<lparr>cfg_dateRange = Some \<lparr>dr_from = None, dr_to = None, dr_eligibility = e\<rparr>,
       cfg_dayOfWeek = [], cfg_occupancyKey = key, cfg_sourceRuleId = None\<rparr>,
     cru_idempotencyKey = None, cru_payloadHash = None, cru_priority = 10, cru_isActive = True, cru_createdAt = 1\<rparr>"

definition ex_application :: application_row where
  "ex_application = \<lparr>apl_id = ''a'', apl_providerId = ''p'', apl_ruleSetId = ''s'', apl_ruleId = ''r'', apl_scope = ''rate_plan'',
     apl_scopeId = ''plan'', apl_startDate = None, apl_endDate = None, apl_validDays = None, apl_isActive = True\<rparr>"

definition ex_pricing_db :: pricing_db where
  "ex_pricing_db = \<lparr>pdb_rules = \<lparr>rdb_sets = [], rdb_rules = [ex_rule None None], rdb_applications = [ex_application]\<rparr>,
     pdb_policies = [ex_policy], pdb_effective = (\<lambda>_. [])\<rparr>"

definition ex_coverage :: coverage_input where
  "ex_coverage = \<lparr>cov_variantId = ''v'', cov_ratePlanId = ''plan'', cov_from = 10, cov_to = 12, cov_recomputeExisting = False,
     cov_maxCombinations = Some 2, cov_chunkSize = Some 1, cov_occupancy = None, cov_fallbackCurrency = None\<rparr>"

definition ex_covered :: "(pricing_error + int \<times> int) \<times> pricing_db" where
  "ex_covered = ensurePricingCoverage ex_pricing_env (\<lambda>_ _. [1]) (\<lambda>_. None) ex_coverage ex_pricing_db"

lemma ex_covered_result: "fst ex_covered = Inr (0, 2)"
  by code_simp

lemma ex_covered_run:
  "ensurePricingCoverage ex_pricing_env (\<lambda>_ _. [1]) (\<lambda>_. None) ex_coverage ex_pricing_db = (Inr (0, 2), snd ex_covered)"
  using ex_covered_result unfolding ex_covered_def by (metis prod.collapse)


text \<open>
  A coverage is idempotent. When it has returned, covering the same stay again without recomputing
  finds nothing missing, generates nothing and leaves every table as it is, in whatever schedule, at
  whatever time and although the first one may have recomputed every price.
\<close>

theorem coverage_idempotent:
  assumes "ensurePricingCoverage env schedule getCapacity inp db = (Inr counts, db')"
  shows "ensurePricingCoverage env' schedule' getCapacity (inp\<lparr>cov_recomputeExisting := False\<rparr>) db' = (Inr (0, 0), db')"
proof -
  let ?occs = "coverage_occupancies (getCapacity (cov_variantId inp)) inp"
  let ?inp = "inp\<lparr>cov_recomputeExisting := False\<rparr>"
  have occs: "coverage_occupancies cap ?inp = coverage_occupancies cap inp" for cap
    by (simp add: coverage_occupancies_def cong: option.case_cong)
  note refines = coverage_refines [OF assms]
  have "prices (cov_variantId inp) (cov_ratePlanId inp) db' d k \<noteq> None"
    if "d \<in> {cov_from inp..<cov_to inp}" "k \<in> fst ` set ?occs" for d k
    using refines that by (auto simp: cover_prices_def)
  then have "(d, k) \<notin> set (missing_combinations ?inp (map fst ?occs) db')" for d k
    by (simp add: set_missing)
  then have "missing_combinations ?inp (map fst ?occs) db' = []"
    by (cases "missing_combinations ?inp (map fst ?occs) db'") fastforce+
  then show ?thesis by (simp add: ensurePricingCoverage_def occs Let_def)
qed

theorem coverage_idempotent_witness:
  "ensurePricingCoverage ex_pricing_env (\<lambda>_ _. []) (\<lambda>_. None) (ex_coverage\<lparr>cov_recomputeExisting := False\<rparr>) (snd ex_covered) =
     (Inr (0, 0), snd ex_covered)"
  by (rule coverage_idempotent [OF ex_covered_run])

section \<open>The scope and the conditions of a rule\<close>

text \<open>A rule without its occupancy and its eligibility.\<close>

definition unscoped_config :: "price_config \<Rightarrow> price_config" where
  "unscoped_config c = c\<lparr>cfg_occupancyKey := None,
     cfg_dateRange := map_option (\<lambda>r. r\<lparr>dr_eligibility := None\<rparr>) (cfg_dateRange c)\<rparr>"

definition unscoped_rule :: "rule_row \<Rightarrow> rule_row" where
  "unscoped_rule r = r\<lparr>cru_config := (case cru_config r of PriceConfig c \<Rightarrow> PriceConfig (unscoped_config c) | c \<Rightarrow> c)\<rparr>"

definition unscoped :: "rules_db \<Rightarrow> rules_db" where
  "unscoped db = db\<lparr>rdb_rules := map unscoped_rule (rdb_rules db)\<rparr>"

definition plain_range :: "date_range option \<Rightarrow> date_range option" where
  "plain_range r = normalizeDateRange (map_option (\<lambda>r. r\<lparr>dr_eligibility := None\<rparr>) r)"

definition plain_price_rule :: "commercial_price_rule \<Rightarrow> commercial_price_rule" where
  "plain_price_rule r = r\<lparr>cpr_occupancyKey := None, cpr_dateRange := plain_range (cpr_dateRange r)\<rparr>"

definition plain_preview :: "preview_rule \<Rightarrow> preview_rule" where
  "plain_preview r = r\<lparr>pvr_dateRange := plain_range (pvr_dateRange r)\<rparr>"

definition strip_range :: "price_rule \<Rightarrow> price_rule" where
  "strip_range r = r\<lparr>pru_dateRange := (if pru_dateRange r = Some (None, None) then None else pru_dateRange r)\<rparr>"

lemma plain_range_normalize: "plain_range (normalizeDateRange r) = plain_range r"
  by (auto simp: plain_range_def normalizeDateRange_def split: option.splits)

lemma raw_unscoped: "priceRuleFromRaw (unscoped_rule r, a) = plain_price_rule (priceRuleFromRaw (r, a))"
proof (cases "cru_config r")
  case (PriceConfig c)
  then show ?thesis
    by (simp add: priceRuleFromRaw_def unscoped_rule_def price_config_of_def unscoped_config_def plain_price_rule_def
        plain_range_normalize Let_def) (simp add: plain_range_def trimmed_or_null_def js_trim_def)
next
  case (SellConfig s t d)
  then show ?thesis
    by (simp add: priceRuleFromRaw_def unscoped_rule_def price_config_of_def plain_price_rule_def plain_range_def
        normalizeDateRange_def trimmed_or_null_def js_trim_def Let_def)
qed

lemma product_map: "List.product (map f xs) ys = map (\<lambda>(x, y). (f x, y)) (List.product xs ys)"
  by (induction xs) auto

lemma list_unscoped:
  "listCommercialPriceRulesByRatePlan plan (unscoped db) = map plain_price_rule (listCommercialPriceRulesByRatePlan plan db)"
proof -
  have keep: "cru_id (unscoped_rule r) = cru_id r" "cru_category (unscoped_rule r) = cru_category r" for r
    by (simp_all add: unscoped_rule_def)
  show ?thesis
    by (simp add: listCommercialPriceRulesByRatePlan_def selectCommercialRules_def unscoped_def product_map filter_map
        comp_def split_def keep raw_unscoped)
qed

lemma preview_unscoped: "getPreviewRules te plan (unscoped db) = map plain_preview (getPreviewRules te plan db)"
proof -
  have order: "oldest_rule te (plain_price_rule a) (plain_price_rule b) = oldest_rule te a b" for a b
    by (simp add: oldest_rule_def plain_price_rule_def)
  show ?thesis
    by (simp add: getPreviewRules_def list_unscoped js_sort_map [of "oldest_rule te" plain_price_rule, OF order] filter_map comp_def)
      (simp add: plain_price_rule_def plain_preview_def)
qed

lemma canonical_plain: "strip_range (canonical_rule (plain_preview r)) = strip_range (canonical_rule r)"
  by (cases "pvr_dateRange r")
    (auto simp: canonical_rule_def plain_preview_def plain_range_def strip_range_def range_of_def normalizeDateRange_def)

lemma strip_range_simps [simp]:
  "pru_eligibility (strip_range r) = pru_eligibility r" "pru_id (strip_range r) = pru_id r"
  "pru_type (strip_range r) = pru_type r" "pru_value (strip_range r) = pru_value r"
  "pru_priority (strip_range r) = pru_priority r" "pru_createdAt (strip_range r) = pru_createdAt r"
  by (simp_all add: strip_range_def)

lemma strip_range_keeps [simp]:
  "normalizeRulePriority (strip_range r) = normalizeRulePriority r" "applyRule c (strip_range r) = applyRule c r"
  by (simp_all only: normalizeRulePriority_def applyRule_def strip_range_simps)

lemma evaluate_rule_strip: "evaluate_rule (evaluate_night b d k rules) (strip_range r) = evaluate_rule (evaluate_night b d k rules') r"
  unfolding evaluate_rule_def evaluate_night_def Let_def by (intro ext) simp

lemma evaluate_strip:
  "evaluatePricingRules te (evaluate_night b d k (map strip_range rules)) = evaluatePricingRules te (evaluate_night b d k rules)"
proof -
  have order: "compare_rules te (strip_range x) (strip_range y) = compare_rules te x y" for x y
    by (simp only: compare_rules_def strip_range_simps strip_range_keeps normalizeRuleCreatedAt_def)
  have keep: "isRuleApplicableForDate (strip_range r) e = isRuleApplicableForDate r e"
    "isRuleApplicableForOccupancy (strip_range r) o' = isRuleApplicableForOccupancy r o'"
    "pru_isActive (strip_range r) = pru_isActive r" for r e o'
    by (auto simp: isRuleApplicableForDate_def isRuleApplicableForOccupancy_def strip_range_def split: option.splits)
  have "applicable_rules te (evaluate_night b d k (map strip_range rules)) = map strip_range (applicable_rules te (evaluate_night b d k rules))"
    by (simp add: applicable_rules_def evaluate_night_def filter_map comp_def keep js_sort_map [of "compare_rules te" strip_range, OF order])
  moreover have "foldl (\<lambda>s r. evaluate_rule (evaluate_night b d k (map strip_range rules)) r s) s (map strip_range rs) =
      foldl (\<lambda>s r. evaluate_rule (evaluate_night b d k rules) r s) s rs" for s rs
    by (simp add: foldl_map evaluate_rule_strip [where rules' = rules])
  moreover have "start_evaluation (evaluate_night b d k (map strip_range rules)) = start_evaluation (evaluate_night b d k rules)"
    "ep_includeBreakdown (evaluate_night b d k rs) = False" "ep_includeEligibilityTrace (evaluate_night b d k rs) = False" for rs
    by (simp_all add: start_evaluation_def evaluate_night_def)
  ultimately show ?thesis by (simp add: evaluatePricingRules_def)
qed

lemma evaluate_plain:
  "evaluatePricingRules te (evaluate_night b d k (map (\<lambda>r. canonical_rule (plain_preview r)) rules)) =
   evaluatePricingRules te (evaluate_night b d k (map canonical_rule rules))"
proof -
  have "map strip_range (map (\<lambda>r. canonical_rule (plain_preview r)) rules) = map strip_range (map canonical_rule rules)"
    by (simp add: canonical_plain)
  then show ?thesis by (metis evaluate_strip)
qed

text \<open>
  The materialized price of a night does not depend on the occupancy a rule is scoped to nor on the
  eligibility (lead days, minimum nights) it asks for: with both taken out of every stored rule the
  computation has the same breakdown or fails with the same error, whatever the policy and the base. The
  repository returns neither of them to the computation, so a rule made for one occupancy or for early
  bookings sets the price of every occupancy and every booking.
\<close>

theorem materialized_price_ignores_scope:
  "map_sum id npr_breakdown (computeEffectivePricing te sha1 policy base (getPreviewRules te plan (unscoped db)) input) =
   map_sum id npr_breakdown (computeEffectivePricing te sha1 policy base (getPreviewRules te plan db) input)"
proof -
  let ?rules = "getPreviewRules te plan db"
  have ids: "pvr_type (plain_preview r) = pvr_type r" "pvr_id (plain_preview r) = pvr_id r" for r
    by (simp_all add: plain_preview_def)
  have base: "night_base te base (map plain_preview ?rules) input = night_base te base ?rules input"
    by (simp add: night_base_def comp_def evaluate_plain list_ex_iff ids Let_def cong: option.case_cong)
  show ?thesis
    by (cases "night_base te base ?rules input")
      (auto simp: computeEffectivePricing_def preview_unscoped base comp_def evaluate_plain Let_def)
qed

end
