(* ===== verification/Price_Rule_Correctness.thy ===== *)
theory Price_Rule_Correctness
  imports Price_Rule_Commands Effective_Pricing_Correctness
begin

text \<open>
  What the commands on price rules leave behind: the rows a creation writes, the id it answers, the
  previews of a rate plan before and after, and the nights a creation rematerializes.
\<close>

section \<open>Trimming\<close>

lemma dropWhile_idem: "dropWhile P (dropWhile P xs) = dropWhile P xs"
  by (induction xs) auto

lemma trim_trim [simp]: "js_trim (js_trim s) = js_trim s"
proof -
  have "dropWhile P (rev (dropWhile P (rev (dropWhile P xs)))) = rev (dropWhile P (rev (dropWhile P xs)))" for P and xs :: string
  proof (cases "rev (dropWhile P (rev (dropWhile P xs)))")
    case (Cons y ys)
    obtain zs where split: "dropWhile P xs = rev (dropWhile P (rev (dropWhile P xs))) @ zs"
      using takeWhile_dropWhile_id [of P "rev (dropWhile P xs)"] by (metis rev_append rev_rev_ident)
    then have "dropWhile P xs = y # ys @ zs" using Cons by simp
    then have "\<not> P y" by (metis dropWhile_eq_Cons_conv)
    then show ?thesis using Cons by simp
  qed (simp only: dropWhile.simps)
  then show ?thesis by (simp add: js_trim_def dropWhile_idem)
qed

section \<open>The rows of a created rule\<close>

lemma create_transaction_rows:
  assumes "create_transaction env ids c key hash db = Inr db'"
  shows "rdb_rules db' = rdb_rules db @ [price_rule_row env ids c key hash]"
    and "rdb_applications db' = rdb_applications db @ [price_application_row ids c (js_trim (pcm_ratePlanId c))]"
  using assms
  by (auto simp: create_transaction_def bind_db_def insert_set_def insert_rule_def insert_application_def
      typedCatalogAssignmentTarget_def Let_def split: sum.splits if_splits)

lemma keyless_create_rows:
  assumes "createCommercialPriceRule sha256 id env ids c db = (Inr r, db')" "pcm_idempotencyKey c = None"
  shows "rdb_rules db' = rdb_rules db @ [price_rule_row env ids c None None]"
    and "rdb_applications db' = rdb_applications db @ [price_application_row ids c (js_trim (pcm_ratePlanId c))]"
proof -
  have "create_transaction env ids c None None db = Inr db'"
    using assms
    by (auto simp: createCommercialPriceRule_def normalizeIdempotencyKey_def replayOrConflict_def findExisting_def js_trim_def
        text_or_empty_def split: sum.splits)
  then show "rdb_rules db' = rdb_rules db @ [price_rule_row env ids c None None]"
    "rdb_applications db' = rdb_applications db @ [price_application_row ids c (js_trim (pcm_ratePlanId c))]"
    by (rule create_transaction_rows)+
qed

lemma createDefault_rows:
  assumes "createDefaultPriceRule te owner sha256 env ids uuid p db = (Inr (i, plan), db')"
  obtains row app where "plan \<noteq> []" "i = uuid" "plan = js_trim (text_or_empty (dri_ratePlanId p))"
    "rdb_rules (pdb_rules db') = rdb_rules (pdb_rules db) @ [row]"
    "rdb_applications (pdb_rules db') = rdb_applications (pdb_rules db) @ [app]"
    "cru_id row = fid_ruleId ids" "cru_category row = ''price''" "cru_type row = canonical_type (dri_type p)" "cru_isActive row"
    "apl_ruleId app = fid_ruleId ids" "apl_scope app = ''rate_plan''" "apl_scopeId app = plan" "apl_isActive app"
proof -
  have valid: "input_fault te (rle_now env) p db = None"
    using assms by (cases "input_fault te (rle_now env) p db") (simp_all add: createDefaultPriceRule_def)
  then have "js_trim (text_or_empty (dri_ratePlanId p)) \<noteq> []" by (simp add: input_fault_def Let_def split: if_splits)
  with valid obtain f rdb where ok: "plan \<noteq> []" "i = uuid" "plan = js_trim (text_or_empty (dri_ratePlanId p))"
    and create: "repository_create owner sha256 env ids plan p (pdb_rules db) = (Inr f, rdb)" and db': "db' = db\<lparr>pdb_rules := rdb\<rparr>"
    using assms by (auto simp: createDefaultPriceRule_def Let_def split: sum.splits prod.splits)
  obtain c r where made: "createCommercialPriceRule sha256 id env ids c (pdb_rules db) = (Inr r, rdb)"
    and c: "pcm_idempotencyKey c = None" "pcm_ruleId c = None" "pcm_isActive c = None" "pcm_ratePlanId c = plan"
      "pcm_type c = canonical_type (dri_type p)"
    using create unfolding repository_create_def by (auto split: option.splits sum.splits prod.splits)
  have rows: "rdb_rules (pdb_rules db') = rdb_rules (pdb_rules db) @ [price_rule_row env ids c None None]"
    "rdb_applications (pdb_rules db') = rdb_applications (pdb_rules db) @ [price_application_row ids c (js_trim plan)]"
    using keyless_create_rows [OF made c(1)] c(4) db' by simp_all
  show thesis
    by (rule that [OF ok rows])
      (use c ok(3) in \<open>simp_all add: price_rule_row_def price_application_row_def chosen_rule_id_def command_active_def\<close>)
qed

lemma joined_rule:
  assumes "row \<in> set (rdb_rules db)" "app \<in> set (rdb_applications db)" "apl_ruleId app = cru_id row" "P (row, app)"
  shows "(row, app) \<in> set (selectCommercialRules P db)"
  using assms by (simp add: selectCommercialRules_def)

lemma first_found: "(case xs of [] \<Rightarrow> None | x # _ \<Rightarrow> Some (f x)) \<noteq> None \<longleftrightarrow> xs \<noteq> []"
  by (cases xs) auto

text \<open>
  The id that creating a rule on a rate plan answers is not the id of the rule. When the creation
  has succeeded, the rule is stored and found under the id its repository drew for it, while deleting
  the id the caller was given finds nothing and leaves every table as it is. The use case draws an id
  and passes it to the repository, which does not pass it on.
\<close>

theorem created_rule_id_dangles:
  assumes "createDefaultPriceRule te owner sha256 env ids uuid p db = (Inr (i, plan), db')"
    and "uuid \<noteq> fid_ruleId ids" "uuid \<notin> set (map cru_id (rdb_rules (pdb_rules db)))"
    and "uuid \<noteq> []" "js_trim uuid = uuid"
  shows "getCommercialPriceRule (fid_ruleId ids) (Some plan) (pdb_rules db') \<noteq> None \<and>
    deletePriceRule i db' = (Inr False, db')"
proof -
  from assms(1) obtain row app where i: "i = uuid" and plan: "plan = js_trim (text_or_empty (dri_ratePlanId p))"
    and rows: "rdb_rules (pdb_rules db') = rdb_rules (pdb_rules db) @ [row]"
      "rdb_applications (pdb_rules db') = rdb_applications (pdb_rules db) @ [app]"
    and row: "cru_id row = fid_ruleId ids" "cru_category row = ''price''"
    and app: "apl_ruleId app = fid_ruleId ids" "apl_scope app = ''rate_plan''" "apl_scopeId app = plan"
    by (rule createDefault_rows)
  let ?P = "\<lambda>(r, a). cru_id r = fid_ruleId ids \<and> cru_category r = ''price'' \<and> apl_scope a = ''rate_plan'' \<and>
    (case Some plan of None \<Rightarrow> True | Some [] \<Rightarrow> True | Some q \<Rightarrow> apl_scopeId a = q)"
  have "(row, app) \<in> set (selectCommercialRules ?P (pdb_rules db'))"
    using rows row app by (intro joined_rule) (auto split: list.split)
  then have "selectCommercialRules ?P (pdb_rules db') \<noteq> []" by (metis empty_iff list.set(1))
  then have "getCommercialPriceRule (fid_ruleId ids) (Some plan) (pdb_rules db') \<noteq> None"
    unfolding getCommercialPriceRule_def first_found .
  moreover have "selectCommercialRules (\<lambda>(r, a). cru_id r = uuid \<and> Q r a) (pdb_rules db') = []" for Q
    using assms(2,3) rows row by (auto simp: selectCommercialRules_def filter_empty_conv)
  then have "getCommercialPriceRule uuid None (pdb_rules db') = None" by (simp add: getCommercialPriceRule_def)
  ultimately show ?thesis using assms(4,5) i by (simp add: deletePriceRule_def)
qed

text \<open>
  A rule with a fixed price or a base adjustment ends the price preview of its rate plan: after
  it has been created the preview fails with an unsupported rule type, at every later time, although
  the creation accepts the type and the evaluation applies it.
\<close>

theorem preview_refuses_created_rule:
  assumes "createDefaultPriceRule te owner sha256 env ids uuid p db = (Inr (i, plan), db')"
    and "canonical_type (dri_type p) \<in> {''fixed_override'', ''base_adjustment''}"
  shows "\<exists>t. computePricePreview te now (Some plan) db' = Inl (PreviewUnsupportedType t)"
proof -
  from assms(1) obtain row app where ne: "plan \<noteq> []" and plan: "plan = js_trim (text_or_empty (dri_ratePlanId p))"
    and rows: "rdb_rules (pdb_rules db') = rdb_rules (pdb_rules db) @ [row]"
      "rdb_applications (pdb_rules db') = rdb_applications (pdb_rules db) @ [app]"
    and row: "cru_id row = fid_ruleId ids" "cru_category row = ''price''" "cru_type row = canonical_type (dri_type p)" "cru_isActive row"
    and app: "apl_ruleId app = fid_ruleId ids" "apl_scope app = ''rate_plan''" "apl_scopeId app = plan" "apl_isActive app"
    by (rule createDefault_rows)
  let ?r = "priceRuleFromRaw (row, app)"
  have "(row, app) \<in> set (selectCommercialRules (\<lambda>(r, a). cru_category r = ''price'' \<and> apl_scope a = ''rate_plan'' \<and>
      apl_scopeId a = plan) (pdb_rules db'))"
    using rows row app by (intro joined_rule) auto
  then have "?r \<in> set (listCommercialPriceRulesByRatePlan plan (pdb_rules db'))"
    by (simp add: listCommercialPriceRulesByRatePlan_def del: split_paired_All)
  moreover have "cpr_isActive ?r" "cpr_type ?r = canonical_type (dri_type p)"
    using row app by (simp_all add: priceRuleFromRaw_def Let_def)
  ultimately obtain r where "r \<in> set (getPreviewRules te plan (pdb_rules db'))" "pvr_type r = canonical_type (dri_type p)"
    by (force simp: getPreviewRules_def)
  moreover have "js_trim (canonical_type (dri_type p)) \<notin> set allowedRuleTypes"
  proof -
    have "js_trim ''fixed_override'' \<notin> set allowedRuleTypes" "js_trim ''base_adjustment'' \<notin> set allowedRuleTypes"
      by code_simp+
    then show ?thesis using assms(2) by auto
  qed
  ultimately have "find (\<lambda>r. js_trim (pvr_type r) \<notin> set allowedRuleTypes) (getPreviewRules te plan (pdb_rules db')) \<noteq> None"
    by (auto simp: find_None_iff)
  then show ?thesis using ne plan by (auto simp: computePricePreview_def text_or_empty_def Let_def)
qed

section \<open>The preview of a candidate\<close>

lemma select_updated:
  assumes "\<And>r. cru_id (f r) = cru_id r" "\<And>a. apl_ruleId (g a) = apl_ruleId a" "\<And>r a. P (f r, g a) = P (r, a)"
  shows "filter (\<lambda>(r, a). apl_ruleId a = cru_id r \<and> P (r, a)) (List.product (map f rs) (map g as)) =
     map (\<lambda>(r, a). (f r, g a)) (filter (\<lambda>(r, a). apl_ruleId a = cru_id r \<and> P (r, a)) (List.product rs as))"
proof -
  have "List.product (map f rs) (map g as) = map (\<lambda>(r, a). (f r, g a)) (List.product rs as)"
    by (induction rs) auto
  then show ?thesis by (simp add: filter_map comp_def assms split_def)
qed

lemma existing_rule_pausing:
  "existing_rule (s\<lparr>str_isActive := b\<rparr>) = existing_rule s" "stored_order te (s\<lparr>str_isActive := b\<rparr>) (s'\<lparr>str_isActive := b\<rparr>) = stored_order te s s'"
  by (simp_all add: existing_rule_def stored_order_def)

definition shown :: "stored_rule \<Rightarrow> stored_rule" where
  "shown s = s\<lparr>str_isActive := True\<rparr>"

lemma shown_rule_of:
  "shown (stored_rule_of (priceRuleFromRaw (r\<lparr>cru_isActive := b\<rparr>, a))) = shown (stored_rule_of (priceRuleFromRaw (r, a)))"
  "shown (stored_rule_of (priceRuleFromRaw (r, a\<lparr>apl_isActive := b\<rparr>))) = shown (stored_rule_of (priceRuleFromRaw (r, a)))"
  by (simp_all add: shown_def stored_rule_of_def priceRuleFromRaw_def price_config_of_def Let_def)

lemma shown_rules: "map existing_rule (listRulesByRatePlan te plan db) =
   map existing_rule (js_sort (stored_order te) (map (shown \<circ> stored_rule_of) (listCommercialPriceRulesByRatePlan plan db)))"
proof -
  have order: "stored_order te (shown s) (shown s') = stored_order te s s'" for s s'
    by (simp add: shown_def existing_rule_pausing)
  have "map existing_rule (map shown rs) = map existing_rule rs" for rs
    by (simp add: shown_def existing_rule_pausing)
  then show ?thesis
    by (simp add: listRulesByRatePlan_def js_sort_map [of "stored_order te" shown, OF order] flip: map_map)
qed

lemma shown_rules_pausing:
  "map (shown \<circ> stored_rule_of) (listCommercialPriceRulesByRatePlan plan (setCommercialRuleActive i b db)) =
   map (shown \<circ> stored_rule_of) (listCommercialPriceRulesByRatePlan plan db)"
proof -
  let ?f = "\<lambda>r. if cru_id r = i then r\<lparr>cru_isActive := b\<rparr> else r"
  let ?g = "\<lambda>a. if apl_ruleId a = i then a\<lparr>apl_isActive := b\<rparr> else a"
  have rows: "rdb_rules (setCommercialRuleActive i b db) = map ?f (rdb_rules db)"
    "rdb_applications (setCommercialRuleActive i b db) = map ?g (rdb_applications db)"
    by (simp_all add: setCommercialRuleActive_def set_status_def update_rows_def Let_def)
  have same: "shown (stored_rule_of (priceRuleFromRaw (?f r, ?g a))) = shown (stored_rule_of (priceRuleFromRaw (r, a)))" for r a
    by (simp add: shown_rule_of)
  show ?thesis
    unfolding listCommercialPriceRulesByRatePlan_def selectCommercialRules_def rows
    by (subst select_updated) (auto simp: comp_def case_prod_beta same)
qed

text \<open>
  Pausing or resuming a rule does not change what the preview of a candidate rule shows: it takes
  every stored rule of the rate plan as active, so a paused rule still moves the prices before and after
  the candidate, while the materialized prices leave it out.
\<close>

theorem preview_ignores_pausing:
  "previewCandidate te now summary plan c (db\<lparr>pdb_rules := setCommercialRuleActive i b (pdb_rules db)\<rparr>) =
   previewCandidate te now summary plan c db"
proof -
  have same: "map existing_rule (listRulesByRatePlan te plan (setCommercialRuleActive i b (pdb_rules db))) =
      map existing_rule (listRulesByRatePlan te plan (pdb_rules db))"
    unfolding shown_rules shown_rules_pausing ..
  have rules: "pdb_rules (db\<lparr>pdb_rules := x\<rparr>) = x" for x by simp
  show ?thesis unfolding previewCandidate_def Let_def rules same ..
qed

section \<open>The nights a creation rematerializes\<close>

text \<open>
  A price rule that is created reprices one occupancy. When the command has succeeded, the nights of
  the rule's range (sixty nights from its start when it has no end) have their price under the new rules
  for the occupancy of the command, or for two adults when it names none, and every other price stays as
  it was: a rule made for all occupancies leaves the prices of the others stale.
\<close>

theorem createRule_reprices_one_occupancy:
  assumes "createRule penv schedule getCapacity sha256 env ids ctx c db = (Inr (i, missing, generated), db')"
  shows "prices (rctx_variantId ctx) (rctx_ratePlanId ctx) db' d k =
    (if fst (impact_range c (toISODate (rle_now env))) \<le> d \<and> d < snd (impact_range c (toISODate (rle_now env))) \<and>
        k = buildOccupancyKey (occupancyFromKey (rcm_occupancyKey c))
     then Some (night_final penv (rematerialize_input ctx c (toISODate (rle_now env))) (db\<lparr>pdb_rules := pdb_rules db'\<rparr>) d k)
     else prices (rctx_variantId ctx) (rctx_ratePlanId ctx) db d k)"
proof -
  let ?inp = "rematerialize_input ctx c (toISODate (rle_now env))"
  obtain rdb where run: "ensurePricingCoverage penv schedule getCapacity ?inp (db\<lparr>pdb_rules := rdb\<rparr>) = (Inr (missing, generated), db')"
    using assms unfolding createRule_def by (auto split: option.splits sum.splits prod.splits)
  have inp: "cov_variantId ?inp = rctx_variantId ctx" "cov_ratePlanId ?inp = rctx_ratePlanId ctx"
    "cov_from ?inp = fst (impact_range c (toISODate (rle_now env)))" "cov_to ?inp = snd (impact_range c (toISODate (rle_now env)))"
    "cov_recomputeExisting ?inp"
    "fst ` set (coverage_occupancies cap ?inp) = {buildOccupancyKey (occupancyFromKey (rcm_occupancyKey c))}" for cap
    by (simp_all add: rematerialize_input_def coverage_occupancies_def)
  have keep: "prices v p (db\<lparr>pdb_rules := x\<rparr>) = prices v p db" for v p x by (simp add: prices_def fun_eq_iff)
  show ?thesis
    using coverage_refines [OF run] unfolding inp keep
    by (simp add: cover_prices_def inp(5))
qed

definition ex_rule_env :: rule_env where
  "ex_rule_env = \<lparr>rle_targetExists = (\<lambda>_ _. True), rle_providerExists = (\<lambda>_. True), rle_now = 864000000\<rparr>"

definition ex_ids :: fresh_ids where
  "ex_ids = \<lparr>fid_ruleSetId = ''s9'', fid_ruleId = ''r9'', fid_applicationId = ''a9''\<rparr>"

definition ex_rule_input :: default_rule_input where
  "ex_rule_input = \<lparr>dri_ratePlanId = Some ''plan'', dri_type = ''fixed'', dri_value = 70, dri_priority = None, dri_dateRange = None,
     dri_dayOfWeek = None, dri_contextKey = None\<rparr>"

definition ex_created :: "(command_fault + string \<times> string) \<times> pricing_db" where
  "ex_created = createDefaultPriceRule (pen_text ex_pricing_env) (\<lambda>_. Some ''p'') (\<lambda>_. []) ex_rule_env ex_ids ''u'' ex_rule_input ex_pricing_db"

lemma ex_created_run:
  "createDefaultPriceRule (pen_text ex_pricing_env) (\<lambda>_. Some ''p'') (\<lambda>_. []) ex_rule_env ex_ids ''u'' ex_rule_input ex_pricing_db =
     (Inr (''u'', ''plan''), snd ex_created)"
proof -
  have "fst ex_created = Inr (''u'', ''plan'')" by code_simp
  then show ?thesis unfolding ex_created_def by (metis prod.collapse)
qed

theorem created_rule_id_dangles_witness:
  "getCommercialPriceRule ''r9'' (Some ''plan'') (pdb_rules (snd ex_created)) \<noteq> None \<and>
   deletePriceRule ''u'' (snd ex_created) = (Inr False, snd ex_created)"
proof -
  have "''u'' \<noteq> fid_ruleId ex_ids" "''u'' \<notin> set (map cru_id (rdb_rules (pdb_rules ex_pricing_db)))" "js_trim ''u'' = ''u''"
    by code_simp+
  then show ?thesis using created_rule_id_dangles [OF ex_created_run] by (simp add: ex_ids_def)
qed

theorem preview_refuses_created_rule_witness:
  "\<exists>t. computePricePreview (pen_text ex_pricing_env) 864000000 (Some ''plan'') (snd ex_created) = Inl (PreviewUnsupportedType t)"
proof -
  have "canonical_type (dri_type ex_rule_input) \<in> {''fixed_override'', ''base_adjustment''}" by code_simp
  then show ?thesis by (rule preview_refuses_created_rule [OF ex_created_run])
qed

definition ex_command :: rule_command where
  "ex_command = \<lparr>rcm_type = ''percentage_discount'', rcm_value = Some 10, rcm_priority = 20, rcm_dateFrom = None,
     rcm_dateTo = Some (Some 10), rcm_dayOfWeek = None, rcm_contextKey = None, rcm_occupancyKey = None, rcm_currency = None,
     rcm_previewFrom = None, rcm_previewDays = None, rcm_requestDate = None, rcm_checkIn = None, rcm_checkOut = None,
     rcm_nights = None, rcm_idempotencyKey = None, rcm_eligibility = None\<rparr>"

definition ex_context :: rule_context where
  "ex_context = \<lparr>rctx_providerId = ''p'', rctx_variantId = ''v'', rctx_ratePlanId = ''plan''\<rparr>"

text \<open>Three adults pay 70 on the night before the rule that takes another tenth off.\<close>

definition ex_stale_db :: pricing_db where
  "ex_stale_db = ex_pricing_db\<lparr>pdb_effective := (\<lambda>ix. if ix = (''plan'', 10, ''a3_c0_i0'') then
     [\<lparr>efp_id = ''e'', efp_variantId = ''v'', efp_ratePlanId = ''plan'', efp_date = 10, efp_occupancyKey = ''a3_c0_i0'',
       efp_baseComponent = 100, efp_occupancyAdjustment = 40, efp_ruleAdjustment = -70, efp_finalBasePrice = 70,
       efp_currency = ''USD'', efp_computedAt = 0, efp_sourceVersion = []\<rparr>] else [])\<rparr>"

definition ex_new_rules :: rules_db where
  "ex_new_rules = \<lparr>rdb_sets = [\<lparr>rst_id = ''s9'', rst_providerId = ''p'', rst_name = auto_name, rst_status = ''active'', rst_priority = 20,
       rst_dateFrom = None, rst_dateTo = Some (Some 10)\<rparr>],
     rdb_rules = [ex_rule None None,
       \<lparr>cru_id = ''r9'', cru_providerId = ''p'', cru_ruleSetId = ''s9'', cru_category = ''price'',
        cru_type = ''percentage_discount'', cru_name = None, cru_value = Some 10,
        cru_config = PriceConfig \<lparr>cfg_dateRange = Some \<lparr>dr_from = None, dr_to = Some (Some 10), dr_eligibility = None\<rparr>,
          cfg_dayOfWeek = [], cfg_occupancyKey = None, cfg_sourceRuleId = None\<rparr>,
        cru_idempotencyKey = None, cru_payloadHash = None, cru_priority = 20, cru_isActive = True, cru_createdAt = 864000000\<rparr>],
     rdb_applications = [ex_application,
       \<lparr>apl_id = ''a9'', apl_providerId = ''p'', apl_ruleSetId = ''s9'', apl_ruleId = ''r9'', apl_scope = ''rate_plan'',
        apl_scopeId = ''plan'', apl_startDate = None, apl_endDate = Some (Some 10), apl_validDays = None, apl_isActive = True\<rparr>]\<rparr>"

definition ex_repriced :: "(pricing_error + int \<times> int) \<times> pricing_db" where
  "ex_repriced = ensurePricingCoverage ex_pricing_env (\<lambda>_ _. []) (\<lambda>_. None) (rematerialize_input ex_context ex_command 10)
     (ex_stale_db\<lparr>pdb_rules := ex_new_rules\<rparr>)"

lemma ex_createRule:
  "createRule ex_pricing_env (\<lambda>_ _. []) (\<lambda>_. None) (\<lambda>_. []) ex_rule_env ex_ids ex_context ex_command ex_stale_db =
     (Inr (''r9'', 0, 1), snd ex_repriced)"
proof -
  have amount: "rcm_value ex_command = Some 10" by (simp add: ex_command_def)
  have range: "dateRange ex_command = Inr (Some \<lparr>dr_from = None, dr_to = Some (Some 10), dr_eligibility = None\<rparr>)" by code_simp
  have made: "createCommercialPriceRule (\<lambda>_. []) id ex_rule_env ex_ids
      \<lparr>pcm_providerId = rctx_providerId ex_context, pcm_ratePlanId = rctx_ratePlanId ex_context,
       pcm_name = context_name (rcm_contextKey ex_command), pcm_type = rcm_type ex_command, pcm_value = 10,
       pcm_priority = Some (rcm_priority ex_command),
       pcm_dateRange = Some \<lparr>dr_from = None, dr_to = Some (Some 10), dr_eligibility = None\<rparr>,
       pcm_dayOfWeek = rcm_dayOfWeek ex_command, pcm_occupancyKey = rcm_occupancyKey ex_command, pcm_isActive = None,
       pcm_sourceRuleId = None, pcm_idempotencyKey = rcm_idempotencyKey ex_command, pcm_ruleId = None\<rparr> (pdb_rules ex_stale_db) =
      (Inr \<lparr>crr_ruleSetId = ''s9'', crr_ruleId = ''r9'', crr_replayed = False\<rparr>, ex_new_rules)"
    by code_simp
  have today: "toISODate (rle_now ex_rule_env) = 10" by code_simp
  have "fst ex_repriced = Inr (0, 1)" by code_simp
  then have covered: "ensurePricingCoverage ex_pricing_env (\<lambda>_ _. []) (\<lambda>_. None) (rematerialize_input ex_context ex_command 10)
      (ex_stale_db\<lparr>pdb_rules := ex_new_rules\<rparr>) = (Inr (0, 1), snd ex_repriced)"
    unfolding ex_repriced_def by (metis prod.collapse)
  show ?thesis unfolding createRule_def by (simp add: amount range made today covered)
qed

theorem createRule_reprices_one_occupancy_witness:
  "prices ''v'' ''plan'' (snd ex_repriced) 10 ''a2_c0_i0'' = Some 54 \<and>
   prices ''v'' ''plan'' (snd ex_repriced) 10 ''a3_c0_i0'' = Some 70 \<and>
   night_final ex_pricing_env (rematerialize_input ex_context ex_command 10) (ex_stale_db\<lparr>pdb_rules := ex_new_rules\<rparr>) 10 ''a3_c0_i0'' = 63"
proof -
  note reprices = createRule_reprices_one_occupancy [OF ex_createRule]
  have range: "impact_range ex_command 10 = (10, 11)"
    and today: "toISODate (rle_now ex_rule_env) = 10"
    and key: "buildOccupancyKey (occupancyFromKey (rcm_occupancyKey ex_command)) = ''a2_c0_i0''" by code_simp+
  have rules: "pdb_rules (snd ex_repriced) = ex_new_rules" by code_simp
  have night: "night_final ex_pricing_env (rematerialize_input ex_context ex_command 10)
      (ex_stale_db\<lparr>pdb_rules := ex_new_rules\<rparr>) 10 ''a2_c0_i0'' = 54"
    by code_simp
  have stale: "prices ''v'' ''plan'' ex_stale_db 10 ''a3_c0_i0'' = Some 70" by code_simp
  have due: "night_final ex_pricing_env (rematerialize_input ex_context ex_command 10)
      (ex_stale_db\<lparr>pdb_rules := ex_new_rules\<rparr>) 10 ''a3_c0_i0'' = 63"
    by code_simp
  have ctx: "rctx_variantId ex_context = ''v''" "rctx_ratePlanId ex_context = ''plan''" by (simp_all add: ex_context_def)
  show ?thesis
    using reprices [of 10 "''a2_c0_i0''"] reprices [of 10 "''a3_c0_i0''"] due stale
    unfolding range today key rules night ctx by simp
qed

end
