(* ===== verification/Restrictions.thy ===== *)
theory Restrictions
  imports Effective_Pricing
begin

text \<open>
  The restrictions of a night (modules/rules/infrastructure/materializers/recompute-effective-restrictions.db.ts):
  the sellability rules that cover it, their projection onto the row of a variant, a rate plan and a date,
  and the recomputation of a range of dates. Which variants and rate plans exist is decided by the catalog
  tables, which this component only reads. The dates of an application are ISO days; an application
  without one matches no range, as the comparison with a null does in SQL.
\<close>

section \<open>The catalog\<close>

record catalog =
  cat_product :: "string \<Rightarrow> (string \<times> string) option"
  cat_activePlans :: "string \<Rightarrow> string list"
  cat_defaultPlans :: "string \<Rightarrow> string list"
  cat_variantsOfProduct :: "string \<Rightarrow> string list"
  cat_variantOfPlan :: "string \<Rightarrow> string option"
  cat_capacity :: "string \<Rightarrow> capacity option"
  cat_planNames :: "(string \<times> string option) list"

section \<open>Rules\<close>

record restriction_rule =
  rtr_id :: string
  rtr_scope :: string
  rtr_scopeId :: string
  rtr_type :: string
  rtr_value :: "rat option"
  rtr_startDate :: day
  rtr_endDate :: day
  rtr_validDays :: "int list"
  rtr_priority :: rat

definition restriction_types :: "string list" where
  "restriction_types = [''stop_sell'', ''min_los'', ''max_los'', ''cta'', ''ctd'', ''min_lead_time'', ''max_lead_time'']"

definition restriction_days :: "rat list option \<Rightarrow> int list" where
  "restriction_days value = map floor (filter (\<lambda>d. 0 \<le> d \<and> d \<le> 7)
     (js_dedup (filter js_isInteger (case value of None \<Rightarrow> [] | Some ds \<Rightarrow> ds))))"

definition normalizeRule :: "rule_row \<times> application_row \<Rightarrow> restriction_rule option" where
  "normalizeRule row = (case row of (r, a) \<Rightarrow>
     (case (apl_startDate a, apl_endDate a) of
        (Some (Some start), Some (Some stop)) \<Rightarrow>
          if cru_type r \<notin> set restriction_types then None
          else Some \<lparr>rtr_id = cru_id r, rtr_scope = apl_scope a, rtr_scopeId = apl_scopeId a, rtr_type = cru_type r,
            rtr_value = cru_value r, rtr_startDate = start, rtr_endDate = stop,
            rtr_validDays = restriction_days (apl_validDays a), rtr_priority = cru_priority r\<rparr>
      | _ \<Rightarrow> None))"

text \<open>\<open>a."startDate" <= to AND a."endDate" >= from\<close> on texts of days.\<close>

definition application_overlaps :: "application_row \<Rightarrow> day \<Rightarrow> day \<Rightarrow> bool" where
  "application_overlaps a from' toInclusive \<longleftrightarrow>
     (case (apl_startDate a, apl_endDate a) of
        (Some (Some start), Some (Some stop)) \<Rightarrow> start \<le> toInclusive \<and> from' \<le> stop
      | _ \<Rightarrow> False)"

definition loadApplicableRules :: "catalog \<Rightarrow> string \<Rightarrow> string \<Rightarrow> day \<Rightarrow> day \<Rightarrow> rules_db \<Rightarrow> restriction_rule list" where
  "loadApplicableRules cat variantId ratePlanId from' to db =
     (case cat_product cat variantId of
        None \<Rightarrow> []
      | Some (productId, _) \<Rightarrow>
          (let scopeIds = filter (\<lambda>i. i \<noteq> []) [productId, variantId, ratePlanId]
           in if scopeIds = [] then []
              else List.map_filter normalizeRule (selectCommercialRules (\<lambda>(r, a). cru_isActive r \<and> apl_isActive a \<and>
                apl_scopeId a \<in> set scopeIds \<and> application_overlaps a from' (to - 1) \<and>
                cru_category r \<noteq> ''price'') db)))"

definition overlapsDate :: "restriction_rule \<Rightarrow> day \<Rightarrow> bool" where
  "overlapsDate rule date \<longleftrightarrow>
     (if date < rtr_startDate rule \<or> rtr_endDate rule < date then False
      else if rtr_validDays rule = [] then True
      else let day0 = getUTCDay date; day1 = (if day0 = 0 then 7 else day0)
           in day1 \<in> set (rtr_validDays rule) \<or> day0 \<in> set (rtr_validDays rule))"

section \<open>The projection of a day\<close>

record restriction_row =
  err_id :: string
  err_variant :: string
  err_plan :: "string option"
  err_date :: day
  err_minStay :: "rat option"
  err_maxStay :: "rat option"
  err_minLeadTime :: "rat option"
  err_maxLeadTime :: "rat option"
  err_cta :: bool
  err_ctd :: bool
  err_stopSell :: bool
  err_priority :: rat
  err_computedAt :: ms

text \<open>A rule without a value counts as one of value 0, since \<open>Number(null)\<close> is 0.\<close>

definition rule_values :: "string \<Rightarrow> restriction_rule list \<Rightarrow> rat list" where
  "rule_values type rules =
     map (\<lambda>r. max 1 (case rtr_value r of None \<Rightarrow> 0 | Some v \<Rightarrow> v)) (filter (\<lambda>r. rtr_type r = type) rules)"

definition greatest :: "rat list \<Rightarrow> rat option" where
  "greatest xs = (case xs of [] \<Rightarrow> None | y # ys \<Rightarrow> Some (fold max ys y))"

definition least :: "rat list \<Rightarrow> rat option" where
  "least xs = (case xs of [] \<Rightarrow> None | y # ys \<Rightarrow> Some (fold min ys y))"

definition has_rule :: "string \<Rightarrow> restriction_rule list \<Rightarrow> bool" where
  "has_rule type rules = list_ex (\<lambda>r. rtr_type r = type) rules"

definition computeDayProjection :: "string \<Rightarrow> string \<Rightarrow> string \<Rightarrow> ms \<Rightarrow> day \<Rightarrow> restriction_rule list \<Rightarrow> restriction_row" where
  "computeDayProjection rowId variantId ratePlanId computedAt date rules =
     \<lparr>err_id = rowId, err_variant = variantId, err_plan = Some ratePlanId, err_date = date,
      err_minStay = greatest (rule_values ''min_los'' rules), err_maxStay = least (rule_values ''max_los'' rules),
      err_minLeadTime = greatest (rule_values ''min_lead_time'' rules),
      err_maxLeadTime = least (rule_values ''max_lead_time'' rules),
      err_cta = has_rule ''cta'' rules, err_ctd = has_rule ''ctd'' rules, err_stopSell = has_rule ''stop_sell'' rules,
      err_priority = (case least (map rtr_priority rules) of None \<Rightarrow> 0 | Some p \<Rightarrow> p), err_computedAt = computedAt\<rparr>"

section \<open>The table\<close>

text \<open>
  The unique index is over variant, rate plan and date. The columns of the stays, the lead times and the
  priority are integers: a statement with a fraction in one of them fails as a whole.
\<close>

definition restriction_index :: "restriction_row \<Rightarrow> string \<times> string option \<times> day" where
  "restriction_index r = (err_variant r, err_plan r, err_date r)"

definition integer_column :: "rat option \<Rightarrow> bool" where
  "integer_column v = (case v of None \<Rightarrow> True | Some x \<Rightarrow> js_isInteger x)"

definition restriction_check :: "restriction_row \<Rightarrow> bool" where
  "restriction_check r \<longleftrightarrow> integer_column (err_minStay r) \<and> integer_column (err_maxStay r) \<and>
     integer_column (err_minLeadTime r) \<and> integer_column (err_maxLeadTime r) \<and> js_isInteger (err_priority r)"

definition upsert_restriction :: "restriction_row \<Rightarrow> restriction_row list \<Rightarrow> restriction_row list" where
  "upsert_restriction r rows =
     (if list_ex (\<lambda>x. restriction_index x = restriction_index r) rows
      then update_rows (\<lambda>x. restriction_index x = restriction_index r) (\<lambda>x. r\<lparr>err_id := err_id x\<rparr>) rows
      else rows @ [r])"

datatype restriction_error = InvalidRestrictionRange | RestrictionColumnError

record restriction_result =
  rsr_variantIds :: "string list"
  rsr_ratePlanIds :: "string list"
  rsr_from :: date_text
  rsr_to :: date_text
  rsr_rows :: nat

section \<open>Recomputing a range\<close>

definition restriction_rows ::
  "catalog \<Rightarrow> (string \<Rightarrow> string \<Rightarrow> day \<Rightarrow> string) \<Rightarrow> ms \<Rightarrow> string \<Rightarrow> day \<Rightarrow> day \<Rightarrow> rules_db \<Rightarrow> restriction_row list" where
  "restriction_rows cat rowId now variantId from' to rules =
     concat (map (\<lambda>plan.
       let applicable = loadApplicableRules cat variantId plan from' to rules
       in map (\<lambda>date. computeDayProjection (rowId variantId plan date) variantId plan now date
            (filter (\<lambda>r. overlapsDate r date) applicable)) [from'..to - 1])
       (if cat_product cat variantId = None then [] else cat_activePlans cat variantId))"

definition recomputeEffectiveRestrictionsForVariantRange ::
  "catalog \<Rightarrow> (string \<Rightarrow> string \<Rightarrow> day \<Rightarrow> string) \<Rightarrow> ms \<Rightarrow> rules_db \<Rightarrow> string \<Rightarrow> date_text \<Rightarrow> date_text \<Rightarrow> restriction_row list
     \<Rightarrow> (restriction_error + restriction_result) \<times> restriction_row list" where
  "recomputeEffectiveRestrictionsForVariantRange cat rowId now rules variantId from' to table =
     (case (from', to) of
        (Some start, Some stop) \<Rightarrow>
          if stop \<le> start then (Inl InvalidRestrictionRange, table)
          else let rows = restriction_rows cat rowId now variantId start stop rules
               in if \<not> list_all restriction_check rows then (Inl RestrictionColumnError, table)
                  else (Inr \<lparr>rsr_variantIds = [variantId],
                      rsr_ratePlanIds = (if cat_product cat variantId = None then [] else cat_activePlans cat variantId),
                      rsr_from = from', rsr_to = to, rsr_rows = length rows\<rparr>,
                    fold upsert_restriction rows table)
      | _ \<Rightarrow> (Inl InvalidRestrictionRange, table))"

definition resolveVariantIdsForScope :: "catalog \<Rightarrow> string \<Rightarrow> string \<Rightarrow> string list" where
  "resolveVariantIdsForScope cat scope scopeId =
     (if scope = ''variant'' then [scopeId]
      else if scope = ''product'' then cat_variantsOfProduct cat scopeId
      else case cat_variantOfPlan cat scopeId of None \<Rightarrow> [] | Some [] \<Rightarrow> [] | Some v \<Rightarrow> [v])"

fun recompute_variants ::
  "catalog \<Rightarrow> (string \<Rightarrow> string \<Rightarrow> day \<Rightarrow> string) \<Rightarrow> ms \<Rightarrow> rules_db \<Rightarrow> date_text \<Rightarrow> date_text \<Rightarrow> string list \<Rightarrow> nat \<times> string list
     \<Rightarrow> restriction_row list \<Rightarrow> (restriction_error + nat \<times> string list) \<times> restriction_row list" where
  "recompute_variants cat rowId now rules from' to [] acc table = (Inr acc, table)"
| "recompute_variants cat rowId now rules from' to (v # vs) acc table =
     (case recomputeEffectiveRestrictionsForVariantRange cat rowId now rules v from' to table of
        (Inl e, table') \<Rightarrow> (Inl e, table')
      | (Inr res, table') \<Rightarrow> recompute_variants cat rowId now rules from' to vs
          (fst acc + rsr_rows res, js_dedup (snd acc @ rsr_ratePlanIds res)) table')"

definition recomputeEffectiveRestrictionsForScope ::
  "text_env \<Rightarrow> catalog \<Rightarrow> (string \<Rightarrow> string \<Rightarrow> day \<Rightarrow> string) \<Rightarrow> ms \<Rightarrow> rules_db \<Rightarrow> string \<Rightarrow> string \<Rightarrow> date_text \<Rightarrow> date_text
     \<Rightarrow> restriction_row list \<Rightarrow> (restriction_error + restriction_result) \<times> restriction_row list" where
  "recomputeEffectiveRestrictionsForScope te cat rowId now rules scope scopeId from' to table =
     (let variantIds = resolveVariantIdsForScope cat scope scopeId
      in case recompute_variants cat rowId now rules from' to variantIds (0, []) table of
           (Inl e, table') \<Rightarrow> (Inl e, table')
         | (Inr (rows, plans), table') \<Rightarrow>
             (Inr \<lparr>rsr_variantIds = variantIds, rsr_ratePlanIds = js_sort (te_localeCompare te) plans,
                rsr_from = from', rsr_to = to, rsr_rows = rows\<rparr>, table'))"

definition toExclusiveRestrictionDate :: "day \<Rightarrow> day" where
  "toExclusiveRestrictionDate endDateInclusive = endDateInclusive + 1"

end
