(* ===== verification/Search_View.thy ===== *)
theory Search_View
  imports Restrictions Availability
begin

text \<open>
  The search view (modules/search): one row per variant, rate plan, night and occupancy, materialized from
  the effective availability, price and restriction of the night, its purge by age, and the evaluation of
  a stay over the rows. The repository is container/search-read-model.container.ts. The unique index of
  the view is its type: a row or none per index. Whether the policies of a night are complete, which the
  policy tables decide, is a parameter, and so are the hash of the source version and the row ids.
\<close>

section \<open>Tables\<close>

type_synonym view_index = "string \<times> string \<times> day \<times> string"

record view_row =
  suv_id :: string
  suv_productId :: string
  suv_totalGuests :: int
  suv_hasAvailability :: bool
  suv_hasPrice :: bool
  suv_isAvailable :: bool
  suv_availableUnits :: int
  suv_pricePerNight :: "rat option"
  suv_currency :: string
  suv_primaryBlocker :: "string option"
  suv_minStay :: "rat option"
  suv_maxStay :: "rat option"
  suv_minLeadTime :: "rat option"
  suv_maxLeadTime :: "rat option"
  suv_cta :: bool
  suv_ctd :: bool
  suv_computedAt :: ms
  suv_sourceVersion :: string

record search_db =
  sdb_inventory :: inv_db
  sdb_pricing :: pricing_db
  sdb_restrictions :: "restriction_row list"
  sdb_view :: "view_index \<Rightarrow> view_row option"

section \<open>What a night is materialized from\<close>

definition pricing_row :: "string \<Rightarrow> string \<Rightarrow> day \<Rightarrow> string \<Rightarrow> search_db \<Rightarrow> effective_row option" where
  "pricing_row v plan date key s = find (\<lambda>r. efp_variantId r = v) (pdb_effective (sdb_pricing s) (plan, date, key))"

text \<open>The row of the rate plan, else a row of the variant without one.\<close>

definition restriction_of :: "string \<Rightarrow> string \<Rightarrow> day \<Rightarrow> search_db \<Rightarrow> restriction_row option" where
  "restriction_of v plan date s = first_of (js_sort (by_key (\<lambda>r. if err_plan r = None then 1 else 0))
     (filter (\<lambda>r. err_variant r = v \<and> err_date r = date \<and> (err_plan r = Some plan \<or> err_plan r = None)) (sdb_restrictions s)))"

record sellability =
  rss_stopSell :: bool
  rss_minStay :: "rat option"
  rss_maxStay :: "rat option"
  rss_cta :: bool
  rss_ctd :: bool
  rss_minLeadTime :: "rat option"
  rss_maxLeadTime :: "rat option"
  rss_usedCompatibility :: bool

definition normalizeOptionalPositiveInteger :: "rat option \<Rightarrow> rat option" where
  "normalizeOptionalPositiveInteger = map_option (\<lambda>v. max 1 (of_int \<lfloor>v\<rfloor>))"

definition resolveSearchSellability :: "restriction_row option \<Rightarrow> sellability" where
  "resolveSearchSellability restriction =
     (case restriction of
        Some r \<Rightarrow> \<lparr>rss_stopSell = err_stopSell r, rss_minStay = normalizeOptionalPositiveInteger (err_minStay r),
          rss_maxStay = normalizeOptionalPositiveInteger (err_maxStay r), rss_cta = err_cta r, rss_ctd = err_ctd r,
          rss_minLeadTime = normalizeOptionalPositiveInteger (err_minLeadTime r),
          rss_maxLeadTime = normalizeOptionalPositiveInteger (err_maxLeadTime r), rss_usedCompatibility = False\<rparr>
      | None \<Rightarrow> \<lparr>rss_stopSell = False, rss_minStay = None, rss_maxStay = None, rss_cta = False, rss_ctd = False,
          rss_minLeadTime = None, rss_maxLeadTime = None, rss_usedCompatibility = True\<rparr>)"

type_synonym source_times = "string \<times> string \<times> day \<times> string \<times> ms option \<times> ms option \<times> ms option"

definition source_times :: "string \<Rightarrow> string \<Rightarrow> day \<Rightarrow> string \<Rightarrow> search_db \<Rightarrow> source_times" where
  "source_times v plan date key s = (v, plan, date, key,
     map_option ea_computedAt (find_avail v date (sdb_inventory s)),
     map_option efp_computedAt (pricing_row v plan date key s), map_option err_computedAt (restriction_of v plan date s))"

section \<open>The policies a product needs\<close>

datatype business_kind = HotelKind | TourKind | UnknownKind

definition policyBusinessKindFromProductType :: "string \<Rightarrow> business_kind" where
  "policyBusinessKindFromProductType productType =
     (let value = js_lower (js_trim productType)
      in if value = ''tour'' then TourKind
         else if value \<in> {''hotel'', ''accommodation'', ''hostel'', ''apartment'', ''rental''} then HotelKind
         else UnknownKind)"

definition getRequiredPolicyCategories :: "string \<Rightarrow> string list" where
  "getRequiredPolicyCategories productType =
     (case policyBusinessKindFromProductType productType of
        HotelKind \<Rightarrow> [''Cancellation'', ''Payment'', ''CheckIn'', ''NoShow'']
      | TourKind \<Rightarrow> [''Cancellation'', ''Payment'', ''NoShow'']
      | UnknownKind \<Rightarrow> [])"

section \<open>Materializing a night\<close>

text \<open>
  \<open>sev_missingPolicies\<close> is the number of required categories no policy covers, or nothing when the
  resolution throws, which is caught.
\<close>

record search_env =
  sev_text :: text_env
  sev_sha1 :: "source_times \<Rightarrow> string"
  sev_now :: ms
  sev_rowId :: "view_index \<Rightarrow> string"
  sev_policyBlockerEnabled :: bool
  sev_missingPolicies :: "string \<Rightarrow> string \<Rightarrow> string \<Rightarrow> day \<Rightarrow> string list \<Rightarrow> nat option"

record unit_input =
  mui_variantId :: string
  mui_ratePlanId :: string
  mui_date :: day
  mui_occupancy :: occupancy
  mui_currency :: string

definition unit_index :: "unit_input \<Rightarrow> view_index" where
  "unit_index i = (mui_variantId i, mui_ratePlanId i, mui_date i, buildOccupancyKey (mui_occupancy i))"

definition has_units :: "avail_row option \<Rightarrow> int" where
  "has_units a = max 0 (case a of None \<Rightarrow> 0 | Some r \<Rightarrow> ea_available r)"

definition night_sellable :: "unit_input \<Rightarrow> search_db \<Rightarrow> bool" where
  "night_sellable i s =
     (let availability = find_avail (mui_variantId i) (mui_date i) (sdb_inventory s);
          price = pricing_row (mui_variantId i) (mui_ratePlanId i) (mui_date i) (buildOccupancyKey (mui_occupancy i)) s;
          r = resolveSearchSellability (restriction_of (mui_variantId i) (mui_ratePlanId i) (mui_date i) s)
      in availability \<noteq> None \<and> price \<noteq> None \<and> \<not> rss_stopSell r \<and> 0 < has_units availability)"

definition policy_blocked :: "search_env \<Rightarrow> string \<times> string \<Rightarrow> unit_input \<Rightarrow> search_db \<Rightarrow> bool" where
  "policy_blocked env product i s \<longleftrightarrow>
     sev_policyBlockerEnabled env \<and> night_sellable i s \<and>
     (let required = getRequiredPolicyCategories (snd product)
      in required = [] \<or>
         (case sev_missingPolicies env (fst product) (mui_variantId i) (mui_ratePlanId i) (mui_date i) required of
            None \<Rightarrow> False | Some n \<Rightarrow> 0 < n))"

definition night_blocker :: "search_env \<Rightarrow> string \<times> string \<Rightarrow> unit_input \<Rightarrow> search_db \<Rightarrow> string option" where
  "night_blocker env product i s =
     (let availability = find_avail (mui_variantId i) (mui_date i) (sdb_inventory s);
          price = pricing_row (mui_variantId i) (mui_ratePlanId i) (mui_date i) (buildOccupancyKey (mui_occupancy i)) s;
          r = resolveSearchSellability (restriction_of (mui_variantId i) (mui_ratePlanId i) (mui_date i) s)
      in if availability = None then Some ''MISSING_COVERAGE''
         else if rss_stopSell r then Some ''STOP_SELL''
         else if has_units availability \<le> 0 then Some ''NO_CAPACITY''
         else if price = None then Some ''MISSING_PRICE''
         else if policy_blocked env product i s then Some ''POLICY_BLOCKED''
         else None)"

definition candidate_row :: "search_env \<Rightarrow> string \<times> string \<Rightarrow> unit_input \<Rightarrow> search_db \<Rightarrow> view_row" where
  "candidate_row env product i s =
     (let oc = normalized (mui_occupancy i); key = buildOccupancyKey oc;
          availability = find_avail (mui_variantId i) (mui_date i) (sdb_inventory s);
          price = pricing_row (mui_variantId i) (mui_ratePlanId i) (mui_date i) key s;
          r = resolveSearchSellability (restriction_of (mui_variantId i) (mui_ratePlanId i) (mui_date i) s)
      in \<lparr>suv_id = sev_rowId env (unit_index i), suv_productId = fst product, suv_totalGuests = oc_adults oc + oc_children oc,
          suv_hasAvailability = availability \<noteq> None, suv_hasPrice = price \<noteq> None,
          suv_isAvailable = (availability \<noteq> None \<and> 0 < has_units availability), suv_availableUnits = has_units availability,
          suv_pricePerNight = map_option efp_finalBasePrice price, suv_currency = mui_currency i,
          suv_primaryBlocker = night_blocker env product i s, suv_minStay = rss_minStay r, suv_maxStay = rss_maxStay r,
          suv_minLeadTime = rss_minLeadTime r, suv_maxLeadTime = rss_maxLeadTime r, suv_cta = rss_cta r, suv_ctd = rss_ctd r,
          suv_computedAt = sev_now env, suv_sourceVersion = sev_sha1 env (source_times (mui_variantId i) (mui_ratePlanId i) (mui_date i) key s)\<rparr>)"

text \<open>The columns compared; the id, the product and the time of the computation are not.\<close>

definition hasMaterializationDrift :: "view_row option \<Rightarrow> view_row \<Rightarrow> bool" where
  "hasMaterializationDrift existing next \<longleftrightarrow>
     (case existing of None \<Rightarrow> True
      | Some current \<Rightarrow> current\<lparr>suv_id := suv_id next, suv_productId := suv_productId next, suv_computedAt := suv_computedAt next\<rparr> \<noteq> next)"

definition upsertSearchUnitViewRow :: "view_index \<Rightarrow> view_row \<Rightarrow> search_db \<Rightarrow> search_db" where
  "upsertSearchUnitViewRow ix row s =
     s\<lparr>sdb_view := (sdb_view s)(ix := Some (case sdb_view s ix of None \<Rightarrow> row | Some old \<Rightarrow> row\<lparr>suv_id := suv_id old\<rparr>))\<rparr>"

record unit_result =
  mur_updated :: bool
  mur_isSellable :: bool
  mur_blocker :: "string option"

definition materializeSearchUnit :: "search_env \<Rightarrow> catalog \<Rightarrow> unit_input \<Rightarrow> search_db \<Rightarrow> unit_result \<times> search_db" where
  "materializeSearchUnit env cat i s =
     (case cat_product cat (mui_variantId i) of
        None \<Rightarrow> (\<lparr>mur_updated = False, mur_isSellable = False, mur_blocker = Some ''MISSING_VARIANT''\<rparr>, s)
      | Some product \<Rightarrow>
          (let row = candidate_row env product i s;
               sellable = (night_sellable i s \<and> \<not> policy_blocked env product i s)
           in if \<not> hasMaterializationDrift (sdb_view s (unit_index i)) row
              then (\<lparr>mur_updated = False, mur_isSellable = sellable, mur_blocker = suv_primaryBlocker row\<rparr>, s)
              else (\<lparr>mur_updated = True, mur_isSellable = sellable, mur_blocker = suv_primaryBlocker row\<rparr>,
                upsertSearchUnitViewRow (unit_index i) row s)))"

section \<open>Materializing a range\<close>

definition resolveOccupancyCombinations :: "catalog \<Rightarrow> string \<Rightarrow> occupancy list" where
  "resolveOccupancyCombinations cat variantId =
     (let c = cat_capacity cat variantId;
          maxOccupancy = max 1 (case Option.bind c cap_maxOccupancy of None \<Rightarrow> 2 | Some n \<Rightarrow> n);
          maxAdults = max 1 (case Option.bind c cap_maxAdults of None \<Rightarrow> maxOccupancy | Some n \<Rightarrow> n);
          maxChildren = max 0 (case Option.bind c cap_maxChildren of None \<Rightarrow> min 2 (maxOccupancy - 1) | Some n \<Rightarrow> n)
      in concat (map (\<lambda>a. map (\<lambda>ch. \<lparr>oc_adults = a, oc_children = ch, oc_infants = 0\<rparr>)
           (filter (\<lambda>ch. a + ch \<le> maxOccupancy) [0..maxChildren])) [1..maxAdults]))"

record range_input =
  mri_variantId :: string
  mri_ratePlanId :: "string option"
  mri_from :: "day option"
  mri_to :: "day option"
  mri_occupancies :: "occupancy list option"
  mri_currency :: string

datatype search_error = SearchSchemaError | InvalidDateOnly

definition range_schema :: "range_input \<Rightarrow> bool" where
  "range_schema i \<longleftrightarrow> mri_variantId i \<noteq> [] \<and> mri_ratePlanId i \<noteq> Some [] \<and> mri_currency i \<noteq> [] \<and>
     (case mri_occupancies i of None \<Rightarrow> True
      | Some ocs \<Rightarrow> list_all (\<lambda>oc. 1 \<le> oc_adults oc \<and> 0 \<le> oc_children oc \<and> 0 \<le> oc_infants oc) ocs)"

definition range_plans :: "text_env \<Rightarrow> catalog \<Rightarrow> range_input \<Rightarrow> string list" where
  "range_plans te cat i = js_sort (te_localeCompare te) (js_dedup (filter (\<lambda>p. p \<noteq> []) (map js_trim
     (case mri_ratePlanId i of Some p \<Rightarrow> [p] | None \<Rightarrow> cat_defaultPlans cat (mri_variantId i)))))"

definition range_occupancies :: "catalog \<Rightarrow> range_input \<Rightarrow> occupancy list" where
  "range_occupancies cat i = map normalized
     (case mri_occupancies i of Some ocs \<Rightarrow> ocs | None \<Rightarrow> resolveOccupancyCombinations cat (mri_variantId i))"

type_synonym view_item = "string \<times> day \<times> occupancy"

definition item_unit :: "range_input \<Rightarrow> view_item \<Rightarrow> unit_input" where
  "item_unit i item = (case item of (plan, date, oc) \<Rightarrow> \<lparr>mui_variantId = mri_variantId i, mui_ratePlanId = plan, mui_date = date,
     mui_occupancy = oc, mui_currency = mri_currency i\<rparr>)"

definition range_work :: "text_env \<Rightarrow> catalog \<Rightarrow> range_input \<Rightarrow> day \<Rightarrow> day \<Rightarrow> view_item list" where
  "range_work te cat i start stop =
     List.product (range_plans te cat i) (List.product [start..stop - 1] (range_occupancies cat i))"

definition view_concurrency :: "rat option \<Rightarrow> nat \<Rightarrow> nat" where
  "view_concurrency configured workLength =
     nat (max 1 (min 8 (min (case configured of None \<Rightarrow> 4 | Some c \<Rightarrow> \<lfloor>c\<rfloor>) (int workLength))))"

text \<open>The work of an item of the pool; a row never fails, it is blocked.\<close>

definition materialize_item :: "search_env \<Rightarrow> catalog \<Rightarrow> range_input \<Rightarrow> view_item \<Rightarrow> search_db \<Rightarrow> search_error option \<times> search_db" where
  "materialize_item env cat i item s = (None, snd (materializeSearchUnit env cat (item_unit i item) s))"

definition materializeSearchUnitRange ::
  "search_env \<Rightarrow> catalog \<Rightarrow> rat option \<Rightarrow> nat list \<Rightarrow> range_input \<Rightarrow> search_db \<Rightarrow> (search_error + nat) \<times> search_db" where
  "materializeSearchUnitRange env cat configured schedule i s =
     (if \<not> range_schema i then (Inl SearchSchemaError, s)
      else case (mri_from i, mri_to i) of
        (Some start, Some stop) \<Rightarrow>
          if stop \<le> start then (Inr 0, s)
          else if range_plans (sev_text env) cat i = [] then (Inr 0, s)
          else let work = range_work (sev_text env) cat i start stop;
                   p = run_pool (materialize_item env cat i) schedule (start_pool (view_concurrency configured (length work)) work s)
               in (case wp_rejected p of Some e \<Rightarrow> Inl e | None \<Rightarrow> Inr (length work), wp_store p)
      | _ \<Rightarrow> (Inl InvalidDateOnly, s))"

definition purgeStaleSearchUnitRows :: "ms \<Rightarrow> rat option \<Rightarrow> search_db \<Rightarrow> search_db" where
  "purgeStaleSearchUnitRows now maxAgeMinutes s =
     (let maxAge = max 1 (case maxAgeMinutes of None \<Rightarrow> 30 | Some m \<Rightarrow> m);
          cutoff = of_int now - maxAge * 60000
      in s\<lparr>sdb_view := (\<lambda>ix. case sdb_view s ix of None \<Rightarrow> None
           | Some r \<Rightarrow> if of_int (suv_computedAt r) < cutoff then None else Some r)\<rparr>)"

section \<open>The state of the view\<close>

record view_state =
  vst_isFresh :: bool
  vst_coverageRatio :: rat
  vst_reasonCodes :: "string list"

definition clamp :: "rat \<Rightarrow> rat \<Rightarrow> rat \<Rightarrow> rat" where
  "clamp value lo hi = max lo (min hi value)"

definition evaluateSearchViewState :: "rat \<Rightarrow> rat \<Rightarrow> ms option \<Rightarrow> ms \<Rightarrow> rat option \<Rightarrow> rat option \<Rightarrow> view_state" where
  "evaluateSearchViewState totalExpectedRows coveredRows lastMaterializedAt now maxLagMinutes minCoverageThreshold =
     (let expected = max 0 totalExpectedRows; covered = max 0 coveredRows;
          normalizedCovered = min expected covered;
          coverageRatio = (if expected \<le> 0 then 1 else clamp (normalizedCovered / max 1 expected) 0 1);
          threshold = clamp (case minCoverageThreshold of None \<Rightarrow> 995 / 1000 | Some t \<Rightarrow> t) 0 1;
          hasCoverage = threshold \<le> coverageRatio;
          maxLag = max 1 (case maxLagMinutes of None \<Rightarrow> 30 | Some m \<Rightarrow> m);
          isFresh = (case lastMaterializedAt of None \<Rightarrow> False | Some t \<Rightarrow> max 0 (of_int (now - t) / 60000) \<le> maxLag);
          reasons = (if isFresh \<and> hasCoverage then [''FRESH_VIEW'']
            else (if isFresh then [] else [''STALE_VIEW'']) @
              (if coverageRatio \<le> 0 then [''MISSING_COVERAGE''] else if \<not> hasCoverage then [''PARTIAL_COVERAGE''] else []))
      in \<lparr>vst_isFresh = isFresh, vst_coverageRatio = coverageRatio, vst_reasonCodes = reasons\<rparr>)"

end
