(* ===== verification/Search_Offers.thy ===== *)
theory Search_Offers
  imports Search_View
begin

text \<open>
  Searching a stay (modules/search): the evaluation of the rows of a stay
  (queries/evaluate-stay-from-view.ts) and the offers of a product over the view and the effective prices
  (use-cases/resolve-search-offers.ts). The metrics and traces of a search are left out.
\<close>

section \<open>The evaluation of a stay\<close>

datatype reason_code = NO_INVENTORY | STOP_SELL | MIN_STAY_NOT_MET | MAX_STAY_EXCEEDED | MIN_LEAD_TIME_NOT_MET
  | MAX_LEAD_TIME_EXCEEDED | CTA_RESTRICTION | CTD_RESTRICTION | POLICY_BLOCKED | PRICE_NOT_AVAILABLE | STALE_VIEW
  | MISSING_COVERAGE

record stay_row =
  syr_isAvailable :: bool
  syr_hasAvailability :: bool
  syr_hasPrice :: bool
  syr_availableUnits :: int
  syr_minStay :: "rat option"
  syr_maxStay :: "rat option"
  syr_minLeadTime :: "rat option"
  syr_maxLeadTime :: "rat option"
  syr_cta :: bool
  syr_ctd :: bool
  syr_primaryBlocker :: "string option"
  syr_pricePerNight :: "rat option"

type_synonym money = "rat \<times> string"

record search_sellability =
  ssl_isSellable :: bool
  ssl_reasonCodes :: "reason_code list"
  ssl_base :: "money option"
  ssl_display :: "money option"
  ssl_hasInventory :: bool
  ssl_hasRestrictions :: bool
  ssl_isCompliant :: bool
  ssl_missingCoverage :: bool
  ssl_staleView :: bool

definition blocker_text :: "string option \<Rightarrow> string" where
  "blocker_text b = js_upper (js_trim (text_or_empty b))"

definition mapPrimaryBlockerToReasonCode :: "string option \<Rightarrow> reason_code" where
  "mapPrimaryBlockerToReasonCode primaryBlocker =
     (let value = blocker_text primaryBlocker
      in if value = [] then MISSING_COVERAGE
         else if value = ''CTA'' then CTA_RESTRICTION
         else if value = ''CTD'' then CTD_RESTRICTION
         else if value = ''MIN_STAY_NOT_MET'' then MIN_STAY_NOT_MET
         else if value = ''MAX_STAY_EXCEEDED'' then MAX_STAY_EXCEEDED
         else if value = ''MIN_LEAD_TIME_NOT_MET'' then MIN_LEAD_TIME_NOT_MET
         else if value = ''MAX_LEAD_TIME_EXCEEDED'' then MAX_LEAD_TIME_EXCEEDED
         else if value = ''MISSING_PRICE'' \<or> value = ''NO_PRICE'' then PRICE_NOT_AVAILABLE
         else if value = ''NO_INVENTORY'' \<or> value = ''NO_CAPACITY'' then NO_INVENTORY
         else if value = ''STOP_SELL'' then STOP_SELL
         else if value = ''STALE_VIEW'' then STALE_VIEW
         else if value = ''MISSING_COVERAGE'' \<or> value = ''PARTIAL_COVERAGE'' \<or> value = ''FRESH_VIEW'' then MISSING_COVERAGE
         else if str_includes value ''POLICY'' then POLICY_BLOCKED
         else MISSING_COVERAGE)"

definition base_sellability :: search_sellability where
  "base_sellability = \<lparr>ssl_isSellable = True, ssl_reasonCodes = [], ssl_base = None, ssl_display = None, ssl_hasInventory = False,
     ssl_hasRestrictions = False, ssl_isCompliant = True, ssl_missingCoverage = False, ssl_staleView = False\<rparr>"

definition withReason :: "search_sellability \<Rightarrow> reason_code \<Rightarrow> search_sellability" where
  "withReason base reasonCode = base\<lparr>ssl_isSellable := False, ssl_reasonCodes := [reasonCode],
     ssl_isCompliant := (reasonCode \<noteq> POLICY_BLOCKED)\<rparr>"

definition missing_view :: search_sellability where
  "missing_view = withReason (base_sellability\<lparr>ssl_missingCoverage := True\<rparr>) MISSING_COVERAGE"

definition restricted_view :: "reason_code \<Rightarrow> search_sellability" where
  "restricted_view reason = withReason (base_sellability\<lparr>ssl_hasInventory := True, ssl_hasRestrictions := True\<rparr>) reason"

definition stay_units :: "stay_row \<Rightarrow> int" where
  "stay_units day = max 0 (syr_availableUnits day)"

definition day_restricted :: "stay_row \<Rightarrow> bool" where
  "day_restricted day \<longleftrightarrow> syr_cta day \<or> syr_ctd day \<or> blocker_text (syr_primaryBlocker day) = ''STOP_SELL'' \<or>
     syr_minStay day \<noteq> None \<or> syr_maxStay day \<noteq> None \<or> syr_minLeadTime day \<noteq> None \<or> syr_maxLeadTime day \<noteq> None"

definition day_sellable :: "int \<Rightarrow> stay_row \<Rightarrow> bool" where
  "day_sellable requestedRooms day \<longleftrightarrow> syr_isAvailable day \<and> syr_hasAvailability day \<and> syr_hasPrice day \<and>
     js_trim (text_or_empty (syr_primaryBlocker day)) = [] \<and> requestedRooms \<le> stay_units day"

text \<open>The rules of the arrival and of the last night, in the order in which they are tried.\<close>

definition stay_restriction :: "nat \<Rightarrow> int \<Rightarrow> stay_row \<Rightarrow> stay_row \<Rightarrow> reason_code option" where
  "stay_restriction nights leadTimeDays checkInDay lastStayDay =
     (if syr_cta checkInDay then Some CTA_RESTRICTION
      else if syr_ctd lastStayDay then Some CTD_RESTRICTION
      else if of_nat nights < (case syr_minStay checkInDay of None \<Rightarrow> 1 | Some m \<Rightarrow> max 1 m) then Some MIN_STAY_NOT_MET
      else if (case syr_maxStay checkInDay of None \<Rightarrow> False | Some m \<Rightarrow> max 1 m < of_nat nights) then Some MAX_STAY_EXCEEDED
      else if (case syr_minLeadTime checkInDay of None \<Rightarrow> False | Some m \<Rightarrow> of_int leadTimeDays < max 0 m)
        then Some MIN_LEAD_TIME_NOT_MET
      else if (case syr_maxLeadTime checkInDay of None \<Rightarrow> False | Some m \<Rightarrow> max 0 m < of_int leadTimeDays)
        then Some MAX_LEAD_TIME_EXCEEDED
      else None)"

definition stay_days :: "(day \<Rightarrow> stay_row option) \<Rightarrow> day list \<Rightarrow> stay_row list option" where
  "stay_days rowsByDate dates =
     (if list_all (\<lambda>d. rowsByDate d \<noteq> None) dates then Some (map (\<lambda>d. the (rowsByDate d)) dates) else None)"

definition stay_total :: "stay_row list \<Rightarrow> rat" where
  "stay_total days = foldl (\<lambda>sum day. sum + (case syr_pricePerNight day of None \<Rightarrow> 0 | Some p \<Rightarrow> p)) 0 days"

definition priced_view :: "string \<Rightarrow> int \<Rightarrow> stay_row list \<Rightarrow> search_sellability" where
  "priced_view currency requestedRooms days =
     (let totalPrice = stay_total days;
          complete = list_all (\<lambda>day. syr_pricePerNight day \<noteq> None) days
      in base_sellability
        \<lparr>ssl_base := (if complete then Some (totalPrice, ''USD'') else None),
         ssl_display := (if complete then Some (totalPrice, currency) else None),
         ssl_hasInventory := list_all (\<lambda>day. syr_hasAvailability day \<and> requestedRooms \<le> stay_units day) days,
         ssl_hasRestrictions := list_ex day_restricted days\<rparr>)"

definition evaluateStaySellabilityFromView ::
  "day list \<Rightarrow> day \<Rightarrow> int \<Rightarrow> (day \<Rightarrow> stay_row option) \<Rightarrow> string option \<Rightarrow> day \<Rightarrow> search_sellability" where
  "evaluateStaySellabilityFromView stayDates checkInDate rooms rowsByDate currencyText requestDate =
     (let requestedRooms = max 1 rooms;
          trimmed = js_upper (js_trim (case currencyText of None \<Rightarrow> ''USD'' | Some c \<Rightarrow> c));
          currency = (if trimmed = [] then ''USD'' else trimmed)
      in if stayDates = [] then withReason base_sellability MISSING_COVERAGE
         else case stay_days rowsByDate stayDates of
           None \<Rightarrow> missing_view
         | Some days \<Rightarrow>
             (case rowsByDate checkInDate of
                None \<Rightarrow> missing_view
              | Some checkInDay \<Rightarrow>
                  (case stay_restriction (length stayDates) (checkInDate - requestDate) checkInDay (last days) of
                     Some reason \<Rightarrow> restricted_view reason
                   | None \<Rightarrow>
                       (case find (\<lambda>day. \<not> day_sellable requestedRooms day) days of
                          Some day \<Rightarrow>
                            (let reason = mapPrimaryBlockerToReasonCode (syr_primaryBlocker day)
                             in withReason ((priced_view currency requestedRooms days)
                               \<lparr>ssl_missingCoverage := (reason = MISSING_COVERAGE), ssl_staleView := (reason = STALE_VIEW)\<rparr>) reason)
                        | None \<Rightarrow> priced_view currency requestedRooms days))))"

section \<open>The offers of a product\<close>

record unit_view_row =
  uvr_variantId :: string
  uvr_ratePlanId :: string
  uvr_ratePlanName :: "string option"
  uvr_currency :: string
  uvr_date :: day
  uvr_stay :: stay_row

record price_view_row =
  pvw_variantId :: string
  pvw_ratePlanId :: string
  pvw_date :: day
  pvw_finalBasePrice :: rat

record offers_repository =
  ofr_units :: "string \<Rightarrow> string list"
  ofr_viewRows :: "string list \<Rightarrow> day \<Rightarrow> day \<Rightarrow> string \<Rightarrow> unit_view_row list"
  ofr_priceRows :: "string list \<Rightarrow> string list \<Rightarrow> day \<Rightarrow> day \<Rightarrow> string \<Rightarrow> price_view_row list"

record offers_input =
  ofi_productId :: string
  ofi_checkIn :: day
  ofi_checkOut :: day
  ofi_rooms :: "int option"
  ofi_adults :: js_num
  ofi_children :: js_num
  ofi_infants :: js_num
  ofi_currency :: "string option"

record plan_offer =
  pof_ratePlanId :: string
  pof_ratePlanName :: "string option"
  pof_currency :: string
  pof_totalPrice :: rat

record unit_offers =
  uof_variantId :: string
  uof_ratePlans :: "plan_offer list"

record offers_flags =
  off_missingData :: bool
  off_inconsistent :: bool
  off_missingPrice :: bool

record offers_result =
  ofs_offers :: "unit_offers list"
  ofs_reason :: "string option"
  ofs_sellability :: "(string \<times> search_sellability) list"

text \<open>The rows grouped by \<open>variantId:ratePlanId\<close>, in the order of their first row.\<close>

definition bucket_key :: "unit_view_row \<Rightarrow> string" where
  "bucket_key r = uvr_variantId r @ '':'' @ uvr_ratePlanId r"

definition view_buckets :: "unit_view_row list \<Rightarrow> (string \<times> unit_view_row list) list" where
  "view_buckets rows = map (\<lambda>k. (k, filter (\<lambda>r. bucket_key r = k) rows)) (js_dedup (map bucket_key rows))"

definition price_key :: "string \<Rightarrow> string \<Rightarrow> day \<Rightarrow> price_view_row list \<Rightarrow> rat option" where
  "price_key variantId ratePlanId date rows = map_option pvw_finalBasePrice
     (find (\<lambda>r. pvw_variantId r = variantId \<and> pvw_ratePlanId r = ratePlanId \<and> pvw_date r = date) (rev rows))"

text \<open>The rows by their date, the last of a date winning, with the effective price in place of the projected one.\<close>

definition rows_by_date :: "unit_view_row list \<Rightarrow> day \<Rightarrow> stay_row option" where
  "rows_by_date bucket date = map_option uvr_stay (find (\<lambda>r. uvr_date r = date) (rev bucket))"

definition effective_rows :: "string \<Rightarrow> string \<Rightarrow> price_view_row list \<Rightarrow> unit_view_row list \<Rightarrow> day \<Rightarrow> stay_row option" where
  "effective_rows variantId ratePlanId prices bucket date =
     map_option (\<lambda>day. day\<lparr>syr_pricePerNight := price_key variantId ratePlanId date prices\<rparr>) (rows_by_date bucket date)"

definition bucket_currency :: "string option \<Rightarrow> unit_view_row list \<Rightarrow> string" where
  "bucket_currency requested bucket =
     (case js_dedup (filter (\<lambda>c. c \<noteq> []) (map (\<lambda>r. js_upper (uvr_currency r)) bucket)) of
        [] \<Rightarrow> js_upper (case requested of None \<Rightarrow> ''USD'' | Some c \<Rightarrow> c)
      | [c] \<Rightarrow> c
      | _ \<Rightarrow> [])"

definition is_currency :: "string \<Rightarrow> bool" where
  "is_currency c \<longleftrightarrow> length c = 3 \<and> list_all (\<lambda>x. 65 \<le> char_code x \<and> char_code x \<le> 90) c"

definition inconsistent_day :: "int \<Rightarrow> stay_row \<Rightarrow> bool" where
  "inconsistent_day requestedRooms day \<longleftrightarrow> syr_isAvailable day \<and> syr_hasAvailability day \<and> syr_hasPrice day \<and>
     requestedRooms \<le> stay_units day \<and> js_trim (text_or_empty (syr_primaryBlocker day)) \<noteq> []"

text \<open>What a bucket of a unit yields: flags, the sellability of the rate plan, an offer.\<close>

definition bucket_offer ::
  "offers_input \<Rightarrow> day \<Rightarrow> day list \<Rightarrow> price_view_row list \<Rightarrow> string \<Rightarrow> unit_view_row list
     \<Rightarrow> offers_flags \<times> (string \<times> search_sellability) option \<times> plan_offer option" where
  "bucket_offer p today stayDates prices unit bucket =
     (let none = \<lparr>off_missingData = False, off_inconsistent = False, off_missingPrice = False\<rparr>;
          requestedRooms = max 1 (case ofi_rooms p of None \<Rightarrow> 1 | Some n \<Rightarrow> n);
          ratePlanId = (case bucket of [] \<Rightarrow> [] | r # _ \<Rightarrow> uvr_ratePlanId r);
          name = js_trim (text_or_empty (case bucket of [] \<Rightarrow> None | r # _ \<Rightarrow> uvr_ratePlanName r));
          currency = bucket_currency (ofi_currency p) bucket
      in if ratePlanId = [] then (none, None, None)
         else if \<not> is_currency currency then (none\<lparr>off_inconsistent := True\<rparr>, None, None)
         else case stay_days (effective_rows unit ratePlanId prices bucket) stayDates of
           None \<Rightarrow> (none\<lparr>off_missingData := True\<rparr>, None, None)
         | Some days \<Rightarrow>
             (let flags = none\<lparr>off_inconsistent := list_ex (inconsistent_day requestedRooms) days\<rparr>;
                  evaluation = evaluateStaySellabilityFromView stayDates (ofi_checkIn p) requestedRooms
                    (effective_rows unit ratePlanId prices bucket) (ofi_currency p) today;
                  decision = Some (unit @ '':'' @ ratePlanId, evaluation)
              in if \<not> ssl_isSellable evaluation then (flags, decision, None)
                 else if list_ex (\<lambda>day. syr_pricePerNight day = None) days
                   then (flags\<lparr>off_missingPrice := True\<rparr>, decision, None)
                 else (flags, decision, Some \<lparr>pof_ratePlanId = ratePlanId,
                   pof_ratePlanName = (if name = [] then None else Some name), pof_currency = currency,
                   pof_totalPrice = stay_total days\<rparr>)))"

definition any_flag :: "(offers_flags \<Rightarrow> bool) \<Rightarrow> (offers_flags \<times> 'a \<times> 'b) list \<Rightarrow> bool" where
  "any_flag f outcomes = list_ex (\<lambda>x. f (fst x)) outcomes"

definition enumerateStayDates :: "day \<Rightarrow> day \<Rightarrow> day list" where
  "enumerateStayDates checkIn checkOut = enumerateDates (parseDateOnly checkIn) (parseDateOnly checkOut)"

definition resolveSearchOffers :: "day \<Rightarrow> offers_input \<Rightarrow> offers_repository \<Rightarrow> offers_result" where
  "resolveSearchOffers today p repo =
     (let fail = (\<lambda>reason. \<lparr>ofs_offers = [], ofs_reason = Some reason, ofs_sellability = []\<rparr>);
          units = ofr_units repo (ofi_productId p);
          stayDates = enumerateStayDates (ofi_checkIn p) (ofi_checkOut p);
          key = buildOccupancyKey (normalizeOccupancy (ofi_adults p) (ofi_children p) (ofi_infants p));
          unitIds = filter (\<lambda>u. u \<noteq> []) units
      in if units = [] then fail ''no_active_units''
         else if stayDates = [] then fail ''invalid_stay_range''
         else if unitIds = [] then fail ''no_active_units''
         else let rows = ofr_viewRows repo unitIds (ofi_checkIn p) (ofi_checkOut p) key;
                  planIds = filter (\<lambda>i. i \<noteq> []) (js_dedup (map uvr_ratePlanId rows));
                  prices = ofr_priceRows repo unitIds planIds (ofi_checkIn p) (ofi_checkOut p) key
              in if rows = [] then fail ''missing_view_data''
                 else let outcomes = map (\<lambda>unit. (unit, map (\<lambda>(k, bucket). bucket_offer p today stayDates prices unit bucket)
                            (filter (\<lambda>(k, bucket). starts_with k (unit @ '':'')) (view_buckets rows)))) units;
                          every = concat (map snd outcomes);
                          offers = List.map_filter (\<lambda>(unit, xs). let plans = List.map_filter (\<lambda>x. snd (snd x)) xs
                            in if plans = [] then None else Some \<lparr>uof_variantId = unit, uof_ratePlans = plans\<rparr>) outcomes
                      in \<lparr>ofs_offers = offers,
                          ofs_reason = (if offers \<noteq> [] then None
                            else if any_flag off_inconsistent every then Some ''inconsistent_view_data''
                            else if any_flag off_missingData every then Some ''missing_view_data''
                            else if any_flag off_missingPrice every then Some ''missing_view_price'' else None),
                          ofs_sellability = fold (\<lambda>x m. case fst (snd x) of None \<Rightarrow> m | Some (k, e) \<Rightarrow> map_set k e m) every []\<rparr>)"

section \<open>The repository over the tables\<close>

definition stay_row_of :: "view_row \<Rightarrow> stay_row" where
  "stay_row_of r = \<lparr>syr_isAvailable = suv_isAvailable r, syr_hasAvailability = suv_hasAvailability r, syr_hasPrice = suv_hasPrice r,
     syr_availableUnits = max 0 (suv_availableUnits r), syr_minStay = suv_minStay r, syr_maxStay = suv_maxStay r,
     syr_minLeadTime = suv_minLeadTime r, syr_maxLeadTime = suv_maxLeadTime r, syr_cta = suv_cta r, syr_ctd = suv_ctd r,
     syr_primaryBlocker = suv_primaryBlocker r, syr_pricePerNight = suv_pricePerNight r\<rparr>"

text \<open>The join of the view with the rate plans; the order of its rows is one the database may give.\<close>

definition listSearchUnitViewRows :: "catalog \<Rightarrow> search_db \<Rightarrow> string list \<Rightarrow> day \<Rightarrow> day \<Rightarrow> string \<Rightarrow> unit_view_row list" where
  "listSearchUnitViewRows cat s unitIds from' to key =
     concat (map (\<lambda>v. concat (map (\<lambda>(plan, name). List.map_filter (\<lambda>d. map_option (\<lambda>r. \<lparr>uvr_variantId = v,
        uvr_ratePlanId = plan, uvr_ratePlanName = name, uvr_currency = js_upper (suv_currency r), uvr_date = d,
        uvr_stay = stay_row_of r\<rparr>) (sdb_view s (v, plan, d, key))) [from'..to - 1]) (cat_planNames cat))) (js_dedup unitIds))"

definition listEffectivePricingRows ::
  "search_db \<Rightarrow> string list \<Rightarrow> string list \<Rightarrow> day \<Rightarrow> day \<Rightarrow> string \<Rightarrow> price_view_row list" where
  "listEffectivePricingRows s unitIds ratePlanIds from' to key =
     (if unitIds = [] \<or> ratePlanIds = [] then []
      else concat (map (\<lambda>plan. concat (map (\<lambda>d. map (\<lambda>r. \<lparr>pvw_variantId = efp_variantId r, pvw_ratePlanId = plan, pvw_date = d,
        pvw_finalBasePrice = efp_finalBasePrice r\<rparr>)
        (filter (\<lambda>r. efp_variantId r \<in> set unitIds) (pdb_effective (sdb_pricing s) (plan, d, key)))) [from'..to - 1])) ratePlanIds))"

definition search_repository :: "(string \<Rightarrow> string list) \<Rightarrow> catalog \<Rightarrow> search_db \<Rightarrow> offers_repository" where
  "search_repository activeUnits cat s = \<lparr>ofr_units = activeUnits, ofr_viewRows = listSearchUnitViewRows cat s,
     ofr_priceRows = listEffectivePricingRows s\<rparr>"

end
