(* ===== verification/Tax_Fees.thy ===== *)
theory Tax_Fees
  imports Hold_Snapshot
begin

text \<open>
  What a tax or fee definition charges
  (\<open>modules/taxes-fees/domain/tax-fee.types.ts\<close>,
  \<open>modules/taxes-fees/application/use-cases/compute-tax-breakdown.ts\<close>): the jurisdiction rule of a
  definition, the conditions under which it applies, the amount of its line, and the breakdown of a
  price. The lines are those of the price quote.

  A jurisdiction has the shape its type declares. An optional property of that type is absent, null
  or given; a number is an exact rational, dates are the ISO texts the code compares as text, and
  the \<open>console.info\<close> calls are left out.
\<close>

section \<open>Data\<close>

datatype 'a json_field = Absent | Null | Given 'a

record tax_season =
  sn_from :: string
  sn_to :: string
  sn_value :: "rat json_field"

record jurisdiction_rule =
  jr_country :: "string option"
  jr_region :: "string option"
  jr_city :: "string option"
  jr_collectionResponsibility :: "string option"
  jr_taxableBase :: "string option"
  jr_exemptGuestResidenceCountries :: "string list"
  jr_maxAmount :: "rat json_field"
  jr_maxNights :: "rat json_field"
  jr_seasonalMode :: "string option"
  jr_seasons :: "tax_season list"

text \<open>
  The fields a publication fixes: those of \<open>TaxFeeDefinitionPublicationPatch\<close>, which are also the
  fields of the rule in a version's snapshot.
\<close>

record fee_terms =
  ft_code :: string
  ft_name :: string
  ft_kind :: string
  ft_calculationType :: string
  ft_value :: rat
  ft_currency :: "string option"
  ft_inclusionType :: string
  ft_appliesPer :: string
  ft_priority :: int
  ft_jurisdiction :: "jurisdiction_rule option"
  ft_effectiveFrom :: "ms option"
  ft_effectiveTo :: "ms option"

record fee_definition =
  fd_id :: string
  fd_providerId :: string
  fd_terms :: fee_terms
  fd_status :: string
  fd_editingState :: string
  fd_currentVersionId :: "string option"
  fd_createdAt :: ms
  fd_updatedAt :: ms

record fee_source =
  fsrc_scope :: string
  fsrc_scopeId :: "string option"
  fsrc_definitionId :: string
  fsrc_definitionVersionId :: "string option"

record resolved_fee =
  rf_definition :: fee_definition
  rf_source :: fee_source

section \<open>Reading a jurisdiction rule\<close>

definition roundMoney :: "rat \<Rightarrow> rat" where
  "roundMoney x = js_round (x * 100) / 100"

text \<open>
  \<open>Number(x)\<close> where it is finite: an absent property is \<open>NaN\<close>, and \<open>Number(null)\<close> is zero.
\<close>

fun finite_number :: "rat json_field \<Rightarrow> rat option" where
  "finite_number Absent = None"
| "finite_number Null = Some 0"
| "finite_number (Given n) = Some n"

text \<open>The comparison of two texts by code units.\<close>

fun text_le :: "string \<Rightarrow> string \<Rightarrow> bool" where
  "text_le [] t = True"
| "text_le (c # s) [] = False"
| "text_le (c # s) (d # t) = (char_code c < char_code d \<or> c = d \<and> text_le s t)"

record read_season =
  rs_from :: string
  rs_to :: string
  rs_value :: "rat option"

record read_rule =
  rr_country :: "string option"
  rr_region :: "string option"
  rr_city :: "string option"
  rr_collectionResponsibility :: string
  rr_taxableBase :: string
  rr_exempt :: "string list"
  rr_maxAmount :: "rat option"
  rr_maxNights :: "rat option"
  rr_seasonalMode :: string
  rr_seasons :: "read_season list"

definition readSeason :: "tax_season \<Rightarrow> read_season" where
  "readSeason s = \<lparr>rs_from = sn_from s, rs_to = sn_to s, rs_value = finite_number (sn_value s)\<rparr>"

definition place_text :: "string option \<Rightarrow> string option" where
  "place_text p = (if text_or_empty p = [] then None else Some (js_upper (text_or_empty p)))"

definition empty_rule :: read_rule where
  "empty_rule = \<lparr>rr_country = None, rr_region = None, rr_city = None,
     rr_collectionResponsibility = ''provider'', rr_taxableBase = ''booking_base'', rr_exempt = [],
     rr_maxAmount = None, rr_maxNights = None, rr_seasonalMode = ''restrict'', rr_seasons = []\<rparr>"

text \<open>
  \<open>readRule\<close>. Without a rule the code returns \<open>{}\<close>, and every use of its result falls back to the
  values of \<open>empty_rule\<close>.
\<close>

definition readRule :: "jurisdiction_rule option \<Rightarrow> read_rule" where
  "readRule j = (case j of None \<Rightarrow> empty_rule
    | Some r \<Rightarrow>
       \<lparr>rr_country = place_text (jr_country r),
        rr_region = place_text (jr_region r),
        rr_city = place_text (jr_city r),
        rr_collectionResponsibility =
          (if text_or_empty (jr_collectionResponsibility r) \<in> {''provider'', ''platform'', ''marketplace''}
           then text_or_empty (jr_collectionResponsibility r) else ''provider''),
        rr_taxableBase =
          (if jr_taxableBase r = Some ''base_plus_included'' then ''base_plus_included'' else ''booking_base''),
        rr_exempt = filter (\<lambda>c. c \<noteq> []) (map js_upper (jr_exemptGuestResidenceCountries r)),
        rr_maxAmount = map_option (max 0) (finite_number (jr_maxAmount r)),
        rr_maxNights = map_option (max 0) (finite_number (jr_maxNights r)),
        rr_seasonalMode = (if jr_seasonalMode r = Some ''override'' then ''override'' else ''restrict''),
        rr_seasons = filter (\<lambda>s. rs_from s \<noteq> [] \<and> rs_to s \<noteq> [] \<and> text_le (rs_from s) (rs_to s))
          (map readSeason (jr_seasons r))\<rparr>)"

definition resolveMultiplier :: "string \<Rightarrow> rat \<Rightarrow> rat \<Rightarrow> rat option \<Rightarrow> rat option" where
  "resolveMultiplier appliesPer nights guests maxNights =
     (let counted = (case maxNights of None \<Rightarrow> nights
            | Some m \<Rightarrow> if m = 0 then nights else min nights m)
      in if appliesPer = ''stay'' then Some 1
         else if appliesPer = ''night'' then Some counted
         else if appliesPer = ''guest'' then Some guests
         else if appliesPer = ''guest_night'' then Some (guests * counted)
         else None)"

section \<open>The breakdown of a price\<close>

record fee_context =
  fc_country :: "string option"
  fc_region :: "string option"
  fc_city :: "string option"
  fc_guestResidenceCountry :: "string option"
  fc_checkIn :: "string option"

record fee_params =
  fp_base :: rat
  fp_nights :: rat
  fp_guests :: rat
  fp_context :: fee_context

text \<open>The guards at the head of the loop body, each of which skips the definition.\<close>

definition place_matches :: "string option \<Rightarrow> string option \<Rightarrow> bool" where
  "place_matches wanted actual =
     (case wanted of None \<Rightarrow> True | Some w \<Rightarrow> w = js_upper (text_or_empty actual))"

definition activeSeason :: "read_rule \<Rightarrow> fee_context \<Rightarrow> read_season option" where
  "activeSeason rule ctx = List.find (\<lambda>s. text_le (rs_from s) (text_or_empty (fc_checkIn ctx)) \<and>
     text_le (text_or_empty (fc_checkIn ctx)) (rs_to s)) (rr_seasons rule)"

definition fee_applies :: "fee_definition \<Rightarrow> fee_context \<Rightarrow> bool" where
  "fee_applies def ctx = (let t = fd_terms def; rule = readRule (ft_jurisdiction t) in
     fd_status def = ''active'' \<and> 0 < ft_value t \<and>
     \<not> (ft_calculationType t = ''percentage'' \<and> text_or_empty (ft_currency t) \<noteq> []) \<and>
     \<not> (ft_calculationType t = ''fixed'' \<and> text_or_empty (ft_currency t) = []) \<and>
     place_matches (rr_country rule) (fc_country ctx) \<and>
     place_matches (rr_region rule) (fc_region ctx) \<and>
     place_matches (rr_city rule) (fc_city ctx) \<and>
     js_upper (text_or_empty (fc_guestResidenceCountry ctx)) \<notin> set (rr_exempt rule) \<and>
     (rr_seasons rule = [] \<or> rr_seasonalMode rule = ''override'' \<or> activeSeason rule ctx \<noteq> None))"

definition fee_value :: "fee_definition \<Rightarrow> fee_context \<Rightarrow> rat" where
  "fee_value def ctx = (case activeSeason (readRule (ft_jurisdiction (fd_terms def))) ctx of
       None \<Rightarrow> ft_value (fd_terms def)
     | Some s \<Rightarrow> (case rs_value s of None \<Rightarrow> ft_value (fd_terms def) | Some v \<Rightarrow> v))"

record line_buckets =
  lb_taxesIncluded :: "tax_line list"
  lb_taxesExcluded :: "tax_line list"
  lb_feesIncluded :: "tax_line list"
  lb_feesExcluded :: "tax_line list"

definition line_sum :: "tax_line list \<Rightarrow> rat" where
  "line_sum ls = sum_list (map tl_amount ls)"

text \<open>The amount before it is rounded, or \<open>None\<close> where the loop continues without a line.\<close>

definition fee_amount :: "fee_params \<Rightarrow> rat \<Rightarrow> fee_definition \<Rightarrow> rat option" where
  "fee_amount p included def = (let t = fd_terms def; rule = readRule (ft_jurisdiction t);
       v = fee_value def (fp_context p)
     in if ft_calculationType t = ''percentage'' then
          (let taxableBase = (if rr_taxableBase rule = ''base_plus_included''
                 then roundMoney (fp_base p + included) else fp_base p)
           in Some (taxableBase * v / 100))
        else if ft_calculationType t = ''fixed'' then
          map_option (\<lambda>m. v * m) (resolveMultiplier (ft_appliesPer t) (fp_nights p) (fp_guests p) (rr_maxNights rule))
        else None)"

definition fee_line :: "fee_params \<Rightarrow> rat \<Rightarrow> resolved_fee \<Rightarrow> tax_line option" where
  "fee_line p included r = (let def = rf_definition r; t = fd_terms def;
       rule = readRule (ft_jurisdiction t)
     in if \<not> fee_applies def (fp_context p) then None
        else map_option (\<lambda>amount.
          \<lparr>tl_definitionId = fd_id def, tl_code = ft_code t, tl_name = ft_name t, tl_kind = ft_kind t,
           tl_calculationType = ft_calculationType t, tl_value = fee_value def (fp_context p),
           tl_currency = ft_currency t, tl_inclusionType = ft_inclusionType t,
           tl_appliesPer = ft_appliesPer t, tl_priority = of_int (ft_priority t),
           tl_collectionResponsibility = rr_collectionResponsibility rule,
           tl_taxableBase = rr_taxableBase rule,
           tl_amount = roundMoney (case rr_maxAmount rule of None \<Rightarrow> amount | Some m \<Rightarrow> min amount m),
           tl_scope = fsrc_scope (rf_source r), tl_scopeId = fsrc_scopeId (rf_source r),
           tl_definitionVersionId = fsrc_definitionVersionId (rf_source r)\<rparr>)
          (fee_amount p included def))"

definition push_line :: "tax_line \<Rightarrow> line_buckets \<Rightarrow> line_buckets" where
  "push_line l b =
     (if tl_kind l = ''tax'' then
        (if tl_inclusionType l = ''included'' then b\<lparr>lb_taxesIncluded := lb_taxesIncluded b @ [l]\<rparr>
         else b\<lparr>lb_taxesExcluded := lb_taxesExcluded b @ [l]\<rparr>)
      else
        (if tl_inclusionType l = ''included'' then b\<lparr>lb_feesIncluded := lb_feesIncluded b @ [l]\<rparr>
         else b\<lparr>lb_feesExcluded := lb_feesExcluded b @ [l]\<rparr>))"

definition includedTaxableAmount :: "line_buckets \<Rightarrow> rat" where
  "includedTaxableAmount b = roundMoney (line_sum (lb_taxesIncluded b @ lb_feesIncluded b))"

fun fee_loop :: "fee_params \<Rightarrow> resolved_fee list \<Rightarrow> line_buckets \<Rightarrow> line_buckets" where
  "fee_loop p [] b = b"
| "fee_loop p (r # rs) b = fee_loop p rs (case fee_line p (includedTaxableAmount b) r of
     None \<Rightarrow> b | Some l \<Rightarrow> push_line l b)"

definition rounded_sum :: "tax_line list \<Rightarrow> rat" where
  "rounded_sum ls = foldl (\<lambda>acc l. roundMoney (acc + tl_amount l)) 0 ls"

definition empty_buckets :: line_buckets where
  "empty_buckets = \<lparr>lb_taxesIncluded = [], lb_taxesExcluded = [], lb_feesIncluded = [], lb_feesExcluded = []\<rparr>"

definition computeTaxBreakdown :: "fee_params \<Rightarrow> resolved_fee list \<Rightarrow> tax_breakdown" where
  "computeTaxBreakdown p definitions = (let b = fee_loop p definitions empty_buckets;
       excludedTotal = roundMoney (rounded_sum (lb_taxesExcluded b) + rounded_sum (lb_feesExcluded b))
     in \<lparr>tb_base = roundMoney (fp_base p), tb_total = roundMoney (fp_base p + excludedTotal),
         tb_taxes_included = lb_taxesIncluded b, tb_taxes_excluded = lb_taxesExcluded b,
         tb_fees_included = lb_feesIncluded b, tb_fees_excluded = lb_feesExcluded b\<rparr>)"

section \<open>What the writing side admits\<close>

text \<open>
  The schema the provider API parses a jurisdiction with (\<open>pages/api/provider/tax-fees/definitions.ts\<close>):
  an accepted rule with its defaults filled in, or \<open>None\<close> for a validation error. A collection
  responsibility and a taxable base outside the enumerations are errors.
\<close>

fun positive_or_none :: "rat json_field \<Rightarrow> bool" where
  "positive_or_none (Given n) = (0 < n)"
| "positive_or_none _ = True"

fun positive_integer_or_none :: "rat json_field \<Rightarrow> bool" where
  "positive_integer_or_none (Given n) = (0 < n \<and> js_isInteger n)"
| "positive_integer_or_none _ = True"

definition is_digit :: "char \<Rightarrow> bool" where
  "is_digit c \<longleftrightarrow> 48 \<le> char_code c \<and> char_code c \<le> 57"

definition date_shape :: "string \<Rightarrow> bool" where
  "date_shape s \<longleftrightarrow> length s = 10 \<and> s ! 4 = CHR ''-'' \<and> s ! 7 = CHR ''-'' \<and>
     list_all is_digit (take 4 s) \<and> list_all is_digit (take 2 (drop 5 s)) \<and> list_all is_digit (drop 8 s)"

definition season_ok :: "tax_season \<Rightarrow> bool" where
  "season_ok s \<longleftrightarrow> date_shape (sn_from s) \<and> date_shape (sn_to s) \<and> positive_or_none (sn_value s)"

definition one_of :: "string list \<Rightarrow> string option \<Rightarrow> bool" where
  "one_of ts s = (case s of None \<Rightarrow> True | Some t \<Rightarrow> t \<in> set ts)"

definition jurisdictionSchema :: "jurisdiction_rule \<Rightarrow> jurisdiction_rule option" where
  "jurisdictionSchema r =
     (let trimmed = map_option js_trim
      in if (case trimmed (jr_country r) of None \<Rightarrow> True | Some c \<Rightarrow> length c = 2) \<and>
            (case trimmed (jr_region r) of None \<Rightarrow> True | Some c \<Rightarrow> length c \<le> 80) \<and>
            (case trimmed (jr_city r) of None \<Rightarrow> True | Some c \<Rightarrow> length c \<le> 80) \<and>
            one_of [''provider'', ''platform'', ''marketplace''] (jr_collectionResponsibility r) \<and>
            one_of [''booking_base'', ''base_plus_included''] (jr_taxableBase r) \<and>
            list_all (\<lambda>c. length (js_trim c) = 2) (jr_exemptGuestResidenceCountries r) \<and>
            positive_or_none (jr_maxAmount r) \<and> positive_integer_or_none (jr_maxNights r) \<and>
            one_of [''restrict'', ''override''] (jr_seasonalMode r) \<and> list_all season_ok (jr_seasons r)
         then Some (r\<lparr>jr_country := trimmed (jr_country r), jr_region := trimmed (jr_region r),
           jr_city := trimmed (jr_city r),
           jr_collectionResponsibility := Some (case jr_collectionResponsibility r of None \<Rightarrow> ''provider'' | Some c \<Rightarrow> c),
           jr_taxableBase := Some (case jr_taxableBase r of None \<Rightarrow> ''booking_base'' | Some c \<Rightarrow> c),
           jr_exemptGuestResidenceCountries := map js_trim (jr_exemptGuestResidenceCountries r)\<rparr>)
         else None)"

definition parseJurisdiction :: "jurisdiction_rule option \<Rightarrow> string + jurisdiction_rule option" where
  "parseJurisdiction value = (case value of None \<Rightarrow> Inr None
     | Some raw \<Rightarrow> (case jurisdictionSchema raw of
           None \<Rightarrow> Inl ''validation_error''
         | Some rule \<Rightarrow> if list_all (\<lambda>s. text_le (sn_from s) (sn_to s)) (jr_seasons rule) then Inr (Some rule)
             else Inl ''Invalid tax season''))"

end
