(* ===== verification/Tax_Fee_Store.thy ===== *)
theory Tax_Fee_Store
  imports Tax_Fees
begin

text \<open>
  The tables of taxes and fees and the definitions in effect for a sale
  (\<open>modules/taxes-fees/infrastructure/repositories/TaxFeeRepository.ts\<close>,
  \<open>lib/taxes-fees/tax-fee-definition-snapshot.ts\<close>,
  \<open>modules/taxes-fees/application/use-cases/resolve-effective-tax-fees.ts\<close>). A sale reads a
  definition only through the snapshot of its current version. A query without an order returns the
  rows in the order of their insertion; \<open>localeCompare\<close> is the parameter \<open>lc\<close>.
\<close>

section \<open>Tables\<close>

text \<open>
  The JSON of a version's snapshot: the current form, the form before versioning, or anything else.
\<close>

datatype snapshot_json = SnapshotV2 fee_terms | LegacySnapshot fee_terms | OtherJson

record fee_version =
  fv_id :: string
  fv_definitionId :: string
  fv_version :: int
  fv_publicationState :: string
  fv_snapshot :: snapshot_json

record fee_draft =
  fdr_definitionId :: string
  fdr_baseVersionId :: "string option"
  fdr_terms :: fee_terms

record fee_assignment =
  fas_id :: string
  fas_definitionId :: string
  fas_scope :: string
  fas_scopeId :: "string option"
  fas_channel :: "string option"
  fas_status :: string
  fas_effectiveFrom :: "ms option"
  fas_effectiveTo :: "ms option"

record fiscal_activity =
  fac_providerId :: string
  fac_eventType :: string
  fac_definitionId :: string
  fac_versionId :: string

record fee_db =
  fdb_definitions :: "fee_definition list"
  fdb_versions :: "fee_version list"
  fdb_drafts :: "fee_draft list"
  fdb_assignments :: "fee_assignment list"
  fdb_activity :: "fiscal_activity list"
  fdb_products :: "(string \<times> string) list"

section \<open>Snapshots of a version\<close>

definition KINDS :: "string list" where
  "KINDS = [''tax'', ''fee'']"

definition CALC_TYPES :: "string list" where
  "CALC_TYPES = [''percentage'', ''fixed'']"

definition INCLUSION :: "string list" where
  "INCLUSION = [''included'', ''excluded'']"

definition APPLIES_PER :: "string list" where
  "APPLIES_PER = [''stay'', ''night'', ''guest'', ''guest_night'']"

definition ruleSchema :: "fee_terms \<Rightarrow> bool" where
  "ruleSchema t \<longleftrightarrow> ft_code t \<noteq> [] \<and> ft_name t \<noteq> [] \<and> ft_kind t \<in> set KINDS \<and>
     ft_calculationType t \<in> set CALC_TYPES \<and> 0 < ft_value t \<and> ft_inclusionType t \<in> set INCLUSION \<and>
     ft_appliesPer t \<in> set APPLIES_PER"

definition createTaxFeeDefinitionSnapshot :: "fee_terms \<Rightarrow> snapshot_json option" where
  "createTaxFeeDefinitionSnapshot t = (if ruleSchema t then Some (SnapshotV2 t) else None)"

fun parseTaxFeeDefinitionSnapshot :: "snapshot_json \<Rightarrow> fee_terms option" where
  "parseTaxFeeDefinitionSnapshot (SnapshotV2 t) = (if ruleSchema t then Some t else None)"
| "parseTaxFeeDefinitionSnapshot (LegacySnapshot t) = (if ruleSchema t then Some t else None)"
| "parseTaxFeeDefinitionSnapshot OtherJson = None"

section \<open>Queries\<close>

definition getDefinitionById :: "string \<Rightarrow> fee_db \<Rightarrow> fee_definition option" where
  "getDefinitionById i db = List.find (\<lambda>d. fd_id d = i) (fdb_definitions db)"

definition findActiveDefinitionByCodeProvider :: "string \<Rightarrow> string \<Rightarrow> fee_db \<Rightarrow> fee_definition option" where
  "findActiveDefinitionByCodeProvider code providerId db =
     List.find (\<lambda>d. ft_code (fd_terms d) = code \<and> fd_providerId d = providerId \<and> fd_status d = ''active'')
       (fdb_definitions db)"

text \<open>A target of a row: \<open>eq\<close> where the wanted text is not empty, \<open>isNull\<close> otherwise.\<close>

definition column_is :: "string option \<Rightarrow> string option \<Rightarrow> bool" where
  "column_is wanted column = (if text_or_empty wanted = [] then column = None else column = wanted)"

definition findActiveAssignment ::
  "string \<Rightarrow> string \<Rightarrow> string option \<Rightarrow> string option \<Rightarrow> fee_db \<Rightarrow> fee_assignment option" where
  "findActiveAssignment definitionId scope scopeId channel db =
     List.find (\<lambda>a. fas_definitionId a = definitionId \<and> fas_scope a = scope \<and> column_is scopeId (fas_scopeId a) \<and>
       column_is channel (fas_channel a) \<and> fas_status a = ''active'') (fdb_assignments db)"

definition findActiveAssignmentByCodeScope ::
  "string \<Rightarrow> string \<Rightarrow> string option \<Rightarrow> fee_db \<Rightarrow> fee_assignment option" where
  "findActiveAssignmentByCodeScope code scope scopeId db =
     List.find (\<lambda>a. (case getDefinitionById (fas_definitionId a) db of None \<Rightarrow> False
         | Some d \<Rightarrow> ft_code (fd_terms d) = code \<and> fd_status d = ''active'') \<and>
       fas_status a = ''active'' \<and> fas_scope a = scope \<and> column_is scopeId (fas_scopeId a)) (fdb_assignments db)"

definition listActiveAssignments ::
  "(string \<times> string option) list \<Rightarrow> string option list \<Rightarrow> fee_db \<Rightarrow> fee_assignment list" where
  "listActiveAssignments scopeChain channels db =
     (if scopeChain = [] \<or> channels = [] then []
      else filter (\<lambda>a. fas_status a = ''active'' \<and>
        list_ex (\<lambda>(scope, scopeId). fas_scope a = scope \<and> column_is scopeId (fas_scopeId a)) scopeChain \<and>
        list_ex (\<lambda>c. fas_channel a = c) channels) (fdb_assignments db))"

text \<open>The definition a sale sees: the row, with the terms of the snapshot of its current version.\<close>

definition mapVersionedDefinition :: "fee_definition \<Rightarrow> fee_version \<Rightarrow> fee_definition option" where
  "mapVersionedDefinition d v =
     map_option (\<lambda>t. d\<lparr>fd_terms := t\<rparr>) (parseTaxFeeDefinitionSnapshot (fv_snapshot v))"

definition current_version :: "fee_definition \<Rightarrow> fee_db \<Rightarrow> fee_version option" where
  "current_version d db = (case fd_currentVersionId d of None \<Rightarrow> None
     | Some i \<Rightarrow> List.find (\<lambda>v. fv_id v = i) (fdb_versions db))"

definition sold_definition :: "fee_db \<Rightarrow> fee_definition \<Rightarrow> fee_definition option" where
  "sold_definition db d = Option.bind (current_version d db) (mapVersionedDefinition d)"

definition listDefinitionsByIds :: "string list \<Rightarrow> fee_db \<Rightarrow> fee_definition list" where
  "listDefinitionsByIds ids db =
     List.map_filter (sold_definition db) (filter (\<lambda>d. fd_id d \<in> set ids) (fdb_definitions db))"

definition getProviderIdByProductId :: "string \<Rightarrow> fee_db \<Rightarrow> string option" where
  "getProviderIdByProductId productId db = map_of (fdb_products db) productId"

section \<open>The definitions in effect\<close>

definition isValidDefinition :: "fee_definition \<Rightarrow> ms \<Rightarrow> bool" where
  "isValidDefinition d now = (let t = fd_terms d in
     fd_status d = ''active'' \<and> fd_editingState d \<noteq> ''draft'' \<and>
     (case ft_effectiveFrom t of None \<Rightarrow> True | Some f \<Rightarrow> f \<le> now) \<and>
     (case ft_effectiveTo t of None \<Rightarrow> True | Some e \<Rightarrow> now \<le> e) \<and>
     ft_kind t \<in> set KINDS \<and> ft_calculationType t \<in> set CALC_TYPES \<and>
     ft_inclusionType t \<in> set INCLUSION \<and> ft_appliesPer t \<in> set APPLIES_PER \<and> 0 < ft_value t \<and>
     \<not> (ft_calculationType t = ''percentage'' \<and> text_or_empty (ft_currency t) \<noteq> []) \<and>
     \<not> (ft_calculationType t = ''fixed'' \<and> text_or_empty (ft_currency t) = []))"

record fee_query =
  fq_providerId :: "string option"
  fq_productId :: "string option"
  fq_variantId :: "string option"
  fq_ratePlanId :: "string option"
  fq_channel :: "string option"

definition chain_entry :: "string \<Rightarrow> string option \<Rightarrow> (string \<times> string option) list" where
  "chain_entry scope i = (if text_or_empty i = [] then [] else [(scope, i)])"

definition scope_chain :: "fee_query \<Rightarrow> fee_db \<Rightarrow> (string \<times> string option) list" where
  "scope_chain q db =
     (let providerId = (if text_or_empty (fq_providerId q) = [] \<and> text_or_empty (fq_productId q) \<noteq> []
            then getProviderIdByProductId (text_or_empty (fq_productId q)) db else fq_providerId q)
      in [(''global'', None)] @ chain_entry ''provider'' providerId @ chain_entry ''product'' (fq_productId q) @
         chain_entry ''variant'' (fq_variantId q) @ chain_entry ''rate_plan'' (fq_ratePlanId q))"

definition sale_channels :: "fee_query \<Rightarrow> string option list" where
  "sale_channels q = (if text_or_empty (fq_channel q) = [] then [None] else [fq_channel q, None])"

definition assignment_in_effect :: "ms \<Rightarrow> fee_assignment \<Rightarrow> bool" where
  "assignment_in_effect now a \<longleftrightarrow>
     (case fas_effectiveFrom a of None \<Rightarrow> True | Some f \<Rightarrow> f \<le> now) \<and>
     (case fas_effectiveTo a of None \<Rightarrow> True | Some e \<Rightarrow> now \<le> e)"

definition resolved_of :: "fee_assignment \<Rightarrow> fee_definition \<Rightarrow> resolved_fee" where
  "resolved_of a d = \<lparr>rf_definition = d,
     rf_source = \<lparr>fsrc_scope = fas_scope a, fsrc_scopeId = fas_scopeId a, fsrc_definitionId = fd_id d,
       fsrc_definitionVersionId = fd_currentVersionId d\<rparr>\<rparr>"

definition resolve_assignment :: "ms \<Rightarrow> fee_definition list \<Rightarrow> fee_assignment \<Rightarrow> resolved_fee option" where
  "resolve_assignment now definitions a =
     (if \<not> assignment_in_effect now a then None
      else case List.find (\<lambda>d. fd_id d = fas_definitionId a) (rev definitions) of
             None \<Rightarrow> None
           | Some d \<Rightarrow> if isValidDefinition d now then Some (resolved_of a d) else None)"

definition fee_order :: "(string \<Rightarrow> string \<Rightarrow> int) \<Rightarrow> resolved_fee \<Rightarrow> resolved_fee \<Rightarrow> int" where
  "fee_order lc a b = (let d = rf_definition a; e = rf_definition b in
     if ft_priority (fd_terms d) \<noteq> ft_priority (fd_terms e) then ft_priority (fd_terms d) - ft_priority (fd_terms e)
     else if fd_createdAt d \<noteq> fd_createdAt e then fd_createdAt d - fd_createdAt e
     else lc (fd_id d) (fd_id e))"

definition resolveEffectiveTaxFees ::
  "(string \<Rightarrow> string \<Rightarrow> int) \<Rightarrow> ms \<Rightarrow> fee_query \<Rightarrow> fee_db \<Rightarrow> resolved_fee list" where
  "resolveEffectiveTaxFees lc now q db =
     (let assignments = listActiveAssignments (scope_chain q db) (sale_channels q) db;
          definitions = listDefinitionsByIds (js_dedup (map fas_definitionId assignments)) db
      in js_sort (fee_order lc) (List.map_filter (resolve_assignment now definitions) assignments))"

end
