(* ===== verification/Hold_Request.thy ===== *)
theory Hold_Request
  imports Search_Offers Tax_Fee_Store Create_Hold
begin

text \<open>
  The route that takes a hold (\<open>pages/api/inventory/hold.ts\<close>): it evaluates the stay once more over the
  search view, prices its nights from the effective prices, adds the taxes and fees, builds the price quote
  and the commercial snapshot, and calls the use case of \<open>Create_Hold\<close>.

  The request is read into a record before the route's schema; the cookies and headers that supply a
  missing session, the metrics and the messages of the response are left out. The eligibility of a product
  for the public catalog, the flag of the tour checkout, the agreement of the provider, the product of a
  variant with its country, and the host are fields of the environment.
\<close>

section \<open>Whether a stay can be held\<close>

record hold_query =
  hq_productId :: string
  hq_variantId :: string
  hq_ratePlanId :: string
  hq_checkIn :: date_text
  hq_checkOut :: date_text
  hq_rooms :: int
  hq_adults :: int
  hq_children :: int
  hq_infants :: int

datatype hold_refusal = INVALID_STAY_RANGE | RATEPLAN_CONTEXT_INVALID | CURRENCY_MISMATCH | Unsellable reason_code
  | MISSING_PRICE | UNKNOWN_REFUSAL

record held_day =
  hdy_date :: day
  hdy_price :: rat
  hdy_breakdown :: price_breakdown

record held_stay =
  hld_ratePlanId :: string
  hld_totalPrice :: rat
  hld_currency :: string
  hld_nights :: nat
  hld_days :: "held_day list"

datatype holdability = NotHoldable hold_refusal "day option" | Holdable held_stay

text \<open>The nights of the stay; a text that is no date ends the cursor loop before it starts.\<close>

fun hold_stay_dates :: "date_text \<Rightarrow> date_text \<Rightarrow> day list" where
  "hold_stay_dates (Iso a) (Iso b) = enumerateStayDates a b"
| "hold_stay_dates _ _ = []"

fun iso_day :: "date_text \<Rightarrow> day" where
  "iso_day (Iso d) = d"
| "iso_day (NotIso s) = 0"

definition hold_key :: "hold_query \<Rightarrow> string" where
  "hold_key q = buildOccupancyKey (normalizeOccupancy (Some (of_int (hq_adults q))) (Some (of_int (hq_children q)))
     (Some (of_int (hq_infants q))))"

text \<open>The rows of the view, with the night after the stay, of a product the public catalog lists.\<close>

definition hold_view_rows :: "(string \<Rightarrow> bool) \<Rightarrow> hold_query \<Rightarrow> search_db \<Rightarrow> (day \<times> view_row) list" where
  "hold_view_rows listed q s =
     (if \<not> listed (hq_productId q) then []
      else List.map_filter (\<lambda>d. case sdb_view s (hq_variantId q, hq_ratePlanId q, d, hold_key q) of
            None \<Rightarrow> None
          | Some r \<Rightarrow> if suv_productId r = hq_productId q then Some (d, r) else None)
        [iso_day (hq_checkIn q)..iso_day (hq_checkOut q)])"

definition hold_rows_by_date :: "(day \<times> view_row) list \<Rightarrow> day \<Rightarrow> stay_row option" where
  "hold_rows_by_date rows d = map_option (\<lambda>(_, r). stay_row_of r) (List.find (\<lambda>(e, _). e = d) (rev rows))"

text \<open>The effective price of a night, the last row of a key winning; a failing read leaves no prices.\<close>

definition hold_price :: "bool \<Rightarrow> hold_query \<Rightarrow> search_db \<Rightarrow> day \<Rightarrow> effective_row option" where
  "hold_price readFails q s d =
     (if readFails then None
      else List.find (\<lambda>r. efp_variantId r = hq_variantId q)
        (rev (pdb_effective (sdb_pricing s) (hq_ratePlanId q, d, hold_key q))))"

definition held_day_of :: "day \<Rightarrow> effective_row \<Rightarrow> held_day" where
  "held_day_of d r = \<lparr>hdy_date = d, hdy_price = efp_finalBasePrice r,
     hdy_breakdown = \<lparr>pb_base = toFixed2 (efp_baseComponent r), pb_occupancyAdjustment = toFixed2 (efp_occupancyAdjustment r),
       pb_rules = toFixed2 (efp_ruleAdjustment r), pb_final = toFixed2 (efp_finalBasePrice r)\<rparr>\<rparr>"

definition unpriced :: "effective_row option \<Rightarrow> bool" where
  "unpriced p = (case p of None \<Rightarrow> True | Some r \<Rightarrow> efp_finalBasePrice r \<le> 0)"

definition hold_currency :: "(day \<times> view_row) list \<Rightarrow> string" where
  "hold_currency rows = (case js_dedup (map (\<lambda>(_, r). js_upper (suv_currency r)) rows) of [c] \<Rightarrow> c | _ \<Rightarrow> [])"

definition resolveHoldabilityFromView ::
  "(string \<Rightarrow> bool) \<Rightarrow> bool \<Rightarrow> day \<Rightarrow> hold_query \<Rightarrow> search_db \<Rightarrow> holdability" where
  "resolveHoldabilityFromView listed readFails today q s =
     (let stayDates = hold_stay_dates (hq_checkIn q) (hq_checkOut q);
          rows = hold_view_rows listed q s;
          currency = hold_currency rows;
          first = Some (hd stayDates);
          prices = map (\<lambda>d. (d, hold_price readFails q s d)) stayDates
      in if stayDates = [] then NotHoldable INVALID_STAY_RANGE None
         else if rows = [] then NotHoldable RATEPLAN_CONTEXT_INVALID first
         else if hq_ratePlanId q = [] then NotHoldable UNKNOWN_REFUSAL first
         else if \<not> is_currency currency then NotHoldable CURRENCY_MISMATCH first
         else let evaluation = evaluateStaySellabilityFromView stayDates (iso_day (hq_checkIn q)) (hq_rooms q)
                    (hold_rows_by_date rows) None today
              in if \<not> ssl_isSellable evaluation
                 then NotHoldable (Unsellable (case ssl_reasonCodes evaluation of [] \<Rightarrow> MISSING_COVERAGE | c # _ \<Rightarrow> c)) first
                 else (case List.find (\<lambda>(d, p). unpriced p) prices of
                     Some (d, _) \<Rightarrow> NotHoldable MISSING_PRICE (Some d)
                   | None \<Rightarrow>
                       (let days = map (\<lambda>(d, p). held_day_of d (the p)) prices
                        in Holdable \<lparr>hld_ratePlanId = hq_ratePlanId q, hld_totalPrice = sum_list (map hdy_price days),
                             hld_currency = currency, hld_nights = length stayDates, hld_days = days\<rparr>)))"

section \<open>The quote and the snapshot\<close>

record hold_request =
  hrq_variantId :: string
  hrq_ratePlanId :: string
  hrq_from :: date_text
  hrq_to :: date_text
  hrq_rooms :: int
  hrq_adults :: int
  hrq_children :: int
  hrq_infants :: int
  hrq_sessionId :: string
  hrq_quoteId :: "string option"

record hold_env =
  hen_variants :: "string \<Rightarrow> string option"
  hen_tourSlot :: "string option option"
  hen_toursEnabled :: bool
  hen_listed :: "string \<Rightarrow> bool"
  hen_pricesFail :: bool
  hen_today :: day
  hen_country :: "string \<Rightarrow> string option"
  hen_enforceAgreement :: bool
  hen_agreementActive :: bool
  hen_agreement :: "agreement_snapshot option"
  hen_issuedAt :: string
  hen_checkInText :: "day \<Rightarrow> string"

definition is_quote_id :: "string \<Rightarrow> bool" where
  "is_quote_id s \<longleftrightarrow> starts_with s ''pq_'' \<and> length s = 35 \<and>
     list_all (\<lambda>c. 48 \<le> char_code c \<and> char_code c \<le> 57 \<or> 97 \<le> char_code c \<and> char_code c \<le> 102) (drop 3 s)"

definition hold_schema :: "hold_request \<Rightarrow> bool" where
  "hold_schema r \<longleftrightarrow> hrq_variantId r \<noteq> [] \<and> hrq_ratePlanId r \<noteq> [] \<and> \<not> date_blank (hrq_from r) \<and> \<not> date_blank (hrq_to r) \<and>
     1 \<le> hrq_rooms r \<and> 1 \<le> hrq_adults r \<and> 0 \<le> hrq_children r \<and> 0 \<le> hrq_infants r \<and>
     (case hrq_quoteId r of None \<Rightarrow> True | Some i \<Rightarrow> is_quote_id i)"

definition hold_query_of :: "hold_request \<Rightarrow> string \<Rightarrow> hold_query" where
  "hold_query_of r productId = \<lparr>hq_productId = productId, hq_variantId = hrq_variantId r, hq_ratePlanId = hrq_ratePlanId r,
     hq_checkIn = hrq_from r, hq_checkOut = hrq_to r, hq_rooms = hrq_rooms r, hq_adults = hrq_adults r,
     hq_children = hrq_children r, hq_infants = hrq_infants r\<rparr>"

text \<open>The sum of the breakdowns of the nights, and its components to the cent.\<close>

definition breakdown_totals :: "held_day list \<Rightarrow> price_breakdown" where
  "breakdown_totals days = foldl (\<lambda>acc d. \<lparr>pb_base = pb_base acc + pb_base (hdy_breakdown d),
     pb_occupancyAdjustment = pb_occupancyAdjustment acc + pb_occupancyAdjustment (hdy_breakdown d),
     pb_rules = pb_rules acc + pb_rules (hdy_breakdown d), pb_final = pb_final acc + pb_final (hdy_breakdown d)\<rparr>)
     \<lparr>pb_base = 0, pb_occupancyAdjustment = 0, pb_rules = 0, pb_final = 0\<rparr> days"

definition breakdown_cents :: "price_breakdown \<Rightarrow> price_breakdown" where
  "breakdown_cents b = \<lparr>pb_base = toFixed2 (pb_base b), pb_occupancyAdjustment = toFixed2 (pb_occupancyAdjustment b),
     pb_rules = toFixed2 (pb_rules b), pb_final = toFixed2 (pb_final b)\<rparr>"

definition hold_guests :: "hold_request \<Rightarrow> int" where
  "hold_guests r = max 1 (hrq_adults r + hrq_children r)"

definition hold_fee_query :: "hold_request \<Rightarrow> string \<Rightarrow> held_stay \<Rightarrow> fee_query" where
  "hold_fee_query r productId h = \<lparr>fq_providerId = None, fq_productId = Some productId, fq_variantId = Some (hrq_variantId r),
     fq_ratePlanId = Some (hld_ratePlanId h), fq_channel = Some ''web''\<rparr>"

definition hold_fee_params :: "hold_env \<Rightarrow> hold_request \<Rightarrow> string \<Rightarrow> held_stay \<Rightarrow> fee_params" where
  "hold_fee_params env r productId h = \<lparr>fp_base = hld_totalPrice h, fp_nights = of_nat (hld_nights h),
     fp_guests = of_int (hold_guests r),
     fp_context = \<lparr>fc_country = map_option js_upper (hen_country env productId), fc_region = None, fc_city = None,
       fc_guestResidenceCountry = None, fc_checkIn = Some (hen_checkInText env (iso_day (hrq_from r)))\<rparr>\<rparr>"

definition hold_quote ::
  "(string \<Rightarrow> string \<Rightarrow> int) \<Rightarrow> (commercial_payload \<Rightarrow> string) \<Rightarrow> hold_env \<Rightarrow> ms \<Rightarrow> hold_request \<Rightarrow> string \<Rightarrow> held_stay
     \<Rightarrow> fee_db \<Rightarrow> price_quote" where
  "hold_quote lc digest env now r productId h fees = buildPriceQuote lc digest
     \<lparr>pq_version = [], pq_quoteId = [], pq_issuedAt = hen_issuedAt env, pq_source = ''hold'',
      pq_context = \<lparr>qc_productId = productId, qc_variantId = hrq_variantId r, qc_ratePlanId = hld_ratePlanId h,
        qc_checkIn = iso_day (hrq_from r), qc_checkOut = iso_day (hrq_to r), qc_rooms = of_int (hrq_rooms r),
        qc_adults = of_int (hrq_adults r), qc_children = of_int (hrq_children r), qc_infants = of_int (hrq_infants r),
        qc_channel = ''web''\<rparr>,
      pq_currency = hld_currency h, pq_nights = of_nat (hld_nights h), pq_baseAmount = hld_totalPrice h,
      pq_taxesAndFees = computeTaxBreakdown (hold_fee_params env r productId h)
        (resolveEffectiveTaxFees lc now (hold_fee_query r productId h) fees),
      pq_totalAmount = 0, pq_days = map (\<lambda>d. (hdy_date d, hdy_price d)) (hld_days h),
      pq_breakdownV2 = Some (breakdown_cents (breakdown_totals (hld_days h))), pq_pricingSource = ''v2''\<rparr>"

definition route_snapshot :: "hold_env \<Rightarrow> hold_request \<Rightarrow> held_stay \<Rightarrow> price_quote \<Rightarrow> hold_snapshot" where
  "route_snapshot env r h quote =
     \<lparr>hs_version = HOLD_COMMERCIAL_SNAPSHOT_VERSION, hs_ratePlanId = hld_ratePlanId h, hs_currency = hld_currency h,
      hs_rooms = of_int (hrq_rooms r), hs_occupancy = of_int (hold_guests r),
      hs_adults = of_int (hrq_adults r), hs_children = of_int (hrq_children r), hs_infants = of_int (hrq_infants r),
      hs_from = Some (iso_day (hrq_from r)), hs_to = Some (iso_day (hrq_to r)), hs_nights = of_nat (hld_nights h),
      hs_totalPrice = pq_totalAmount quote,
      hs_days = map (\<lambda>d. \<lparr>sd_date = Some (hdy_date d), sd_price = hdy_price d, sd_breakdownV2 = Some (hdy_breakdown d),
        sd_pricingSource = ''v2''\<rparr>) (hld_days h),
      hs_breakdownV2 = Some (breakdown_cents (breakdown_totals (hld_days h))), hs_pricingSource = ''v2'',
      hs_priceQuote = quote, hs_agreement = (if hen_enforceAgreement env then hen_agreement env else None)\<rparr>"

definition resolvePricingSnapshot ::
  "(string \<Rightarrow> string \<Rightarrow> int) \<Rightarrow> (commercial_payload \<Rightarrow> string) \<Rightarrow> hold_env \<Rightarrow> ms \<Rightarrow> hold_request \<Rightarrow> string \<Rightarrow> held_stay
     \<Rightarrow> fee_db \<Rightarrow> date_text \<Rightarrow> date_text \<Rightarrow> failure + hold_snapshot option" where
  "resolvePricingSnapshot lc digest env now r productId h fees from' to =
     (if from' \<noteq> hrq_from r \<or> to \<noteq> hrq_to r then Inr None
      else let quote = hold_quote lc digest env now r productId h fees
           in if hrq_quoteId r \<noteq> None \<and> hrq_quoteId r \<noteq> Some (pq_quoteId quote) then Inl (Thrown ''price_changed'')
              else if hen_enforceAgreement env \<and> \<not> hen_agreementActive env then Inl (Thrown ''COMMERCIAL_AGREEMENT_REQUIRED'')
              else Inr (Some (route_snapshot env r h quote)))"

section \<open>The route\<close>

definition hold_selection :: "hold_request \<Rightarrow> string" where
  "hold_selection r = hrq_ratePlanId r @ '':'' @ digits_of (nat (hrq_adults r)) @ '':'' @ digits_of (nat (hrq_children r)) @ '':'' @
     digits_of (nat (hrq_infants r))"

definition route_deps ::
  "codec \<Rightarrow> create_deps \<Rightarrow> hold_env \<Rightarrow> ms \<Rightarrow> hold_request \<Rightarrow> string \<Rightarrow> held_stay \<Rightarrow> fee_db \<Rightarrow> create_deps" where
  "route_deps cc deps env now r productId h fees = deps
     \<lparr>cd_pricing := (\<lambda>_ from' to _. resolvePricingSnapshot (cc_lc cc) (cc_digest cc) env now r productId h fees from' to),
      cd_ratePlanId := hrq_ratePlanId r, cd_channel := Some ''web''\<rparr>"

definition route_input :: "hold_request \<Rightarrow> create_input" where
  "route_input r = \<lparr>ci_variantId = hrq_variantId r, ci_from = hrq_from r, ci_to = hrq_to r, ci_rooms = Some (hrq_rooms r),
     ci_occupancy = None, ci_sessionId = hrq_sessionId r, ci_selectionKey = Some (hold_selection r)\<rparr>"

text \<open>
  The mutation the route passes to \<open>applyInventoryMutation\<close>. \<open>deps\<close> carries the policy, audit and guest
  text dependencies of the use case.
\<close>

definition hold_route ::
  "codec \<Rightarrow> 's hold_port \<Rightarrow> create_deps \<Rightarrow> hold_env \<Rightarrow> search_db \<Rightarrow> fee_db \<Rightarrow> hold_request \<Rightarrow> ms \<Rightarrow> 's
     \<Rightarrow> (failure + string \<times> ms \<times> price_quote) \<times> 's" where
  "hold_route cc port deps env search fees r now s =
     (if \<not> hold_schema r then (Inl (Thrown ''ZodError''), s)
      else case hen_variants env (hrq_variantId r) of
        None \<Rightarrow> (Inl (Thrown ''variant_not_found''), s)
      | Some productId \<Rightarrow>
          if productId = [] then (Inl (Thrown ''variant_not_found''), s)
          else if hen_tourSlot env \<noteq> None \<and> \<not> hen_toursEnabled env then (Inl (Thrown ''tours_checkout_disabled''), s)
          else if js_lower (case hen_tourSlot env of Some (Some mode) \<Rightarrow> mode | _ \<Rightarrow> []) = ''private''
            then (Inl (Thrown ''private_on_request''), s)
          else case resolveHoldabilityFromView (hen_listed env) (hen_pricesFail env) (hen_today env)
              (hold_query_of r productId) search of
            NotHoldable _ _ \<Rightarrow> (Inl (Thrown ''not_holdable''), s)
          | Holdable h \<Rightarrow> createInventoryHold cc port (route_deps cc deps env now r productId h fees) (route_input r) now s)"

end
