(* ===== verification/Public_Search.thy ===== *)
theory Public_Search
  imports Hold_Request
begin

text \<open>
  The public search (\<open>lib/search/publicSearchSurface.ts\<close>): the products of a destination with a stay on
  sale, each with the price quote of its cheapest rate plan. The rows come straight from the view.

  The view is read in an order of the database, which is the field \<open>sue_scan\<close> of the environment; the
  eligibility of a product for the public catalog and the columns of its tables are fields too. A product has
  one primary destination. The times of the rows are compared as numbers, where the code compares their ISO texts.
\<close>

section \<open>The rows\<close>

record surface_product =
  sfr_name :: string
  sfr_placeId :: string
  sfr_heroImageUrl :: "string option"
  sfr_country :: "string option"

record surface_env =
  sue_scan :: "(string \<times> string \<times> day) list"
  sue_products :: "string \<Rightarrow> surface_product option"
  sue_listed :: "string \<Rightarrow> bool"
  sue_issuedAt :: string
  sue_dateText :: "day \<Rightarrow> string"

record surface_params =
  sfp_geoPlaceId :: string
  sfp_checkIn :: day
  sfp_checkOut :: day
  sfp_rooms :: int
  sfp_adults :: int
  sfp_children :: int
  sfp_currency :: string

record surface_row =
  srw_productId :: string
  srw_variantId :: string
  srw_ratePlanId :: string
  srw_date :: day
  srw_isAvailable :: bool
  srw_hasAvailability :: bool
  srw_hasPrice :: bool
  srw_availableUnits :: int
  srw_pricePerNight :: "rat option"
  srw_currency :: string
  srw_primaryBlocker :: "string option"
  srw_computedAt :: ms
  srw_product :: surface_product

definition surface_key :: "surface_params \<Rightarrow> string" where
  "surface_key p = buildOccupancyKey \<lparr>oc_adults = max 0 (sfp_adults p), oc_children = max 0 (sfp_children p), oc_infants = 0\<rparr>"

definition surface_row_at :: "surface_env \<Rightarrow> surface_params \<Rightarrow> search_db \<Rightarrow> string \<times> string \<times> day \<Rightarrow> surface_row option" where
  "surface_row_at env p s = (\<lambda>(v, plan, d).
     case sdb_view s (v, plan, d, surface_key p) of None \<Rightarrow> None
     | Some r \<Rightarrow> (case sue_products env (suv_productId r) of None \<Rightarrow> None
       | Some product \<Rightarrow>
           if sfr_placeId product = sfp_geoPlaceId p \<and> sue_listed env (suv_productId r) \<and> suv_currency r = sfp_currency p \<and>
              sfp_checkIn p \<le> d \<and> d < sfp_checkOut p
           then Some \<lparr>srw_productId = suv_productId r, srw_variantId = v, srw_ratePlanId = plan, srw_date = d,
             srw_isAvailable = suv_isAvailable r, srw_hasAvailability = suv_hasAvailability r, srw_hasPrice = suv_hasPrice r,
             srw_availableUnits = suv_availableUnits r, srw_pricePerNight = suv_pricePerNight r, srw_currency = suv_currency r,
             srw_primaryBlocker = suv_primaryBlocker r, srw_computedAt = suv_computedAt r, srw_product = product\<rparr>
           else None))"

definition surface_rows :: "surface_env \<Rightarrow> surface_params \<Rightarrow> search_db \<Rightarrow> surface_row list" where
  "surface_rows env p s = List.map_filter (surface_row_at env p s) (sue_scan env)"

text \<open>The rows grouped by product, variant and rate plan, in the order of their first row.\<close>

definition surface_group :: "surface_row \<Rightarrow> string" where
  "surface_group r = srw_productId r @ '':'' @ srw_variantId r @ '':'' @ srw_ratePlanId r"

definition surface_buckets :: "surface_row list \<Rightarrow> surface_row list list" where
  "surface_buckets rows = map (\<lambda>k. filter (\<lambda>r. surface_group r = k) rows) (js_dedup (map surface_group rows))"

section \<open>The quote of a rate plan\<close>

definition bucket_row :: "surface_row list \<Rightarrow> day \<Rightarrow> surface_row option" where
  "bucket_row bucket d = List.find (\<lambda>r. srw_date r = d) (rev bucket)"

definition surface_open :: "int \<Rightarrow> surface_row option \<Rightarrow> bool" where
  "surface_open rooms row = (case row of None \<Rightarrow> False
    | Some r \<Rightarrow> srw_isAvailable r \<and> srw_hasAvailability r \<and> srw_hasPrice r \<and> rooms \<le> max 0 (srw_availableUnits r) \<and>
        js_trim (text_or_empty (srw_primaryBlocker r)) = [])"

definition surface_quote ::
  "(string \<Rightarrow> string \<Rightarrow> int) \<Rightarrow> (commercial_payload \<Rightarrow> string) \<Rightarrow> surface_env \<Rightarrow> ms \<Rightarrow> surface_params \<Rightarrow> fee_db
     \<Rightarrow> surface_row \<Rightarrow> (day \<times> rat) list \<Rightarrow> price_quote" where
  "surface_quote lc digest env now p fees first prices =
     (let baseAmount = roundMoney (sum_list (map snd prices));
          definitions = resolveEffectiveTaxFees lc now \<lparr>fq_providerId = None, fq_productId = Some (srw_productId first),
            fq_variantId = Some (srw_variantId first), fq_ratePlanId = Some (srw_ratePlanId first), fq_channel = Some ''web''\<rparr> fees;
          taxesAndFees = computeTaxBreakdown \<lparr>fp_base = baseAmount, fp_nights = of_nat (length prices),
            fp_guests = of_int (max 1 (sfp_adults p + sfp_children p)),
            fp_context = \<lparr>fc_country = map_option js_upper (Option.bind (sue_products env (srw_productId first)) sfr_country),
              fc_region = None, fc_city = None, fc_guestResidenceCountry = None,
              fc_checkIn = Some (sue_dateText env (sfp_checkIn p))\<rparr>\<rparr> definitions
      in buildPriceQuote lc digest
        \<lparr>pq_version = [], pq_quoteId = [], pq_issuedAt = sue_issuedAt env, pq_source = ''search'',
         pq_context = \<lparr>qc_productId = srw_productId first, qc_variantId = srw_variantId first,
           qc_ratePlanId = srw_ratePlanId first, qc_checkIn = sfp_checkIn p, qc_checkOut = sfp_checkOut p,
           qc_rooms = of_int (sfp_rooms p), qc_adults = of_int (sfp_adults p), qc_children = of_int (sfp_children p),
           qc_infants = 0, qc_channel = ''web''\<rparr>,
         pq_currency = js_upper (srw_currency first), pq_nights = of_nat (length prices), pq_baseAmount = baseAmount,
         pq_taxesAndFees = taxesAndFees, pq_totalAmount = 0, pq_days = prices, pq_breakdownV2 = None,
         pq_pricingSource = ''materialized_search_view''\<rparr>)"

record bucket_sale =
  bsl_first :: surface_row
  bsl_baseAmount :: rat
  bsl_quote :: price_quote
  bsl_lastMaterializedAt :: ms

text \<open>The body of the loop up to its quote; a bucket the loop continues past has none.\<close>

definition bucket_sale_of ::
  "(string \<Rightarrow> string \<Rightarrow> int) \<Rightarrow> (commercial_payload \<Rightarrow> string) \<Rightarrow> surface_env \<Rightarrow> ms \<Rightarrow> surface_params \<Rightarrow> fee_db
     \<Rightarrow> surface_row list \<Rightarrow> bucket_sale option" where
  "bucket_sale_of lc digest env now p fees bucket =
     (let stayDates = enumerateStayDates (sfp_checkIn p) (sfp_checkOut p);
          first = hd bucket;
          prices = map (\<lambda>d. Option.bind (bucket_row bucket d) srw_pricePerNight) stayDates
      in if \<not> list_all (\<lambda>d. bucket_row bucket d \<noteq> None) stayDates then None
         else if \<not> list_all (\<lambda>d. surface_open (sfp_rooms p) (bucket_row bucket d)) stayDates then None
         else if list_ex (\<lambda>price. case price of None \<Rightarrow> True | Some x \<Rightarrow> x \<le> 0) prices then None
         else Some \<lparr>bsl_first = first, bsl_baseAmount = roundMoney (sum_list (map the prices)),
           bsl_quote = surface_quote lc digest env now p fees first (zip stayDates (map the prices)),
           bsl_lastMaterializedAt = Max (set (map srw_computedAt bucket))\<rparr>)"

section \<open>The surface\<close>

record surface_result =
  psr_productId :: string
  psr_name :: string
  psr_geoPlaceId :: string
  psr_heroImage :: "string option"
  psr_fromPrice :: rat
  psr_basePrice :: rat
  psr_totalPrice :: rat
  psr_currency :: string
  psr_availableVariants :: nat
  psr_priceQuote :: price_quote
  psr_hasIncluded :: bool
  psr_hasExcluded :: bool
  psr_lastMaterializedAt :: ms

definition result_of_sale :: "nat \<Rightarrow> bucket_sale \<Rightarrow> surface_result" where
  "result_of_sale others b =
     (let first = bsl_first b; quote = bsl_quote b; t = pq_taxesAndFees quote
      in \<lparr>psr_productId = srw_productId first, psr_name = sfr_name (srw_product first), psr_geoPlaceId = sfr_placeId (srw_product first),
          psr_heroImage = (case sfr_heroImageUrl (srw_product first) of Some (c # cs) \<Rightarrow> Some (c # cs) | _ \<Rightarrow> None),
          psr_fromPrice = pq_totalAmount quote, psr_basePrice = bsl_baseAmount b, psr_totalPrice = pq_totalAmount quote,
          psr_currency = js_upper (srw_currency first), psr_availableVariants = others + 1, psr_priceQuote = quote,
          psr_hasIncluded = (tb_taxes_included t \<noteq> [] \<or> tb_fees_included t \<noteq> []),
          psr_hasExcluded = (tb_taxes_excluded t \<noteq> [] \<or> tb_fees_excluded t \<noteq> []),
          psr_lastMaterializedAt = bsl_lastMaterializedAt b\<rparr>)"

text \<open>A product keeps its place in the map when a cheaper rate plan replaces its result.\<close>

fun put_sale :: "bucket_sale \<Rightarrow> surface_result list \<Rightarrow> surface_result list" where
  "put_sale b [] = [result_of_sale 0 b]"
| "put_sale b (r # rs) =
     (if psr_productId r \<noteq> srw_productId (bsl_first b) then r # put_sale b rs
      else if psr_totalPrice r \<le> pq_totalAmount (bsl_quote b)
        then r\<lparr>psr_availableVariants := psr_availableVariants r + 1,
          psr_lastMaterializedAt := max (psr_lastMaterializedAt r) (bsl_lastMaterializedAt b)\<rparr> # rs
      else result_of_sale (psr_availableVariants r) b # rs)"

definition surface_order :: "surface_result \<Rightarrow> surface_result \<Rightarrow> int" where
  "surface_order a b = (if psr_fromPrice a < psr_fromPrice b then - 1 else if psr_fromPrice b < psr_fromPrice a then 1 else 0)"

definition surface_sales ::
  "(string \<Rightarrow> string \<Rightarrow> int) \<Rightarrow> (commercial_payload \<Rightarrow> string) \<Rightarrow> surface_env \<Rightarrow> ms \<Rightarrow> surface_params \<Rightarrow> fee_db
     \<Rightarrow> search_db \<Rightarrow> bucket_sale list" where
  "surface_sales lc digest env now p fees s =
     List.map_filter (bucket_sale_of lc digest env now p fees) (surface_buckets (surface_rows env p s))"

definition loadPublicSearchSurface ::
  "(string \<Rightarrow> string \<Rightarrow> int) \<Rightarrow> (commercial_payload \<Rightarrow> string) \<Rightarrow> surface_env \<Rightarrow> ms \<Rightarrow> surface_params \<Rightarrow> fee_db
     \<Rightarrow> search_db \<Rightarrow> surface_result list" where
  "loadPublicSearchSurface lc digest env now p fees s =
     (if enumerateStayDates (sfp_checkIn p) (sfp_checkOut p) = [] then []
      else js_sort surface_order (foldl (\<lambda>rs b. put_sale b rs) [] (surface_sales lc digest env now p fees s)))"

section \<open>The cached search\<close>

definition normalizeCurrency :: "string option \<Rightarrow> string" where
  "normalizeCurrency c = (let currency = js_upper (js_trim (case c of None \<Rightarrow> ''USD'' | Some t \<Rightarrow> t))
     in if is_currency currency then currency else ''USD'')"

record surface_query =
  sfq_geoPlaceId :: string
  sfq_checkIn :: day
  sfq_checkOut :: day
  sfq_rooms :: int
  sfq_adults :: int
  sfq_children :: int
  sfq_currency :: "string option"

definition normalized_params :: "surface_query \<Rightarrow> surface_params" where
  "normalized_params q = \<lparr>sfp_geoPlaceId = sfq_geoPlaceId q, sfp_checkIn = sfq_checkIn q, sfp_checkOut = sfq_checkOut q,
     sfp_rooms = max 1 (sfq_rooms q), sfp_adults = max 0 (sfq_adults q), sfp_children = max 0 (sfq_children q),
     sfp_currency = normalizeCurrency (sfq_currency q)\<rparr>"

record surface_answer =
  sfa_results :: "surface_result list"
  sfa_hit :: bool
  sfa_lastMaterializedAt :: "ms option"

definition surface_answer_of :: "bool \<Rightarrow> surface_result list \<Rightarrow> surface_answer" where
  "surface_answer_of hit rs = \<lparr>sfa_results = rs, sfa_hit = hit,
     sfa_lastMaterializedAt = (if rs = [] then None else Some (Max (set (map psr_lastMaterializedAt rs))))\<rparr>"

text \<open>The cache maps the normalized parameters, of which its key is the text, to the entries that have not expired.\<close>

definition getPublicSearchSurface ::
  "(string \<Rightarrow> string \<Rightarrow> int) \<Rightarrow> (commercial_payload \<Rightarrow> string) \<Rightarrow> surface_env \<Rightarrow> ms \<Rightarrow> fee_db \<Rightarrow> search_db \<Rightarrow> surface_query
     \<Rightarrow> (surface_params \<rightharpoonup> surface_result list) \<Rightarrow> surface_answer \<times> (surface_params \<rightharpoonup> surface_result list)" where
  "getPublicSearchSurface lc digest env now fees s q cache =
     (let p = normalized_params q
      in case cache p of Some rs \<Rightarrow> (surface_answer_of True rs, cache)
       | None \<Rightarrow> (let rs = loadPublicSearchSurface lc digest env now p fees s in (surface_answer_of False rs, cache(p \<mapsto> rs))))"

end
