(* ===== verification/Tax_Fees_Correctness.thy ===== *)
theory Tax_Fees_Correctness
  imports Tax_Fees
begin

text \<open>
  What a price is charged on top of its base: the rounding of the lines, the total as the base plus the
  excluded lines, the independence of a line from the order of the definitions, and the effect of a
  null cap.
\<close>

section \<open>Amounts in cents\<close>

definition in_cents :: "rat \<Rightarrow> bool" where
  "in_cents x \<longleftrightarrow> (\<exists>n :: int. x = of_int n / 100)"

lemma in_cents_round [simp, intro]: "in_cents (roundMoney x)"
  by (auto simp: in_cents_def roundMoney_def js_round_def)

lemma round_in_cents [simp]: "in_cents x \<Longrightarrow> roundMoney x = x"
  by (auto simp: in_cents_def roundMoney_def)

lemma in_cents_0 [simp, intro]: "in_cents 0"
  by (auto simp: in_cents_def intro: exI [of _ 0])

lemma in_cents_add [intro]: "in_cents x \<Longrightarrow> in_cents y \<Longrightarrow> in_cents (x + y)"
  unfolding in_cents_def by (metis add_divide_distrib of_int_add)

lemma round_add_cents: "in_cents y \<Longrightarrow> roundMoney (x + y) = roundMoney x + y"
proof -
  assume "in_cents y"
  then obtain n :: int where "y = of_int n / 100" by (auto simp: in_cents_def)
  moreover have "js_round (x * 100 + of_int n) = js_round (x * 100) + of_int n"
  proof -
    have "\<lfloor>(x * 100 + of_int n) + 1 / 2\<rfloor> = \<lfloor>x * 100 + 1 / 2\<rfloor> + n" by linarith
    then show ?thesis unfolding js_round_def by simp
  qed
  ultimately show ?thesis by (simp add: roundMoney_def distrib_right add_divide_distrib)
qed

lemma round_0 [simp]: "roundMoney 0 = 0"
  by simp

lemma round_mono: "x \<le> y \<Longrightarrow> roundMoney x \<le> roundMoney y"
  by (simp add: roundMoney_def js_round_mono divide_right_mono)

lemma cents_sum:
  "(\<forall>l \<in> set ls. in_cents (tl_amount l)) \<Longrightarrow> in_cents (line_sum ls)"
  by (induction ls) (auto simp: line_sum_def)

lemma rounded_foldl:
  "(\<forall>l \<in> set ls. in_cents (tl_amount l)) \<Longrightarrow> in_cents a
    \<Longrightarrow> foldl (\<lambda>acc l. roundMoney (acc + tl_amount l)) a ls = a + line_sum ls"
proof (induction ls arbitrary: a)
  case (Cons l ls)
  then have "in_cents (a + tl_amount l)" by auto
  then show ?case using Cons by (simp add: line_sum_def)
qed (simp add: line_sum_def)

lemma rounded_sum_exact: "(\<forall>l \<in> set ls. in_cents (tl_amount l)) \<Longrightarrow> rounded_sum ls = line_sum ls"
  using rounded_foldl [of ls 0] by (simp add: rounded_sum_def)

section \<open>The lines of a breakdown\<close>

lemma fee_line_cents: "fee_line p included r = Some l \<Longrightarrow> in_cents (tl_amount l)"
  by (auto simp: fee_line_def Let_def split: if_splits)

text \<open>All lines of the four lists, and the invariant of the loop over them.\<close>

definition bucket_lines :: "line_buckets \<Rightarrow> tax_line list" where
  "bucket_lines b = lb_taxesIncluded b @ lb_taxesExcluded b @ lb_feesIncluded b @ lb_feesExcluded b"

definition sorted_buckets :: "line_buckets \<Rightarrow> bool" where
  "sorted_buckets b \<longleftrightarrow>
     (\<forall>l \<in> set (lb_taxesIncluded b). tl_kind l = ''tax'' \<and> tl_inclusionType l = ''included'') \<and>
     (\<forall>l \<in> set (lb_taxesExcluded b). tl_kind l = ''tax'' \<and> tl_inclusionType l \<noteq> ''included'') \<and>
     (\<forall>l \<in> set (lb_feesIncluded b). tl_kind l \<noteq> ''tax'' \<and> tl_inclusionType l = ''included'') \<and>
     (\<forall>l \<in> set (lb_feesExcluded b). tl_kind l \<noteq> ''tax'' \<and> tl_inclusionType l \<noteq> ''included'') \<and>
     (\<forall>l \<in> set (bucket_lines b). in_cents (tl_amount l))"

lemma sorted_buckets_empty [simp]: "sorted_buckets empty_buckets"
  by (simp add: sorted_buckets_def bucket_lines_def empty_buckets_def)

lemma sorted_buckets_push: "sorted_buckets b \<Longrightarrow> in_cents (tl_amount l) \<Longrightarrow> sorted_buckets (push_line l b)"
  by (auto simp: sorted_buckets_def bucket_lines_def push_line_def)

lemma fee_loop_sorted: "sorted_buckets b \<Longrightarrow> sorted_buckets (fee_loop p rs b)"
  by (induction rs arbitrary: b) (auto split: option.split intro: sorted_buckets_push dest: fee_line_cents)

definition breakdown_buckets :: "fee_params \<Rightarrow> resolved_fee list \<Rightarrow> line_buckets" where
  "breakdown_buckets p rs = fee_loop p rs empty_buckets"

lemma computeTaxBreakdown_buckets [simp]:
  "tb_taxes_included (computeTaxBreakdown p rs) = lb_taxesIncluded (breakdown_buckets p rs)"
  "tb_taxes_excluded (computeTaxBreakdown p rs) = lb_taxesExcluded (breakdown_buckets p rs)"
  "tb_fees_included (computeTaxBreakdown p rs) = lb_feesIncluded (breakdown_buckets p rs)"
  "tb_fees_excluded (computeTaxBreakdown p rs) = lb_feesExcluded (breakdown_buckets p rs)"
  "tb_base (computeTaxBreakdown p rs) = roundMoney (fp_base p)"
  by (simp_all add: computeTaxBreakdown_def breakdown_buckets_def Let_def)

lemma breakdown_sorted: "sorted_buckets (breakdown_buckets p rs)"
  by (simp add: breakdown_buckets_def fee_loop_sorted)

lemma total_of_breakdown:
  "tb_total (computeTaxBreakdown p rs) = tb_base (computeTaxBreakdown p rs)
     + line_sum (tb_taxes_excluded (computeTaxBreakdown p rs)) + line_sum (tb_fees_excluded (computeTaxBreakdown p rs))"
proof -
  let ?b = "breakdown_buckets p rs"
  have cents: "\<forall>l \<in> set (lb_taxesExcluded ?b). in_cents (tl_amount l)" "\<forall>l \<in> set (lb_feesExcluded ?b). in_cents (tl_amount l)"
    using breakdown_sorted [of p rs] by (auto simp: sorted_buckets_def bucket_lines_def)
  have "in_cents (line_sum (lb_taxesExcluded ?b) + line_sum (lb_feesExcluded ?b))"
    using cents by (intro in_cents_add cents_sum)
  then have "tb_total (computeTaxBreakdown p rs) = roundMoney (fp_base p) + (line_sum (lb_taxesExcluded ?b) + line_sum (lb_feesExcluded ?b))"
    using cents by (simp add: computeTaxBreakdown_def breakdown_buckets_def [symmetric] Let_def rounded_sum_exact round_add_cents)
  then show ?thesis by simp
qed

lemma toFixed2_cents [simp]: "in_cents x \<Longrightarrow> toFixed2 x = x"
  by (metis cents_of_cents in_cents_def toFixed2_def)

lemma all_lines_cents:
  "l \<in> set (bucket_lines (breakdown_buckets p rs)) \<Longrightarrow> in_cents (tl_amount l)"
  using breakdown_sorted [of p rs] by (simp add: sorted_buckets_def)

lemma total_in_cents: "in_cents (tb_total (computeTaxBreakdown p rs))"
  by (simp add: computeTaxBreakdown_def Let_def)


section \<open>Independence of the order\<close>

text \<open>
  The reference: each definition priced alone, the lines sorted into the four lists. A definition on
  the base alone has the same line whatever was included before it.
\<close>

definition on_booking_base :: "resolved_fee \<Rightarrow> bool" where
  "on_booking_base r \<longleftrightarrow> rr_taxableBase (readRule (ft_jurisdiction (fd_terms (rf_definition r)))) = ''booking_base''"

definition lines_alone :: "fee_params \<Rightarrow> resolved_fee list \<Rightarrow> tax_line list" where
  "lines_alone p rs = List.map_filter (fee_line p 0) rs"

definition bucket_by_kind :: "tax_line list \<Rightarrow> line_buckets" where
  "bucket_by_kind ls =
     \<lparr>lb_taxesIncluded = filter (\<lambda>l. tl_kind l = ''tax'' \<and> tl_inclusionType l = ''included'') ls,
      lb_taxesExcluded = filter (\<lambda>l. tl_kind l = ''tax'' \<and> tl_inclusionType l \<noteq> ''included'') ls,
      lb_feesIncluded = filter (\<lambda>l. tl_kind l \<noteq> ''tax'' \<and> tl_inclusionType l = ''included'') ls,
      lb_feesExcluded = filter (\<lambda>l. tl_kind l \<noteq> ''tax'' \<and> tl_inclusionType l \<noteq> ''included'') ls\<rparr>"

lemma fee_line_alone: "on_booking_base r \<Longrightarrow> fee_line p included r = fee_line p 0 r"
  by (simp add: fee_line_def fee_amount_def on_booking_base_def Let_def)

lemma push_line_kind: "push_line l (bucket_by_kind ls) = bucket_by_kind (ls @ [l])"
  by (simp add: push_line_def bucket_by_kind_def)

lemma fee_loop_alone:
  "(\<forall>r \<in> set rs. on_booking_base r) \<Longrightarrow> fee_loop p rs (bucket_by_kind ls) = bucket_by_kind (ls @ lines_alone p rs)"
proof (induction rs arbitrary: ls)
  case Nil
  then show ?case by (simp add: lines_alone_def map_filter_simps)
next
  case (Cons r rs)
  have line: "fee_line p i r = fee_line p 0 r" for i using Cons.prems by (intro fee_line_alone) simp
  have rest: "\<forall>r \<in> set rs. on_booking_base r" using Cons.prems by simp
  show ?case
  proof (cases "fee_line p 0 r")
    case None
    then show ?thesis using Cons.IH [OF rest, of ls] line by (simp add: lines_alone_def map_filter_simps)
  next
    case (Some l)
    then have "fee_line p (includedTaxableAmount (bucket_by_kind ls)) r = Some l" using line by simp
    then show ?thesis
      using Cons.IH [OF rest, of "ls @ [l]"] Some by (simp add: push_line_kind lines_alone_def map_filter_simps)
  qed
qed

lemma breakdown_alone:
  assumes "\<forall>r \<in> set rs. on_booking_base r"
  shows "breakdown_buckets p rs = bucket_by_kind (lines_alone p rs)"
proof -
  have "empty_buckets = bucket_by_kind []" by (simp add: empty_buckets_def bucket_by_kind_def)
  then show ?thesis using fee_loop_alone [OF assms, of p "[]"] by (simp add: breakdown_buckets_def)
qed

lemma map_filter_mset: "mset rs = mset rs' \<Longrightarrow> mset (List.map_filter f rs) = mset (List.map_filter f rs')"
  by (simp add: map_filter_def)

lemma line_sum_mset: "mset ls = mset ls' \<Longrightarrow> line_sum ls = line_sum ls'"
  unfolding line_sum_def by (metis mset_map sum_mset_sum_list)

lemma total_order:
  assumes "\<forall>r \<in> set rs. on_booking_base r" "mset rs = mset rs'"
  shows "tb_total (computeTaxBreakdown p rs) = tb_total (computeTaxBreakdown p rs')"
proof -
  have "\<forall>r \<in> set rs'. on_booking_base r" using assms by (metis set_mset_mset)
  then have b: "breakdown_buckets p rs = bucket_by_kind (lines_alone p rs)" "breakdown_buckets p rs' = bucket_by_kind (lines_alone p rs')"
    using assms(1) breakdown_alone by auto
  have "mset (lines_alone p rs) = mset (lines_alone p rs')"
    using assms(2) unfolding lines_alone_def by (rule map_filter_mset)
  then have "mset (filter P (lines_alone p rs)) = mset (filter P (lines_alone p rs'))" for P by simp
  then have "line_sum (filter P (lines_alone p rs)) = line_sum (filter P (lines_alone p rs'))" for P by (rule line_sum_mset)
  then show ?thesis by (simp add: total_of_breakdown b) (simp add: bucket_by_kind_def)
qed

text \<open>
  C25. Definitions on the booking base are priced alone: the breakdown is each definition's own line,
  whatever stands before it, and the order of the definitions does not change the total.
\<close>

theorem fees_on_base_are_independent:
  assumes "\<forall>r \<in> set rs. on_booking_base r" "mset rs = mset rs'"
  shows "breakdown_buckets p rs = bucket_by_kind (List.map_filter (fee_line p 0) rs) \<and>
    tb_total (computeTaxBreakdown p rs) = tb_total (computeTaxBreakdown p rs')"
  using breakdown_alone [OF assms(1), of p] total_order [OF assms, of p] by (simp add: lines_alone_def)

section \<open>Caps\<close>

lemma capped_line:
  assumes "fee_line p included r = Some l"
    and "rr_maxAmount (readRule (ft_jurisdiction (fd_terms (rf_definition r)))) = Some m"
  shows "tl_amount l \<le> roundMoney m"
  using assms by (auto simp: fee_line_def Let_def split: if_splits intro!: round_mono min.cobounded2)

lemma parsed_rule:
  assumes "parseJurisdiction (Some raw) = Inr (Some rule)"
  shows "jr_maxAmount rule = jr_maxAmount raw" "jr_seasons rule = jr_seasons raw" "list_all season_ok (jr_seasons raw)"
proof -
  have "jurisdictionSchema raw = Some rule" using assms by (simp add: parseJurisdiction_def split: option.splits if_splits)
  then show "jr_maxAmount rule = jr_maxAmount raw" "jr_seasons rule = jr_seasons raw" "list_all season_ok (jr_seasons raw)"
    unfolding jurisdictionSchema_def Let_def by (simp_all only: option.inject option.distinct split: if_split_asm) auto
qed

text \<open>Over a rule the schema admits, and quantities that are not negative, no line is negative.\<close>

lemma parsed_seasons:
  assumes "parseJurisdiction (Some raw) = Inr (Some rule)" "s \<in> set (rr_seasons (readRule (Some rule)))" "rs_value s = Some v"
  shows "0 \<le> v"
proof -
  obtain s' where s': "s' \<in> set (jr_seasons rule)" "s = readSeason s'" using assms(2) by (auto simp: readRule_def)
  have "positive_or_none (sn_value s')" using s'(1) parsed_rule(2,3) [OF assms(1)] by (auto simp: list_all_iff season_ok_def)
  then show ?thesis using assms(3) s'(2) by (cases "sn_value s'") (auto simp: readSeason_def)
qed

lemma fee_value_nonneg:
  assumes "parseJurisdiction (Some raw) = Inr (Some rule)" "ft_jurisdiction (fd_terms def) = Some rule" "0 < ft_value (fd_terms def)"
  shows "0 \<le> fee_value def ctx"
  using assms(2,3) parsed_seasons [OF assms(1)]
  by (auto simp: fee_value_def activeSeason_def split: option.split dest!: find_Some_mem)

lemma multiplier_nonneg:
  assumes "resolveMultiplier per nights guests maxNights = Some m" "0 \<le> nights" "0 \<le> guests" "\<forall>n. maxNights = Some n \<longrightarrow> 0 \<le> n"
  shows "0 \<le> m"
  using assms by (auto simp: resolveMultiplier_def Let_def split: if_splits option.splits)

lemma max_nights_nonneg: "rr_maxNights (readRule j) = Some n \<Longrightarrow> 0 \<le> n"
  by (auto simp: readRule_def empty_rule_def split: option.splits)

lemma round_nonneg: "0 \<le> x \<Longrightarrow> 0 \<le> roundMoney x"
  using round_mono [of 0 x] by simp

lemma fee_amount_nonneg:
  assumes "0 \<le> fee_value def (fp_context p)" "0 \<le> fp_base p" "0 \<le> included" "0 \<le> fp_nights p" "0 \<le> fp_guests p"
    and "fee_amount p included def = Some a"
  shows "0 \<le> a"
proof -
  have taxable: "0 \<le> b * fee_value def (fp_context p) / 100" if "0 \<le> b" for b
    using that assms(1) by simp
  have fixed: "0 \<le> fee_value def (fp_context p) * m"
    if "resolveMultiplier per (fp_nights p) (fp_guests p) (rr_maxNights (readRule j)) = Some m" for per j m
    using multiplier_nonneg [OF that assms(4,5)] max_nights_nonneg assms(1) by (simp add: mult_nonneg_nonneg)
  have base: "0 \<le> roundMoney (fp_base p + included)"
    using assms(2,3) by (intro round_nonneg add_nonneg_nonneg)
  show ?thesis
    using assms(6) taxable [OF assms(2)] taxable [OF base] fixed
    by (simp add: fee_amount_def Let_def split: if_splits) blast
qed

text \<open>
  A cap of \<open>null\<close>, which the schema admits as no cap, is read as a cap of zero: the definition charges
  nothing.
\<close>

lemma null_cap_line:
  assumes "parseJurisdiction (Some raw) = Inr (Some rule)" "jr_maxAmount raw = Null"
    and "ft_jurisdiction (fd_terms (rf_definition r)) = Some rule"
    and "0 \<le> fp_base p" "0 \<le> included" "0 \<le> fp_nights p" "0 \<le> fp_guests p"
    and line: "fee_line p included r = Some l"
  shows "tl_amount l = 0"
proof -
  have cap: "rr_maxAmount (readRule (ft_jurisdiction (fd_terms (rf_definition r)))) = Some 0"
    using assms(2,3) parsed_rule(1) [OF assms(1)] by (simp add: readRule_def)
  obtain a where a: "fee_amount p included (rf_definition r) = Some a" "tl_amount l = roundMoney (min a 0)"
    and "0 < ft_value (fd_terms (rf_definition r))"
    using line cap by (auto simp: fee_line_def fee_applies_def Let_def split: if_splits)
  moreover have "0 \<le> a"
    by (rule fee_amount_nonneg [OF fee_value_nonneg [OF assms(1,3) calculation(3)] assms(4-7) a(1)])
  ultimately show ?thesis by (simp add: min_def)
qed

lemma null_cap_total:
  assumes "parseJurisdiction (Some raw) = Inr (Some rule)" "jr_maxAmount raw = Null"
    and "ft_jurisdiction (fd_terms (rf_definition r)) = Some rule"
    and "0 \<le> fp_base p" "0 \<le> fp_nights p" "0 \<le> fp_guests p"
  shows "tb_total (computeTaxBreakdown p [r]) = roundMoney (fp_base p)"
proof (cases "fee_line p (includedTaxableAmount empty_buckets) r")
  case None
  then show ?thesis by (simp add: total_of_breakdown breakdown_buckets_def) (simp add: empty_buckets_def line_sum_def)
next
  case (Some l)
  have "includedTaxableAmount empty_buckets = 0" by (simp add: includedTaxableAmount_def empty_buckets_def line_sum_def)
  with Some have "tl_amount l = 0" using null_cap_line [OF assms(1-4) _ assms(5,6), of 0 l] by simp
  then show ?thesis
    using Some by (simp add: total_of_breakdown breakdown_buckets_def)
      (simp add: push_line_def empty_buckets_def line_sum_def)
qed

text \<open>
  C27. A cap of \<open>null\<close> waives the charge: a jurisdiction whose cap is \<open>null\<close>, which the request's schema
  admits as no cap, is read back as a cap of zero, so a sale with that definition pays its base alone.
\<close>

theorem null_cap_waives_fee:
  assumes "parseJurisdiction (Some raw) = Inr (Some rule)" "jr_maxAmount raw = Null"
    and "ft_jurisdiction (fd_terms (rf_definition r)) = Some rule"
    and "0 \<le> fp_base p" "0 \<le> fp_nights p" "0 \<le> fp_guests p"
  shows "tb_total (computeTaxBreakdown p [r]) = roundMoney (fp_base p)"
  by (rule null_cap_total [OF assms])

end
