(* ===== verification/Hold_Request_Correctness.thy ===== *)
theory Hold_Request_Correctness
  imports Hold_Request Tax_Fees_Correctness
begin

text \<open>
  The route keeps its promises to the use case: the snapshot it builds is accepted, its total is the sum of
  the nights with the excluded taxes and fees, and the rooms asked for do not enter it.
\<close>

section \<open>A holdable stay\<close>

lemma holdable_cases:
  assumes "resolveHoldabilityFromView listed readFails today q s = Holdable h"
  obtains ds where "ds = hold_stay_dates (hq_checkIn q) (hq_checkOut q)" "ds \<noteq> []"
    and "hq_ratePlanId q \<noteq> []" "is_currency (hold_currency (hold_view_rows listed q s))"
    and "ssl_isSellable (evaluateStaySellabilityFromView ds (iso_day (hq_checkIn q)) (hq_rooms q)
      (hold_rows_by_date (hold_view_rows listed q s)) None today)"
    and "\<forall>d \<in> set ds. \<exists>p. hold_price readFails q s d = Some p \<and> 0 < efp_finalBasePrice p"
    and "h = \<lparr>hld_ratePlanId = hq_ratePlanId q,
      hld_totalPrice = (\<Sum>d\<leftarrow>ds. efp_finalBasePrice (the (hold_price readFails q s d))),
      hld_currency = hold_currency (hold_view_rows listed q s), hld_nights = length ds,
      hld_days = map (\<lambda>d. held_day_of d (the (hold_price readFails q s d))) ds\<rparr>"
proof -
  let ?ds = "hold_stay_dates (hq_checkIn q) (hq_checkOut q)"
  let ?ps = "map (\<lambda>d. (d, hold_price readFails q s d)) ?ds"
  have all: "?ds \<noteq> []" "hq_ratePlanId q \<noteq> []" "is_currency (hold_currency (hold_view_rows listed q s))"
    "ssl_isSellable (evaluateStaySellabilityFromView ?ds (iso_day (hq_checkIn q)) (hq_rooms q)
      (hold_rows_by_date (hold_view_rows listed q s)) None today)"
    and none: "List.find (\<lambda>(d, p). unpriced p) ?ps = None"
    and h: "h = \<lparr>hld_ratePlanId = hq_ratePlanId q,
      hld_totalPrice = sum_list (map hdy_price (map (\<lambda>(d, p). held_day_of d (the p)) ?ps)),
      hld_currency = hold_currency (hold_view_rows listed q s), hld_nights = length ?ds,
      hld_days = map (\<lambda>(d, p). held_day_of d (the p)) ?ps\<rparr>"
    using assms by (auto simp: resolveHoldabilityFromView_def Let_def split: if_splits option.splits)
  have pos: "\<forall>d \<in> set ?ds. \<exists>p. hold_price readFails q s d = Some p \<and> 0 < efp_finalBasePrice p"
    using none by (auto simp: find_None_all unpriced_def split: option.splits)
  have eqs: "map (\<lambda>(d, p). held_day_of d (the p)) ?ps = map (\<lambda>d. held_day_of d (the (hold_price readFails q s d))) ?ds"
    "map hdy_price (map (\<lambda>d. held_day_of d (the (hold_price readFails q s d))) ?ds) =
      map (\<lambda>d. efp_finalBasePrice (the (hold_price readFails q s d))) ?ds"
    by (simp_all add: held_day_of_def)
  show thesis by (rule that [OF refl all pos]) (simp only: h eqs)
qed

lemma holdable_value:
  assumes "resolveHoldabilityFromView listed readFails today q s = Holdable h"
  shows "h = \<lparr>hld_ratePlanId = hq_ratePlanId q,
      hld_totalPrice = (\<Sum>d\<leftarrow>hold_stay_dates (hq_checkIn q) (hq_checkOut q). efp_finalBasePrice (the (hold_price readFails q s d))),
      hld_currency = hold_currency (hold_view_rows listed q s), hld_nights = length (hold_stay_dates (hq_checkIn q) (hq_checkOut q)),
      hld_days = map (\<lambda>d. held_day_of d (the (hold_price readFails q s d))) (hold_stay_dates (hq_checkIn q) (hq_checkOut q))\<rparr>"
  by (rule holdable_cases [OF assms]) simp

lemma holdableI:
  assumes "ds = hold_stay_dates (hq_checkIn q) (hq_checkOut q)" "ds \<noteq> []"
    and "hq_ratePlanId q \<noteq> []" "hold_view_rows listed q s \<noteq> []" "is_currency (hold_currency (hold_view_rows listed q s))"
    and "ssl_isSellable (evaluateStaySellabilityFromView ds (iso_day (hq_checkIn q)) (hq_rooms q)
      (hold_rows_by_date (hold_view_rows listed q s)) None today)"
    and "\<forall>d \<in> set ds. \<exists>p. hold_price readFails q s d = Some p \<and> 0 < efp_finalBasePrice p"
  shows "\<exists>h. resolveHoldabilityFromView listed readFails today q s = Holdable h"
proof -
  have "List.find (\<lambda>(d, p). unpriced p) (map (\<lambda>d. (d, hold_price readFails q s d)) ds) = None"
    using assms(7) by (auto simp: find_None_all unpriced_def split: option.splits)
  then show ?thesis using assms(1-6) by (simp add: resolveHoldabilityFromView_def Let_def)
qed

lemma hold_stay_dates_nonempty:
  assumes "hold_stay_dates from' to \<noteq> []"
  obtains a b where "from' = Iso a" "to = Iso b" "hold_stay_dates from' to = [a..b - 1]" "a < b"
  using assms by (cases from'; cases to) (auto simp: enumerateStayDates_def enumerateDates_days)

section \<open>The snapshot is accepted\<close>

lemma upper_currency: "js_upper (hold_currency rows) = hold_currency rows"
proof -
  have "hold_currency rows = [] \<or> (\<exists>c. hold_currency rows = js_upper c)"
  proof (cases "js_dedup (map (\<lambda>(_, r). js_upper (suv_currency r)) rows)" rule: remdups_adj.cases)
    case (2 c)
    then have "c \<in> set (js_dedup (map (\<lambda>(_, r). js_upper (suv_currency r)) rows))" by simp
    then have "\<exists>x. c = js_upper x" unfolding set_js_dedup by auto
    then show ?thesis by (simp add: hold_currency_def 2)
  qed (simp_all add: hold_currency_def)
  then show ?thesis by (auto simp: js_upper_def)
qed

lemma quote_lookup:
  assumes "distinct ds" "d \<in> set ds"
  shows "map_of (rev (map (\<lambda>d. (d, f d)) ds)) d = Some (f d)"
proof (rule map_of_is_SomeI)
  show "distinct (map fst (rev (map (\<lambda>d. (d, f d)) ds)))" using assms(1) by (simp add: rev_map [symmetric] comp_def)
  show "(d, f d) \<in> set (rev (map (\<lambda>d. (d, f d)) ds))" using assms(2) by auto
qed

lemma built_quote_canonical:
  assumes "qc_productId (pq_context input) \<noteq> []" "qc_variantId (pq_context input) \<noteq> []" "qc_ratePlanId (pq_context input) \<noteq> []"
  shows "hasCanonicalPriceQuoteIdentity lc digest (buildPriceQuote lc digest input)"
proof -
  have "isPriceQuote (buildPriceQuote lc digest input)"
    using assms by (simp add: isPriceQuote_def buildPriceQuote_def Let_def starts_with_def)
  then show ?thesis by (simp add: hasCanonicalPriceQuoteIdentity_def buildPriceQuote_idem)
qed

lemma js_isInteger_of_int [simp]: "js_isInteger (of_int n)" "js_isInteger (of_nat m)"
  using floor_of_nat [of m, where 'a = rat] by (simp_all add: js_isInteger_def)

lemma js_isInteger_add [simp]: "js_isInteger (of_int m + of_int n)"
  by (simp only: of_int_add [symmetric] js_isInteger_of_int)

lemma snapshot_accepted:
  assumes schema: "hold_schema r" and product: "productId \<noteq> []"
    and hold: "resolveHoldabilityFromView listed readFails today (hold_query_of r productId) s = Holdable h"
    and agreement: "hen_enforceAgreement env \<longrightarrow> (case hen_agreement env of None \<Rightarrow> True | Some a \<Rightarrow> agreement_ok a)"
    and total: "0 \<le> pq_totalAmount (hold_quote lc digest env now r productId h fees)"
  shows "isHoldCommercialSnapshot lc digest (route_snapshot env r h (hold_quote lc digest env now r productId h fees))"
proof -
  let ?q = "hold_query_of r productId" and ?quote = "hold_quote lc digest env now r productId h fees"
  obtain ds where ds: "ds = hold_stay_dates (hq_checkIn ?q) (hq_checkOut ?q)" "ds \<noteq> []"
    and currency: "is_currency (hold_currency (hold_view_rows listed ?q s))"
    and prices: "\<forall>d \<in> set ds. \<exists>p. hold_price readFails ?q s d = Some p \<and> 0 < efp_finalBasePrice p"
    and h: "h = \<lparr>hld_ratePlanId = hq_ratePlanId ?q,
      hld_totalPrice = (\<Sum>d\<leftarrow>ds. efp_finalBasePrice (the (hold_price readFails ?q s d))),
      hld_currency = hold_currency (hold_view_rows listed ?q s), hld_nights = length ds,
      hld_days = map (\<lambda>d. held_day_of d (the (hold_price readFails ?q s d))) ds\<rparr>"
    using holdable_cases [OF hold] by blast
  define price where "price d = efp_finalBasePrice (the (hold_price readFails ?q s d))" for d
  have pos: "0 < price d" if "d \<in> set ds" for d using prices that by (auto simp: price_def)
  have "hold_stay_dates (hrq_from r) (hrq_to r) \<noteq> []" using ds by (simp add: hold_query_of_def)
  then obtain a b where "ds = [a..b - 1]" using hold_stay_dates_nonempty ds(1) by (metis hold_query_of_def hold_query.select_convs(4,5))
  then have distinct: "distinct ds" by simp
  have hd: "map (\<lambda>d. (hdy_date d, hdy_price d)) (hld_days h) = map (\<lambda>d. (d, price d)) ds" "hld_currency h \<noteq> []"
    "js_upper (hld_currency h) = hld_currency h" "hld_ratePlanId h = hrq_ratePlanId r" "hld_nights h = length ds"
    using currency upper_currency by (auto simp: h held_day_of_def price_def hold_query_of_def is_currency_def)
  have ints: "1 \<le> hrq_rooms r" "1 \<le> hrq_adults r" "0 \<le> hrq_children r" "0 \<le> hrq_infants r" "hrq_variantId r \<noteq> []" "hrq_ratePlanId r \<noteq> []"
    using schema by (simp_all add: hold_schema_def)
  have quote: "pq_days ?quote = map (\<lambda>d. (d, toFixed2 (price d))) ds" "pq_currency ?quote = hld_currency h"
    "qc_ratePlanId (pq_context ?quote) = hrq_ratePlanId r" "qc_checkIn (pq_context ?quote) = iso_day (hrq_from r)"
    "qc_checkOut (pq_context ?quote) = iso_day (hrq_to r)" "qc_rooms (pq_context ?quote) = of_int (hrq_rooms r)"
    "qc_adults (pq_context ?quote) = of_int (hrq_adults r)" "qc_children (pq_context ?quote) = of_int (hrq_children r)"
    "qc_infants (pq_context ?quote) = of_int (hrq_infants r)"
    using ints hd by (simp_all add: hold_quote_def buildPriceQuote_def Let_def comp_def)
  have canonical: "hasCanonicalPriceQuoteIdentity lc digest ?quote"
    unfolding hold_quote_def using ints product hd(4) by (intro built_quote_canonical) simp_all
  have days: "hs_days (route_snapshot env r h ?quote) = map (\<lambda>d. \<lparr>sd_date = Some d, sd_price = price d,
      sd_breakdownV2 = Some (hdy_breakdown (held_day_of d (the (hold_price readFails ?q s d)))), sd_pricingSource = ''v2''\<rparr>) ds"
    by (simp add: route_snapshot_def h held_day_of_def price_def)
  have twice: "map (\<lambda>(d, p). (d, toFixed2 p)) (pq_days ?quote) = map (\<lambda>d. (d, toFixed2 (price d))) ds"
    by (simp add: quote(1))
  have "list_all (\<lambda>d. sd_date d \<noteq> None \<and> finiteMoney (sd_price d)) (hs_days (route_snapshot env r h ?quote))"
    using pos unfolding days by (fastforce simp: list_all_iff finiteMoney_def)
  moreover have "list_all (\<lambda>d. map_of (rev (map (\<lambda>(d, p). (d, toFixed2 p)) (pq_days ?quote))) (the (sd_date d)) = Some (toFixed2 (sd_price d)))
      (hs_days (route_snapshot env r h ?quote))"
    using quote_lookup [OF distinct, of _ "\<lambda>d. toFixed2 (price d)"] unfolding days twice by (simp add: list_all_iff)
  moreover have "length (js_dedup (map sd_date (hs_days (route_snapshot env r h ?quote)))) =
      length (js_dedup (map fst (map (\<lambda>(d, p). (d, toFixed2 p)) (pq_days ?quote))))"
  proof -
    have "card (Some ` set ds) = card (set ds)" by (intro card_image) simp
    then show ?thesis unfolding days twice length_js_dedup by (simp add: comp_def)
  qed
  moreover have "length (hs_days (route_snapshot env r h ?quote)) = length (pq_days ?quote)"
    "hs_nights (route_snapshot env r h ?quote) = of_nat (length (hs_days (route_snapshot env r h ?quote)))"
    "hs_days (route_snapshot env r h ?quote) \<noteq> []"
    using ds(2) hd(5) unfolding days by (simp_all add: quote(1) route_snapshot_def)
  moreover have "1 \<le> hs_nights (route_snapshot env r h ?quote)" "js_isInteger (hs_nights (route_snapshot env r h ?quote))"
    using ds(2) hd(5) by (simp_all add: route_snapshot_def Suc_le_eq)
  moreover have "hs_occupancy (route_snapshot env r h ?quote) = of_int (hrq_adults r) + of_int (hrq_children r)"
    using ints by (simp add: route_snapshot_def hold_guests_def)
  moreover have "case hs_agreement (route_snapshot env r h ?quote) of None \<Rightarrow> True | Some a \<Rightarrow> agreement_ok a"
    using agreement by (simp add: route_snapshot_def)
  ultimately show ?thesis
    using canonical quote(2-9) ints hd total ds(2) unfolding isHoldCommercialSnapshot_def Let_def
    by (simp add: route_snapshot_def finiteMoney_def hold_guests_def)
qed

text \<open>
  C8. The route never fails on its own snapshot: when the stay can be held, the request meets the schema, the
  agreement is well formed and the quote is not negative, the snapshot built from the view, the prices and
  the taxes is one the use case accepts, whatever the digest and the collation.
\<close>

theorem route_snapshot_accepted:
  assumes "hold_schema r" "productId \<noteq> []"
    and "resolveHoldabilityFromView listed readFails today (hold_query_of r productId) s = Holdable h"
    and "hen_enforceAgreement env \<longrightarrow> (case hen_agreement env of None \<Rightarrow> True | Some a \<Rightarrow> agreement_ok a)"
    and "0 \<le> pq_totalAmount (hold_quote lc digest env now r productId h fees)"
  shows "isHoldCommercialSnapshot lc digest (route_snapshot env r h (hold_quote lc digest env now r productId h fees))"
  by (rule snapshot_accepted [OF assms])

section \<open>What a hold is quoted\<close>

lemma quote_total:
  "pq_totalAmount (hold_quote lc digest env now r productId h fees) =
     (let b = computeTaxBreakdown (hold_fee_params env r productId h) (resolveEffectiveTaxFees lc now (hold_fee_query r productId h) fees)
      in roundMoney (hld_totalPrice h) + line_sum (tb_taxes_excluded b) + line_sum (tb_fees_excluded b))"
proof -
  let ?b = "computeTaxBreakdown (hold_fee_params env r productId h) (resolveEffectiveTaxFees lc now (hold_fee_query r productId h) fees)"
  have "pq_totalAmount (hold_quote lc digest env now r productId h fees) = toFixed2 (tb_total ?b)"
    by (simp only: hold_quote_def buildPriceQuote_def Let_def) simp
  also have "\<dots> = tb_total ?b" by (rule toFixed2_cents [OF total_in_cents])
  also have "\<dots> = roundMoney (hld_totalPrice h) + line_sum (tb_taxes_excluded ?b) + line_sum (tb_fees_excluded ?b)"
    unfolding total_of_breakdown computeTaxBreakdown_buckets(5) by (simp add: hold_fee_params_def)
  finally show ?thesis by (simp only: Let_def)
qed

lemma rooms_in_quote:
  "pq_totalAmount (hold_quote lc digest env now (r\<lparr>hrq_rooms := n\<rparr>) productId h fees) =
     pq_totalAmount (hold_quote lc digest env now r productId h fees)"
  unfolding quote_total by (simp add: hold_fee_params_def hold_fee_query_def hold_guests_def)

lemma rooms_in_price:
  assumes "resolveHoldabilityFromView listed readFails today q s = Holdable h"
    and "resolveHoldabilityFromView listed readFails today (q\<lparr>hq_rooms := n\<rparr>) s = Holdable h'"
  shows "h' = h"
proof -
  have "hold_price readFails (q\<lparr>hq_rooms := n\<rparr>) s = hold_price readFails q s" "hold_view_rows listed (q\<lparr>hq_rooms := n\<rparr>) s = hold_view_rows listed q s"
    by (rule ext, simp_all add: hold_price_def hold_view_rows_def hold_key_def cong: option.case_cong)
  then show ?thesis
    unfolding holdable_value [OF assms(1)] holdable_value [OF assms(2)] by simp
qed

text \<open>
  C28. The rooms of a hold are not charged: the quote of a stay is the rounded sum of the effective prices of
  its nights with the excluded taxes and fees, and a request for another number of rooms that can be held is
  quoted the same total.
\<close>

theorem rooms_are_not_charged:
  assumes "resolveHoldabilityFromView listed readFails today (hold_query_of r productId) s = Holdable h"
    and "resolveHoldabilityFromView listed readFails today (hold_query_of (r\<lparr>hrq_rooms := n\<rparr>) productId) s = Holdable h'"
  shows "hld_totalPrice h = (\<Sum>d\<leftarrow>hold_stay_dates (hrq_from r) (hrq_to r).
        efp_finalBasePrice (the (hold_price readFails (hold_query_of r productId) s d))) \<and>
    pq_totalAmount (hold_quote lc digest env now (r\<lparr>hrq_rooms := n\<rparr>) productId h' fees) =
      pq_totalAmount (hold_quote lc digest env now r productId h fees)"
proof -
  have "hold_query_of (r\<lparr>hrq_rooms := n\<rparr>) productId = (hold_query_of r productId)\<lparr>hq_rooms := n\<rparr>" by (simp add: hold_query_of_def)
  then have "h' = h" using rooms_in_price [OF assms(1)] assms(2) by simp
  moreover have "hld_totalPrice h = (\<Sum>d\<leftarrow>hold_stay_dates (hrq_from r) (hrq_to r).
        efp_finalBasePrice (the (hold_price readFails (hold_query_of r productId) s d)))"
    unfolding holdable_value [OF assms(1)] by (simp add: hold_query_of_def)
  ultimately show ?thesis by (simp add: rooms_in_quote)
qed

end
