(* ===== verification/Search_View_Correctness.thy ===== *)
theory Search_View_Correctness
  imports Search_View Effective_Pricing_Correctness
begin

text \<open>
  What materializing the search view guarantees: in every schedule of its workers the view of a range is
  the one its tables call for, a second run changes nothing, and what its purge removes.
\<close>

section \<open>A row depends on the tables, not on the view\<close>

lemma sources_view [simp]:
  "pricing_row v plan d key (s\<lparr>sdb_view := w\<rparr>) = pricing_row v plan d key s"
  "restriction_of v plan d (s\<lparr>sdb_view := w\<rparr>) = restriction_of v plan d s"
  "source_times v plan d key (s\<lparr>sdb_view := w\<rparr>) = source_times v plan d key s"
  by (simp_all add: pricing_row_def restriction_of_def source_times_def)

lemma night_sellable_view [simp]: "night_sellable u (s\<lparr>sdb_view := w\<rparr>) = night_sellable u s"
  by (simp add: night_sellable_def Let_def)

lemma policy_blocked_view [simp]: "policy_blocked env p u (s\<lparr>sdb_view := w\<rparr>) = policy_blocked env p u s"
  by (simp add: policy_blocked_def Let_def)

lemma night_blocker_view [simp]: "night_blocker env p u (s\<lparr>sdb_view := w\<rparr>) = night_blocker env p u s"
  by (simp add: night_blocker_def Let_def)

lemma candidate_row_view [simp]: "candidate_row env p u (s\<lparr>sdb_view := w\<rparr>) = candidate_row env p u s"
  by (simp add: candidate_row_def Let_def)

text \<open>The row of an index, whichever occupancy it was asked for with.\<close>

definition index_row :: "search_env \<Rightarrow> string \<times> string \<Rightarrow> range_input \<Rightarrow> search_db \<Rightarrow> view_index \<Rightarrow> view_row" where
  "index_row env p i s ix = (case ix of (v, plan, d, key) \<Rightarrow> candidate_row env p (item_unit i (plan, d, occupancyFromKey (Some key))) s)"

lemma index_row_view [simp]: "index_row env p i (s\<lparr>sdb_view := w\<rparr>) = index_row env p i s"
  by (simp add: index_row_def fun_eq_iff split: prod.split)

lemma normalized_normalized: "normalized (normalized oc) = normalized oc"
  by (metis key_inj key_normalized)

lemma candidate_occupancy: "candidate_row env p (u\<lparr>mui_occupancy := normalized (mui_occupancy u)\<rparr>) s = candidate_row env p u s"
  by (simp add: candidate_row_def night_blocker_def policy_blocked_def night_sellable_def normalized_normalized unit_index_def)

lemma candidate_index: "candidate_row env p (item_unit i item) s = index_row env p i s (unit_index (item_unit i item))"
  using candidate_occupancy [of env p "item_unit i item" s]
  by (cases item) (simp add: item_unit_def unit_index_def index_row_def key_reads_back)

section \<open>Merging a row into the view\<close>

definition merged :: "view_row option \<Rightarrow> view_row \<Rightarrow> view_row" where
  "merged old row = (case old of None \<Rightarrow> row
     | Some r \<Rightarrow> if hasMaterializationDrift old row then row\<lparr>suv_id := suv_id r\<rparr> else r)"

lemma merged_no_drift [simp]: "\<not> hasMaterializationDrift (Some (merged old row)) row"
  by (auto simp: merged_def hasMaterializationDrift_def split: option.split)

lemma merged_merged [simp]: "merged (Some (merged old row)) row = merged old row"
  using merged_no_drift [of old row] by (simp add: merged_def [of "Some _"])

lemma no_drift_merged: "\<not> hasMaterializationDrift old row \<Longrightarrow> Some (merged old row) = old"
  by (cases old) (simp_all add: merged_def hasMaterializationDrift_def)

definition view_cover :: "view_index set \<Rightarrow> (view_index \<Rightarrow> view_row) \<Rightarrow> (view_index \<Rightarrow> view_row option) \<Rightarrow> view_index \<Rightarrow> view_row option" where
  "view_cover I row w ix = (if ix \<in> I then Some (merged (w ix) (row ix)) else w ix)"

lemma view_cover_empty [simp]: "view_cover {} row w = w"
  by (simp add: view_cover_def fun_eq_iff)

lemma view_cover_cover: "view_cover I row (view_cover J row w) = view_cover (I \<union> J) row w"
  by (simp add: view_cover_def fun_eq_iff)

lemma materialize_unit:
  "snd (materializeSearchUnit env cat u s) =
     (case cat_product cat (mui_variantId u) of None \<Rightarrow> s
      | Some p \<Rightarrow> s\<lparr>sdb_view := view_cover {unit_index u} (\<lambda>_. candidate_row env p u s) (sdb_view s)\<rparr>)"
proof (cases "cat_product cat (mui_variantId u)")
  case (Some p)
  let ?row = "candidate_row env p u s" and ?old = "sdb_view s (unit_index u)"
  have cover: "view_cover {unit_index u} (\<lambda>_. ?row) (sdb_view s) = (sdb_view s)(unit_index u := Some (merged ?old ?row))"
    by (simp add: view_cover_def fun_eq_iff)
  show ?thesis
  proof (cases "hasMaterializationDrift ?old ?row")
    case True
    then have "Some (case ?old of None \<Rightarrow> ?row | Some old \<Rightarrow> ?row\<lparr>suv_id := suv_id old\<rparr>) = Some (merged ?old ?row)"
      by (cases ?old) (simp_all add: merged_def)
    then show ?thesis
      using Some True by (simp add: cover materializeSearchUnit_def upsertSearchUnitViewRow_def Let_def)
  next
    case False
    then show ?thesis
      using Some no_drift_merged [OF False] by (simp add: cover materializeSearchUnit_def Let_def fun_upd_idem)
  qed
qed (simp add: materializeSearchUnit_def)

section \<open>The work of the pool\<close>

definition item_indices :: "range_input \<Rightarrow> view_item set \<Rightarrow> view_index set" where
  "item_indices i items = (\<lambda>item. unit_index (item_unit i item)) ` items"

lemma item_variant [simp]: "mui_variantId (item_unit i item) = mri_variantId i"
  by (simp add: item_unit_def split: prod.split)

text \<open>The tables with the rows of some indices of the view brought up to date.\<close>

definition covered_by :: "search_env \<Rightarrow> catalog \<Rightarrow> range_input \<Rightarrow> view_index set \<Rightarrow> search_db \<Rightarrow> search_db" where
  "covered_by env cat i I s =
     (case cat_product cat (mri_variantId i) of None \<Rightarrow> s
      | Some p \<Rightarrow> s\<lparr>sdb_view := view_cover I (index_row env p i s) (sdb_view s)\<rparr>)"

lemma covered_by_empty [simp]: "covered_by env cat i {} s = s"
  by (simp add: covered_by_def split: option.split)

lemma covered_by_covered_by [simp]: "covered_by env cat i I (covered_by env cat i J s) = covered_by env cat i (I \<union> J) s"
  by (simp add: covered_by_def view_cover_cover split: option.split)

lemma do_materialize: "do_item (materialize_item env cat i) item s = covered_by env cat i {unit_index (item_unit i item)} s"
proof -
  have "view_cover {ix} (\<lambda>_. row ix) w = view_cover {ix} row w" for ix row w
    by (auto simp: view_cover_def fun_eq_iff)
  then show ?thesis
    by (simp add: covered_by_def do_item_def materialize_item_def materialize_unit candidate_index split: option.split)
qed

interpretation view_pool: independent_items "materialize_item env cat i" for env cat i
proof
  fix a b s
  show "do_item (materialize_item env cat i) a (do_item (materialize_item env cat i) b s) =
      do_item (materialize_item env cat i) b (do_item (materialize_item env cat i) a s)"
    by (simp add: do_materialize insert_commute)
  show "fst (materialize_item env cat i a (do_item (materialize_item env cat i) b s)) = fst (materialize_item env cat i a s)"
    by (simp add: materialize_item_def)
qed

lemma fold_materialize: "fold (do_item (materialize_item env cat i)) items s = covered_by env cat i (item_indices i (set items)) s"
  by (induction items arbitrary: s) (simp_all add: item_indices_def do_materialize)

definition range_indices :: "text_env \<Rightarrow> catalog \<Rightarrow> range_input \<Rightarrow> view_index set" where
  "range_indices te cat i = {(v, plan, d, key). v = mri_variantId i \<and> plan \<in> set (range_plans te cat i) \<and>
     (\<exists>lo hi. mri_from i = Some lo \<and> mri_to i = Some hi \<and> lo \<le> d \<and> d < hi) \<and>
     key \<in> buildOccupancyKey ` set (range_occupancies cat i)}"

lemma work_indices:
  assumes "mri_from i = Some lo" "mri_to i = Some hi"
  shows "item_indices i (set (range_work te cat i lo hi)) = range_indices te cat i"
  using assms
  by (auto simp: item_indices_def range_work_def range_indices_def item_unit_def unit_index_def image_iff split: prod.splits)

text \<open>The rows of a range, whatever the schedule of its workers.\<close>

lemma range_runs:
  assumes "range_schema i" "mri_from i = Some lo" "mri_to i = Some hi"
  shows "materializeSearchUnitRange env cat cfg sched i s =
     (Inr (length (range_work (sev_text env) cat i lo hi)), covered_by env cat i (range_indices (sev_text env) cat i) s)"
proof -
  let ?work = "range_work (sev_text env) cat i lo hi"
  let ?p = "run_pool (materialize_item env cat i) sched (start_pool (view_concurrency cfg (length ?work)) ?work s)"
  have pos: "0 < view_concurrency cfg (length ?work)" by (simp add: view_concurrency_def)
  have ok: "wp_rejected ?p = None" using view_pool.pool_accepts(1) [OF pos] by (simp add: materialize_item_def)
  have st: "wp_store ?p = covered_by env cat i (range_indices (sev_text env) cat i) s"
    using view_pool.pool_accepts(2) [OF pos ok] by (simp add: fold_materialize work_indices [OF assms(2,3)])
  show ?thesis
  proof (cases "?work = []")
    case True
    then have "range_indices (sev_text env) cat i = {}" using work_indices [OF assms(2,3), of "sev_text env" cat] by (simp add: item_indices_def)
    then show ?thesis using assms ok st True by (simp add: materializeSearchUnitRange_def Let_def)
  next
    case False
    have "lo < hi"
    proof (rule ccontr)
      assume "\<not> lo < hi"
      moreover have "List.product xs ([] :: (day \<times> occupancy) list) = []" for xs :: "string list" by (induction xs) simp_all
      ultimately show False using False by (simp add: range_work_def)
    qed
    moreover have "range_plans (sev_text env) cat i \<noteq> []" using False by (auto simp: range_work_def)
    ultimately show ?thesis using assms ok st by (simp add: materializeSearchUnitRange_def Let_def)
  qed
qed


lemma drift_stamps [simp]:
  "hasMaterializationDrift old (row\<lparr>suv_computedAt := t\<rparr>) = hasMaterializationDrift old row"
  "hasMaterializationDrift old (row\<lparr>suv_id := x\<rparr>) = hasMaterializationDrift old row"
proof -
  have "c\<lparr>suv_id := suv_id row, suv_productId := suv_productId row, suv_computedAt := t\<rparr> = row\<lparr>suv_computedAt := t\<rparr> \<longleftrightarrow>
      c\<lparr>suv_id := suv_id row, suv_productId := suv_productId row, suv_computedAt := suv_computedAt row\<rparr> = row" for c
    by (cases c, cases row) simp
  then show "hasMaterializationDrift old (row\<lparr>suv_computedAt := t\<rparr>) = hasMaterializationDrift old row"
    by (cases old) (simp_all add: hasMaterializationDrift_def)
  have "c\<lparr>suv_id := x, suv_productId := suv_productId row, suv_computedAt := suv_computedAt row\<rparr> = row\<lparr>suv_id := x\<rparr> \<longleftrightarrow>
      c\<lparr>suv_id := suv_id row, suv_productId := suv_productId row, suv_computedAt := suv_computedAt row\<rparr> = row" for c
    by (cases c, cases row) simp
  then show "hasMaterializationDrift old (row\<lparr>suv_id := x\<rparr>) = hasMaterializationDrift old row"
    by (cases old) (simp_all add: hasMaterializationDrift_def)
qed

lemma view_cover_current:
  assumes "\<And>ix. ix \<in> I \<Longrightarrow> \<not> hasMaterializationDrift (w ix) (row ix)"
  shows "view_cover I row w = w"
  using assms no_drift_merged by (fastforce simp: view_cover_def fun_eq_iff)

lemma candidate_stamps: "candidate_row (env\<lparr>sev_now := t, sev_rowId := ids\<rparr>) p u s =
    (candidate_row env p u s)\<lparr>suv_computedAt := t, suv_id := ids (unit_index u)\<rparr>"
proof -
  have b: "policy_blocked (env\<lparr>sev_now := t, sev_rowId := ids\<rparr>) p u s = policy_blocked env p u s"
    by (simp add: policy_blocked_def)
  have "night_blocker (env\<lparr>sev_now := t, sev_rowId := ids\<rparr>) p u s = night_blocker env p u s"
    by (simp only: night_blocker_def b)
  then show ?thesis by (simp add: candidate_row_def Let_def)
qed

lemma index_drift_stamps:
  "hasMaterializationDrift old (index_row (env\<lparr>sev_now := t, sev_rowId := ids\<rparr>) p i s ix) = hasMaterializationDrift old (index_row env p i s ix)"
  by (cases ix) (simp add: index_row_def candidate_stamps)

lemma covered_again:
  "covered_by (env\<lparr>sev_now := t, sev_rowId := ids\<rparr>) cat i I (covered_by env cat i I s) = covered_by env cat i I s"
  by (simp add: covered_by_def index_drift_stamps view_cover_current view_cover_def split: option.split)

text \<open>
  A second materialization of a range, at any later time, with any ids for its rows and in any schedule,
  writes nothing.
\<close>

theorem view_idempotent:
  assumes "range_schema i" "mri_from i = Some lo" "mri_to i = Some hi"
  shows "snd (materializeSearchUnitRange (env\<lparr>sev_now := t, sev_rowId := ids\<rparr>) cat cfg' sched' i
       (snd (materializeSearchUnitRange env cat cfg sched i s))) = snd (materializeSearchUnitRange env cat cfg sched i s)"
  by (simp add: range_runs [OF assms] covered_again)

end
