(* ===== verification/Restrictions_Correctness.thy ===== *)
theory Restrictions_Correctness
  imports Restrictions
begin

text \<open>
  What the restrictions of a night are: the strictest of the rules that cover it, whichever range they are
  recomputed for, and what a recomputation leaves in the table.
\<close>

section \<open>Strictest values\<close>

lemma fold_max_least: "fold max ys (y :: rat) \<le> n \<longleftrightarrow> (\<forall>x \<in> insert y (set ys). x \<le> n)"
  by (induction ys arbitrary: y) auto

lemma fold_min_greatest: "n \<le> fold min ys (y :: rat) \<longleftrightarrow> (\<forall>x \<in> insert y (set ys). n \<le> x)"
  by (induction ys arbitrary: y) auto

lemma greatest_bound: "(case greatest xs of None \<Rightarrow> True | Some m \<Rightarrow> m \<le> n) \<longleftrightarrow> (\<forall>x \<in> set xs. x \<le> n)"
  by (cases xs) (auto simp: greatest_def fold_max_least)

lemma least_bound: "(case least xs of None \<Rightarrow> True | Some m \<Rightarrow> n \<le> m) \<longleftrightarrow> (\<forall>x \<in> set xs. n \<le> x)"
  by (cases xs) (auto simp: least_def fold_min_greatest)

lemma fold_max_in: "fold max ys (y :: rat) \<in> insert y (set ys)"
proof (induction ys arbitrary: y)
  case (Cons a ys)
  then show ?case using Cons.IH [of "max a y"] by (auto simp: max_def split: if_splits)
qed simp

lemma fold_min_in: "fold min ys (y :: rat) \<in> insert y (set ys)"
proof (induction ys arbitrary: y)
  case (Cons a ys)
  then show ?case using Cons.IH [of "min a y"] by (auto simp: min_def split: if_splits)
qed simp

lemma greatest_in: "greatest xs = Some m \<Longrightarrow> m \<in> set xs"
  using fold_max_in by (cases xs) (auto simp: greatest_def)

lemma least_in: "least xs = Some m \<Longrightarrow> m \<in> set xs"
  using fold_min_in by (cases xs) (auto simp: least_def)

text \<open>The value a rule counts with.\<close>

definition rule_value :: "restriction_rule \<Rightarrow> rat" where
  "rule_value r = max 1 (case rtr_value r of None \<Rightarrow> 0 | Some v \<Rightarrow> v)"

lemma set_rule_values: "set (rule_values type rules) = rule_value ` {r \<in> set rules. rtr_type r = type}"
  by (auto simp: rule_values_def rule_value_def)

section \<open>The rules of a night\<close>

definition night_rules :: "catalog \<Rightarrow> string \<Rightarrow> string \<Rightarrow> day \<Rightarrow> rules_db \<Rightarrow> restriction_rule list" where
  "night_rules cat v plan date db = filter (\<lambda>r. overlapsDate r date) (loadApplicableRules cat v plan date (date + 1) db)"

lemma normalizeRule_dates:
  "normalizeRule (r, a) = Some n \<Longrightarrow> apl_startDate a = Some (Some (rtr_startDate n)) \<and> apl_endDate a = Some (Some (rtr_endDate n))"
  by (auto simp: normalizeRule_def split: option.splits if_splits)

lemma overlapsDate_range: "overlapsDate n d \<Longrightarrow> rtr_startDate n \<le> d \<and> d \<le> rtr_endDate n"
  by (simp add: overlapsDate_def split: if_splits)

lemma filter_map_filter: "filter P (List.map_filter f xs) = List.map_filter (\<lambda>x. case f x of None \<Rightarrow> None | Some y \<Rightarrow> if P y then Some y else None) xs"
  by (induction xs) (auto simp: List.map_filter_simps split: option.split)

lemma map_filter_filter_cong:
  "(\<And>x y. x \<in> set xs \<Longrightarrow> f x = Some y \<Longrightarrow> P x = Q x) \<Longrightarrow> List.map_filter f (filter P xs) = List.map_filter f (filter Q xs)"
  by (induction xs) (auto simp: List.map_filter_simps split: option.split)

lemma range_night_rules:
  assumes "lo \<le> d" "d < hi"
  shows "filter (\<lambda>r. overlapsDate r d) (loadApplicableRules cat v plan lo hi db) = night_rules cat v plan d db"
proof -
  let ?f = "\<lambda>x. case normalizeRule x of None \<Rightarrow> None | Some y \<Rightarrow> if overlapsDate y d then Some y else None"
  have cover: "application_overlaps (snd x) a b" if "?f x = Some y" "a \<le> d" "d \<le> b" for x y a b
  proof -
    obtain r ap where x: "x = (r, ap)" by (cases x)
    with that have n: "normalizeRule (r, ap) = Some y" "overlapsDate y d" by (simp_all split: option.splits if_splits)
    from normalizeRule_dates [OF n(1)] overlapsDate_range [OF n(2)] that show ?thesis
      by (simp add: x application_overlaps_def)
  qed
  have "List.map_filter ?f (selectCommercialRules (\<lambda>(r, a). cru_isActive r \<and> apl_isActive a \<and> apl_scopeId a \<in> S \<and>
         application_overlaps a lo (hi - 1) \<and> cru_category r \<noteq> ''price'') db) =
      List.map_filter ?f (selectCommercialRules (\<lambda>(r, a). cru_isActive r \<and> apl_isActive a \<and> apl_scopeId a \<in> S \<and>
         application_overlaps a d (d + 1 - 1) \<and> cru_category r \<noteq> ''price'') db)" for S
    unfolding selectCommercialRules_def
  proof (rule map_filter_filter_cong)
    fix x y assume "?f x = Some y"
    from cover [OF this, of lo "hi - 1"] cover [OF this, of d d] assms
    show "(case x of (r, a) \<Rightarrow> apl_ruleId a = cru_id r \<and> (case (r, a) of (r, a) \<Rightarrow> cru_isActive r \<and> apl_isActive a \<and>
        apl_scopeId a \<in> S \<and> application_overlaps a lo (hi - 1) \<and> cru_category r \<noteq> ''price'')) =
      (case x of (r, a) \<Rightarrow> apl_ruleId a = cru_id r \<and> (case (r, a) of (r, a) \<Rightarrow> cru_isActive r \<and> apl_isActive a \<and>
        apl_scopeId a \<in> S \<and> application_overlaps a d (d + 1 - 1) \<and> cru_category r \<noteq> ''price''))"
      by (cases x) simp
  qed
  then show ?thesis
    by (simp add: night_rules_def loadApplicableRules_def filter_map_filter Let_def split: option.split)
qed

text \<open>Which rules those are, over the tables.\<close>

lemma in_selectCommercialRules: "(r, a) \<in> set (selectCommercialRules P db) \<longleftrightarrow>
    r \<in> set (rdb_rules db) \<and> a \<in> set (rdb_applications db) \<and> apl_ruleId a = cru_id r \<and> P (r, a)"
  by (auto simp: selectCommercialRules_def)

lemma in_map_filter: "y \<in> set (List.map_filter f xs) \<longleftrightarrow> (\<exists>x \<in> set xs. f x = Some y)"
  by (induction xs) (auto simp: List.map_filter_simps split: option.split)

definition rule_covers :: "catalog \<Rightarrow> string \<Rightarrow> string \<Rightarrow> rule_row \<Rightarrow> application_row \<Rightarrow> bool" where
  "rule_covers cat v plan r a \<longleftrightarrow> apl_ruleId a = cru_id r \<and> cru_isActive r \<and> apl_isActive a \<and> cru_category r \<noteq> ''price'' \<and>
     apl_scopeId a \<noteq> [] \<and> (case cat_product cat v of None \<Rightarrow> False | Some p \<Rightarrow> apl_scopeId a \<in> {fst p, v, plan})"

lemma in_night_rules:
  "n \<in> set (night_rules cat v plan d db) \<longleftrightarrow> (\<exists>r \<in> set (rdb_rules db). \<exists>a \<in> set (rdb_applications db).
     rule_covers cat v plan r a \<and> normalizeRule (r, a) = Some n \<and> overlapsDate n d)"
proof (cases "cat_product cat v")
  case None
  then show ?thesis by (simp add: night_rules_def loadApplicableRules_def rule_covers_def)
next
  case (Some p)
  have over: "application_overlaps a d d" if "normalizeRule (r, a) = Some n" "overlapsDate n d" for r a
    using normalizeRule_dates [OF that(1)] overlapsDate_range [OF that(2)] by (simp add: application_overlaps_def)
  have "n \<in> set (night_rules cat v plan d db) \<longleftrightarrow> overlapsDate n d \<and> (\<exists>r a. (r, a) \<in> set (selectCommercialRules (\<lambda>(r, a).
      cru_isActive r \<and> apl_isActive a \<and> apl_scopeId a \<in> set (filter (\<lambda>i. i \<noteq> []) [fst p, v, plan]) \<and>
      application_overlaps a d d \<and> cru_category r \<noteq> ''price'') db) \<and> normalizeRule (r, a) = Some n)"
    using Some by (cases p) (fastforce simp: night_rules_def loadApplicableRules_def in_map_filter in_selectCommercialRules Let_def)
  also have "\<dots> \<longleftrightarrow> (\<exists>r a. r \<in> set (rdb_rules db) \<and> a \<in> set (rdb_applications db) \<and> rule_covers cat v plan r a \<and>
      normalizeRule (r, a) = Some n \<and> overlapsDate n d)"
  proof -
    have "apl_scopeId a \<in> set (filter (\<lambda>i. i \<noteq> []) [fst p, v, plan]) \<longleftrightarrow> apl_scopeId a \<noteq> [] \<and> apl_scopeId a \<in> {fst p, v, plan}" for a
      by auto
    then show ?thesis using over unfolding in_selectCommercialRules rule_covers_def Some option.case prod.case by blast
  qed
  finally show ?thesis by blast
qed

section \<open>What a recomputation leaves in the table\<close>

text \<open>What the unique index guarantees: it takes no two rows without a rate plan for the same.\<close>

definition unique_restrictions :: "restriction_row list \<Rightarrow> bool" where
  "unique_restrictions table \<longleftrightarrow> (\<forall>x \<in> set table. \<forall>y \<in> set table.
     err_plan x \<noteq> None \<longrightarrow> restriction_index x = restriction_index y \<longrightarrow> x = y)"

definition restriction_at :: "restriction_row list \<Rightarrow> string \<times> string option \<times> day \<Rightarrow> restriction_row option" where
  "restriction_at table ix = find (\<lambda>r. restriction_index r = ix) table"

text \<open>Rows are compared apart from their ids, which an update keeps.\<close>

definition same_restriction :: "restriction_row \<Rightarrow> restriction_row \<Rightarrow> bool" where
  "same_restriction a b \<longleftrightarrow> a\<lparr>err_id := err_id b\<rparr> = b"

lemma restriction_index_id [simp]: "restriction_index (r\<lparr>err_id := x\<rparr>) = restriction_index r"
  by (simp add: restriction_index_def)

lemma upsert_unique [preserve]:
  assumes "unique_restrictions table"
  shows "unique_restrictions (upsert_restriction r table)"
proof (cases "list_ex (\<lambda>x. restriction_index x = restriction_index r) table")
  case True
  have plan: "err_plan x = err_plan y" if "restriction_index x = restriction_index y" for x y
    using that by (simp add: restriction_index_def)
  show ?thesis
    unfolding unique_restrictions_def upsert_restriction_def if_P [OF True] set_update_rows
  proof (clarify)
    fix x y z
    let ?f = "\<lambda>x. if restriction_index x = restriction_index r then r\<lparr>err_id := err_id x\<rparr> else x"
    assume h: "x \<in> set table" "y \<in> set table" "err_plan (?f x) = Some z" "restriction_index (?f x) = restriction_index (?f y)"
    have index: "restriction_index (?f z) = restriction_index z" for z by simp
    have same: "restriction_index x = restriction_index y" using h(4) unfolding index .
    moreover have "err_plan x \<noteq> None" using h(3) plan [OF index] by (metis option.distinct(1))
    ultimately have "x = y" using assms h(1,2) unfolding unique_restrictions_def by blast
    then show "?f x = ?f y" by simp
  qed
next
  case False
  then have "restriction_index x \<noteq> restriction_index r" if "x \<in> set table" for x using that by (auto simp: list_ex_iff)
  then have other: "restriction_index r \<noteq> restriction_index x" "restriction_index x \<noteq> restriction_index r" if "x \<in> set table" for x
    using that by metis+
  show ?thesis
    unfolding unique_restrictions_def upsert_restriction_def if_not_P [OF False]
    using assms other unfolding unique_restrictions_def by auto
qed

lemma fold_upsert_unique [preserve]: "unique_restrictions table \<Longrightarrow> unique_restrictions (fold upsert_restriction rows table)"
  by (induction rows arbitrary: table) (simp_all add: upsert_unique)

lemma upsert_other: "restriction_index r \<noteq> ix \<Longrightarrow> restriction_at (upsert_restriction r table) ix = restriction_at table ix"
proof -
  assume "restriction_index r \<noteq> ix"
  then have "find (\<lambda>x. restriction_index x = ix) (update_rows (\<lambda>x. restriction_index x = restriction_index r)
      (\<lambda>x. r\<lparr>err_id := err_id x\<rparr>) table) = find (\<lambda>x. restriction_index x = ix) table"
    by (intro find_update_other) auto
  then show ?thesis using \<open>restriction_index r \<noteq> ix\<close>
    by (simp add: upsert_restriction_def restriction_at_def find_append split: option.split)
qed

lemma upsert_same: "\<exists>x. restriction_at (upsert_restriction r table) (restriction_index r) = Some (r\<lparr>err_id := x\<rparr>)"
proof (cases "restriction_at table (restriction_index r)")
  case None
  then have "\<not> list_ex (\<lambda>x. restriction_index x = restriction_index r) table"
    by (simp add: restriction_at_def find_None_all list_ex_iff)
  then have "restriction_at (upsert_restriction r table) (restriction_index r) = Some (r\<lparr>err_id := err_id r\<rparr>)"
    using None by (simp add: upsert_restriction_def restriction_at_def find_append)
  then show ?thesis by blast
next
  case (Some y)
  have "list_ex (\<lambda>x. restriction_index x = restriction_index r) table" and y: "restriction_index y = restriction_index r"
    using find_Some_mem [OF Some [unfolded restriction_at_def]] by (auto simp: list_ex_iff)
  moreover have "find (\<lambda>x. restriction_index x = restriction_index r)
      (update_rows (\<lambda>x. restriction_index x = restriction_index r) (\<lambda>x. r\<lparr>err_id := err_id x\<rparr>) table) =
      map_option (\<lambda>x. if restriction_index x = restriction_index r then r\<lparr>err_id := err_id x\<rparr> else x) (restriction_at table (restriction_index r))"
    unfolding restriction_at_def by (rule find_update_key) simp
  ultimately show ?thesis using Some by (auto simp: upsert_restriction_def restriction_at_def)
qed

lemma fold_upsert_other:
  "ix \<notin> restriction_index ` set rows \<Longrightarrow> restriction_at (fold upsert_restriction rows table) ix = restriction_at table ix"
  by (induction rows arbitrary: table) (auto simp: upsert_other [OF not_sym])

lemma fold_upsert_at:
  assumes "distinct (map restriction_index rows)" "r \<in> set rows"
  shows "\<exists>x. restriction_at (fold upsert_restriction rows table) (restriction_index r) = Some (r\<lparr>err_id := x\<rparr>)"
  using assms
proof (induction rows arbitrary: table)
  case (Cons y rows)
  show ?case
  proof (cases "r = y")
    case True
    then show ?thesis using Cons.prems upsert_same [of y table] by (simp add: fold_upsert_other)
  next
    case False
    then show ?thesis using Cons by simp
  qed
qed simp

lemma restriction_index_projection [simp]: "restriction_index (computeDayProjection x v plan now d rules) = (v, Some plan, d)"
  by (simp add: restriction_index_def computeDayProjection_def)

definition projected_indices :: "catalog \<Rightarrow> string \<Rightarrow> day \<Rightarrow> day \<Rightarrow> (string \<times> string option \<times> day) set" where
  "projected_indices cat v lo hi =
     (if cat_product cat v = None then {} else {v} \<times> Some ` set (cat_activePlans cat v) \<times> {lo..<hi})"

lemma restriction_rows_indices: "restriction_index ` set (restriction_rows cat rowId now v lo hi db) = projected_indices cat v lo hi"
  by (force simp: restriction_rows_def projected_indices_def Let_def image_iff)

lemma distinct_restriction_rows:
  assumes "distinct (cat_activePlans cat v)"
  shows "distinct (map restriction_index (restriction_rows cat rowId now v lo hi db))"
proof -
  have "distinct (concat (map (\<lambda>plan. map (\<lambda>d. (v, Some plan, d)) [lo..hi - 1]) plans))" if "distinct plans" for plans
    using that by (induction plans) (auto simp: distinct_map inj_on_def)
  from this [OF assms] show ?thesis by (simp add: restriction_rows_def map_concat comp_def Let_def)
qed

text \<open>The row a night is to have.\<close>

definition projection :: "catalog \<Rightarrow> (string \<Rightarrow> string \<Rightarrow> day \<Rightarrow> string) \<Rightarrow> ms \<Rightarrow> rules_db \<Rightarrow> string \<Rightarrow> string \<Rightarrow> day \<Rightarrow> restriction_row" where
  "projection cat rowId now db v plan d = computeDayProjection (rowId v plan d) v plan now d (night_rules cat v plan d db)"

lemma set_restriction_rows:
  "r \<in> set (restriction_rows cat rowId now v lo hi db) \<longleftrightarrow> cat_product cat v \<noteq> None \<and>
     (\<exists>plan \<in> set (cat_activePlans cat v). \<exists>d \<in> {lo..<hi}. r = projection cat rowId now db v plan d)"
proof -
  have "r \<in> set (restriction_rows cat rowId now v lo hi db) \<longleftrightarrow> cat_product cat v \<noteq> None \<and> (\<exists>plan \<in> set (cat_activePlans cat v).
      \<exists>d \<in> {lo..<hi}. r = computeDayProjection (rowId v plan d) v plan now d
        (filter (\<lambda>n. overlapsDate n d) (loadApplicableRules cat v plan lo hi db)))"
  proof -
    have "{lo..hi - 1} = {lo..<hi}" by auto
    then show ?thesis by (simp add: restriction_rows_def Let_def image_iff)
  qed
  also have "\<dots> \<longleftrightarrow> cat_product cat v \<noteq> None \<and>
      (\<exists>plan \<in> set (cat_activePlans cat v). \<exists>d \<in> {lo..<hi}. r = projection cat rowId now db v plan d)"
    by (intro conj_cong bex_cong refl) (simp add: projection_def range_night_rules)
  finally show ?thesis .
qed

lemma restrictions_outcome:
  assumes "recomputeEffectiveRestrictionsForVariantRange cat rowId now db v (Some lo) (Some hi) table = (Inr res, table')"
  shows "table' = fold upsert_restriction (restriction_rows cat rowId now v lo hi db) table" "lo < hi"
    "\<forall>r \<in> set (restriction_rows cat rowId now v lo hi db). restriction_check r"
  using assms by (simp_all add: recomputeEffectiveRestrictionsForVariantRange_def Let_def list_all_iff split: if_splits)

lemma recomputed_restrictions:
  assumes "distinct (cat_activePlans cat v)"
    and "recomputeEffectiveRestrictionsForVariantRange cat rowId now db v (Some lo) (Some hi) table = (Inr res, table')"
  shows "ix \<notin> projected_indices cat v lo hi \<Longrightarrow> restriction_at table' ix = restriction_at table ix"
    and "(v, Some plan, d) \<in> projected_indices cat v lo hi \<Longrightarrow>
      \<exists>x. restriction_at table' (v, Some plan, d) = Some ((projection cat rowId now db v plan d)\<lparr>err_id := x\<rparr>)"
proof -
  note out = restrictions_outcome [OF assms(2)]
  show "ix \<notin> projected_indices cat v lo hi \<Longrightarrow> restriction_at table' ix = restriction_at table ix"
    unfolding out(1) restriction_rows_indices [of cat rowId now v lo hi db, symmetric] by (rule fold_upsert_other)
  assume "(v, Some plan, d) \<in> projected_indices cat v lo hi"
  then have "projection cat rowId now db v plan d \<in> set (restriction_rows cat rowId now v lo hi db)"
    unfolding set_restriction_rows projected_indices_def by (fastforce split: if_splits)
  from fold_upsert_at [OF distinct_restriction_rows [OF assms(1)] this, of table] out(1)
  show "\<exists>x. restriction_at table' (v, Some plan, d) = Some ((projection cat rowId now db v plan d)\<lparr>err_id := x\<rparr>)"
    by (simp add: projection_def)
qed

text \<open>
  C20. A recomputation of the restrictions of a variant leaves, for every active rate plan and every night of
  the range, one row, projecting the rules that cover that night, the same row whatever the range, and every
  other row as it was.
\<close>

theorem restrictions_refine_rules:
  assumes "unique_restrictions table" "distinct (cat_activePlans cat v)"
    and "recomputeEffectiveRestrictionsForVariantRange cat rowId now db v (Some lo) (Some hi) table = (Inr res, table')"
  shows "unique_restrictions table' \<and> (\<forall>plan d. (v, Some plan, d) \<in> projected_indices cat v lo hi \<longrightarrow>
      (\<exists>r. restriction_at table' (v, Some plan, d) = Some r \<and> same_restriction r (projection cat rowId now db v plan d))) \<and>
     (\<forall>ix. ix \<notin> projected_indices cat v lo hi \<longrightarrow> restriction_at table' ix = restriction_at table ix)"
proof (intro conjI allI impI)
  show "unique_restrictions table'"
    unfolding restrictions_outcome(1) [OF assms(3)] by (rule fold_upsert_unique [OF assms(1)])
  fix ix assume "ix \<notin> projected_indices cat v lo hi"
  then show "restriction_at table' ix = restriction_at table ix" by (rule recomputed_restrictions(1) [OF assms(2,3)])
next
  fix plan d assume "(v, Some plan, d) \<in> projected_indices cat v lo hi"
  from recomputed_restrictions(2) [OF assms(2,3) this]
  show "\<exists>r. restriction_at table' (v, Some plan, d) = Some r \<and> same_restriction r (projection cat rowId now db v plan d)"
    by (auto simp: same_restriction_def)
qed

section \<open>What a row says\<close>

lemma projection_flags:
  "err_stopSell (projection cat rowId now db v plan d) \<longleftrightarrow> (\<exists>r \<in> set (night_rules cat v plan d db). rtr_type r = ''stop_sell'')"
  "err_cta (projection cat rowId now db v plan d) \<longleftrightarrow> (\<exists>r \<in> set (night_rules cat v plan d db). rtr_type r = ''cta'')"
  "err_ctd (projection cat rowId now db v plan d) \<longleftrightarrow> (\<exists>r \<in> set (night_rules cat v plan d db). rtr_type r = ''ctd'')"
  by (simp_all add: projection_def computeDayProjection_def has_rule_def list_ex_iff)

text \<open>The bounds a night's rules of a type set on a number.\<close>

definition lower_bounds :: "string \<Rightarrow> restriction_rule list \<Rightarrow> rat \<Rightarrow> bool" where
  "lower_bounds type rules n \<longleftrightarrow> (\<forall>r \<in> set rules. rtr_type r = type \<longrightarrow> rule_value r \<le> n)"

definition upper_bounds :: "string \<Rightarrow> restriction_rule list \<Rightarrow> rat \<Rightarrow> bool" where
  "upper_bounds type rules n \<longleftrightarrow> (\<forall>r \<in> set rules. rtr_type r = type \<longrightarrow> n \<le> rule_value r)"

lemma greatest_rules: "(case greatest (rule_values type rules) of None \<Rightarrow> True | Some m \<Rightarrow> m \<le> n) \<longleftrightarrow> lower_bounds type rules n"
  by (auto simp: greatest_bound set_rule_values lower_bounds_def)

lemma least_rules: "(case least (rule_values type rules) of None \<Rightarrow> True | Some m \<Rightarrow> n \<le> m) \<longleftrightarrow> upper_bounds type rules n"
  by (auto simp: least_bound set_rule_values upper_bounds_def)

lemma rule_values_one: "x \<in> set (rule_values type rules) \<Longrightarrow> 1 \<le> x"
  by (auto simp: set_rule_values rule_value_def)

section \<open>A rule without a value\<close>

text \<open>
  A rule of a longest stay that has no value caps the stays of its nights at one night, as if its value
  were one.
\<close>

theorem valueless_longest_stay:
  assumes "n \<in> set (night_rules cat v plan d db)" "rtr_type n = ''max_los''" "rtr_value n = None"
  shows "err_maxStay (projection cat rowId now db v plan d) = Some 1"
proof -
  let ?xs = "rule_values ''max_los'' (night_rules cat v plan d db)"
  have one: "1 \<in> set ?xs" using assms by (force simp: set_rule_values rule_value_def)
  then obtain m where m: "least ?xs = Some m" by (cases ?xs) (auto simp: least_def)
  have "m \<le> 1" using least_bound [where xs = ?xs and n = m] one m by auto
  moreover have "1 \<le> m" using least_in [OF m] by (rule rule_values_one)
  ultimately show ?thesis using m by (simp add: projection_def computeDayProjection_def)
qed

end
