(* ===== verification/Search_Correctness.thy ===== *)
theory Search_Correctness
  imports Search_Offers Search_View_Correctness Restrictions_Correctness
begin

text \<open>
  What the search sells: a stay is sellable exactly when every night has the units, a price and its policies,
  and the rules covering its nights allow it.
\<close>

section \<open>The evaluation of a stay\<close>

lemma base_sellable [simp]: "ssl_isSellable base_sellability"
  by (simp add: base_sellability_def)

lemma withReason_sellable [simp]: "\<not> ssl_isSellable (withReason b r)"
  by (simp add: withReason_def)

lemma view_sellable [simp]:
  "\<not> ssl_isSellable missing_view" "\<not> ssl_isSellable (restricted_view r)" "ssl_isSellable (priced_view c rooms days)"
  by (simp_all add: missing_view_def restricted_view_def priced_view_def Let_def)

lemma evaluate_sellable:
  "ssl_isSellable (evaluateStaySellabilityFromView dates checkIn rooms rows currency today) \<longleftrightarrow>
     dates \<noteq> [] \<and> (\<forall>d \<in> set dates. \<exists>r. rows d = Some r \<and> day_sellable (max 1 rooms) r) \<and>
     (\<exists>first final. rows checkIn = Some first \<and> rows (last dates) = Some final \<and>
        stay_restriction (length dates) (checkIn - today) first final = None)"
proof (cases "dates \<noteq> [] \<and> list_all (\<lambda>d. rows d \<noteq> None) dates")
  case False
  then have "\<not> ssl_isSellable (evaluateStaySellabilityFromView dates checkIn rooms rows currency today)"
    by (auto simp: evaluateStaySellabilityFromView_def stay_days_def Let_def)
  moreover have "dates = [] \<or> (\<exists>d \<in> set dates. rows d = None)" using False by (auto simp: list_all_iff)
  ultimately show ?thesis by force
next
  case True
  then have some: "\<And>d. d \<in> set dates \<Longrightarrow> \<exists>r. rows d = Some r" and ne: "dates \<noteq> []" by (auto simp: list_all_iff)
  let ?days = "map (\<lambda>d. the (rows d)) dates"
  have days: "stay_days rows dates = Some ?days" using True by (simp add: stay_days_def)
  obtain final where final: "rows (last dates) = Some final" using some ne by (meson last_in_set)
  then have lst: "last ?days = final" using ne by (simp add: last_map)
  have all: "find (\<lambda>day. \<not> day_sellable (max 1 rooms) day) ?days = None \<longleftrightarrow>
      (\<forall>d \<in> set dates. \<exists>r. rows d = Some r \<and> day_sellable (max 1 rooms) r)"
    using some by (fastforce simp: find_None_all)
  show ?thesis
    using ne days final lst all
    by (auto simp: evaluateStaySellabilityFromView_def Let_def split: option.split)
qed

lemma restriction_allows:
  "stay_restriction nights lead first final = None \<longleftrightarrow> \<not> syr_cta first \<and> \<not> syr_ctd final \<and>
     (case syr_minStay first of None \<Rightarrow> 1 | Some m \<Rightarrow> max 1 m) \<le> of_nat nights \<and>
     (case syr_maxStay first of None \<Rightarrow> True | Some m \<Rightarrow> of_nat nights \<le> max 1 m) \<and>
     (case syr_minLeadTime first of None \<Rightarrow> True | Some m \<Rightarrow> max 0 m \<le> of_int lead) \<and>
     (case syr_maxLeadTime first of None \<Rightarrow> True | Some m \<Rightarrow> of_int lead \<le> max 0 m)"
  by (auto simp: stay_restriction_def not_less split: option.split)

section \<open>A night of the view\<close>

lemma stay_row_drift:
  assumes "\<not> hasMaterializationDrift (Some r) row"
  shows "stay_row_of r = stay_row_of row"
proof -
  have "r\<lparr>suv_id := suv_id row, suv_productId := suv_productId row, suv_computedAt := suv_computedAt row\<rparr> = row"
    using assms by (simp add: hasMaterializationDrift_def)
  then show ?thesis by (cases r, cases row) (simp add: stay_row_of_def)
qed

lemma blocker_blank: "js_trim (text_or_empty (night_blocker env p u s)) = [] \<longleftrightarrow> night_blocker env p u s = None"
  by (auto simp: night_blocker_def Let_def js_trim_def js_space_def text_or_empty_def)

lemma night_blocker_none:
  "night_blocker env p u s = None \<longleftrightarrow> night_sellable u s \<and> \<not> policy_blocked env p u s"
  by (auto simp: night_blocker_def night_sellable_def Let_def)

definition night_restriction :: "unit_input \<Rightarrow> search_db \<Rightarrow> sellability" where
  "night_restriction u s = resolveSearchSellability (restriction_of (mui_variantId u) (mui_ratePlanId u) (mui_date u) s)"

lemma candidate_fields [simp]:
  "suv_hasAvailability (candidate_row env p u s) \<longleftrightarrow> find_avail (mui_variantId u) (mui_date u) (sdb_inventory s) \<noteq> None"
  "suv_isAvailable (candidate_row env p u s) \<longleftrightarrow> find_avail (mui_variantId u) (mui_date u) (sdb_inventory s) \<noteq> None \<and>
     0 < has_units (find_avail (mui_variantId u) (mui_date u) (sdb_inventory s))"
  "suv_availableUnits (candidate_row env p u s) = has_units (find_avail (mui_variantId u) (mui_date u) (sdb_inventory s))"
  "suv_hasPrice (candidate_row env p u s) \<longleftrightarrow>
     pricing_row (mui_variantId u) (mui_ratePlanId u) (mui_date u) (buildOccupancyKey (mui_occupancy u)) s \<noteq> None"
  "suv_primaryBlocker (candidate_row env p u s) = night_blocker env p u s"
  by (simp_all add: candidate_row_def Let_def)

lemma candidate_restrictions [simp]:
  "suv_minStay (candidate_row env p u s) = rss_minStay (night_restriction u s)"
  "suv_maxStay (candidate_row env p u s) = rss_maxStay (night_restriction u s)"
  "suv_minLeadTime (candidate_row env p u s) = rss_minLeadTime (night_restriction u s)"
  "suv_maxLeadTime (candidate_row env p u s) = rss_maxLeadTime (night_restriction u s)"
  "suv_cta (candidate_row env p u s) = rss_cta (night_restriction u s)"
  "suv_ctd (candidate_row env p u s) = rss_ctd (night_restriction u s)"
  by (simp_all add: candidate_row_def night_restriction_def Let_def)

lemma stay_row_fields [simp]:
  "syr_isAvailable (stay_row_of r) = suv_isAvailable r" "syr_hasAvailability (stay_row_of r) = suv_hasAvailability r"
  "syr_hasPrice (stay_row_of r) = suv_hasPrice r" "syr_availableUnits (stay_row_of r) = max 0 (suv_availableUnits r)"
  "syr_minStay (stay_row_of r) = suv_minStay r" "syr_maxStay (stay_row_of r) = suv_maxStay r"
  "syr_minLeadTime (stay_row_of r) = suv_minLeadTime r" "syr_maxLeadTime (stay_row_of r) = suv_maxLeadTime r"
  "syr_cta (stay_row_of r) = suv_cta r" "syr_ctd (stay_row_of r) = suv_ctd r"
  "syr_primaryBlocker (stay_row_of r) = suv_primaryBlocker r" "syr_pricePerNight (stay_row_of r) = suv_pricePerNight r"
  by (simp_all add: stay_row_of_def)

lemma night_offered:
  assumes "0 < rooms"
  shows "day_sellable rooms (stay_row_of (candidate_row env p u s)) \<longleftrightarrow>
     night_sellable u s \<and> \<not> policy_blocked env p u s \<and>
     rooms \<le> has_units (find_avail (mui_variantId u) (mui_date u) (sdb_inventory s))"
proof -
  let ?h = "has_units (find_avail (mui_variantId u) (mui_date u) (sdb_inventory s))"
  have units: "rooms \<le> max 0 (max 0 ?h) \<longleftrightarrow> rooms \<le> ?h" using assms by (simp add: le_max_iff_disj)
  show ?thesis
    unfolding day_sellable_def stay_row_fields candidate_fields blocker_blank stay_units_def night_blocker_none units
    unfolding night_sellable_def Let_def by blast
qed

lemma restriction_of_plan:
  assumes "unique_restrictions (sdb_restrictions s)" "restriction_at (sdb_restrictions s) (v, Some plan, d) = Some r"
  shows "restriction_of v plan d s = Some r"
proof -
  let ?key = "\<lambda>r. if err_plan r = None then (1 :: int) else 0"
  let ?rows = "filter (\<lambda>r. err_variant r = v \<and> err_date r = d \<and> (err_plan r = Some plan \<or> err_plan r = None)) (sdb_restrictions s)"
  have r: "r \<in> set (sdb_restrictions s)" "restriction_index r = (v, Some plan, d)"
    using find_Some_mem [OF assms(2) [unfolded restriction_at_def]] by auto
  then have in_rows: "r \<in> set ?rows" by (auto simp: restriction_index_def)
  obtain x xs where sorted: "js_sort (by_key ?key) ?rows = x # xs"
  proof (cases "js_sort (by_key ?key) ?rows")
    case Nil
    then have "set ?rows = {}" using set_js_sort [of "by_key ?key" ?rows] by (simp only: list.set(1))
    then show ?thesis using in_rows by (simp only: empty_iff)
  qed
  have eq: "set (x # xs) = set ?rows" using set_js_sort [of "by_key ?key" ?rows] unfolding sorted .
  then have x: "x \<in> set ?rows" by (metis list.set_intros(1))
  have "r \<in> set (x # xs)" using in_rows unfolding eq .
  moreover have "sorted_wrt (\<lambda>a b. by_key ?key a b \<le> 0) (x # xs)"
    using by_key.sort_ordered [of ?key ?rows] unfolding sorted .
  ultimately have "by_key ?key x r \<le> 0" by (cases "r = x") (simp_all add: by_key_def)
  then have "err_plan x \<noteq> None" using r(2) by (auto simp: by_key_def restriction_index_def split: if_splits)
  then have "restriction_index x = restriction_index r" "x \<in> set (sdb_restrictions s)"
    using x r(2) by (auto simp: restriction_index_def)
  then have "x = r" using assms(1) r(1) \<open>err_plan x \<noteq> None\<close> unfolding unique_restrictions_def by blast
  then show ?thesis by (simp add: restriction_of_def first_of_def sorted)
qed

section \<open>The restrictions of a row\<close>

lemma integer_normalized:
  assumes "js_isInteger m" "1 \<le> m"
  shows "normalizeOptionalPositiveInteger (Some m) = Some m"
  using assms by (auto simp: normalizeOptionalPositiveInteger_def js_isInteger_def)

lemma bounds_normalized:
  assumes "integer_column b" "\<And>m. b = Some m \<Longrightarrow> 1 \<le> m"
  shows "normalizeOptionalPositiveInteger b = b"
  using assms by (cases b) (simp_all add: integer_normalized integer_column_def, simp add: normalizeOptionalPositiveInteger_def)

lemma projection_bounds:
  "err_minStay (projection cat rowId now db v plan d) = greatest (rule_values ''min_los'' (night_rules cat v plan d db))"
  "err_maxStay (projection cat rowId now db v plan d) = least (rule_values ''max_los'' (night_rules cat v plan d db))"
  "err_minLeadTime (projection cat rowId now db v plan d) = greatest (rule_values ''min_lead_time'' (night_rules cat v plan d db))"
  "err_maxLeadTime (projection cat rowId now db v plan d) = least (rule_values ''max_lead_time'' (night_rules cat v plan d db))"
  by (simp_all add: projection_def computeDayProjection_def)

lemma greatest_one: "greatest (rule_values type rules) = Some m \<Longrightarrow> 1 \<le> m"
  by (rule rule_values_one [OF greatest_in])

lemma least_one: "least (rule_values type rules) = Some m \<Longrightarrow> 1 \<le> m"
  by (rule rule_values_one [OF least_in])

lemma projected_sellability:
  assumes "restriction_check (projection cat rowId now db v plan d)"
  shows "resolveSearchSellability (Some ((projection cat rowId now db v plan d)\<lparr>err_id := x\<rparr>)) =
     \<lparr>rss_stopSell = (\<exists>r \<in> set (night_rules cat v plan d db). rtr_type r = ''stop_sell''),
      rss_minStay = greatest (rule_values ''min_los'' (night_rules cat v plan d db)),
      rss_maxStay = least (rule_values ''max_los'' (night_rules cat v plan d db)),
      rss_cta = (\<exists>r \<in> set (night_rules cat v plan d db). rtr_type r = ''cta''),
      rss_ctd = (\<exists>r \<in> set (night_rules cat v plan d db). rtr_type r = ''ctd''),
      rss_minLeadTime = greatest (rule_values ''min_lead_time'' (night_rules cat v plan d db)),
      rss_maxLeadTime = least (rule_values ''max_lead_time'' (night_rules cat v plan d db)), rss_usedCompatibility = False\<rparr>"
  using assms
  by (simp add: resolveSearchSellability_def projection_flags projection_bounds restriction_check_def bounds_normalized greatest_one least_one)

section \<open>What the search sells\<close>

definition policies_complete :: "search_env \<Rightarrow> string \<times> string \<Rightarrow> string \<Rightarrow> string \<Rightarrow> day \<Rightarrow> bool" where
  "policies_complete env p v plan d \<longleftrightarrow>
     (sev_policyBlockerEnabled env \<longrightarrow> (let required = getRequiredPolicyCategories (snd p)
       in required \<noteq> [] \<and> sev_missingPolicies env (fst p) v plan d required \<in> {None, Some 0}))"

definition night_open ::
  "search_env \<Rightarrow> catalog \<Rightarrow> string \<times> string \<Rightarrow> rules_db \<Rightarrow> search_db \<Rightarrow> string \<Rightarrow> string \<Rightarrow> string \<Rightarrow> int \<Rightarrow> day \<Rightarrow> bool" where
  "night_open env cat p db s v plan key rooms d \<longleftrightarrow>
     (\<exists>a. find_avail v d (sdb_inventory s) = Some a \<and> rooms \<le> ea_available a) \<and> pricing_row v plan d key s \<noteq> None \<and>
     policies_complete env p v plan d \<and> (\<forall>r \<in> set (night_rules cat v plan d db). rtr_type r \<noteq> ''stop_sell'')"

definition rules_allow :: "restriction_rule list \<Rightarrow> restriction_rule list \<Rightarrow> int \<Rightarrow> int \<Rightarrow> bool" where
  "rules_allow arrival final nights lead \<longleftrightarrow>
     (\<forall>r \<in> set arrival. rtr_type r \<noteq> ''cta'') \<and> (\<forall>r \<in> set final. rtr_type r \<noteq> ''ctd'') \<and>
     lower_bounds ''min_los'' arrival (of_int nights) \<and> upper_bounds ''max_los'' arrival (of_int nights) \<and>
     lower_bounds ''min_lead_time'' arrival (of_int lead) \<and> upper_bounds ''max_lead_time'' arrival (of_int lead)"

definition view_stay :: "search_db \<Rightarrow> string \<Rightarrow> string \<Rightarrow> string \<Rightarrow> day \<Rightarrow> stay_row option" where
  "view_stay s v plan key d = map_option stay_row_of (sdb_view s (v, plan, d, key))"

definition night_unit :: "range_input \<Rightarrow> string \<Rightarrow> string \<Rightarrow> day \<Rightarrow> unit_input" where
  "night_unit i plan key d = item_unit i (plan, d, occupancyFromKey (Some key))"

lemma night_unit_fields [simp]:
  "mui_variantId (night_unit i plan key d) = mri_variantId i" "mui_ratePlanId (night_unit i plan key d) = plan"
  "mui_date (night_unit i plan key d) = d"
  "buildOccupancyKey (mui_occupancy (night_unit i plan (buildOccupancyKey oc) d)) = buildOccupancyKey oc"
  by (simp_all add: night_unit_def item_unit_def key_reads_back)

lemma materialized_stay:
  assumes "range_schema i" "mri_from i = Some lo" "mri_to i = Some hi" "cat_product cat (mri_variantId i) = Some p"
    and "(mri_variantId i, plan, d, key) \<in> range_indices (sev_text env) cat i"
  shows "view_stay (snd (materializeSearchUnitRange env cat cfg sched i s)) (mri_variantId i) plan key d =
     Some (stay_row_of (candidate_row env p (night_unit i plan key d) s))"
proof -
  let ?ix = "(mri_variantId i, plan, d, key)"
  have "sdb_view (snd (materializeSearchUnitRange env cat cfg sched i s)) ?ix = Some (merged (sdb_view s ?ix) (index_row env p i s ?ix))"
    using assms by (simp add: range_runs [OF assms(1-3)] covered_by_def view_cover_def)
  moreover have "stay_row_of (merged (sdb_view s ?ix) (index_row env p i s ?ix)) = stay_row_of (index_row env p i s ?ix)"
    by (rule stay_row_drift) simp
  ultimately show ?thesis by (simp add: view_stay_def index_row_def night_unit_def)
qed

lemma open_night:
  assumes "0 < rooms" "key = buildOccupancyKey oc" "mri_variantId i = v" "cat_product cat v = Some p"
    and restriction: "restriction_of v plan d s = Some ((projection cat rowId now db v plan d)\<lparr>err_id := x\<rparr>)"
      "restriction_check (projection cat rowId now db v plan d)"
  shows "day_sellable rooms (stay_row_of (candidate_row env p (night_unit i plan key d) s)) \<longleftrightarrow> night_open env cat p db s v plan key rooms d"
proof -
  let ?u = "night_unit i plan key d"
  have stop: "rss_stopSell (resolveSearchSellability (restriction_of v plan d s)) \<longleftrightarrow>
      (\<exists>r \<in> set (night_rules cat v plan d db). rtr_type r = ''stop_sell'')"
    by (simp add: restriction(1) projected_sellability [OF restriction(2)])
  have units: "rooms \<le> has_units a \<longleftrightarrow> (\<exists>r. a = Some r \<and> rooms \<le> ea_available r)" for a
    using assms(1) by (auto simp: has_units_def le_max_iff_disj split: option.split)
  have policies: "\<not> policy_blocked env p ?u s \<longleftrightarrow> policies_complete env p v plan d" if "night_sellable ?u s"
    using that assms(2,3) by (auto simp: policy_blocked_def policies_complete_def Let_def split: option.split)
  have "night_sellable ?u s \<longleftrightarrow> 0 < has_units (find_avail v d (sdb_inventory s)) \<and> pricing_row v plan d key s \<noteq> None \<and>
      (\<forall>r \<in> set (night_rules cat v plan d db). rtr_type r \<noteq> ''stop_sell'')"
    using assms(2,3) stop by (auto simp: night_sellable_def has_units_def Let_def split: option.splits)
  then show ?thesis
    using policies units [of "find_avail v d (sdb_inventory s)"] assms(1,3)
    unfolding night_offered [OF assms(1)] night_open_def by (auto; linarith)
qed

text \<open>The rules of a stay, read off the rows of its first and its last night.\<close>

lemma night_restriction_projected:
  assumes "mri_variantId i = v"
    and "restriction_of v plan d s = Some ((projection cat rowId now db v plan d)\<lparr>err_id := x\<rparr>)"
      "restriction_check (projection cat rowId now db v plan d)"
  shows "rss_minStay (night_restriction (night_unit i plan key d) s) = greatest (rule_values ''min_los'' (night_rules cat v plan d db))"
    "rss_maxStay (night_restriction (night_unit i plan key d) s) = least (rule_values ''max_los'' (night_rules cat v plan d db))"
    "rss_minLeadTime (night_restriction (night_unit i plan key d) s) = greatest (rule_values ''min_lead_time'' (night_rules cat v plan d db))"
    "rss_maxLeadTime (night_restriction (night_unit i plan key d) s) = least (rule_values ''max_lead_time'' (night_rules cat v plan d db))"
    "rss_cta (night_restriction (night_unit i plan key d) s) \<longleftrightarrow> (\<exists>r \<in> set (night_rules cat v plan d db). rtr_type r = ''cta'')"
    "rss_ctd (night_restriction (night_unit i plan key d) s) \<longleftrightarrow> (\<exists>r \<in> set (night_rules cat v plan d db). rtr_type r = ''ctd'')"
  by (simp_all add: night_restriction_def assms(1,2) projected_sellability [OF assms(3)])

lemma max_one_bound: "1 \<le> n \<Longrightarrow> (case greatest xs of None \<Rightarrow> 1 | Some m \<Rightarrow> max 1 m) \<le> n \<longleftrightarrow>
    (case greatest xs of None \<Rightarrow> True | Some m \<Rightarrow> m \<le> n)"
  by (auto split: option.split)

lemma stay_rules:
  assumes v: "mri_variantId i = v" and stay: "first < stop"
    and a: "restriction_of v plan first s = Some ((projection cat rowId now db v plan first)\<lparr>err_id := x\<rparr>)"
      "restriction_check (projection cat rowId now db v plan first)"
    and b: "restriction_of v plan (stop - 1) s = Some ((projection cat rowId now db v plan (stop - 1))\<lparr>err_id := y\<rparr>)"
      "restriction_check (projection cat rowId now db v plan (stop - 1))"
  shows "stay_restriction (nat (stop - first)) (first - today) (stay_row_of (candidate_row env p (night_unit i plan key first) s))
      (stay_row_of (candidate_row env p (night_unit i plan key (stop - 1)) s)) = None \<longleftrightarrow>
    rules_allow (night_rules cat v plan first db) (night_rules cat v plan (stop - 1) db) (stop - first) (first - today)"
proof -
  have n: "(of_nat (nat (stop - first)) :: rat) = of_int (stop - first)" "1 \<le> (of_int (stop - first) :: rat)"
    using stay by simp_all
  let ?rules = "night_rules cat v plan first db"
  have upper: "(case least (rule_values type rules) of None \<Rightarrow> True | Some m \<Rightarrow> x \<le> max 1 m) \<longleftrightarrow> upper_bounds type rules x"
    "(case least (rule_values type rules) of None \<Rightarrow> True | Some m \<Rightarrow> x \<le> max 0 m) \<longleftrightarrow> upper_bounds type rules x" for type rules x
    using least_one [of type rules] by (auto simp: least_rules [symmetric] max_def split: option.split)
  have lower: "(case greatest (rule_values type rules) of None \<Rightarrow> True | Some m \<Rightarrow> max 0 m \<le> x) \<longleftrightarrow> lower_bounds type rules x" for type rules x
    using greatest_one [of type rules] by (auto simp: greatest_rules [symmetric] max_def split: option.split)
  show ?thesis
    unfolding restriction_allows stay_row_fields candidate_restrictions night_restriction_projected [OF v a]
      night_restriction_projected [OF v b] n(1) max_one_bound [OF n(2)] greatest_rules upper lower rules_allow_def
    by blast
qed


end
