(* ===== verification/Search_Offers_Correctness.thy ===== *)
theory Search_Offers_Correctness
  imports Search_Correctness
begin

text \<open>
  What the offers of a product promise: a rate plan is offered only for a stay the search sells, at the sum
  of the effective prices of its nights.
\<close>

section \<open>The evaluation does not look at the prices\<close>

lemma day_sellable_price [simp]: "day_sellable rooms (day\<lparr>syr_pricePerNight := x\<rparr>) = day_sellable rooms day"
  by (simp add: day_sellable_def stay_units_def)

lemma stay_restriction_price [simp]:
  "stay_restriction n lead (a\<lparr>syr_pricePerNight := x\<rparr>) (b\<lparr>syr_pricePerNight := y\<rparr>) = stay_restriction n lead a b"
  by (simp add: stay_restriction_def)

lemma evaluate_effective:
  "ssl_isSellable (evaluateStaySellabilityFromView dates checkIn rooms (effective_rows v plan ps bucket) currency today) \<longleftrightarrow>
   ssl_isSellable (evaluateStaySellabilityFromView dates checkIn rooms (rows_by_date bucket) currency today)"
  unfolding evaluate_sellable effective_rows_def by (auto simp: map_option_case split: option.splits)

section \<open>A bucket of rows\<close>

lemma bucket_offered:
  assumes "snd (snd (bucket_offer p today dates ps unit bucket)) = Some offer"
  shows "bucket \<noteq> [] \<and> pof_ratePlanId offer = uvr_ratePlanId (hd bucket) \<and> pof_ratePlanId offer \<noteq> [] \<and>
    (\<exists>days. stay_days (effective_rows unit (pof_ratePlanId offer) ps bucket) dates = Some days \<and>
       (\<forall>day \<in> set days. syr_pricePerNight day \<noteq> None) \<and> pof_totalPrice offer = stay_total days) \<and>
    ssl_isSellable (evaluateStaySellabilityFromView dates (ofi_checkIn p) (max 1 (case ofi_rooms p of None \<Rightarrow> 1 | Some n \<Rightarrow> n))
      (rows_by_date bucket) (ofi_currency p) today)"
  using assms
  by (auto simp: bucket_offer_def evaluate_effective list_ex_iff Let_def split: if_splits option.splits list.splits)

lemma stay_total_sum: "stay_total days = sum_list (map (\<lambda>day. case syr_pricePerNight day of None \<Rightarrow> 0 | Some p \<Rightarrow> p) days)"
proof -
  have "foldl (\<lambda>sum day. sum + f day) a days = a + sum_list (map f days)" for a :: rat and f :: "stay_row \<Rightarrow> rat"
    by (induction days arbitrary: a) simp_all
  then show ?thesis by (simp add: stay_total_def)
qed

section \<open>Keys of buckets\<close>

definition plain_id :: "string \<Rightarrow> bool" where
  "plain_id s \<longleftrightarrow> CHR '':'' \<notin> set s"

lemma colon_split: "plain_id a \<Longrightarrow> plain_id b \<Longrightarrow> a @ CHR '':'' # x = b @ CHR '':'' # y \<longleftrightarrow> a = b \<and> x = y"
  by (induction a arbitrary: b; case_tac b) (auto simp: plain_id_def)

lemma starts_with_append: "starts_with xs ys \<longleftrightarrow> (\<exists>zs. xs = ys @ zs)"
  by (metis append_eq_conv_conj append_take_drop_id starts_with_def)

lemma bucket_of_unit:
  assumes "(k, bucket) \<in> set (view_buckets rows)" "starts_with k (unit @ '':'')" "plain_id unit"
    and "\<forall>r \<in> set rows. plain_id (uvr_variantId r)"
  shows "\<exists>plan. bucket = filter (\<lambda>r. uvr_variantId r = unit \<and> uvr_ratePlanId r = plan) rows"
proof -
  from assms(1) obtain r where r: "r \<in> set rows" "k = bucket_key r" "bucket = filter (\<lambda>x. bucket_key x = k) rows"
    by (auto simp: view_buckets_def)
  obtain zs where "k = unit @ '':'' @ zs" using assms(2) by (auto simp: starts_with_append)
  then have k: "k = unit @ CHR '':'' # zs" by simp
  have "bucket_key x = k \<longleftrightarrow> uvr_variantId x = unit \<and> uvr_ratePlanId x = zs" if "x \<in> set rows" for x
    using colon_split [of "uvr_variantId x" unit] that assms(3,4) by (simp add: bucket_key_def k)
  then have "filter (\<lambda>x. bucket_key x = k) rows = filter (\<lambda>x. uvr_variantId x = unit \<and> uvr_ratePlanId x = zs) rows"
    by (intro filter_cong) auto
  then show ?thesis using r(3) by auto
qed

section \<open>The repository over the tables\<close>

lemma in_concat_map: "x \<in> set (concat (map f xs)) \<longleftrightarrow> (\<exists>y \<in> set xs. x \<in> set (f y))"
  by auto

lemma in_view_rows:
  "r \<in> set (listSearchUnitViewRows cat s ids lo hi key) \<longleftrightarrow>
     uvr_variantId r \<in> set ids \<and> (uvr_ratePlanId r, uvr_ratePlanName r) \<in> set (cat_planNames cat) \<and> lo \<le> uvr_date r \<and> uvr_date r < hi \<and>
     (\<exists>w. sdb_view s (uvr_variantId r, uvr_ratePlanId r, uvr_date r, key) = Some w \<and>
        uvr_currency r = js_upper (suv_currency w) \<and> uvr_stay r = stay_row_of w)"
proof -
  have d: "d \<in> set [lo..hi - 1] \<longleftrightarrow> lo \<le> d \<and> d < hi" for d :: int by auto
  have "r \<in> set (listSearchUnitViewRows cat s ids lo hi key) \<longleftrightarrow>
      (\<exists>v \<in> set ids. \<exists>x \<in> set (cat_planNames cat). \<exists>d \<in> set [lo..hi - 1]. \<exists>w. sdb_view s (v, fst x, d, key) = Some w \<and>
        \<lparr>uvr_variantId = v, uvr_ratePlanId = fst x, uvr_ratePlanName = snd x, uvr_currency = js_upper (suv_currency w), uvr_date = d,
          uvr_stay = stay_row_of w\<rparr> = r)"
    unfolding listSearchUnitViewRows_def in_concat_map set_js_dedup case_prod_beta in_map_filter map_option_eq_Some by (rule refl)
  also have "\<dots> \<longleftrightarrow> uvr_variantId r \<in> set ids \<and> (\<exists>x \<in> set (cat_planNames cat). uvr_ratePlanId r = fst x \<and> uvr_ratePlanName r = snd x) \<and>
      uvr_date r \<in> set [lo..hi - 1] \<and> (\<exists>w. sdb_view s (uvr_variantId r, uvr_ratePlanId r, uvr_date r, key) = Some w \<and>
        uvr_currency r = js_upper (suv_currency w) \<and> uvr_stay r = stay_row_of w)"
    (is "?l \<longleftrightarrow> ?r")
  proof
    assume ?l
    then obtain v x d w where h: "v \<in> set ids" "x \<in> set (cat_planNames cat)" "d \<in> set [lo..hi - 1]" "sdb_view s (v, fst x, d, key) = Some w"
      and r: "r = \<lparr>uvr_variantId = v, uvr_ratePlanId = fst x, uvr_ratePlanName = snd x, uvr_currency = js_upper (suv_currency w), uvr_date = d,
        uvr_stay = stay_row_of w\<rparr>" by blast
    show ?r unfolding r unit_view_row.simps using h by blast
  next
    assume ?r
    then obtain x w where h: "uvr_variantId r \<in> set ids" "x \<in> set (cat_planNames cat)" "uvr_date r \<in> set [lo..hi - 1]"
      "sdb_view s (uvr_variantId r, fst x, uvr_date r, key) = Some w" and "uvr_ratePlanId r = fst x" "uvr_ratePlanName r = snd x"
      "uvr_currency r = js_upper (suv_currency w)" "uvr_stay r = stay_row_of w" by metis
    then have "\<lparr>uvr_variantId = uvr_variantId r, uvr_ratePlanId = fst x, uvr_ratePlanName = snd x, uvr_currency = js_upper (suv_currency w),
      uvr_date = uvr_date r, uvr_stay = stay_row_of w\<rparr> = r" by (cases r) simp
    then show ?l using h by blast
  qed
  also have "(\<exists>x \<in> set (cat_planNames cat). uvr_ratePlanId r = fst x \<and> uvr_ratePlanName r = snd x) \<longleftrightarrow>
      (uvr_ratePlanId r, uvr_ratePlanName r) \<in> set (cat_planNames cat)" by force
  finally show ?thesis unfolding d by (simp only: conj_assoc)
qed

lemma find_constant:
  assumes "\<And>x. x \<in> set xs \<Longrightarrow> P x \<Longrightarrow> f x = c" "x \<in> set xs" "P x"
  shows "map_option f (find P xs) = Some c"
  using assms by (induction xs) (auto split: if_splits)

lemma effective_price_row:
  assumes "distinct (map efp_variantId (pdb_effective (sdb_pricing s) (plan, d, key)))"
    and "v \<in> set ids" "plan \<in> set plans" "lo \<le> d" "d < hi"
  shows "price_key v plan d (listEffectivePricingRows s ids plans lo hi key) = map_option efp_finalBasePrice (pricing_row v plan d key s)"
proof -
  let ?rows = "listEffectivePricingRows s ids plans lo hi key"
  have mem: "x \<in> set ?rows \<longleftrightarrow> pvw_variantId x \<in> set ids \<and> pvw_ratePlanId x \<in> set plans \<and> lo \<le> pvw_date x \<and> pvw_date x < hi \<and>
      (\<exists>r \<in> set (pdb_effective (sdb_pricing s) (pvw_ratePlanId x, pvw_date x, key)). efp_variantId r = pvw_variantId x \<and>
         efp_finalBasePrice r = pvw_finalBasePrice x)" for x
  proof -
    have "ids \<noteq> []" "plans \<noteq> []" using assms(2,3) by auto
    then have "x \<in> set ?rows \<longleftrightarrow> (\<exists>p \<in> set plans. \<exists>e \<in> set [lo..hi - 1]. \<exists>r \<in> {r \<in> set (pdb_effective (sdb_pricing s) (p, e, key)).
        efp_variantId r \<in> set ids}. x = \<lparr>pvw_variantId = efp_variantId r, pvw_ratePlanId = p, pvw_date = e, pvw_finalBasePrice = efp_finalBasePrice r\<rparr>)"
      unfolding listEffectivePricingRows_def by (simp only: in_concat_map set_map set_filter image_iff if_False simp_thms)
    then show ?thesis by (cases x) auto
  qed
  have only: "efp_finalBasePrice r = c" if "r \<in> set (pdb_effective (sdb_pricing s) (plan, d, key))" "efp_variantId r = v"
    "pricing_row v plan d key s = Some r'" "efp_finalBasePrice r' = c" for r r' c
    using that assms(1) find_Some_mem [of _ _ r'] by (metis (mono_tags, lifting) distinct_map inj_onD pricing_row_def)
  show ?thesis
  proof (cases "pricing_row v plan d key s")
    case None
    then have "\<not> (\<exists>x \<in> set ?rows. pvw_variantId x = v \<and> pvw_ratePlanId x = plan \<and> pvw_date x = d)"
      using mem by (force simp: pricing_row_def find_None_all)
    then show ?thesis using None by (auto simp: price_key_def find_None_all)
  next
    case (Some r)
    then have r: "r \<in> set (pdb_effective (sdb_pricing s) (plan, d, key))" "efp_variantId r = v"
      using find_Some_mem by (fastforce simp: pricing_row_def)+
    let ?x = "\<lparr>pvw_variantId = v, pvw_ratePlanId = plan, pvw_date = d, pvw_finalBasePrice = efp_finalBasePrice r\<rparr>"
    have "?x \<in> set (rev ?rows)" using mem [THEN iffD2, of ?x] r assms(2-5) by auto
    moreover have "pvw_finalBasePrice x = efp_finalBasePrice r"
      if "x \<in> set (rev ?rows)" "pvw_variantId x = v \<and> pvw_ratePlanId x = plan \<and> pvw_date x = d" for x
    proof -
      from that(1) have "x \<in> set ?rows" by simp
      from mem [THEN iffD1, OF this] that(2) obtain r' where r': "r' \<in> set (pdb_effective (sdb_pricing s) (plan, d, key))"
        "efp_variantId r' = v" "efp_finalBasePrice r' = pvw_finalBasePrice x" by fastforce
      show ?thesis using only [OF r'(1,2) Some refl] r'(3) by simp
    qed
    ultimately have "map_option pvw_finalBasePrice (find (\<lambda>x. pvw_variantId x = v \<and> pvw_ratePlanId x = plan \<and> pvw_date x = d) (rev ?rows)) =
        Some (efp_finalBasePrice r)" by (intro find_constant [of _ _ _ _ ?x]) simp_all
    then show ?thesis by (simp only: price_key_def Some option.map)
  qed
qed

section \<open>Where an offer comes from\<close>

definition offers_key :: "offers_input \<Rightarrow> string" where
  "offers_key p = buildOccupancyKey (normalizeOccupancy (ofi_adults p) (ofi_children p) (ofi_infants p))"

definition offers_rows :: "offers_input \<Rightarrow> offers_repository \<Rightarrow> unit_view_row list" where
  "offers_rows p repo = ofr_viewRows repo (filter (\<lambda>u. u \<noteq> []) (ofr_units repo (ofi_productId p))) (ofi_checkIn p) (ofi_checkOut p) (offers_key p)"

definition offers_prices :: "offers_input \<Rightarrow> offers_repository \<Rightarrow> price_view_row list" where
  "offers_prices p repo = ofr_priceRows repo (filter (\<lambda>u. u \<noteq> []) (ofr_units repo (ofi_productId p)))
     (filter (\<lambda>i. i \<noteq> []) (js_dedup (map uvr_ratePlanId (offers_rows p repo)))) (ofi_checkIn p) (ofi_checkOut p) (offers_key p)"

lemma offer_source:
  assumes "u \<in> set (ofs_offers (resolveSearchOffers today p repo))" "offer \<in> set (uof_ratePlans u)"
  shows "uof_variantId u \<in> set (ofr_units repo (ofi_productId p)) \<and> (\<exists>k bucket.
     (k, bucket) \<in> set (view_buckets (offers_rows p repo)) \<and> starts_with k (uof_variantId u @ '':'') \<and>
     snd (snd (bucket_offer p today (enumerateStayDates (ofi_checkIn p) (ofi_checkOut p)) (offers_prices p repo) (uof_variantId u) bucket)) =
       Some offer)"
  using assms
  by (auto simp: resolveSearchOffers_def offers_rows_def offers_prices_def offers_key_def in_map_filter Let_def split: if_splits)

lemma evaluate_cong:
  assumes "\<And>d. d \<in> insert checkIn (set dates) \<Longrightarrow> rows d = rows' d"
  shows "ssl_isSellable (evaluateStaySellabilityFromView dates checkIn rooms rows currency today) =
    ssl_isSellable (evaluateStaySellabilityFromView dates checkIn rooms rows' currency today)"
  using assms unfolding evaluate_sellable by (metis insertI1 insertI2 last_in_set)

lemma bucket_by_date:
  assumes "bucket = filter (\<lambda>r. uvr_variantId r = v \<and> uvr_ratePlanId r = plan) (listSearchUnitViewRows cat s ids lo hi key)"
    and "bucket \<noteq> []" "lo \<le> d" "d < hi"
  shows "rows_by_date bucket d = view_stay s v plan key d"
proof -
  let ?P = "\<lambda>r. uvr_date r = d"
  have mem: "r \<in> set bucket \<longleftrightarrow> r \<in> set (listSearchUnitViewRows cat s ids lo hi key) \<and> uvr_variantId r = v \<and> uvr_ratePlanId r = plan" for r
    by (auto simp: assms(1))
  obtain r0 where r0: "r0 \<in> set bucket" using assms(2) by (cases bucket) auto
  then have named: "v \<in> set ids" "(plan, uvr_ratePlanName r0) \<in> set (cat_planNames cat)"
    using mem [THEN iffD1, OF r0] in_view_rows [THEN iffD1] by fastforce+
  have stay: "Some (uvr_stay r) = view_stay s v plan key d" if "r \<in> set bucket" "?P r" for r
    using that by (auto simp: mem in_view_rows view_stay_def)
  show ?thesis
  proof (cases "sdb_view s (v, plan, d, key)")
    case None
    then have "\<not> (\<exists>r \<in> set bucket. ?P r)" by (auto simp: mem in_view_rows)
    then show ?thesis using None by (auto simp: rows_by_date_def view_stay_def find_None_all)
  next
    case (Some w)
    let ?r = "\<lparr>uvr_variantId = v, uvr_ratePlanId = plan, uvr_ratePlanName = uvr_ratePlanName r0, uvr_currency = js_upper (suv_currency w),
      uvr_date = d, uvr_stay = stay_row_of w\<rparr>"
    have "?r \<in> set bucket" unfolding mem in_view_rows using named assms(3,4) Some by simp
    moreover have "uvr_stay r = stay_row_of w" if "r \<in> set bucket" "?P r" for r
      using stay [OF that] Some by (simp add: view_stay_def)
    ultimately have "map_option uvr_stay (find ?P (rev bucket)) = Some (stay_row_of w)"
      by (intro find_constant [of _ _ _ _ ?r]) (simp_all only: set_rev, simp)
    then show ?thesis by (simp add: rows_by_date_def view_stay_def Some)
  qed
qed

lemma effective_days:
  assumes "stay_days (effective_rows v plan ps bucket) dates = Some days" "\<forall>day \<in> set days. syr_pricePerNight day \<noteq> None"
  shows "\<forall>d \<in> set dates. price_key v plan d ps \<noteq> None" "stay_total days = (\<Sum>d\<leftarrow>dates. the (price_key v plan d ps))"
proof -
  have days: "days = map (\<lambda>d. the (effective_rows v plan ps bucket d)) dates"
    and rows: "\<And>d. d \<in> set dates \<Longrightarrow> effective_rows v plan ps bucket d \<noteq> None"
    using assms(1) by (auto simp: stay_days_def list_all_iff split: if_splits)
  have price: "syr_pricePerNight (the (effective_rows v plan ps bucket d)) = price_key v plan d ps" if "d \<in> set dates" for d
    using rows [OF that] by (auto simp: effective_rows_def)
  then show prices: "\<forall>d \<in> set dates. price_key v plan d ps \<noteq> None" using assms(2) by (simp add: days)
  have "(case syr_pricePerNight (the (effective_rows v plan ps bucket d)) of None \<Rightarrow> 0 | Some x \<Rightarrow> x) = the (price_key v plan d ps)"
    if "d \<in> set dates" for d using prices price that by (auto split: option.split)
  then show "stay_total days = (\<Sum>d\<leftarrow>dates. the (price_key v plan d ps))"
    by (simp add: stay_total_sum days comp_def cong: map_cong)
qed

lemma offer_bucket:
  assumes ids: "\<forall>v \<in> set (activeUnits (ofi_productId p)). plain_id v"
    and offer: "u \<in> set (ofs_offers (resolveSearchOffers today p (search_repository activeUnits cat s)))" "offer \<in> set (uof_ratePlans u)"
  obtains bucket where "bucket \<noteq> []"
    "bucket = filter (\<lambda>r. uvr_variantId r = uof_variantId u \<and> uvr_ratePlanId r = pof_ratePlanId offer)
       (offers_rows p (search_repository activeUnits cat s))"
    "snd (snd (bucket_offer p today (enumerateStayDates (ofi_checkIn p) (ofi_checkOut p))
       (offers_prices p (search_repository activeUnits cat s)) (uof_variantId u) bucket)) = Some offer"
proof -
  let ?repo = "search_repository activeUnits cat s" and ?v = "uof_variantId u"
  from offer_source [OF offer] obtain k bucket where v: "?v \<in> set (activeUnits (ofi_productId p))"
    and k: "(k, bucket) \<in> set (view_buckets (offers_rows p ?repo))" "starts_with k (?v @ '':'')"
    and made: "snd (snd (bucket_offer p today (enumerateStayDates (ofi_checkIn p) (ofi_checkOut p)) (offers_prices p ?repo) ?v bucket)) = Some offer"
    by (auto simp: search_repository_def)
  have "\<forall>r \<in> set (offers_rows p ?repo). plain_id (uvr_variantId r)"
    using ids by (auto simp: offers_rows_def search_repository_def in_view_rows)
  from bucket_of_unit [OF k _ this] v ids
  obtain pl where b: "bucket = filter (\<lambda>r. uvr_variantId r = ?v \<and> uvr_ratePlanId r = pl) (offers_rows p ?repo)" by blast
  have ne: "bucket \<noteq> []" "uvr_ratePlanId (hd bucket) = pof_ratePlanId offer" using bucket_offered [OF made] by simp_all
  then have "pl = pof_ratePlanId offer" using hd_in_set [of bucket] by (auto simp: b)
  then show ?thesis using that ne(1) b made by blast
qed

lemma offered_stay:
  assumes ids: "\<forall>v \<in> set (activeUnits (ofi_productId p)). plain_id v"
    and unique: "\<And>plan d. distinct (map efp_variantId (pdb_effective (sdb_pricing s) (plan, d, offers_key p)))"
    and offer: "u \<in> set (ofs_offers (resolveSearchOffers today p (search_repository activeUnits cat s)))" "offer \<in> set (uof_ratePlans u)"
  shows "uof_variantId u \<in> set (activeUnits (ofi_productId p)) \<and>
    ssl_isSellable (evaluateStaySellabilityFromView (enumerateStayDates (ofi_checkIn p) (ofi_checkOut p)) (ofi_checkIn p)
      (max 1 (case ofi_rooms p of None \<Rightarrow> 1 | Some n \<Rightarrow> n)) (view_stay s (uof_variantId u) (pof_ratePlanId offer) (offers_key p))
      (ofi_currency p) today) \<and>
    (\<forall>d \<in> {ofi_checkIn p..<ofi_checkOut p}. pricing_row (uof_variantId u) (pof_ratePlanId offer) d (offers_key p) s \<noteq> None) \<and>
    pof_totalPrice offer = (\<Sum>d\<leftarrow>[ofi_checkIn p..ofi_checkOut p - 1].
      efp_finalBasePrice (the (pricing_row (uof_variantId u) (pof_ratePlanId offer) d (offers_key p) s)))"
proof -
  let ?repo = "search_repository activeUnits cat s" and ?v = "uof_variantId u" and ?plan = "pof_ratePlanId offer" and ?key = "offers_key p"
  let ?lo = "ofi_checkIn p" and ?hi = "ofi_checkOut p"
  let ?ids = "filter (\<lambda>u. u \<noteq> []) (activeUnits (ofi_productId p))"
  have rows: "offers_rows p ?repo = listSearchUnitViewRows cat s ?ids ?lo ?hi ?key"
    by (simp add: offers_rows_def search_repository_def)
  have dates: "enumerateStayDates ?lo ?hi = [?lo..?hi - 1]" by (simp add: enumerateStayDates_def enumerateDates_days)
  obtain bucket where bucket: "bucket \<noteq> []" "bucket = filter (\<lambda>r. uvr_variantId r = ?v \<and> uvr_ratePlanId r = ?plan) (offers_rows p ?repo)"
    and made: "snd (snd (bucket_offer p today (enumerateStayDates ?lo ?hi) (offers_prices p ?repo) ?v bucket)) = Some offer"
    using offer_bucket [OF ids offer] by blast
  note offered = bucket_offered [OF made]
  obtain days where days: "stay_days (effective_rows ?v ?plan (offers_prices p ?repo) bucket) (enumerateStayDates ?lo ?hi) = Some days"
    "\<forall>day \<in> set days. syr_pricePerNight day \<noteq> None" "pof_totalPrice offer = stay_total days" using offered by blast
  have "hd bucket \<in> set bucket" using bucket(1) by simp
  then have hd: "hd bucket \<in> set (offers_rows p ?repo)" "uvr_variantId (hd bucket) = ?v" "uvr_ratePlanId (hd bucket) = ?plan"
    unfolding bucket(2) by simp_all
  have listed: "?v \<in> set ?ids" using hd(1) unfolding rows in_view_rows hd(2) by blast
  have "?plan \<in> uvr_ratePlanId ` set (offers_rows p ?repo)" using hd(1,3) by (metis imageI)
  then have planned: "?plan \<in> set (filter (\<lambda>i. i \<noteq> []) (js_dedup (map uvr_ratePlanId (offers_rows p ?repo))))"
  proof -
    have "?plan \<noteq> []" using offered by blast
    then show ?thesis using \<open>?plan \<in> uvr_ratePlanId ` set (offers_rows p ?repo)\<close> by simp
  qed
  have price: "price_key ?v ?plan d (offers_prices p ?repo) = map_option efp_finalBasePrice (pricing_row ?v ?plan d ?key s)"
    if "d \<in> set [?lo..?hi - 1]" for d
    using effective_price_row [OF unique listed planned, of ?lo d ?hi] that by (simp add: offers_prices_def search_repository_def)
  have by_date: "rows_by_date bucket d = view_stay s ?v ?plan ?key d" if "d \<in> insert ?lo (set [?lo..?hi - 1])" "?lo < ?hi" for d
    using bucket_by_date [OF bucket(2) [unfolded rows] bucket(1)] that by auto
  have sold: "ssl_isSellable (evaluateStaySellabilityFromView [?lo..?hi - 1] ?lo (max 1 (case ofi_rooms p of None \<Rightarrow> 1 | Some n \<Rightarrow> n))
      (rows_by_date bucket) (ofi_currency p) today)"
    using offered dates by simp
  then have "?lo < ?hi" by (auto simp: evaluate_sellable)
  note prices = effective_days [OF days(1,2), unfolded dates]
  have priced: "\<forall>d \<in> set [?lo..?hi - 1]. pricing_row ?v ?plan d ?key s \<noteq> None"
  proof
    fix d assume d: "d \<in> set [?lo..?hi - 1]"
    then have "price_key ?v ?plan d (offers_prices p ?repo) \<noteq> None" using prices(1) by blast
    then show "pricing_row ?v ?plan d ?key s \<noteq> None" unfolding price [OF d] by simp
  qed
  then have total: "(\<Sum>d\<leftarrow>[?lo..?hi - 1]. the (price_key ?v ?plan d (offers_prices p ?repo))) =
      (\<Sum>d\<leftarrow>[?lo..?hi - 1]. efp_finalBasePrice (the (pricing_row ?v ?plan d ?key s)))"
  proof (intro arg_cong [of _ _ sum_list] map_cong refl)
    fix d assume d: "d \<in> set [?lo..?hi - 1]"
    then have "pricing_row ?v ?plan d ?key s \<noteq> None" using priced by blast
    then show "the (price_key ?v ?plan d (offers_prices p ?repo)) = efp_finalBasePrice (the (pricing_row ?v ?plan d ?key s))"
      unfolding price [OF d] by (rule option.map_sel)
  qed
  show ?thesis
  proof (intro conjI ballI)
    show "?v \<in> set (activeUnits (ofi_productId p))" using listed by simp
    show "ssl_isSellable (evaluateStaySellabilityFromView (enumerateStayDates ?lo ?hi) ?lo
        (max 1 (case ofi_rooms p of None \<Rightarrow> 1 | Some n \<Rightarrow> n)) (view_stay s ?v ?plan ?key) (ofi_currency p) today)"
    proof -
      have "ssl_isSellable (evaluateStaySellabilityFromView [?lo..?hi - 1] ?lo r (rows_by_date bucket) c today) =
          ssl_isSellable (evaluateStaySellabilityFromView [?lo..?hi - 1] ?lo r (view_stay s ?v ?plan ?key) c today)" for r c
        by (rule evaluate_cong) (rule by_date [OF _ \<open>?lo < ?hi\<close>])
      then show ?thesis using sold by (simp only: dates)
    qed
    show "pricing_row ?v ?plan d ?key s \<noteq> None" if "d \<in> {?lo..<?hi}" for d
      using priced that by simp
    show "pof_totalPrice offer = (\<Sum>d\<leftarrow>[?lo..?hi - 1]. efp_finalBasePrice (the (pricing_row ?v ?plan d ?key s)))"
      using days(3) prices(2) total by simp
  qed
qed

text \<open>
  C5. Every rate plan the search offers for a unit of the product is for a stay the view sells, each of its
  nights has an effective price of that unit, plan and occupancy, and its total is the sum of those prices.
\<close>

theorem offers_are_sold_stays:
  assumes ids: "\<forall>v \<in> set (activeUnits (ofi_productId p)). plain_id v"
    and unique: "\<And>plan d. distinct (map efp_variantId (pdb_effective (sdb_pricing s) (plan, d, offers_key p)))"
    and offer: "u \<in> set (ofs_offers (resolveSearchOffers today p (search_repository activeUnits cat s)))" "offer \<in> set (uof_ratePlans u)"
  shows "uof_variantId u \<in> set (activeUnits (ofi_productId p)) \<and>
    ssl_isSellable (evaluateStaySellabilityFromView (enumerateStayDates (ofi_checkIn p) (ofi_checkOut p)) (ofi_checkIn p)
      (max 1 (case ofi_rooms p of None \<Rightarrow> 1 | Some n \<Rightarrow> n)) (view_stay s (uof_variantId u) (pof_ratePlanId offer) (offers_key p))
      (ofi_currency p) today) \<and>
    (\<forall>d \<in> {ofi_checkIn p..<ofi_checkOut p}. pricing_row (uof_variantId u) (pof_ratePlanId offer) d (offers_key p) s \<noteq> None) \<and>
    pof_totalPrice offer = (\<Sum>d\<leftarrow>[ofi_checkIn p..ofi_checkOut p - 1].
      efp_finalBasePrice (the (pricing_row (uof_variantId u) (pof_ratePlanId offer) d (offers_key p) s)))"
  by (rule offered_stay [OF assms])

section \<open>What the search says of what it does not sell\<close>

text \<open>The evaluation of a stay that no rule refuses.\<close>

lemma evaluate_unrestricted:
  assumes "dates \<noteq> []" "stay_days rows dates = Some days" "rows checkIn = Some first"
    and "stay_restriction (length dates) (checkIn - today) first (last days) = None"
  shows "\<exists>c. evaluateStaySellabilityFromView dates checkIn rooms rows currency today =
    (case find (\<lambda>day. \<not> day_sellable (max 1 rooms) day) days of
       Some day \<Rightarrow> (let reason = mapPrimaryBlockerToReasonCode (syr_primaryBlocker day)
         in withReason ((priced_view c (max 1 rooms) days)
           \<lparr>ssl_missingCoverage := (reason = MISSING_COVERAGE), ssl_staleView := (reason = STALE_VIEW)\<rparr>) reason)
     | None \<Rightarrow> priced_view c (max 1 rooms) days)"
  unfolding evaluateStaySellabilityFromView_def Let_def if_not_P [OF assms(1)] assms(2-4) option.case by (rule exI) (rule refl)

lemma no_blocker_reason: "mapPrimaryBlockerToReasonCode None = MISSING_COVERAGE"
  by code_simp

text \<open>
  A stay that fails only because its nights have fewer units than the rooms asked for, with no blocker
  and no rule in its way, is reported as missing coverage, not as missing inventory.
\<close>

theorem short_of_rooms_is_missing_coverage:
  assumes "dates \<noteq> []" "\<forall>d \<in> set dates. \<exists>r. rows d = Some r \<and> syr_primaryBlocker r = None"
    and "rows checkIn = Some first" "stay_restriction (length dates) (checkIn - today) first (the (rows (last dates))) = None"
    and "\<not> ssl_isSellable (evaluateStaySellabilityFromView dates checkIn rooms rows currency today)"
  shows "ssl_reasonCodes (evaluateStaySellabilityFromView dates checkIn rooms rows currency today) = [MISSING_COVERAGE]"
proof -
  let ?days = "map (\<lambda>d. the (rows d)) dates"
  have days: "stay_days rows dates = Some ?days" using assms(2) by (auto simp: stay_days_def list_all_iff)
  have lst: "last ?days = the (rows (last dates))" using assms(1) by (simp add: last_map)
  obtain c where e: "evaluateStaySellabilityFromView dates checkIn rooms rows currency today =
    (case find (\<lambda>day. \<not> day_sellable (max 1 rooms) day) ?days of
       Some day \<Rightarrow> (let reason = mapPrimaryBlockerToReasonCode (syr_primaryBlocker day)
         in withReason ((priced_view c (max 1 rooms) ?days)
           \<lparr>ssl_missingCoverage := (reason = MISSING_COVERAGE), ssl_staleView := (reason = STALE_VIEW)\<rparr>) reason)
     | None \<Rightarrow> priced_view c (max 1 rooms) ?days)"
    using evaluate_unrestricted [OF assms(1) days assms(3)] assms(4) unfolding lst by blast
  show ?thesis
  proof (cases "find (\<lambda>day. \<not> day_sellable (max 1 rooms) day) ?days")
    case None
    then show ?thesis using assms(5) unfolding e by simp
  next
    case (Some day)
    then have "day \<in> set ?days" using find_Some_mem [OF Some] by blast
    then have "syr_primaryBlocker day = None" using assms(2) by auto
    then show ?thesis unfolding e Some option.case Let_def by (simp add: no_blocker_reason withReason_def)
  qed
qed

text \<open>
  A rate plan whose view rows sell the stay but whose effective price of some night is missing is
  reported as sellable with no price, and not offered.
\<close>

theorem sellable_without_price:
  assumes "bucket \<noteq> []" "uvr_ratePlanId (hd bucket) \<noteq> []" "is_currency (bucket_currency (ofi_currency p) bucket)"
    and "ssl_isSellable (evaluateStaySellabilityFromView dates (ofi_checkIn p) (max 1 (case ofi_rooms p of None \<Rightarrow> 1 | Some n \<Rightarrow> n))
      (rows_by_date bucket) (ofi_currency p) today)"
    and "d \<in> set dates" "price_key unit (uvr_ratePlanId (hd bucket)) d ps = None"
  shows "\<exists>flags e. bucket_offer p today dates ps unit bucket = (flags, Some (unit @ '':'' @ uvr_ratePlanId (hd bucket), e), None) \<and>
    ssl_isSellable e \<and> ssl_base e = None \<and> ssl_reasonCodes e = []"
proof -
  let ?rows = "effective_rows unit (uvr_ratePlanId (hd bucket)) ps bucket"
  let ?rooms = "max 1 (case ofi_rooms p of None \<Rightarrow> 1 | Some n \<Rightarrow> n)"
  let ?e = "evaluateStaySellabilityFromView dates (ofi_checkIn p) ?rooms ?rows (ofi_currency p) today"
  have sold: "ssl_isSellable ?e" using assms(4) by (simp add: evaluate_effective)
  have "dates \<noteq> []" "\<forall>d \<in> set dates. \<exists>r. ?rows d = Some r" using sold unfolding evaluate_sellable by blast+
  then obtain days where ne: "dates \<noteq> []" and days: "stay_days ?rows dates = Some days" and list: "days = map (\<lambda>d. the (?rows d)) dates"
    by (auto simp: stay_days_def list_all_iff)
  obtain first final where ends: "?rows (ofi_checkIn p) = Some first" "?rows (last dates) = Some final"
    "stay_restriction (length dates) (ofi_checkIn p - today) first final = None" using sold unfolding evaluate_sellable by blast
  have "last days = final" using ends(2) ne by (simp add: list last_map)
  from evaluate_unrestricted [OF ne days ends(1) ends(3) [folded this], of ?rooms "ofi_currency p"]
  obtain c where e: "?e = priced_view c (max 1 ?rooms) days" using sold by (auto split: option.splits simp: Let_def)
  have none: "the (?rows d) \<in> set days" "syr_pricePerNight (the (?rows d)) = None"
  proof -
    show "the (?rows d) \<in> set days" using assms(5) by (simp add: list)
    obtain r where "?rows d = Some r" using assms(5) sold unfolding evaluate_sellable by blast
    then show "syr_pricePerNight (the (?rows d)) = None" using assms(6) by (auto simp: effective_rows_def)
  qed
  have "ssl_base ?e = None" "ssl_reasonCodes ?e = []"
    unfolding e using none by (auto simp: priced_view_def base_sellability_def list_all_iff Let_def)
  moreover have "list_ex (\<lambda>day. syr_pricePerNight day = None) days" using none by (auto simp: list_ex_iff)
  ultimately show ?thesis
    using assms(1-3) sold days by (cases bucket) (simp_all add: bucket_offer_def Let_def)
qed

end
