(* ===== verification/Hold_Offers.thy ===== *)
theory Hold_Offers
  imports Hold_Request_Correctness Search_Offers_Correctness
begin

text \<open>From the offer to the hold: the route prices a stay as the search offered it.\<close>

lemma find_dated:
  "List.find (\<lambda>(e, _). e = d) (rev (List.map_filter (\<lambda>d. map_option (Pair d) (f d)) ds)) =
     (if d \<in> set ds then map_option (Pair d) (f d) else None)"
proof (induction ds)
  case (Cons e ds)
  show ?case
  proof (cases "f e")
    case None
    then show ?thesis using Cons by (simp add: map_filter_simps)
  next
    case (Some x)
    then show ?thesis using Cons by (cases "f d") (auto simp: map_filter_simps find_append)
  qed
qed (simp add: map_filter_simps)

lemma find_rev_unique:
  assumes "distinct (map key xs)"
  shows "List.find (\<lambda>r. key r = k) (rev xs) = List.find (\<lambda>r. key r = k) xs"
proof (cases "List.find (\<lambda>r. key r = k) xs")
  case None
  then have "List.find (\<lambda>r. key r = k) (rev xs) = None" by (simp add: find_None_all)
  then show ?thesis by (simp only: None)
next
  case (Some r)
  then have r: "r \<in> set (rev xs)" "key r = k" using find_Some_mem [OF Some] by simp_all
  have "distinct (map key (rev xs))" using assms by (simp add: rev_map [symmetric])
  from find_unique [OF this r(1)] show ?thesis using Some r(2) by simp
qed

lemma map_filter_same: "(\<And>e. e \<in> set ds \<Longrightarrow> f e = g e) \<Longrightarrow> List.map_filter f ds = List.map_filter g ds"
  by (induction ds) (simp_all add: map_filter_simps split: option.split)

text \<open>The rows of the route, where every row of the stay and of the night after it is the product's.\<close>

lemma hold_rows_view:
  assumes "listed (hq_productId q)" "d \<in> {iso_day (hq_checkIn q)..iso_day (hq_checkOut q)}"
    and "\<forall>d \<in> {iso_day (hq_checkIn q)..iso_day (hq_checkOut q)}. \<forall>r. sdb_view s (hq_variantId q, hq_ratePlanId q, d, hold_key q) = Some r
      \<longrightarrow> suv_productId r = hq_productId q"
  shows "hold_rows_by_date (hold_view_rows listed q s) d = view_stay s (hq_variantId q) (hq_ratePlanId q) (hold_key q) d"
    and "(e, r) \<in> set (hold_view_rows listed q s) \<longleftrightarrow>
      e \<in> {iso_day (hq_checkIn q)..iso_day (hq_checkOut q)} \<and> sdb_view s (hq_variantId q, hq_ratePlanId q, e, hold_key q) = Some r"
proof -
  let ?f = "\<lambda>d. sdb_view s (hq_variantId q, hq_ratePlanId q, d, hold_key q)"
  let ?g = "\<lambda>d. case ?f d of None \<Rightarrow> None | Some r \<Rightarrow> if suv_productId r = hq_productId q then Some (d, r) else None"
  let ?ds = "[iso_day (hq_checkIn q)..iso_day (hq_checkOut q)]"
  have "?g e = map_option (Pair e) (?f e)" if "e \<in> set ?ds" for e
    using assms(3) that by (auto split: option.split)
  then have "List.map_filter ?g ?ds = List.map_filter (\<lambda>d. map_option (Pair d) (?f d)) ?ds"
    by (rule map_filter_same)
  then have rows: "hold_view_rows listed q s = List.map_filter (\<lambda>d. map_option (Pair d) (?f d)) ?ds"
    using assms(1) by (simp add: hold_view_rows_def)
  show "hold_rows_by_date (hold_view_rows listed q s) d = view_stay s (hq_variantId q) (hq_ratePlanId q) (hold_key q) d"
    using assms(2) unfolding hold_rows_by_date_def rows find_dated by (simp add: view_stay_def option.map_comp comp_def)
  show "(e, r) \<in> set (hold_view_rows listed q s) \<longleftrightarrow> e \<in> {iso_day (hq_checkIn q)..iso_day (hq_checkOut q)} \<and> ?f e = Some r"
    unfolding rows by (force simp: List.map_filter_def)
qed

lemma distinct_singleton: "distinct xs \<Longrightarrow> set xs = {c} \<Longrightarrow> xs = [c]"
proof (cases xs)
  case (Cons x ys)
  assume "distinct xs" "set xs = {c}"
  then have "x = c" "c \<notin> set ys" "set ys \<subseteq> {c}" using Cons by auto
  then show ?thesis using Cons by (cases ys) auto
qed simp

lemma one_currency:
  assumes "rows \<noteq> []" "\<forall>(d, r) \<in> set rows. js_upper (suv_currency r) = c"
  shows "hold_currency rows = c"
proof -
  have "set (map (\<lambda>(_, r). js_upper (suv_currency r)) rows) = {c}"
    using assms by (cases rows) auto
  then have "set (js_dedup (map (\<lambda>(_, r). js_upper (suv_currency r)) rows)) = {c}" by simp
  moreover have "distinct (js_dedup (map (\<lambda>(_, r). js_upper (suv_currency r)) rows))" by simp
  ultimately have "js_dedup (map (\<lambda>(_, r). js_upper (suv_currency r)) rows) = [c]"
    by (rule distinct_singleton [rotated])
  then show ?thesis by (simp add: hold_currency_def)
qed

definition offer_query :: "offers_input \<Rightarrow> unit_offers \<Rightarrow> plan_offer \<Rightarrow> int \<Rightarrow> int \<Rightarrow> int \<Rightarrow> int \<Rightarrow> hold_query" where
  "offer_query p u offer rooms adults children infants = \<lparr>hq_productId = ofi_productId p, hq_variantId = uof_variantId u,
     hq_ratePlanId = pof_ratePlanId offer, hq_checkIn = Iso (ofi_checkIn p), hq_checkOut = Iso (ofi_checkOut p), hq_rooms = rooms,
     hq_adults = adults, hq_children = children, hq_infants = infants\<rparr>"


end
