(* ===== verification/Public_Search_Correctness.thy ===== *)
theory Public_Search_Correctness
  imports Public_Search Hold_Offers
begin

text \<open>
  What the public search lists: every product with a rate plan on sale once, with the quote of its cheapest
  rate plan, in the order of the prices; and what becomes of that quote at the hold.
\<close>

section \<open>The rate plans on sale\<close>

definition scan_complete :: "surface_env \<Rightarrow> surface_params \<Rightarrow> search_db \<Rightarrow> bool" where
  "scan_complete env p s \<longleftrightarrow> (\<forall>ix. surface_row_at env p s ix \<noteq> None \<longrightarrow> ix \<in> set (sue_scan env))"

definition plain_rows :: "surface_row list \<Rightarrow> bool" where
  "plain_rows rows \<longleftrightarrow> (\<forall>r \<in> set rows. plain_id (srw_productId r) \<and> plain_id (srw_variantId r))"

type_synonym sale_unit = "string \<times> string \<times> string"

definition unit_row :: "surface_env \<Rightarrow> surface_params \<Rightarrow> search_db \<Rightarrow> sale_unit \<Rightarrow> day \<Rightarrow> surface_row option" where
  "unit_row env p s = (\<lambda>(prod, v, plan) d. case surface_row_at env p s (v, plan, d) of
     None \<Rightarrow> None | Some r \<Rightarrow> if srw_productId r = prod then Some r else None)"

text \<open>A rate plan is on sale when every night of the stay is open for the rooms and has a price.\<close>

definition unit_on_sale :: "surface_env \<Rightarrow> surface_params \<Rightarrow> search_db \<Rightarrow> sale_unit \<Rightarrow> bool" where
  "unit_on_sale env p s u \<longleftrightarrow> sfp_checkIn p < sfp_checkOut p \<and> (\<forall>d \<in> {sfp_checkIn p..<sfp_checkOut p}.
     surface_open (sfp_rooms p) (unit_row env p s u d) \<and>
     (\<exists>x. Option.bind (unit_row env p s u d) srw_pricePerNight = Some x \<and> 0 < x))"

definition unit_price :: "surface_env \<Rightarrow> surface_params \<Rightarrow> search_db \<Rightarrow> sale_unit \<Rightarrow> day \<Rightarrow> rat" where
  "unit_price env p s u d = the (Option.bind (unit_row env p s u d) srw_pricePerNight)"

definition unit_quote ::
  "(string \<Rightarrow> string \<Rightarrow> int) \<Rightarrow> (commercial_payload \<Rightarrow> string) \<Rightarrow> surface_env \<Rightarrow> ms \<Rightarrow> surface_params \<Rightarrow> fee_db
     \<Rightarrow> search_db \<Rightarrow> sale_unit \<Rightarrow> price_quote" where
  "unit_quote lc digest env now p fees s u = surface_quote lc digest env now p fees (the (unit_row env p s u (sfp_checkIn p)))
     (map (\<lambda>d. (d, unit_price env p s u d)) [sfp_checkIn p..sfp_checkOut p - 1])"

section \<open>Buckets are rate plans\<close>

definition row_unit :: "surface_row \<Rightarrow> sale_unit" where
  "row_unit r = (srw_productId r, srw_variantId r, srw_ratePlanId r)"

lemma dedup_map_inj: "inj_on f (set xs) \<Longrightarrow> js_dedup (map f xs) = map f (js_dedup xs)"
proof (induction xs)
  case (Cons x xs)
  have "filter (\<lambda>y. y \<noteq> f x) (map f (js_dedup xs)) = map f (filter (\<lambda>y. y \<noteq> x) (js_dedup xs))"
    using Cons.prems by (auto simp: filter_map comp_def inj_on_def intro!: arg_cong [of _ _ "map f"] filter_cong)
  then show ?case using Cons by (simp add: inj_on_insert)
qed simp

lemma group_unit:
  assumes "plain_rows rows" "r \<in> set rows" "r' \<in> set rows"
  shows "surface_group r = surface_group r' \<longleftrightarrow> row_unit r = row_unit r'"
proof -
  have plain: "plain_id (srw_productId r)" "plain_id (srw_productId r')" "plain_id (srw_variantId r)" "plain_id (srw_variantId r')"
    using assms by (simp_all add: plain_rows_def)
  show ?thesis
    unfolding surface_group_def row_unit_def using colon_split [OF plain(1,2)] colon_split [OF plain(3,4)] by simp
qed

lemma buckets_by_unit:
  assumes "plain_rows rows"
  shows "surface_buckets rows = map (\<lambda>u. filter (\<lambda>r. row_unit r = u) rows) (js_dedup (map row_unit rows))"
proof -
  define enc where "enc = (\<lambda>(a, b, c). a @ '':'' @ b @ '':'' @ (c :: string))"
  have enc: "surface_group r = enc (row_unit r)" for r by (simp add: enc_def surface_group_def row_unit_def)
  have inj: "inj_on enc (set (map row_unit rows))"
    using group_unit [OF assms] unfolding enc inj_on_def set_map by blast
  have "js_dedup (map surface_group rows) = map enc (js_dedup (map row_unit rows))"
  proof -
    have "map surface_group rows = map enc (map row_unit rows)" by (simp add: enc)
    then show ?thesis by (simp only: dedup_map_inj [OF inj])
  qed
  then have "surface_buckets rows = map ((\<lambda>k. filter (\<lambda>r. surface_group r = k) rows) \<circ> enc) (js_dedup (map row_unit rows))"
    by (simp add: surface_buckets_def)
  also have "\<dots> = map (\<lambda>u. filter (\<lambda>r. row_unit r = u) rows) (js_dedup (map row_unit rows))"
  proof (rule map_cong [OF refl])
    fix u assume "u \<in> set (js_dedup (map row_unit rows))"
    then obtain r0 where r0: "r0 \<in> set rows" "u = row_unit r0" by auto
    show "((\<lambda>k. filter (\<lambda>r. surface_group r = k) rows) \<circ> enc) u = filter (\<lambda>r. row_unit r = u) rows"
      unfolding comp_def r0(2) enc [symmetric] by (rule filter_cong [OF refl]) (rule group_unit [OF assms _ r0(1)])
  qed
  finally show ?thesis .
qed

lemma row_at_fields:
  assumes "surface_row_at env p s (v, plan, d) = Some r"
  shows "srw_variantId r = v" "srw_ratePlanId r = plan" "srw_date r = d" "sfp_checkIn p \<le> d" "d < sfp_checkOut p"
    "srw_currency r = sfp_currency p" "sue_products env (srw_productId r) = Some (srw_product r)" "sue_listed env (srw_productId r)"
  using assms by (auto simp: surface_row_at_def split: option.splits if_splits)

lemma rows_iff:
  assumes "scan_complete env p s"
  shows "r \<in> set (surface_rows env p s) \<longleftrightarrow> surface_row_at env p s (srw_variantId r, srw_ratePlanId r, srw_date r) = Some r"
proof
  assume "r \<in> set (surface_rows env p s)"
  then obtain v plan d where "surface_row_at env p s (v, plan, d) = Some r" by (auto simp: surface_rows_def List.map_filter_def)
  with row_at_fields [OF this] show "surface_row_at env p s (srw_variantId r, srw_ratePlanId r, srw_date r) = Some r" by simp
next
  assume r: "surface_row_at env p s (srw_variantId r, srw_ratePlanId r, srw_date r) = Some r"
  then have "(srw_variantId r, srw_ratePlanId r, srw_date r) \<in> set (sue_scan env)" using assms by (simp add: scan_complete_def)
  with r show "r \<in> set (surface_rows env p s)" by (force simp: surface_rows_def List.map_filter_def)
qed

lemma find_rev_only: "(\<And>r. r \<in> set xs \<Longrightarrow> P r \<Longrightarrow> r = x) \<Longrightarrow> List.find P (rev xs) = (if \<exists>r \<in> set xs. P r then Some x else None)"
proof -
  assume only: "\<And>r. r \<in> set xs \<Longrightarrow> P r \<Longrightarrow> r = x"
  show ?thesis
  proof (cases "List.find P (rev xs)")
    case None
    then show ?thesis by (auto simp: find_None_all)
  next
    case (Some r)
    then have "r \<in> set xs" "P r" using find_Some_mem [OF Some] by simp_all
    with only Some show ?thesis by auto
  qed
qed

lemma bucket_row_unit:
  assumes "scan_complete env p s"
  shows "bucket_row (filter (\<lambda>r. row_unit r = u) (surface_rows env p s)) d = unit_row env p s u d"
proof -
  obtain prod v plan where u: "u = (prod, v, plan)" by (cases u) auto
  let ?xs = "filter (\<lambda>r. row_unit r = u) (surface_rows env p s)"
  have mem: "r \<in> set ?xs \<and> srw_date r = d \<longleftrightarrow> unit_row env p s u d = Some r" for r
  proof
    assume "r \<in> set ?xs \<and> srw_date r = d"
    then have "r \<in> set (surface_rows env p s)" "srw_productId r = prod" "srw_variantId r = v" "srw_ratePlanId r = plan" "srw_date r = d"
      by (simp_all add: u row_unit_def)
    then show "unit_row env p s u d = Some r" unfolding rows_iff [OF assms] by (simp add: u unit_row_def)
  next
    assume "unit_row env p s u d = Some r"
    then have r: "surface_row_at env p s (v, plan, d) = Some r" "srw_productId r = prod"
      by (simp_all add: u unit_row_def split: option.splits if_splits)
    from row_at_fields [OF r(1)] r show "r \<in> set ?xs \<and> srw_date r = d" using rows_iff [OF assms, of r] by (simp add: u row_unit_def)
  qed
  show ?thesis
  proof (cases "unit_row env p s u d")
    case None
    then have "\<forall>r \<in> set ?xs. srw_date r \<noteq> d" using mem by simp
    then have "List.find (\<lambda>r. srw_date r = d) (rev ?xs) = None" by (simp only: find_None_all set_rev not_False_eq_True)
    then show ?thesis unfolding bucket_row_def None .
  next
    case (Some r0)
    have "\<exists>r \<in> set ?xs. srw_date r = d" using mem [of r0] Some by blast
    moreover have "List.find (\<lambda>r. srw_date r = d) (rev ?xs) = (if \<exists>r \<in> set ?xs. srw_date r = d then Some r0 else None)"
      by (rule find_rev_only) (metis mem Some option.inject)
    ultimately show ?thesis unfolding bucket_row_def Some by (simp only: if_True)
  qed
qed

section \<open>The sale of a bucket\<close>

lemma quote_cong:
  assumes "row_unit a = row_unit b" "srw_currency a = srw_currency b"
  shows "surface_quote lc digest env now p fees a ps = surface_quote lc digest env now p fees b ps"
  using assms by (simp add: surface_quote_def row_unit_def)

abbreviation unit_sale where
  "unit_sale lc digest env now p fees s u \<equiv>
     bucket_sale_of lc digest env now p fees (filter (\<lambda>r. row_unit r = u) (surface_rows env p s))"

lemma surface_nights: "enumerateStayDates a b = [a..b - 1]"
  by (simp add: enumerateStayDates_def enumerateDates_days)

lemma on_sale_has_row:
  assumes "unit_on_sale env p s u"
  obtains r where "unit_row env p s u (sfp_checkIn p) = Some r"
  using assms by (fastforce simp: unit_on_sale_def surface_open_def split: option.splits)

lemma unit_row_fields:
  assumes "unit_row env p s u d = Some r"
  shows "row_unit r = u" "srw_currency r = sfp_currency p"
  using assms row_at_fields by (auto simp: unit_row_def row_unit_def split: prod.splits option.splits if_splits)

lemma unit_sale_None:
  assumes "scan_complete env p s" "sfp_checkIn p < sfp_checkOut p" "\<not> unit_on_sale env p s u"
  shows "unit_sale lc digest env now p fees s u = None"
proof -
  obtain d where d: "d \<in> {sfp_checkIn p..<sfp_checkOut p}" and no: "\<not> surface_open (sfp_rooms p) (unit_row env p s u d) \<or>
      (\<forall>x. Option.bind (unit_row env p s u d) srw_pricePerNight = Some x \<longrightarrow> x \<le> 0)"
    using assms(2,3) by (auto simp: unit_on_sale_def not_less)
  have "d \<in> set (enumerateStayDates (sfp_checkIn p) (sfp_checkOut p))" using d by (simp add: surface_nights)
  with no show ?thesis
    by (auto simp: bucket_sale_of_def Let_def bucket_row_unit [OF assms(1)] list_all_iff list_ex_iff split: option.splits)
qed

lemma unit_sale_Some:
  assumes complete: "scan_complete env p s" and sale: "unit_on_sale env p s u"
  shows "\<exists>b. unit_sale lc digest env now p fees s u = Some b \<and> srw_productId (bsl_first b) = fst u \<and>
    bsl_quote b = unit_quote lc digest env now p fees s u"
proof -
  let ?bucket = "filter (\<lambda>r. row_unit r = u) (surface_rows env p s)"
  let ?ds = "[sfp_checkIn p..sfp_checkOut p - 1]"
  obtain r0 where r0: "unit_row env p s u (sfp_checkIn p) = Some r0" by (rule on_sale_has_row [OF sale])
  have "bucket_row ?bucket (sfp_checkIn p) \<noteq> None" by (simp add: bucket_row_unit [OF complete] r0)
  then have "?bucket \<noteq> []" unfolding bucket_row_def by (rule contrapos_nn) (simp only: rev.simps List.find.simps)
  then have "hd ?bucket \<in> set ?bucket" by (rule hd_in_set)
  then have hd: "row_unit (hd ?bucket) = u" "hd ?bucket \<in> set (surface_rows env p s)" by simp_all
  then have first: "row_unit (hd ?bucket) = u" "srw_currency (hd ?bucket) = sfp_currency p"
    using row_at_fields(6) rows_iff [OF complete] by blast+
  have nights: "surface_open (sfp_rooms p) (unit_row env p s u d) \<and> unit_row env p s u d \<noteq> None \<and>
      (\<exists>x. Option.bind (unit_row env p s u d) srw_pricePerNight = Some x \<and> 0 < x)" if "d \<in> set ?ds" for d
    using sale that by (auto simp: unit_on_sale_def surface_open_def split: option.splits)
  let ?prices = "map (\<lambda>d. Option.bind (unit_row env p s u d) srw_pricePerNight) ?ds"
  have zip: "zip ?ds (map the ?prices) = map (\<lambda>d. (d, unit_price env p s u d)) ?ds"
    by (simp add: zip_map2 zip_same_conv_map unit_price_def comp_def)
  have "unit_sale lc digest env now p fees s u = Some \<lparr>bsl_first = hd ?bucket, bsl_baseAmount = roundMoney (sum_list (map the ?prices)),
      bsl_quote = surface_quote lc digest env now p fees (hd ?bucket) (zip ?ds (map the ?prices)),
      bsl_lastMaterializedAt = Max (set (map srw_computedAt ?bucket))\<rparr>"
  proof -
    have opened: "list_all (\<lambda>d. unit_row env p s u d \<noteq> None) ?ds" "list_all (\<lambda>d. surface_open (sfp_rooms p) (unit_row env p s u d)) ?ds"
      using nights by (simp_all add: list_all_iff)
    have priced: "\<not> list_ex (\<lambda>price. case price of None \<Rightarrow> True | Some x \<Rightarrow> x \<le> 0) ?prices"
    proof -
      have "0 < x" if "d \<in> set ?ds" "Option.bind (unit_row env p s u d) srw_pricePerNight = Some x" for d x
        using nights [OF that(1)] that(2) by auto
      moreover have "Option.bind (unit_row env p s u d) srw_pricePerNight \<noteq> None" if "d \<in> set ?ds" for d
        using nights [OF that] by auto
      ultimately show ?thesis unfolding list_ex_iff by (fastforce simp del: set_upto split: option.splits)
    qed
    show ?thesis unfolding bucket_sale_of_def Let_def bucket_row_unit [OF complete] surface_nights
      by (simp only: opened priced not_True_eq_False if_False)
  qed
  moreover have "surface_quote lc digest env now p fees (hd ?bucket) (zip ?ds (map the ?prices)) = unit_quote lc digest env now p fees s u"
    unfolding zip unit_quote_def r0 option.sel by (rule quote_cong) (simp_all only: first unit_row_fields [OF r0])
  moreover have "srw_productId (hd ?bucket) = fst u" using arg_cong [OF first(1), of fst] by (simp only: row_unit_def fst_conv)
  ultimately show ?thesis by (simp only: bucket_sale.select_convs ex_simps simp_thms) simp
qed

section \<open>One result per product\<close>

definition sells :: "string \<Rightarrow> bucket_sale \<Rightarrow> bool" where
  "sells i b \<longleftrightarrow> srw_productId (bsl_first b) = i"

definition summarizes :: "bucket_sale list \<Rightarrow> surface_result list \<Rightarrow> bool" where
  "summarizes bs rs \<longleftrightarrow> distinct (map psr_productId rs) \<and>
     psr_productId ` set rs = (srw_productId \<circ> bsl_first) ` set bs \<and>
     (\<forall>r \<in> set rs. psr_fromPrice r = pq_totalAmount (psr_priceQuote r) \<and> psr_totalPrice r = psr_fromPrice r \<and>
        (\<exists>b \<in> set bs. sells (psr_productId r) b \<and> psr_priceQuote r = bsl_quote b) \<and>
        (\<forall>b \<in> set bs. sells (psr_productId r) b \<longrightarrow> psr_fromPrice r \<le> pq_totalAmount (bsl_quote b)) \<and>
        psr_availableVariants r = length (filter (sells (psr_productId r)) bs))"

definition merge_sale :: "bucket_sale \<Rightarrow> surface_result \<Rightarrow> surface_result" where
  "merge_sale b r = (if psr_totalPrice r \<le> pq_totalAmount (bsl_quote b)
     then r\<lparr>psr_availableVariants := psr_availableVariants r + 1,
       psr_lastMaterializedAt := max (psr_lastMaterializedAt r) (bsl_lastMaterializedAt b)\<rparr>
     else result_of_sale (psr_availableVariants r) b)"

lemma put_new: "srw_productId (bsl_first b) \<notin> psr_productId ` set rs \<Longrightarrow> put_sale b rs = rs @ [result_of_sale 0 b]"
  by (induction rs) auto

lemma put_old:
  "distinct (map psr_productId rs) \<Longrightarrow> srw_productId (bsl_first b) \<in> psr_productId ` set rs \<Longrightarrow>
    put_sale b rs = map (\<lambda>r. if psr_productId r = srw_productId (bsl_first b) then merge_sale b r else r) rs"
proof (induction rs)
  case (Cons r rs)
  show ?case
  proof (cases "psr_productId r = srw_productId (bsl_first b)")
    case True
    then have "\<forall>x \<in> set rs. psr_productId x \<noteq> srw_productId (bsl_first b)" using Cons.prems(1) by (metis distinct.simps(2) image_eqI list.map(2) list.set_map)
    then have "map (\<lambda>r. if psr_productId r = srw_productId (bsl_first b) then merge_sale b r else r) rs = rs" by (simp add: map_idI)
    then show ?thesis using True by (simp add: merge_sale_def)
  next
    case False
    then show ?thesis using Cons by simp
  qed
qed simp

lemma result_of_sale_simps [simp]:
  "psr_productId (result_of_sale n b) = srw_productId (bsl_first b)" "psr_fromPrice (result_of_sale n b) = pq_totalAmount (bsl_quote b)"
  "psr_totalPrice (result_of_sale n b) = pq_totalAmount (bsl_quote b)" "psr_priceQuote (result_of_sale n b) = bsl_quote b"
  "psr_availableVariants (result_of_sale n b) = n + 1"
  by (simp_all add: result_of_sale_def Let_def)

lemma merge_sale_simps [simp]:
  "psr_productId r = srw_productId (bsl_first b) \<Longrightarrow> psr_productId (merge_sale b r) = psr_productId r"
  "psr_availableVariants (merge_sale b r) = psr_availableVariants r + 1"
  by (simp_all add: merge_sale_def)

lemma put_summarizes:
  assumes "summarizes bs rs"
  shows "summarizes (bs @ [b]) (put_sale b rs)"
proof (cases "srw_productId (bsl_first b) \<in> psr_productId ` set rs")
  case False
  note old = assms [unfolded summarizes_def]
  have "srw_productId (bsl_first b) \<notin> (srw_productId \<circ> bsl_first) ` set bs" using False old by simp
  then have "\<forall>x \<in> set bs. \<not> sells (srw_productId (bsl_first b)) x" unfolding sells_def by (metis comp_apply image_eqI)
  then have none: "filter (sells (srw_productId (bsl_first b))) bs = []" by (simp add: filter_empty_conv)
  have other: "\<not> sells (psr_productId r) b" if "r \<in> set rs" for r using False that by (auto simp: sells_def)
  have new: "set (rs @ [result_of_sale 0 b]) = insert (result_of_sale 0 b) (set rs)" by simp
  show ?thesis
    unfolding put_new [OF False] summarizes_def new ball_simps
  proof (intro conjI ballI)
    show "distinct (map psr_productId (rs @ [result_of_sale 0 b]))" using old False by simp
    show "psr_productId ` insert (result_of_sale 0 b) (set rs) = (srw_productId \<circ> bsl_first) ` set (bs @ [b])"
      using old by simp
    show "\<exists>b' \<in> set (bs @ [b]). sells (psr_productId (result_of_sale 0 b)) b' \<and> psr_priceQuote (result_of_sale 0 b) = bsl_quote b'"
      by (simp add: sells_def)
    show "sells (psr_productId (result_of_sale 0 b)) b' \<longrightarrow> psr_fromPrice (result_of_sale 0 b) \<le> pq_totalAmount (bsl_quote b')"
      if "b' \<in> set (bs @ [b])" for b'
      using that none by (auto simp: filter_empty_conv)
    show "psr_availableVariants (result_of_sale 0 b) = length (filter (sells (psr_productId (result_of_sale 0 b))) (bs @ [b]))"
      using none by (simp add: sells_def)
  qed (use old other in \<open>auto\<close>)
next
  case True
  note old = assms [unfolded summarizes_def]
  have put: "put_sale b rs = map (\<lambda>r. if psr_productId r = srw_productId (bsl_first b) then merge_sale b r else r) rs"
    using put_old True old by blast
  have ids: "map psr_productId (put_sale b rs) = map psr_productId rs" unfolding put by simp
  show ?thesis
    unfolding summarizes_def ids
  proof (intro conjI ballI)
    show "distinct (map psr_productId rs)" using old by simp
    show "psr_productId ` set (put_sale b rs) = (srw_productId \<circ> bsl_first) ` set (bs @ [b])"
      using arg_cong [OF ids, of set] True old by (auto simp: insert_absorb)
  next
    fix r assume "r \<in> set (put_sale b rs)"
    then obtain r0 where r0: "r0 \<in> set rs" "r = (if psr_productId r0 = srw_productId (bsl_first b) then merge_sale b r0 else r0)"
      unfolding put by auto
    have id: "psr_productId r = psr_productId r0" by (simp add: r0(2))
    have prev: "psr_fromPrice r0 = pq_totalAmount (psr_priceQuote r0)" "psr_totalPrice r0 = psr_fromPrice r0"
      "\<exists>b \<in> set bs. sells (psr_productId r0) b \<and> psr_priceQuote r0 = bsl_quote b"
      "\<forall>b \<in> set bs. sells (psr_productId r0) b \<longrightarrow> psr_fromPrice r0 \<le> pq_totalAmount (bsl_quote b)"
      "psr_availableVariants r0 = length (filter (sells (psr_productId r0)) bs)"
      using old r0(1) by blast+
    show "psr_fromPrice r = pq_totalAmount (psr_priceQuote r)" "psr_totalPrice r = psr_fromPrice r"
      using prev by (simp_all add: r0(2) merge_sale_def)
    show "\<exists>b' \<in> set (bs @ [b]). sells (psr_productId r) b' \<and> psr_priceQuote r = bsl_quote b'"
      using prev(3) unfolding id by (auto simp: r0(2) merge_sale_def sells_def)
    show "sells (psr_productId r) b' \<longrightarrow> psr_fromPrice r \<le> pq_totalAmount (bsl_quote b')" if "b' \<in> set (bs @ [b])" for b'
      using that prev unfolding id by (auto simp: r0(2) merge_sale_def sells_def)
    show "psr_availableVariants r = length (filter (sells (psr_productId r)) (bs @ [b]))"
      using prev(5) unfolding id by (simp add: r0(2) sells_def)
  qed
qed

lemma sales_summarized: "summarizes bs (foldl (\<lambda>rs b. put_sale b rs) [] bs)"
proof (induction bs rule: rev_induct)
  case Nil
  then show ?case by (simp add: summarizes_def)
next
  case (snoc b bs)
  then show ?case by (simp add: put_summarizes)
qed

lemma summarizes_mset: "mset rs = mset rs' \<Longrightarrow> summarizes bs rs \<Longrightarrow> summarizes bs rs'"
  unfolding summarizes_def
  by (metis mset_eq_setD mset_map mset_eq_imp_distinct_iff)

interpretation surface_order: comparator surface_order
  by unfold_locales (auto simp: surface_order_def split: if_splits)

section \<open>What is listed\<close>

lemma on_sale_listed:
  assumes "scan_complete env p s" "unit_on_sale env p s u"
  shows "u \<in> set (map row_unit (surface_rows env p s))"
proof -
  obtain r where r: "unit_row env p s u (sfp_checkIn p) = Some r" by (rule on_sale_has_row [OF assms(2)])
  then have "bucket_row (filter (\<lambda>r. row_unit r = u) (surface_rows env p s)) (sfp_checkIn p) = Some r"
    by (simp add: bucket_row_unit [OF assms(1)])
  then have "r \<in> set (filter (\<lambda>r. row_unit r = u) (surface_rows env p s))"
    unfolding bucket_row_def by (metis find_Some_mem(1) set_rev)
  then show ?thesis by auto
qed

lemma sales_of_units:
  assumes complete: "scan_complete env p s" and plain: "plain_rows (surface_rows env p s)" and stay: "sfp_checkIn p < sfp_checkOut p"
  obtains us g where "surface_sales lc digest env now p fees s = map g us" "distinct us" "set us = {u. unit_on_sale env p s u}"
    "\<And>u. unit_on_sale env p s u \<Longrightarrow> srw_productId (bsl_first (g u)) = fst u \<and> bsl_quote (g u) = unit_quote lc digest env now p fees s u"
proof -
  let ?f = "\<lambda>u. unit_sale lc digest env now p fees s u"
  let ?all = "js_dedup (map row_unit (surface_rows env p s))"
  let ?us = "filter (\<lambda>u. ?f u \<noteq> None) ?all"
  have sold: "?f u \<noteq> None \<longleftrightarrow> unit_on_sale env p s u" for u
    using unit_sale_None [OF complete stay] unit_sale_Some [OF complete] by (metis option.distinct(1))
  have "surface_sales lc digest env now p fees s = List.map_filter ?f ?all"
    by (simp add: surface_sales_def buckets_by_unit [OF plain] List.map_filter_def comp_def filter_map)
  then have "surface_sales lc digest env now p fees s = map (the \<circ> ?f) ?us" by (simp add: List.map_filter_def)
  moreover have "distinct ?us" by (intro distinct_filter distinct_js_dedup)
  moreover have "set ?us = {u. unit_on_sale env p s u}"
    using on_sale_listed [OF complete] unfolding sold set_filter set_js_dedup by auto
  moreover have "srw_productId (bsl_first ((the \<circ> ?f) u)) = fst u \<and> bsl_quote ((the \<circ> ?f) u) = unit_quote lc digest env now p fees s u"
    if "unit_on_sale env p s u" for u
    using unit_sale_Some [OF complete that, of lc digest now fees] by auto
  ultimately show thesis by (rule that)
qed

lemma surface_summarizes:
  assumes "scan_complete env p s" "plain_rows (surface_rows env p s)" "sfp_checkIn p < sfp_checkOut p"
  shows "summarizes (surface_sales lc digest env now p fees s) (loadPublicSearchSurface lc digest env now p fees s)"
proof -
  have "enumerateStayDates (sfp_checkIn p) (sfp_checkOut p) \<noteq> []" using assms(3) by (simp add: surface_nights)
  then have "mset (loadPublicSearchSurface lc digest env now p fees s) =
      mset (foldl (\<lambda>rs b. put_sale b rs) [] (surface_sales lc digest env now p fees s))"
    by (simp add: loadPublicSearchSurface_def)
  from summarizes_mset [OF this [symmetric] sales_summarized] show ?thesis .
qed

lemma surface_sorted: "sorted_wrt (\<lambda>a b. psr_fromPrice a \<le> psr_fromPrice b) (loadPublicSearchSurface lc digest env now p fees s)"
proof -
  have "sorted_wrt (\<lambda>a b. psr_fromPrice a \<le> psr_fromPrice b) (js_sort surface_order xs)" for xs
    using surface_order.sort_ordered [of xs]
    by (rule sorted_wrt_mono_rel [rotated]) (simp add: surface_order_def split: if_splits)
  then show ?thesis by (simp add: loadPublicSearchSurface_def)
qed

lemma surface_cheapest:
  assumes "scan_complete env p s" "plain_rows (surface_rows env p s)" "sfp_checkIn p < sfp_checkOut p"
  shows "distinct (map psr_productId (loadPublicSearchSurface lc digest env now p fees s)) \<and>
    sorted_wrt (\<lambda>a b. psr_fromPrice a \<le> psr_fromPrice b) (loadPublicSearchSurface lc digest env now p fees s) \<and>
    psr_productId ` set (loadPublicSearchSurface lc digest env now p fees s) = fst ` {u. unit_on_sale env p s u} \<and>
    (\<forall>r \<in> set (loadPublicSearchSurface lc digest env now p fees s).
      psr_fromPrice r = pq_totalAmount (psr_priceQuote r) \<and>
      (\<exists>u. unit_on_sale env p s u \<and> fst u = psr_productId r \<and> psr_priceQuote r = unit_quote lc digest env now p fees s u) \<and>
      (\<forall>u. unit_on_sale env p s u \<and> fst u = psr_productId r \<longrightarrow>
        psr_fromPrice r \<le> pq_totalAmount (unit_quote lc digest env now p fees s u)) \<and>
      psr_availableVariants r = card {u. unit_on_sale env p s u \<and> fst u = psr_productId r})"
proof -
  obtain us g where sales: "surface_sales lc digest env now p fees s = map g us" and us: "distinct us" "set us = {u. unit_on_sale env p s u}"
    and g: "\<And>u. unit_on_sale env p s u \<Longrightarrow> srw_productId (bsl_first (g u)) = fst u \<and> bsl_quote (g u) = unit_quote lc digest env now p fees s u"
    by (rule sales_of_units [OF assms, where lc = lc and digest = digest and now = now and fees = fees]) blast
  note sum = surface_summarizes [OF assms, of lc digest now fees, unfolded sales summarizes_def]
  have count: "length (filter (sells i) (map g us)) = card {u. unit_on_sale env p s u \<and> fst u = i}" for i
  proof -
    have "filter (\<lambda>u. sells i (g u)) us = filter (\<lambda>u. fst u = i) us"
      by (rule filter_cong) (use g us(2) in \<open>auto simp: sells_def\<close>)
    then have "length (filter (sells i) (map g us)) = length (filter (\<lambda>u. fst u = i) us)" by (simp add: filter_map comp_def)
    also have "\<dots> = card (set (filter (\<lambda>u. fst u = i) us))" by (rule distinct_card [symmetric]) (simp add: us(1))
    finally show ?thesis by (simp add: us(2))
  qed
  have products: "(srw_productId \<circ> bsl_first) ` set (map g us) = fst ` {u. unit_on_sale env p s u}"
    unfolding set_map image_comp us(2) by (rule image_cong [OF refl]) (simp add: g)
  have sold: "b \<in> set (map g us) \<longleftrightarrow> (\<exists>u. unit_on_sale env p s u \<and> b = g u)" for b by (auto simp: us(2))
  show ?thesis
  proof (intro conjI ballI)
    show "sorted_wrt (\<lambda>a b. psr_fromPrice a \<le> psr_fromPrice b) (loadPublicSearchSurface lc digest env now p fees s)"
      by (rule surface_sorted)
    show "distinct (map psr_productId (loadPublicSearchSurface lc digest env now p fees s))"
      "psr_productId ` set (loadPublicSearchSurface lc digest env now p fees s) = fst ` {u. unit_on_sale env p s u}"
      using sum products by simp_all
  next
    fix r assume r: "r \<in> set (loadPublicSearchSurface lc digest env now p fees s)"
    show "psr_fromPrice r = pq_totalAmount (psr_priceQuote r)" using sum r by blast
    show "psr_availableVariants r = card {u. unit_on_sale env p s u \<and> fst u = psr_productId r}" using sum r unfolding count by blast
    obtain b where "b \<in> set (map g us)" and b: "sells (psr_productId r) b" "psr_priceQuote r = bsl_quote b" using sum r by blast
    then obtain u where u: "unit_on_sale env p s u" "b = g u" unfolding sold by blast
    then show "\<exists>u. unit_on_sale env p s u \<and> fst u = psr_productId r \<and> psr_priceQuote r = unit_quote lc digest env now p fees s u"
      using b g [OF u(1)] by (intro exI [of _ u]) (simp add: sells_def)
    show "\<forall>u. unit_on_sale env p s u \<and> fst u = psr_productId r \<longrightarrow>
        psr_fromPrice r \<le> pq_totalAmount (unit_quote lc digest env now p fees s u)"
    proof (intro allI impI)
      fix u assume u: "unit_on_sale env p s u \<and> fst u = psr_productId r"
      then have "g u \<in> set (map g us)" using us(2) by simp
      moreover have "sells (psr_productId r) (g u)" using g u by (simp add: sells_def)
      ultimately have "psr_fromPrice r \<le> pq_totalAmount (bsl_quote (g u))" using sum r by blast
      then show "psr_fromPrice r \<le> pq_totalAmount (unit_quote lc digest env now p fees s u)" using g u by simp
    qed
  qed
qed

lemma listed_products:
  assumes "scan_complete env p s" "plain_rows (surface_rows env p s)" "sfp_checkIn p < sfp_checkOut p"
  shows "psr_productId ` set (loadPublicSearchSurface lc digest env now p fees s) = fst ` {u. unit_on_sale env p s u}"
  using surface_cheapest [OF assms] by blast

text \<open>
  C0. The public search lists the products on sale at their lowest price: a product appears once, exactly
  when one of its rate plans has every night of the stay open for the rooms at a price; its quote is that of
  a rate plan on sale and none on sale is cheaper; its count is the number of rate plans on sale, and the
  results are in the order of the prices.
\<close>

theorem surface_lists_cheapest:
  assumes "scan_complete env p s" "plain_rows (surface_rows env p s)" "sfp_checkIn p < sfp_checkOut p"
  shows "distinct (map psr_productId (loadPublicSearchSurface lc digest env now p fees s)) \<and>
    sorted_wrt (\<lambda>a b. psr_fromPrice a \<le> psr_fromPrice b) (loadPublicSearchSurface lc digest env now p fees s) \<and>
    psr_productId ` set (loadPublicSearchSurface lc digest env now p fees s) = fst ` {u. unit_on_sale env p s u} \<and>
    (\<forall>r \<in> set (loadPublicSearchSurface lc digest env now p fees s).
      psr_fromPrice r = pq_totalAmount (psr_priceQuote r) \<and>
      (\<exists>u. unit_on_sale env p s u \<and> fst u = psr_productId r \<and> psr_priceQuote r = unit_quote lc digest env now p fees s u) \<and>
      (\<forall>u. unit_on_sale env p s u \<and> fst u = psr_productId r \<longrightarrow>
        psr_fromPrice r \<le> pq_totalAmount (unit_quote lc digest env now p fees s u)) \<and>
      psr_availableVariants r = card {u. unit_on_sale env p s u \<and> fst u = psr_productId r})"
  by (rule surface_cheapest [OF assms])

end
