(* ===== verification/Public_Search_Hold.thy ===== *)
theory Public_Search_Hold
  imports Public_Search_Correctness
begin

text \<open>From the public search to the hold: the quote shown is the quote held, and the stays it shows by mistake.\<close>

section \<open>The identity of a quote\<close>

text \<open>The identity and the total of a quote depend on its commercial terms, not on where it was computed.\<close>

lemma quote_identity:
  assumes "pq_context a = pq_context b" "js_upper (pq_currency a) = js_upper (pq_currency b)" "pq_nights a = pq_nights b"
    and "pq_baseAmount a = pq_baseAmount b" "pq_taxesAndFees a = pq_taxesAndFees b" "pq_days a = pq_days b"
  shows "pq_quoteId (buildPriceQuote lc digest a) = pq_quoteId (buildPriceQuote lc digest b)"
    and "pq_totalAmount (buildPriceQuote lc digest a) = pq_totalAmount (buildPriceQuote lc digest b)"
  using assms by (simp_all add: buildPriceQuote_def Let_def commercialQuotePayload_def)

lemma sum_in_cents: "\<forall>x \<in> set xs. Tax_Fees_Correctness.in_cents x \<Longrightarrow> Tax_Fees_Correctness.in_cents (sum_list xs)"
proof (induction xs)
  case (Cons x xs)
  then obtain m n :: int where "x = of_int m / 100" "sum_list xs = of_int n / 100" by (auto simp: Tax_Fees_Correctness.in_cents_def)
  then show ?case by (auto simp: Tax_Fees_Correctness.in_cents_def intro!: exI [of _ "m + n"] simp: add_divide_distrib)
qed (simp add: Tax_Fees_Correctness.in_cents_def)

lemma held_currency:
  assumes "hold_currency rows \<noteq> []" "(d, r) \<in> set rows"
  shows "hold_currency rows = js_upper (suv_currency r)"
proof -
  let ?cs = "js_dedup (map (\<lambda>(_, r). js_upper (suv_currency r)) rows)"
  obtain c where c: "?cs = [c]" using assms(1) by (auto simp: hold_currency_def split: list.splits)
  have "js_upper (suv_currency r) \<in> set ?cs" using assms(2) by force
  then show ?thesis by (simp add: hold_currency_def c)
qed

lemma surface_hold_key:
  "surface_key p = hold_key q" if "hq_adults q = sfp_adults p" "hq_children q = sfp_children p" "hq_infants q = 0"
  using that by (simp add: surface_key_def hold_key_def key_inj normalizeOccupancy_def toNonNegativeInteger_def occupancy.equality)

text \<open>The hold asked for with what the search was asked.\<close>

definition holds_searched :: "surface_params \<Rightarrow> hold_request \<Rightarrow> bool" where
  "holds_searched p r \<longleftrightarrow> hrq_from r = Iso (sfp_checkIn p) \<and> hrq_to r = Iso (sfp_checkOut p) \<and> hrq_rooms r = sfp_rooms p \<and>
     hrq_adults r = sfp_adults p \<and> hrq_children r = sfp_children p \<and> hrq_infants r = 0"

definition request_unit :: "string \<Rightarrow> hold_request \<Rightarrow> sale_unit" where
  "request_unit productId r = (productId, hrq_variantId r, hrq_ratePlanId r)"

lemma unit_view_row:
  assumes "unit_row env p s (i, v, plan) d = Some x"
  obtains r where "sdb_view s (v, plan, d, surface_key p) = Some r" "suv_productId r = i" "suv_currency r = sfp_currency p"
  using assms by (auto simp: unit_row_def surface_row_at_def split: option.splits if_splits)

lemma hold_view_mem:
  assumes "sdb_view s (hq_variantId q, hq_ratePlanId q, d, hold_key q) = Some r" "suv_productId r = hq_productId q" "listed (hq_productId q)"
    and "iso_day (hq_checkIn q) \<le> d" "d \<le> iso_day (hq_checkOut q)"
  shows "(d, r) \<in> set (hold_view_rows listed q s)"
  using assms by (force simp: hold_view_rows_def List.map_filter_def)

lemma searched_currency:
  assumes "unit_on_sale env p s (request_unit productId r)" "holds_searched p r"
    and "resolveHoldabilityFromView listed fails today (hold_query_of r productId) s = Holdable h"
  shows "hld_currency h = js_upper (sfp_currency p)"
proof -
  let ?q = "hold_query_of r productId"
  have q: "hq_productId ?q = productId" "hq_variantId ?q = hrq_variantId r" "hq_ratePlanId ?q = hrq_ratePlanId r"
    "iso_day (hq_checkIn ?q) = sfp_checkIn p" "iso_day (hq_checkOut ?q) = sfp_checkOut p" "surface_key p = hold_key ?q"
    using assms(2) by (simp_all add: hold_query_of_def holds_searched_def surface_hold_key)
  have stay: "sfp_checkIn p < sfp_checkOut p" using assms(1) by (simp add: unit_on_sale_def)
  obtain x where "unit_row env p s (request_unit productId r) (sfp_checkIn p) = Some x" by (rule on_sale_has_row [OF assms(1)])
  then obtain vr where vr: "sdb_view s (hrq_variantId r, hrq_ratePlanId r, sfp_checkIn p, surface_key p) = Some vr"
    "suv_productId vr = productId" "suv_currency vr = sfp_currency p"
    unfolding request_unit_def by (rule unit_view_row)
  have currency: "hold_currency (hold_view_rows listed ?q s) \<noteq> []" "hld_currency h = hold_currency (hold_view_rows listed ?q s)"
    by (rule holdable_cases [OF assms(3)]; auto simp: is_currency_def)+
  then have "listed productId" by (auto simp: hold_view_rows_def hold_currency_def q(1) split: if_splits)
  then have "(sfp_checkIn p, vr) \<in> set (hold_view_rows listed ?q s)"
    using hold_view_mem [of s ?q "sfp_checkIn p" vr listed] vr q stay by simp
  from held_currency [OF currency(1) this] show ?thesis using currency(2) vr(3) by simp
qed

section \<open>The price shown is the price held\<close>

lemma searched_quote:
  assumes sale: "unit_on_sale env p s (request_unit productId r)" and request: "holds_searched p r"
    and hold: "resolveHoldabilityFromView listed fails today (hold_query_of r productId) s = Holdable h"
    and prices: "\<forall>d \<in> {sfp_checkIn p..<sfp_checkOut p}. \<forall>e. hold_price fails (hold_query_of r productId) s d = Some e \<longrightarrow>
        efp_finalBasePrice e = unit_price env p s (request_unit productId r) d \<and> Tax_Fees_Correctness.in_cents (efp_finalBasePrice e)"
    and country: "hen_country henv productId = Option.bind (sue_products env productId) sfr_country"
      "hen_checkInText henv (sfp_checkIn p) = sue_dateText env (sfp_checkIn p)"
  shows "pq_quoteId (hold_quote lc digest henv now r productId h fees) =
      pq_quoteId (unit_quote lc digest env now p fees s (request_unit productId r))"
    and "pq_totalAmount (hold_quote lc digest henv now r productId h fees) =
      pq_totalAmount (unit_quote lc digest env now p fees s (request_unit productId r))"
proof -
  let ?u = "request_unit productId r" and ?q = "hold_query_of r productId"
  let ?ds = "[sfp_checkIn p..sfp_checkOut p - 1]" and ?price = "unit_price env p s (request_unit productId r)"
  have dates: "hold_stay_dates (hq_checkIn ?q) (hq_checkOut ?q) = ?ds"
    using request by (simp add: hold_query_of_def holds_searched_def surface_nights)
  obtain first where first: "unit_row env p s ?u (sfp_checkIn p) = Some first" by (rule on_sale_has_row [OF sale])
  note fields = unit_row_fields [OF first, unfolded row_unit_def request_unit_def prod.inject]
  have eff: "efp_finalBasePrice (the (hold_price fails ?q s d)) = ?price d" "Tax_Fees_Correctness.in_cents (?price d)" if "d \<in> set ?ds" for d
  proof -
    have "\<exists>e. hold_price fails ?q s d = Some e"
      by (rule holdable_cases [OF hold]) (use that dates in \<open>auto\<close>)
    then show "efp_finalBasePrice (the (hold_price fails ?q s d)) = ?price d" "Tax_Fees_Correctness.in_cents (?price d)" using prices that by force+
  qed
  have h: "hld_ratePlanId h = hrq_ratePlanId r" "hld_totalPrice h = (\<Sum>d\<leftarrow>?ds. ?price d)" "hld_nights h = length ?ds"
    "map (\<lambda>d. (hdy_date d, hdy_price d)) (hld_days h) = map (\<lambda>d. (d, ?price d)) ?ds"
    unfolding holdable_value [OF hold] dates using eff(1)
    by (auto simp: hold_query_of_def held_day_of_def simp del: set_upto intro!: arg_cong [of _ _ sum_list] map_cong)
  have cents: "roundMoney (\<Sum>d\<leftarrow>?ds. ?price d) = (\<Sum>d\<leftarrow>?ds. ?price d)"
    by (rule round_in_cents, rule sum_in_cents) (use eff(2) in \<open>auto\<close>)
  have sums: "sum_list (map snd (map (\<lambda>d. (d, ?price d)) ?ds)) = (\<Sum>d\<leftarrow>?ds. ?price d)" by (simp add: comp_def)
  note req = request [unfolded holds_searched_def]
  have params: "hold_fee_params henv r productId h = \<lparr>fp_base = roundMoney (\<Sum>d\<leftarrow>?ds. ?price d), fp_nights = of_nat (length ?ds),
      fp_guests = of_int (max 1 (sfp_adults p + sfp_children p)),
      fp_context = \<lparr>fc_country = map_option js_upper (Option.bind (sue_products env productId) sfr_country), fc_region = None,
        fc_city = None, fc_guestResidenceCountry = None, fc_checkIn = Some (sue_dateText env (sfp_checkIn p))\<rparr>\<rparr>"
    using req country by (simp only: hold_fee_params_def h(2,3) cents hold_guests_def iso_day.simps)
  have query: "hold_fee_query r productId h = \<lparr>fq_providerId = None, fq_productId = Some productId,
      fq_variantId = Some (hrq_variantId r), fq_ratePlanId = Some (hrq_ratePlanId r), fq_channel = Some ''web''\<rparr>"
    by (simp only: hold_fee_query_def h(1))
  have currency: "js_upper (js_upper (srw_currency first)) = js_upper (hld_currency h)"
    using searched_currency [OF sale request hold] fields(2) by simp
  show "pq_quoteId (hold_quote lc digest henv now r productId h fees) = pq_quoteId (unit_quote lc digest env now p fees s ?u)"
    "pq_totalAmount (hold_quote lc digest henv now r productId h fees) = pq_totalAmount (unit_quote lc digest env now p fees s ?u)"
    unfolding hold_quote_def unit_quote_def surface_quote_def Let_def first option.sel sums params query h(1,3,4)
    by (rule quote_identity; use fields currency req in \<open>simp add: h(2) cents\<close>)+
qed


section \<open>The restrictions of a stay\<close>

lemma restricted_not_held:
  assumes request: "holds_searched p r"
    and rows: "sdb_view s (hrq_variantId r, hrq_ratePlanId r, sfp_checkIn p, surface_key p) = Some first"
      "sdb_view s (hrq_variantId r, hrq_ratePlanId r, sfp_checkOut p - 1, surface_key p) = Some final"
    and refused: "stay_restriction (nat (sfp_checkOut p - sfp_checkIn p)) (sfp_checkIn p - today) (stay_row_of first) (stay_row_of final) \<noteq> None"
    and stay: "sfp_checkIn p < sfp_checkOut p"
  shows "resolveHoldabilityFromView listed fails today (hold_query_of r productId) s \<noteq> Holdable h"
proof
  let ?q = "hold_query_of r productId" and ?rows = "hold_rows_by_date (hold_view_rows listed (hold_query_of r productId) s)"
  assume "resolveHoldabilityFromView listed fails today ?q s = Holdable h"
  then obtain ds where ds: "ds = hold_stay_dates (hq_checkIn ?q) (hq_checkOut ?q)" and
    sell: "ssl_isSellable (evaluateStaySellabilityFromView ds (iso_day (hq_checkIn ?q)) (hq_rooms ?q) ?rows None today)"
    by (rule holdable_cases)
  have q: "ds = [sfp_checkIn p..sfp_checkOut p - 1]" "iso_day (hq_checkIn ?q) = sfp_checkIn p" "surface_key p = hold_key ?q"
    "hq_variantId ?q = hrq_variantId r" "hq_ratePlanId ?q = hrq_ratePlanId r"
    using request by (simp_all add: ds hold_query_of_def holds_searched_def surface_nights surface_hold_key)
  have last: "last ds = sfp_checkOut p - 1" "length ds = nat (sfp_checkOut p - sfp_checkIn p)" using stay by (simp_all add: q(1) upto_rec2)
  have row: "x = stay_row_of y" if read: "?rows d = Some x" "sdb_view s (hrq_variantId r, hrq_ratePlanId r, d, surface_key p) = Some y" for x y d
  proof -
    obtain a z where z: "List.find (\<lambda>(e, _). e = d) (rev (hold_view_rows listed ?q s)) = Some (a, z)" "x = stay_row_of z"
      using read(1) by (auto simp: hold_rows_by_date_def)
    then have "(a, z) \<in> set (hold_view_rows listed ?q s)" "a = d" using find_Some_mem [OF z(1)] by auto
    then show ?thesis using read(2) z(2) q
      by (auto simp: hold_view_rows_def List.map_filter_def split: if_splits option.splits)
  qed
  show False using sell refused row rows last q(2) unfolding evaluate_sellable by metis
qed

text \<open>
  C0. The public search does not look at the restrictions of a stay: a rate plan with its nights open and
  priced is listed even when the stay is too short or too long for it, too soon or too late, or arrives or
  leaves on a closed day, and no hold of that stay is then possible.
\<close>

theorem listed_stay_is_refused:
  assumes "scan_complete env p s" "plain_rows (surface_rows env p s)" "unit_on_sale env p s (request_unit productId r)"
    and "holds_searched p r"
    and "sdb_view s (hrq_variantId r, hrq_ratePlanId r, sfp_checkIn p, surface_key p) = Some first"
      "sdb_view s (hrq_variantId r, hrq_ratePlanId r, sfp_checkOut p - 1, surface_key p) = Some final"
    and "stay_restriction (nat (sfp_checkOut p - sfp_checkIn p)) (sfp_checkIn p - today) (stay_row_of first) (stay_row_of final) \<noteq> None"
  shows "productId \<in> psr_productId ` set (loadPublicSearchSurface lc digest env now p fees s) \<and>
    (\<forall>h. resolveHoldabilityFromView listed fails today (hold_query_of r productId) s \<noteq> Holdable h)"
proof
  have stay: "sfp_checkIn p < sfp_checkOut p" using assms(3) by (simp add: unit_on_sale_def)
  show "\<forall>h. resolveHoldabilityFromView listed fails today (hold_query_of r productId) s \<noteq> Holdable h"
    using restricted_not_held [OF assms(4-7) stay] by blast
  have "fst (request_unit productId r) \<in> fst ` {u. unit_on_sale env p s u}" using assms(3) by (intro imageI) simp
  then show "productId \<in> psr_productId ` set (loadPublicSearchSurface lc digest env now p fees s)"
    using listed_products [OF assms(1,2) stay] by (simp add: request_unit_def)
qed

end
