(* ===== verification/Search_Holding.thy ===== *)
theory Search_Holding
  imports Search_Correctness Hold_Correctness Availability_Meaning
begin

text \<open>
  From the search to the hold: what the view sells over materialized availability can be held, when no
  lapsed hold is waiting for its release and no two calendar events of a night share their resource.
\<close>

section \<open>Holding a stay whose nights fit\<close>

lemma reserve_night_units:
  assumes "d \<noteq> e"
  shows "heldUnits now v d (reserve_night p e db) = heldUnits now v d db"
    and "bookedUnits v d (reserve_night p e db) = bookedUnits v d db"
  using assms by (simp_all add: heldUnits_def bookedUnits_def reserve_night_def on_day_def lock_row_of_def)

lemma reserve_night_daily:
  assumes "find_daily (pr_variantId p) e db \<noteq> None"
  shows "find_daily v d (reserve_night p e db) = None \<longleftrightarrow> find_daily v d db = None"
  by (simp add: find_daily_reserve)

lemma night_fits_other:
  assumes "night_fits now p e db" "d \<noteq> e"
  shows "night_fits now p d (reserve_night p e db) \<longleftrightarrow> night_fits now p d db"
proof -
  have found: "find_daily (pr_variantId p) e db \<noteq> None" using assms(1) by (simp add: night_fits_def)
  show ?thesis
    using assms(2) unfolding night_fits_def reserve_night_daily [OF found] reserve_night_at [OF found] reserve_night_units [OF assms(2)]
    by simp
qed

lemma hold_nights_taken:
  assumes "wf_inventory db" "0 < pr_quantity p" "distinct ds" "\<forall>d \<in> set ds. night_fits now p d db"
  shows "\<exists>db'. hold_nights now p ds db = Inr db'"
  using assms
proof (induction ds arbitrary: db)
  case (Cons e ds)
  then have fits: "night_fits now p e db" by simp
  have "\<forall>d \<in> set ds. night_fits now p d (reserve_night p e db)"
    using Cons.prems(3,4) night_fits_other [OF fits] by (metis distinct.simps(2) list.set_intros(2))
  then have "\<exists>db'. hold_nights now p ds (reserve_night p e db) = Inr db'"
    using Cons.IH [OF reserve_night_wf [OF Cons.prems(1,2) fits] Cons.prems(2)] Cons.prems(3) by simp
  then show ?case using fits by (simp add: hold_night_char [OF Cons.prems(1,2)])
qed simp

text \<open>An attempt that nothing disturbs.\<close>

definition undisturbed :: "attempt_env \<Rightarrow> hold_params \<Rightarrow> inv_db \<Rightarrow> bool" where
  "undisturbed env p db \<longleftrightarrow> en_insert_fault env = None \<and> en_commit_fault env = None \<and>
     (\<forall>h \<in> set (holds db). h_id h \<noteq> pr_holdId p)"

lemma holdInventory_taken:
  assumes "wf_inventory db" "0 < pr_quantity p" "undisturbed (envs 1) p db"
    and "datesInRange (pr_checkIn p) (pr_checkOut p) \<noteq> []"
    and "\<forall>d \<in> set (datesInRange (pr_checkIn p) (pr_checkOut p)). night_fits (en_now (envs 1)) p d db"
  shows "\<exists>db'. holdInventory eng envs p db = (Inr (HoldTaken (pr_holdId p) (pr_expiresAt p)), db')"
proof -
  let ?db = "db\<lparr>holds := holds db @ [hold_row_of p]\<rparr>"
  have ins: "insert_hold eng (envs 1) p db = Inr ?db" using assms(3) by (simp add: insert_hold_def undisturbed_def)
  have same: "night_fits now p d ?db \<longleftrightarrow> night_fits now p d db" "wf_inventory ?db = wf_inventory db" for now d
    by (simp_all add: night_fits_def heldUnits_def bookedUnits_def externalBlocks_def reservedAt_def totalAt_def find_daily_def
        wf_inventory_def lockUnits_def)
  have "\<exists>db'. hold_nights (en_now (envs 1)) p (datesInRange (pr_checkIn p) (pr_checkOut p)) ?db = Inr db'"
    using assms by (intro hold_nights_taken) (simp_all add: same distinct_datesInRange)
  then show ?thesis
    using ins assms(3,4) by (auto simp: holdInventory_def hold_transaction_def undisturbed_def Let_def numeral_eq_Suc)
qed

section \<open>What a night of the view shows\<close>

text \<open>Nothing of a night but what the materialization counted stands in the way of a hold.\<close>

definition settled :: "ms \<Rightarrow> string \<Rightarrow> day \<Rightarrow> inv_db \<Rightarrow> bool" where
  "settled now v d db \<longleftrightarrow> reservedAt v d db = heldUnits now v d db + bookedUnits v d db \<and>
     externalBlocks v d db = blockedUnits v d db"

lemma heldUnits_antimono:
  assumes "wf_inventory db" "t \<le> now"
  shows "heldUnits now v d db \<le> heldUnits t v d db"
proof -
  have "total_where (\<lambda>l. on_day v d l \<and> lk_booking l = None \<and> now < lk_expires l) lk_qty ls
      \<le> total_where (\<lambda>l. on_day v d l \<and> lk_booking l = None \<and> t < lk_expires l) lk_qty ls"
    if "\<forall>l \<in> set ls. 0 < lk_qty l" for ls
    using that assms(2) by (induction ls) auto
  then show ?thesis using wf_lock_pos [OF assms(1)] by (simp add: heldUnits_def)
qed

lemma shown_night_fits:
  assumes "wf_inventory db" "shows_availability t v d db (blockedUnits v d db) a" "settled t v d db" "t \<le> now"
    and "pr_variantId p = v" "0 < pr_quantity p" "pr_quantity p \<le> ea_available a"
  shows "night_fits now p d db"
proof -
  have sum: "heldUnits t v d db + bookedUnits v d db + blockedUnits v d db + pr_quantity p \<le> totalAt v d db"
    using assms by (auto simp: shows_availability_def)
  moreover have "0 \<le> heldUnits t v d db" "0 \<le> bookedUnits v d db" "0 \<le> blockedUnits v d db"
    using held_booked_nonneg [OF assms(1)] blockedUnits_nonneg by auto
  ultimately have "find_daily v d db \<noteq> None" using assms(6) by (auto simp: totalAt_def split: option.splits)
  then show ?thesis
    using sum assms(3,5) heldUnits_antimono [OF assms(1,4), of v d] by (simp add: night_fits_def settled_def)
qed

lemma sold_units:
  assumes view: "range_schema i" "mri_from i = Some lo" "mri_to i = Some hi" "cat_product cat (mri_variantId i) = Some p"
      "plan \<in> set (range_plans (sev_text env) cat i)" "oc \<in> set (range_occupancies cat i)" "key = buildOccupancyKey oc"
    and stay: "lo \<le> first" "first < stop" "stop \<le> hi"
    and sold: "ssl_isSellable (evaluateStaySellabilityFromView (enumerateStayDates first stop) first rooms
      (view_stay (snd (materializeSearchUnitRange env cat cfg sched i s)) (mri_variantId i) plan key) currency today)"
    and d: "first \<le> d" "d < stop"
  shows "\<exists>a. find_avail (mri_variantId i) d (sdb_inventory s) = Some a \<and> max 1 rooms \<le> ea_available a"
proof -
  let ?row = "stay_row_of (candidate_row env p (night_unit i plan key d) s)"
  have "(mri_variantId i, plan, d, key) \<in> range_indices (sev_text env) cat i"
    using view stay d by (auto simp: range_indices_def)
  note row = materialized_stay [OF view(1-4) this, of cfg sched s]
  have "d \<in> set (enumerateStayDates first stop)" using d by (simp add: enumerateStayDates_def enumerateDates_days)
  then have "\<exists>r. view_stay (snd (materializeSearchUnitRange env cat cfg sched i s)) (mri_variantId i) plan key d = Some r \<and>
      day_sellable (max 1 rooms) r"
    using sold unfolding evaluate_sellable by blast
  then have "day_sellable (max 1 rooms) ?row" unfolding row by simp
  then have "max 1 rooms \<le> has_units (find_avail (mri_variantId i) d (sdb_inventory s))"
    by (simp add: night_offered)
  then show ?thesis by (auto simp: has_units_def le_max_iff_disj split: option.splits)
qed

text \<open>
  C4. From the search to the hold: when the availability of a variant is recomputed and the view of a range
  is materialized from it, a stay the search sells is held by the first undisturbed attempt at any later
  moment, for the rooms it was sold for, provided its nights are settled.
\<close>

theorem sold_stay_is_held:
  assumes inventory: "wf_inventory db" "recomputed public_deps t (mri_variantId i) first stop db (sdb_inventory s)"
    and view: "range_schema i" "mri_from i = Some lo" "mri_to i = Some hi" "cat_product cat (mri_variantId i) = Some p"
      "plan \<in> set (range_plans (sev_text env) cat i)" "oc \<in> set (range_occupancies cat i)" "key = buildOccupancyKey oc"
    and stay: "lo \<le> first" "first < stop" "stop \<le> hi"
    and sold: "ssl_isSellable (evaluateStaySellabilityFromView (enumerateStayDates first stop) first rooms
      (view_stay (snd (materializeSearchUnitRange env cat cfg sched i s)) (mri_variantId i) plan key) currency today)"
    and nights: "\<forall>d \<in> {first..<stop}. settled t (mri_variantId i) d db"
    and hold: "pr_variantId q = mri_variantId i" "pr_quantity q = max 1 rooms" "pr_checkIn q = parseDateOnly first"
      "pr_checkOut q = parseDateOnly stop" "undisturbed (envs 1) q (sdb_inventory s)" "t \<le> en_now (envs 1)"
  shows "\<exists>inv. holdInventory eng envs q (sdb_inventory s) = (Inr (HoldTaken (pr_holdId q) (pr_expiresAt q)), inv) \<and>
     hold_effect q (sdb_inventory s) inv"
proof -
  have same: "same_facts db (sdb_inventory s)" using inventory(2) by (simp add: recomputed_def)
  have wf: "wf_inventory (sdb_inventory s)" using inventory(1) same_facts_units(1) [OF same] by simp
  have dates: "datesInRange (pr_checkIn q) (pr_checkOut q) = [first..stop - 1]"
    by (simp add: hold(3,4) datesInRange_eq)
  have q: "0 < pr_quantity q" by (simp add: hold(2))
  have "night_fits (en_now (envs 1)) q d (sdb_inventory s)" if "d \<in> {first..<stop}" for d
  proof -
    have "first \<le> d" "d < stop" using that by simp_all
    from sold_units [OF view stay sold this]
    obtain a where a: "find_avail (mri_variantId i) d (sdb_inventory s) = Some a" "max 1 rooms \<le> ea_available a" by blast
    moreover have "shows_availability t (mri_variantId i) d (sdb_inventory s) (blockedUnits (mri_variantId i) d (sdb_inventory s)) a"
      using inventory(2) a(1) that same_facts_units [OF same] by (auto simp: recomputed_def shows_availability_def)
    moreover have "settled t (mri_variantId i) d (sdb_inventory s)"
      using nights that same by (simp add: settled_def same_facts_def reservedAt_def heldUnits_def bookedUnits_def
          externalBlocks_def blockedUnits_def find_daily_def)
    ultimately show ?thesis using shown_night_fits [OF wf _ _ hold(6,1) q] hold(2) by simp
  qed
  then have "\<forall>d \<in> set (datesInRange (pr_checkIn q) (pr_checkOut q)). night_fits (en_now (envs 1)) q d (sdb_inventory s)"
    by (simp add: dates)
  from holdInventory_taken [where envs = envs, OF wf q hold(5) _ this] obtain inv
    where "holdInventory eng envs q (sdb_inventory s) = (Inr (HoldTaken (pr_holdId q) (pr_expiresAt q)), inv)"
    using stay(2) by (auto simp: dates)
  with holdInventory_effect [OF wf q this] show ?thesis by blast
qed

end
