(* ===== verification/Search_Backfill.thy ===== *)
theory Search_Backfill
  imports Search_View_Correctness
begin

text \<open>
  The backfill of the search view (pages/api/internal/search/backfill.ts): an optional purge of the whole
  view by age, then the ranges of the variants asked for, one after the other. Which variants are on sale
  and the schedules of the workers are parameters; the log of the run is left out.
\<close>

section \<open>The handler\<close>

record backfill_input =
  bfi_variantId :: "string option"
  bfi_productId :: "string option"
  bfi_from :: "day option option"
  bfi_to :: "day option option"
  bfi_horizonDays :: int
  bfi_currency :: string
  bfi_purgeStaleBefore :: bool
  bfi_maxAgeMinutes :: int

definition backfill_schema :: "backfill_input \<Rightarrow> bool" where
  "backfill_schema i \<longleftrightarrow> bfi_variantId i \<noteq> Some [] \<and> bfi_productId i \<noteq> Some [] \<and> 1 \<le> bfi_horizonDays i \<and> bfi_horizonDays i \<le> 365 \<and>
     bfi_currency i \<noteq> [] \<and> 1 \<le> bfi_maxAgeMinutes i \<and> bfi_maxAgeMinutes i \<le> 24 * 60"

text \<open>The variants on sale and ready, with their products.\<close>

definition backfill_variants :: "(string \<times> string) list \<Rightarrow> backfill_input \<Rightarrow> string list" where
  "backfill_variants onSale i = filter (\<lambda>v. v \<noteq> [])
     (case bfi_variantId i of
        Some v \<Rightarrow> [v]
      | None \<Rightarrow> (case bfi_productId i of
          Some p \<Rightarrow> map fst (filter (\<lambda>(v, q). q = p) onSale)
        | None \<Rightarrow> map fst onSale))"

definition backfill_dates :: "day \<Rightarrow> backfill_input \<Rightarrow> (day \<times> day) option" where
  "backfill_dates today i =
     (case bfi_from i of
        Some None \<Rightarrow> None
      | from' \<Rightarrow> (let start = (case from' of Some (Some d) \<Rightarrow> d | _ \<Rightarrow> today)
          in case bfi_to i of Some None \<Rightarrow> None | Some (Some d) \<Rightarrow> Some (start, d)
             | None \<Rightarrow> Some (start, start + bfi_horizonDays i)))"

definition variant_range :: "string \<Rightarrow> day \<Rightarrow> day \<Rightarrow> string \<Rightarrow> range_input" where
  "variant_range v start stop currency = \<lparr>mri_variantId = v, mri_ratePlanId = None, mri_from = Some start, mri_to = Some stop,
     mri_occupancies = None, mri_currency = currency\<rparr>"

fun backfill_ranges ::
  "search_env \<Rightarrow> catalog \<Rightarrow> rat option \<Rightarrow> (string \<Rightarrow> nat list) \<Rightarrow> day \<Rightarrow> day \<Rightarrow> string \<Rightarrow> string list \<Rightarrow> nat \<Rightarrow> search_db
     \<Rightarrow> (search_error + nat) \<times> search_db" where
  "backfill_ranges env cat cfg sched start stop currency [] rows s = (Inr rows, s)"
| "backfill_ranges env cat cfg sched start stop currency (v # vs) rows s =
     (case materializeSearchUnitRange env cat cfg (sched v) (variant_range v start stop currency) s of
        (Inl e, s') \<Rightarrow> (Inl e, s')
      | (Inr n, s') \<Rightarrow> backfill_ranges env cat cfg sched start stop currency vs (rows + n) s')"

definition backfill ::
  "search_env \<Rightarrow> catalog \<Rightarrow> rat option \<Rightarrow> (string \<Rightarrow> nat list) \<Rightarrow> (string \<times> string) list \<Rightarrow> day \<Rightarrow> backfill_input \<Rightarrow> search_db
     \<Rightarrow> (search_error + nat) \<times> search_db" where
  "backfill env cat cfg sched onSale today i s =
     (if \<not> backfill_schema i then (Inl SearchSchemaError, s)
      else case backfill_dates today i of
        None \<Rightarrow> (Inl InvalidDateOnly, s)
      | Some (start, stop) \<Rightarrow>
          (let s1 = (if bfi_purgeStaleBefore i
             then purgeStaleSearchUnitRows (sev_now env) (Some (of_int (bfi_maxAgeMinutes i))) s else s)
           in backfill_ranges env cat cfg sched start stop (bfi_currency i) (backfill_variants onSale i) 0 s1))"

section \<open>What a backfill leaves\<close>

definition backfilled :: "text_env \<Rightarrow> catalog \<Rightarrow> day \<Rightarrow> day \<Rightarrow> string \<Rightarrow> string list \<Rightarrow> view_index set" where
  "backfilled te cat start stop currency vs = (\<Union>v \<in> {v \<in> set vs. cat_product cat v \<noteq> None}. range_indices te cat (variant_range v start stop currency))"

text \<open>The row the tables call for at an index, the product of its variant being known.\<close>

definition called_for :: "search_env \<Rightarrow> catalog \<Rightarrow> string \<Rightarrow> search_db \<Rightarrow> view_index \<Rightarrow> view_row" where
  "called_for env cat currency s ix = index_row env (the (cat_product cat (fst ix))) (variant_range (fst ix) 0 0 currency) s ix"

lemma called_for_view [simp]: "called_for env cat c (s\<lparr>sdb_view := w\<rparr>) = called_for env cat c s"
  by (simp add: called_for_def fun_eq_iff)

lemma view_cover_cong: "(\<And>ix. ix \<in> I \<Longrightarrow> row ix = row' ix) \<Longrightarrow> view_cover I row w = view_cover I row' w"
  by (simp add: view_cover_def fun_eq_iff)

lemma range_index_row:
  assumes "ix \<in> range_indices te cat (variant_range v a b c)" "cat_product cat v = Some p"
  shows "index_row env p (variant_range v a b c) s ix = called_for env cat c s ix"
  using assms by (auto simp: range_indices_def called_for_def index_row_def item_unit_def variant_range_def)

lemma variant_range_variant [simp]: "mri_variantId (variant_range v a b c) = v"
  by (simp add: variant_range_def)

lemma covered_variant:
  "covered_by env cat (variant_range v a b c) (range_indices (sev_text env) cat (variant_range v a b c)) s =
     s\<lparr>sdb_view := view_cover (backfilled (sev_text env) cat a b c [v]) (called_for env cat c s) (sdb_view s)\<rparr>"
proof (cases "cat_product cat v")
  case None
  then have "backfilled (sev_text env) cat a b c [v] = {}" by (auto simp: backfilled_def)
  then show ?thesis using None by (simp add: covered_by_def)
next
  case (Some p)
  have "backfilled (sev_text env) cat a b c [v] = range_indices (sev_text env) cat (variant_range v a b c)"
    using Some by (auto simp: backfilled_def)
  then show ?thesis
    using Some view_cover_cong [OF range_index_row [OF _ Some]] by (simp add: covered_by_def)
qed

lemma backfilled_Cons: "backfilled te cat a b c (v # vs) = backfilled te cat a b c vs \<union> backfilled te cat a b c [v]"
  by (auto simp: backfilled_def)

lemma backfill_ranges_run:
  assumes "c \<noteq> []"
  shows "[] \<notin> set vs \<Longrightarrow> \<exists>n. backfill_ranges env cat cfg sched a b c vs rows s =
     (Inr n, s\<lparr>sdb_view := view_cover (backfilled (sev_text env) cat a b c vs) (called_for env cat c s) (sdb_view s)\<rparr>)"
proof (induction vs arbitrary: rows s)
  case Nil
  then show ?case by (simp add: backfilled_def)
next
  case (Cons v vs)
  have "range_schema (variant_range v a b c)" using Cons.prems assms by (auto simp: range_schema_def variant_range_def)
  from range_runs [OF this, of a b env cat cfg "sched v" s]
  obtain n where run: "materializeSearchUnitRange env cat cfg (sched v) (variant_range v a b c) s =
      (Inr n, s\<lparr>sdb_view := view_cover (backfilled (sev_text env) cat a b c [v]) (called_for env cat c s) (sdb_view s)\<rparr>)"
    by (simp add: covered_variant) (simp add: variant_range_def)
  have "[] \<notin> set vs" using Cons.prems by simp
  note step = Cons.IH [OF this, of "rows + n"
    "s\<lparr>sdb_view := view_cover (backfilled (sev_text env) cat a b c [v]) (called_for env cat c s) (sdb_view s)\<rparr>"]
  show ?case
    unfolding backfilled_Cons [of _ _ _ _ _ v vs] view_cover_cover [symmetric] using step by (simp add: run)
qed

text \<open>What the purge keeps.\<close>

definition kept_rows :: "ms \<Rightarrow> backfill_input \<Rightarrow> (view_index \<Rightarrow> view_row option) \<Rightarrow> view_index \<Rightarrow> view_row option" where
  "kept_rows now i w ix =
     (case w ix of Some r \<Rightarrow> if bfi_purgeStaleBefore i \<and> suv_computedAt r < now - bfi_maxAgeMinutes i * 60000 then None else Some r
      | None \<Rightarrow> None)"

lemma kept_rows_purge:
  assumes "backfill_schema i"
  shows "(if bfi_purgeStaleBefore i then purgeStaleSearchUnitRows now (Some (of_int (bfi_maxAgeMinutes i))) s else s) =
     s\<lparr>sdb_view := kept_rows now i (sdb_view s)\<rparr>"
proof -
  have "1 \<le> bfi_maxAgeMinutes i" using assms by (simp add: backfill_schema_def)
  then have m: "max 1 (rat_of_int (bfi_maxAgeMinutes i)) = of_int (bfi_maxAgeMinutes i)" by simp
  have c: "rat_of_int a < of_int now - of_int n * 60000 \<longleftrightarrow> a < now - n * 60000" for a n
    using of_int_less_iff [of a "now - n * 60000", where 'a = rat] by simp
  have "(\<lambda>ix. case sdb_view s ix of None \<Rightarrow> None | Some r \<Rightarrow> Some r) = sdb_view s"
    by (simp add: fun_eq_iff split: option.split)
  then show ?thesis
    by (auto simp: purgeStaleSearchUnitRows_def kept_rows_def m c Let_def fun_eq_iff split: option.split)
qed

lemma backfill_outcome:
  assumes "backfill_schema i" "backfill_dates today i = Some (start, stop)"
  shows "\<exists>n. backfill env cat cfg sched onSale today i s = (Inr n, s\<lparr>sdb_view := view_cover
     (backfilled (sev_text env) cat start stop (bfi_currency i) (backfill_variants onSale i))
     (called_for env cat (bfi_currency i) s) (kept_rows (sev_now env) i (sdb_view s))\<rparr>)"
proof -
  have "[] \<notin> set (backfill_variants onSale i)" "bfi_currency i \<noteq> []"
    using assms(1) by (simp_all add: backfill_variants_def backfill_schema_def)
  from backfill_ranges_run [OF this(2,1), of env cat cfg sched start stop 0 "s\<lparr>sdb_view := kept_rows (sev_now env) i (sdb_view s)\<rparr>"]
  show ?thesis using assms by (simp add: backfill_def kept_rows_purge)
qed

text \<open>
  A backfill leaves the rows of its own variants, nights and occupancies agreeing with the tables, in
  every schedule of its workers, and of all other rows of the view it deletes exactly those computed before
  the cutoff when it purges, whether or not they still agree with the tables.
\<close>

theorem backfill_result:
  assumes "backfill_schema i" "backfill_dates today i = Some (start, stop)"
  shows "\<exists>n s'. backfill env cat cfg sched onSale today i s = (Inr n, s') \<and> s' = s\<lparr>sdb_view := sdb_view s'\<rparr> \<and>
     (\<forall>ix. if ix \<in> backfilled (sev_text env) cat start stop (bfi_currency i) (backfill_variants onSale i)
       then \<not> hasMaterializationDrift (sdb_view s' ix) (called_for env cat (bfi_currency i) s ix)
       else sdb_view s' ix = kept_rows (sev_now env) i (sdb_view s) ix)"
  using backfill_outcome [OF assms, of env cat cfg sched onSale s] by (auto simp: view_cover_def)

text \<open>
  A purging backfill of one variant deletes the rows of every other variant that are older than the
  cutoff, and a materialization that finds such a row still right does not make it younger: the search shows
  no such row until its variant is backfilled itself.
\<close>

theorem backfill_drops_other_variants:
  assumes input: "backfill_schema i" "backfill_dates today i = Some (start, stop)" "bfi_purgeStaleBefore i" "bfi_variantId i = Some v"
    and row: "sdb_view s (w, plan, d, key) = Some r" "w \<noteq> v" "suv_computedAt r < sev_now env - bfi_maxAgeMinutes i * 60000"
    and again: "range_schema m" "mri_from m = Some lo" "mri_to m = Some hi"
      "(w, plan, d, key) \<in> range_indices (sev_text env') cat m" "cat_product cat w = Some p"
      "\<not> hasMaterializationDrift (Some r) (index_row env' p m s (w, plan, d, key))"
  shows "sdb_view (snd (backfill env cat cfg sched onSale today i (snd (materializeSearchUnitRange env' cat cfg' sched' m s)))) (w, plan, d, key) = None"
proof -
  have m: "mri_variantId m = w" using again(4) by (simp add: range_indices_def)
  have kept: "sdb_view (snd (materializeSearchUnitRange env' cat cfg' sched' m s)) (w, plan, d, key) = Some r"
    using again m row(1) by (simp add: range_runs covered_by_def view_cover_def no_drift_merged)
  have "(w, plan, d, key) \<notin> backfilled (sev_text env) cat start stop (bfi_currency i) (backfill_variants onSale i)"
    using input(4) row(2) by (auto simp: backfilled_def backfill_variants_def range_indices_def variant_range_def)
  then show ?thesis
    using backfill_outcome [OF input(1,2), of env cat cfg sched onSale "snd (materializeSearchUnitRange env' cat cfg' sched' m s)"]
      kept row(3) input(3) by (auto simp: view_cover_def kept_rows_def)
qed

end
