(* ===== verification/Search_Example.thy ===== *)
theory Search_Example
  imports Search_Holding Search_Backfill Pricing_Rules_Correctness
begin

text \<open>
  A variant with two units, a rate plan, a rule of at least two nights and its prices: the facts of the
  search applied to it.
\<close>

section \<open>The variant\<close>

definition ex_catalog :: catalog where
  "ex_catalog = \<lparr>cat_product = (\<lambda>v. if v = [] then None else Some (''p'', ''hotel'')), cat_activePlans = (\<lambda>_. [''rp'']),
     cat_defaultPlans = (\<lambda>_. [''rp'']), cat_variantsOfProduct = (\<lambda>_. [''v'']), cat_variantOfPlan = (\<lambda>_. Some ''v''),
     cat_capacity = (\<lambda>_. None), cat_planNames = [(''rp'', None)]\<rparr>"

definition ex_search_env :: search_env where
  "ex_search_env = \<lparr>sev_text = ex_text, sev_sha1 = (\<lambda>_. []), sev_now = 0, sev_rowId = (\<lambda>_. ''row''),
     sev_policyBlockerEnabled = True, sev_missingPolicies = (\<lambda>_ _ _ _ _. Some 0)\<rparr>"

definition ex_min_los :: "string \<Rightarrow> rat option \<Rightarrow> rule_row" where
  "ex_min_los type val = \<lparr>cru_id = ''r'', cru_providerId = ''p'', cru_ruleSetId = ''s'', cru_category = ''restriction'',
     cru_type = type, cru_name = None, cru_value = val, cru_config = SellConfig (Some 5) (Some 20) [],
     cru_idempotencyKey = None, cru_payloadHash = None, cru_priority = 10, cru_isActive = True, cru_createdAt = 1\<rparr>"

definition ex_two_nights :: application_row where
  "ex_two_nights = \<lparr>apl_id = ''a'', apl_providerId = ''p'', apl_ruleSetId = ''s'', apl_ruleId = ''r'', apl_scope = ''variant'',
     apl_scopeId = ''v'', apl_startDate = Some (Some 5), apl_endDate = Some (Some 20), apl_validDays = None, apl_isActive = True\<rparr>"

definition ex_restriction_rules :: "string \<Rightarrow> rat option \<Rightarrow> rules_db" where
  "ex_restriction_rules type val = \<lparr>rdb_sets = [], rdb_rules = [ex_min_los type val], rdb_applications = [ex_two_nights]\<rparr>"

definition ex_restricted :: "(restriction_error + restriction_result) \<times> restriction_row list" where
  "ex_restricted = recomputeEffectiveRestrictionsForVariantRange ex_catalog (\<lambda>v p d. v @ p) 0
     (ex_restriction_rules ''min_los'' (Some 2)) ''v'' (Some 10) (Some 12) []"

definition ex_available where
  "ex_available = recomputeEffectiveAvailabilityRange public_deps (\<lambda>v d. v) (quiet_recompute 5) example_input example_inv"

definition ex_price :: "day \<Rightarrow> effective_row" where
  "ex_price d = \<lparr>efp_id = ''e'', efp_variantId = ''v'', efp_ratePlanId = ''rp'', efp_date = d, efp_occupancyKey = ''a2_c0_i0'',
     efp_baseComponent = 100, efp_occupancyAdjustment = 0, efp_ruleAdjustment = 0, efp_finalBasePrice = 100,
     efp_currency = ''USD'', efp_computedAt = 0, efp_sourceVersion = []\<rparr>"

definition ex_search_db :: search_db where
  "ex_search_db = \<lparr>sdb_inventory = snd ex_available,
     sdb_pricing = \<lparr>pdb_rules = ex_restriction_rules ''min_los'' (Some 2), pdb_policies = [],
       pdb_effective = (\<lambda>(plan, d, key). if plan = ''rp'' \<and> key = ''a2_c0_i0'' then [ex_price d] else [])\<rparr>,
     sdb_restrictions = snd ex_restricted, sdb_view = (\<lambda>_. None)\<rparr>"

definition ex_range :: range_input where
  "ex_range = \<lparr>mri_variantId = ''v'', mri_ratePlanId = None, mri_from = Some 10, mri_to = Some 12,
     mri_occupancies = Some [\<lparr>oc_adults = 2, oc_children = 0, oc_infants = 0\<rparr>], mri_currency = ''USD''\<rparr>"

definition ex_materialized :: search_db where
  "ex_materialized = snd (materializeSearchUnitRange ex_search_env ex_catalog None [1, 0] ex_range ex_search_db)"

definition ex_sold :: "day \<Rightarrow> day \<Rightarrow> search_sellability" where
  "ex_sold first stop = evaluateStaySellabilityFromView (enumerateStayDates first stop) first 1
     (view_stay ex_materialized ''v'' ''rp'' ''a2_c0_i0'') None 1"

lemma ex_restricted_ok: "\<exists>res. ex_restricted = (Inr res, snd ex_restricted)"
proof -
  have "case fst ex_restricted of Inr r \<Rightarrow> True | Inl e \<Rightarrow> False" by code_simp
  then obtain res where "fst ex_restricted = Inr res" by (auto split: sum.splits)
  then show ?thesis by (metis prod.collapse)
qed

lemma ex_available_ok: "\<exists>res. ex_available = (Inr res, snd ex_available)"
proof -
  have "case fst ex_available of Inr r \<Rightarrow> True | Inl e \<Rightarrow> False" by code_simp
  then obtain res where "fst ex_available = Inr res" by (auto split: sum.splits)
  then show ?thesis by (metis prod.collapse)
qed

lemma ex_range_facts:
  "range_schema ex_range" "mri_from ex_range = Some 10" "mri_to ex_range = Some 12" "mri_variantId ex_range = ''v''"
  "cat_product ex_catalog ''v'' = Some (''p'', ''hotel'')" "range_plans (sev_text ex_search_env) ex_catalog ex_range = [''rp'']"
  "range_occupancies ex_catalog ex_range = [\<lparr>oc_adults = 2, oc_children = 0, oc_infants = 0\<rparr>]"
  by (code_simp+)

lemma ex_two_adults: "''a2_c0_i0'' = buildOccupancyKey \<lparr>oc_adults = 2, oc_children = 0, oc_infants = 0\<rparr>"
  by code_simp

text \<open>The view the example variant is materialized to, written out.\<close>

definition ex_view_row :: view_row where
  "ex_view_row = \<lparr>suv_id = ''row'', suv_productId = ''p'', suv_totalGuests = 2, suv_hasAvailability = True, suv_hasPrice = True,
     suv_isAvailable = True, suv_availableUnits = 2, suv_pricePerNight = Some 100, suv_currency = ''USD'', suv_primaryBlocker = None,
     suv_minStay = Some 2, suv_maxStay = None, suv_minLeadTime = None, suv_maxLeadTime = None, suv_cta = False, suv_ctd = False,
     suv_computedAt = 0, suv_sourceVersion = []\<rparr>"

definition ex_view :: "inv_db \<Rightarrow> restriction_row list \<Rightarrow> search_db" where
  "ex_view store rows = \<lparr>sdb_inventory = store,
     sdb_pricing = \<lparr>pdb_rules = ex_restriction_rules ''min_los'' (Some 2), pdb_policies = [],
       pdb_effective = (\<lambda>(plan, d, key). if plan = ''rp'' \<and> key = ''a2_c0_i0'' then [ex_price d] else [])\<rparr>,
     sdb_restrictions = rows,
     sdb_view = (\<lambda>(v, plan, d, key). if v = ''v'' \<and> plan = ''rp'' \<and> (d = 10 \<or> d = 11) \<and> key = ''a2_c0_i0''
       then Some ex_view_row else None)\<rparr>"

lemma ex_materialized_run:
  "ex_materialized = ex_search_db\<lparr>sdb_view := view_cover (range_indices (sev_text ex_search_env) ex_catalog ex_range)
     (index_row ex_search_env (''p'', ''hotel'') ex_range ex_search_db) (\<lambda>_. None)\<rparr>"
proof -
  have "sdb_view ex_search_db = (\<lambda>_. None)" by (simp add: ex_search_db_def)
  then show ?thesis
    using range_runs [OF ex_range_facts(1-3), of ex_search_env ex_catalog None "[1, 0]" ex_search_db]
    by (simp add: ex_materialized_def covered_by_def ex_range_facts)
qed

lemma ex_materialized_view: "ex_materialized = ex_view (sdb_inventory ex_search_db) (sdb_restrictions ex_search_db)"
proof -
  have rows: "map (\<lambda>d. sdb_view ex_materialized (''v'', ''rp'', d, ''a2_c0_i0'')) [10, 11] = [Some ex_view_row, Some ex_view_row]"
    by code_simp
  note run = ex_materialized_run
  have "sdb_view ex_materialized = sdb_view (ex_view i rs)" for i rs
  proof
    fix ix :: view_index
    show "sdb_view ex_materialized ix = sdb_view (ex_view i rs) ix"
    proof (cases "ix \<in> range_indices (sev_text ex_search_env) ex_catalog ex_range")
      case True
      then obtain d where ix: "ix = (''v'', ''rp'', d, ''a2_c0_i0'')" "10 \<le> d" "d < 12"
        using ex_range_facts by (auto simp: range_indices_def ex_two_adults)
      moreover from ix(2,3) have "d = 10 \<or> d = 11" by linarith
      ultimately show ?thesis using rows by (auto simp: ex_view_def)
    next
      case False
      then have "sdb_view ex_materialized ix = None" by (simp add: run view_cover_def)
      moreover have "sdb_view (ex_view i rs) ix = None"
        using False ex_range_facts by (cases ix) (auto simp: ex_view_def range_indices_def ex_two_adults)
      ultimately show ?thesis by simp
    qed
  qed
  moreover have "sdb_pricing ex_materialized = sdb_pricing ex_search_db" "sdb_inventory ex_materialized = sdb_inventory ex_search_db"
    "sdb_restrictions ex_materialized = sdb_restrictions ex_search_db" by (simp_all add: run)
  ultimately show ?thesis by (intro search_db.equality) (simp_all add: ex_view_def ex_search_db_def)
qed

text \<open>The tables the view came from do not matter for what is read from the view.\<close>

lemma ex_materialized_reads:
  obtains store rows where "ex_materialized = ex_view store rows"
  using ex_materialized_view by blast

section \<open>The view and the restrictions\<close>


theorem view_idempotent_witness:
  "snd (materializeSearchUnitRange (ex_search_env\<lparr>sev_now := 99, sev_rowId := (\<lambda>_. ''other'')\<rparr>) ex_catalog (Some 2) [] ex_range
     ex_materialized) = ex_materialized"
  unfolding ex_materialized_def by (rule view_idempotent [OF ex_range_facts(1-3)])

theorem restrictions_refine_rules_witness:
  "\<exists>r. restriction_at (snd ex_restricted) (''v'', Some ''rp'', 11) = Some r \<and>
     same_restriction r (projection ex_catalog (\<lambda>v p d. v @ p) 0 (ex_restriction_rules ''min_los'' (Some 2)) ''v'' ''rp'' 11)"
proof -
  obtain res where run: "ex_restricted = (Inr res, snd ex_restricted)" using ex_restricted_ok by blast
  have "unique_restrictions []" "distinct (cat_activePlans ex_catalog ''v'')"
    by (simp_all add: unique_restrictions_def ex_catalog_def)
  moreover have "(''v'', Some ''rp'', 11) \<in> projected_indices ex_catalog ''v'' 10 12"
    by (simp add: projected_indices_def ex_catalog_def)
  ultimately show ?thesis using restrictions_refine_rules run unfolding ex_restricted_def by blast
qed

theorem valueless_longest_stay_witness:
  "err_maxStay (projection ex_catalog (\<lambda>v p d. v @ p) 0 (ex_restriction_rules ''max_los'' None) ''v'' ''rp'' 11) = Some 1"
proof -
  have rule: "hd (night_rules ex_catalog ''v'' ''rp'' 11 (ex_restriction_rules ''max_los'' None)) \<in>
      set (night_rules ex_catalog ''v'' ''rp'' 11 (ex_restriction_rules ''max_los'' None))"
    by (rule hd_in_set) code_simp
  have facts: "rtr_type (hd (night_rules ex_catalog ''v'' ''rp'' 11 (ex_restriction_rules ''max_los'' None))) = ''max_los''"
    "rtr_value (hd (night_rules ex_catalog ''v'' ''rp'' 11 (ex_restriction_rules ''max_los'' None))) = None"
    by (code_simp+)
  show ?thesis by (rule valueless_longest_stay [OF rule facts])
qed

section \<open>What is sold and held\<close>

lemma ex_view_sold: "ssl_isSellable (ex_sold 10 12)" "\<not> ssl_isSellable (ex_sold 10 11)"
proof -
  obtain store rows where db: "ex_materialized = ex_view store rows" by (rule ex_materialized_reads)
  show "ssl_isSellable (ex_sold 10 12)" "\<not> ssl_isSellable (ex_sold 10 11)" unfolding ex_sold_def db by code_simp+
qed


lemma ex_recomputed: "recomputed public_deps 5 ''v'' 10 12 example_inv (sdb_inventory ex_search_db)"
proof -
  have named: "locks_named example_inv" by (simp add: locks_named_def example_inv_def)
  obtain res where "ex_available = (Inr res, sdb_inventory ex_search_db)"
    using ex_available_ok by (auto simp: ex_search_db_def)
  from recompute_meets [OF example_inv_wf named repo_deps_both(1) public_store.recompute_store_axioms this [unfolded ex_available_def]]
  show ?thesis by (auto simp: example_input_def quiet_recompute_def)
qed

theorem sold_stay_is_held_witness:
  "\<exists>inv. holdInventory postgres_engine (\<lambda>_. \<lparr>en_now = 9, en_insert_fault = None, en_commit_fault = None\<rparr>) example_params
       (sdb_inventory ex_search_db) = (Inr (HoldTaken ''h1'' 600000), inv) \<and>
     hold_effect example_params (sdb_inventory ex_search_db) inv"
proof -
  have "list_all (\<lambda>d. settled 5 ''v'' d example_inv) [10, 11]" by code_simp
  moreover have "{10..<12} = {10, 11 :: int}" by auto
  ultimately have settled: "\<forall>d \<in> {10..<12}. settled 5 (mri_variantId ex_range) d example_inv"
    by (simp add: ex_range_facts)
  have fresh: "undisturbed \<lparr>en_now = 9, en_insert_fault = None, en_commit_fault = None\<rparr> example_params (sdb_inventory ex_search_db)"
    by code_simp
  have sold: "ssl_isSellable (evaluateStaySellabilityFromView (enumerateStayDates 10 12) 10 1
      (view_stay (snd (materializeSearchUnitRange ex_search_env ex_catalog None [1, 0] ex_range ex_search_db)) (mri_variantId ex_range)
        ''rp'' ''a2_c0_i0'') None 1)"
    using ex_view_sold(1) by (simp add: ex_sold_def ex_materialized_def ex_range_facts)
  show ?thesis
    using sold_stay_is_held [OF example_inv_wf _ ex_range_facts(1-3) _ _ _ ex_two_adults _ _ _ sold settled, where p = "(''p'', ''hotel'')"
        and q = example_params and envs = "\<lambda>_. \<lparr>en_now = 9, en_insert_fault = None, en_commit_fault = None\<rparr>" and eng = postgres_engine]
      ex_recomputed fresh by (simp add: ex_range_facts example_params_def)
qed

section \<open>The backfill\<close>

definition ex_backfill :: "string \<Rightarrow> backfill_input" where
  "ex_backfill v = \<lparr>bfi_variantId = Some v, bfi_productId = None, bfi_from = Some (Some 10), bfi_to = Some (Some 12),
     bfi_horizonDays = 90, bfi_currency = ''USD'', bfi_purgeStaleBefore = True, bfi_maxAgeMinutes = 60\<rparr>"

definition ex_later :: search_env where
  "ex_later = ex_search_env\<lparr>sev_now := 3600001\<rparr>"

lemma ex_backfill_facts:
  "backfill_schema (ex_backfill ''w'')" "backfill_dates 1 (ex_backfill ''w'') = Some (10, 12)"
  "bfi_purgeStaleBefore (ex_backfill ''w'')" "bfi_variantId (ex_backfill ''w'') = Some ''w''"
  "bfi_maxAgeMinutes (ex_backfill ''w'') = 60"
  by (simp_all add: backfill_schema_def backfill_dates_def ex_backfill_def)

theorem backfill_result_witness:
  "\<exists>n. fst (backfill ex_later ex_catalog None (\<lambda>_. []) [] 1 (ex_backfill ''w'') ex_materialized) = Inr n"
  using backfill_result [OF ex_backfill_facts(1,2), of ex_later ex_catalog None "\<lambda>_. []" "[]" ex_materialized] by auto

theorem backfill_drops_other_variants_witness:
  "sdb_view ex_materialized (''v'', ''rp'', 10, ''a2_c0_i0'') \<noteq> None \<and>
   sdb_view (snd (backfill ex_later ex_catalog None (\<lambda>_. []) [] 1 (ex_backfill ''w'')
     (snd (materializeSearchUnitRange ex_search_env ex_catalog None [] ex_range ex_materialized)))) (''v'', ''rp'', 10, ''a2_c0_i0'') = None"
proof -
  let ?ix = "(''v'', ''rp'', 10 :: int, ''a2_c0_i0'')"
  have ix: "?ix \<in> range_indices (sev_text ex_search_env) ex_catalog ex_range"
    by (simp add: range_indices_def ex_range_facts ex_two_adults)
  obtain r where r: "sdb_view ex_materialized ?ix = Some r" "suv_computedAt r = 0"
    by (simp add: ex_materialized_view ex_view_def ex_view_row_def)
  then have old: "suv_computedAt r < sev_now ex_later - bfi_maxAgeMinutes (ex_backfill ''w'') * 60000"
    by (simp add: ex_later_def ex_search_env_def ex_backfill_facts)
  have "index_row ex_search_env (''p'', ''hotel'') ex_range ex_materialized = index_row ex_search_env (''p'', ''hotel'') ex_range ex_search_db"
    by (simp add: ex_materialized_run)
  then have "\<not> hasMaterializationDrift (sdb_view ex_materialized ?ix)
      (index_row ex_search_env (''p'', ''hotel'') ex_range ex_materialized ?ix)"
    using ix by (simp add: ex_materialized_run view_cover_def)
  then have fresh: "\<not> hasMaterializationDrift (Some r) (index_row ex_search_env (''p'', ''hotel'') ex_range ex_materialized ?ix)"
    by (simp add: r)
  show ?thesis
    using r(1) backfill_drops_other_variants [OF ex_backfill_facts(1-4) r(1) _ old ex_range_facts(1-3) ix ex_range_facts(5) fresh] by simp
qed

end
