(* ===== verification/Search_Offers_Example.thy ===== *)
theory Search_Offers_Example
  imports Search_Example Search_Offers_Correctness
begin

text \<open>The offers of the example variant.\<close>

definition ex_offers_input :: offers_input where
  "ex_offers_input = \<lparr>ofi_productId = ''p'', ofi_checkIn = 10, ofi_checkOut = 12, ofi_rooms = Some 1, ofi_adults = Some 2,
     ofi_children = Some 0, ofi_infants = Some 0, ofi_currency = None\<rparr>"

definition ex_offered :: offers_result where
  "ex_offered = resolveSearchOffers 1 ex_offers_input (search_repository (\<lambda>_. [''v'']) ex_catalog ex_materialized)"

definition ex_bucket :: "unit_view_row list" where
  "ex_bucket = listSearchUnitViewRows ex_catalog ex_materialized [''v''] 10 12 ''a2_c0_i0''"

lemma ex_offered_one: "map (\<lambda>u. (uof_variantId u, map (\<lambda>o'. (pof_ratePlanId o', pof_totalPrice o')) (uof_ratePlans u))) (ofs_offers ex_offered) =
    [(''v'', [(''rp'', 200)])]"
proof -
  obtain store rows where db: "ex_materialized = ex_view store rows" by (rule ex_materialized_reads)
  show ?thesis unfolding ex_offered_def db by code_simp
qed

lemma ex_offers_key: "offers_key ex_offers_input = ''a2_c0_i0''"
  by code_simp

theorem offers_are_sold_stays_witness:
  "(\<Sum>d\<leftarrow>[10..11]. efp_finalBasePrice (the (pricing_row ''v'' ''rp'' d ''a2_c0_i0'' ex_materialized))) = 200"
proof -
  obtain u where u: "ofs_offers ex_offered = [u]" "uof_variantId u = ''v''"
    "map (\<lambda>o'. (pof_ratePlanId o', pof_totalPrice o')) (uof_ratePlans u) = [(''rp'', 200)]"
    using ex_offered_one by auto
  then obtain offer where offer: "uof_ratePlans u = [offer]" "pof_ratePlanId offer = ''rp''" "pof_totalPrice offer = 200" by auto
  have unique: "distinct (map efp_variantId (pdb_effective (sdb_pricing ex_materialized) (plan, d, offers_key ex_offers_input)))" for plan d
    by (simp add: ex_materialized_view ex_view_def)
  have "\<forall>v \<in> set [''v'']. plain_id v" by (simp add: plain_id_def)
  from offers_are_sold_stays [OF this unique, of u 1 ex_catalog offer] u offer
  show ?thesis by (simp add: ex_offered_def ex_offers_key) (simp add: ex_offers_input_def)
qed

theorem short_of_rooms_is_missing_coverage_witness:
  "ssl_reasonCodes (evaluateStaySellabilityFromView [10, 11] 10 3 (view_stay ex_materialized ''v'' ''rp'' ''a2_c0_i0'') None 1) = [MISSING_COVERAGE]"
proof -
  obtain store rows where db: "ex_materialized = ex_view store rows" by (rule ex_materialized_reads)
  let ?rows = "view_stay ex_materialized ''v'' ''rp'' ''a2_c0_i0''"
  have open_nights: "list_all (\<lambda>d. case ?rows d of Some r \<Rightarrow> syr_primaryBlocker r = None | None \<Rightarrow> False) [10, 11]" unfolding db by code_simp
  have rules: "case ?rows 10 of Some r \<Rightarrow> stay_restriction 2 9 r (the (?rows 11)) = None | None \<Rightarrow> False" unfolding db by code_simp
  have refused: "\<not> ssl_isSellable (evaluateStaySellabilityFromView [10, 11] 10 3 ?rows None 1)" unfolding db by code_simp
  obtain first where first: "?rows 10 = Some first" "stay_restriction 2 9 first (the (?rows 11)) = None"
    using rules by (cases "?rows 10") auto
  show ?thesis
    using short_of_rooms_is_missing_coverage [OF _ _ first(1) _ refused] open_nights first(2)
    by (auto simp: numeral_2_eq_2 split: option.splits)
qed

theorem sellable_without_price_witness:
  "\<exists>flags e. bucket_offer ex_offers_input 1 [10, 11] [] ''v'' ex_bucket = (flags, Some (''v:rp'', e), None) \<and>
     ssl_isSellable e \<and> ssl_base e = None"
proof -
  obtain store rows where db: "ex_materialized = ex_view store rows" by (rule ex_materialized_reads)
  have "ex_bucket \<noteq> []" unfolding ex_bucket_def db by code_simp
  moreover have plan: "uvr_ratePlanId (hd ex_bucket) = ''rp''" unfolding ex_bucket_def db by code_simp
  moreover have "is_currency (bucket_currency (ofi_currency ex_offers_input) ex_bucket)" unfolding ex_bucket_def db by code_simp
  moreover have "ssl_isSellable (evaluateStaySellabilityFromView [10, 11] (ofi_checkIn ex_offers_input)
      (max 1 (case ofi_rooms ex_offers_input of None \<Rightarrow> 1 | Some n \<Rightarrow> n)) (rows_by_date ex_bucket) (ofi_currency ex_offers_input) 1)"
    unfolding ex_bucket_def db by code_simp
  moreover have "price_key ''v'' ''rp'' 10 [] = None" by code_simp
  ultimately show ?thesis using sellable_without_price [of ex_bucket ex_offers_input "[10, 11]" 1 10 "''v''" "[]"] by auto
qed

end
