(* ===== verification/Tax_Fee_Commands.thy ===== *)
theory Tax_Fee_Commands
  imports Tax_Fee_Store
begin

text \<open>
  Changing taxes and fees: the use cases \<open>create-tax-fee-definition.ts\<close>,
  \<open>update-tax-fee-definition.ts\<close> and \<open>assign-tax-fee.ts\<close>, drafts and publication
  (\<open>lib/taxes-fees/tax-fee-versioning.ts\<close>), and the handlers of
  \<open>pages/api/provider/tax-fees/definitions.ts\<close> and \<open>assignments.ts\<close>.

  A generated identifier is an argument. A transaction that fails leaves the tables as they were. The
  constraints of the tables of taxes and fees are kept; foreign keys to other tables, the author of a
  row, the provider audit log and the cache invalidations are left out. Upper case is the ASCII one.
\<close>

section \<open>Validation and rows\<close>

datatype fee_error = FeeError string | PublicationConflict | SnapshotError | StoreRejected

record fee_input =
  fin_providerId :: string
  fin_terms :: fee_terms
  fin_status :: "string option"
  fin_editingState :: "string option"

definition code_char :: "char \<Rightarrow> bool" where
  "code_char c = (65 \<le> char_code c \<and> char_code c \<le> 90 \<or> 48 \<le> char_code c \<and> char_code c \<le> 57 \<or> c = CHR ''_'')"

text \<open>The checks both use cases make on the fields, in their order; the code is trimmed first.\<close>

definition invalid_terms :: "fee_terms \<Rightarrow> string option" where
  "invalid_terms t = (let code = js_trim (ft_code t) in
     if code = [] then Some ''Invalid code: required''
     else if code \<noteq> js_upper code then Some ''Invalid code: must be uppercase''
     else if \<not> list_all code_char code then Some ''Invalid code: only A-Z, 0-9, and underscore allowed''
     else if ft_kind t \<notin> set KINDS then Some ''Invalid kind''
     else if ft_calculationType t \<notin> set CALC_TYPES then Some ''Invalid calculation_type''
     else if ft_inclusionType t \<notin> set INCLUSION then Some ''Invalid inclusion_type''
     else if ft_appliesPer t \<notin> set APPLIES_PER then Some ''Invalid applies_per''
     else if ft_value t \<le> 0 then Some ''Invalid value: must be > 0''
     else if ft_calculationType t = ''fixed'' \<and> text_or_empty (ft_currency t) = []
       then Some ''Currency required for fixed tax/fee''
     else if ft_calculationType t = ''percentage'' \<and> text_or_empty (ft_currency t) \<noteq> []
       then Some ''Currency not allowed for percentage tax/fee''
     else if (case (ft_effectiveFrom t, ft_effectiveTo t) of (Some f, Some e) \<Rightarrow> e \<le> f | _ \<Rightarrow> False)
       then Some ''Invalid effective dates: effective_from must be < effective_to''
     else None)"

text \<open>A published definition has a current version: the deferred trigger on the table.\<close>

definition publication_ok :: "fee_definition \<Rightarrow> bool" where
  "publication_ok d \<longleftrightarrow> (fd_editingState d = ''published'' \<longrightarrow> fd_currentVersionId d \<noteq> None)"

definition createDefinition :: "fee_definition \<Rightarrow> fee_db \<Rightarrow> fee_error + fee_db" where
  "createDefinition d db =
     (if list_ex (\<lambda>e. fd_id e = fd_id d) (fdb_definitions db) \<or> \<not> publication_ok d then Inl StoreRejected
      else Inr (db\<lparr>fdb_definitions := fdb_definitions db @ [d]\<rparr>))"

definition update_definition :: "string \<Rightarrow> (fee_definition \<Rightarrow> fee_definition) \<Rightarrow> fee_db \<Rightarrow> fee_db" where
  "update_definition i f db = db\<lparr>fdb_definitions := update_rows (\<lambda>d. fd_id d = i) f (fdb_definitions db)\<rparr>"

section \<open>The use cases\<close>

definition createTaxFeeDefinition :: "string \<Rightarrow> ms \<Rightarrow> fee_input \<Rightarrow> fee_db \<Rightarrow> fee_error + fee_db" where
  "createTaxFeeDefinition uuid now p db =
     (let providerId = js_trim (fin_providerId p); t = fin_terms p; code = js_trim (ft_code t) in
      if providerId = [] then Inl (FeeError ''Provider required'')
      else case invalid_terms t of
        Some message \<Rightarrow> Inl (FeeError message)
      | None \<Rightarrow>
          if findActiveDefinitionByCodeProvider code providerId db \<noteq> None
          then Inl (FeeError ''Duplicate active definition for code'')
          else createDefinition
            \<lparr>fd_id = uuid, fd_providerId = providerId, fd_terms = t\<lparr>ft_code := code\<rparr>,
             fd_status = (case fin_status p of None \<Rightarrow> ''active'' | Some s \<Rightarrow> s),
             fd_editingState = (case fin_editingState p of None \<Rightarrow> ''draft'' | Some s \<Rightarrow> s),
             fd_currentVersionId = None, fd_createdAt = now, fd_updatedAt = now\<rparr> db)"

definition updateTaxFeeDefinition :: "string \<Rightarrow> ms \<Rightarrow> fee_input \<Rightarrow> fee_db \<Rightarrow> fee_error + fee_db" where
  "updateTaxFeeDefinition i now p db =
     (let providerId = js_trim (fin_providerId p); t = fin_terms p; code = js_trim (ft_code t) in
      if providerId = [] then Inl (FeeError ''Provider required'')
      else case getDefinitionById i db of
        None \<Rightarrow> Inl (FeeError ''Tax/fee definition not found'')
      | Some existing \<Rightarrow>
          if fd_providerId existing \<noteq> providerId then Inl (FeeError ''Not found'')
          else case invalid_terms t of
            Some message \<Rightarrow> Inl (FeeError message)
          | None \<Rightarrow>
              if (case findActiveDefinitionByCodeProvider code providerId db of None \<Rightarrow> False | Some d \<Rightarrow> fd_id d \<noteq> i)
              then Inl (FeeError ''Duplicate active definition for code'')
              else let editing = (case fin_editingState p of None \<Rightarrow> fd_editingState existing | Some s \<Rightarrow> s);
                       f = (\<lambda>d. d\<lparr>fd_terms := t\<lparr>ft_code := code\<rparr>,
                         fd_status := (case fin_status p of None \<Rightarrow> ''active'' | Some s \<Rightarrow> s),
                         fd_editingState := editing, fd_updatedAt := now\<rparr>)
                   in if publication_ok (f existing) then Inr (update_definition i f db) else Inl StoreRejected)"

definition createAssignment :: "fee_assignment \<Rightarrow> fee_db \<Rightarrow> fee_error + fee_db" where
  "createAssignment a db =
     (let target = js_trim (text_or_empty (fas_scopeId a));
          row = a\<lparr>fas_scopeId := (if fas_scope a = ''global'' then None else Some target)\<rparr>
      in if fas_scope a \<noteq> ''global'' \<and> target = [] then Inl (FeeError ''ASSIGNMENT_TARGET_ID_REQUIRED'')
         else if fas_scope a \<notin> {''global'', ''provider'', ''product'', ''variant'', ''rate_plan''} \<or>
           list_ex (\<lambda>b. fas_id b = fas_id a) (fdb_assignments db) then Inl StoreRejected
         else Inr (db\<lparr>fdb_assignments := fdb_assignments db @ [row]\<rparr>))"

record assign_input =
  asi_definitionId :: string
  asi_scope :: string
  asi_scopeId :: "string option"
  asi_channel :: "string option"
  asi_status :: "string option"
  asi_effectiveFrom :: "ms option"
  asi_effectiveTo :: "ms option"

definition assignTaxFee :: "string \<Rightarrow> assign_input \<Rightarrow> fee_db \<Rightarrow> fee_error + fee_db" where
  "assignTaxFee uuid p db =
     (case getDefinitionById (asi_definitionId p) db of
        None \<Rightarrow> Inl (FeeError ''Tax/fee definition not found'')
      | Some def \<Rightarrow>
          if fd_status def \<noteq> ''active'' then Inl (FeeError ''Tax/fee definition is not active'')
          else if findActiveAssignmentByCodeScope (ft_code (fd_terms def)) (asi_scope p) (asi_scopeId p) db \<noteq> None
            then Inl (FeeError ''Duplicate active assignment for code and scope'')
          else if findActiveAssignment (asi_definitionId p) (asi_scope p) (asi_scopeId p) (asi_channel p) db \<noteq> None
            then Inl (FeeError ''Duplicate active assignment'')
          else createAssignment
            \<lparr>fas_id = uuid, fas_definitionId = asi_definitionId p, fas_scope = asi_scope p,
             fas_scopeId = asi_scopeId p, fas_channel = asi_channel p,
             fas_status = (case asi_status p of None \<Rightarrow> ''active'' | Some s \<Rightarrow> s),
             fas_effectiveFrom = asi_effectiveFrom p, fas_effectiveTo = asi_effectiveTo p\<rparr> db)"

section \<open>Drafts and publication\<close>

definition draft_of :: "string \<Rightarrow> fee_db \<Rightarrow> fee_draft option" where
  "draft_of i db = List.find (\<lambda>r. fdr_definitionId r = i) (fdb_drafts db)"

text \<open>\<open>INSERT ... ON CONFLICT DO UPDATE\<close> on the definition's draft.\<close>

definition upsert_draft :: "fee_draft \<Rightarrow> fee_draft list \<Rightarrow> fee_draft list" where
  "upsert_draft r drafts =
     (if list_ex (\<lambda>x. fdr_definitionId x = fdr_definitionId r) drafts
      then update_rows (\<lambda>x. fdr_definitionId x = fdr_definitionId r) (\<lambda>_. r) drafts else drafts @ [r])"

definition saveTaxFeeDefinitionDraft ::
  "string \<Rightarrow> string \<Rightarrow> ms \<Rightarrow> fee_terms \<Rightarrow> fee_db \<Rightarrow> fee_error + bool \<times> fee_db" where
  "saveTaxFeeDefinitionDraft i providerId now patch db =
     (case getDefinitionById i db of
        None \<Rightarrow> Inl (FeeError ''Not found'')
      | Some def \<Rightarrow>
          if fd_providerId def \<noteq> providerId then Inl (FeeError ''Not found'')
          else if fd_currentVersionId def = None
            then Inr (False, update_definition i (\<lambda>d. d\<lparr>fd_terms := patch, fd_status := ''archived'',
              fd_editingState := ''draft'', fd_updatedAt := now\<rparr>) db)
          else Inr (True, db\<lparr>fdb_drafts := upsert_draft
            \<lparr>fdr_definitionId = i, fdr_baseVersionId = fd_currentVersionId def, fdr_terms = patch\<rparr> (fdb_drafts db)\<rparr>))"

record publish_input =
  pbi_definitionId :: string
  pbi_providerId :: "string option"
  pbi_publicationState :: string
  pbi_operationalStatus :: "string option"
  pbi_expectedCurrentVersionId :: "string option"
  pbi_expectedRevision :: int
  pbi_patch :: "fee_terms option"

definition versions_of :: "string \<Rightarrow> fee_db \<Rightarrow> fee_version list" where
  "versions_of i db = filter (\<lambda>v. fv_definitionId v = i) (fdb_versions db)"

definition latest_version :: "string \<Rightarrow> fee_db \<Rightarrow> int" where
  "latest_version i db = (case map fv_version (versions_of i db) of [] \<Rightarrow> 0 | v # vs \<Rightarrow> foldr max vs v)"

definition insert_version :: "fee_version \<Rightarrow> fee_db \<Rightarrow> fee_error + fee_db" where
  "insert_version v db =
     (if list_ex (\<lambda>w. fv_id w = fv_id v \<or> fv_definitionId w = fv_definitionId v \<and> fv_version w = fv_version v)
           (fdb_versions db)
      then Inl StoreRejected else Inr (db\<lparr>fdb_versions := fdb_versions db @ [v]\<rparr>))"

text \<open>The terms a publication releases: its patch, else the pending draft, else those of the row.\<close>

definition released_terms :: "publish_input \<Rightarrow> fee_definition \<Rightarrow> fee_db \<Rightarrow> fee_terms" where
  "released_terms p def db = (case pbi_patch p of Some t \<Rightarrow> t
     | None \<Rightarrow> (case draft_of (pbi_definitionId p) db of Some r \<Rightarrow> fdr_terms r | None \<Rightarrow> fd_terms def))"

definition publishTaxFeeDefinition ::
  "string \<Rightarrow> ms \<Rightarrow> publish_input \<Rightarrow> fee_db \<Rightarrow> fee_error + int \<times> fee_db" where
  "publishTaxFeeDefinition uuid now p db =
     (let i = pbi_definitionId p; currentRevision = latest_version i db in
      case getDefinitionById i db of
        None \<Rightarrow> Inl (FeeError ''Not found'')
      | Some def \<Rightarrow>
          if pbi_providerId p \<noteq> None \<and> pbi_providerId p \<noteq> Some (fd_providerId def) then Inl (FeeError ''Not found'')
          else if fd_currentVersionId def \<noteq> pbi_expectedCurrentVersionId p then Inl PublicationConflict
          else if currentRevision \<noteq> pbi_expectedRevision p then Inl PublicationConflict
          else let terms = released_terms p def db; version = currentRevision + 1 in
            case createTaxFeeDefinitionSnapshot terms of
              None \<Rightarrow> Inl SnapshotError
            | Some snapshot \<Rightarrow>
                case insert_version \<lparr>fv_id = uuid, fv_definitionId = i, fv_version = version,
                    fv_publicationState = pbi_publicationState p, fv_snapshot = snapshot\<rparr> db of
                  Inl e \<Rightarrow> Inl e
                | Inr db' \<Rightarrow>
                    if fd_providerId def = [] then Inl (FeeError ''A published tax definition requires a provider.'')
                    else Inr (version, (update_definition i (\<lambda>d. d\<lparr>fd_terms := terms, fd_currentVersionId := Some uuid,
                        fd_editingState := ''published'',
                        fd_status := (case pbi_operationalStatus p of None \<Rightarrow> ''active'' | Some s \<Rightarrow> s),
                        fd_updatedAt := now\<rparr>) db')
                      \<lparr>fdb_drafts := delete_rows (\<lambda>r. fdr_definitionId r = i) (fdb_drafts db'),
                       fdb_activity := fdb_activity db' @ [\<lparr>fac_providerId = fd_providerId def,
                         fac_eventType = (if pbi_publicationState p = ''scheduled'' then ''definition_scheduled''
                           else ''definition_published''),
                         fac_definitionId = i, fac_versionId = uuid\<rparr>]\<rparr>))"

end
