(* ===== verification/Tax_Fee_Requests.thy ===== *)
theory Tax_Fee_Requests
  imports Tax_Fee_Commands
begin

text \<open>
  The requests a provider makes on taxes and fees (\<open>pages/api/provider/tax-fees/definitions.ts\<close>,
  \<open>pages/api/provider/tax-fees/assignments.ts\<close>): their guards, the use cases they call, and the
  status of the response. A request carries the fields of the form once read; the caller's provider is an
  argument. Whether a simulation of the same fields was recorded (a lookup by the hash of the fields)
  is the argument \<open>simulated\<close>, whether the provider owns the target of an assignment is the argument
  \<open>owned\<close>. The warnings of a response and its caches are left out.
\<close>

datatype fee_response = FeeOk string | FeeFail int

record definition_request =
  dr_id :: string
  dr_terms :: fee_terms
  dr_status :: "string option"
  dr_publicationMode :: "string option"
  dr_expectedCurrentVersionId :: "string option"
  dr_expectedRevision :: "int option"

definition createSchema :: "definition_request \<Rightarrow> bool" where
  "createSchema r \<longleftrightarrow> (let t = dr_terms r in
     ft_code t \<noteq> [] \<and> ft_name t \<noteq> [] \<and> ft_kind t \<in> set KINDS \<and> ft_calculationType t \<in> set CALC_TYPES \<and>
     ft_inclusionType t \<in> set INCLUSION \<and> ft_appliesPer t \<in> set APPLIES_PER \<and>
     one_of [''active'', ''archived''] (dr_status r) \<and>
     one_of [''draft'', ''publish'', ''schedule''] (dr_publicationMode r) \<and>
     (case dr_expectedRevision r of None \<Rightarrow> True | Some n \<Rightarrow> 0 \<le> n))"

definition requested_status :: "definition_request \<Rightarrow> string" where
  "requested_status r = (case dr_status r of None \<Rightarrow> ''active'' | Some s \<Rightarrow> s)"

text \<open>The status a failure of a use case is answered with, where a message is matched by its text.\<close>

fun post_status :: "fee_error \<Rightarrow> int" where
  "post_status PublicationConflict = 409"
| "post_status (FeeError m) = (if str_includes m ''Duplicate'' then 409 else 400)"
| "post_status _ = 400"

definition put_status :: "fee_error \<Rightarrow> int" where
  "put_status e = (if post_status e = 400 \<and> e = FeeError ''Not found'' then 404 else post_status e)"

definition requested_terms :: "definition_request \<Rightarrow> string + fee_terms" where
  "requested_terms r = (case parseJurisdiction (ft_jurisdiction (dr_terms r)) of
       Inl e \<Rightarrow> Inl e
     | Inr rule \<Rightarrow> Inr ((dr_terms r)\<lparr>ft_jurisdiction := rule\<rparr>))"

definition scheduled_without_start :: "definition_request \<Rightarrow> bool" where
  "scheduled_without_start r \<longleftrightarrow>
     dr_publicationMode r = Some ''schedule'' \<and> ft_effectiveFrom (dr_terms r) = None"

definition publication_state :: "definition_request \<Rightarrow> string" where
  "publication_state r = (if dr_publicationMode r = Some ''schedule'' then ''scheduled'' else ''published'')"

definition post_definition ::
  "string \<Rightarrow> string \<Rightarrow> ms \<Rightarrow> string \<Rightarrow> definition_request \<Rightarrow> fee_db \<Rightarrow> fee_response \<times> fee_db" where
  "post_definition uuid versionUuid now providerId r db =
     (if \<not> createSchema r then (FeeFail 400, db)
      else case requested_terms r of
        Inl _ \<Rightarrow> (FeeFail 400, db)
      | Inr t \<Rightarrow>
          if scheduled_without_start r then (FeeFail 400, db)
          else case createTaxFeeDefinition uuid now \<lparr>fin_providerId = providerId, fin_terms = t,
              fin_status = Some ''archived'', fin_editingState = Some ''draft''\<rparr> db of
            Inl e \<Rightarrow> (FeeFail (post_status e), db)
          | Inr created \<Rightarrow>
              if dr_publicationMode r = Some ''draft'' then (FeeOk uuid, created)
              else case publishTaxFeeDefinition versionUuid now
                  \<lparr>pbi_definitionId = uuid, pbi_providerId = Some providerId, pbi_publicationState = publication_state r,
                   pbi_operationalStatus = Some (requested_status r), pbi_expectedCurrentVersionId = None,
                   pbi_expectedRevision = 0, pbi_patch = None\<rparr> created of
                Inl e \<Rightarrow> (FeeFail (post_status e), created)
              | Inr (_, published) \<Rightarrow> (FeeOk uuid, published))"

definition put_definition ::
  "(string \<Rightarrow> fee_terms \<Rightarrow> bool) \<Rightarrow> string \<Rightarrow> ms \<Rightarrow> string \<Rightarrow> definition_request \<Rightarrow> fee_db \<Rightarrow> fee_response \<times> fee_db" where
  "put_definition simulated versionUuid now providerId r db =
     (if \<not> createSchema r then (FeeFail 400, db)
      else case requested_terms r of
        Inl _ \<Rightarrow> (FeeFail 400, db)
      | Inr t \<Rightarrow>
          let i = dr_id r; before = getDefinitionById i db;
              finish = (\<lambda>e. (FeeFail (put_status e), db)) in
          if scheduled_without_start r then (FeeFail 400, db)
          else if i = [] then (FeeFail 400, db)
          else if dr_publicationMode r \<in> {Some ''publish'', Some ''schedule''} \<and> \<not> simulated i t then (FeeFail 400, db)
          else if dr_publicationMode r \<noteq> Some ''draft'' \<and> requested_status r \<noteq> ''archived'' then
            (case publishTaxFeeDefinition versionUuid now
                \<lparr>pbi_definitionId = i, pbi_providerId = Some providerId, pbi_publicationState = publication_state r,
                 pbi_operationalStatus = Some (requested_status r),
                 pbi_expectedCurrentVersionId = dr_expectedCurrentVersionId r,
                 pbi_expectedRevision = (case dr_expectedRevision r of None \<Rightarrow> 0 | Some n \<Rightarrow> n), pbi_patch = Some t\<rparr> db of
               Inl e \<Rightarrow> finish e
             | Inr (_, db') \<Rightarrow> (FeeOk i, db'))
          else if (case before of None \<Rightarrow> False | Some d \<Rightarrow> fd_currentVersionId d \<noteq> None) then
            (case saveTaxFeeDefinitionDraft i providerId now t db of
               Inl e \<Rightarrow> finish e
             | Inr (_, db') \<Rightarrow> (FeeOk i, db'))
          else
            (case updateTaxFeeDefinition i now \<lparr>fin_providerId = providerId, fin_terms = t,
                fin_status = Some ''archived'', fin_editingState = Some ''draft''\<rparr> db of
               Inl e \<Rightarrow> finish e
             | Inr db' \<Rightarrow> (FeeOk i, db')))"

definition delete_definition :: "string \<Rightarrow> string \<Rightarrow> fee_db \<Rightarrow> fee_response \<times> fee_db" where
  "delete_definition rawId providerId db =
     (let i = js_trim rawId in
      if i = [] then (FeeFail 400, db)
      else case List.find (\<lambda>d. fd_id d = i \<and> fd_providerId d = providerId) (fdb_definitions db) of
        None \<Rightarrow> (FeeFail 404, db)
      | Some d \<Rightarrow>
          if fd_editingState d \<noteq> ''draft'' \<or> fd_currentVersionId d \<noteq> None then (FeeFail 409, db)
          else if list_ex (\<lambda>a. fas_definitionId a = i) (fdb_assignments db) \<or> versions_of i db \<noteq> [] \<or>
              list_ex (\<lambda>e. fac_definitionId e = i) (fdb_activity db) then (FeeFail 409, db)
          else (FeeOk i, db\<lparr>fdb_definitions := delete_rows (\<lambda>d. fd_id d = i) (fdb_definitions db)\<rparr>))"

section \<open>Assignments\<close>

definition post_assignment ::
  "(string \<Rightarrow> string \<Rightarrow> bool) \<Rightarrow> string \<Rightarrow> assign_input \<Rightarrow> fee_db \<Rightarrow> fee_response \<times> fee_db" where
  "post_assignment owned uuid p db =
     (let scopeId = text_or_empty (asi_scopeId p) in
      if asi_definitionId p = [] \<or> asi_scope p \<notin> {''product'', ''variant'', ''rate_plan'', ''provider''} \<or> scopeId = []
      then (FeeFail 400, db)
      else if (case (asi_effectiveFrom p, asi_effectiveTo p) of (Some f, Some e) \<Rightarrow> e \<le> f | _ \<Rightarrow> False)
        then (FeeFail 400, db)
      else if \<not> owned (asi_scope p) scopeId then (FeeFail 404, db)
      else case assignTaxFee uuid (p\<lparr>asi_status := None\<rparr>) db of
        Inl e \<Rightarrow> (FeeFail (put_status e), db)
      | Inr db' \<Rightarrow> (FeeOk uuid, db'))"

definition put_assignment :: "string \<Rightarrow> string \<Rightarrow> string \<Rightarrow> fee_db \<Rightarrow> fee_response \<times> fee_db" where
  "put_assignment assignmentId status providerId db =
     (if assignmentId = [] \<or> status \<notin> {''active'', ''archived''} then (FeeFail 400, db)
      else case List.find (\<lambda>a. fas_id a = assignmentId) (fdb_assignments db) of
        None \<Rightarrow> (FeeFail 404, db)
      | Some a \<Rightarrow>
          (case getDefinitionById (fas_definitionId a) db of
             None \<Rightarrow> (FeeFail 404, db)
           | Some d \<Rightarrow>
               if fd_providerId d \<noteq> providerId then (FeeFail 404, db)
               else (FeeOk assignmentId, db\<lparr>fdb_assignments := update_rows (\<lambda>b. fas_id b = assignmentId)
                 (\<lambda>b. b\<lparr>fas_status := status\<rparr>) (fdb_assignments db)\<rparr>)))"

end
