(* ===== verification/Tax_Store_Correctness.thy ===== *)
theory Tax_Store_Correctness
  imports Tax_Fee_Requests
begin

text \<open>
  The history of the definitions: every request keeps the versions of a definition numbered without a
  gap, its current version the last of them, and its drafts on published definitions only.
\<close>

section \<open>The invariant\<close>

definition def_history :: "fee_db \<Rightarrow> fee_definition \<Rightarrow> bool" where
  "def_history db d \<longleftrightarrow> (let vs = versions_of (fd_id d) db in
     map fv_version vs = map int [1..<Suc (length vs)] \<and>
     fd_currentVersionId d = (if vs = [] then None else Some (fv_id (last vs))) \<and> publication_ok d)"

definition valid_snapshot :: "fee_version \<Rightarrow> bool" where
  "valid_snapshot v \<longleftrightarrow> (\<exists>t. fv_snapshot v = SnapshotV2 t \<and> ruleSchema t)"

definition fee_db_ok :: "fee_db \<Rightarrow> bool" where
  "fee_db_ok db \<longleftrightarrow> distinct (map fd_id (fdb_definitions db)) \<and> distinct (map fv_id (fdb_versions db)) \<and>
     (\<forall>v \<in> set (fdb_versions db). fv_definitionId v \<in> fd_id ` set (fdb_definitions db) \<and> valid_snapshot v) \<and>
     (\<forall>d \<in> set (fdb_definitions db). def_history db d) \<and>
     distinct (map fdr_definitionId (fdb_drafts db)) \<and>
     (\<forall>r \<in> set (fdb_drafts db). \<exists>d \<in> set (fdb_definitions db). fd_id d = fdr_definitionId r \<and> fd_currentVersionId d \<noteq> None)"

lemma fee_db_okI:
  assumes "distinct (map fd_id (fdb_definitions db))" "distinct (map fv_id (fdb_versions db))"
    and "\<And>v. v \<in> set (fdb_versions db) \<Longrightarrow> fv_definitionId v \<in> fd_id ` set (fdb_definitions db) \<and> valid_snapshot v"
    and "\<And>d. d \<in> set (fdb_definitions db) \<Longrightarrow> def_history db d"
    and "distinct (map fdr_definitionId (fdb_drafts db))"
    and "\<And>r. r \<in> set (fdb_drafts db) \<Longrightarrow> \<exists>d \<in> set (fdb_definitions db). fd_id d = fdr_definitionId r \<and> fd_currentVersionId d \<noteq> None"
  shows "fee_db_ok db"
  using assms by (simp add: fee_db_ok_def)

lemma fee_db_okD:
  assumes "fee_db_ok db"
  shows "distinct (map fd_id (fdb_definitions db))" "distinct (map fv_id (fdb_versions db))"
    and "v \<in> set (fdb_versions db) \<Longrightarrow> fv_definitionId v \<in> fd_id ` set (fdb_definitions db)"
    and "v \<in> set (fdb_versions db) \<Longrightarrow> valid_snapshot v"
    and "d \<in> set (fdb_definitions db) \<Longrightarrow> def_history db d"
    and "distinct (map fdr_definitionId (fdb_drafts db))"
    and "r \<in> set (fdb_drafts db) \<Longrightarrow> \<exists>d \<in> set (fdb_definitions db). fd_id d = fdr_definitionId r \<and> fd_currentVersionId d \<noteq> None"
  using assms by (simp_all add: fee_db_ok_def)

lemma versions_of_cong [simp]:
  "versions_of i (update_definition j f db) = versions_of i db"
  "versions_of i (db\<lparr>fdb_definitions := ds\<rparr>) = versions_of i db"
  "versions_of i (db\<lparr>fdb_drafts := rs\<rparr>) = versions_of i db"
  "versions_of i (db\<lparr>fdb_assignments := as\<rparr>) = versions_of i db"
  "versions_of i (db\<lparr>fdb_activity := ac\<rparr>) = versions_of i db"
  by (simp_all add: versions_of_def update_definition_def)

lemma versions_of_Nil: "versions_of i db = [] \<longleftrightarrow> (\<forall>v \<in> set (fdb_versions db). fv_definitionId v \<noteq> i)"
  by (simp add: versions_of_def filter_empty_conv)

lemma max_chain: "foldr max (map int [2..<Suc n]) 1 = (if n = 0 then 1 else int n)"
proof (induction n)
  case (Suc n)
  have fold: "foldr max xs (x :: int) = max x (foldr max xs y)" if "y \<le> x" "foldr max xs y \<le> x" for xs x y
    using that by (induction xs) auto
  show ?case
  proof (cases "n = 0")
    case False
    have "foldr max (map int [2..<Suc n] @ [int (Suc n)]) 1 = foldr max (map int [2..<Suc n]) (int (Suc n))" by simp
    also have "\<dots> = max (int (Suc n)) (foldr max (map int [2..<Suc n]) 1)"
      using False Suc by (intro fold) auto
    finally show ?thesis using False Suc by simp
  qed simp
qed simp

lemma latest_version_length:
  assumes "def_history db d"
  shows "latest_version (fd_id d) db = int (length (versions_of (fd_id d) db))"
proof -
  define n where "n = length (versions_of (fd_id d) db)"
  have vs: "map fv_version (versions_of (fd_id d) db) = map int [1..<Suc n]"
    using assms by (simp add: def_history_def Let_def n_def)
  show ?thesis
  proof (cases "n = 0")
    case True
    then show ?thesis using vs by (simp add: latest_version_def n_def)
  next
    case False
    then have "[1..<Suc n] = 1 # [2..<Suc n]" by (simp add: upt_conv_Cons numeral_2_eq_2)
    then show ?thesis using vs max_chain [of n] False unfolding latest_version_def vs n_def [symmetric] by simp
  qed
qed

lemma getDefinitionById_mem: "getDefinitionById i db = Some d \<Longrightarrow> d \<in> set (fdb_definitions db) \<and> fd_id d = i"
  by (auto simp: getDefinitionById_def dest: find_Some_mem)

lemma getDefinitionById_unique:
  "fee_db_ok db \<Longrightarrow> d \<in> set (fdb_definitions db) \<Longrightarrow> getDefinitionById (fd_id d) db = Some d"
  unfolding getDefinitionById_def by (intro find_unique fee_db_okD(1))

lemma same_definition:
  "fee_db_ok db \<Longrightarrow> getDefinitionById i db = Some d \<Longrightarrow> e \<in> set (fdb_definitions db) \<Longrightarrow> fd_id e = i \<Longrightarrow> e = d"
  using getDefinitionById_unique by fastforce

section \<open>Every operation keeps it\<close>

lemma def_history_cong:
  "fd_id e = fd_id d \<Longrightarrow> fd_currentVersionId e = fd_currentVersionId d \<Longrightarrow> publication_ok e
    \<Longrightarrow> versions_of (fd_id d) db' = versions_of (fd_id d) db \<Longrightarrow> def_history db d \<Longrightarrow> def_history db' e"
  by (simp add: def_history_def Let_def)

lemma createDefinition_ok:
  assumes "fee_db_ok db" "fd_currentVersionId d = None" "createDefinition d db = Inr db'"
  shows "fee_db_ok db'"
proof -
  have db': "db' = db\<lparr>fdb_definitions := fdb_definitions db @ [d]\<rparr>" and fresh: "\<forall>e \<in> set (fdb_definitions db). fd_id e \<noteq> fd_id d"
    and "publication_ok d"
    using assms(3) by (auto simp: createDefinition_def list_ex_iff split: if_splits)
  moreover have "versions_of (fd_id d) db = []"
    using fee_db_okD(3) [OF assms(1)] fresh by (fastforce simp: versions_of_Nil)
  ultimately have "def_history db' d" using assms(2) by (simp add: def_history_def)
  moreover have "def_history db' e" if "e \<in> set (fdb_definitions db)" for e
    using fee_db_okD(5) [OF assms(1) that] by (rule def_history_cong [rotated 4]) (simp_all add: db' fee_db_okD(5) [OF assms(1) that, unfolded def_history_def Let_def])
  ultimately show ?thesis
    using assms(1) fresh unfolding db' by (intro fee_db_okI) (auto simp: fee_db_ok_def image_iff)
qed

lemma update_definition_ok:
  assumes ok: "fee_db_ok db"
    and f: "\<And>d. fd_id (f d) = fd_id d" "\<And>d. fd_currentVersionId (f d) = fd_currentVersionId d"
    and pub: "\<And>d. d \<in> set (fdb_definitions db) \<Longrightarrow> fd_id d = i \<Longrightarrow> publication_ok (f d)"
  shows "fee_db_ok (update_definition i f db)"
proof (rule fee_db_okI)
  let ?db = "update_definition i f db"
  have keys: "map fd_id (fdb_definitions ?db) = map fd_id (fdb_definitions db)"
    by (simp add: update_definition_def f(1))
  from arg_cong [OF this, of set]
  have ids: "fd_id ` set (fdb_definitions ?db) = fd_id ` set (fdb_definitions db)" unfolding set_map .
  show "distinct (map fd_id (fdb_definitions ?db))" using fee_db_okD(1) [OF ok] f by (simp add: update_definition_def)
  show "distinct (map fv_id (fdb_versions ?db))" "distinct (map fdr_definitionId (fdb_drafts ?db))"
    using fee_db_okD(2,6) [OF ok] by (simp_all add: update_definition_def)
  show "fv_definitionId v \<in> fd_id ` set (fdb_definitions ?db) \<and> valid_snapshot v" if "v \<in> set (fdb_versions ?db)" for v
    using fee_db_okD(3,4) [OF ok, of v] that ids by (simp add: update_definition_def)
  show "def_history ?db e" if e: "e \<in> set (fdb_definitions ?db)" for e
  proof -
    obtain d where d: "d \<in> set (fdb_definitions db)" "e = (if fd_id d = i then f d else d)"
      using e by (auto simp: update_definition_def set_update_rows)
    have h: "def_history db d" by (rule fee_db_okD(5) [OF ok d(1)])
    then have "publication_ok e" using d pub by (simp add: def_history_def Let_def)
    then show ?thesis using d(2) f h by (intro def_history_cong [of e d ?db db]) simp_all
  qed
  show "\<exists>d \<in> set (fdb_definitions ?db). fd_id d = fdr_definitionId r \<and> fd_currentVersionId d \<noteq> None" if "r \<in> set (fdb_drafts ?db)" for r
  proof -
    have "r \<in> set (fdb_drafts db)" using that by (simp add: update_definition_def)
    from fee_db_okD(7) [OF ok this] obtain d where d: "d \<in> set (fdb_definitions db)" "fd_id d = fdr_definitionId r" "fd_currentVersionId d \<noteq> None" by blast
    have "(if fd_id d = i then f d else d) \<in> set (fdb_definitions ?db)" using d(1) by (simp add: update_definition_def set_update_rows)
    then show ?thesis using d f by (intro bexI) auto
  qed
qed

lemma fee_db_ok_sales [simp]:
  "fee_db_ok (db\<lparr>fdb_assignments := as\<rparr>) = fee_db_ok db"
  "fee_db_ok (db\<lparr>fdb_activity := ac\<rparr>) = fee_db_ok db"
  by (simp_all add: fee_db_ok_def def_history_def versions_of_def)

lemma createTaxFeeDefinition_ok: "fee_db_ok db \<Longrightarrow> createTaxFeeDefinition u now p db = Inr db' \<Longrightarrow> fee_db_ok db'"
  by (auto simp: createTaxFeeDefinition_def Let_def split: option.splits if_splits
      elim!: createDefinition_ok [rotated 2])

lemma updateTaxFeeDefinition_ok:
  assumes ok: "fee_db_ok db" and upd: "updateTaxFeeDefinition i now p db = Inr db'"
  shows "fee_db_ok db'"
proof -
  obtain d where d: "getDefinitionById i db = Some d"
    using upd by (auto simp: updateTaxFeeDefinition_def Let_def split: option.splits if_splits)
  let ?f = "\<lambda>x. x\<lparr>fd_terms := (fin_terms p)\<lparr>ft_code := js_trim (ft_code (fin_terms p))\<rparr>,
     fd_status := (case fin_status p of None \<Rightarrow> ''active'' | Some s \<Rightarrow> s),
     fd_editingState := (case fin_editingState p of None \<Rightarrow> fd_editingState d | Some s \<Rightarrow> s), fd_updatedAt := now\<rparr>"
  have "publication_ok (?f d) \<and> db' = update_definition i ?f db"
    using upd d by (simp add: updateTaxFeeDefinition_def Let_def split: option.splits if_splits)
  moreover have "publication_ok (?f x)" if "publication_ok (?f d)" "x \<in> set (fdb_definitions db)" "fd_id x = i" for x
    using same_definition [OF ok d that(2,3)] that(1) by simp
  ultimately show ?thesis by (auto intro!: update_definition_ok [OF ok])
qed

lemma saveDraft_ok:
  assumes ok: "fee_db_ok db" and save: "saveTaxFeeDefinitionDraft i prov now patch db = Inr (isolated, db')"
  shows "fee_db_ok db'"
proof -
  obtain d where d: "getDefinitionById i db = Some d"
    using save by (auto simp: saveTaxFeeDefinitionDraft_def split: option.splits if_splits)
  note mem = getDefinitionById_mem [OF d]
  show ?thesis
  proof (cases "fd_currentVersionId d")
    case None
    then have "db' = update_definition i (\<lambda>d. d\<lparr>fd_terms := patch, fd_status := ''archived'', fd_editingState := ''draft'', fd_updatedAt := now\<rparr>) db"
      using save d by (simp add: saveTaxFeeDefinitionDraft_def split: if_splits)
    then show ?thesis using update_definition_ok [OF ok] by (simp add: publication_ok_def)
  next
    case (Some cur)
    define r where "r = \<lparr>fdr_definitionId = i, fdr_baseVersionId = Some cur, fdr_terms = patch\<rparr>"
    have db': "db' = db\<lparr>fdb_drafts := upsert_draft r (fdb_drafts db)\<rparr>"
      using save d Some by (simp add: saveTaxFeeDefinitionDraft_def r_def split: if_splits)
    have drafts: "set (upsert_draft r ds) \<subseteq> insert r (set ds)" for ds
      by (auto simp: upsert_draft_def set_update_rows)
    have keys: "distinct (map fdr_definitionId (upsert_draft r ds))" if "distinct (map fdr_definitionId ds)" for ds
    proof -
      have "map fdr_definitionId (update_rows (\<lambda>x. fdr_definitionId x = fdr_definitionId r) (\<lambda>_. r) ds) = map fdr_definitionId ds"
        by (intro update_rows_key) simp
      then show ?thesis using that by (auto simp: upsert_draft_def list_ex_iff)
    qed
    have "\<exists>d \<in> set (fdb_definitions db). fd_id d = fdr_definitionId x \<and> fd_currentVersionId d \<noteq> None"
      if "x \<in> set (upsert_draft r (fdb_drafts db))" for x
      using drafts [THEN subsetD, OF that] fee_db_okD(7) [OF ok, of x] mem Some by (auto simp: r_def)
    then show ?thesis
      using ok keys unfolding db' by (intro fee_db_okI) (simp_all add: fee_db_ok_def def_history_def)
  qed
qed

text \<open>A publication appends the next version and moves the pointer to it.\<close>

lemma publish_cases:
  assumes "publishTaxFeeDefinition uuid now p db = Inr (n, db')"
  obtains d t v where "getDefinitionById (pbi_definitionId p) db = Some d"
    and "fd_currentVersionId d = pbi_expectedCurrentVersionId p" "latest_version (pbi_definitionId p) db = pbi_expectedRevision p"
    and "t = released_terms p d db" "ruleSchema t" "n = latest_version (pbi_definitionId p) db + 1"
    and "v = \<lparr>fv_id = uuid, fv_definitionId = pbi_definitionId p, fv_version = n,
      fv_publicationState = pbi_publicationState p, fv_snapshot = SnapshotV2 t\<rparr>"
    and "\<forall>w \<in> set (fdb_versions db). fv_id w \<noteq> uuid"
    and "fdb_versions db' = fdb_versions db @ [v]"
    and "fdb_definitions db' = update_rows (\<lambda>d. fd_id d = pbi_definitionId p) (\<lambda>d. d\<lparr>fd_terms := t, fd_currentVersionId := Some uuid,
      fd_editingState := ''published'', fd_status := (case pbi_operationalStatus p of None \<Rightarrow> ''active'' | Some s \<Rightarrow> s),
      fd_updatedAt := now\<rparr>) (fdb_definitions db)"
    and "fdb_drafts db' = delete_rows (\<lambda>r. fdr_definitionId r = pbi_definitionId p) (fdb_drafts db)"
    and "fdb_assignments db' = fdb_assignments db" "fdb_products db' = fdb_products db"
proof -
  let ?i = "pbi_definitionId p"
  obtain d where d: "getDefinitionById ?i db = Some d"
    using assms by (auto simp: publishTaxFeeDefinition_def Let_def split: option.splits)
  let ?t = "released_terms p d db"
  have ok: "fd_currentVersionId d = pbi_expectedCurrentVersionId p" "latest_version ?i db = pbi_expectedRevision p" "ruleSchema ?t"
    using assms d by (auto simp: publishTaxFeeDefinition_def createTaxFeeDefinitionSnapshot_def Let_def split: option.splits if_splits)
  then have snap: "createTaxFeeDefinitionSnapshot ?t = Some (SnapshotV2 ?t)" by (simp add: createTaxFeeDefinitionSnapshot_def)
  let ?v = "\<lparr>fv_id = uuid, fv_definitionId = ?i, fv_version = latest_version ?i db + 1,
      fv_publicationState = pbi_publicationState p, fv_snapshot = SnapshotV2 ?t\<rparr>"
  have ins: "insert_version ?v db = Inr (db\<lparr>fdb_versions := fdb_versions db @ [?v]\<rparr>)"
    "\<forall>w \<in> set (fdb_versions db). fv_id w \<noteq> uuid"
    using assms d ok snap by (auto simp: publishTaxFeeDefinition_def insert_version_def list_ex_iff Let_def split: if_splits)
  have "n = latest_version ?i db + 1" and db': "fdb_versions db' = fdb_versions db @ [?v]"
    "fdb_definitions db' = update_rows (\<lambda>d. fd_id d = ?i) (\<lambda>d. d\<lparr>fd_terms := ?t, fd_currentVersionId := Some uuid,
      fd_editingState := ''published'', fd_status := (case pbi_operationalStatus p of None \<Rightarrow> ''active'' | Some s \<Rightarrow> s),
      fd_updatedAt := now\<rparr>) (fdb_definitions db)"
    "fdb_drafts db' = delete_rows (\<lambda>r. fdr_definitionId r = ?i) (fdb_drafts db)"
    "fdb_assignments db' = fdb_assignments db" "fdb_products db' = fdb_products db"
    using assms d ok snap ins(1) by (auto simp: publishTaxFeeDefinition_def update_definition_def Let_def split: if_splits)
  with that [OF d ok(1,2) refl ok(3) _ _ ins(2) _ _ db'(3-5)] show ?thesis by simp
qed

lemma publish_ok:
  assumes ok: "fee_db_ok db" and pub: "publishTaxFeeDefinition uuid now p db = Inr (n, db')"
  shows "fee_db_ok db'"
proof -
  let ?i = "pbi_definitionId p"
  obtain d t v where d: "getDefinitionById ?i db = Some d" and n: "n = latest_version ?i db + 1"
    and v: "v = \<lparr>fv_id = uuid, fv_definitionId = ?i, fv_version = n, fv_publicationState = pbi_publicationState p, fv_snapshot = SnapshotV2 t\<rparr>"
    and t: "ruleSchema t" and fresh: "\<forall>w \<in> set (fdb_versions db). fv_id w \<noteq> uuid"
    and db': "fdb_versions db' = fdb_versions db @ [v]"
      "fdb_definitions db' = update_rows (\<lambda>d. fd_id d = ?i) (\<lambda>d. d\<lparr>fd_terms := t, fd_currentVersionId := Some uuid,
        fd_editingState := ''published'', fd_status := (case pbi_operationalStatus p of None \<Rightarrow> ''active'' | Some s \<Rightarrow> s),
        fd_updatedAt := now\<rparr>) (fdb_definitions db)"
      "fdb_drafts db' = delete_rows (\<lambda>r. fdr_definitionId r = ?i) (fdb_drafts db)"
    using pub by (rule publish_cases)
  note mem = getDefinitionById_mem [OF d]
  have vs: "versions_of j db' = versions_of j db @ (if j = ?i then [v] else [])" for j
    by (simp add: versions_of_def db' v)
  have keys: "map fd_id (fdb_definitions db') = map fd_id (fdb_definitions db)" unfolding db'(2) by (intro update_rows_key) simp
  from arg_cong [OF this, of set]
  have ids: "fd_id ` set (fdb_definitions db') = fd_id ` set (fdb_definitions db)" unfolding set_map .
  show ?thesis
  proof (rule fee_db_okI)
    show "distinct (map fd_id (fdb_definitions db'))" using keys fee_db_okD(1) [OF ok] by simp
    show "distinct (map fv_id (fdb_versions db'))" using fee_db_okD(2) [OF ok] fresh by (auto simp: db' v)
    show "distinct (map fdr_definitionId (fdb_drafts db'))" using fee_db_okD(6) [OF ok] by (simp add: db' delete_rows_def distinct_map_filter)
    show "fv_definitionId w \<in> fd_id ` set (fdb_definitions db') \<and> valid_snapshot w" if "w \<in> set (fdb_versions db')" for w
      using that fee_db_okD(3,4) [OF ok, of w] imageI [of d "set (fdb_definitions db)" fd_id] mem t unfolding ids by (auto simp: db'(1) v valid_snapshot_def)
    show "def_history db' e" if "e \<in> set (fdb_definitions db')" for e
    proof (cases "fd_id e = ?i")
      case False
      then have e: "e \<in> set (fdb_definitions db)" using that by (auto simp: db'(2) set_update_rows)
      note h = fee_db_okD(5) [OF ok e]
      have "publication_ok e" using h by (simp add: def_history_def Let_def)
      then show ?thesis using False h by (intro def_history_cong [of e e db' db]) (simp_all add: vs)
    next
      case True
      then have "fd_currentVersionId e = Some uuid" using that by (auto simp: db'(2) set_update_rows)
      moreover have "def_history db d" using mem fee_db_okD(5) [OF ok] by blast
      moreover note latest_version_length [OF this]
      ultimately show ?thesis using True mem n by (simp add: def_history_def vs v Let_def publication_ok_def)
    qed
    show "\<exists>e \<in> set (fdb_definitions db'). fd_id e = fdr_definitionId r \<and> fd_currentVersionId e \<noteq> None" if "r \<in> set (fdb_drafts db')" for r
    proof -
      have r: "r \<in> set (fdb_drafts db)" "fdr_definitionId r \<noteq> ?i" using that by (auto simp: db'(3))
      from fee_db_okD(7) [OF ok r(1)] obtain e where e: "e \<in> set (fdb_definitions db)" "fd_id e = fdr_definitionId r" "fd_currentVersionId e \<noteq> None" by blast
      then have "e \<in> set (fdb_definitions db')" using r(2) by (auto simp: db'(2) set_update_rows image_iff)
      with e show ?thesis by blast
    qed
  qed
qed

lemma delete_ok:
  assumes ok: "fee_db_ok db"
  shows "fee_db_ok (snd (delete_definition rawId prov db))"
proof (cases "snd (delete_definition rawId prov db) = db")
  case False
  define i where "i = js_trim rawId"
  obtain d where d: "List.find (\<lambda>d. fd_id d = i \<and> fd_providerId d = prov) (fdb_definitions db) = Some d"
    and none: "fd_currentVersionId d = None" "versions_of i db = []"
    and db': "snd (delete_definition rawId prov db) = db\<lparr>fdb_definitions := delete_rows (\<lambda>d. fd_id d = i) (fdb_definitions db)\<rparr>"
    using False by (auto simp: delete_definition_def i_def Let_def split: option.splits if_splits)
  have mem: "d \<in> set (fdb_definitions db)" "fd_id d = i" using find_Some_mem [OF d] by auto
  have current: "fd_currentVersionId e = None" if "e \<in> set (fdb_definitions db)" "fd_id e = i" for e
    using that mem none same_definition [OF ok getDefinitionById_unique [OF ok mem(1)] that(1)] by simp
  show ?thesis unfolding db'
  proof (rule fee_db_okI, goal_cases)
    case 1
    then show ?case using fee_db_okD(1) [OF ok] by (simp add: delete_rows_def distinct_map_filter)
  next
    case (3 v)
    then have "fv_definitionId v \<noteq> i" using none(2) by (simp add: versions_of_Nil)
    then show ?case using 3 fee_db_okD(3,4) [OF ok, of v] by auto
  next
    case (4 e)
    then show ?case using fee_db_okD(5) [OF ok, of e] by (simp add: def_history_def Let_def)
  next
    case (6 r)
    then obtain e where "e \<in> set (fdb_definitions db)" "fd_id e = fdr_definitionId r" "fd_currentVersionId e \<noteq> None"
      using fee_db_okD(7) [OF ok, of r] by auto
    moreover from this have "fd_id e \<noteq> i" using current by auto
    ultimately show ?case by auto
  qed (use fee_db_okD(2,6) [OF ok] in simp_all)
qed (use ok in simp)

section \<open>Requests and runs\<close>

datatype fee_request =
    PostDefinition string string ms string definition_request
  | PutDefinition string ms string definition_request
  | DeleteDefinition string string
  | PostAssignment string assign_input
  | PutAssignment string string string

fun answer_fee_request ::
  "(string \<Rightarrow> fee_terms \<Rightarrow> bool) \<Rightarrow> (string \<Rightarrow> string \<Rightarrow> bool) \<Rightarrow> fee_request \<Rightarrow> fee_db \<Rightarrow> fee_response \<times> fee_db" where
  "answer_fee_request simulated owned (PostDefinition u w now prov r) db = post_definition u w now prov r db"
| "answer_fee_request simulated owned (PutDefinition w now prov r) db = put_definition simulated w now prov r db"
| "answer_fee_request simulated owned (DeleteDefinition i prov) db = delete_definition i prov db"
| "answer_fee_request simulated owned (PostAssignment u p) db = post_assignment owned u p db"
| "answer_fee_request simulated owned (PutAssignment a status prov) db = put_assignment a status prov db"

definition fee_step ::
  "(string \<Rightarrow> fee_terms \<Rightarrow> bool) \<Rightarrow> (string \<Rightarrow> string \<Rightarrow> bool) \<Rightarrow> fee_request \<Rightarrow> fee_db \<Rightarrow> fee_error + fee_db" where
  "fee_step simulated owned x db = Inr (snd (answer_fee_request simulated owned x db))"

lemma post_definition_ok: "fee_db_ok db \<Longrightarrow> fee_db_ok (snd (post_definition u w now prov r db))"
  by (auto simp: post_definition_def split: sum.split dest: createTaxFeeDefinition_ok publish_ok)

lemma put_definition_ok: "fee_db_ok db \<Longrightarrow> fee_db_ok (snd (put_definition simulated w now prov r db))"
  by (auto simp: put_definition_def Let_def split: sum.split option.split dest: updateTaxFeeDefinition_ok saveDraft_ok publish_ok)

lemma assignTaxFee_frame:
  "assignTaxFee u p db = Inr db' \<Longrightarrow> \<exists>as. db' = db\<lparr>fdb_assignments := as\<rparr>"
  by (auto simp: assignTaxFee_def createAssignment_def Let_def split: option.splits if_splits)

lemma assignment_requests_ok:
  "fee_db_ok db \<Longrightarrow> fee_db_ok (snd (post_assignment owned u p db))"
  "fee_db_ok db \<Longrightarrow> fee_db_ok (snd (put_assignment a status prov db))"
  by (auto simp: post_assignment_def put_assignment_def Let_def split: sum.split option.split dest!: assignTaxFee_frame)

interpretation fee_requests: guarded_machine "fee_step simulated owned" fee_db_ok for simulated owned
proof
  fix db x db'
  assume "fee_db_ok db" "fee_step simulated owned x db = Inr db'"
  then show "fee_db_ok db'"
    by (cases x) (auto simp: fee_step_def post_definition_ok put_definition_ok delete_ok assignment_requests_ok)
qed

end
