(* ===== verification/Tax_Charges.thy ===== *)
theory Tax_Charges
  imports Tax_Store_Correctness Tax_Fees_Correctness
begin

text \<open>
  What a sale is charged after a request: the definitions in effect, the edits that change nothing
  before a publication, and the publication that does.
\<close>

section \<open>The definition a sale sees\<close>

lemma find_version:
  assumes "fee_db_ok db" "v \<in> set (fdb_versions db)"
  shows "List.find (\<lambda>w. fv_id w = fv_id v) (fdb_versions db) = Some v"
  by (rule find_unique [OF fee_db_okD(2) [OF assms(1)] assms(2)])

lemma history_current:
  assumes "fee_db_ok db" "d \<in> set (fdb_definitions db)"
  shows "fd_currentVersionId d = (if versions_of (fd_id d) db = [] then None else Some (fv_id (last (versions_of (fd_id d) db))))"
  using fee_db_okD(5) [OF assms] by (simp only: def_history_def Let_def)

lemma current_version_last:
  assumes ok: "fee_db_ok db" and d: "d \<in> set (fdb_definitions db)"
  shows "current_version d db = (if versions_of (fd_id d) db = [] then None else Some (last (versions_of (fd_id d) db)))"
proof (cases "versions_of (fd_id d) db = []")
  case True
  then show ?thesis using history_current [OF ok d] by (simp add: current_version_def)
next
  case False
  have "last (versions_of (fd_id d) db) \<in> set (versions_of (fd_id d) db)" using False by simp
  then have "last (versions_of (fd_id d) db) \<in> set (fdb_versions db)" by (auto simp: versions_of_def)
  then show ?thesis using False history_current [OF ok d] find_version [OF ok] by (simp add: current_version_def)
qed

lemma sold_None:
  "fd_currentVersionId d = None \<Longrightarrow> sold_definition db d = None"
  by (simp add: sold_definition_def current_version_def)

lemma sold_key: "sold_definition db d = Some e \<Longrightarrow> fd_id e = fd_id d"
  by (auto simp: sold_definition_def mapVersionedDefinition_def Option.bind_eq_Some_conv)

lemma list_sold_set:
  "set (listDefinitionsByIds ids db) = {e. \<exists>d \<in> set (fdb_definitions db). fd_id d \<in> set ids \<and> sold_definition db d = Some e}"
  by (auto simp: listDefinitionsByIds_def List.map_filter_def image_iff) (metis option.sel)

lemma sold_keys: "fd_id ` set (List.map_filter (sold_definition db) ds) \<subseteq> fd_id ` set ds"
  by (auto simp: List.map_filter_def sold_key)

lemma distinct_sold: "distinct (map fd_id ds) \<Longrightarrow> distinct (map fd_id (List.map_filter (sold_definition db) ds))"
proof (induction ds)
  case (Cons d ds)
  show ?case
  proof (cases "sold_definition db d")
    case (Some e)
    then have "fd_id e \<notin> fd_id ` set (List.map_filter (sold_definition db) ds)"
      using Cons.prems sold_keys [of db ds] sold_key [OF Some] by auto
    then show ?thesis using Cons Some by (simp add: map_filter_simps)
  qed (use Cons in \<open>simp add: map_filter_simps\<close>)
qed (simp add: map_filter_simps)

lemma distinct_list_sold: "fee_db_ok db \<Longrightarrow> distinct (map fd_id (listDefinitionsByIds ids db))"
  unfolding listDefinitionsByIds_def
  by (intro distinct_sold) (simp add: distinct_map_filter fee_db_okD(1))

text \<open>What a sale is charged depends on the assignments, the products and the definitions sold.\<close>

lemma resolve_cong:
  assumes "fdb_assignments db = fdb_assignments db'" "fdb_products db = fdb_products db'"
    and "\<And>ids. listDefinitionsByIds ids db = listDefinitionsByIds ids db'"
  shows "resolveEffectiveTaxFees lc now q db = resolveEffectiveTaxFees lc now q db'"
proof -
  have "scope_chain q db = scope_chain q db'" by (simp add: scope_chain_def getProviderIdByProductId_def assms(2))
  then show ?thesis using assms by (simp add: resolveEffectiveTaxFees_def listActiveAssignments_def)
qed

section \<open>The definitions in effect\<close>

lemma resolve_assignment_iff:
  assumes "fee_db_ok db" "fas_definitionId a \<in> set ids"
  shows "resolve_assignment now (listDefinitionsByIds ids db) a = Some r \<longleftrightarrow>
    assignment_in_effect now a \<and> (\<exists>d \<in> set (fdb_definitions db). \<exists>e. fd_id d = fas_definitionId a \<and>
      sold_definition db d = Some e \<and> isValidDefinition e now \<and> r = resolved_of a e)"
proof -
  let ?ds = "listDefinitionsByIds ids db"
  have found: "List.find (\<lambda>d. fd_id d = fas_definitionId a) (rev ?ds) = Some e \<longleftrightarrow> e \<in> set ?ds \<and> fd_id e = fas_definitionId a" for e
  proof
    assume "e \<in> set ?ds \<and> fd_id e = fas_definitionId a"
    moreover from this have "List.find (\<lambda>d. fd_id d = fd_id e) (rev ?ds) = Some e"
      by (intro find_unique) (simp_all add: rev_map [symmetric] distinct_list_sold [OF assms(1)])
    ultimately show "List.find (\<lambda>d. fd_id d = fas_definitionId a) (rev ?ds) = Some e" by simp
  qed (auto dest: find_Some_mem)
  have listed: "e \<in> set ?ds \<and> fd_id e = fas_definitionId a \<longleftrightarrow>
      (\<exists>d \<in> set (fdb_definitions db). fd_id d = fas_definitionId a \<and> sold_definition db d = Some e)" for e
  proof -
    have "fd_id d = fd_id e" if "sold_definition db d = Some e" for d using sold_key [OF that] by simp
    then show ?thesis using assms(2) unfolding list_sold_set by force
  qed
  have "resolve_assignment now ?ds a = Some r \<longleftrightarrow> assignment_in_effect now a \<and>
      (\<exists>e. e \<in> set ?ds \<and> fd_id e = fas_definitionId a \<and> isValidDefinition e now \<and> r = resolved_of a e)"
    unfolding resolve_assignment_def conj_assoc [symmetric] found [symmetric]
    by (cases "List.find (\<lambda>d. fd_id d = fas_definitionId a) (rev ?ds)") auto
  also have "\<dots> \<longleftrightarrow> assignment_in_effect now a \<and> (\<exists>d \<in> set (fdb_definitions db). \<exists>e. fd_id d = fas_definitionId a \<and>
      sold_definition db d = Some e \<and> isValidDefinition e now \<and> r = resolved_of a e)"
    using listed by blast
  finally show ?thesis .
qed

definition assigned_for :: "fee_query \<Rightarrow> fee_db \<Rightarrow> fee_assignment \<Rightarrow> bool" where
  "assigned_for q db a \<longleftrightarrow> fas_status a = ''active'' \<and>
     (\<exists>(scope, i) \<in> set (scope_chain q db). fas_scope a = scope \<and> column_is i (fas_scopeId a)) \<and>
     fas_channel a \<in> set (sale_channels q)"

lemma listActive_set:
  "set (listActiveAssignments (scope_chain q db) (sale_channels q) db) = {a \<in> set (fdb_assignments db). assigned_for q db a}"
proof -
  have "scope_chain q db \<noteq> []" "sale_channels q \<noteq> []" by (simp_all add: scope_chain_def sale_channels_def)
  then show ?thesis by (auto simp: listActiveAssignments_def assigned_for_def list_ex_iff)
qed

lemma resolved_iff:
  assumes "fee_db_ok db"
  shows "r \<in> set (resolveEffectiveTaxFees lc now q db) \<longleftrightarrow>
    (\<exists>a \<in> set (fdb_assignments db). assigned_for q db a \<and> assignment_in_effect now a \<and>
      (\<exists>d \<in> set (fdb_definitions db). \<exists>e. fd_id d = fas_definitionId a \<and> sold_definition db d = Some e \<and>
        isValidDefinition e now \<and> r = resolved_of a e))"
proof -
  let ?as = "listActiveAssignments (scope_chain q db) (sale_channels q) db"
  let ?ids = "js_dedup (map fas_definitionId ?as)"
  have "r \<in> set (resolveEffectiveTaxFees lc now q db) \<longleftrightarrow> (\<exists>a \<in> set ?as. resolve_assignment now (listDefinitionsByIds ?ids db) a = Some r)"
    by (auto simp: resolveEffectiveTaxFees_def List.map_filter_def Let_def image_iff)
  also have "\<dots> \<longleftrightarrow> (\<exists>a \<in> set ?as. assignment_in_effect now a \<and>
      (\<exists>d \<in> set (fdb_definitions db). \<exists>e. fd_id d = fas_definitionId a \<and> sold_definition db d = Some e \<and>
        isValidDefinition e now \<and> r = resolved_of a e))"
    by (intro bex_cong refl resolve_assignment_iff [OF assms]) simp
  finally show ?thesis unfolding listActive_set by blast
qed

lemma fee_order_comparator:
  assumes "comparator lc"
  shows "comparator (fee_order lc)"
  using comparator.refl [OF assms] comparator.total [OF assms]
  by unfold_locales (auto simp: fee_order_def Let_def split: if_splits intro: comparator.trans [OF assms])


section \<open>Edits that charge nothing\<close>

lemma sold_definition_table [simp]:
  "sold_definition (update_definition i f db) = sold_definition db"
  "sold_definition (db\<lparr>fdb_definitions := ds\<rparr>) = sold_definition db"
  "sold_definition (db\<lparr>fdb_drafts := rs\<rparr>) = sold_definition db"
  by (rule ext, simp add: sold_definition_def current_version_def update_definition_def split: option.split)+

lemma list_sold_append:
  "fd_currentVersionId d = None \<Longrightarrow> listDefinitionsByIds ids (db\<lparr>fdb_definitions := fdb_definitions db @ [d]\<rparr>) = listDefinitionsByIds ids db"
  by (simp add: listDefinitionsByIds_def map_filter_def sold_None)

lemma createTaxFeeDefinition_charges:
  assumes "createTaxFeeDefinition u now p db = Inr db'"
  shows "resolveEffectiveTaxFees lc t q db' = resolveEffectiveTaxFees lc t q db"
proof -
  obtain d where "db' = db\<lparr>fdb_definitions := fdb_definitions db @ [d]\<rparr>" "fd_currentVersionId d = None"
    using assms by (auto simp: createTaxFeeDefinition_def createDefinition_def Let_def split: option.splits if_splits)
  then show ?thesis by (intro resolve_cong) (simp_all add: list_sold_append)
qed

text \<open>Rewriting a definition that has no version.\<close>

lemma list_sold_update:
  assumes "\<forall>d \<in> set (fdb_definitions db). fd_id d = i \<longrightarrow> fd_currentVersionId d = None"
    and "\<And>d. fd_currentVersionId (f d) = fd_currentVersionId d" "\<And>d. fd_id (f d) = fd_id d"
  shows "listDefinitionsByIds ids (update_definition i f db) = listDefinitionsByIds ids db"
proof -
  have "List.map_filter g (filter (\<lambda>d. fd_id d \<in> set ids) (update_rows (\<lambda>d. fd_id d = i) f ds)) =
      List.map_filter g (filter (\<lambda>d. fd_id d \<in> set ids) ds)"
    if "\<forall>d \<in> set ds. fd_id d = i \<longrightarrow> g d = None \<and> g (f d) = None" for ds and g :: "fee_definition \<Rightarrow> fee_definition option"
    using that by (induction ds) (auto simp: update_rows_def map_filter_simps assms(3) split: option.split)
  moreover have "\<forall>d \<in> set (fdb_definitions db). fd_id d = i \<longrightarrow> sold_definition db d = None \<and> sold_definition db (f d) = None"
    using assms(1,2) by (simp add: sold_None)
  ultimately show ?thesis by (simp add: listDefinitionsByIds_def) (simp add: update_definition_def)
qed

lemma update_unpublished_charges:
  assumes "\<forall>d \<in> set (fdb_definitions db). fd_id d = i \<longrightarrow> fd_currentVersionId d = None"
    and "\<And>d. fd_currentVersionId (f d) = fd_currentVersionId d" "\<And>d. fd_id (f d) = fd_id d"
  shows "resolveEffectiveTaxFees lc t q (update_definition i f db) = resolveEffectiveTaxFees lc t q db"
proof (rule resolve_cong)
  show "fdb_assignments (update_definition i f db) = fdb_assignments db" "fdb_products (update_definition i f db) = fdb_products db"
    by (simp_all add: update_definition_def)
  show "listDefinitionsByIds ids (update_definition i f db) = listDefinitionsByIds ids db" for ids
    by (rule list_sold_update [OF assms])
qed

lemma saveDraft_charges:
  assumes ok: "fee_db_ok db" and save: "saveTaxFeeDefinitionDraft i prov now patch db = Inr (isolated, db')"
  shows "resolveEffectiveTaxFees lc t q db' = resolveEffectiveTaxFees lc t q db"
proof -
  obtain d where d: "getDefinitionById i db = Some d"
    using save by (auto simp: saveTaxFeeDefinitionDraft_def split: option.splits if_splits)
  show ?thesis
  proof (cases "fd_currentVersionId d")
    case None
    then have "db' = update_definition i (\<lambda>d. d\<lparr>fd_terms := patch, fd_status := ''archived'', fd_editingState := ''draft'', fd_updatedAt := now\<rparr>) db"
      using save d by (simp add: saveTaxFeeDefinitionDraft_def split: if_splits)
    moreover have "\<forall>e \<in> set (fdb_definitions db). fd_id e = i \<longrightarrow> fd_currentVersionId e = None"
      using same_definition [OF ok d] None by blast
    ultimately show ?thesis using update_unpublished_charges by simp
  next
    case (Some cur)
    then obtain rs where "db' = db\<lparr>fdb_drafts := rs\<rparr>"
      using save d by (auto simp: saveTaxFeeDefinitionDraft_def split: if_splits)
    then show ?thesis by (intro resolve_cong) (simp_all add: listDefinitionsByIds_def)
  qed
qed

lemma updateUnpublished_charges:
  assumes ok: "fee_db_ok db" and upd: "updateTaxFeeDefinition i now p db = Inr db'"
    and none: "\<forall>d. getDefinitionById i db = Some d \<longrightarrow> fd_currentVersionId d = None"
  shows "resolveEffectiveTaxFees lc t q db' = resolveEffectiveTaxFees lc t q db"
proof -
  obtain d where d: "getDefinitionById i db = Some d"
    using upd by (auto simp: updateTaxFeeDefinition_def Let_def split: option.splits if_splits)
  have "\<forall>e \<in> set (fdb_definitions db). fd_id e = i \<longrightarrow> fd_currentVersionId e = None"
    using same_definition [OF ok d] none d by blast
  moreover obtain f where "db' = update_definition i f db" "\<And>x. fd_currentVersionId (f x) = fd_currentVersionId x" "\<And>x. fd_id (f x) = fd_id x"
    using upd d by (simp add: updateTaxFeeDefinition_def Let_def split: option.splits if_splits) fastforce+
  ultimately show ?thesis using update_unpublished_charges by simp
qed

end
