(* ===== verification/Tax_Publication.thy ===== *)
theory Tax_Publication
  imports Tax_Charges
begin

text \<open>
  What publishing changes and what the other requests do not: drafts and archiving leave every charge
  as it was, a publication puts its terms into effect and spends its token, and what it does not check.
\<close>

section \<open>Requests that do not publish\<close>

lemma put_unpublished_charges:
  assumes ok: "fee_db_ok db" and mode: "dr_publicationMode r = Some ''draft'' \<or> requested_status r = ''archived''"
  shows "resolveEffectiveTaxFees lc t q (snd (put_definition simulated w now prov r db)) = resolveEffectiveTaxFees lc t q db"
proof -
  have save: "resolveEffectiveTaxFees lc t q db' = resolveEffectiveTaxFees lc t q db"
    if "saveTaxFeeDefinitionDraft i prov now patch db = Inr (b, db')" for i patch b db'
    using saveDraft_charges [OF ok that] .
  have upd: "resolveEffectiveTaxFees lc t q db' = resolveEffectiveTaxFees lc t q db"
    if "updateTaxFeeDefinition (dr_id r) now p db = Inr db'"
      "\<not> (case getDefinitionById (dr_id r) db of None \<Rightarrow> False | Some d \<Rightarrow> fd_currentVersionId d \<noteq> None)" for p db'
    by (rule updateUnpublished_charges [OF ok that(1)]) (use that(2) in auto)
  show ?thesis
    using mode by (auto simp: put_definition_def Let_def split: sum.split dest: save upd)
qed

text \<open>
  C26. Until a publication nothing of an edit is charged: a request that saves a draft, and a request that
  archives a definition, leave the taxes and fees of every sale at every moment as they were. A published
  definition that was archived is therefore still charged.
\<close>

theorem archiving_keeps_charging:
  assumes "fee_db_ok db" "dr_publicationMode r = Some ''draft'' \<or> requested_status r = ''archived''"
  shows "resolveEffectiveTaxFees lc t q (snd (put_definition simulated w now prov r db)) = resolveEffectiveTaxFees lc t q db"
  by (rule put_unpublished_charges [OF assms])

lemma post_draft_charges:
  assumes "dr_publicationMode r = Some ''draft''"
  shows "resolveEffectiveTaxFees lc t q (snd (post_definition u w now prov r db)) = resolveEffectiveTaxFees lc t q db"
  using assms createTaxFeeDefinition_charges by (simp add: post_definition_def split: sum.split)

section \<open>A publication\<close>

lemma publication_effect:
  assumes ok: "fee_db_ok db" and pub: "publishTaxFeeDefinition uuid now p db = Inr (n, db')"
  obtains d d' where "getDefinitionById (pbi_definitionId p) db = Some d"
    and "fd_providerId d' = fd_providerId d" "fd_terms d' = released_terms p d db" "fd_currentVersionId d' = Some uuid"
    and "getDefinitionById (pbi_definitionId p) db' = Some d'" "sold_definition db' d' = Some d'"
    and "\<And>e. e \<in> set (fdb_definitions db) \<Longrightarrow> fd_id e \<noteq> pbi_definitionId p \<Longrightarrow>
      e \<in> set (fdb_definitions db') \<and> sold_definition db' e = sold_definition db e"
proof -
  let ?i = "pbi_definitionId p"
  obtain d t v where d: "getDefinitionById ?i db = Some d" and t: "t = released_terms p d db" "ruleSchema t"
    and v: "v = \<lparr>fv_id = uuid, fv_definitionId = ?i, fv_version = n, fv_publicationState = pbi_publicationState p, fv_snapshot = SnapshotV2 t\<rparr>"
    and fresh: "\<forall>w \<in> set (fdb_versions db). fv_id w \<noteq> uuid"
    and versions: "fdb_versions db' = fdb_versions db @ [v]"
    and defs: "fdb_definitions db' = update_rows (\<lambda>d. fd_id d = ?i) (\<lambda>d. d\<lparr>fd_terms := t, fd_currentVersionId := Some uuid,
        fd_editingState := ''published'', fd_status := (case pbi_operationalStatus p of None \<Rightarrow> ''active'' | Some s \<Rightarrow> s),
        fd_updatedAt := now\<rparr>) (fdb_definitions db)"
    using pub by (rule publish_cases)
  note mem = getDefinitionById_mem [OF d]
  define d' where "d' = d\<lparr>fd_terms := t, fd_currentVersionId := Some uuid, fd_editingState := ''published'',
      fd_status := (case pbi_operationalStatus p of None \<Rightarrow> ''active'' | Some s \<Rightarrow> s), fd_updatedAt := now\<rparr>"
  have row: "getDefinitionById ?i db' = Some d'"
    using d mem unfolding getDefinitionById_def defs d'_def by (subst find_update_key) auto
  have "List.find (\<lambda>w. fv_id w = uuid) (fdb_versions db) = None" using fresh by (simp add: find_None_all)
  then have "current_version d' db' = Some v" by (simp add: current_version_def versions find_append d'_def v)
  then have sold: "sold_definition db' d' = Some d'"
    using t(2) by (simp add: sold_definition_def mapVersionedDefinition_def v) (simp add: d'_def)
  have other: "e \<in> set (fdb_definitions db') \<and> sold_definition db' e = sold_definition db e"
    if e: "e \<in> set (fdb_definitions db)" "fd_id e \<noteq> ?i" for e
  proof
    show "e \<in> set (fdb_definitions db')" using e by (auto simp: defs set_update_rows image_iff)
    show "sold_definition db' e = sold_definition db e"
    proof (cases "versions_of (fd_id e) db = []")
      case True
      then show ?thesis using history_current [OF ok e(1)] by (simp add: sold_None)
    next
      case False
      then obtain c where c: "fd_currentVersionId e = Some (fv_id c)" "c \<in> set (fdb_versions db)"
        using history_current [OF ok e(1)] last_in_set [OF False] by (auto simp: versions_of_def)
      then show ?thesis
        using find_version [OF ok c(2)] by (simp add: sold_definition_def current_version_def versions find_append)
    qed
  qed
  show thesis by (rule that [OF d _ _ _ row sold other]) (simp_all add: d'_def t(1))
qed

lemma second_publication:
  assumes ok: "fee_db_ok db" and pub: "publishTaxFeeDefinition uuid now p db = Inr (n, db')"
  shows "publishTaxFeeDefinition uuid' now' p db' = Inl PublicationConflict"
proof -
  obtain d d' where d: "getDefinitionById (pbi_definitionId p) db = Some d"
    and d': "fd_providerId d' = fd_providerId d" "fd_currentVersionId d' = Some uuid"
    and row: "getDefinitionById (pbi_definitionId p) db' = Some d'"
    by (rule publication_effect [OF ok pub])
  have prov: "pbi_providerId p = None \<or> pbi_providerId p = Some (fd_providerId d)"
  proof (rule ccontr)
    assume "\<not> (pbi_providerId p = None \<or> pbi_providerId p = Some (fd_providerId d))"
    then have "publishTaxFeeDefinition uuid now p db = Inl (FeeError ''Not found'')"
      using d by (simp add: publishTaxFeeDefinition_def Let_def)
    then show False using pub by simp
  qed
  obtain e where e: "getDefinitionById (pbi_definitionId p) db = Some e" "fd_currentVersionId e = pbi_expectedCurrentVersionId p"
    and fresh: "\<forall>w \<in> set (fdb_versions db). fv_id w \<noteq> uuid"
    by (rule publish_cases [OF pub])
  then have cur: "fd_currentVersionId d = pbi_expectedCurrentVersionId p" using d by simp
  have "fd_currentVersionId d \<noteq> Some uuid"
  proof (cases "versions_of (fd_id d) db = []")
    case False
    then have "last (versions_of (fd_id d) db) \<in> set (fdb_versions db)" using last_in_set [OF False] by (auto simp: versions_of_def)
    then show ?thesis using fresh history_current [OF ok] getDefinitionById_mem [OF d] by auto
  qed (use history_current [OF ok] getDefinitionById_mem [OF d] in auto)
  then show ?thesis using row d' prov cur by (auto simp: publishTaxFeeDefinition_def Let_def)
qed


text \<open>
  C24. Every run of requests, failed ones included, keeps the history of the definitions: identifiers are
  unique, the versions of a definition are numbered from one without a gap and hold valid snapshots, the
  current version is the last of them, and drafts stand on published definitions only.
\<close>

theorem fee_history_intact:
  assumes "fee_db_ok db"
  shows "fee_db_ok (run_ops (fee_step simulated owned) xs db)"
  by (rule fee_requests.run_keeps [OF assms])

end
