(* ===== verification/Tax_Example.thy ===== *)
theory Tax_Example
  imports Tax_Publication
begin

text \<open>A provider's taxes on concrete requests, and the applications of the theorems to them.\<close>

definition ex_jurisdiction :: jurisdiction_rule where
  "ex_jurisdiction = \<lparr>jr_country = Some ''CL'', jr_region = None, jr_city = None, jr_collectionResponsibility = None,
     jr_taxableBase = None, jr_exemptGuestResidenceCountries = [], jr_maxAmount = Null, jr_maxNights = Null,
     jr_seasonalMode = None, jr_seasons = []\<rparr>"

definition ex_rule :: jurisdiction_rule where
  "ex_rule = ex_jurisdiction\<lparr>jr_collectionResponsibility := Some ''provider'', jr_taxableBase := Some ''booking_base''\<rparr>"

definition ex_terms :: fee_terms where
  "ex_terms = \<lparr>ft_code = ''IVA'', ft_name = ''IVA'', ft_kind = ''tax'', ft_calculationType = ''percentage'', ft_value = 19,
     ft_currency = None, ft_inclusionType = ''excluded'', ft_appliesPer = ''stay'', ft_priority = 0,
     ft_jurisdiction = None, ft_effectiveFrom = None, ft_effectiveTo = None\<rparr>"

definition ex_definition :: "fee_terms \<Rightarrow> fee_definition" where
  "ex_definition t = \<lparr>fd_id = ''d'', fd_providerId = ''p'', fd_terms = t, fd_status = ''active'',
     fd_editingState = ''published'', fd_currentVersionId = Some ''v'', fd_createdAt = 0, fd_updatedAt = 0\<rparr>"

definition ex_resolved :: "fee_terms \<Rightarrow> resolved_fee" where
  "ex_resolved t = \<lparr>rf_definition = ex_definition t, rf_source = \<lparr>fsrc_scope = ''product'', fsrc_scopeId = Some ''h'',
     fsrc_definitionId = ''d'', fsrc_definitionVersionId = Some ''v''\<rparr>\<rparr>"

definition ex_fee_params :: fee_params where
  "ex_fee_params = \<lparr>fp_base = 200, fp_nights = 2, fp_guests = 2, fp_context = \<lparr>fc_country = Some ''CL'', fc_region = None,
     fc_city = None, fc_guestResidenceCountry = None, fc_checkIn = Some ''2026-01-05''\<rparr>\<rparr>"

definition ex_night_fee :: fee_terms where
  "ex_night_fee = ex_terms\<lparr>ft_code := ''CITY'', ft_kind := ''fee'', ft_calculationType := ''fixed'', ft_value := 3 / 2,
     ft_currency := Some ''USD'', ft_appliesPer := ''guest_night''\<rparr>"

lemma ex_round: "roundMoney 200 = 200"
  using round_in_cents [of 200] by (auto simp: in_cents_def intro: exI [of _ 20000])

theorem fees_on_base_are_independent_witness:
  "tb_total (computeTaxBreakdown ex_fee_params [ex_resolved ex_terms, ex_resolved ex_night_fee]) = 244 \<and>
   tb_total (computeTaxBreakdown ex_fee_params [ex_resolved ex_night_fee, ex_resolved ex_terms]) = 244"
proof -
  let ?rs = "[ex_resolved ex_terms, ex_resolved ex_night_fee]"
  have base: "\<forall>r \<in> set ?rs. on_booking_base r"
    by (simp add: on_booking_base_def ex_resolved_def ex_definition_def ex_terms_def ex_night_fee_def readRule_def empty_rule_def)
  have "tb_total (computeTaxBreakdown ex_fee_params ?rs) = 244" by code_simp
  with fees_on_base_are_independent [OF base, of "rev ?rs" ex_fee_params] show ?thesis by simp
qed

text \<open>The same tax of 19 percent with and without a cap of \<open>null\<close>.\<close>

lemma ex_parsed: "parseJurisdiction (Some ex_jurisdiction) = Inr (Some ex_rule)"
  by code_simp

theorem null_cap_waives_fee_witness:
  "tb_total (computeTaxBreakdown ex_fee_params [ex_resolved (ex_terms\<lparr>ft_jurisdiction := Some ex_rule\<rparr>)]) = 200 \<and>
   tb_total (computeTaxBreakdown ex_fee_params [ex_resolved (ex_terms\<lparr>ft_jurisdiction := Some (ex_rule\<lparr>jr_maxAmount := Absent\<rparr>)\<rparr>)]) = 238"
proof
  have "jr_maxAmount ex_jurisdiction = Null" by (simp add: ex_jurisdiction_def)
  from null_cap_waives_fee [OF ex_parsed this, of "ex_resolved (ex_terms\<lparr>ft_jurisdiction := Some ex_rule\<rparr>)" ex_fee_params]
  show "tb_total (computeTaxBreakdown ex_fee_params [ex_resolved (ex_terms\<lparr>ft_jurisdiction := Some ex_rule\<rparr>)]) = 200"
    using ex_round by (simp add: ex_resolved_def ex_definition_def ex_fee_params_def)
  show "tb_total (computeTaxBreakdown ex_fee_params [ex_resolved (ex_terms\<lparr>ft_jurisdiction := Some (ex_rule\<lparr>jr_maxAmount := Absent\<rparr>)\<rparr>)]) = 238"
    by code_simp
qed

section \<open>Requests\<close>

definition ex_fee_db :: fee_db where
  "ex_fee_db = \<lparr>fdb_definitions = [], fdb_versions = [], fdb_drafts = [], fdb_assignments = [], fdb_activity = [],
     fdb_products = [(''h'', ''p'')]\<rparr>"

definition ex_request :: "string option \<Rightarrow> definition_request" where
  "ex_request mode = \<lparr>dr_id = ''d'', dr_terms = ex_terms, dr_status = None, dr_publicationMode = mode,
     dr_expectedCurrentVersionId = None, dr_expectedRevision = None\<rparr>"

definition ex_assign :: "string \<Rightarrow> assign_input" where
  "ex_assign d = \<lparr>asi_definitionId = d, asi_scope = ''product'', asi_scopeId = Some ''h'', asi_channel = None,
     asi_status = None, asi_effectiveFrom = None, asi_effectiveTo = None\<rparr>"

definition ex_run :: "fee_request list \<Rightarrow> fee_db" where
  "ex_run xs = run_ops (fee_step (\<lambda>_ _. True) (\<lambda>_ _. True)) xs ex_fee_db"

lemma ex_fee_db_ok: "fee_db_ok ex_fee_db"
  by (simp add: fee_db_ok_def ex_fee_db_def)

theorem fee_history_intact_witness: "fee_db_ok (ex_run [PostDefinition ''d'' ''v'' 0 ''p'' (ex_request None)])"
  unfolding ex_run_def by (rule fee_history_intact [OF ex_fee_db_ok])

definition ex_sale :: fee_query where
  "ex_sale = \<lparr>fq_providerId = None, fq_productId = Some ''h'', fq_variantId = None, fq_ratePlanId = None, fq_channel = Some ''web''\<rparr>"

definition ex_published :: "fee_request list" where
  "ex_published = [PostDefinition ''d'' ''v'' 0 ''p'' (ex_request None), PostAssignment ''a'' (ex_assign ''d'')]"

definition ex_codes :: "fee_db \<Rightarrow> (string \<times> rat) list" where
  "ex_codes db = map (\<lambda>r. (fsrc_definitionId (rf_source r), ft_value (fd_terms (rf_definition r))))
     (resolveEffectiveTaxFees (\<lambda>_ _. 0) 5 ex_sale db)"

lemma ex_charged: "ex_codes (ex_run ex_published) = [(''d'', 19)]"
  by code_simp

lemma ex_run_ok: "fee_db_ok (ex_run xs)"
  unfolding ex_run_def by (rule fee_requests.run_keeps [OF ex_fee_db_ok])

text \<open>Archiving a published and assigned tax, answered as a success, leaves it charged.\<close>

theorem archiving_keeps_charging_witness:
  "fst (put_definition (\<lambda>_ _. True) ''w'' 9 ''p'' ((ex_request None)\<lparr>dr_status := Some ''archived''\<rparr>) (ex_run ex_published)) = FeeOk ''d'' \<and>
   ex_codes (snd (put_definition (\<lambda>_ _. True) ''w'' 9 ''p'' ((ex_request None)\<lparr>dr_status := Some ''archived''\<rparr>) (ex_run ex_published))) = [(''d'', 19)]"
proof
  show "fst (put_definition (\<lambda>_ _. True) ''w'' 9 ''p'' ((ex_request None)\<lparr>dr_status := Some ''archived''\<rparr>) (ex_run ex_published)) = FeeOk ''d''"
    by code_simp
  have "dr_publicationMode ((ex_request None)\<lparr>dr_status := Some ''archived''\<rparr>) = Some ''draft'' \<or>
      requested_status ((ex_request None)\<lparr>dr_status := Some ''archived''\<rparr>) = ''archived''"
    by (simp add: requested_status_def)
  from archiving_keeps_charging [OF ex_run_ok this, of "\<lambda>_ _. 0" 5 ex_sale "\<lambda>_ _. True" "''w''" 9 "''p''" ex_published]
  show "ex_codes (snd (put_definition (\<lambda>_ _. True) ''w'' 9 ''p'' ((ex_request None)\<lparr>dr_status := Some ''archived''\<rparr>) (ex_run ex_published))) = [(''d'', 19)]"
    using ex_charged by (simp add: ex_codes_def)
qed

definition ex_draft_only :: fee_db where
  "ex_draft_only = ex_run [PostDefinition ''d'' ''v'' 0 ''p'' (ex_request (Some ''draft''))]"

definition ex_publish :: publish_input where
  "ex_publish = \<lparr>pbi_definitionId = ''d'', pbi_providerId = Some ''p'', pbi_publicationState = ''published'',
     pbi_operationalStatus = Some ''active'', pbi_expectedCurrentVersionId = None, pbi_expectedRevision = 0,
     pbi_patch = Some (ex_terms\<lparr>ft_value := 21\<rparr>)\<rparr>"



section \<open>What the requests do not check\<close>

text \<open>
  Creating refuses a second active definition of a code, but a definition is created archived and
  activated by its publication, which does not look at the code.
\<close>

lemma two_active_definitions_share_a_code:
  "map (\<lambda>d. (fd_id d, ft_code (fd_terms d), fd_status d))
     (fdb_definitions (ex_run [PostDefinition ''d'' ''v'' 0 ''p'' (ex_request (Some ''draft'')),
        PostDefinition ''e'' ''w'' 1 ''p'' (ex_request None),
        PutDefinition ''v'' 2 ''p'' (ex_request (Some ''publish''))])) =
   [(''d'', ''IVA'', ''active''), (''e'', ''IVA'', ''active'')]"
  by code_simp

text \<open>
  Assigning refuses a second active assignment of a definition to a target, but reactivating a paused one
  does not: the sale is then charged the tax twice.
\<close>

lemma reactivation_charges_twice:
  "ex_codes (ex_run (ex_published @ [PutAssignment ''a'' ''archived'' ''p'', PostAssignment ''b'' (ex_assign ''d''),
     PutAssignment ''a'' ''active'' ''p''])) = [(''d'', 19), (''d'', 19)]"
  by code_simp

text \<open>
  A publication checks the fields of the snapshot only: a percentage with a currency is published, and
  then never charged.
\<close>

lemma published_but_never_charged:
  "fst (put_definition (\<lambda>_ _. True) ''w'' 9 ''p'' ((ex_request (Some ''publish''))
      \<lparr>dr_terms := ex_terms\<lparr>ft_currency := Some ''USD''\<rparr>, dr_expectedCurrentVersionId := Some ''v'', dr_expectedRevision := Some 1\<rparr>)
      (ex_run ex_published)) = FeeOk ''d'' \<and>
   ex_codes (snd (put_definition (\<lambda>_ _. True) ''w'' 9 ''p'' ((ex_request (Some ''publish''))
      \<lparr>dr_terms := ex_terms\<lparr>ft_currency := Some ''USD''\<rparr>, dr_expectedCurrentVersionId := Some ''v'', dr_expectedRevision := Some 1\<rparr>)
      (ex_run ex_published))) = []"
  by (rule conjI; code_simp)

end
