(* ===== verification/Hold_Example.thy ===== *)
theory Hold_Example
  imports Hold_Offers Search_Offers_Example Tax_Example
begin

text \<open>The route applied to the example variant and the example provider's taxes.\<close>

definition ex_hold_request :: hold_request where
  "ex_hold_request = \<lparr>hrq_variantId = ''v'', hrq_ratePlanId = ''rp'', hrq_from = Iso 10, hrq_to = Iso 12, hrq_rooms = 1,
     hrq_adults = 2, hrq_children = 0, hrq_infants = 0, hrq_sessionId = ''s'', hrq_quoteId = None\<rparr>"

definition ex_hold_env :: hold_env where
  "ex_hold_env = \<lparr>hen_variants = (\<lambda>_. Some ''h''), hen_tourSlot = None, hen_toursEnabled = False, hen_listed = (\<lambda>_. True),
     hen_pricesFail = False, hen_today = 1, hen_country = (\<lambda>_. Some ''cl''), hen_enforceAgreement = False,
     hen_agreementActive = False, hen_agreement = None, hen_issuedAt = [], hen_checkInText = (\<lambda>_. ''2026-01-11'')\<rparr>"

definition ex_holdability :: "hold_request \<Rightarrow> holdability" where
  "ex_holdability r = resolveHoldabilityFromView (\<lambda>_. True) False 1 (hold_query_of r ''p'') ex_materialized"

definition ex_held :: held_stay where
  "ex_held = (case ex_holdability ex_hold_request of Holdable h \<Rightarrow> h | NotHoldable _ _ \<Rightarrow> undefined)"

definition ex_hold_fees :: fee_db where
  "ex_hold_fees = run_ops (fee_step (\<lambda>_ _. True) (\<lambda>_ _. True))
     [PostDefinition ''d'' ''v'' 0 ''p'' (ex_request None), PostAssignment ''a'' ((ex_assign ''d'')\<lparr>asi_scopeId := Some ''p''\<rparr>)]
     (ex_fee_db\<lparr>fdb_products := [(''p'', ''p'')]\<rparr>)"

definition ex_hold_quote :: "hold_request \<Rightarrow> price_quote" where
  "ex_hold_quote r = hold_quote (\<lambda>_ _. 0) (\<lambda>_. ''x'') ex_hold_env 5 r ''p'' ex_held ex_hold_fees"

lemma ex_held_ok: "ex_holdability ex_hold_request = Holdable ex_held"
proof -
  obtain store rows where db: "ex_materialized = ex_view store rows" by (rule ex_materialized_reads)
  have "case ex_holdability ex_hold_request of Holdable h \<Rightarrow> True | NotHoldable _ _ \<Rightarrow> False"
    unfolding ex_holdability_def db by code_simp
  then show ?thesis by (simp add: ex_held_def split: holdability.splits)
qed

lemma ex_quoted: "pq_totalAmount (ex_hold_quote ex_hold_request) = 238"
proof -
  obtain store rows where db: "ex_materialized = ex_view store rows" by (rule ex_materialized_reads)
  show ?thesis unfolding ex_hold_quote_def ex_held_def ex_holdability_def db by code_simp
qed

theorem route_snapshot_accepted_witness:
  "isHoldCommercialSnapshot (\<lambda>_ _. 0) (\<lambda>_. ''x'') (route_snapshot ex_hold_env ex_hold_request ex_held (ex_hold_quote ex_hold_request))"
proof -
  have "hold_schema ex_hold_request" by code_simp
  from route_snapshot_accepted [OF this _ ex_held_ok [unfolded ex_holdability_def], of ex_hold_env "\<lambda>_ _. 0" "\<lambda>_. ''x''" 5 ex_hold_fees]
    ex_quoted
  show ?thesis by (simp add: ex_hold_quote_def) (simp add: ex_hold_env_def)
qed

theorem rooms_are_not_charged_witness:
  "pq_totalAmount (ex_hold_quote (ex_hold_request\<lparr>hrq_rooms := 2\<rparr>)) = 238"
proof -
  obtain store rows where db: "ex_materialized = ex_view store rows" by (rule ex_materialized_reads)
  have "case ex_holdability (ex_hold_request\<lparr>hrq_rooms := 2\<rparr>) of Holdable h \<Rightarrow> True | NotHoldable _ _ \<Rightarrow> False"
    unfolding ex_holdability_def db by code_simp
  then obtain h where h: "ex_holdability (ex_hold_request\<lparr>hrq_rooms := 2\<rparr>) = Holdable h" by (auto split: holdability.splits)
  from rooms_are_not_charged [OF ex_held_ok [unfolded ex_holdability_def] h [unfolded ex_holdability_def],
    of "\<lambda>_ _. 0" "\<lambda>_. ''x''" ex_hold_env 5 ex_hold_fees] ex_quoted
  have "pq_totalAmount (hold_quote (\<lambda>_ _. 0) (\<lambda>_. ''x'') ex_hold_env 5 (ex_hold_request\<lparr>hrq_rooms := 2\<rparr>) ''p'' h ex_hold_fees) = 238"
    by (simp add: ex_hold_quote_def)
  moreover have "h = ex_held"
    using rooms_in_price [OF ex_held_ok [unfolded ex_holdability_def], of 2 h] h by (simp add: ex_holdability_def hold_query_of_def)
  ultimately show ?thesis by (simp add: ex_hold_quote_def)
qed

text \<open>The offer of the example variant, of two nights at 100, is held at 200.\<close>

lemma ex_materialized_prices: "sdb_pricing ex_materialized = sdb_pricing ex_search_db"
  by (simp add: ex_materialized_run)

lemma ex_view_rows:
  "\<forall>d \<in> set [10..12::int]. case sdb_view ex_materialized (''v'', ''rp'', d, ''a2_c0_i0'') of None \<Rightarrow> True
     | Some r \<Rightarrow> suv_productId r = ''p'' \<and> js_upper (suv_currency r) = ''USD''"
proof -
  obtain store rows where db: "ex_materialized = ex_view store rows" by (rule ex_materialized_reads)
  show ?thesis unfolding db by code_simp
qed


end
