(* ===== verification/Public_Search_Example.thy ===== *)
theory Public_Search_Example
  imports Public_Search_Hold Hold_Example
begin

text \<open>The public search over the example variant.\<close>

definition ex_surface_env :: surface_env where
  "ex_surface_env = \<lparr>sue_scan = [(''v'', ''rp'', 10), (''v'', ''rp'', 11)],
     sue_products = (\<lambda>_. Some \<lparr>sfr_name = ''Hotel'', sfr_placeId = ''g'', sfr_heroImageUrl = None, sfr_country = Some ''cl''\<rparr>),
     sue_listed = (\<lambda>_. True), sue_issuedAt = [], sue_dateText = (\<lambda>_. ''2026-01-11'')\<rparr>"

definition ex_searched :: "day \<Rightarrow> surface_params" where
  "ex_searched stop = \<lparr>sfp_geoPlaceId = ''g'', sfp_checkIn = 10, sfp_checkOut = stop, sfp_rooms = 1, sfp_adults = 2, sfp_children = 0,
     sfp_currency = ''USD''\<rparr>"

definition ex_surface :: "day \<Rightarrow> surface_result list" where
  "ex_surface stop = loadPublicSearchSurface (\<lambda>_ _. 0) (\<lambda>_. ''x'') ex_surface_env 5 (ex_searched stop) ex_hold_fees ex_materialized"

lemma ex_scan_complete: "scan_complete ex_surface_env p ex_materialized"
  unfolding scan_complete_def
proof (intro allI impI)
  fix ix assume "surface_row_at ex_surface_env p ex_materialized ix \<noteq> None"
  then obtain v plan d where ix: "ix = (v, plan, d)" "sdb_view ex_materialized (v, plan, d, surface_key p) \<noteq> None"
    by (cases ix) (auto simp: surface_row_at_def split: option.splits)
  then show "ix \<in> set (sue_scan ex_surface_env)"
    by (auto simp: ex_materialized_view ex_view_def ex_surface_env_def split: if_splits)
qed

lemma ex_on_sale: "unit_on_sale ex_surface_env (ex_searched 12) ex_materialized (request_unit ''p'' ex_hold_request)"
  "unit_on_sale ex_surface_env (ex_searched 11) ex_materialized (request_unit ''p'' ex_hold_request)"
proof -
  let ?sold = "\<lambda>stop d. surface_open 1 (unit_row ex_surface_env (ex_searched stop) ex_materialized (''p'', ''v'', ''rp'') d) \<and>
     Option.bind (unit_row ex_surface_env (ex_searched stop) ex_materialized (''p'', ''v'', ''rp'') d) srw_pricePerNight = Some 100"
  obtain store rows where db: "ex_materialized = ex_view store rows" by (rule ex_materialized_reads)
  have sold: "?sold 12 10" "?sold 12 11" "?sold 11 10" unfolding db by code_simp+
  have "{10..<12} = {10, 11 :: int}" "{10..<11} = {10 :: int}" by auto
  then show "unit_on_sale ex_surface_env (ex_searched 12) ex_materialized (request_unit ''p'' ex_hold_request)"
    "unit_on_sale ex_surface_env (ex_searched 11) ex_materialized (request_unit ''p'' ex_hold_request)"
    using sold unfolding unit_on_sale_def by (simp_all add: ex_searched_def request_unit_def ex_hold_request_def)
qed

lemma ex_plain: "plain_rows (surface_rows ex_surface_env (ex_searched stop) ex_materialized)" if "stop \<in> {11, 12}"
proof -
  obtain store rows where db: "ex_materialized = ex_view store rows" by (rule ex_materialized_reads)
  have "list_all (\<lambda>r. CHR '':'' \<notin> set (srw_productId r) \<and> CHR '':'' \<notin> set (srw_variantId r))
      (surface_rows ex_surface_env (ex_searched stop) ex_materialized)" if "stop = 11 \<or> stop = 12"
    unfolding db using that by (elim disjE; simp only:; code_simp)
  then show ?thesis using that by (simp add: plain_rows_def plain_id_def list_all_iff)
qed

lemma ex_listed: "map psr_productId (ex_surface 12) = [''p'']" "map psr_productId (ex_surface 11) = [''p'']"
proof -
  obtain store rows where db: "ex_materialized = ex_view store rows" by (rule ex_materialized_reads)
  show "map psr_productId (ex_surface 12) = [''p'']" "map psr_productId (ex_surface 11) = [''p'']"
    unfolding ex_surface_def db by code_simp+
qed

theorem surface_lists_cheapest_witness:
  "\<exists>r. ex_surface 12 = [r] \<and> psr_productId r = ''p'' \<and> psr_availableVariants r = card {u. unit_on_sale ex_surface_env (ex_searched 12)
     ex_materialized u \<and> fst u = ''p''} \<and>
     psr_fromPrice r \<le> pq_totalAmount (unit_quote (\<lambda>_ _. 0) (\<lambda>_. ''x'') ex_surface_env 5 (ex_searched 12) ex_hold_fees ex_materialized
       (request_unit ''p'' ex_hold_request))"
proof -
  obtain r where r: "ex_surface 12 = [r]" "psr_productId r = ''p''" using ex_listed(1) by auto
  have "sfp_checkIn (ex_searched 12) < sfp_checkOut (ex_searched 12)" by (simp add: ex_searched_def)
  note facts = surface_lists_cheapest [OF ex_scan_complete ex_plain [of 12, simplified] this, of "\<lambda>_ _. 0" "\<lambda>_. ''x''" 5 ex_hold_fees,
      folded ex_surface_def, unfolded r(1)]
  have "fst (request_unit ''p'' ex_hold_request) = psr_productId r" by (simp add: request_unit_def r(2))
  then have "psr_fromPrice r \<le> pq_totalAmount (unit_quote (\<lambda>_ _. 0) (\<lambda>_. ''x'') ex_surface_env 5 (ex_searched 12) ex_hold_fees ex_materialized
       (request_unit ''p'' ex_hold_request))"
    using facts ex_on_sale(1) list.set_intros(1) [of r "[]"] by blast
  moreover have "psr_availableVariants r = card {u. unit_on_sale ex_surface_env (ex_searched 12) ex_materialized u \<and> fst u = ''p''}"
    using facts r(2) by simp
  ultimately show ?thesis using r by blast
qed

definition ex_quoted_request :: hold_request where
  "ex_quoted_request = ex_hold_request\<lparr>hrq_quoteId := Some (pq_quoteId (unit_quote (\<lambda>_ _. 0) (\<lambda>_. ''x'') ex_surface_env 5
     (ex_searched 12) ex_hold_fees ex_materialized (request_unit ''p'' ex_hold_request)))\<rparr>"


text \<open>A single night, where the rate plan asks for two.\<close>

theorem listed_stay_is_refused_witness:
  "map psr_productId (ex_surface 11) = [''p''] \<and>
   (\<forall>h. ex_holdability (ex_hold_request\<lparr>hrq_to := Iso 11\<rparr>) \<noteq> Holdable h)"
proof -
  let ?r = "ex_hold_request\<lparr>hrq_to := Iso 11\<rparr>"
  obtain store rows where db: "ex_materialized = ex_view store rows" by (rule ex_materialized_reads)
  have "case sdb_view ex_materialized (''v'', ''rp'', 10, surface_key (ex_searched 11)) of None \<Rightarrow> False
      | Some row \<Rightarrow> stay_restriction 1 9 (stay_row_of row) (stay_row_of row) = Some MIN_STAY_NOT_MET" unfolding db by code_simp
  then obtain row where row: "sdb_view ex_materialized (''v'', ''rp'', 10, surface_key (ex_searched 11)) = Some row"
    "stay_restriction 1 9 (stay_row_of row) (stay_row_of row) = Some MIN_STAY_NOT_MET" by (auto split: option.splits)
  have unit: "request_unit ''p'' ?r = request_unit ''p'' ex_hold_request" by (simp add: request_unit_def)
  have searched: "holds_searched (ex_searched 11) ?r" by (simp add: holds_searched_def ex_searched_def ex_hold_request_def)
  show ?thesis
    using listed_stay_is_refused [OF ex_scan_complete ex_plain [of 11] ex_on_sale(2) [folded unit] searched, of row row 1] row ex_listed(2)
    by (auto simp: ex_holdability_def) (simp_all add: ex_searched_def ex_hold_request_def)
qed

end
