(* ===== verification/Spec2Isabelle.thy ===== *)
theory Spec2Isabelle
  imports Inventory_System Command_Correctness Bulk_Worker_Correctness Commercial_Correctness Price_Rule_Correctness
    Public_Search_Example
begin

text \<open>
  A model of the booking core of the repository, with the theorems that make it correct.

  The program sells nights of rooms and tours. A provider writes stock, prices and restrictions; a guest
  takes a hold on some nights, confirms it into a booking and may cancel it. The parts and how they call
  each other:

  \<^item> Inventory (\<open>src/src/modules/inventory\<close>): \<open>Inventory_Store\<close> holds the tables, \<open>Inventory_Hold\<close> takes and
    releases holds, \<open>Availability\<close> materializes what is left of a night, \<open>Inventory_Mutation\<close> wraps every
    change with its recomputation and expires holds, \<open>Create_Hold\<close> is the use case a guest calls. A hold
    carries the commercial snapshot and the price quote of \<open>Hold_Snapshot\<close> (modules/pricing/domain/price-quote.ts).
  \<^item> Booking (\<open>src/src/modules/booking\<close>): \<open>Booking\<close> turns a hold into a booking and cancels it
    (pages/api/booking/cancel.ts). \<open>Inventory_System\<close> puts these operations into one step relation.
  \<^item> Commands (\<open>src/src/lib/commands\<close>): \<open>Commands\<close> makes a request run once under an idempotency key.
  \<^item> Price rules: \<open>Commercial_Rules\<close> (lib/commercial-rules) keeps the rule tables, \<open>Pricing_Rules\<close>
    (modules/pricing/domain) evaluates rules, \<open>Effective_Pricing\<close> materializes prices with the workers of
    \<open>Worker_Pool\<close>, \<open>Price_Rule_Commands\<close> are the use cases that change, preview and create rules.
  \<^item> Search (\<open>src/src/modules/search\<close>, the repository in container/search-read-model.container.ts): \<open>Restrictions\<close>
    (modules/rules) materializes the rules of a night, \<open>Search_View\<close> the row of a night from its availability,
    price and restriction, \<open>Search_Backfill\<close> is the route that rebuilds it, \<open>Search_Offers\<close> evaluates a stay and
    composes the offers of a product.
  \<^item> Taxes (\<open>src/src/modules/taxes-fees\<close>, lib/taxes-fees, pages/api/provider/tax-fees): \<open>Tax_Fees\<close> reads the rules of
    a jurisdiction and computes the breakdown of a sale, \<open>Tax_Fee_Store\<close> holds the definitions with their
    versions, drafts and assignments and resolves the taxes of a sale, \<open>Tax_Fee_Commands\<close> are the use cases that
    create, change, assign and publish, \<open>Tax_Fee_Requests\<close> the routes over them.
  \<^item> The sale: \<open>Public_Search\<close> (lib/search/publicSearchSurface.ts) lists the products of a destination with the
    quote of their cheapest rate plan, \<open>Hold_Request\<close> (pages/api/inventory/hold.ts) evaluates a stay once more,
    prices and quotes it with its taxes and calls \<open>Create_Hold\<close>.
  \<^item> Bulk pricing jobs (lib/pricing, modules/pricing): \<open>Bulk_Jobs\<close> enqueues and retries, \<open>Bulk_Queue\<close> is the
    durable queue with its leases, \<open>Bulk_Finalization\<close> merges and applies the effects of a job and
    \<open>Bulk_Worker\<close> runs it.

  Correspondence. A table is the list of its rows (a record per row, a field per column the code reads or
  writes), a transaction is a function from the store before to the store after, an exception is the left
  injection of a sum. Each definition has the name of the function or type it models; the helpers stand
  before the operation they belong to. Dates are numbers of days, instants are milliseconds, both integers.

  What the lemmas show. \<open>Hold_Correctness\<close>, \<open>Release_Correctness\<close>, \<open>Availability_Correctness\<close>,
  \<open>Availability_Meaning\<close>, \<open>Inventory_Expiry\<close> and \<open>Booking_Correctness\<close> give the effect of each inventory operation on
  every branch; \<open>Inventory_System\<close> shows that no sequence of them oversells a night. \<open>Command_Correctness\<close> shows
  that a request runs once and is replayed. \<open>Bulk_Leases\<close>, \<open>Bulk_Sessions\<close>, \<open>Bulk_Correctness\<close>,
  \<open>Bulk_Interleaving\<close>, \<open>Bulk_Outcomes\<close>, \<open>Bulk_Crashes\<close> and \<open>Bulk_Worker_Correctness\<close> are about the queue with
  several workers: leases, settlement, recovery, outcomes. \<open>Pricing_Rules_Correctness\<close>,
  \<open>Commercial_Correctness\<close>, \<open>Effective_Pricing_Correctness\<close> and \<open>Price_Rule_Correctness\<close> are about prices: the
  breakdown, the order of the rules, the integrity of the tables, the refinement of an abstract price table.

  \<open>Restrictions_Correctness\<close>, \<open>Search_View_Correctness\<close>, \<open>Search_Correctness\<close>, \<open>Search_Offers_Correctness\<close> and
  \<open>Search_Holding\<close> follow a stay from the rules to the hold: what the view has to show, exactly which stays are
  sold, at which price, and when a sold stay can be held; \<open>Search_Example\<close> and \<open>Search_Offers_Example\<close> apply them.

  \<open>Tax_Fees_Correctness\<close> is about the breakdown of a price, \<open>Tax_Store_Correctness\<close> and \<open>Tax_Publication\<close> about the
  history of the definitions, \<open>Tax_Charges\<close> about which taxes a sale is charged. \<open>Hold_Request_Correctness\<close> shows what
  the route quotes and that its snapshot is accepted, \<open>Hold_Offers\<close> that an offer is held at its price,
  \<open>Public_Search_Correctness\<close> what the public search lists, \<open>Public_Search_Hold\<close> that its quote is the quote held, and
  the stays it lists that cannot be held. \<open>Tax_Example\<close>, \<open>Hold_Example\<close> and \<open>Public_Search_Example\<close> apply them.

  Bounds of the code kept in the model: five attempts of a hold, a release and a recomputation, eight of a
  mutation, 365 nights of a seeding, retry delays between thirty seconds and one hour, pools of one to eight
  workers (four by default), chunks of 31 nights. Loops are structural recursions on the attempts or items
  left, so every function is total; the pool of workers and the date cursors are recursive functions with a
  termination proof. There is no fuel.

  Not modelled. Amounts are rational numbers, so the rounding of IEEE doubles is not followed. The completeness of
  the policies of a night, the feature flag of the search and the order of its rows in the database are
  parameters too. Hashes,
  collation (\<open>localeCompare\<close>), the texts of instants and fresh identifiers are parameters; the process runs in
  UTC. Logging, metrics, caches, e-mail and the notification of channels are outputs or left out. Statements
  of different requests interleave in \<open>Commands\<close>, \<open>Bulk_Interleaving\<close> and \<open>Worker_Pool\<close> only; elsewhere a
  transaction is one step. One clock is read per recomputation. The editing of the catalog, the workflows of
  support, verification and integrations, and the user interface are records and presentation around
  external services.
\<close>

end
